(* ===== verification/Go_Prelude.thy ===== *)
theory Go_Prelude
  imports Main "HOL-Library.Word" "HOL-Library.Char_ord" "HOL-Library.List_Lexorder"
begin

text \<open>
  The part of Go and of its standard library that the services use, and the generic lemmas the
  component theories share: byte strings (package \<open>strings\<close>), decimal numbers (\<open>strconv\<close>,
  \<open>fmt\<close>), 64-bit durations (\<open>time\<close>), HTTP replies, and SQL tables as lists of rows.

  A Go \<open>string\<close> is a list of bytes, here \<open>string\<close> (a character is a byte). White space and
  letter case are the ASCII ones; a source string with other code points keeps them unchanged.
  Strings are ordered bytewise, as Go orders them (\<open>Char_ord\<close>, \<open>List_Lexorder\<close>).
\<close>

named_theorems go_defs "definitions of the Go library functions"
named_theorems table_simps "rewriting of SQL tables"

type_synonym byte = "8 word"
type_synonym bytes = "byte list"

section \<open>Strings\<close>

definition bytes_of :: "string \<Rightarrow> bytes" where
  "bytes_of s = map (\<lambda>c. of_nat (of_char c)) s"

definition string_of :: "bytes \<Rightarrow> string" where
  "string_of bs = map (\<lambda>b. char_of (unat b)) bs"

definition is_space :: "char \<Rightarrow> bool" where
  "is_space c = (let n = (of_char c :: nat) in n = 32 \<or> (9 \<le> n \<and> n \<le> 13))"

definition is_digit :: "char \<Rightarrow> bool" where
  "is_digit c = (let n = (of_char c :: nat) in 48 \<le> n \<and> n \<le> 57)"

definition is_hex :: "char \<Rightarrow> bool" where
  "is_hex c = (let n = (of_char c :: nat) in
     (48 \<le> n \<and> n \<le> 57) \<or> (97 \<le> n \<and> n \<le> 102) \<or> (65 \<le> n \<and> n \<le> 70))"

definition lower_char :: "char \<Rightarrow> char" where
  "lower_char c = (let n = (of_char c :: nat) in
     if 65 \<le> n \<and> n \<le> 90 then char_of (n + 32) else c)"

definition upper_char :: "char \<Rightarrow> char" where
  "upper_char c = (let n = (of_char c :: nat) in
     if 97 \<le> n \<and> n \<le> 122 then char_of (n - 32) else c)"

definition to_lower :: "string \<Rightarrow> string" where
  "to_lower s = map lower_char s"

definition to_upper :: "string \<Rightarrow> string" where
  "to_upper s = map upper_char s"

definition equal_fold :: "string \<Rightarrow> string \<Rightarrow> bool" where
  "equal_fold a b = (to_lower a = to_lower b)"

definition trim_left :: "string \<Rightarrow> string" where
  "trim_left s = dropWhile is_space s"

definition trim_right :: "string \<Rightarrow> string" where
  "trim_right s = rev (dropWhile is_space (rev s))"

definition trim_space :: "string \<Rightarrow> string" where
  "trim_space s = trim_right (trim_left s)"

definition has_prefix :: "string \<Rightarrow> string \<Rightarrow> bool" where
  "has_prefix s p = (take (length p) s = p)"

definition has_suffix :: "string \<Rightarrow> string \<Rightarrow> bool" where
  "has_suffix s p = (length p \<le> length s \<and> drop (length s - length p) s = p)"

fun contains :: "string \<Rightarrow> string \<Rightarrow> bool" where
  "contains [] sub = (sub = [])"
| "contains (c # s) sub = (has_prefix (c # s) sub \<or> contains s sub)"

definition trim_prefix :: "string \<Rightarrow> string \<Rightarrow> string" where
  "trim_prefix s p = (if has_prefix s p then drop (length p) s else s)"

fun index_byte :: "string \<Rightarrow> char \<Rightarrow> nat option" where
  "index_byte [] c = None"
| "index_byte (x # xs) c = (if x = c then Some 0 else map_option Suc (index_byte xs c))"

fun last_index :: "string \<Rightarrow> char \<Rightarrow> nat option" where
  "last_index [] c = None"
| "last_index (x # xs) c =
     (case last_index xs c of Some i \<Rightarrow> Some (Suc i) | None \<Rightarrow> if x = c then Some 0 else None)"

fun split_on :: "char \<Rightarrow> string \<Rightarrow> string list" where
  "split_on c [] = [[]]"
| "split_on c (x # xs) =
     (if x = c then [] # split_on c xs
      else case split_on c xs of [] \<Rightarrow> [[x]] | w # ws \<Rightarrow> (x # w) # ws)"

fun join_with :: "string \<Rightarrow> string list \<Rightarrow> string" where
  "join_with sep [] = []"
| "join_with sep [w] = w"
| "join_with sep (w # v # ws) = w @ sep @ join_with sep (v # ws)"

section \<open>Decimal numbers\<close>

definition digit_char :: "nat \<Rightarrow> char" where
  "digit_char d = char_of (48 + d)"

fun itoa :: "nat \<Rightarrow> string" where
  "itoa n = (if n < 10 then [digit_char n] else itoa (n div 10) @ [digit_char (n mod 10)])"

declare itoa.simps [simp del]

text \<open>\<open>%0*d\<close>: the decimal digits of \<open>n\<close>, padded with zeros on the left to width \<open>w\<close>.\<close>

definition pad_decimal :: "nat \<Rightarrow> nat \<Rightarrow> string" where
  "pad_decimal w n = replicate (w - length (itoa n)) (CHR ''0'') @ itoa n"

text \<open>The last \<open>w\<close> decimal digits of \<open>n\<close>.\<close>

fun fixed_digits :: "nat \<Rightarrow> nat \<Rightarrow> string" where
  "fixed_digits 0 n = []"
| "fixed_digits (Suc w) n = fixed_digits w (n div 10) @ [digit_char (n mod 10)]"

text \<open>\<open>%d\<close>.\<close>

definition format_int :: "int \<Rightarrow> string" where
  "format_int i = (if i < 0 then CHR ''-'' # itoa (nat (- i)) else itoa (nat i))"

definition digit_value :: "char \<Rightarrow> nat" where
  "digit_value c = of_char c - 48"

definition decimal_value :: "string \<Rightarrow> nat" where
  "decimal_value s = foldl (\<lambda>n c. n * 10 + digit_value c) 0 s"

text \<open>
  \<open>strconv.Atoi\<close>: an optional sign and at least one digit; \<open>None\<close> is the error value,
  also returned outside the 64-bit range.
\<close>

definition go_atoi :: "string \<Rightarrow> int option" where
  "go_atoi s =
     (let (neg, ds) = (case s of
            c # cs \<Rightarrow> if c = CHR ''-'' then (True, cs) else if c = CHR ''+'' then (False, cs) else (False, s)
          | [] \<Rightarrow> (False, []));
          v = (if neg then - int (decimal_value ds) else int (decimal_value ds))
      in if ds \<noteq> [] \<and> list_all is_digit ds \<and> - (2 ^ 63) \<le> v \<and> v < 2 ^ 63 then Some v else None)"

section \<open>Time\<close>

text \<open>
  An instant is a number of nanoseconds since the Unix epoch and a \<open>time.Duration\<close> a number of
  nanoseconds. \<open>Time.Sub\<close> saturates at the 64-bit bounds; division truncates towards zero.
\<close>

type_synonym instant = int
type_synonym duration = int

definition max_duration :: int where
  "max_duration = 2 ^ 63 - 1"

definition time_sub :: "instant \<Rightarrow> instant \<Rightarrow> duration" where
  "time_sub a b = max (- (2 ^ 63)) (min max_duration (a - b))"

definition quot_trunc :: "int \<Rightarrow> int \<Rightarrow> int" where
  "quot_trunc a b = sgn a * sgn b * (\<bar>a\<bar> div \<bar>b\<bar>)"

definition rem_trunc :: "int \<Rightarrow> int \<Rightarrow> int" where
  "rem_trunc a b = a - b * quot_trunc a b"

definition nanosecond :: int where "nanosecond = 1"
definition second :: int where "second = 1000000000"
definition minute :: int where "minute = 60 * second"
definition hour :: int where "hour = 60 * minute"

lemmas duration_defs = nanosecond_def second_def minute_def hour_def

text \<open>\<open>Time.Unix\<close>: whole seconds since the epoch, rounded down.\<close>

definition unix_seconds :: "instant \<Rightarrow> int" where
  "unix_seconds t = t div second"

section \<open>HTTP replies\<close>

text \<open>
  A handler answers once: an error body with its status and code, or a success with its
  status and payload. The human-readable \<open>message\<close> of an error is not modelled.
\<close>

datatype 'a reply = Reject nat string | Reply nat 'a

fun accepted :: "'a reply \<Rightarrow> bool" where
  "accepted (Reply _ _) = True"
| "accepted (Reject _ _) = False"

fun status_of :: "'a reply \<Rightarrow> nat" where
  "status_of (Reply n _) = n"
| "status_of (Reject n _) = n"

text \<open>The shape of a UUID: groups of hexadecimal digits of the given lengths.\<close>

definition uuid_groups :: "nat list \<Rightarrow> string \<Rightarrow> bool" where
  "uuid_groups ns s = (map length (split_on (CHR ''-'') s) = ns \<and> list_all (list_all is_hex) (split_on (CHR ''-'') s))"

section \<open>SQL tables\<close>

text \<open>
  A table is the list of its rows in insertion order. \<open>select_one\<close> is the first row a
  \<^verbatim>\<open>SELECT ... WHERE p\<close> returns, \<open>update_where\<close> an \<^verbatim>\<open>UPDATE ... SET f WHERE p\<close>,
  \<open>affected\<close> its row count, \<open>delete_where\<close> a \<^verbatim>\<open>DELETE ... WHERE p\<close>.
\<close>

type_synonym 'r table = "'r list"

definition select_one :: "('r \<Rightarrow> bool) \<Rightarrow> 'r table \<Rightarrow> 'r option" where
  "select_one p rows = find p rows"

definition update_where :: "('r \<Rightarrow> bool) \<Rightarrow> ('r \<Rightarrow> 'r) \<Rightarrow> 'r table \<Rightarrow> 'r table" where
  "update_where p f rows = map (\<lambda>r. if p r then f r else r) rows"

definition affected :: "('r \<Rightarrow> bool) \<Rightarrow> 'r table \<Rightarrow> nat" where
  "affected p rows = length (filter p rows)"

definition delete_where :: "('r \<Rightarrow> bool) \<Rightarrow> 'r table \<Rightarrow> 'r table" where
  "delete_where p rows = filter (\<lambda>r. \<not> p r) rows"

text \<open>
  \<^verbatim>\<open>INSERT ... ON CONFLICT (key) DO UPDATE\<close>: the row is appended, or merged into the row of its key.
\<close>

definition upsert :: "('r \<Rightarrow> 'k) \<Rightarrow> ('r \<Rightarrow> 'r \<Rightarrow> 'r) \<Rightarrow> 'r \<Rightarrow> 'r table \<Rightarrow> 'r table" where
  "upsert key merge row rows =
     (if list_ex (\<lambda>r. key r = key row) rows then update_where (\<lambda>r. key r = key row) (merge row) rows else rows @ [row])"

text \<open>\<^verbatim>\<open>btrim(lower(v))\<close>, \<^verbatim>\<open>NULLIF(v, '')\<close>, \<^verbatim>\<open>COALESCE(v, '')\<close> and \<^verbatim>\<open>LIKE\<close> with its two wildcards and its escape.\<close>

definition btrim :: "string \<Rightarrow> string" where
  "btrim s = rev (dropWhile (\<lambda>c. c = CHR '' '') (rev (dropWhile (\<lambda>c. c = CHR '' '') s)))"

definition nullif :: "string \<Rightarrow> string option" where
  "nullif v = (if v = [] then None else Some v)"

definition or_empty :: "string option \<Rightarrow> string" where
  "or_empty v = (case v of None \<Rightarrow> [] | Some x \<Rightarrow> x)"

fun sql_like :: "string \<Rightarrow> string \<Rightarrow> bool" where
  "sql_like [] s = (s = [])"
| "sql_like (p # ps) [] = (p = CHR ''%'' \<and> sql_like ps [])"
| "sql_like (p # ps) (c # cs) =
     (if p = CHR ''%'' then sql_like ps (c # cs) \<or> sql_like (p # ps) cs
      else if p = CHR ''_'' then sql_like ps cs
      else if p = CHR 0x5C then (case ps of [] \<Rightarrow> False | q # qs \<Rightarrow> q = c \<and> sql_like qs cs)
      else p = c \<and> sql_like ps cs)"

section \<open>Lemmas on strings and numbers\<close>

lemma bytes_of_length [simp]: "length (bytes_of s) = length s"
  by (simp add: bytes_of_def)

lemma string_of_length [simp]: "length (string_of bs) = length bs"
  by (simp add: string_of_def)

lemma of_char_less_256: "(of_char c :: nat) < 256"
  by (metis char_of_mod_256 mod_less_divisor of_char_of zero_less_numeral of_char_mod_256)

lemma string_of_bytes_of [simp]: "string_of (bytes_of s) = s"
  by (induction s) (auto simp: string_of_def bytes_of_def unat_of_nat of_char_less_256)

lemma bytes_of_inject [simp]: "bytes_of s = bytes_of t \<longleftrightarrow> s = t"
  by (metis string_of_bytes_of)

lemma bytes_of_append [simp]: "bytes_of (s @ t) = bytes_of s @ bytes_of t"
  by (simp add: bytes_of_def)

lemma lower_char_idem [simp]: "lower_char (lower_char c) = lower_char c"
proof -
  have "(of_char c :: nat) + 32 < 256" if "(of_char c :: nat) \<le> 90"
    using that by simp
  then show ?thesis
    by (auto simp: lower_char_def Let_def)
qed

lemma to_lower_idem [simp]: "to_lower (to_lower s) = to_lower s"
  by (simp add: to_lower_def)

lemma to_lower_length [simp]: "length (to_lower s) = length s"
  by (simp add: to_lower_def)

lemma to_lower_append: "to_lower (s @ t) = to_lower s @ to_lower t"
  by (simp add: to_lower_def)

lemma equal_fold_refl [simp]: "equal_fold s s"
  by (simp add: equal_fold_def)

lemma equal_fold_sym: "equal_fold s t = equal_fold t s"
  by (auto simp: equal_fold_def)

lemma trim_left_head: "trim_left s = [] \<or> \<not> is_space (hd (trim_left s))"
  using hd_dropWhile [of is_space s] by (auto simp: trim_left_def)

lemma trim_right_last: "trim_right s = [] \<or> \<not> is_space (last (trim_right s))"
  using hd_dropWhile [of is_space "rev s"] by (auto simp: trim_right_def last_rev)

lemma trim_right_prefix: "\<exists>w. s = trim_right s @ w \<and> list_all is_space w"
proof -
  have "rev s = takeWhile is_space (rev s) @ dropWhile is_space (rev s)"
    by simp
  then have "s = rev (dropWhile is_space (rev s)) @ rev (takeWhile is_space (rev s))"
    by (metis rev_append rev_rev_ident)
  moreover have "list_all is_space (rev (takeWhile is_space (rev s)))"
    by (auto simp: list_all_iff dest: set_takeWhileD)
  ultimately show ?thesis
    by (auto simp: trim_right_def)
qed

lemma trim_space_head: "trim_space s = [] \<or> \<not> is_space (hd (trim_space s))"
proof (cases "trim_space s = []")
  case False
  obtain w where "trim_left s = trim_space s @ w"
    using trim_right_prefix [of "trim_left s"] by (auto simp: trim_space_def)
  with False have "hd (trim_left s) = hd (trim_space s)" and "trim_left s \<noteq> []"
    by auto
  then show ?thesis
    using trim_left_head [of s] by auto
qed simp

lemma trim_left_fixed: "s = [] \<or> \<not> is_space (hd s) \<Longrightarrow> trim_left s = s"
  by (cases s) (auto simp: trim_left_def)

lemma trim_right_fixed: "s = [] \<or> \<not> is_space (last s) \<Longrightarrow> trim_right s = s"
  by (cases s rule: rev_cases) (auto simp: trim_right_def)

lemma trim_space_idem [simp]: "trim_space (trim_space s) = trim_space s"
proof -
  have "trim_left (trim_space s) = trim_space s"
    by (rule trim_left_fixed [OF trim_space_head])
  moreover have "trim_right (trim_space s) = trim_space s"
    unfolding trim_space_def by (rule trim_right_fixed [OF trim_right_last])
  ultimately show ?thesis
    by (simp add: trim_space_def)
qed

lemma itoa_nonempty [simp]: "itoa n \<noteq> []"
  by (subst itoa.simps) simp

lemma digit_char_is_digit: "d < 10 \<Longrightarrow> is_digit (digit_char d)"
  by (simp add: digit_char_def is_digit_def)

lemma digit_value_digit_char: "d < 10 \<Longrightarrow> digit_value (digit_char d) = d"
  by (simp add: digit_char_def digit_value_def)

lemma itoa_digits: "list_all is_digit (itoa n)"
proof (induction n rule: itoa.induct)
  case (1 n)
  then show ?case
    by (subst itoa.simps) (auto simp: digit_char_is_digit)
qed

lemma decimal_value_append:
  "decimal_value (s @ [c]) = decimal_value s * 10 + digit_value c"
  by (simp add: decimal_value_def)

lemma decimal_value_Cons: "decimal_value (c # s) = digit_value c * 10 ^ length s + decimal_value s"
proof (induction s rule: rev_induct)
  case (snoc d s)
  then show ?case
    using decimal_value_append [of "c # s" d] decimal_value_append [of s d] by (simp add: algebra_simps)
qed (simp add: decimal_value_def)

lemma decimal_value_bound: "list_all is_digit s \<Longrightarrow> decimal_value s < 10 ^ length s"
proof (induction s)
  case (Cons c s)
  then have "digit_value c \<le> 9"
    by (auto simp: is_digit_def digit_value_def Let_def)
  then have "digit_value c * 10 ^ length s \<le> 9 * 10 ^ length s"
    by simp
  moreover have "decimal_value s < 10 ^ length s"
    using Cons by simp
  moreover have "(10 :: nat) ^ length (c # s) = 9 * 10 ^ length s + 10 ^ length s"
    by simp
  ultimately show ?case
    unfolding decimal_value_Cons by linarith
qed (simp add: decimal_value_def)

lemma decimal_value_itoa [simp]: "decimal_value (itoa n) = n"
proof (induction n rule: itoa.induct)
  case (1 n)
  show ?case
  proof (cases "n < 10")
    case True
    then show ?thesis
      by (subst itoa.simps) (simp add: decimal_value_def digit_value_digit_char)
  next
    case False
    with 1 show ?thesis
      by (subst itoa.simps) (simp add: decimal_value_append digit_value_digit_char)
  qed
qed

lemma itoa_inject [simp]: "itoa m = itoa n \<longleftrightarrow> m = n"
  by (metis decimal_value_itoa)

lemma join_separated_inject:
  "c \<notin> set v \<Longrightarrow> c \<notin> set w \<Longrightarrow> v @ c # s = w @ c # t \<longleftrightarrow> v = w \<and> s = t"
proof (induction v arbitrary: w)
  case (Cons x v)
  then show ?case
    by (cases w) auto
qed (auto simp: Cons_eq_append_conv)

lemma digit_char_plain: "d < 10 \<Longrightarrow> digit_char d \<noteq> CHR 0x1F \<and> digit_char d \<noteq> CHR ''-''"
  by (auto simp: digit_char_def dest: arg_cong [where f = "of_char :: char \<Rightarrow> nat"])

lemma itoa_plain: "CHR 0x1F \<notin> set (itoa n) \<and> CHR ''-'' \<notin> set (itoa n)"
proof (induction n rule: itoa.induct)
  case (1 n)
  then show ?case
    using digit_char_plain by (subst (1 2) itoa.simps) (auto dest: sym)
qed

lemma format_int_plain: "CHR 0x1F \<notin> set (format_int i)"
  using itoa_plain by (auto simp: format_int_def)

lemma format_int_inject [simp]: "format_int i = format_int j \<longleftrightarrow> i = j"
proof -
  have "itoa m \<noteq> CHR ''-'' # w" for m w
    using itoa_plain [of m] by (auto dest: arg_cong [where f = set])
  then show ?thesis
    by (auto simp: format_int_def) (metis)+
qed

lemma fixed_digits_length [simp]: "length (fixed_digits w n) = w"
  by (induction w arbitrary: n) auto

lemma fixed_digits_digits: "list_all is_digit (fixed_digits w n)"
  by (induction w arbitrary: n) (auto simp: digit_char_is_digit)

lemma digit_char_zero: "digit_char 0 = CHR ''0''"
  by code_simp

lemma fixed_digits_zero: "fixed_digits w 0 = replicate w (CHR ''0'')"
  by (induction w) (simp_all add: digit_char_zero replicate_append_same)

lemma decimal_value_fixed: "n < 10 ^ w \<Longrightarrow> decimal_value (fixed_digits w n) = n"
proof (induction w arbitrary: n)
  case 0
  then show ?case
    by (simp add: decimal_value_def)
next
  case (Suc w)
  then have "n div 10 < 10 ^ w"
    by (simp add: less_mult_imp_div_less mult.commute)
  with Suc.IH show ?case
    by (simp add: decimal_value_append digit_value_digit_char)
qed

lemma itoa_small: "n < 10 \<Longrightarrow> itoa n = [digit_char n]"
  by (subst itoa.simps) simp

lemma itoa_step: "10 \<le> n \<Longrightarrow> itoa n = itoa (n div 10) @ [digit_char (n mod 10)]"
  by (subst itoa.simps) simp

lemma pad_decimal_fixed: "n < 10 ^ w \<Longrightarrow> 0 < w \<Longrightarrow> pad_decimal w n = fixed_digits w n"
proof (induction w arbitrary: n)
  case (Suc w)
  show ?case
  proof (cases "n < 10")
    case True
    then show ?thesis
      by (simp add: pad_decimal_def itoa_small fixed_digits_zero)
  next
    case False
    have "n div 10 < 10 ^ w"
      using Suc.prems by (simp add: less_mult_imp_div_less mult.commute)
    moreover have "0 < w"
      using False Suc.prems by (cases w) auto
    ultimately have "pad_decimal w (n div 10) = fixed_digits w (n div 10)"
      by (rule Suc.IH)
    then show ?thesis
      using False by (simp add: pad_decimal_def itoa_step)
  qed
qed simp

section \<open>Lemmas on tables\<close>

lemma select_one_Some: "select_one p rows = Some r \<Longrightarrow> p r \<and> r \<in> set rows"
  by (auto simp: select_one_def find_Some_iff)

lemma select_one_None: "select_one p rows = None \<longleftrightarrow> (\<forall>r \<in> set rows. \<not> p r)"
  by (auto simp: select_one_def find_None_iff)

lemma select_one_append [table_simps]:
  "select_one p (xs @ ys) = (case select_one p xs of None \<Rightarrow> select_one p ys | Some r \<Rightarrow> Some r)"
  by (induction xs) (auto simp: select_one_def)

lemma select_one_singleton [table_simps, simp]: "select_one p [r] = (if p r then Some r else None)"
  by (simp add: select_one_def)

lemma update_where_length [table_simps]: "length (update_where p f rows) = length rows"
  by (simp add: update_where_def)

lemma update_where_Nil [table_simps, simp]: "update_where p f [] = []"
  by (simp add: update_where_def)

lemma update_where_Cons [table_simps, simp]:
  "update_where p f (r # rows) = (if p r then f r else r) # update_where p f rows"
  by (simp add: update_where_def)

lemma affected_zero: "affected p rows = 0 \<longleftrightarrow> (\<forall>r \<in> set rows. \<not> p r)"
  by (auto simp: affected_def filter_empty_conv)

lemma update_where_none: "affected p rows = 0 \<Longrightarrow> update_where p f rows = rows"
  by (auto simp: affected_zero update_where_def intro: map_idI)

lemma in_update_where: "r \<in> set (update_where p f rows) \<longleftrightarrow>
    (\<exists>r0 \<in> set rows. r = (if p r0 then f r0 else r0))"
  by (auto simp: update_where_def)

lemma select_update:
  "select_one p rows = Some u \<Longrightarrow> (\<And>r. p (f r) = p r) \<Longrightarrow>
     select_one p (update_where q f rows) = Some (if q u then f u else u)"
  by (induction rows) (auto simp: select_one_def split: if_splits)

lemma select_update_other:
  "(\<And>r. p r \<Longrightarrow> \<not> q r \<and> \<not> q (f r)) \<Longrightarrow> select_one q (update_where p f rows) = select_one q rows"
  by (induction rows) (auto simp: select_one_def)

lemma select_unique:
  "distinct (map key rows) \<Longrightarrow> r \<in> set rows \<Longrightarrow> select_one (\<lambda>x. key x = key r) rows = Some r"
  by (induction rows) (auto simp: select_one_def)

text \<open>
  A table with a key column. An update that keeps the key keeps the keys' distinctness, changes
  the row it names and no other: what every \<^verbatim>\<open>UPDATE ... WHERE key = $1\<close> relies on.
\<close>

locale keyed_update =
  fixes key :: "'r \<Rightarrow> 'k" and upd :: "'r \<Rightarrow> 'r"
  assumes key_upd: "key (upd r) = key r"
begin

lemma keys_kept: "map key (update_where (\<lambda>r. key r = k) upd rows) = map key rows"
  by (auto simp: update_where_def key_upd)

lemma lookup_updated:
  "select_one (\<lambda>r. key r = k) (update_where (\<lambda>r. key r = k) upd rows) =
     map_option upd (select_one (\<lambda>r. key r = k) rows)"
  by (induction rows) (auto simp: select_one_def key_upd)

lemma lookup_other:
  "k' \<noteq> k \<Longrightarrow> select_one (\<lambda>r. key r = k') (update_where (\<lambda>r. key r = k) upd rows) =
     select_one (\<lambda>r. key r = k') rows"
  by (induction rows) (auto simp: select_one_def key_upd)

end

text \<open>
  A table under a unique key into which rows are merged: what every
  \<^verbatim>\<open>INSERT ... ON CONFLICT (key) DO UPDATE\<close> relies on. \<open>merge new old\<close> is the row after the update.
\<close>

locale keyed_upsert =
  fixes key :: "'r \<Rightarrow> 'k" and merge :: "'r \<Rightarrow> 'r \<Rightarrow> 'r"
  assumes key_merge: "key (merge new old) = key old"
begin

lemma one_per_key: "distinct (map key rows) \<Longrightarrow> distinct (map key (upsert key merge new rows))"
  by (auto simp: upsert_def update_where_def list_ex_iff comp_def if_distrib key_merge cong: if_cong)

lemma upsert_new:
  "new' \<in> set (upsert key merge new rows) \<Longrightarrow> new' \<in> set rows \<or> new' = new \<or> (\<exists>old \<in> set rows. key old = key new \<and> new' = merge new old)"
  by (auto simp: upsert_def update_where_def list_ex_iff split: if_splits)

lemma upsert_keeps_others:
  "r \<in> set rows \<Longrightarrow> key r \<noteq> key new \<Longrightarrow> r \<in> set (upsert key merge new rows)"
  by (auto simp: upsert_def in_update_where list_ex_iff)

lemma lookup_upsert:
  "select_one (\<lambda>r. key r = key new) (upsert key merge new rows) =
     Some (case select_one (\<lambda>r. key r = key new) rows of None \<Rightarrow> new | Some old \<Rightarrow> merge new old)"
proof -
  have updated: "select_one (\<lambda>r. key r = k) (update_where (\<lambda>r. key r = k) (merge new) rows) =
      map_option (merge new) (select_one (\<lambda>r. key r = k) rows)" for k
    by (induction rows) (auto simp: select_one_def key_merge)
  show ?thesis
  proof (cases "select_one (\<lambda>r. key r = key new) rows")
    case None
    then have "\<not> list_ex (\<lambda>r. key r = key new) rows"
      by (auto simp: select_one_None list_ex_iff)
    with None show ?thesis
      by (simp add: upsert_def select_one_append)
  next
    case (Some old)
    then have "list_ex (\<lambda>r. key r = key new) rows"
      by (auto simp: list_ex_iff dest: select_one_Some)
    with Some show ?thesis
      by (simp add: upsert_def updated)
  qed
qed

text \<open>Merging a row twice is merging it once, when the merge itself has that property.\<close>

lemma upsert_twice:
  assumes "\<And>old. key old = key new \<Longrightarrow> merge new (merge new old) = merge new old" and "merge new new = new"
  shows "upsert key merge new (upsert key merge new rows) = upsert key merge new rows"
proof (cases "list_ex (\<lambda>r. key r = key new) rows")
  case True
  have "list_ex (\<lambda>r. key r = key new) (update_where (\<lambda>r. key r = key new) (merge new) rows)"
    using True by (induction rows) (auto simp: key_merge)
  moreover have "update_where (\<lambda>r. key r = key new) (merge new) (update_where (\<lambda>r. key r = key new) (merge new) rows) =
      update_where (\<lambda>r. key r = key new) (merge new) rows"
    by (simp add: update_where_def key_merge assms(1))
  ultimately show ?thesis
    using True by (simp add: upsert_def)
next
  case False
  then have "map (\<lambda>r. if key r = key new then merge new r else r) rows = rows"
    by (intro map_idI) (auto simp: list_ex_iff)
  with False show ?thesis
    by (simp add: upsert_def update_where_def assms(2))
qed

end

text \<open>A property that every step keeps holds in every state reached.\<close>

locale kept_property =
  fixes step :: "'s \<Rightarrow> 's \<Rightarrow> bool" and ok :: "'s \<Rightarrow> bool"
  assumes step_keeps: "step s s' \<Longrightarrow> ok s \<Longrightarrow> ok s'"
begin

lemma reached: "step\<^sup>*\<^sup>* s s' \<Longrightarrow> ok s \<Longrightarrow> ok s'"
  by (induction rule: rtranclp_induct) (auto intro: step_keeps)

end

end
