(* ===== verification/Crypto_Lib.thy ===== *)
theory Crypto_Lib
  imports Go_Prelude
begin

text \<open>
  The functions of Go's standard library behind the codes, checksums and sealed packages:
  \<open>encoding/hex\<close>, \<open>encoding/base64\<close> (standard alphabet), \<open>crypto/sha256\<close> (FIPS 180-4),
  \<open>crypto/hmac\<close> (RFC 2104) and \<open>crypto/cipher\<close>'s GCM over \<open>crypto/aes\<close> with a 256-bit key
  (FIPS 197, NIST SP 800-38D). All are executable. The lemmas are the contracts the services rely
  on: the encodings round-trip, a digest has 32 bytes, and authenticated decryption returns a
  plaintext exactly for the ciphertexts that sealing it produces.
\<close>

unbundle bit_operations_syntax

named_theorems crypto_simps "lengths and round trips of the library functions"

section \<open>Hexadecimal\<close>

definition hex_digit :: "nat \<Rightarrow> char" where
  "hex_digit n = (if n < 10 then char_of (48 + n) else char_of (87 + n))"

definition hex_value :: "char \<Rightarrow> nat option" where
  "hex_value c = (let n = (of_char c :: nat) in
     if 48 \<le> n \<and> n \<le> 57 then Some (n - 48)
     else if 97 \<le> n \<and> n \<le> 102 then Some (n - 87)
     else if 65 \<le> n \<and> n \<le> 70 then Some (n - 55)
     else None)"

fun hex_encode :: "bytes \<Rightarrow> string" where
  "hex_encode [] = []"
| "hex_encode (b # bs) = hex_digit (unat b div 16) # hex_digit (unat b mod 16) # hex_encode bs"

text \<open>\<open>hex.DecodeString\<close>: \<open>None\<close> on an odd length or a character that is no hex digit.\<close>

fun hex_decode :: "string \<Rightarrow> bytes option" where
  "hex_decode [] = Some []"
| "hex_decode [c] = None"
| "hex_decode (c # d # cs) =
     (case (hex_value c, hex_value d, hex_decode cs) of
        (Some h, Some l, Some bs) \<Rightarrow> Some (of_nat (16 * h + l) # bs)
      | _ \<Rightarrow> None)"

section \<open>Base64\<close>

definition b64_char :: "nat \<Rightarrow> char" where
  "b64_char i = (if i < 26 then char_of (65 + i)
     else if i < 52 then char_of (71 + i)
     else if i < 62 then char_of (i - 4)
     else if i = 62 then CHR ''+'' else CHR ''/'')"

definition b64_value :: "char \<Rightarrow> nat option" where
  "b64_value c = (let n = (of_char c :: nat) in
     if 65 \<le> n \<and> n \<le> 90 then Some (n - 65)
     else if 97 \<le> n \<and> n \<le> 122 then Some (n - 71)
     else if 48 \<le> n \<and> n \<le> 57 then Some (n + 4)
     else if n = 43 then Some 62
     else if n = 47 then Some 63
     else None)"

fun b64_encode :: "bytes \<Rightarrow> string" where
  "b64_encode [] = []"
| "b64_encode [a] =
     [b64_char (unat a div 4), b64_char (unat a mod 4 * 16), CHR ''='', CHR ''='']"
| "b64_encode [a, b] =
     [b64_char (unat a div 4), b64_char (unat a mod 4 * 16 + unat b div 16),
      b64_char (unat b mod 16 * 4), CHR ''='']"
| "b64_encode (a # b # c # bs) =
     b64_char (unat a div 4) # b64_char (unat a mod 4 * 16 + unat b div 16) #
     b64_char (unat b mod 16 * 4 + unat c div 64) # b64_char (unat c mod 64) # b64_encode bs"

text \<open>
  \<open>StdEncoding.DecodeString\<close> skips line breaks, takes the padding only at the end and ignores
  the unused low bits of the last digit.
\<close>

fun b64_groups :: "string \<Rightarrow> bytes option" where
  "b64_groups [] = Some []"
| "b64_groups (p # q # r # s # cs) =
     (if cs = [] \<and> r = CHR ''='' \<and> s = CHR ''='' then
        (case (b64_value p, b64_value q) of
           (Some i, Some j) \<Rightarrow> Some [of_nat (i * 4 + j div 16)]
         | _ \<Rightarrow> None)
      else if cs = [] \<and> s = CHR ''='' then
        (case (b64_value p, b64_value q, b64_value r) of
           (Some i, Some j, Some k) \<Rightarrow> Some [of_nat (i * 4 + j div 16), of_nat (j mod 16 * 16 + k div 4)]
         | _ \<Rightarrow> None)
      else
        (case (b64_value p, b64_value q, b64_value r, b64_value s, b64_groups cs) of
           (Some i, Some j, Some k, Some l, Some bs) \<Rightarrow>
             Some (of_nat (i * 4 + j div 16) # of_nat (j mod 16 * 16 + k div 4) #
                   of_nat (k mod 4 * 64 + l) # bs)
         | _ \<Rightarrow> None))"
| "b64_groups cs = None"

definition b64_decode :: "string \<Rightarrow> bytes option" where
  "b64_decode s = b64_groups (filter (\<lambda>c. c \<noteq> CHR 0x0A \<and> c \<noteq> CHR 0x0D) s)"

section \<open>SHA-256 and HMAC\<close>

definition sha_k :: "32 word list" where
  "sha_k = [
    1116352408, 1899447441, 3049323471, 3921009573, 961987163, 1508970993, 2453635748, 2870763221,
    3624381080, 310598401, 607225278, 1426881987, 1925078388, 2162078206, 2614888103, 3248222580,
    3835390401, 4022224774, 264347078, 604807628, 770255983, 1249150122, 1555081692, 1996064986,
    2554220882, 2821834349, 2952996808, 3210313671, 3336571891, 3584528711, 113926993, 338241895,
    666307205, 773529912, 1294757372, 1396182291, 1695183700, 1986661051, 2177026350, 2456956037,
    2730485921, 2820302411, 3259730800, 3345764771, 3516065817, 3600352804, 4094571909, 275423344,
    430227734, 506948616, 659060556, 883997877, 958139571, 1322822218, 1537002063, 1747873779,
    1955562222, 2024104815, 2227730452, 2361852424, 2428436474, 2756734187, 3204031479, 3329325298]"

definition sha_h0 :: "32 word list" where
  "sha_h0 = [
    1779033703, 3144134277, 1013904242, 2773480762, 1359893119, 2600822924, 528734635, 1541459225]"

definition be_word :: "bytes \<Rightarrow> 32 word" where
  "be_word bs = foldl (\<lambda>w b. push_bit 8 w OR ucast b) 0 bs"

definition word_bytes :: "32 word \<Rightarrow> bytes" where
  "word_bytes w = [ucast (drop_bit 24 w), ucast (drop_bit 16 w), ucast (drop_bit 8 w), ucast w]"

text \<open>\<open>binary.BigEndian.PutUint64\<close>.\<close>

definition put_uint64 :: "64 word \<Rightarrow> bytes" where
  "put_uint64 w = map (\<lambda>i. ucast (drop_bit (56 - 8 * i) w)) [0, 1, 2, 3, 4, 5, 6, 7]"

fun chunks :: "nat \<Rightarrow> 'a list \<Rightarrow> 'a list list" where
  "chunks n xs = (if n = 0 \<or> xs = [] then [] else take n xs # chunks n (drop n xs))"

declare chunks.simps [simp del]

definition sha_pad :: "bytes \<Rightarrow> bytes" where
  "sha_pad m = m @ 0x80 # replicate ((55 + 64 - length m mod 64) mod 64) 0 @
     put_uint64 (of_nat (8 * length m))"

definition sha_s0 :: "32 word \<Rightarrow> 32 word" where
  "sha_s0 x = word_rotr 7 x XOR word_rotr 18 x XOR drop_bit 3 x"

definition sha_s1 :: "32 word \<Rightarrow> 32 word" where
  "sha_s1 x = word_rotr 17 x XOR word_rotr 19 x XOR drop_bit 10 x"

definition sha_S0 :: "32 word \<Rightarrow> 32 word" where
  "sha_S0 x = word_rotr 2 x XOR word_rotr 13 x XOR word_rotr 22 x"

definition sha_S1 :: "32 word \<Rightarrow> 32 word" where
  "sha_S1 x = word_rotr 6 x XOR word_rotr 11 x XOR word_rotr 25 x"

text \<open>The message schedule as a window of sixteen words that moves by one per round.\<close>

definition sha_next :: "32 word list \<Rightarrow> 32 word list" where
  "sha_next ws = tl ws @ [sha_s1 (ws ! 14) + ws ! 9 + sha_s0 (ws ! 1) + ws ! 0]"

fun sha_round :: "32 word list \<Rightarrow> 32 word \<Rightarrow> 32 word \<Rightarrow> 32 word list" where
  "sha_round [a, b, c, d, e, f, g, h] k w =
     (let t1 = h + sha_S1 e + ((e AND f) XOR (NOT e AND g)) + k + w;
          t2 = sha_S0 a + ((a AND b) XOR (a AND c) XOR (b AND c))
      in [t1 + t2, a, b, c, d + t1, e, f, g])"
| "sha_round st k w = st"

fun sha_rounds :: "32 word list \<Rightarrow> 32 word list \<Rightarrow> 32 word list \<Rightarrow> 32 word list" where
  "sha_rounds st ws [] = st"
| "sha_rounds st ws (k # ks) = sha_rounds (sha_round st k (hd ws)) (sha_next ws) ks"

definition sha_block :: "32 word list \<Rightarrow> bytes \<Rightarrow> 32 word list" where
  "sha_block st blk = map2 (+) st (sha_rounds st (map be_word (chunks 4 blk)) sha_k)"

definition sha256 :: "bytes \<Rightarrow> bytes" where
  "sha256 m = concat (map word_bytes (foldl sha_block sha_h0 (chunks 64 (sha_pad m))))"

definition hmac_key :: "bytes \<Rightarrow> bytes" where
  "hmac_key k = (let k' = (if 64 < length k then sha256 k else k) in k' @ replicate (64 - length k') 0)"

definition hmac_sha256 :: "bytes \<Rightarrow> bytes \<Rightarrow> bytes" where
  "hmac_sha256 k m =
     sha256 (map (\<lambda>b. b XOR 0x5c) (hmac_key k) @ sha256 (map (\<lambda>b. b XOR 0x36) (hmac_key k) @ m))"

section \<open>AES-256 in Galois counter mode\<close>

definition aes_sbox :: "byte list" where
  "aes_sbox = [
    0x63, 0x7c, 0x77, 0x7b, 0xf2, 0x6b, 0x6f, 0xc5, 0x30, 0x01, 0x67, 0x2b, 0xfe, 0xd7, 0xab, 0x76,
    0xca, 0x82, 0xc9, 0x7d, 0xfa, 0x59, 0x47, 0xf0, 0xad, 0xd4, 0xa2, 0xaf, 0x9c, 0xa4, 0x72, 0xc0,
    0xb7, 0xfd, 0x93, 0x26, 0x36, 0x3f, 0xf7, 0xcc, 0x34, 0xa5, 0xe5, 0xf1, 0x71, 0xd8, 0x31, 0x15,
    0x04, 0xc7, 0x23, 0xc3, 0x18, 0x96, 0x05, 0x9a, 0x07, 0x12, 0x80, 0xe2, 0xeb, 0x27, 0xb2, 0x75,
    0x09, 0x83, 0x2c, 0x1a, 0x1b, 0x6e, 0x5a, 0xa0, 0x52, 0x3b, 0xd6, 0xb3, 0x29, 0xe3, 0x2f, 0x84,
    0x53, 0xd1, 0x00, 0xed, 0x20, 0xfc, 0xb1, 0x5b, 0x6a, 0xcb, 0xbe, 0x39, 0x4a, 0x4c, 0x58, 0xcf,
    0xd0, 0xef, 0xaa, 0xfb, 0x43, 0x4d, 0x33, 0x85, 0x45, 0xf9, 0x02, 0x7f, 0x50, 0x3c, 0x9f, 0xa8,
    0x51, 0xa3, 0x40, 0x8f, 0x92, 0x9d, 0x38, 0xf5, 0xbc, 0xb6, 0xda, 0x21, 0x10, 0xff, 0xf3, 0xd2,
    0xcd, 0x0c, 0x13, 0xec, 0x5f, 0x97, 0x44, 0x17, 0xc4, 0xa7, 0x7e, 0x3d, 0x64, 0x5d, 0x19, 0x73,
    0x60, 0x81, 0x4f, 0xdc, 0x22, 0x2a, 0x90, 0x88, 0x46, 0xee, 0xb8, 0x14, 0xde, 0x5e, 0x0b, 0xdb,
    0xe0, 0x32, 0x3a, 0x0a, 0x49, 0x06, 0x24, 0x5c, 0xc2, 0xd3, 0xac, 0x62, 0x91, 0x95, 0xe4, 0x79,
    0xe7, 0xc8, 0x37, 0x6d, 0x8d, 0xd5, 0x4e, 0xa9, 0x6c, 0x56, 0xf4, 0xea, 0x65, 0x7a, 0xae, 0x08,
    0xba, 0x78, 0x25, 0x2e, 0x1c, 0xa6, 0xb4, 0xc6, 0xe8, 0xdd, 0x74, 0x1f, 0x4b, 0xbd, 0x8b, 0x8a,
    0x70, 0x3e, 0xb5, 0x66, 0x48, 0x03, 0xf6, 0x0e, 0x61, 0x35, 0x57, 0xb9, 0x86, 0xc1, 0x1d, 0x9e,
    0xe1, 0xf8, 0x98, 0x11, 0x69, 0xd9, 0x8e, 0x94, 0x9b, 0x1e, 0x87, 0xe9, 0xce, 0x55, 0x28, 0xdf,
    0x8c, 0xa1, 0x89, 0x0d, 0xbf, 0xe6, 0x42, 0x68, 0x41, 0x99, 0x2d, 0x0f, 0xb0, 0x54, 0xbb, 0x16]"

definition sub_byte :: "byte \<Rightarrow> byte" where
  "sub_byte b = aes_sbox ! unat b"

definition xtime :: "byte \<Rightarrow> byte" where
  "xtime b = push_bit 1 b XOR (if bit b 7 then 0x1b else 0)"

definition xor_bytes :: "bytes \<Rightarrow> bytes \<Rightarrow> bytes" where
  "xor_bytes = map2 (XOR)"

text \<open>The key schedule: sixty words of four bytes, each from the one before and the eighth before.\<close>

definition aes_next_word :: "nat \<Rightarrow> byte \<Rightarrow> bytes list \<Rightarrow> bytes" where
  "aes_next_word i rcon ws =
     (let t = last ws;
          t' = (if i mod 8 = 0 then
                  (case map sub_byte (rotate1 t) of [] \<Rightarrow> [] | x # xs \<Rightarrow> (x XOR rcon) # xs)
                else if i mod 8 = 4 then map sub_byte t else t)
      in xor_bytes (ws ! (i - 8)) t')"

fun aes_expand :: "nat \<Rightarrow> nat \<Rightarrow> byte \<Rightarrow> bytes list \<Rightarrow> bytes list" where
  "aes_expand 0 i rcon ws = ws"
| "aes_expand (Suc n) i rcon ws =
     aes_expand n (Suc i) (if i mod 8 = 0 then xtime rcon else rcon) (ws @ [aes_next_word i rcon ws])"

definition aes_round_keys :: "bytes \<Rightarrow> bytes list" where
  "aes_round_keys key = map concat (chunks 4 (aes_expand 52 8 1 (chunks 4 key)))"

definition shift_rows :: "bytes \<Rightarrow> bytes" where
  "shift_rows s = map (\<lambda>i. s ! i) [0, 5, 10, 15, 4, 9, 14, 3, 8, 13, 2, 7, 12, 1, 6, 11]"

fun mix_columns :: "bytes \<Rightarrow> bytes" where
  "mix_columns (a # b # c # d # s) =
     (xtime a XOR xtime b XOR b XOR c XOR d) #
     (a XOR xtime b XOR xtime c XOR c XOR d) #
     (a XOR b XOR xtime c XOR xtime d XOR d) #
     (xtime a XOR a XOR b XOR c XOR xtime d) # mix_columns s"
| "mix_columns s = []"

fun aes_rounds :: "bytes \<Rightarrow> bytes list \<Rightarrow> bytes" where
  "aes_rounds s [] = s"
| "aes_rounds s [k] = xor_bytes (shift_rows (map sub_byte s)) k"
| "aes_rounds s (k # ks) = aes_rounds (xor_bytes (mix_columns (shift_rows (map sub_byte s))) k) ks"

definition aes_encrypt :: "bytes \<Rightarrow> bytes \<Rightarrow> bytes" where
  "aes_encrypt key blk =
     (case aes_round_keys key of [] \<Rightarrow> blk | k # ks \<Rightarrow> aes_rounds (xor_bytes blk k) ks)"

definition block_word :: "bytes \<Rightarrow> 128 word" where
  "block_word bs = foldl (\<lambda>w b. push_bit 8 w OR ucast b) 0 (bs @ replicate (16 - length bs) 0)"

definition block_bytes :: "128 word \<Rightarrow> bytes" where
  "block_bytes w = map (\<lambda>i. ucast (drop_bit (120 - 8 * i) w)) [0..<16]"

fun gf_mult_loop :: "nat \<Rightarrow> 128 word \<Rightarrow> 128 word \<Rightarrow> 128 word \<Rightarrow> 128 word" where
  "gf_mult_loop 0 x z v = z"
| "gf_mult_loop (Suc n) x z v =
     gf_mult_loop n x (if bit x n then z XOR v else z)
       (if bit v 0 then drop_bit 1 v XOR push_bit 120 0xe1 else drop_bit 1 v)"

definition ghash :: "128 word \<Rightarrow> 128 word list \<Rightarrow> 128 word" where
  "ghash h xs = foldl (\<lambda>y x. gf_mult_loop 128 (y XOR x) 0 h) 0 xs"

text \<open>The key stream: the counter block \<open>nonce || i\<close> encrypted for \<open>i = 2, 3, \<dots>\<close>.\<close>

definition gcm_counter :: "bytes \<Rightarrow> nat \<Rightarrow> bytes" where
  "gcm_counter nonce i = nonce @ word_bytes (of_nat i)"

definition gcm_stream :: "bytes \<Rightarrow> bytes \<Rightarrow> nat \<Rightarrow> bytes" where
  "gcm_stream key nonce n =
     take n (concat (map (\<lambda>i. aes_encrypt key (gcm_counter nonce (i + 2))) [0..<(n + 15) div 16])
             @ replicate n 0)"

definition gcm_tag :: "bytes \<Rightarrow> bytes \<Rightarrow> bytes \<Rightarrow> bytes \<Rightarrow> bytes" where
  "gcm_tag key nonce ct aad =
     (let h = block_word (aes_encrypt key (replicate 16 0));
          lens = put_uint64 (of_nat (8 * length aad)) @ put_uint64 (of_nat (8 * length ct));
          s = ghash h (map block_word (chunks 16 aad) @ map block_word (chunks 16 ct) @ [block_word lens])
      in block_bytes (s XOR block_word (aes_encrypt key (gcm_counter nonce 1))))"

text \<open>\<open>AEAD.Seal\<close> without its destination prefix, and \<open>AEAD.Open\<close>; \<open>None\<close> is its error.\<close>

definition gcm_seal :: "bytes \<Rightarrow> bytes \<Rightarrow> bytes \<Rightarrow> bytes \<Rightarrow> bytes" where
  "gcm_seal key nonce pt aad =
     (let ct = xor_bytes pt (gcm_stream key nonce (length pt)) in ct @ gcm_tag key nonce ct aad)"

definition gcm_open :: "bytes \<Rightarrow> bytes \<Rightarrow> bytes \<Rightarrow> bytes \<Rightarrow> bytes option" where
  "gcm_open key nonce c aad =
     (if length c < 16 then None
      else let ct = take (length c - 16) c; tag = drop (length c - 16) c in
        if tag = gcm_tag key nonce ct aad
        then Some (xor_bytes ct (gcm_stream key nonce (length ct))) else None)"

definition gcm_nonce_size :: nat where
  "gcm_nonce_size = 12"

section \<open>Lengths\<close>

lemma put_uint64_length [simp, crypto_simps]: "length (put_uint64 w) = 8"
  by (simp add: put_uint64_def)

lemma word_bytes_length [simp, crypto_simps]: "length (word_bytes w) = 4"
  by (simp add: word_bytes_def)

lemma sha_round_length [simp]: "length (sha_round st k w) = length st"
  by (induction st k w rule: sha_round.induct) (auto simp: Let_def)

lemma sha_rounds_length [simp]: "length (sha_rounds st ws ks) = length st"
  by (induction ks arbitrary: st ws) auto

lemma sha_block_length [simp]: "length (sha_block st blk) = length st"
  by (simp add: sha_block_def)

lemma sha_fold_length: "length (foldl sha_block st blks) = length st"
  by (induction blks arbitrary: st) auto

lemma concat_word_bytes_length: "length (concat (map word_bytes ws)) = 4 * length ws"
  by (induction ws) auto

lemma sha256_length [simp, crypto_simps]: "length (sha256 m) = 32"
  by (simp add: sha256_def concat_word_bytes_length sha_fold_length sha_h0_def)

lemma hmac_length [simp, crypto_simps]: "length (hmac_sha256 k m) = 32"
  by (simp add: hmac_sha256_def)

lemma hex_encode_length [simp, crypto_simps]: "length (hex_encode bs) = 2 * length bs"
  by (induction bs) auto

lemma gcm_stream_length [simp, crypto_simps]: "length (gcm_stream key nonce n) = n"
  by (simp add: gcm_stream_def)

lemma gcm_tag_length [simp, crypto_simps]: "length (gcm_tag key nonce ct aad) = 16"
  by (simp add: gcm_tag_def block_bytes_def Let_def)

lemma xor_bytes_length [simp, crypto_simps]: "length (xor_bytes a b) = min (length a) (length b)"
  by (simp add: xor_bytes_def)

lemma gcm_seal_length [simp, crypto_simps]: "length (gcm_seal key nonce pt aad) = length pt + 16"
  by (simp add: gcm_seal_def Let_def)

section \<open>Round trips of the encodings\<close>

lemma unat_byte_less [simp]: "unat (b :: byte) < 256"
  using unsigned_less [of b, where ?'a = nat] by simp

lemma hex_value_digit [simp]: "n < 16 \<Longrightarrow> hex_value (hex_digit n) = Some n"
  by (auto simp: hex_value_def hex_digit_def Let_def)

lemma hex_roundtrip [simp, crypto_simps]: "hex_decode (hex_encode bs) = Some bs"
proof (induction bs)
  case (Cons b bs)
  have "unat b div 16 < 16" and "unat b mod 16 < 16"
    using unat_byte_less [of b] by (auto simp: less_mult_imp_div_less)
  moreover have "16 * (unat b div 16) + unat b mod 16 = unat b"
    by simp
  ultimately show ?case
    using Cons by (simp del: of_nat_add of_nat_mult)
qed simp

lemma hex_encode_inject [simp]: "hex_encode a = hex_encode b \<longleftrightarrow> a = b"
  by (metis hex_roundtrip option.inject)

lemma b64_value_char [simp]: "i < 64 \<Longrightarrow> b64_value (b64_char i) = Some i"
  by (auto simp: b64_value_def b64_char_def Let_def)

lemma b64_char_plain:
  "i < 64 \<Longrightarrow> b64_char i \<noteq> CHR ''='' \<and> b64_char i \<noteq> CHR 0x0A \<and> b64_char i \<noteq> CHR 0x0D"
  by (auto simp: b64_char_def dest: arg_cong [where f = "of_char :: char \<Rightarrow> nat"])

lemma b64_digits:
  fixes a b :: byte
  shows "unat a div 4 < 64" "unat a mod 4 * 16 < 64" "unat a mod 4 * 16 + unat b div 16 < 64"
    "unat a mod 16 * 4 < 64" "unat a mod 16 * 4 + unat b div 64 < 64" "unat a mod 64 < 64"
proof -
  have "unat a mod 4 < 4" "unat a mod 16 < 16" "unat b div 16 < 16" "unat b div 64 < 4"
    using unat_byte_less [of b] by (simp_all add: less_mult_imp_div_less)
  then show "unat a div 4 < 64" "unat a mod 4 * 16 < 64" "unat a mod 4 * 16 + unat b div 16 < 64"
    "unat a mod 16 * 4 < 64" "unat a mod 16 * 4 + unat b div 64 < 64" "unat a mod 64 < 64"
    using unat_byte_less [of a] by (simp_all add: less_mult_imp_div_less del: unat_byte_less)
qed

lemma b64_high_zero:
  fixes b :: byte
  shows "unat b div 16 div 16 = 0" "unat b div 64 div 4 = 0"
    "unat b div 16 mod 16 = unat b div 16" "unat b div 64 mod 4 = unat b div 64"
  using unat_byte_less [of b] by (simp_all flip: div_mult2_eq add: less_mult_imp_div_less)

lemma b64_groups_roundtrip: "b64_groups (b64_encode bs) = Some bs"
  by (induction bs rule: b64_encode.induct)
    (simp_all add: b64_digits b64_char_plain b64_high_zero del: of_nat_add of_nat_mult)

lemma b64_encode_no_breaks:
  "filter (\<lambda>c. c \<noteq> CHR 0x0A \<and> c \<noteq> CHR 0x0D) (b64_encode bs) = b64_encode bs"
  by (induction bs rule: b64_encode.induct) (simp_all add: b64_digits b64_char_plain)

lemma b64_roundtrip [simp, crypto_simps]: "b64_decode (b64_encode bs) = Some bs"
  by (simp add: b64_decode_def b64_encode_no_breaks b64_groups_roundtrip)

section \<open>Authenticated encryption\<close>

text \<open>
  The contract of \<open>cipher.AEAD\<close> that the vaults rely on: opening succeeds exactly on what sealing
  produces, with the same key, nonce and additional data. Its consequences are proved here once.
\<close>

locale aead =
  fixes seal :: "bytes \<Rightarrow> bytes \<Rightarrow> bytes \<Rightarrow> bytes \<Rightarrow> bytes"
    and unseal :: "bytes \<Rightarrow> bytes \<Rightarrow> bytes \<Rightarrow> bytes \<Rightarrow> bytes option"
  assumes unseal_iff: "unseal k n c a = Some p \<longleftrightarrow> c = seal k n p a"
begin

lemma open_seal: "unseal k n (seal k n p a) a = Some p"
  by (simp add: unseal_iff)

lemma open_fails: "(\<And>p. c \<noteq> seal k n p a) \<Longrightarrow> unseal k n c a = None"
  by (cases "unseal k n c a") (auto simp: unseal_iff)

lemma open_unique: "unseal k n c a = Some p \<Longrightarrow> unseal k n d a = Some p \<Longrightarrow> c = d"
  by (simp add: unseal_iff)

lemma seal_inject: "seal k n p a = seal k n q a \<longleftrightarrow> p = q"
  by (metis open_seal option.inject)

end

lemma xor_bytes_cancel: "length a = length s \<Longrightarrow> xor_bytes (xor_bytes a s) s = a"
  by (induction a s rule: list_induct2) (auto simp: xor_bytes_def xor.assoc)

lemma gcm_open_seal: "gcm_open k n (gcm_seal k n p a) a = Some p"
  by (simp add: gcm_open_def gcm_seal_def Let_def xor_bytes_cancel)

lemma gcm_seal_open: "gcm_open k n c a = Some p \<Longrightarrow> c = gcm_seal k n p a"
  by (auto simp: gcm_open_def gcm_seal_def Let_def xor_bytes_cancel split: if_splits)
    (metis append_take_drop_id)

interpretation gcm: aead gcm_seal gcm_open
  by unfold_locales (auto simp: gcm_open_seal dest: gcm_seal_open)

end
