(* ===== verification/Room_Codes.thy ===== *)
theory Room_Codes
  imports Crypto_Lib
begin

text \<open>
  The proximity codes of package \<open>checkin\<close>: the rotating six-digit room code and its acceptance
  window, the static student code (\<open>roomcode.go\<close>), and the three-digit code by which one lecturer
  opens the registers of a combined class (\<open>combinedclass.go\<close>).

  The step number is the signed quotient \<open>Unix() / StepSeconds\<close> converted to \<open>uint64\<close>, so it is a
  64-bit word; the truncated hash is a 32-bit word, as \<open>bin\<close> in the code.
\<close>

section \<open>Definitions\<close>

definition StepSeconds :: int where "StepSeconds = 10"
definition Digits :: nat where "Digits = 6"
definition skewSteps :: int where "skewSteps = 1"
definition pow10 :: "32 word list" where
  "pow10 = [1, 10, 100, 1000, 10000, 100000, 1000000, 10000000]"

text \<open>
  RFC 4226 dynamic truncation, written out three times in the code; \<open>None\<close> is the run-time panic
  of an index outside the digest.
\<close>

definition truncate_hash :: "bytes \<Rightarrow> 32 word option" where
  "truncate_hash digest =
     (if digest = [] then None else
        let offset = unat (digest ! (length digest - 1) AND 0x0f) in
        if length digest \<le> offset + 3 then None else
        Some ((push_bit 24 (ucast (digest ! offset AND 0x7f)) OR
               push_bit 16 (ucast (digest ! (offset + 1))) OR
               push_bit 8 (ucast (digest ! (offset + 2))) OR
               ucast (digest ! (offset + 3)))))"

text \<open>The loop of \<open>zeroPad\<close>: \<open>i\<close> runs from \<open>Digits - 1\<close> down to zero over the buffer.\<close>

fun zeroPad_loop :: "nat \<Rightarrow> 32 word \<Rightarrow> string \<Rightarrow> string" where
  "zeroPad_loop 0 n buf = buf"
| "zeroPad_loop (Suc i) n buf = zeroPad_loop i (n div 10) (buf[i := char_of (unat (48 + n mod 10))])"

definition zeroPad :: "32 word \<Rightarrow> string" where
  "zeroPad n = zeroPad_loop Digits n (replicate Digits (CHR 0x00))"

definition deriveStep :: "bytes \<Rightarrow> 64 word \<Rightarrow> string option" where
  "deriveStep secret step =
     map_option (\<lambda>bin. zeroPad (bin mod (pow10 ! Digits))) (truncate_hash (hmac_sha256 secret (put_uint64 step)))"

definition step_of :: "instant \<Rightarrow> int" where
  "step_of t = quot_trunc (unix_seconds t) StepSeconds"

definition Derive :: "bytes \<Rightarrow> instant \<Rightarrow> string option" where
  "Derive secret t = deriveStep secret (of_int (step_of t))"

text \<open>The loop over \<open>d\<close> from \<open>-skewSteps\<close> to \<open>skewSteps\<close>, stopped by the first match or a panic.\<close>

fun validate_steps :: "bytes \<Rightarrow> string \<Rightarrow> int \<Rightarrow> int list \<Rightarrow> bool option" where
  "validate_steps secret code current [] = Some False"
| "validate_steps secret code current (d # ds) =
     (case deriveStep secret (of_int (current + d)) of
        None \<Rightarrow> None
      | Some candidate \<Rightarrow>
          if candidate = code then Some True else validate_steps secret code current ds)"

definition Validate :: "bytes \<Rightarrow> string \<Rightarrow> instant \<Rightarrow> bool option" where
  "Validate secret code now =
     (if length code \<noteq> Digits then Some False
      else validate_steps secret code (step_of now) [- skewSteps .. skewSteps])"

definition StaticCode :: "bytes \<Rightarrow> string option" where
  "StaticCode secret =
     map_option (\<lambda>bin. zeroPad (bin mod (pow10 ! Digits)))
       (truncate_hash (hmac_sha256 secret (bytes_of ''student-static-v1'')))"

definition ValidateStatic :: "bytes \<Rightarrow> string \<Rightarrow> bool option" where
  "ValidateStatic secret code =
     (if length code \<noteq> Digits then Some False else map_option (\<lambda>c. c = code) (StaticCode secret))"

definition SecondsRemaining :: "instant \<Rightarrow> int" where
  "SecondsRemaining now = StepSeconds - rem_trunc (unix_seconds now) StepSeconds"

definition CombinedClassDigits :: nat where "CombinedClassDigits = 3"
definition combinedClassMod :: "32 word" where "combinedClassMod = 1000"
definition combinedClassSep :: string where "combinedClassSep = [CHR 0x1F]"
definition combinedClassDomain :: string where "combinedClassDomain = ''combined-class-v1''"

definition combinedClassMessage :: "string \<Rightarrow> string \<Rightarrow> string \<Rightarrow> string" where
  "combinedClassMessage lecturerID classKey localDate =
     join_with combinedClassSep [combinedClassDomain, lecturerID, classKey, localDate]"

definition CombinedClassCode :: "bytes \<Rightarrow> string \<Rightarrow> string \<Rightarrow> string \<Rightarrow> string option" where
  "CombinedClassCode secret lecturerID classKey localDate =
     map_option (\<lambda>bin. pad_decimal CombinedClassDigits (unat (bin mod combinedClassMod)))
       (truncate_hash (hmac_sha256 secret (bytes_of (combinedClassMessage lecturerID classKey localDate))))"

definition ValidateCombinedClassCode :: "bytes \<Rightarrow> string \<Rightarrow> string \<Rightarrow> string \<Rightarrow> string \<Rightarrow> bool option" where
  "ValidateCombinedClassCode secret typed lecturerID classKey localDate =
     (let clean = trim_space typed in
      if length clean \<noteq> CombinedClassDigits then Some False
      else map_option (\<lambda>want. want = clean) (CombinedClassCode secret lecturerID classKey localDate))"

definition CombinedClassKey :: "string \<Rightarrow> int \<Rightarrow> string \<Rightarrow> string" where
  "CombinedClassKey room dayOfWeek startHHMM =
     join_with combinedClassSep [to_lower (trim_space room), format_int dayOfWeek, trim_space startHHMM]"

lemmas code_consts = StepSeconds_def Digits_def skewSteps_def CombinedClassDigits_def combinedClassMod_def

section \<open>The codes are always produced\<close>

lemma and_0f_bound: "unat ((b :: byte) AND 0x0f) \<le> 15"
proof -
  have "b AND 0x0f \<le> 0x0f"
    by (rule word_and_le1)
  then show ?thesis
    by (simp add: word_le_nat_alt)
qed

lemma truncate_hash_total: "19 \<le> length digest \<Longrightarrow> \<exists>bin. truncate_hash digest = Some bin"
  using and_0f_bound [of "digest ! (length digest - 1)"]
  by (auto simp: truncate_hash_def Let_def)

lemma truncate_hmac_total: "\<exists>bin. truncate_hash (hmac_sha256 k m) = Some bin"
  by (rule truncate_hash_total) simp

lemma deriveStep_total: "\<exists>code. deriveStep secret st = Some code"
  using truncate_hmac_total [of secret "put_uint64 st"] by (auto simp: deriveStep_def)

lemma zeroPad_loop_length [simp]: "length (zeroPad_loop i n buf) = length buf"
  by (induction i n buf rule: zeroPad_loop.induct) auto

lemma unat_mod_10: "unat ((n :: 32 word) mod 10) = unat n mod 10"
  by (simp add: unat_mod_distrib)

lemma unat_div_10: "unat ((n :: 32 word) div 10) = unat n div 10"
  by (simp add: unat_div_distrib)

lemma zeroPad_digit: "char_of (unat (48 + (n :: 32 word) mod 10)) = digit_char (unat n mod 10)"
proof -
  have "unat (48 + n mod 10) = 48 + unat n mod 10"
    using mod_less_divisor [of 10 "unat n"] by (simp add: unat_plus_if' unat_mod_10)
  then show ?thesis
    by (simp add: digit_char_def)
qed

lemma zeroPad_loop_digits:
  "i \<le> length buf \<Longrightarrow> zeroPad_loop i n buf = fixed_digits i (unat n) @ drop i buf"
proof (induction i arbitrary: n buf)
  case (Suc i)
  have "drop i (buf[i := c]) = c # drop (Suc i) buf" for c
    using Suc.prems by (simp add: drop_update_cancel upd_conv_take_nth_drop)
  with Suc show ?case
    by (simp add: zeroPad_digit unat_div_10)
qed simp

lemma zeroPad_digits: "zeroPad n = fixed_digits Digits (unat n)"
  by (simp add: zeroPad_def zeroPad_loop_digits)

lemma mod_million: "unat (bin mod (pow10 ! Digits)) = unat bin mod 1000000"
  by (simp add: pow10_def Digits_def unat_mod_distrib)

lemma deriveStep_code:
  "deriveStep secret st = Some code \<Longrightarrow> length code = Digits \<and> list_all is_digit code"
  by (auto simp: deriveStep_def zeroPad_digits fixed_digits_digits)

lemma StaticCode_code:
  "StaticCode secret = Some code \<Longrightarrow> length code = Digits \<and> list_all is_digit code"
  by (auto simp: StaticCode_def zeroPad_digits fixed_digits_digits)

lemma StaticCode_total: "\<exists>code. StaticCode secret = Some code"
  using truncate_hmac_total by (auto simp: StaticCode_def)

lemma CombinedClassCode_total: "\<exists>code. CombinedClassCode secret l k d = Some code"
  using truncate_hmac_total by (auto simp: CombinedClassCode_def)

lemma CombinedClassCode_code:
  assumes "CombinedClassCode secret l k d = Some code"
  shows "length code = CombinedClassDigits \<and> list_all is_digit code"
proof -
  have "unat (bin mod combinedClassMod) < 10 ^ CombinedClassDigits" for bin
    by (simp add: code_consts unat_mod_distrib)
  then show ?thesis
    using assms by (auto simp: CombinedClassCode_def pad_decimal_fixed fixed_digits_digits CombinedClassDigits_def)
qed

section \<open>The acceptance window\<close>

lemma validate_steps_iff:
  "validate_steps secret code current ds =
     Some (\<exists>d \<in> set ds. deriveStep secret (of_int (current + d)) = Some code)"
proof (induction ds)
  case (Cons d ds)
  then show ?case
    using deriveStep_total [of secret "of_int (current + d)"] by auto
qed simp

lemma Validate_window:
  "Validate secret code now =
     Some (\<exists>d \<in> {- 1, 0, 1}. deriveStep secret (of_int (step_of now + d)) = Some code)"
proof (cases "length code = Digits")
  case True
  then show ?thesis
    by (simp add: Validate_def validate_steps_iff skewSteps_def upto.simps)
next
  case False
  then show ?thesis
    using deriveStep_code by (auto simp: Validate_def)
qed

lemma step_of_nonneg: "0 \<le> t \<Longrightarrow> step_of t = t div (StepSeconds * second)"
  by (simp add: step_of_def quot_trunc_def unix_seconds_def code_consts second_def sgn_if
      pos_imp_zdiv_nonneg_iff zdiv_zmult2_eq [symmetric])

text \<open>
  A displayed code is accepted for one whole rotation step before and after the instant it was
  shown: whatever the secret, the code derived at \<open>t\<close> validates at every \<open>now\<close> at most
  \<open>StepSeconds\<close> away, and neither call panics.
\<close>

theorem room_code_accepted:
  assumes "0 \<le> t" and "0 \<le> now" and "\<bar>now - t\<bar> \<le> StepSeconds * second"
  shows "\<exists>code. Derive secret t = Some code \<and> Validate secret code now = Some True"
proof -
  obtain code where code: "Derive secret t = Some code"
    using deriveStep_total by (auto simp: Derive_def)
  have "step_of t - step_of now \<in> {- 1, 0, 1}"
    using assms by (auto simp: step_of_nonneg code_consts second_def)
  moreover have "deriveStep secret (of_int (step_of now + (step_of t - step_of now))) = Some code"
    using code by (simp add: Derive_def)
  ultimately show ?thesis
    using code unfolding Validate_window by blast
qed



theorem room_code_accepted_witness:
  "\<exists>code. Derive (bytes_of ''k'') (1000 * second) = Some code \<and>
     Validate (bytes_of ''k'') code (1009 * second) = Some True"
  using room_code_accepted [of "1000 * second" "1009 * second" "bytes_of ''k''"]
  by (simp add: second_def StepSeconds_def)

text \<open>
  The acceptance window is exactly three rotation steps of ten seconds: a code validates if and
  only if it is the code of the current step or of one of its two neighbours. (The comment on
  \<open>skewSteps\<close> still speaks of a window of about 45 seconds; the steps give 30.)
\<close>

theorem room_code_window:
  "Validate secret code now = Some True \<longleftrightarrow>
     deriveStep secret (of_int (step_of now) - 1) = Some code \<or>
     deriveStep secret (of_int (step_of now)) = Some code \<or>
     deriveStep secret (of_int (step_of now) + 1) = Some code"
  by (simp add: Validate_window)

text \<open>
  Every room code and every static code is produced without a panic, is six decimal digits long,
  and read as a number is the truncated hash modulo a million: no digit is lost by \<open>zeroPad\<close>.
\<close>

theorem room_code_shape:
  "(\<exists>bin code. truncate_hash (hmac_sha256 secret (put_uint64 step)) = Some bin \<and>
      deriveStep secret step = Some code \<and> length code = 6 \<and> list_all is_digit code \<and>
      decimal_value code = unat bin mod 1000000) \<and>
   (\<exists>bin code. truncate_hash (hmac_sha256 secret (bytes_of ''student-static-v1'')) = Some bin \<and>
      StaticCode secret = Some code \<and> length code = 6 \<and> list_all is_digit code \<and>
      decimal_value code = unat bin mod 1000000 \<and> ValidateStatic secret code = Some True)"
proof -
  have digits: "decimal_value (zeroPad (bin mod (pow10 ! Digits))) = unat bin mod 1000000 \<and>
      length (zeroPad (bin mod (pow10 ! Digits))) = 6 \<and> list_all is_digit (zeroPad (bin mod (pow10 ! Digits)))" for bin
    using decimal_value_fixed [of "unat bin mod 1000000" Digits]
    by (simp add: zeroPad_digits mod_million fixed_digits_digits) (simp add: Digits_def)
  obtain b1 b2 where
    "truncate_hash (hmac_sha256 secret (put_uint64 step)) = Some b1"
    "truncate_hash (hmac_sha256 secret (bytes_of ''student-static-v1'')) = Some b2"
    using truncate_hmac_total by meson
  then show ?thesis
    using digits by (auto simp: deriveStep_def StaticCode_def ValidateStatic_def Digits_def)
qed

section \<open>Rotation\<close>

lemma div_10_unique: "10 * q \<le> v \<Longrightarrow> v < 10 * q + 10 \<Longrightarrow> v div 10 = (q :: int)"
  by (simp add: int_div_pos_eq [of v 10 q "v - 10 * q"])

lemma div_10_same: "(u :: int) \<le> v \<Longrightarrow> v < u + (10 - u mod 10) \<Longrightarrow> v div 10 = u div 10"
  using mult_div_mod_eq [of 10 u] pos_mod_sign [of 10 u] by (intro div_10_unique) linarith+

lemma div_10_next: "((u :: int) + (10 - u mod 10)) div 10 = u div 10 + 1"
  using minus_mod_eq_mult_div [of u 10] by (intro div_10_unique) simp_all

text \<open>
  The countdown is right: \<open>SecondsRemaining\<close> is between one and ten, the code cannot change
  before that many seconds have passed since the last full second, and the step advances by one then.
\<close>

theorem seconds_remaining_rotation:
  assumes "0 \<le> t"
  shows "1 \<le> SecondsRemaining t \<and> SecondsRemaining t \<le> StepSeconds \<and>
    (\<forall>k. 0 \<le> k \<and> unix_seconds (t + k) < unix_seconds t + SecondsRemaining t \<longrightarrow>
       Derive secret (t + k) = Derive secret t) \<and>
    step_of (t + SecondsRemaining t * second) = step_of t + 1"
proof -
  let ?u = "unix_seconds t"
  have u: "0 \<le> ?u"
    using assms by (simp add: unix_seconds_def second_def pos_imp_zdiv_nonneg_iff)
  have step: "step_of x = unix_seconds x div 10" if "0 \<le> x" for x
    using that by (simp add: step_of_nonneg unix_seconds_def code_consts second_def flip: zdiv_zmult2_eq)
  have rem: "SecondsRemaining t = 10 - ?u mod 10"
    using u minus_mult_div_eq_mod [of ?u 10]
    by (auto simp: SecondsRemaining_def rem_trunc_def quot_trunc_def code_consts sgn_if)
  have same: "step_of (t + k) = step_of t"
    if "0 \<le> k" "unix_seconds (t + k) < ?u + SecondsRemaining t" for k
  proof -
    have "?u \<le> unix_seconds (t + k)"
      using that(1) by (simp add: unix_seconds_def second_def zdiv_mono1)
    then show ?thesis
      using that assms by (simp add: step rem div_10_same)
  qed
  have "unix_seconds (t + SecondsRemaining t * second) = ?u + SecondsRemaining t"
    by (simp add: unix_seconds_def second_def)
  then have "step_of (t + SecondsRemaining t * second) = step_of t + 1"
    using assms div_10_next [of ?u] by (simp add: step rem second_def)
  then show ?thesis
    using same by (auto simp: rem Derive_def StepSeconds_def)
qed

theorem seconds_remaining_rotation_witness:
  "SecondsRemaining (1003 * second) = 7 \<and>
     step_of (1003 * second + SecondsRemaining (1003 * second) * second) = step_of (1003 * second) + 1"
  using seconds_remaining_rotation [of "1003 * second"]
  by (simp add: SecondsRemaining_def rem_trunc_def quot_trunc_def unix_seconds_def second_def StepSeconds_def)

section \<open>Combined classes\<close>

lemma combinedClassMessage_inject:
  assumes "CHR 0x1F \<notin> set l" "CHR 0x1F \<notin> set l'" "CHR 0x1F \<notin> set d" "CHR 0x1F \<notin> set d'"
  shows "combinedClassMessage l k d = combinedClassMessage l' k' d' \<longleftrightarrow> l = l' \<and> k = k' \<and> d = d'"
proof -
  have rev_tail: "k @ CHR 0x1F # d = k' @ CHR 0x1F # d' \<longleftrightarrow> k = k' \<and> d = d'"
    using join_separated_inject [of "CHR 0x1F" "rev d" "rev d'" "rev k" "rev k'"] assms
    by (metis append_assoc append_Cons append_Nil rev.simps(2) rev_append rev_is_rev_conv set_rev)
  show ?thesis
    using assms rev_tail by (simp add: combinedClassMessage_def combinedClassSep_def join_separated_inject)
qed

lemma CombinedClassKey_inject:
  assumes "CHR 0x1F \<notin> set room" "CHR 0x1F \<notin> set room'"
  shows "CombinedClassKey room dow start = CombinedClassKey room' dow' start' \<longleftrightarrow>
    to_lower (trim_space room) = to_lower (trim_space room') \<and> dow = dow' \<and>
    trim_space start = trim_space start'"
proof -
  have trim: "set (trim_space x) \<subseteq> set x" for x
    by (auto simp: trim_space_def trim_left_def trim_right_def) (metis set_dropWhileD set_rev)
  have low: "lower_char c = CHR 0x1F \<Longrightarrow> c = CHR 0x1F" for c
    by (auto simp: lower_char_def Let_def dest: arg_cong [where f = "of_char :: char \<Rightarrow> nat"] split: if_splits)
  have "CHR 0x1F \<notin> set (to_lower (trim_space x))" if "CHR 0x1F \<notin> set x" for x
    using that trim [of x] low by (auto simp: to_lower_def) (metis subsetD)
  then show ?thesis
    using assms by (simp add: CombinedClassKey_def combinedClassSep_def join_separated_inject format_int_plain)
qed

text \<open>
  Two combined lectures are given the same message to hash only when they are the same lecture:
  the lecturer, the day of the week, the date and, up to case and surrounding blanks, the room and
  the start time all agree. The class key contains the separator itself, and the message still
  splits in one way, as long as no id, room or date contains the control character.
\<close>

theorem combined_class_domain_separation:
  assumes "CHR 0x1F \<notin> set l" "CHR 0x1F \<notin> set l'" "CHR 0x1F \<notin> set d" "CHR 0x1F \<notin> set d'"
    and "CHR 0x1F \<notin> set room" "CHR 0x1F \<notin> set room'"
  shows "combinedClassMessage l (CombinedClassKey room dow start) d =
      combinedClassMessage l' (CombinedClassKey room' dow' start') d' \<longleftrightarrow>
    l = l' \<and> d = d' \<and> equal_fold (trim_space room) (trim_space room') \<and> dow = dow' \<and>
    trim_space start = trim_space start'"
  using assms by (auto simp: combinedClassMessage_inject CombinedClassKey_inject equal_fold_def)

theorem combined_class_domain_separation_witness:
  "combinedClassMessage ''lect-1'' (CombinedClassKey '' Block C 101 '' 2 ''08:00'') ''2026-08-13'' =
     combinedClassMessage ''lect-1'' (CombinedClassKey ''block c 101'' 2 ''08:00 '') ''2026-08-13''"
  by (subst combined_class_domain_separation; code_simp)

text \<open>
  A typed combined-class code opens the register exactly when, blanks around it apart, it is the
  three-digit code of this lecturer, class and day; the check never panics, and the class's own
  code read aloud always passes.
\<close>

theorem combined_class_validate:
  "\<exists>code. CombinedClassCode secret l k d = Some code \<and> length code = 3 \<and> list_all is_digit code \<and>
     ValidateCombinedClassCode secret typed l k d = Some (trim_space typed = code)"
proof -
  obtain code where code: "CombinedClassCode secret l k d = Some code"
    using CombinedClassCode_total by blast
  then have shape: "length code = 3 \<and> list_all is_digit code"
    using CombinedClassCode_code by (simp add: CombinedClassDigits_def)
  then show ?thesis
    using code by (auto simp: ValidateCombinedClassCode_def Let_def CombinedClassDigits_def)
qed

end
