(* ===== verification/Clock_Policy.thy ===== *)
theory Clock_Policy
  imports Go_Prelude
begin

text \<open>
  Civil time in the institution's zone (package \<open>clock\<close>) and the fixed attendance policy (package
  \<open>policy\<close>).

  A location is its offset from UTC in nanoseconds. The zone database is not part of the program;
  the two locations the program can resolve to without configuration, UTC and Africa/Kampala, have a
  constant offset, and that is what the model covers. A civil date is computed in the proleptic
  Gregorian calendar from the number of days since 0000-01-01, for years 0 to 9999, the
  years the layout \<open>2006-01-02\<close> can print and read back.
\<close>

section \<open>The Gregorian calendar\<close>

record date =
  year :: nat
  month :: nat
  day :: nat

definition leap :: "nat \<Rightarrow> bool" where
  "leap y = (y mod 4 = 0 \<and> (y mod 100 \<noteq> 0 \<or> y mod 400 = 0))"

definition year_days :: "nat \<Rightarrow> nat" where
  "year_days y = (if leap y then 366 else 365)"

definition month_lengths :: "nat \<Rightarrow> nat list" where
  "month_lengths y = [31, if leap y then 29 else 28, 31, 30, 31, 30, 31, 31, 30, 31, 30, 31]"

text \<open>Days before January 1 of year \<open>y\<close>.\<close>

definition days_before_year :: "nat \<Rightarrow> nat" where
  "days_before_year y = 365 * y + (y + 3) div 4 + (y + 399) div 400 - (y + 99) div 100"

definition valid_date :: "date \<Rightarrow> bool" where
  "valid_date d = (1 \<le> month d \<and> month d \<le> 12 \<and> 1 \<le> day d \<and> day d \<le> month_lengths (year d) ! (month d - 1))"

definition day_number :: "date \<Rightarrow> nat" where
  "day_number d = days_before_year (year d) + sum_list (take (month d - 1) (month_lengths (year d))) + (day d - 1)"

text \<open>The month and day of a day within a year: months are taken off one by one.\<close>

fun split_months :: "nat list \<Rightarrow> nat \<Rightarrow> nat \<Rightarrow> nat \<times> nat" where
  "split_months [] m n = (m, n)"
| "split_months (l # ls) m n = (if n < l then (m, n) else split_months ls (Suc m) (n - l))"

text \<open>The facts about leap years that make the search for the year end.\<close>

lemma ceil_div_Suc: "0 < k \<Longrightarrow> (Suc y + (k - 1)) div k = (y + (k - 1)) div k + (if y mod k = 0 then 1 else 0)"
  using div_Suc [of "y + (k - 1)" k] by simp

lemma ceil_div_le: "(y + 99) div 100 \<le> (y :: nat)"
  by (cases y) auto

lemma leap_mods: "(y :: nat) mod 400 = 0 \<Longrightarrow> y mod 100 = 0" "y mod 100 = 0 \<Longrightarrow> y mod 4 = 0"
  by (auto simp flip: dvd_eq_mod_eq_0 elim: dvd_trans [rotated])

lemma days_before_year_Suc: "days_before_year (Suc y) = days_before_year y + year_days y"
proof -
  have split: "365 * (y + 1) + (a + p) + (c + r) - (b + q) = 365 * y + a + c - b + (365 + p + r - q)"
    if "b \<le> y" "q \<le> 1" for a b c p q r :: nat
    using that by (auto simp: le_Suc_eq elim!: less_eqE)
  define p q r where "p = (if y mod 4 = 0 then 1 else 0 :: nat)"
    and "q = (if y mod 100 = 0 then 1 else 0 :: nat)" and "r = (if y mod 400 = 0 then 1 else 0 :: nat)"
  have "days_before_year (Suc y) = 365 * (y + 1) + ((y + 3) div 4 + p) + ((y + 399) div 400 + r) - ((y + 99) div 100 + q)"
    using ceil_div_Suc [of 4 y] ceil_div_Suc [of 100 y] ceil_div_Suc [of 400 y]
    by (simp add: days_before_year_def p_def q_def r_def)
  also have "\<dots> = days_before_year y + (365 + p + r - q)"
    unfolding days_before_year_def by (rule split) (auto simp: ceil_div_le q_def)
  also have "365 + p + r - q = year_days y"
    using leap_mods [of y] by (simp add: p_def q_def r_def year_days_def leap_def)
  finally show ?thesis .
qed

lemma days_before_year_mono: "y \<le> z \<Longrightarrow> days_before_year y \<le> days_before_year z"
  by (rule lift_Suc_mono_le) (auto simp: days_before_year_Suc)

lemma days_before_year_ge: "365 * y \<le> days_before_year y"
  by (induction y) (auto simp: days_before_year_Suc year_days_def days_before_year_def [of 0])

text \<open>The year of a day: the last one that begins at or before it.\<close>

function find_year :: "nat \<Rightarrow> nat \<Rightarrow> nat" where
  "find_year y n = (if days_before_year (Suc y) \<le> n then find_year (Suc y) n else y)"
  by auto
termination
  by (relation "measure (\<lambda>(y, n). Suc n - y)")
    (auto intro: order.trans [OF _ order.trans [OF days_before_year_ge]] dest: order.trans [OF days_before_year_ge])

declare find_year.simps [simp del]

definition date_of_day :: "nat \<Rightarrow> date" where
  "date_of_day n =
     (let y = find_year (n div 366) n;
          (m, d) = split_months (month_lengths y) 1 (n - days_before_year y)
      in \<lparr>year = y, month = m, day = d + 1\<rparr>)"

section \<open>The clock\<close>

type_synonym location = duration

definition utc :: location where "utc = 0"
definition kampala :: location where "kampala = 3 * hour"

text \<open>
  \<open>Location\<close>: the zone named by the environment, Kampala when it is unset, and UTC when the zone
  database does not know the name. \<open>zones\<close> is the zone database.
\<close>

definition DefaultTZ :: string where "DefaultTZ = ''Africa/Kampala''"

definition Location :: "(string \<Rightarrow> location option) \<Rightarrow> string \<Rightarrow> location" where
  "Location zones institution_tz =
     (let name = (if institution_tz = [] then DefaultTZ else institution_tz) in
      case zones name of None \<Rightarrow> utc | Some l \<Rightarrow> l)"

definition epoch_day :: int where "epoch_day = 719528"

definition civil_day :: "location \<Rightarrow> instant \<Rightarrow> nat" where
  "civil_day loc t = nat (epoch_day + (t + loc) div (24 * hour))"

definition civil_date :: "location \<Rightarrow> instant \<Rightarrow> date" where
  "civil_date loc t = date_of_day (civil_day loc t)"

definition since_midnight :: "location \<Rightarrow> instant \<Rightarrow> duration" where
  "since_midnight loc t = (t + loc) mod (24 * hour)"

definition hour_of :: "location \<Rightarrow> instant \<Rightarrow> nat" where
  "hour_of loc t = nat (since_midnight loc t div hour)"

definition minute_of :: "location \<Rightarrow> instant \<Rightarrow> nat" where
  "minute_of loc t = nat (since_midnight loc t mod hour div minute)"

definition format_date :: "date \<Rightarrow> string" where
  "format_date d = pad_decimal 4 (year d) @ ''-'' @ pad_decimal 2 (month d) @ ''-'' @ pad_decimal 2 (day d)"

definition format_hhmm :: "nat \<Rightarrow> nat \<Rightarrow> string" where
  "format_hhmm h m = pad_decimal 2 h @ '':'' @ pad_decimal 2 m"

definition Today :: "location \<Rightarrow> instant \<Rightarrow> string" where
  "Today loc now = format_date (civil_date loc now)"

definition HHMM :: "location \<Rightarrow> instant \<Rightarrow> string" where
  "HHMM loc now = format_hhmm (hour_of loc now) (minute_of loc now)"

text \<open>\<open>Time.Weekday\<close>, with Sunday 0; day 0 was a Saturday.\<close>

definition go_weekday :: "location \<Rightarrow> instant \<Rightarrow> nat" where
  "go_weekday loc t = (civil_day loc t + 6) mod 7"

definition ISOWeekday :: "location \<Rightarrow> instant \<Rightarrow> nat" where
  "ISOWeekday loc now = (let d = go_weekday loc now in if d = 0 then 7 else d)"

definition MinutesSinceMidnight :: "location \<Rightarrow> instant \<Rightarrow> nat" where
  "MinutesSinceMidnight loc now = hour_of loc now * 60 + minute_of loc now"

text \<open>The instant at which a local date and wall-clock time fall (\<open>time.Date\<close>).\<close>

definition at_civil :: "location \<Rightarrow> date \<Rightarrow> nat \<Rightarrow> nat \<Rightarrow> instant" where
  "at_civil loc d h m =
     (int (day_number d) - epoch_day) * (24 * hour) + int h * hour + int m * minute - loc"

definition parse_digits :: "string \<Rightarrow> nat option" where
  "parse_digits s = (if s \<noteq> [] \<and> list_all is_digit s then Some (decimal_value s) else None)"

text \<open>\<open>time.Parse\<close> with layout \<open>2006-01-02\<close>: four, two and two digits, and a day that exists.\<close>

definition parse_ymd :: "string \<Rightarrow> date option" where
  "parse_ymd s =
     (if length s \<noteq> 10 \<or> s ! 4 \<noteq> CHR ''-'' \<or> s ! 7 \<noteq> CHR ''-'' then None else
      case (parse_digits (take 4 s), parse_digits (take 2 (drop 5 s)), parse_digits (drop 8 s)) of
        (Some y, Some m, Some d) \<Rightarrow>
          let v = \<lparr>year = y, month = m, day = d\<rparr> in if valid_date v then Some v else None
      | _ \<Rightarrow> None)"

definition ParseDate :: "location \<Rightarrow> string \<Rightarrow> instant option" where
  "ParseDate loc s = map_option (\<lambda>d. at_civil loc d 0 0) (parse_ymd s)"

text \<open>Layout \<open>15:04\<close>: the hour may have one digit or two, the minute has two.\<close>

definition parse_hm :: "string \<Rightarrow> (nat \<times> nat) option" where
  "parse_hm s =
     (let i = (if length s \<ge> 2 \<and> is_digit (s ! 1) then 2 else 1) in
      if length s \<noteq> i + 3 \<or> s ! i \<noteq> CHR '':'' then None else
      case (parse_digits (take i s), parse_digits (drop (i + 1) s)) of
        (Some h, Some m) \<Rightarrow> if h < 24 \<and> m < 60 then Some (h, m) else None
      | _ \<Rightarrow> None)"

definition ParseHHMM :: "location \<Rightarrow> instant \<Rightarrow> string \<Rightarrow> instant option" where
  "ParseHHMM loc date hhmm =
     map_option (\<lambda>(h, m). at_civil loc (civil_date loc date) h m) (parse_hm hhmm)"

section \<open>The policy\<close>

definition AttendanceThresholdPercent :: int where "AttendanceThresholdPercent = 75"
definition AutoKillGraceMinutes :: int where "AutoKillGraceMinutes = 15"
definition AutoKillFromScheduledEnd :: bool where "AutoKillFromScheduledEnd = True"

definition SessionAutoCloseMinutes :: "int \<Rightarrow> int" where
  "SessionAutoCloseMinutes durationMin =
     (if \<not> AutoKillFromScheduledEnd then AutoKillGraceMinutes
      else (let durationMin = (if durationMin \<le> 0 then 120 else durationMin) in
            durationMin + AutoKillGraceMinutes))"

section \<open>The calendar is consistent\<close>

lemma find_year_bounds:
  "days_before_year y \<le> n \<Longrightarrow>
     days_before_year (find_year y n) \<le> n \<and> n < days_before_year (Suc (find_year y n))"
proof (induction y n rule: find_year.induct)
  case (1 y n)
  show ?case
    using 1 by (subst (1 2) find_year.simps) (simp add: not_le)
qed

lemma find_year_unique:
  assumes "days_before_year a \<le> n" "n < days_before_year (Suc a)"
    and "days_before_year b \<le> n" "n < days_before_year (Suc b)"
  shows "a = b"
proof (rule ccontr)
  assume "a \<noteq> b"
  then have "Suc a \<le> b \<or> Suc b \<le> a"
    by auto
  then show False
    using assms days_before_year_mono by (meson leD le_less_trans order_trans)
qed

lemma days_before_year_upper: "days_before_year y \<le> 366 * y"
  by (induction y) (auto simp: days_before_year_Suc year_days_def days_before_year_def [of 0])

lemma start_year: "days_before_year (n div 366) \<le> n"
  using days_before_year_upper times_div_less_eq_dividend by (rule order.trans)

lemma split_months_take:
  "k < length ls \<Longrightarrow> d < ls ! k \<Longrightarrow> split_months ls m (sum_list (take k ls) + d) = (m + k, d)"
proof (induction ls arbitrary: k m)
  case (Cons l ls)
  then show ?case
    by (cases k) (auto simp: add.assoc)
qed simp

lemma month_lengths_sum: "sum_list (month_lengths y) = year_days y"
  by (simp add: month_lengths_def year_days_def)

lemma sum_take_bound:
  "k < length ls \<Longrightarrow> d < ls ! k \<Longrightarrow> sum_list (take k ls) + d < sum_list (ls :: nat list)"
proof (induction ls arbitrary: k)
  case (Cons l ls)
  then show ?case
    by (cases k) (auto simp: add.assoc)
qed simp

lemma date_of_day_number:
  assumes "valid_date d"
  shows "date_of_day (day_number d) = d"
proof -
  let ?ls = "month_lengths (year d)" and ?k = "month d - 1" and ?n = "day_number d"
  have k: "?k < length ?ls" and e: "day d - 1 < ?ls ! ?k"
    using assms by (auto simp: valid_date_def month_lengths_def)
  have "?n < days_before_year (Suc (year d))"
    using sum_take_bound [OF k e] by (simp add: day_number_def days_before_year_Suc month_lengths_sum)
  moreover have "days_before_year (year d) \<le> ?n"
    by (simp add: day_number_def)
  ultimately have y: "find_year (?n div 366) ?n = year d"
    using find_year_unique find_year_bounds [OF start_year] by blast
  have "split_months ?ls 1 (?n - days_before_year (year d)) = (month d, day d - 1)"
    using split_months_take [OF k e, of 1] assms by (simp add: day_number_def valid_date_def)
  with y show ?thesis
    using assms by (simp add: date_of_day_def Let_def valid_date_def)
qed

lemma nat_diff_eq_iff_add: "l \<le> n \<Longrightarrow> n - l = x \<Longrightarrow> n = l + (x :: nat)"
  by simp

lemma split_months_inverse:
  "n < sum_list ls \<Longrightarrow> split_months ls m n = (m', d) \<Longrightarrow>
     m \<le> m' \<and> m' - m < length ls \<and> d < ls ! (m' - m) \<and> n = sum_list (take (m' - m) ls) + d"
proof (induction ls m n rule: split_months.induct)
  case (2 l ls m n)
  show ?case
  proof (cases "n < l")
    case True
    then show ?thesis
      using 2 by simp
  next
    case False
    then have "Suc m \<le> m' \<and> m' - Suc m < length ls \<and> d < ls ! (m' - Suc m) \<and>
        n - l = sum_list (take (m' - Suc m) ls) + d"
      using 2 by simp
    moreover from this have "m' - m = Suc (m' - Suc m)"
      by linarith
    ultimately show ?thesis
      using False nat_diff_eq_iff_add [of l n] by (simp add: not_less add.assoc)
  qed
qed simp

lemma date_of_day_valid: "valid_date (date_of_day n)"
  and day_number_date_of_day: "day_number (date_of_day n) = n"
proof -
  let ?y = "find_year (n div 366) n"
  obtain m d where split: "split_months (month_lengths ?y) 1 (n - days_before_year ?y) = (m, d)"
    by (metis surj_pair)
  have b: "days_before_year ?y \<le> n" "n < days_before_year (Suc ?y)"
    using find_year_bounds [OF start_year] by auto
  have "n - days_before_year ?y < sum_list (month_lengths ?y)"
    using b by (simp add: month_lengths_sum days_before_year_Suc)
  note inv = split_months_inverse [OF this split]
  have date: "date_of_day n = \<lparr>year = ?y, month = m, day = d + 1\<rparr>"
    by (simp only: date_of_day_def split Let_def prod.case)
  have "length (month_lengths ?y) = 12"
    by (simp add: month_lengths_def)
  then have "m \<le> 12"
    using inv by linarith
  then show "valid_date (date_of_day n)" and "day_number (date_of_day n) = n"
    using inv date nat_diff_eq_iff_add [OF b(1)] by (auto simp: valid_date_def day_number_def add.assoc)
qed

lemma valid_date_small:
  assumes "valid_date d"
  shows "month d < 100" and "day d < 100"
proof -
  have "month_lengths (year d) ! (month d - 1) \<in> set (month_lengths (year d))"
    using assms by (intro nth_mem) (auto simp: valid_date_def month_lengths_def)
  then have "month_lengths (year d) ! (month d - 1) \<le> 31"
    by (auto simp: month_lengths_def split: if_splits)
  with assms show "month d < 100" and "day d < 100"
    by (auto simp: valid_date_def)
qed

section \<open>Printing and reading dates\<close>

lemma pad2: "n < 100 \<Longrightarrow> pad_decimal 2 n = fixed_digits 2 n"
  by (rule pad_decimal_fixed) auto

lemma pad4: "n < 10000 \<Longrightarrow> pad_decimal 4 n = fixed_digits 4 n"
  by (rule pad_decimal_fixed) auto

lemma parse_digits_fixed: "0 < w \<Longrightarrow> n < 10 ^ w \<Longrightarrow> parse_digits (fixed_digits w n) = Some n"
  using fixed_digits_length [of w n]
  by (auto simp: parse_digits_def fixed_digits_digits decimal_value_fixed simp del: fixed_digits_length)

lemma parse_format_date:
  assumes "valid_date d" and "year d < 10000"
  shows "parse_ymd (format_date d) = Some d"
proof -
  let ?s = "fixed_digits 4 (year d) @ CHR ''-'' # fixed_digits 2 (month d) @ CHR ''-'' # fixed_digits 2 (day d)"
  have s: "format_date d = ?s"
    using valid_date_small [OF assms(1)] assms(2) by (simp add: format_date_def pad2 pad4)
  have "take 4 ?s = fixed_digits 4 (year d)" and "?s ! 4 = CHR ''-''"
    and "take 2 (drop 5 ?s) = fixed_digits 2 (month d)" and "?s ! 7 = CHR ''-''"
    and "drop 8 ?s = fixed_digits 2 (day d)" and "length ?s = 10"
    by (simp_all add: nth_append)
  then show ?thesis
    using valid_date_small [OF assms(1)] assms
    by (simp add: parse_ymd_def s parse_digits_fixed Let_def valid_date_def del: fixed_digits.simps)
qed

lemma parse_format_hhmm: "h < 24 \<Longrightarrow> m < 60 \<Longrightarrow> parse_hm (format_hhmm h m) = Some (h, m)"
proof -
  assume hm: "h < 24" "m < 60"
  let ?s = "fixed_digits 2 h @ CHR '':'' # fixed_digits 2 m"
  have s: "format_hhmm h m = ?s"
    using hm by (simp add: format_hhmm_def pad2)
  have "is_digit (?s ! 1)"
    using fixed_digits_digits [of 2 h] by (simp add: nth_append list_all_length)
  moreover have "take 2 ?s = fixed_digits 2 h" "?s ! 2 = CHR '':''" "drop 3 ?s = fixed_digits 2 m" "length ?s = 5"
    by (simp_all add: nth_append)
  ultimately show ?thesis
    using hm by (simp add: parse_hm_def s parse_digits_fixed Let_def del: fixed_digits.simps)
qed

section \<open>Properties of the clock\<close>

lemma day_length: "24 * hour = 86400000000000"
  by (simp add: duration_defs)

lemma hour_minute_bounds: "hour_of loc t < 24 \<and> minute_of loc t < 60"
proof -
  have a: "0 \<le> since_midnight loc t" "since_midnight loc t < 24 * hour"
    by (simp_all add: since_midnight_def duration_defs)
  then have "since_midnight loc t div hour < 24"
    by (simp add: duration_defs div_less_iff_less_mult)
  moreover have "since_midnight loc t mod hour div minute < 60"
    using pos_mod_bound [of hour "since_midnight loc t"]
    by (simp add: duration_defs div_less_iff_less_mult del: pos_mod_bound)
  ultimately show ?thesis
    using a by (simp add: hour_of_def minute_of_def nat_less_iff pos_imp_zdiv_nonneg_iff duration_defs)
qed

lemma at_civil_now:
  assumes "0 \<le> epoch_day + (t + loc) div (24 * hour)"
  shows "at_civil loc (civil_date loc t) 0 0 = t - since_midnight loc t"
proof -
  have "(t + loc) div (24 * hour) * (24 * hour) = t + loc - since_midnight loc t"
    by (simp only: since_midnight_def minus_mod_eq_div_mult)
  then show ?thesis
    using assms by (simp add: at_civil_def civil_date_def day_number_date_of_day civil_day_def)
qed

lemma clock_split:
  "int (hour_of loc t) * hour + int (minute_of loc t) * minute + since_midnight loc t mod minute
     = since_midnight loc t"
proof -
  let ?s = "since_midnight loc t"
  have nn: "0 \<le> ?s"
    by (simp add: since_midnight_def duration_defs)
  have "?s mod hour mod minute = ?s mod minute"
    by (simp add: duration_defs mod_mod_cancel)
  then have "?s mod hour = ?s mod hour div minute * minute + ?s mod minute"
    by (metis div_mult_mod_eq)
  then have "?s = ?s div hour * hour + (?s mod hour div minute * minute + ?s mod minute)"
    by (metis div_mult_mod_eq)
  moreover have "0 \<le> ?s div hour" "0 \<le> ?s mod hour div minute"
    using nn by (simp_all add: duration_defs pos_imp_zdiv_nonneg_iff)
  ultimately show ?thesis
    by (simp add: hour_of_def minute_of_def)
qed

text \<open>
  The printed civil date and wall-clock time are read back as the instants they name: the date
  as the midnight that begins the current day, the time on that date as the current minute. Both
  hold in every zone of constant offset, for the years 0 to 9999.
\<close>

theorem clock_today_roundtrip:
  assumes "0 \<le> epoch_day + (now + loc) div (24 * hour)" and "year (civil_date loc now) < 10000"
  shows "ParseDate loc (Today loc now) = Some (now - since_midnight loc now) \<and>
    ParseHHMM loc now (HHMM loc now) = Some (now - since_midnight loc now mod minute)"
proof -
  have "parse_ymd (Today loc now) = Some (civil_date loc now)"
    unfolding Today_def using assms(2) by (intro parse_format_date) (simp_all add: civil_date_def date_of_day_valid)
  moreover have "parse_hm (HHMM loc now) = Some (hour_of loc now, minute_of loc now)"
    unfolding HHMM_def using hour_minute_bounds by (intro parse_format_hhmm) auto
  moreover have "at_civil loc (civil_date loc now) (hour_of loc now) (minute_of loc now) =
      now - since_midnight loc now mod minute"
    using at_civil_now [OF assms(1)] clock_split [of loc now] by (simp add: at_civil_def)
  ultimately show ?thesis
    using at_civil_now [OF assms(1)] by (simp add: ParseDate_def ParseHHMM_def)
qed

lemma example_instant:
  "civil_day kampala (1786568700 * second) = 740206"
  "0 \<le> epoch_day + (1786568700 * second + kampala) div (24 * hour)"
  "civil_date kampala (1786568700 * second) = \<lparr>year = 2026, month = 8, day = 13\<rparr>"
proof -
  show *: "civil_day kampala (1786568700 * second) = 740206"
    by (simp add: civil_day_def kampala_def duration_defs epoch_day_def)
  show "0 \<le> epoch_day + (1786568700 * second + kampala) div (24 * hour)"
    by (simp add: kampala_def duration_defs epoch_day_def)
  show "civil_date kampala (1786568700 * second) = \<lparr>year = 2026, month = 8, day = 13\<rparr>"
    by (simp add: civil_date_def * date_of_day_def find_year.simps days_before_year_def month_lengths_def leap_def)
qed

theorem clock_today_roundtrip_witness:
  "ParseDate kampala (Today kampala (1786568700 * second)) =
     Some (1786568700 * second - since_midnight kampala (1786568700 * second))"
  using clock_today_roundtrip [of "1786568700 * second" kampala] by (simp add: example_instant)

text \<open>
  The ISO weekday is between Monday (1) and Sunday (7) and moves on by one each civil day, from
  Sunday to Monday; the minutes since midnight stay below 1440.
\<close>

theorem iso_weekday_cycle:
  assumes "0 \<le> epoch_day + (now + loc) div (24 * hour)"
  shows "1 \<le> ISOWeekday loc now \<and> ISOWeekday loc now \<le> 7 \<and>
    ISOWeekday loc (now + 24 * hour) = (if ISOWeekday loc now = 7 then 1 else ISOWeekday loc now + 1) \<and>
    MinutesSinceMidnight loc now < 1440"
proof -
  have "(now + 24 * hour + loc) div (24 * hour) = (now + loc) div (24 * hour) + 1"
    using div_mult_self1 [of "24 * hour" "now + loc" 1] by (simp add: algebra_simps duration_defs)
  then have "civil_day loc (now + 24 * hour) = civil_day loc now + 1"
    using assms by (simp add: civil_day_def nat_add_distrib add.assoc)
  then have "go_weekday loc (now + 24 * hour) = Suc (go_weekday loc now) mod 7"
    by (simp add: go_weekday_def mod_Suc_eq)
  moreover have "go_weekday loc now < 7"
    by (simp add: go_weekday_def)
  moreover have "MinutesSinceMidnight loc now < 1440"
    using hour_minute_bounds [of loc now] by (simp add: MinutesSinceMidnight_def)
  ultimately show ?thesis
    by (auto simp: ISOWeekday_def Let_def mod_Suc)
qed

theorem iso_weekday_cycle_witness:
  "ISOWeekday kampala (1786568700 * second) = 4 \<and>
   ISOWeekday kampala (1786568700 * second + 24 * hour) = 5"
proof -
  have "ISOWeekday kampala (1786568700 * second) = 4"
    by (simp add: ISOWeekday_def go_weekday_def example_instant)
  then show ?thesis
    using iso_weekday_cycle [of "1786568700 * second" kampala] by (simp add: example_instant)
qed

end
