(* ===== verification/Scheduler.thy ===== *)
theory Scheduler
  imports Go_Prelude
begin

text \<open>
  The timed jobs of the gateway (\<open>scheduler.go\<close>): the catch-up arithmetic of \<open>Plan\<close>, the sweep that
  runs the elapsed windows and moves the watermark kept in \<open>scheduled_job_runs\<close>, and the
  idempotency gate \<open>AlreadySent\<close> over \<open>notification_log\<close>.

  A job's \<open>Run\<close> acts on a world of any type \<open>'w\<close> and reports failure as an error string. Every
  database call may fail: \<open>sched_faults\<close> says which calls of one sweep do. The clock is read once per
  sweep, so it is an argument.
\<close>

section \<open>Definitions\<close>

record Window =
  From :: instant
  To :: instant

record 'w Job =
  Name :: string
  Every :: duration
  MaxCatchUp :: duration
  Run :: "Window \<Rightarrow> 'w \<Rightarrow> string option \<times> 'w"

record job_run =
  job_name :: string
  last_run_at :: instant
  last_status :: string
  last_error :: "string option"
  windows_caught_up :: nat

record 'w Scheduler =
  jobs :: "'w Job list"

record 'w sched_state =
  scheduled_job_runs :: "job_run table"
  world :: 'w

record sched_faults =
  select_fails :: bool
  insert_fails :: bool
  update_fails :: bool

definition no_faults :: sched_faults where
  "no_faults = \<lparr>select_fails = False, insert_fails = False, update_fails = False\<rparr>"

definition Register :: "'w Job \<Rightarrow> 'w Scheduler \<Rightarrow> 'w Scheduler" where
  "Register j s =
     (let j = (if Every j \<le> 0 then j\<lparr>Every := minute\<rparr> else j);
          j = (if MaxCatchUp j \<le> 0 then j\<lparr>MaxCatchUp := 6 * hour\<rparr> else j)
      in s\<lparr>jobs := jobs s @ [j]\<rparr>)"

definition maxWindowsPerSweep :: nat where "maxWindowsPerSweep = 10000"

text \<open>The loop of \<open>Plan\<close>; \<open>n\<close> is how many windows may still be appended.\<close>

fun plan_loop :: "nat \<Rightarrow> instant \<Rightarrow> instant \<Rightarrow> duration \<Rightarrow> Window list" where
  "plan_loop 0 cursor now every = []"
| "plan_loop (Suc n) cursor now every =
     (if cursor + every \<le> now
      then \<lparr>From = cursor, To = cursor + every\<rparr> # plan_loop n (cursor + every) now every
      else [])"

definition Plan :: "instant \<Rightarrow> instant \<Rightarrow> duration \<Rightarrow> duration \<Rightarrow> Window list \<times> int" where
  "Plan last_at now every maxCatchUp =
     (if every \<le> 0 then ([], 0)
      else
        let cutoff = now - maxCatchUp;
            stale = (0 < maxCatchUp \<and> last_at < cutoff);
            skipped = (if stale then quot_trunc (time_sub cutoff last_at) every else 0);
            start = (if stale then cutoff else last_at)
        in (plan_loop maxWindowsPerSweep start now every, skipped))"

text \<open>
  \<open>watermark\<close>: any error of the \<open>SELECT\<close>, also one that is not "no rows", seeds the watermark one
  window back; the \<open>INSERT\<close> then does nothing when the row is already there.
\<close>

definition watermark ::
  "sched_faults \<Rightarrow> 'w Job \<Rightarrow> instant \<Rightarrow> 'w sched_state \<Rightarrow> (string + instant) \<times> 'w sched_state" where
  "watermark f j now s =
     (case (if select_fails f then None else select_one (\<lambda>r. job_name r = Name j) (scheduled_job_runs s)) of
        Some r \<Rightarrow> (Inr (last_run_at r), s)
      | None \<Rightarrow>
          let seed = now - Every j in
          if insert_fails f then (Inl ''seed watermark'', s)
          else (Inr seed,
            if select_one (\<lambda>r. job_name r = Name j) (scheduled_job_runs s) = None
            then s\<lparr>scheduled_job_runs := scheduled_job_runs s @
                     [\<lparr>job_name = Name j, last_run_at = seed, last_status = '''', last_error = None,
                       windows_caught_up = 0\<rparr>]\<rparr>
            else s))"

definition set_run :: "instant \<Rightarrow> string \<Rightarrow> string \<Rightarrow> nat \<Rightarrow> job_run \<Rightarrow> job_run" where
  "set_run at status errMsg windows r =
     r\<lparr>last_run_at := at, last_status := status,
       last_error := (if errMsg = [] then None else Some errMsg), windows_caught_up := windows\<rparr>"

definition record_run ::
  "sched_faults \<Rightarrow> string \<Rightarrow> instant \<Rightarrow> string \<Rightarrow> string \<Rightarrow> nat \<Rightarrow> 'w sched_state \<Rightarrow> string option \<times> 'w sched_state" where
  "record_run f name at status errMsg windows s =
     (if update_fails f then (Some ''update'', s)
      else (None, s\<lparr>scheduled_job_runs :=
        update_where (\<lambda>r. job_name r = name) (set_run at status errMsg windows) (scheduled_job_runs s)\<rparr>))"

text \<open>
  The loop of \<open>sweep\<close> over the planned windows. The result is the error of the first window that
  failed, the cursor, the count of processed windows and the world.
\<close>

fun run_windows ::
  "(Window \<Rightarrow> 'w \<Rightarrow> string option \<times> 'w) \<Rightarrow> Window list \<Rightarrow> instant \<Rightarrow> nat \<Rightarrow> 'w \<Rightarrow> string option \<times> instant \<times> nat \<times> 'w" where
  "run_windows run [] cursor processed w = (None, cursor, processed, w)"
| "run_windows run (win # ws) cursor processed w =
     (case run win w of
        (Some e, w') \<Rightarrow> (Some e, cursor, processed, w')
      | (None, w') \<Rightarrow> run_windows run ws (To win) (processed + 1) w')"

definition sweep :: "sched_faults \<Rightarrow> instant \<Rightarrow> 'w Job \<Rightarrow> 'w sched_state \<Rightarrow> string option \<times> 'w sched_state" where
  "sweep f now j s =
     (case watermark f j now s of
        (Inl e, s) \<Rightarrow> (Some e, s)
      | (Inr last_at, s) \<Rightarrow>
          let (windows, skipped) = Plan last_at now (Every j) (MaxCatchUp j);
              cursor = (case windows of [] \<Rightarrow> last_at | w # _ \<Rightarrow> From w);
              (err, cursor, processed, w) = run_windows (Run j) windows cursor 0 (world s);
              s = s\<lparr>world := w\<rparr>
          in (case err of
                Some e \<Rightarrow> (Some e, snd (record_run f (Name j) cursor ''ERROR'' e processed s))
              | None \<Rightarrow> record_run f (Name j) cursor ''OK'' '''' processed s))"

text \<open>
  \<open>SweepAll\<close>: a failed job is logged and the next one runs. \<open>env\<close> gives the faults and the clock of
  each sweep in turn.
\<close>

fun SweepAll :: "(nat \<Rightarrow> sched_faults \<times> instant) \<Rightarrow> 'w Job list \<Rightarrow> 'w sched_state \<Rightarrow> 'w sched_state" where
  "SweepAll env [] s = s"
| "SweepAll env (j # js) s =
     SweepAll (\<lambda>i. env (Suc i)) js (snd (sweep (fst (env 0)) (snd (env 0)) j s))"

definition SweepOne ::
  "sched_faults \<Rightarrow> instant \<Rightarrow> string \<Rightarrow> 'w Scheduler \<Rightarrow> 'w sched_state \<Rightarrow> (bool \<times> string option) \<times> 'w sched_state" where
  "SweepOne f now name sch s =
     (case find (\<lambda>j. Name j = name) (jobs sch) of
        Some j \<Rightarrow> let (e, s') = sweep f now j s in ((True, e), s')
      | None \<Rightarrow> ((False, None), s))"

record notification =
  kind :: string
  subject_key :: string
  subject_date :: string
  recipient_user_id :: "string option"
  channels :: string

definition same_notification :: "string \<Rightarrow> string \<Rightarrow> string \<Rightarrow> notification \<Rightarrow> bool" where
  "same_notification k subj d r = (kind r = k \<and> subject_key r = subj \<and> subject_date r = d)"

text \<open>
  \<open>AlreadySent\<close>: the \<open>INSERT \<dots> ON CONFLICT DO NOTHING RETURNING true\<close> returns no row exactly when the
  notification is there. \<open>Inl ()\<close> is any other database error. The tenant is not part of the key.
\<close>

definition AlreadySent ::
  "bool \<Rightarrow> string \<Rightarrow> string \<Rightarrow> string \<Rightarrow> string \<Rightarrow> string \<Rightarrow> notification table \<Rightarrow> (unit + bool) \<times> notification table" where
  "AlreadySent db_fails k subj d recipient chs log =
     (if db_fails then (Inl (), log)
      else if select_one (same_notification k subj d) log \<noteq> None then (Inr True, log)
      else (Inr False, log @ [\<lparr>kind = k, subject_key = subj, subject_date = d,
             recipient_user_id = (if recipient = [] then None else Some recipient), channels = chs\<rparr>]))"

section \<open>The plan\<close>

definition window_at :: "instant \<Rightarrow> duration \<Rightarrow> nat \<Rightarrow> Window" where
  "window_at start every i = \<lparr>From = start + int i * every, To = start + int (Suc i) * every\<rparr>"

definition plan_start :: "instant \<Rightarrow> instant \<Rightarrow> duration \<Rightarrow> instant" where
  "plan_start last_at now maxCatchUp =
     (if 0 < maxCatchUp \<and> last_at < now - maxCatchUp then now - maxCatchUp else last_at)"

lemma window_at_simps [simp]:
  "From (window_at start every i) = start + int i * every"
  "To (window_at start every i) = start + int (Suc i) * every"
  by (simp_all add: window_at_def)

lemma window_at_shift: "window_at (start + every) every i = window_at start every (Suc i)"
  by (simp add: window_at_def algebra_simps)

lemma window_at_zero: "window_at start every 0 = \<lparr>From = start, To = start + every\<rparr>"
  by (simp add: window_at_def)

lemma div_step: "0 < every \<Longrightarrow> (now - (c + every)) div every = (now - c) div every - (1 :: int)"
  using div_mult_self1 [of every "now - c" "- 1"] by (simp add: algebra_simps)

lemma plan_loop_windows:
  assumes "0 < every"
  shows "plan_loop n c now every = map (window_at c every) [0..<min n (nat ((now - c) div every))]"
proof (induction n arbitrary: c)
  case (Suc n)
  show ?case
  proof (cases "c + every \<le> now")
    case True
    have "0 < (now - c) div every"
      using True assms by (simp add: pos_imp_zdiv_pos_iff)
    then have "min (Suc n) (nat ((now - c) div every)) = Suc (min n (nat ((now - (c + every)) div every)))"
      using div_step [OF assms, of now c] by linarith
    then show ?thesis
      using True Suc by (simp add: window_at_zero window_at_shift upt_conv_Cons map_Suc_upt [symmetric] del: upt_Suc)
  next
    case False
    then have "\<not> 0 < (now - c) div every"
      using assms by (simp add: pos_imp_zdiv_pos_iff)
    then show ?thesis
      using False by simp
  qed
qed simp

lemma Plan_windows:
  "0 < every \<Longrightarrow> fst (Plan last_at now every maxCatchUp) =
     map (window_at (plan_start last_at now maxCatchUp) every)
       [0..<min maxWindowsPerSweep (nat ((now - plan_start last_at now maxCatchUp) div every))]"
  by (simp add: Plan_def Let_def plan_start_def plan_loop_windows)

lemma window_count:
  fixes every now start :: int
  assumes "0 < every"
  shows "(0 < min m (nat ((now - start) div every)) \<longrightarrow>
      start + int (min m (nat ((now - start) div every))) * every \<le> now) \<and>
    (min m (nat ((now - start) div every)) < m \<longrightarrow>
      now < start + int (Suc (min m (nat ((now - start) div every)))) * every)"
proof -
  define q n where "q = (now - start) div every" and "n = min m (nat q)"
  have lo: "q * every \<le> now - start" and hi: "now - start < (q + 1) * every"
    using assms minus_mod_eq_div_mult [of "now - start" every]
      pos_mod_bound [of every "now - start"] pos_mod_sign [of every "now - start"]
    unfolding q_def distrib_right by linarith+
  have "start + int n * every \<le> now" if "0 < n"
  proof -
    have "int n * every \<le> q * every"
      using that assms by (intro mult_right_mono) (auto simp: n_def)
    with lo show ?thesis
      by linarith
  qed
  moreover have "now < start + int (Suc n) * every" if "n < m"
  proof -
    have "(q + 1) * every \<le> int (Suc n) * every"
      using that assms by (intro mult_right_mono) (auto simp: n_def)
    with hi show ?thesis
      by linarith
  qed
  ultimately show ?thesis
    by (simp add: q_def n_def)
qed

text \<open>
  The plan is exactly the elapsed windows: from the watermark, or from the cut-off when the
  watermark is older, consecutive windows of length \<open>every\<close>, each ending at or before now, as many as
  fit and at most ten thousand; and when the cap is not reached, what is left before now is
  shorter than one window.
\<close>

theorem plan_exact:
  assumes "0 < every" and start_def: "start = plan_start last_at now maxCatchUp"
  shows "\<exists>n. fst (Plan last_at now every maxCatchUp) = map (window_at start every) [0..<n] \<and>
    n \<le> maxWindowsPerSweep \<and> (0 < n \<longrightarrow> start + int n * every \<le> now) \<and>
    (n < maxWindowsPerSweep \<longrightarrow> now < start + int (Suc n) * every)"
  using Plan_windows [OF assms(1), of last_at now maxCatchUp] window_count [OF assms(1)]
  by (intro exI [of _ "min maxWindowsPerSweep (nat ((now - start) div every))"]) (simp add: start_def)

theorem plan_exact_witness:
  "fst (Plan 0 (3 * minute) minute hour) =
     [window_at 0 minute 0, window_at 0 minute 1, window_at 0 minute 2]"
proof -
  obtain n where n: "fst (Plan 0 (3 * minute) minute hour) = map (window_at (plan_start 0 (3 * minute) hour) minute) [0..<n]"
    "0 < n \<longrightarrow> plan_start 0 (3 * minute) hour + int n * minute \<le> 3 * minute"
    "n < maxWindowsPerSweep \<longrightarrow> 3 * minute < plan_start 0 (3 * minute) hour + int (Suc n) * minute"
    "n \<le> maxWindowsPerSweep"
    using plan_exact [of minute _ 0 "3 * minute" hour] by (auto simp: duration_defs)
  then have "n = 3"
    by (auto simp: plan_start_def duration_defs maxWindowsPerSweep_def split: if_splits)
  then show ?thesis
    using n(1) by (simp add: plan_start_def duration_defs upt_rec numeral_nat)
qed

text \<open>
  A job whose window is longer than its catch-up bound is never run: whatever the watermark
  and the time, its plan is empty. \<open>Register\<close> accepts such a job without complaint.
\<close>

theorem plan_starved:
  assumes "0 < maxCatchUp" and "maxCatchUp < every"
  shows "fst (Plan last_at now every maxCatchUp) = []"
proof -
  have "now - plan_start last_at now maxCatchUp < every"
    using assms by (auto simp: plan_start_def)
  then have "\<not> 0 < (now - plan_start last_at now maxCatchUp) div every"
    using assms by (simp add: pos_imp_zdiv_pos_iff)
  then show ?thesis
    using assms by (simp add: Plan_windows)
qed

theorem plan_starved_witness: "fst (Plan 0 (1000 * hour) (24 * hour) (6 * hour)) = []"
  by (rule plan_starved) (simp_all add: duration_defs)

section \<open>The sweep\<close>

definition watermark_of :: "'w Job \<Rightarrow> 'w sched_state \<Rightarrow> instant option" where
  "watermark_of j s = map_option last_run_at (select_one (\<lambda>r. job_name r = Name j) (scheduled_job_runs s))"

text \<open>The windows that ran without an error: a prefix of those planned.\<close>

fun run_done :: "(Window \<Rightarrow> 'w \<Rightarrow> string option \<times> 'w) \<Rightarrow> Window list \<Rightarrow> 'w \<Rightarrow> Window list" where
  "run_done run [] w = []"
| "run_done run (win # ws) w =
     (case run win w of (Some e, w') \<Rightarrow> [] | (None, w') \<Rightarrow> win # run_done run ws w')"

definition sweep_from :: "sched_faults \<Rightarrow> instant \<Rightarrow> 'w Job \<Rightarrow> 'w sched_state \<Rightarrow> instant" where
  "sweep_from f now j s =
     (case watermark_of j s of Some a \<Rightarrow> if select_fails f then now - Every j else a | None \<Rightarrow> now - Every j)"

definition swept :: "sched_faults \<Rightarrow> instant \<Rightarrow> 'w Job \<Rightarrow> 'w sched_state \<Rightarrow> Window list" where
  "swept f now j s =
     run_done (Run j) (fst (Plan (sweep_from f now j s) now (Every j) (MaxCatchUp j))) (world s)"

interpretation job_runs: keyed_update job_name "set_run at status errMsg windows"
  by unfold_locales (simp add: set_run_def)

lemma run_windows_done:
  "run_windows run ws c p w = (err, c', p', w') \<Longrightarrow>
     c' = (if run_done run ws w = [] then c else To (last (run_done run ws w))) \<and>
     p' = p + length (run_done run ws w) \<and> (err = None \<longleftrightarrow> run_done run ws w = ws)"
proof (induction ws arbitrary: c p w)
  case (Cons win ws)
  obtain e w1 where r: "run win w = (e, w1)"
    by (metis surj_pair)
  show ?case
    using Cons.prems Cons.IH [of "To win" "p + 1" w1] r by (cases e) auto
qed simp

lemma run_done_prefix: "\<exists>n. run_done run ws w = take n ws \<and> n \<le> length ws"
proof (induction ws arbitrary: w)
  case (Cons win ws)
  obtain e w' where r: "run win w = (e, w')"
    by (metis surj_pair)
  obtain n where "run_done run ws w' = take n ws" "n \<le> length ws"
    using Cons.IH by blast
  then show ?case
    using r by (cases e) (auto intro: exI [of _ 0] exI [of _ "Suc n"])
qed simp

lemma watermark_of_record:
  "watermark_of j (snd (record_run f (Name k) at st e n s)) =
     (if Name k = Name j \<and> \<not> update_fails f then map_option (\<lambda>_. at) (watermark_of j s) else watermark_of j s)"
  using job_runs.lookup_updated [of "Name k" at st e n "scheduled_job_runs s"]
    job_runs.lookup_other [of "Name j" "Name k" at st e n "scheduled_job_runs s"]
  by (auto simp: watermark_of_def record_run_def set_run_def option.map_comp comp_def)

lemma watermark_of_world [simp]: "watermark_of j (s\<lparr>world := w\<rparr>) = watermark_of j s"
  by (simp add: watermark_of_def)

text \<open>What one sweep does to the watermark of its job, the row being there.\<close>

lemma sweep_watermark:
  assumes "watermark_of j s = Some a" and "\<not> (select_fails f \<and> insert_fails f)"
  shows "watermark_of j (snd (sweep f now j s)) = Some
    (if update_fails f then a
     else if swept f now j s \<noteq> [] then To (last (swept f now j s))
     else case fst (Plan (sweep_from f now j s) now (Every j) (MaxCatchUp j)) of
            [] \<Rightarrow> sweep_from f now j s | w # _ \<Rightarrow> From w)"
proof -
  let ?l = "sweep_from f now j s"
  obtain ws k where plan: "Plan ?l now (Every j) (MaxCatchUp j) = (ws, k)"
    by (metis surj_pair)
  let ?c = "case ws of [] \<Rightarrow> ?l | w # _ \<Rightarrow> From w"
  obtain e c' p' w' where run: "run_windows (Run j) ws ?c 0 (world s) = (e, c', p', w')"
    by (metis prod_cases4)
  have wm: "watermark f j now s = (Inr ?l, s)"
    using assms by (auto simp: watermark_def sweep_from_def watermark_of_def Let_def split: option.splits)
  have c': "c' = (if swept f now j s \<noteq> [] then To (last (swept f now j s)) else ?c)"
    using run_windows_done [OF run] plan by (simp add: swept_def)
  have "snd (sweep f now j s) = snd (record_run f (Name j) c' (if e = None then ''OK'' else ''ERROR'')
      (case e of None \<Rightarrow> '''' | Some m \<Rightarrow> m) p' (s\<lparr>world := w'\<rparr>))"
    by (simp add: sweep_def wm plan run Let_def split: option.splits)
  then show ?thesis
    using assms(1) c' plan by (simp add: watermark_of_record)
qed

lemma swept_windows:
  assumes "0 < Every j"
  shows "\<exists>n. swept f now j s =
    map (window_at (plan_start (sweep_from f now j s) now (MaxCatchUp j)) (Every j)) [0..<n]"
proof -
  let ?w = "window_at (plan_start (sweep_from f now j s) now (MaxCatchUp j)) (Every j)"
  obtain m where "fst (Plan (sweep_from f now j s) now (Every j) (MaxCatchUp j)) = map ?w [0..<m]"
    using Plan_windows [OF assms] by blast
  moreover obtain n where "swept f now j s =
      take n (fst (Plan (sweep_from f now j s) now (Every j) (MaxCatchUp j)))"
    unfolding swept_def by (metis run_done_prefix)
  moreover have "take n [0..<m] = [0..<min n m]" for n m
    by (cases "n \<le> m") (simp_all add: take_upt)
  ultimately show ?thesis
    by (auto simp: take_map)
qed

lemma window_tile:
  assumes "0 < every" and "start \<le> x" and "x < start + int n * every"
  shows "\<exists>w \<in> set (map (window_at start every) [0..<n]). From w \<le> x \<and> x < To w"
proof -
  let ?i = "nat ((x - start) div every)"
  have "0 \<le> (x - start) div every"
    using assms by (simp add: pos_imp_zdiv_nonneg_iff)
  moreover have "(x - start) div every * every \<le> x - start"
    and "x - start < (x - start) div every * every + every"
    using assms(1) minus_mod_eq_div_mult [of "x - start" every]
      pos_mod_bound [of every "x - start"] pos_mod_sign [of every "x - start"] by linarith+
  moreover have "(x - start) div every < int n"
    using assms by (smt (verit) mult_right_mono calculation(2))
  ultimately have "?i < n \<and> From (window_at start every ?i) \<le> x \<and> x < To (window_at start every ?i)"
    using assms(2) by (auto simp: distrib_right)
  then show ?thesis
    by (intro bexI [of _ "window_at start every ?i"]) auto
qed

text \<open>
  The life of a job: the states reached from \<open>s0\<close> by sweeps of the job, whose completed windows are
  logged with the time of the sweep, and by sweeps of other jobs. The job may fail at any time;
  \<open>ok\<close> says which database faults its own sweeps may meet.
\<close>

inductive sweeps ::
  "(sched_faults \<Rightarrow> bool) \<Rightarrow> 'w Job \<Rightarrow> 'w sched_state \<Rightarrow> (instant \<times> Window list) list \<Rightarrow> 'w sched_state \<Rightarrow> bool"
  for ok j s0 where
  sweeps_start: "sweeps ok j s0 [] s0"
| sweeps_own: "sweeps ok j s0 h s \<Longrightarrow> ok f \<Longrightarrow>
    sweeps ok j s0 (h @ [(now, swept f now j s)]) (snd (sweep f now j s))"
| sweeps_other: "sweeps ok j s0 h s \<Longrightarrow> Name k \<noteq> Name j \<Longrightarrow> sweeps ok j s0 h (snd (sweep f now k s))"

definition reads_watermark :: "sched_faults \<Rightarrow> bool" where
  "reads_watermark f = (\<not> select_fails f)"

definition keeps_watermark :: "sched_faults \<Rightarrow> bool" where
  "keeps_watermark f = (\<not> select_fails f \<and> \<not> update_fails f)"

lemma sweep_other_watermark:
  assumes "Name k \<noteq> Name j"
  shows "watermark_of j (snd (sweep f now k s)) = watermark_of j s"
proof -
  have wm: "watermark_of j (snd (watermark f k now s)) = watermark_of j s"
    using assms by (simp add: watermark_def watermark_of_def Let_def select_one_append split: option.split)
  show ?thesis
    using assms wm by (auto simp: sweep_def Let_def watermark_of_record split: sum.splits option.splits prod.splits)
qed

text \<open>One own sweep: the watermark moves to \<open>c\<close>, and what lies between is swept or stale.\<close>

lemma sweep_progress:
  assumes "watermark_of j s = Some b" and "\<not> select_fails f" and "0 < Every j"
  shows "\<exists>c. watermark_of j (snd (sweep f now j s)) = Some c \<and> b \<le> c \<and>
    (\<forall>x. b \<le> x \<and> x < c \<longrightarrow>
       (\<exists>w \<in> set (swept f now j s). From w \<le> x \<and> x < To w) \<or> (0 < MaxCatchUp j \<and> x < now - MaxCatchUp j)) \<and>
    sorted_wrt (\<lambda>v w. To v \<le> From w) (swept f now j s) \<and>
    (\<forall>w \<in> set (swept f now j s). b \<le> From w \<and> To w = From w + Every j \<and> (\<not> update_fails f \<longrightarrow> To w \<le> c))"
proof -
  let ?start = "plan_start b now (MaxCatchUp j)"
  let ?ws = "fst (Plan b now (Every j) (MaxCatchUp j))"
  have from_b: "sweep_from f now j s = b"
    using assms by (simp add: sweep_from_def)
  obtain n where sw: "swept f now j s = map (window_at ?start (Every j)) [0..<n]"
    using swept_windows [OF assms(3)] from_b by metis
  obtain m where ws: "?ws = map (window_at ?start (Every j)) [0..<m]"
    using Plan_windows [OF assms(3)] by blast
  let ?c = "if update_fails f then b else if 0 < n then ?start + int n * Every j else if 0 < m then ?start else b"
  have hd_ws: "(case ?ws of [] \<Rightarrow> b | w # _ \<Rightarrow> From w) = (if 0 < m then ?start else b)"
    unfolding ws by (cases "0 < m") (simp_all add: upt_conv_Cons)
  have last_sw: "swept f now j s \<noteq> [] \<longleftrightarrow> 0 < n"
    "0 < n \<Longrightarrow> To (last (swept f now j s)) = ?start + int n * Every j"
    unfolding sw by (simp_all add: last_map)
  have wm: "watermark_of j (snd (sweep f now j s)) = Some ?c"
    using sweep_watermark [OF assms(1), of f now] assms(2) last_sw unfolding from_b hd_ws by simp
  have start: "b \<le> ?start" and stale: "x < ?start \<Longrightarrow> b \<le> x \<Longrightarrow> 0 < MaxCatchUp j \<and> x < now - MaxCatchUp j" for x
    by (auto simp: plan_start_def split: if_splits)
  have "0 \<le> int n * Every j"
    using assms(3) by simp
  then have "b \<le> ?c"
    using start by auto
  moreover have "(\<exists>w \<in> set (swept f now j s). From w \<le> x \<and> x < To w) \<or> (0 < MaxCatchUp j \<and> x < now - MaxCatchUp j)"
    if "b \<le> x" "x < ?c" for x
  proof (cases "x < ?start")
    case True
    then show ?thesis
      using stale that(1) by blast
  next
    case False
    then have "x < ?start + int n * Every j"
      using that start by (auto split: if_splits)
    then show ?thesis
      using window_tile [OF assms(3), of ?start x n] False sw by auto
  qed
  moreover have "sorted_wrt (\<lambda>v w. To v \<le> From w) (swept f now j s)"
    using assms(3) unfolding sw by (auto simp: sorted_wrt_map sorted_wrt_iff_nth_less intro!: mult_right_mono)
  moreover have "b \<le> From w \<and> To w = From w + Every j \<and> (\<not> update_fails f \<longrightarrow> To w \<le> ?c)"
    if w: "w \<in> set (swept f now j s)" for w
  proof -
    obtain i where i: "i < n" "w = window_at ?start (Every j) i"
      using w unfolding sw by auto
    have "0 \<le> int i * Every j" and "int (Suc i) * Every j \<le> int n * Every j"
      using assms(3) i(1) by (auto intro!: mult_right_mono simp del: of_nat_Suc)
    then show ?thesis
      using start i by (auto simp: distrib_right)
  qed
  ultimately show ?thesis
    using wm by blast
qed

text \<open>
  C3. Never silently skip: as long as the watermark can be read, every instant between where a job
  started and its watermark lies in a window that the job completed, or was older than the
  catch-up bound when a sweep passed over it. Failing jobs, failing inserts and updates, and sweeps
  of other jobs in between do not break this, and the watermark never moves back.
\<close>

theorem never_silently_skip:
  assumes "sweeps reads_watermark j s0 h s" and "watermark_of j s0 = Some a" and "0 < Every j"
  shows "\<exists>b. watermark_of j s = Some b \<and> a \<le> b \<and>
    (\<forall>x. a \<le> x \<and> x < b \<longrightarrow> (\<exists>(now, ws) \<in> set h.
       (\<exists>w \<in> set ws. From w \<le> x \<and> x < To w) \<or> (0 < MaxCatchUp j \<and> x < now - MaxCatchUp j)))"
  using assms(1)
proof (induction rule: sweeps.induct)
  case sweeps_start
  then show ?case
    using assms(2) by auto
next
  case (sweeps_own h s f now)
  then obtain b where b: "watermark_of j s = Some b" "a \<le> b"
    "\<forall>x. a \<le> x \<and> x < b \<longrightarrow> (\<exists>(now, ws) \<in> set h.
       (\<exists>w \<in> set ws. From w \<le> x \<and> x < To w) \<or> (0 < MaxCatchUp j \<and> x < now - MaxCatchUp j))"
    by blast
  obtain c where c: "watermark_of j (snd (sweep f now j s)) = Some c" "b \<le> c"
    "\<forall>x. b \<le> x \<and> x < c \<longrightarrow>
       (\<exists>w \<in> set (swept f now j s). From w \<le> x \<and> x < To w) \<or> (0 < MaxCatchUp j \<and> x < now - MaxCatchUp j)"
    using sweep_progress [OF b(1) _ assms(3)] sweeps_own.hyps(2) unfolding reads_watermark_def by blast
  show ?case
  proof (intro exI [of _ c] conjI allI impI)
    show "a \<le> c"
      using b(2) c(2) by simp
    fix x assume "a \<le> x \<and> x < c"
    then show "\<exists>(now, ws) \<in> set (h @ [(now, swept f now j s)]).
       (\<exists>w \<in> set ws. From w \<le> x \<and> x < To w) \<or> (0 < MaxCatchUp j \<and> x < now - MaxCatchUp j)"
      using b(3) c(3) by (cases "x < b") auto
  qed (rule c(1))
next
  case (sweeps_other h s k f now)
  then show ?case
    by (simp add: sweep_other_watermark)
qed

definition demo_job :: "unit Job" where
  "demo_job = \<lparr>Name = ''lecture_reminder'', Every = minute, MaxCatchUp = hour, Run = (\<lambda>_ w. (None, w))\<rparr>"

definition demo_state :: "unit sched_state" where
  "demo_state = \<lparr>scheduled_job_runs = [\<lparr>job_name = ''lecture_reminder'', last_run_at = 0, last_status = ''OK'',
     last_error = None, windows_caught_up = 0\<rparr>], world = ()\<rparr>"

lemma demo_watermark: "watermark_of demo_job demo_state = Some 0"
  by (simp add: watermark_of_def demo_job_def demo_state_def)

theorem never_silently_skip_witness:
  "\<exists>b. watermark_of demo_job (snd (sweep no_faults (3 * minute) demo_job demo_state)) = Some b \<and> 0 \<le> b"
proof -
  have "sweeps reads_watermark demo_job demo_state ([] @ [(3 * minute, swept no_faults (3 * minute) demo_job demo_state)])
      (snd (sweep no_faults (3 * minute) demo_job demo_state))"
    by (intro sweeps_own sweeps_start) (simp add: reads_watermark_def no_faults_def)
  from never_silently_skip [OF this demo_watermark] show ?thesis
    by (auto simp: demo_job_def duration_defs)
qed



text \<open>
  The reading of the watermark is the weak point: when the \<open>SELECT\<close> fails for any reason other than
  a missing row, the sweep runs one window only and then records now as the watermark, so every
  window between the old watermark and one window back is lost, uncounted and with status OK.
\<close>

theorem watermark_read_failure_skips:
  assumes "watermark_of j s = Some a" and "a < now - Every j" and "0 < Every j" and "Every j \<le> MaxCatchUp j"
    and "select_fails f" and "\<not> insert_fails f" and "\<not> update_fails f"
    and "\<And>win w. fst (Run j win w) = None"
  shows "swept f now j s = [\<lparr>From = now - Every j, To = now\<rparr>] \<and>
    watermark_of j (snd (sweep f now j s)) = Some now"
proof -
  have from_seed: "sweep_from f now j s = now - Every j"
    using assms by (simp add: sweep_from_def)
  have "plan_start (now - Every j) now (MaxCatchUp j) = now - Every j"
    using assms by (simp add: plan_start_def)
  then have "fst (Plan (now - Every j) now (Every j) (MaxCatchUp j)) = [\<lparr>From = now - Every j, To = now\<rparr>]"
    using assms(3) by (simp add: Plan_windows window_at_def maxWindowsPerSweep_def)
  then have sw: "swept f now j s = [\<lparr>From = now - Every j, To = now\<rparr>]"
    using assms(8) [of "\<lparr>From = now - Every j, To = now\<rparr>" "world s"]
    by (cases "Run j \<lparr>From = now - Every j, To = now\<rparr> (world s)") (simp add: swept_def from_seed)
  then show ?thesis
    using sweep_watermark [OF assms(1), of f now] assms(6,7) by simp
qed

theorem watermark_read_failure_skips_witness:
  "watermark_of demo_job (snd (sweep (no_faults\<lparr>select_fails := True\<rparr>) (30 * minute) demo_job demo_state)) =
     Some (30 * minute)"
  using watermark_read_failure_skips [OF demo_watermark, of "30 * minute" "no_faults\<lparr>select_fails := True\<rparr>"]
  by (simp add: no_faults_def demo_job_def duration_defs)

section \<open>Registration and the single sweep\<close>

text \<open>
  Registered jobs are well-formed: a window length and a catch-up bound are positive whatever
  the caller passed, earlier jobs are kept in order, and a sweep by name runs the job under that
  name, or reports that there is none and changes nothing.
\<close>

theorem register_sweep_one:
  assumes "\<And>k. k \<in> set (jobs sch) \<Longrightarrow> Name k \<noteq> Name j"
  shows "\<exists>j'. jobs (Register j sch) = jobs sch @ [j'] \<and> Name j' = Name j \<and> Run j' = Run j \<and>
    0 < Every j' \<and> 0 < MaxCatchUp j' \<and>
    SweepOne f now (Name j) (Register j sch) s = ((True, fst (sweep f now j' s)), snd (sweep f now j' s)) \<and>
    SweepOne f now (Name j) sch s = ((False, None), s)"
proof -
  define j' where "j' = last (jobs (Register j sch))"
  have j': "jobs (Register j sch) = jobs sch @ [j']" "Name j' = Name j" "Run j' = Run j" "0 < Every j'" "0 < MaxCatchUp j'"
    by (auto simp: j'_def Register_def Let_def duration_defs)
  have none: "find (\<lambda>k. Name k = Name j) (jobs sch) = None"
    using assms by (auto simp: find_None_iff)
  then have "find (\<lambda>k. Name k = Name j) (jobs sch @ [j']) = Some j'"
    using j'(2) select_one_append [of "\<lambda>k. Name k = Name j" "jobs sch" "[j']"] by (simp add: select_one_def)
  then show ?thesis
    using j' none by (intro exI [of _ j']) (simp add: SweepOne_def split_def Let_def)
qed

theorem register_sweep_one_witness:
  "jobs (Register (demo_job\<lparr>Every := 0\<rparr>) \<lparr>jobs = []\<rparr>) = [demo_job]"
  using register_sweep_one [of "\<lparr>jobs = []\<rparr>" "demo_job\<lparr>Every := 0\<rparr>" no_faults 0 demo_state]
  by (simp add: Register_def demo_job_def duration_defs Let_def)

section \<open>The idempotency gate\<close>

text \<open>
  What a job may rely on: a claim succeeds at most once per key, whatever is claimed in between, and a
  key is claimed exactly when it was asked for without a database error. A request is a key, the
  remaining columns of its row, and whether the database fails.
\<close>

fun ask_all :: "(bool \<Rightarrow> 'k \<Rightarrow> 'a \<Rightarrow> 's \<Rightarrow> (unit + bool) \<times> 's) \<Rightarrow> (bool \<times> 'k \<times> 'a) list \<Rightarrow> 's \<Rightarrow> (unit + bool) list \<times> 's" where
  "ask_all claim [] s = ([], s)"
| "ask_all claim ((f, k, a) # ks) s =
     (let (r, s') = claim f k a s; (rs, s'') = ask_all claim ks s' in (r # rs, s''))"

locale claim_once =
  fixes claim :: "bool \<Rightarrow> 'k \<Rightarrow> 'a \<Rightarrow> 's \<Rightarrow> (unit + bool) \<times> 's"
    and claimed :: "'k \<Rightarrow> 's \<Rightarrow> bool"
  assumes claim_fault: "claim True k a s = (Inl (), s)"
    and claim_fresh: "\<not> claimed k s \<Longrightarrow> fst (claim False k a s) = Inr False"
    and claim_taken: "claimed k s \<Longrightarrow> claim False k a s = (Inr True, s)"
    and claimed_after: "claimed k' (snd (claim False k a s)) \<longleftrightarrow> k' = k \<or> claimed k' s"
begin

lemma claimed_mono: "claimed k s \<Longrightarrow> claimed k (snd (claim f k' a s))"
  using claimed_after claim_fault by (cases f) auto

lemma granted_claims: "fst (claim f k a s) = Inr False \<Longrightarrow> claimed k (snd (claim f k a s))"
  using claim_fault claimed_after by (cases f) auto

lemma claimed_never_granted:
  "claimed k s \<Longrightarrow> i < length ks \<Longrightarrow> fst (snd (ks ! i)) = k \<Longrightarrow> fst (ask_all claim ks s) ! i \<noteq> Inr False"
proof (induction ks arbitrary: s i)
  case (Cons q ks)
  obtain f k' a where q: "q = (f, k', a)"
    by (metis prod_cases3)
  have "claimed k (snd (claim f k' a s))"
    using Cons.prems(1) by (rule claimed_mono)
  moreover have "fst (claim f k a s) \<noteq> Inr False"
    using Cons.prems(1) claim_fault claim_taken by (cases f) auto
  ultimately show ?case
    using Cons q by (cases i) (auto simp: split_def Let_def)
qed simp

lemma granted_once:
  "i < j \<Longrightarrow> j < length ks \<Longrightarrow> fst (snd (ks ! i)) = fst (snd (ks ! j)) \<Longrightarrow>
     fst (ask_all claim ks s) ! i = Inr False \<Longrightarrow> fst (ask_all claim ks s) ! j \<noteq> Inr False"
proof (induction ks arbitrary: s i j)
  case (Cons q ks)
  obtain f k a where q: "q = (f, k, a)"
    by (metis prod_cases3)
  obtain j' where j': "j = Suc j'"
    using Cons.prems by (cases j) auto
  show ?case
  proof (cases i)
    case 0
    then have "claimed k (snd (claim f k a s))"
      using Cons.prems(4) q granted_claims by (auto simp: split_def Let_def)
    then show ?thesis
      using claimed_never_granted Cons.prems q j' 0 by (auto simp: split_def Let_def)
  next
    case (Suc i')
    then show ?thesis
      using Cons q j' by (auto simp: split_def Let_def)
  qed
qed simp

lemma first_granted:
  "\<not> claimed k s \<Longrightarrow> i < length ks \<Longrightarrow> ks ! i = (False, k, a) \<Longrightarrow>
     (\<forall>j < i. fst (snd (ks ! j)) \<noteq> k) \<Longrightarrow> fst (ask_all claim ks s) ! i = Inr False"
proof (induction ks arbitrary: s i)
  case (Cons q ks)
  obtain f k' b where q: "q = (f, k', b)"
    by (metis prod_cases3)
  show ?case
  proof (cases i)
    case 0
    then show ?thesis
      using Cons.prems q claim_fresh by (auto simp: split_def Let_def)
  next
    case (Suc i')
    then have "\<not> claimed k (snd (claim f k' b s))"
      using Cons.prems q claimed_after claim_fault by (cases f) (auto dest: spec [of _ 0])
    moreover have "\<forall>j < i'. fst (snd (ks ! j)) \<noteq> k"
      using Cons.prems(4) Suc by (auto dest: spec [of _ "Suc _"])
    ultimately show ?thesis
      using Cons.IH Cons.prems Suc q by (simp add: split_def Let_def)
  qed
qed simp

end

fun notify_claim ::
  "bool \<Rightarrow> string \<times> string \<times> string \<Rightarrow> string \<times> string \<Rightarrow> notification table \<Rightarrow> (unit + bool) \<times> notification table" where
  "notify_claim f (k, subj, d) (recipient, chs) log = AlreadySent f k subj d recipient chs log"

definition notified :: "string \<times> string \<times> string \<Rightarrow> notification table \<Rightarrow> bool" where
  "notified key log = (\<exists>r \<in> set log. (kind r, subject_key r, subject_date r) = key)"

lemma select_notification: "select_one (same_notification k subj d) log = None \<longleftrightarrow> \<not> notified (k, subj, d) log"
  by (auto simp: select_one_None same_notification_def notified_def)

lemma AlreadySent_cases:
  "AlreadySent True k subj d rc chs log = (Inl (), log)"
  "notified (k, subj, d) log \<Longrightarrow> AlreadySent False k subj d rc chs log = (Inr True, log)"
  "\<not> notified (k, subj, d) log \<Longrightarrow> fst (AlreadySent False k subj d rc chs log) = Inr False"
  "notified key (snd (AlreadySent False k subj d rc chs log)) \<longleftrightarrow> key = (k, subj, d) \<or> notified key log"
  by (auto simp: AlreadySent_def select_notification) (auto simp: notified_def)

interpretation notifications: claim_once notify_claim notified
proof
  fix k :: "string \<times> string \<times> string" and a :: "string \<times> string" and s
  obtain k1 k2 k3 a1 a2 where "k = (k1, k2, k3)" "a = (a1, a2)"
    by (metis prod_cases3 surj_pair)
  note eqs = this
  show "notify_claim True k a s = (Inl (), s)"
    by (simp add: eqs AlreadySent_cases)
  show "fst (notify_claim False k a s) = Inr False" if "\<not> notified k s"
    using that by (simp add: eqs AlreadySent_cases)
  show "notify_claim False k a s = (Inr True, s)" if "notified k s"
    using that by (simp add: eqs AlreadySent_cases)
  show "notified k' (snd (notify_claim False k a s)) \<longleftrightarrow> k' = k \<or> notified k' s" for k'
    by (simp add: eqs AlreadySent_cases)
qed

text \<open>
  At most one delivery: over any sequence of calls of \<open>AlreadySent\<close>, database errors included,
  of two calls for one kind, subject and date at most one answers "not sent yet", and the first
  call for a fresh key that meets no error does.
\<close>

theorem notification_sent_once:
  assumes "i < j" and "j < length qs" and "fst (snd (qs ! i)) = fst (snd (qs ! j))"
  shows "\<not> (fst (ask_all notify_claim qs log) ! i = Inr False \<and> fst (ask_all notify_claim qs log) ! j = Inr False) \<and>
    (\<not> notified (fst (snd (qs ! i))) log \<and> \<not> fst (qs ! i) \<and> (\<forall>m < i. fst (snd (qs ! m)) \<noteq> fst (snd (qs ! i))) \<longrightarrow>
       fst (ask_all notify_claim qs log) ! i = Inr False)"
proof -
  obtain f k a where q: "qs ! i = (f, k, a)"
    by (metis prod_cases3)
  have "i < length qs"
    using assms by simp
  then show ?thesis
    using notifications.granted_once [OF assms] notifications.first_granted [of k log i qs a] q by simp
qed

theorem notification_sent_once_witness:
  "fst (ask_all notify_claim [(False, (''LECTURE_REMINDER'', ''u1'', ''2026-08-13''), (''lect-1'', ''email'')),
      (False, (''LECTURE_REMINDER'', ''u1'', ''2026-08-13''), (''lect-1'', ''push''))] []) ! 0 = Inr False"
  using notification_sent_once [of 0 1 "[(False, (''LECTURE_REMINDER'', ''u1'', ''2026-08-13''), (''lect-1'', ''email'')),
      (False, (''LECTURE_REMINDER'', ''u1'', ''2026-08-13''), (''lect-1'', ''push''))]" "[]"]
  by (simp add: notified_def)

end
