(* ===== verification/Migrate.thy ===== *)
theory Migrate
  imports Crypto_Lib "HOL-Library.Multiset"
begin

text \<open>
  The schema migrations (\<open>migrate.go\<close>): reading and ordering the files of \<open>db/migrations\<close>, splitting a
  file into statements, classifying database errors, and applying each pending migration once, in
  one transaction, with its row of the \<open>schema_migrations\<close> ledger.

  The database server is not part of the program: \<open>exec\<close> runs one statement on a schema of any type
  and answers with the new schema or an error. The ledger is a table beside it, \<open>None\<close> when it was
  never created. Which calls other than the statements fail is given by \<open>mig_faults\<close>. SQL text is a
  list of bytes; the splitter looks at ASCII characters only, so the bytes of other code points are
  copied like any other character.
\<close>

section \<open>Files\<close>

record Migration =
  Version :: string
  MName :: string
  FileName :: string
  SQL :: string
  Checksum :: string

datatype mig_error =
    ReadDirFailed | DuplicateVersion string | ReadFileFailed string | NoMigrations
  | UnknownVersion string | LedgerFailed | QueryFailed | BeginFailed | SavepointFailed | ReleaseFailed
  | StatementFailed nat | RollbackFailed | RecordFailed | CommitFailed

text \<open>
  \<^verbatim>\<open>^(\d{3,})_(.+)\.sql$\<close>: the first group is greedy but stops at the first underscore, which is no
  digit; the second needs a character and holds no newline.
\<close>

definition ParseFileName :: "string \<Rightarrow> (string \<times> string) option" where
  "ParseFileName fileName =
     (let version = takeWhile is_digit fileName; rest = dropWhile is_digit fileName in
      case rest of
        c # tail \<Rightarrow>
          let name = take (length tail - 4) tail in
          if 3 \<le> length version \<and> c = CHR ''_'' \<and> has_suffix tail ''.sql'' \<and> name \<noteq> [] \<and> CHR 0x0A \<notin> set name
          then Some (version, name) else None
      | [] \<Rightarrow> None)"

text \<open>A directory entry: its name, whether it is a directory, and its contents if readable.\<close>

record dir_entry =
  entry_name :: string
  is_dir :: bool
  content :: "string option"

fun load_entries :: "dir_entry list \<Rightarrow> (string \<times> string) list \<Rightarrow> Migration list \<Rightarrow> mig_error + Migration list" where
  "load_entries [] seen out = Inr out"
| "load_entries (e # es) seen out =
     (if is_dir e then load_entries es seen out
      else case ParseFileName (entry_name e) of
        None \<Rightarrow> load_entries es seen out
      | Some (version, name) \<Rightarrow>
          if map_of seen version \<noteq> None then Inl (DuplicateVersion version)
          else case content e of
            None \<Rightarrow> Inl (ReadFileFailed (entry_name e))
          | Some body \<Rightarrow>
              load_entries es ((version, entry_name e) # seen)
                (out @ [\<lparr>Version = version, MName = name, FileName = entry_name e, SQL = body,
                   Checksum = hex_encode (sha256 (bytes_of body))\<rparr>]))"

definition lessOrEqual :: "string \<Rightarrow> string \<Rightarrow> bool" where
  "lessOrEqual a b = (if length a \<noteq> length b then length a < length b else a \<le> b)"

definition less_version :: "string \<Rightarrow> string \<Rightarrow> bool" where
  "less_version a b = (if length a \<noteq> length b then length a < length b else a < b)"

text \<open>
  \<open>sort.Slice\<close> with the comparison \<open>less_version\<close>. The library leaves the order of equal elements
  open; versions are distinct after loading, and then every sort gives this result.
\<close>

fun insert_migration :: "Migration \<Rightarrow> Migration list \<Rightarrow> Migration list" where
  "insert_migration m [] = [m]"
| "insert_migration m (n # ns) =
     (if less_version (Version n) (Version m) then n # insert_migration m ns else m # n # ns)"

definition SortMigrations :: "Migration list \<Rightarrow> Migration list" where
  "SortMigrations ms = foldr insert_migration ms []"

definition Load :: "dir_entry list option \<Rightarrow> mig_error + Migration list" where
  "Load dir =
     (case dir of None \<Rightarrow> Inl ReadDirFailed
      | Some entries \<Rightarrow>
          (case load_entries entries [] [] of
             Inl e \<Rightarrow> Inl e
           | Inr out \<Rightarrow> if out = [] then Inl NoMigrations else Inr (SortMigrations out)))"

definition UpTo :: "Migration list \<Rightarrow> string \<Rightarrow> Migration list option" where
  "UpTo all version =
     (if \<not> list_ex (\<lambda>m. Version m = version) all then None
      else Some (filter (\<lambda>m. lessOrEqual (Version m) version) all))"

definition Pending :: "Migration list \<Rightarrow> (string \<Rightarrow> bool) \<Rightarrow> Migration list" where
  "Pending all applied = filter (\<lambda>m. \<not> applied (Version m)) all"

section \<open>Splitting a file into statements\<close>

definition prepend :: "string \<Rightarrow> string \<times> string \<Rightarrow> string \<times> string" where
  "prepend w p = (w @ fst p, snd p)"

text \<open>Each scanner returns what it copied and what is left of the input.\<close>

fun line_comment :: "string \<Rightarrow> string \<times> string" where
  "line_comment [] = ([], [])"
| "line_comment (c # cs) = (if c = CHR 0x0A then ([c], cs) else prepend [c] (line_comment cs))"

fun block_comment :: "int \<Rightarrow> string \<Rightarrow> string \<times> string" where
  "block_comment depth [] = ([], [])"
| "block_comment depth [c] = ([c], [])"
| "block_comment depth (c # d # cs) =
     (if c = CHR ''/'' \<and> d = CHR ''*'' then prepend [c, d] (block_comment (depth + 1) cs)
      else if c = CHR ''*'' \<and> d = CHR ''/'' then
        (if depth - 1 = 0 then ([c, d], cs) else prepend [c, d] (block_comment (depth - 1) cs))
      else prepend [c] (block_comment depth (d # cs)))"

fun quoted :: "char \<Rightarrow> string \<Rightarrow> string \<times> string" where
  "quoted q [] = ([], [])"
| "quoted q [c] = ([c], [])"
| "quoted q (c # d # cs) =
     (if c = q then (if d = q then prepend [c, d] (quoted q cs) else ([c], d # cs))
      else prepend [c] (quoted q (d # cs)))"

definition tag_letter :: "char \<Rightarrow> bool" where
  "tag_letter c = (let n = (of_char c :: nat) in
     c = CHR ''_'' \<or> (97 \<le> n \<and> n \<le> 122) \<or> (65 \<le> n \<and> n \<le> 90))"

fun tag_body :: "bool \<Rightarrow> string \<Rightarrow> string" where
  "tag_body first [] = []"
| "tag_body first (c # cs) =
     (if tag_letter c \<or> (\<not> first \<and> is_digit c) then c # tag_body False cs else [])"

definition dollarTagAt :: "string \<Rightarrow> string option" where
  "dollarTagAt runes =
     (case runes of
        c # cs \<Rightarrow>
          if c \<noteq> CHR ''$'' then None
          else let body = tag_body True cs in
            (case drop (length body) cs of
               d # _ \<Rightarrow> if d = CHR ''$'' then Some (c # body @ [d]) else None
             | [] \<Rightarrow> None)
      | [] \<Rightarrow> None)"

fun dollar_body :: "string \<Rightarrow> string \<Rightarrow> string \<times> string" where
  "dollar_body tag [] = ([], [])"
| "dollar_body tag (c # cs) =
     (if c = CHR ''$'' \<and> dollarTagAt (c # cs) = Some tag then (tag, drop (length tag) (c # cs))
      else prepend [c] (dollar_body tag cs))"

text \<open>One turn of the main loop on an input that does not start with a semicolon.\<close>

definition scan_lexeme :: "string \<Rightarrow> string \<times> string" where
  "scan_lexeme s =
     (case s of [] \<Rightarrow> ([], [])
      | c # cs \<Rightarrow>
          if c = CHR ''-'' \<and> has_prefix cs ''-'' then line_comment s
          else if c = CHR ''/'' \<and> has_prefix cs ''*'' then block_comment 0 s
          else if c = CHR 0x27 then prepend [c] (quoted c cs)
          else if c = CHR 0x22 then prepend [c] (quoted c cs)
          else if c = CHR ''$'' then
            (case dollarTagAt s of
               Some tag \<Rightarrow> prepend tag (dollar_body tag (drop (length tag) s))
             | None \<Rightarrow> ([c], cs))
          else ([c], cs))"

text \<open>The scanners copy their input: what was copied and what is left make up the input.\<close>

lemma prepend_simps [simp]: "fst (prepend w p) = w @ fst p" "snd (prepend w p) = snd p"
  by (simp_all add: prepend_def)

lemma line_comment_copies: "fst (line_comment s) @ snd (line_comment s) = s"
  by (induction s) auto

lemma block_comment_copies: "fst (block_comment d s) @ snd (block_comment d s) = s"
  by (induction d s rule: block_comment.induct) auto

lemma quoted_copies: "fst (quoted q s) @ snd (quoted q s) = s"
  by (induction q s rule: quoted.induct) auto

lemma tag_body_prefix: "tag_body first s = take (length (tag_body first s)) s"
  by (induction first s rule: tag_body.induct) auto

lemma dollarTagAt_prefix:
  assumes "dollarTagAt s = Some tag"
  shows "tag = take (length tag) s \<and> tag \<noteq> [] \<and> s = tag @ drop (length tag) s"
proof -
  obtain cs where s: "s = CHR ''$'' # cs"
    using assms by (auto simp: dollarTagAt_def split: list.splits if_splits)
  then obtain rest where tag: "tag = CHR ''$'' # tag_body True cs @ [CHR ''$'']"
    and rest: "drop (length (tag_body True cs)) cs = CHR ''$'' # rest"
    using assms by (auto simp: dollarTagAt_def Let_def split: list.splits if_splits)
  have "cs = tag_body True cs @ CHR ''$'' # rest"
    using rest tag_body_prefix [of True cs] by (metis append_take_drop_id)
  then have "s = tag @ rest"
    using s tag by simp
  then show ?thesis
    using tag by simp
qed

lemma dollar_body_copies: "fst (dollar_body tag s) @ snd (dollar_body tag s) = s"
  by (induction tag s rule: dollar_body.induct) (auto dest: dollarTagAt_prefix)

lemma scan_lexeme_copies: "fst (scan_lexeme s) @ snd (scan_lexeme s) = s"
proof (cases s)
  case (Cons c cs)
  then show ?thesis
    using line_comment_copies [of s] block_comment_copies [of 0 s]
    by (auto simp: scan_lexeme_def quoted_copies dollar_body_copies dest: dollarTagAt_prefix split: option.split)
qed (simp add: scan_lexeme_def)

lemma block_comment_progress: "s \<noteq> [] \<Longrightarrow> fst (block_comment d s) \<noteq> []"
  by (cases "(d, s)" rule: block_comment.cases) auto

lemma scan_lexeme_progress: "s \<noteq> [] \<Longrightarrow> fst (scan_lexeme s) \<noteq> []"
  using block_comment_progress [of s 0]
  by (cases s) (auto simp: scan_lexeme_def dest: dollarTagAt_prefix split: option.split)

lemma scan_lexeme_shorter: "s \<noteq> [] \<Longrightarrow> length (snd (scan_lexeme s)) < length s"
  using scan_lexeme_copies [of s] scan_lexeme_progress [of s]
  by (metis length_append less_add_same_cancel2 length_greater_0_conv)

definition flush :: "string list \<Rightarrow> string \<Rightarrow> string list" where
  "flush out cur = (let s = trim_space cur in if s \<noteq> [] then out @ [s] else out)"

function split_loop :: "string list \<Rightarrow> string \<Rightarrow> string \<Rightarrow> string list" where
  "split_loop out cur s =
     (case s of [] \<Rightarrow> flush out cur
      | c # cs \<Rightarrow>
          if c = CHR '';'' then split_loop (flush out cur) [] cs
          else split_loop out (cur @ fst (scan_lexeme s)) (snd (scan_lexeme s)))"
  by pat_completeness auto
termination
  by (relation "measure (\<lambda>(out, cur, s). length s)") (use scan_lexeme_shorter [of "_ # _"] in auto)

declare split_loop.simps [simp del]

definition SplitStatements :: "string \<Rightarrow> string list" where
  "SplitStatements sql = split_loop [] [] sql"

section \<open>Classifying errors\<close>

text \<open>An error of the server carries its SQLSTATE; any other error (a lost connection) does not.\<close>

datatype sql_error = PgError string | OtherError

definition IsDuplicateObject :: "sql_error \<Rightarrow> bool" where
  "IsDuplicateObject err =
     (case err of PgError code \<Rightarrow> code \<in> set [''42P07'', ''42710'', ''42701'', ''42723'', ''42P06'', ''42712'']
      | OtherError \<Rightarrow> False)"

fun index_of :: "string \<Rightarrow> string \<Rightarrow> nat option" where
  "index_of [] p = (if p = [] then Some 0 else None)"
| "index_of (c # cs) p = (if has_prefix (c # cs) p then Some 0 else map_option Suc (index_of cs p))"

lemma trim_space_length: "length (trim_space s) \<le> length s"
  using length_dropWhile_le [of is_space "rev (dropWhile is_space s)"] length_dropWhile_le [of is_space s]
  by (simp add: trim_space_def trim_left_def trim_right_def)

lemma drop_trim_shorter: "has_prefix (trim_space s) (c # p) \<Longrightarrow> length (drop (Suc i) (trim_space s)) < length s"
  using trim_space_length [of s] by (cases "trim_space s") (auto simp: has_prefix_def)

function stripLeadingComments :: "string \<Rightarrow> string" where
  "stripLeadingComments stmt =
     (let s = trim_space stmt in
      if has_prefix s ''--'' then
        (case index_byte s (CHR 0x0A) of Some i \<Rightarrow> stripLeadingComments (drop (i + 1) s) | None \<Rightarrow> [])
      else if has_prefix s ''/*'' then
        (case index_of s ''*/'' of Some i \<Rightarrow> stripLeadingComments (drop (i + 2) s) | None \<Rightarrow> [])
      else s)"
  by pat_completeness auto
termination
  by (relation "measure length") (use drop_trim_shorter in auto)

declare stripLeadingComments.simps [simp del]

text \<open>
  \<^verbatim>\<open>(?is)^\s*DROP\s+[A-Z ]+\s+IF\s+EXISTS\b\<close>. The two repetitions after the keyword may share
  blanks, so the match tries every split; \<open>re_space\<close> is the class \<open>\s\<close>, which has no vertical tab.
\<close>

definition re_space :: "char \<Rightarrow> bool" where
  "re_space c = (let n = (of_char c :: nat) in n = 32 \<or> n = 9 \<or> n = 10 \<or> n = 12 \<or> n = 13)"

definition letter_or_blank :: "char \<Rightarrow> bool" where
  "letter_or_blank c = (let n = (of_char c :: nat) in (65 \<le> n \<and> n \<le> 90) \<or> n = 32)"

definition word_char :: "char \<Rightarrow> bool" where
  "word_char c = (tag_letter c \<or> is_digit c)"

definition match_word :: "string \<Rightarrow> string \<Rightarrow> string option" where
  "match_word w s = (if has_prefix s w then Some (drop (length w) s) else None)"

definition match_if_exists :: "string \<Rightarrow> bool" where
  "match_if_exists s =
     (s \<noteq> [] \<and> re_space (hd s) \<and>
      (case match_word ''IF'' (dropWhile re_space s) of
         None \<Rightarrow> False
       | Some t \<Rightarrow> t \<noteq> [] \<and> re_space (hd t) \<and>
           (case match_word ''EXISTS'' (dropWhile re_space t) of
              None \<Rightarrow> False | Some u \<Rightarrow> u = [] \<or> \<not> word_char (hd u))))"

definition match_kind :: "string \<Rightarrow> bool" where
  "match_kind s = list_ex (\<lambda>i. list_all letter_or_blank (take i s) \<and> match_if_exists (drop i s)) [1..<length s + 1]"

definition dropIfExistsPattern :: "string \<Rightarrow> bool" where
  "dropIfExistsPattern s =
     (case match_word ''DROP'' (dropWhile re_space (to_upper s)) of
        None \<Rightarrow> False
      | Some t \<Rightarrow> list_ex (\<lambda>i. list_all re_space (take i t) \<and> match_kind (drop i t)) [1..<length t + 1])"

definition AdoptSkippable :: "string \<Rightarrow> sql_error \<Rightarrow> bool" where
  "AdoptSkippable stmt err =
     (if IsDuplicateObject err then True
      else case err of
        OtherError \<Rightarrow> False
      | PgError code \<Rightarrow>
          if code \<in> set [''42809'', ''2BP01''] then dropIfExistsPattern (stripLeadingComments stmt) else False)"

section \<open>The ledger and the run\<close>

record ledger_row =
  version :: string
  lname :: string
  checksum :: string
  adopted :: bool
  statements :: nat
  skipped :: nat

record 'db database =
  ledger :: "ledger_row table option"
  schema :: 'db

record mig_faults =
  ddl_fails :: bool
  query_fails :: bool
  begin_fails :: bool
  savepoint_fails :: "nat \<Rightarrow> bool"
  release_fails :: "nat \<Rightarrow> bool"
  rollback_fails :: "nat \<Rightarrow> bool"
  insert_fails :: bool
  commit_fails :: bool

record Result =
  Mig :: Migration
  Statements :: nat
  Skipped :: nat
  Adopted :: bool

record Options =
  Adopt :: bool
  DryRun :: bool

definition EnsureLedger :: "mig_faults \<Rightarrow> 'db database \<Rightarrow> mig_error option \<times> 'db database" where
  "EnsureLedger f db =
     (if ddl_fails f then (Some LedgerFailed, db)
      else (None, db\<lparr>ledger := (case ledger db of None \<Rightarrow> Some [] | Some rows \<Rightarrow> Some rows)\<rparr>))"

text \<open>A missing ledger table (SQLSTATE 42P01) reads as an empty one.\<close>

definition Applied :: "mig_faults \<Rightarrow> 'db database \<Rightarrow> mig_error + (string \<Rightarrow> bool)" where
  "Applied f db =
     (if query_fails f then Inl QueryFailed
      else Inr (case ledger db of None \<Rightarrow> (\<lambda>_. False) | Some rows \<Rightarrow> (\<lambda>v. list_ex (\<lambda>r. version r = v) rows)))"

definition ledger_insert :: "ledger_row \<Rightarrow> ledger_row table \<Rightarrow> ledger_row table" where
  "ledger_insert row rows = (if list_ex (\<lambda>r. version r = version row) rows then rows else rows @ [row])"

definition refresh_row :: "ledger_row \<Rightarrow> ledger_row \<Rightarrow> ledger_row" where
  "refresh_row row r = r\<lparr>checksum := checksum row, adopted := adopted row,
     statements := statements row, skipped := skipped row\<rparr>"

definition ledger_upsert :: "ledger_row \<Rightarrow> ledger_row table \<Rightarrow> ledger_row table" where
  "ledger_upsert row rows =
     (if list_ex (\<lambda>r. version r = version row) rows
      then update_where (\<lambda>r. version r = version row) (refresh_row row) rows
      else rows @ [row])"

text \<open>
  The statement loop inside the transaction: statement \<open>i\<close> of the list runs between a savepoint and
  its release; the result is the error, or the number of skipped statements and the new schema.
\<close>

fun apply_statements ::
  "(string \<Rightarrow> 'db \<Rightarrow> sql_error + 'db) \<Rightarrow> mig_faults \<Rightarrow> bool \<Rightarrow> nat \<Rightarrow> string list \<Rightarrow> nat \<Rightarrow> 'db \<Rightarrow> mig_error + nat \<times> 'db" where
  "apply_statements exec f adopt i [] skips d = Inr (skips, d)"
| "apply_statements exec f adopt i (stmt # stmts) skips d =
     (if savepoint_fails f i then Inl SavepointFailed
      else case exec stmt d of
        Inr d' \<Rightarrow>
          if release_fails f i then Inl ReleaseFailed
          else apply_statements exec f adopt (Suc i) stmts skips d'
      | Inl err \<Rightarrow>
          if \<not> adopt \<or> \<not> AdoptSkippable stmt err then Inl (StatementFailed (Suc i))
          else if rollback_fails f i then Inl RollbackFailed
          else apply_statements exec f adopt (Suc i) stmts (Suc skips) d)"

text \<open>
  \<open>Apply\<close>: the transaction works on a copy, and only a successful commit makes it the database. The
  insert also fails when the ledger table is missing.
\<close>

definition Apply ::
  "(string \<Rightarrow> 'db \<Rightarrow> sql_error + 'db) \<Rightarrow> mig_faults \<Rightarrow> Options \<Rightarrow> Migration \<Rightarrow> 'db database \<Rightarrow> (mig_error + Result) \<times> 'db database" where
  "Apply exec f opts m db =
     (let stmts = SplitStatements (SQL m);
          res = \<lparr>Mig = m, Statements = length stmts, Skipped = 0, Adopted = False\<rparr>
      in if DryRun opts then (Inr res, db)
         else if begin_fails f then (Inl BeginFailed, db)
         else case apply_statements exec f (Adopt opts) 0 stmts 0 (schema db) of
           Inl e \<Rightarrow> (Inl e, db)
         | Inr (skips, d) \<Rightarrow>
             let res = res\<lparr>Skipped := skips, Adopted := 0 < skips\<rparr> in
             (case (if insert_fails f then None else ledger db) of
                None \<Rightarrow> (Inl RecordFailed, db)
              | Some rows \<Rightarrow>
                  if commit_fails f then (Inl CommitFailed, db)
                  else (Inr res, db\<lparr>schema := d, ledger := Some (ledger_upsert
                    \<lparr>version = Version m, lname = MName m, checksum = Checksum m, adopted = Adopted res,
                     statements = Statements res, skipped = skips\<rparr> rows)\<rparr>)))"

fun apply_all ::
  "(string \<Rightarrow> 'db \<Rightarrow> sql_error + 'db) \<Rightarrow> (string \<Rightarrow> mig_faults) \<Rightarrow> Options \<Rightarrow> Migration list \<Rightarrow> Result list \<Rightarrow> 'db database \<Rightarrow>
     (mig_error option \<times> Result list) \<times> 'db database" where
  "apply_all exec f opts [] results db = ((None, results), db)"
| "apply_all exec f opts (m # ms) results db =
     (case Apply exec (f (Version m)) opts m db of
        (Inl e, db') \<Rightarrow> ((Some e, results), db')
      | (Inr res, db') \<Rightarrow> apply_all exec f opts ms (results @ [res]) db')"

text \<open>\<open>Up\<close>: \<open>f0\<close> gives the faults of its own calls and \<open>f\<close> those of each migration.\<close>

definition Up ::
  "(string \<Rightarrow> 'db \<Rightarrow> sql_error + 'db) \<Rightarrow> mig_faults \<Rightarrow> (string \<Rightarrow> mig_faults) \<Rightarrow> dir_entry list option \<Rightarrow> Options \<Rightarrow>
     'db database \<Rightarrow> (mig_error option \<times> Result list) \<times> 'db database" where
  "Up exec f0 f dir opts db =
     (case Load dir of
        Inl e \<Rightarrow> ((Some e, []), db)
      | Inr all \<Rightarrow>
          (case EnsureLedger f0 db of
             (Some e, db) \<Rightarrow> ((Some e, []), db)
           | (None, db) \<Rightarrow>
               (case Applied f0 db of
                  Inl e \<Rightarrow> ((Some e, []), db)
                | Inr applied \<Rightarrow>
                    let pending = Pending all applied in
                    if pending = [] then ((None, []), db) else apply_all exec f opts pending [] db)))"

fun baseline_rows :: "(string \<Rightarrow> bool) \<Rightarrow> Migration list \<Rightarrow> ledger_row table \<Rightarrow> mig_error option \<times> ledger_row table" where
  "baseline_rows fails [] rows = (None, rows)"
| "baseline_rows fails (m # ms) rows =
     (if fails (Version m) then (Some RecordFailed, rows)
      else baseline_rows fails ms (ledger_insert
        \<lparr>version = Version m, lname = MName m, checksum = Checksum m, adopted = True, statements = 0, skipped = 0\<rparr> rows))"

definition Baseline ::
  "mig_faults \<Rightarrow> (string \<Rightarrow> bool) \<Rightarrow> Migration list \<Rightarrow> string \<Rightarrow> 'db database \<Rightarrow> (mig_error + Migration list) \<times> 'db database" where
  "Baseline f0 fails all v db =
     (case UpTo all v of
        None \<Rightarrow> (Inl (UnknownVersion v), db)
      | Some selected \<Rightarrow>
          (case EnsureLedger f0 db of
             (Some e, db) \<Rightarrow> (Inl e, db)
           | (None, db) \<Rightarrow>
               let (e, rows) = baseline_rows fails selected (case ledger db of None \<Rightarrow> [] | Some rows \<Rightarrow> rows);
                   db = db\<lparr>ledger := Some rows\<rparr>
               in (case e of Some err \<Rightarrow> (Inl err, db) | None \<Rightarrow> (Inr selected, db))))"

definition truncate :: "string \<Rightarrow> nat \<Rightarrow> string" where
  "truncate s n = (let s = trim_space s in if length s \<le> n then s else take n s @ [CHR 0x20, CHR 0xE2, CHR 0x80, CHR 0xA6])"

section \<open>Versions are ordered\<close>

text \<open>The comparison of \<open>SortMigrations\<close> and \<open>lessOrEqual\<close> is one linear order.\<close>

interpretation version_order: linorder lessOrEqual less_version
proof
  fix x y z :: string
  show "less_version x y = (lessOrEqual x y \<and> \<not> lessOrEqual y x)"
    by (auto simp: less_version_def lessOrEqual_def)
  show "lessOrEqual x x"
    by (simp add: lessOrEqual_def)
  show "lessOrEqual x z" if "lessOrEqual x y" "lessOrEqual y z"
    using that by (auto simp: lessOrEqual_def split: if_splits)
  show "x = y" if "lessOrEqual x y" "lessOrEqual y x"
    using that by (auto simp: lessOrEqual_def split: if_splits)
  show "lessOrEqual x y \<or> lessOrEqual y x"
    by (auto simp: lessOrEqual_def)
qed

lemma digit_value_less: "is_digit c \<Longrightarrow> is_digit d \<Longrightarrow> digit_value c < digit_value d \<longleftrightarrow> c < d"
  by (auto simp: is_digit_def digit_value_def less_char_def Let_def)

lemma same_length_numeric:
  "length a = length b \<Longrightarrow> list_all is_digit a \<Longrightarrow> list_all is_digit b \<Longrightarrow>
     decimal_value a < decimal_value b \<longleftrightarrow> a < b"
proof (induction a b rule: list_induct2)
  case (Cons c a d b)
  have bounds: "decimal_value a < 10 ^ length a" "decimal_value b < 10 ^ length a"
    using Cons decimal_value_bound [of a] decimal_value_bound [of b] by auto
  consider "digit_value c < digit_value d" | "c = d" | "digit_value d < digit_value c"
    using Cons.prems digit_value_less [of c d] digit_value_less [of d c] by force
  then show ?case
  proof cases
    case 1
    then have "digit_value c * 10 ^ length a + 10 ^ length a \<le> digit_value d * 10 ^ length a"
      by (metis Suc_leI add.commute mult_Suc mult_le_mono1)
    then show ?thesis
      using 1 Cons bounds digit_value_less [of c d] by (simp add: decimal_value_Cons)
  next
    case 2
    then show ?thesis
      using Cons by (simp add: decimal_value_Cons)
  next
    case 3
    then have "digit_value d * 10 ^ length a + 10 ^ length a \<le> digit_value c * 10 ^ length a"
      by (metis Suc_leI add.commute mult_Suc mult_le_mono1)
    then show ?thesis
      using 3 Cons bounds digit_value_less [of d c] by (auto simp: decimal_value_Cons)
  qed
qed simp

text \<open>
  Versions run in numeric order: for two numeric versions of the same width, or of which the
  longer has no leading zero, the order of \<open>SortMigrations\<close> is the order of their values, so a
  four-digit version after 999 still runs last.
\<close>

theorem version_order_numeric:
  assumes "list_all is_digit a" "list_all is_digit b"
    and "length a < length b \<Longrightarrow> hd b \<noteq> CHR ''0''" "length b < length a \<Longrightarrow> hd a \<noteq> CHR ''0''"
  shows "less_version a b \<longleftrightarrow> decimal_value a < decimal_value b"
proof -
  have longer: "decimal_value v < decimal_value w"
    if vw: "length v < length w" "hd w \<noteq> CHR ''0''" "list_all is_digit v" "list_all is_digit w" for v w
  proof -
    obtain c t where w: "w = c # t"
      using vw(1) by (cases w) auto
    have "c \<noteq> char_of (48 :: nat)"
      using vw(2) w digit_char_zero by (simp add: digit_char_def)
    then have "1 \<le> digit_value c"
      using vw(4) w by (auto simp: is_digit_def digit_value_def Let_def simp flip: of_char_eq_iff [where ?'a = nat])
    then have "10 ^ length t \<le> digit_value c * 10 ^ length t"
      by simp
    then have "10 ^ length t \<le> decimal_value w"
      unfolding w decimal_value_Cons by linarith
    moreover have "(10 :: nat) ^ length v \<le> 10 ^ length t"
      using vw(1) w by (intro power_increasing) auto
    ultimately show ?thesis
      using decimal_value_bound [OF vw(3)] by linarith
  qed
  consider "length a < length b" | "length a = length b" | "length b < length a"
    by linarith
  then show ?thesis
    using assms longer [of a b] longer [of b a] same_length_numeric [of a b]
    by cases (auto simp: less_version_def)
qed

theorem version_order_numeric_witness: "less_version ''999'' ''1000''"
  by (subst version_order_numeric) code_simp+

section \<open>Loading\<close>

lemma insert_migration_mset [simp]: "mset (insert_migration m ms) = add_mset m (mset ms)"
  by (induction ms) auto

lemma SortMigrations_mset: "mset (SortMigrations ms) = mset ms"
  by (induction ms) (auto simp: SortMigrations_def)

lemma insert_migration_sorted:
  "sorted_wrt lessOrEqual (map Version ms) \<Longrightarrow> sorted_wrt lessOrEqual (map Version (insert_migration m ms))"
proof (induction ms)
  case (Cons n ns)
  have set: "set (map Version (insert_migration m ns)) = insert (Version m) (Version ` set ns)"
    by (metis insert_migration_mset set_mset_mset set_mset_add_mset_insert image_insert list.set_map)
  show ?case
  proof (cases "less_version (Version n) (Version m)")
    case True
    then show ?thesis
      using Cons set by (auto simp: version_order.less_imp_le)
  next
    case False
    then have "lessOrEqual (Version m) (Version n)"
      by (simp add: version_order.not_less)
    then show ?thesis
      using False Cons.prems by (auto intro: version_order.order_trans)
  qed
qed simp

lemma SortMigrations_sorted: "sorted_wrt lessOrEqual (map Version (SortMigrations ms))"
  by (induction ms) (auto simp: SortMigrations_def insert_migration_sorted)

lemma SortMigrations_set [simp]: "set (SortMigrations ms) = set ms"
  by (metis SortMigrations_mset set_mset_mset)

lemma SortMigrations_Version_mset: "mset (map Version (SortMigrations ms)) = mset (map Version ms)"
  by (simp add: SortMigrations_mset)

lemma distinct_sorted_strict:
  "distinct vs \<Longrightarrow> sorted_wrt lessOrEqual vs \<Longrightarrow> sorted_wrt less_version vs"
  by (induction vs) (auto simp: version_order.less_le)

text \<open>Which migration a directory entry stands for.\<close>

definition migration_of :: "dir_entry \<Rightarrow> Migration option" where
  "migration_of e =
     (if is_dir e then None
      else case (ParseFileName (entry_name e), content e) of
        (Some (v, n), Some body) \<Rightarrow>
          Some \<lparr>Version = v, MName = n, FileName = entry_name e, SQL = body,
            Checksum = hex_encode (sha256 (bytes_of body))\<rparr>
      | _ \<Rightarrow> None)"

lemma load_entries_result:
  "load_entries es seen out = Inr ms \<Longrightarrow> map fst seen = rev (map Version out) \<Longrightarrow> distinct (map Version out) \<Longrightarrow>
     ms = out @ List.map_filter migration_of es \<and> distinct (map Version ms) \<and>
     (\<forall>e \<in> set es. \<not> is_dir e \<and> ParseFileName (entry_name e) \<noteq> None \<longrightarrow> content e \<noteq> None)"
proof (induction es arbitrary: seen out)
  case (Cons e es)
  show ?case
  proof (cases "is_dir e \<or> ParseFileName (entry_name e) = None")
    case True
    then have "migration_of e = None" and "load_entries es seen out = Inr ms"
      using Cons.prems(1) by (auto simp: migration_of_def split: if_splits option.splits)
    moreover from this have "List.map_filter migration_of (e # es) = List.map_filter migration_of es"
      by (simp add: map_filter_simps)
    ultimately show ?thesis
      using True Cons.IH [OF _ Cons.prems(2,3)] by (metis set_ConsD)
  next
    case False
    then obtain v n body where p: "ParseFileName (entry_name e) = Some (v, n)" "content e = Some body"
      using Cons.prems by (auto split: if_splits option.splits)
    let ?m = "\<lparr>Version = v, MName = n, FileName = entry_name e, SQL = body, Checksum = hex_encode (sha256 (bytes_of body))\<rparr>"
    have me: "migration_of e = Some ?m"
      using p False by (simp add: migration_of_def)
    have rest: "load_entries es ((v, entry_name e) # seen) (out @ [?m]) = Inr ms" and fresh: "map_of seen v = None"
      using Cons.prems(1) p False by (simp_all split: if_splits)
    have "v \<notin> Version ` set out"
      using fresh Cons.prems(2) by (metis map_of_eq_None_iff list.set_map set_rev)
    then have "map fst ((v, entry_name e) # seen) = rev (map Version (out @ [?m]))" "distinct (map Version (out @ [?m]))"
      using Cons.prems(2,3) by simp_all
    note ih = Cons.IH [OF rest this]
    have "out @ List.map_filter migration_of (e # es) = (out @ [?m]) @ List.map_filter migration_of es"
      using me by (simp add: map_filter_simps)
    then show ?thesis
      using ih p(2) by (metis option.distinct(1) set_ConsD)
  qed
qed (simp add: map_filter_simps)

text \<open>
  Loading is complete and ordered: when \<open>Load\<close> succeeds, its result holds exactly the migrations
  of the directory's files, every file with a migration's name was readable, and the versions are
  strictly increasing in the run order, so no two files share one.
\<close>

theorem load_complete_sorted:
  assumes "Load (Some entries) = Inr ms"
  shows "set ms = set (List.map_filter migration_of entries) \<and> ms \<noteq> [] \<and>
    sorted_wrt less_version (map Version ms) \<and>
    (\<forall>e \<in> set entries. \<not> is_dir e \<and> ParseFileName (entry_name e) \<noteq> None \<longrightarrow>
       (\<exists>m \<in> set ms. FileName m = entry_name e \<and> content e = Some (SQL m) \<and>
          Checksum m = hex_encode (sha256 (bytes_of (SQL m)))))"
proof -
  obtain out where out: "load_entries entries [] [] = Inr out" "out \<noteq> []" "ms = SortMigrations out"
    using assms by (auto simp: Load_def split: sum.splits if_splits)
  note res = load_entries_result [OF out(1), simplified]
  have "distinct (map Version ms)"
    using res out(3) SortMigrations_Version_mset [of out] by (metis mset_eq_imp_distinct_iff)
  then have "sorted_wrt less_version (map Version ms)"
    using out(3) SortMigrations_sorted distinct_sorted_strict by blast
  moreover have "\<exists>m \<in> set ms. FileName m = entry_name e \<and> content e = Some (SQL m) \<and>
      Checksum m = hex_encode (sha256 (bytes_of (SQL m)))"
    if e: "e \<in> set entries" "\<not> is_dir e" "ParseFileName (entry_name e) \<noteq> None" for e
  proof -
    obtain v n body where "ParseFileName (entry_name e) = Some (v, n)" "content e = Some body"
      using res e by force
    then have "\<exists>m. migration_of e = Some m \<and> FileName m = entry_name e \<and> content e = Some (SQL m) \<and>
      Checksum m = hex_encode (sha256 (bytes_of (SQL m)))"
      using e by (simp add: migration_of_def)
    then show ?thesis
      using e(1) res out(3) by (auto simp: map_filter_def)
  qed
  moreover have "ms \<noteq> []"
    using out SortMigrations_set by (metis set_empty)
  ultimately show ?thesis
    using res out(3) by auto
qed

lemma load_some: "Load dir = Inr ms \<Longrightarrow> \<exists>m. m \<in> set ms"
  by (auto simp: Load_def split: option.splits sum.splits if_splits) (metis last_in_set)

definition demo_dir :: "dir_entry list" where
  "demo_dir = [\<lparr>entry_name = ''002_users.sql'', is_dir = False, content = Some ''CREATE TABLE u(i int);''\<rparr>,
     \<lparr>entry_name = ''README.md'', is_dir = False, content = Some ''''\<rparr>,
     \<lparr>entry_name = ''001_init.sql'', is_dir = False, content = Some ''SELECT 1; SELECT 2''\<rparr>]"

lemma demo_names:
  "ParseFileName ''002_users.sql'' = Some (''002'', ''users'')"
  "ParseFileName ''README.md'' = None"
  "ParseFileName ''001_init.sql'' = Some (''001'', ''init'')"
  by code_simp+

lemma demo_load_sql:
  "\<exists>a b. Load (Some demo_dir) = Inr [a, b] \<and> Version a = ''001'' \<and> Version b = ''002'' \<and>
     SQL a = ''SELECT 1; SELECT 2'' \<and> SQL b = ''CREATE TABLE u(i int);''"
proof -
  have less: "less_version ''002'' ''001'' = False" "less_version ''001'' ''002'' = True"
    by code_simp+
  show ?thesis
    by (simp add: Load_def demo_dir_def demo_names SortMigrations_def less)
qed

theorem load_complete_sorted_witness:
  "\<exists>ms. Load (Some demo_dir) = Inr ms \<and> sorted_wrt less_version (map Version ms)"
  using demo_load_sql load_complete_sorted by blast

section \<open>Splitting keeps every character\<close>

text \<open>The raw text between top-level semicolons.\<close>

function segments :: "string \<Rightarrow> string \<Rightarrow> string list" where
  "segments cur s =
     (case s of [] \<Rightarrow> [cur]
      | c # cs \<Rightarrow>
          if c = CHR '';'' then cur # segments [] cs
          else segments (cur @ fst (scan_lexeme s)) (snd (scan_lexeme s)))"
  by pat_completeness auto
termination
  by (relation "measure (\<lambda>(cur, s). length s)") (use scan_lexeme_shorter [of "_ # _"] in auto)

declare segments.simps [simp del]

lemma segments_nonempty: "segments cur s \<noteq> []"
  by (induction cur s rule: segments.induct) (subst segments.simps, auto split: list.splits)

lemma join_with_Cons: "ws \<noteq> [] \<Longrightarrow> join_with sep (w # ws) = w @ sep @ join_with sep ws"
  by (cases ws) auto

lemma segments_join: "join_with '';'' (segments cur s) = cur @ s"
proof (induction cur s rule: segments.induct)
  case (1 cur s)
  show ?case
  proof (cases s)
    case (Cons c cs)
    then show ?thesis
      using 1 scan_lexeme_copies [of s] by (subst segments.simps) (auto simp: join_with_Cons segments_nonempty)
  qed (simp add: segments.simps)
qed

lemma split_loop_segments:
  "split_loop out cur s = out @ filter (\<lambda>t. t \<noteq> []) (map trim_space (segments cur s))"
proof (induction out cur s rule: split_loop.induct)
  case (1 out cur s)
  show ?case
  proof (cases s)
    case (Cons c cs)
    then show ?thesis
      using 1 by (subst split_loop.simps, subst segments.simps) (simp add: flush_def Let_def)
  qed (simp add: split_loop.simps segments.simps flush_def Let_def)
qed

text \<open>
  Splitting loses nothing: the file is the concatenation of its top-level segments with the
  semicolons between them, and the statements are those segments in order, blanks around them
  trimmed and empty ones left out. The splitter ends on every input.
\<close>

theorem split_statements_lossless:
  "\<exists>segs. join_with '';'' segs = sql \<and>
     SplitStatements sql = filter (\<lambda>t. t \<noteq> []) (map trim_space segs)"
  using segments_join [of "[]" sql] split_loop_segments [of "[]" "[]" sql]
  by (auto simp: SplitStatements_def)

text \<open>
  Quoted text is opaque. A lexeme is a plain character, a quoted literal or identifier with its
  content, a dollar-quoted body, or a line comment.
\<close>

datatype lexeme = Plain char | Quoted char string | Dollar string | Comment string

fun lexeme_text :: "lexeme \<Rightarrow> string" where
  "lexeme_text (Plain c) = [c]"
| "lexeme_text (Quoted q s) = q # s @ [q]"
| "lexeme_text (Dollar s) = ''$$'' @ s @ ''$$''"
| "lexeme_text (Comment s) = ''--'' @ s @ [CHR 0x0A]"

fun lexeme_ok :: "lexeme \<Rightarrow> bool" where
  "lexeme_ok (Plain c) = (c \<notin> set [CHR '';'', CHR 0x27, CHR 0x22, CHR ''$'', CHR ''-'', CHR ''/''])"
| "lexeme_ok (Quoted q s) = (q \<in> set [CHR 0x27, CHR 0x22] \<and> q \<notin> set s)"
| "lexeme_ok (Dollar s) = (CHR ''$'' \<notin> set s)"
| "lexeme_ok (Comment s) = (CHR 0x0A \<notin> set s)"

text \<open>Two literals in a row would read as one with an escaped quote.\<close>

fun lexemes_ok :: "lexeme list \<Rightarrow> bool" where
  "lexemes_ok [] = True"
| "lexemes_ok [l] = lexeme_ok l"
| "lexemes_ok (l # k # ls) =
     (lexeme_ok l \<and> (case (l, k) of (Quoted q _, Quoted q' _) \<Rightarrow> q \<noteq> q' | _ \<Rightarrow> True) \<and> lexemes_ok (k # ls))"

lemma quoted_literal: "q \<notin> set s \<Longrightarrow> \<not> has_prefix rest [q] \<Longrightarrow> quoted q (s @ q # rest) = (s @ [q], rest)"
proof (induction s)
  case Nil
  then show ?case
    by (cases rest) (auto simp: has_prefix_def)
next
  case (Cons c s)
  then have "quoted q (c # s @ q # rest) = prepend [c] (quoted q (s @ q # rest))"
    by (cases s) auto
  then show ?case
    using Cons by (simp add: prepend_def)
qed

lemma line_comment_text: "CHR 0x0A \<notin> set s \<Longrightarrow> line_comment (s @ CHR 0x0A # rest) = (s @ [CHR 0x0A], rest)"
  by (induction s) (auto simp: prepend_def)

lemma dollar_tag_empty: "dollarTagAt (CHR ''$'' # CHR ''$'' # s) = Some ''$$''"
  by (simp add: dollarTagAt_def tag_letter_def)

lemma dollar_body_text:
  "CHR ''$'' \<notin> set s \<Longrightarrow> dollar_body ''$$'' (s @ CHR ''$'' # CHR ''$'' # rest) = (s @ ''$$'', rest)"
  by (induction s) (auto simp: prepend_def dollar_tag_empty)

lemma scan_lexeme_text:
  assumes "lexeme_ok l" and "case l of Quoted q _ \<Rightarrow> \<not> has_prefix rest [q] | _ \<Rightarrow> True"
  shows "scan_lexeme (lexeme_text l @ rest) = (lexeme_text l, rest)"
proof (cases l)
  case (Plain c)
  then show ?thesis
    using assms by (simp add: scan_lexeme_def)
next
  case (Quoted q s)
  then show ?thesis
    using assms quoted_literal [of q s rest] by (auto simp: scan_lexeme_def prepend_def)
next
  case (Dollar s)
  then show ?thesis
    using assms by (simp add: scan_lexeme_def dollar_tag_empty dollar_body_text prepend_def)
next
  case (Comment s)
  then show ?thesis
    using assms line_comment_text [of "''--'' @ s" rest] by (simp add: scan_lexeme_def has_prefix_def)
qed

definition statement_text :: "lexeme list \<Rightarrow> string" where
  "statement_text ls = concat (map lexeme_text ls)"

lemma segments_step:
  "scan_lexeme (c # cs) = (w, r) \<Longrightarrow> c \<noteq> CHR '';'' \<Longrightarrow> segments cur (c # cs) = segments (cur @ w) r"
  by (subst segments.simps) simp

lemma lexeme_head: "lexeme_ok l \<Longrightarrow> \<exists>c cs. lexeme_text l = c # cs \<and> c \<noteq> CHR '';''"
  by (cases l) auto

lemma lexeme_no_quote:
  "lexeme_ok k \<Longrightarrow> (case k of Quoted q' _ \<Rightarrow> q \<noteq> q' | _ \<Rightarrow> True) \<Longrightarrow> q \<in> set [CHR 0x27, CHR 0x22] \<Longrightarrow>
     \<not> has_prefix (lexeme_text k @ s) [q]"
  by (cases k) (auto simp: has_prefix_def)

lemma segments_lexeme:
  assumes "lexeme_ok l" and "case l of Quoted q _ \<Rightarrow> \<not> has_prefix rest [q] | _ \<Rightarrow> True"
  shows "segments cur (lexeme_text l @ rest) = segments (cur @ lexeme_text l) rest"
proof -
  obtain c cs where c: "lexeme_text l = c # cs" "c \<noteq> CHR '';''"
    using lexeme_head [OF assms(1)] by blast
  show ?thesis
    using segments_step [of c "cs @ rest" "lexeme_text l" rest cur] scan_lexeme_text [OF assms] c by simp
qed

lemma segments_statement:
  "lexemes_ok ls \<Longrightarrow> rest = [] \<or> hd rest = CHR '';'' \<Longrightarrow>
     segments cur (statement_text ls @ rest) = segments (cur @ statement_text ls) rest"
proof (induction ls arbitrary: cur rule: lexemes_ok.induct)
  case (2 l)
  then have "case l of Quoted q _ \<Rightarrow> \<not> has_prefix rest [q] | _ \<Rightarrow> True"
    by (cases rest) (auto simp: has_prefix_def split: lexeme.split)
  then show ?case
    using 2 segments_lexeme [of l rest cur] by (simp add: statement_text_def)
next
  case (3 l k ls)
  have "case l of Quoted q _ \<Rightarrow> \<not> has_prefix (statement_text (k # ls) @ rest) [q] | _ \<Rightarrow> True"
    using 3(2) lexeme_no_quote [of k] by (cases ls; cases l; cases k) (auto simp: statement_text_def)
  then have "segments cur (lexeme_text l @ statement_text (k # ls) @ rest) =
      segments (cur @ lexeme_text l) (statement_text (k # ls) @ rest)"
    using 3(2) by (intro segments_lexeme) simp_all
  then show ?case
    using 3(1) [of "cur @ lexeme_text l"] 3(2,3) by (simp add: statement_text_def)
qed (simp add: statement_text_def)

lemma segments_semicolon: "segments cur (CHR '';'' # s) = cur # segments [] s"
  by (subst segments.simps) simp

lemma segments_file:
  "list_all lexemes_ok sts \<Longrightarrow> sts \<noteq> [] \<Longrightarrow> segments [] (join_with '';'' (map statement_text sts)) = map statement_text sts"
proof (induction sts)
  case (Cons st sts)
  show ?case
  proof (cases "sts = []")
    case True
    then show ?thesis
      using Cons.prems segments_statement [of st "[]" "[]"] by (simp add: segments.simps [of _ "[]"])
  next
    case False
    then have "join_with '';'' (map statement_text (st # sts)) =
        statement_text st @ CHR '';'' # join_with '';'' (map statement_text sts)"
      by (simp add: join_with_Cons)
    then show ?thesis
      using Cons False segments_statement [of st "CHR '';'' # join_with '';'' (map statement_text sts)" "[]"]
      by (simp add: segments_semicolon)
  qed
qed simp

text \<open>
  C30. Quoting is opaque: a file built from statements whose lexemes are plain characters, quoted
  literals and identifiers, dollar-quoted bodies and line comments, with any semicolons inside the
  quotes, bodies and comments, is split into exactly these statements.
\<close>

theorem split_statements_roundtrip:
  assumes "list_all lexemes_ok sts" and "sts \<noteq> []"
  shows "SplitStatements (join_with '';'' (map statement_text sts)) =
    filter (\<lambda>t. t \<noteq> []) (map (\<lambda>st. trim_space (statement_text st)) sts)"
  using split_loop_segments [of "[]" "[]"] segments_file [OF assms]
  by (simp add: SplitStatements_def comp_def)

theorem split_statements_roundtrip_witness:
  "SplitStatements ''a$$;$$;b'' = [''a$$;$$'', ''b'']"
  using split_statements_roundtrip [of "[[Plain (CHR ''a''), Dollar '';''], [Plain (CHR ''b'')]]"]
  by (simp add: statement_text_def trim_space_def trim_left_def trim_right_def is_space_def)

section \<open>Applying migrations\<close>

text \<open>Running statements one after the other, all of which must succeed.\<close>

fun exec_all :: "(string \<Rightarrow> 'db \<Rightarrow> sql_error + 'db) \<Rightarrow> string list \<Rightarrow> 'db \<Rightarrow> 'db option" where
  "exec_all exec [] d = Some d"
| "exec_all exec (stmt # stmts) d =
     (case exec stmt d of Inl _ \<Rightarrow> None | Inr d' \<Rightarrow> exec_all exec stmts d')"

text \<open>The statements that adopting a database steps over: those whose failure is skippable.\<close>

fun exec_skipping :: "(string \<Rightarrow> 'db \<Rightarrow> sql_error + 'db) \<Rightarrow> string list \<Rightarrow> 'db \<Rightarrow> (nat \<times> 'db) option" where
  "exec_skipping exec [] d = Some (0, d)"
| "exec_skipping exec (stmt # stmts) d =
     (case exec stmt d of
        Inr d' \<Rightarrow> exec_skipping exec stmts d'
      | Inl e \<Rightarrow> if AdoptSkippable stmt e then map_option (\<lambda>(n, d'). (Suc n, d')) (exec_skipping exec stmts d) else None)"

lemma apply_statements_strict:
  "apply_statements exec f False i stmts k d = Inr (n, d') \<Longrightarrow> n = k \<and> exec_all exec stmts d = Some d'"
proof (induction stmts arbitrary: i d)
  case (Cons stmt stmts)
  then show ?case
    by (cases "exec stmt d") (auto split: if_splits)
qed simp

lemma apply_statements_adopt:
  "apply_statements exec f True i stmts k d = Inr (n, d') \<Longrightarrow>
     k \<le> n \<and> exec_skipping exec stmts d = Some (n - k, d')"
proof (induction stmts arbitrary: i d k)
  case (Cons stmt stmts)
  show ?case
  proof (cases "exec stmt d")
    case (Inl e)
    then have "apply_statements exec f True (Suc i) stmts (Suc k) d = Inr (n, d')" and "AdoptSkippable stmt e"
      using Cons.prems by (auto split: if_splits)
    then show ?thesis
      using Cons.IH [of "Suc i" "Suc k" d] Inl by (auto simp: Suc_diff_Suc)
  next
    case (Inr d1)
    then show ?thesis
      using Cons by (auto split: if_splits)
  qed
qed simp

definition ledger_has :: "'db database \<Rightarrow> string \<Rightarrow> bool" where
  "ledger_has db v = (case ledger db of None \<Rightarrow> False | Some rows \<Rightarrow> (\<exists>r \<in> set rows. version r = v))"

interpretation ledger_rows: keyed_update version "refresh_row row"
  by unfold_locales (simp add: refresh_row_def)

lemma ledger_upsert_has:
  "(\<exists>r \<in> set (ledger_upsert row rows). version r = v) \<longleftrightarrow> v = version row \<or> (\<exists>r \<in> set rows. version r = v)"
proof -
  have keys: "(\<exists>r \<in> set rs. version r = v) \<longleftrightarrow> v \<in> set (map version rs)" for rs :: "ledger_row list"
    by auto
  show ?thesis
    unfolding keys by (auto simp: ledger_upsert_def list_ex_iff ledger_rows.keys_kept simp del: set_map)
      (metis image_eqI list.set_map)
qed

lemma Apply_error: "fst (Apply exec f opts m db) = Inl e \<Longrightarrow> snd (Apply exec f opts m db) = db"
  by (auto simp: Apply_def Let_def split: if_splits sum.splits prod.splits option.splits)

lemma Apply_ok:
  assumes "Apply exec f opts m db = (Inr res, db')" and "\<not> DryRun opts"
  obtains rows n d where "ledger db = Some rows" "ledger_has db' (Version m)"
    "\<And>v. ledger_has db' v \<longleftrightarrow> v = Version m \<or> ledger_has db v"
    "schema db' = d" "Skipped res = n" "Adopted res = (0 < n)" "Mig res = m"
    "apply_statements exec f (Adopt opts) 0 (SplitStatements (SQL m)) 0 (schema db) = Inr (n, d)"
  using assms by (auto simp: Apply_def Let_def ledger_has_def ledger_upsert_has
      split: if_splits sum.splits prod.splits option.splits)

text \<open>
  C4. A migration is all or nothing: when \<open>Apply\<close> fails, at whatever call, the schema and the ledger
  are as before; when it succeeds outside a dry run, the version is in the ledger, no other
  version came or went, and the schema is the result of all its statements in order, except, in
  adopt mode, those that failed with a skippable error, which are counted.
\<close>

theorem apply_atomic:
  assumes "\<not> DryRun opts"
  shows "case Apply exec f opts m db of
      (Inl e, db') \<Rightarrow> db' = db
    | (Inr res, db') \<Rightarrow>
        (\<forall>v. ledger_has db' v \<longleftrightarrow> v = Version m \<or> ledger_has db v) \<and>
        (if Adopt opts then exec_skipping exec (SplitStatements (SQL m)) (schema db) = Some (Skipped res, schema db')
         else Skipped res = 0 \<and> exec_all exec (SplitStatements (SQL m)) (schema db) = Some (schema db'))"
proof -
  obtain r db' where r: "Apply exec f opts m db = (r, db')"
    by (metis surj_pair)
  show ?thesis
  proof (cases r)
    case (Inl e)
    then show ?thesis
      using Apply_error [of exec f opts m db e] r by simp
  next
    case (Inr res)
    then obtain n d where "schema db' = d" "Skipped res = n" "\<And>v. ledger_has db' v \<longleftrightarrow> v = Version m \<or> ledger_has db v"
      "apply_statements exec f (Adopt opts) 0 (SplitStatements (SQL m)) 0 (schema db) = Inr (n, d)"
      using Apply_ok r assms by metis
    then show ?thesis
      using r Inr apply_statements_strict apply_statements_adopt by fastforce
  qed
qed

definition demo_exec :: "string \<Rightarrow> string list \<Rightarrow> sql_error + string list" where
  "demo_exec stmt d = (if stmt \<in> set d then Inl (PgError ''42P07'') else Inr (d @ [stmt]))"

definition quiet :: mig_faults where
  "quiet = \<lparr>ddl_fails = False, query_fails = False, begin_fails = False, savepoint_fails = (\<lambda>_. False),
     release_fails = (\<lambda>_. False), rollback_fails = (\<lambda>_. False), insert_fails = False, commit_fails = False\<rparr>"

definition demo_migration :: Migration where
  "demo_migration = \<lparr>Version = ''001'', MName = ''init'', FileName = ''001_init.sql'', SQL = ''a$$;$$;b'', Checksum = ''''\<rparr>"

theorem apply_atomic_witness:
  "case Apply demo_exec quiet \<lparr>Adopt = True, DryRun = False\<rparr> demo_migration \<lparr>ledger = Some [], schema = [''b'']\<rparr> of
      (Inl e, db') \<Rightarrow> False
    | (Inr res, db') \<Rightarrow> ledger_has db' ''001'' \<and> Skipped res = 1 \<and> schema db' = [''b'', ''a$$;$$'']"
proof -
  have sp: "SplitStatements ''a$$;$$;b'' = [''a$$;$$'', ''b'']"
    by code_simp
  have dup: "AdoptSkippable ''b'' (PgError ''42P07'')"
    by (simp add: AdoptSkippable_def IsDuplicateObject_def)
  have skip: "exec_skipping demo_exec [''a$$;$$'', ''b''] [''b''] = Some (1, [''b'', ''a$$;$$''])"
    by (simp add: demo_exec_def dup)
  have "\<exists>res db'. Apply demo_exec quiet \<lparr>Adopt = True, DryRun = False\<rparr> demo_migration \<lparr>ledger = Some [], schema = [''b'']\<rparr> = (Inr res, db')"
    by (simp add: Apply_def demo_migration_def sp quiet_def demo_exec_def dup)
  then show ?thesis
    using apply_atomic [where opts = "\<lparr>Adopt = True, DryRun = False\<rparr>" and exec = demo_exec and f = quiet
        and m = demo_migration and db = "\<lparr>ledger = Some [], schema = [''b'']\<rparr>"]
    by (auto simp: demo_migration_def sp skip simp del: exec_skipping.simps)
qed

lemma apply_all_prefix:
  assumes "\<not> DryRun opts" and "apply_all exec f opts ms rs db = ((e, rs'), db')"
  shows "\<exists>k \<le> length ms. (e = None \<longleftrightarrow> k = length ms) \<and> length rs' = length rs + k \<and>
    (\<forall>v. ledger_has db' v \<longleftrightarrow> v \<in> Version ` set (take k ms) \<or> ledger_has db v)"
  using assms(2)
proof (induction ms arbitrary: rs db)
  case (Cons m ms)
  obtain r db1 where r: "Apply exec (f (Version m)) opts m db = (r, db1)"
    by (metis surj_pair)
  show ?case
  proof (cases r)
    case (Inl err)
    then have "db1 = db"
      using Apply_error r by (metis fst_conv snd_conv)
    then show ?thesis
      using Cons.prems r Inl by (intro exI [of _ 0]) auto
  next
    case (Inr res)
    have led: "ledger_has db1 v \<longleftrightarrow> v = Version m \<or> ledger_has db v" for v
      using Apply_ok [OF r [unfolded Inr] assms(1)] by metis
    have "apply_all exec f opts ms (rs @ [res]) db1 = ((e, rs'), db')"
      using Cons.prems r Inr by simp
    from Cons.IH [OF this] obtain k where "k \<le> length ms" "e = None \<longleftrightarrow> k = length ms"
      "length rs' = length rs + 1 + k" "\<forall>v. ledger_has db' v \<longleftrightarrow> v \<in> Version ` set (take k ms) \<or> ledger_has db1 v"
      by auto
    then show ?thesis
      using led by (intro exI [of _ "Suc k"]) auto
  qed
qed auto

lemma Up_run:
  assumes "Load dir = Inr all" and "\<not> ddl_fails f0" and "\<not> query_fails f0"
  shows "\<exists>db1. Up exec f0 f dir opts db = apply_all exec f opts (filter (\<lambda>m. \<not> ledger_has db (Version m)) all) [] db1 \<and>
    db1 = db\<lparr>ledger := Some (case ledger db of None \<Rightarrow> [] | Some rows \<Rightarrow> rows)\<rparr> \<and> (\<forall>v. ledger_has db1 v \<longleftrightarrow> ledger_has db v)"
proof -
  let ?db1 = "db\<lparr>ledger := Some (case ledger db of None \<Rightarrow> [] | Some rows \<Rightarrow> rows)\<rparr>"
  have led: "EnsureLedger f0 db = (None, ?db1)"
    using assms by (auto simp: EnsureLedger_def split: option.split)
  have app: "Applied f0 ?db1 = Inr (ledger_has db)"
    using assms by (auto simp: Applied_def ledger_has_def list_ex_iff fun_eq_iff split: option.split)
  show ?thesis
    using assms by (auto simp: Up_def led app Pending_def Let_def ledger_has_def split: option.split)
qed

text \<open>
  C17. A run records a prefix: whatever fails, after \<open>Up\<close> the ledger holds what it held before and the
  first \<open>k\<close> pending migrations in version order, \<open>k\<close> of them reported, and all of them exactly
  when no error is returned.
\<close>

theorem up_prefix:
  assumes "Load dir = Inr all" and "\<not> DryRun opts" and "\<not> ddl_fails f0" and "\<not> query_fails f0"
    and "Up exec f0 f dir opts db = ((e, rs), db')"
    and "pending = filter (\<lambda>m. \<not> ledger_has db (Version m)) all"
  shows "length rs \<le> length pending \<and> (e = None \<longleftrightarrow> length rs = length pending) \<and>
    (\<forall>v. ledger_has db' v \<longleftrightarrow> v \<in> Version ` set (take (length rs) pending) \<or> ledger_has db v)"
proof -
  obtain db1 where up: "Up exec f0 f dir opts db = apply_all exec f opts pending [] db1"
    and same: "\<forall>v. ledger_has db1 v \<longleftrightarrow> ledger_has db v"
    using Up_run [OF assms(1,3,4)] assms(6) by blast
  show ?thesis
    using apply_all_prefix [OF assms(2), of exec f pending "[]" db1 e rs db'] up same assms(5) by auto
qed

lemma demo_up:
  "\<exists>rs db'. Up demo_exec quiet (\<lambda>_. quiet) (Some demo_dir) \<lparr>Adopt = False, DryRun = False\<rparr> \<lparr>ledger = None, schema = []\<rparr> =
     ((None, rs), db')"
proof -
  obtain a b where ab: "Load (Some demo_dir) = Inr [a, b]" "SQL a = ''SELECT 1; SELECT 2''" "SQL b = ''CREATE TABLE u(i int);''"
    "Version a = ''001''" "Version b = ''002''"
    using demo_load_sql by blast
  have sp: "SplitStatements ''SELECT 1; SELECT 2'' = [''SELECT 1'', ''SELECT 2'']"
    "SplitStatements ''CREATE TABLE u(i int);'' = [''CREATE TABLE u(i int)'']"
    by code_simp+
  show ?thesis
    by (simp add: Up_def ab EnsureLedger_def Applied_def Pending_def quiet_def Apply_def sp demo_exec_def)
qed

theorem up_prefix_witness:
  "\<exists>rs db'. Up demo_exec quiet (\<lambda>_. quiet) (Some demo_dir) \<lparr>Adopt = False, DryRun = False\<rparr> \<lparr>ledger = None, schema = []\<rparr> =
     ((None, rs), db') \<and> length rs = 2 \<and> ledger_has db' ''001'' \<and> ledger_has db' ''002''"
proof -
  obtain a b where ab: "Load (Some demo_dir) = Inr [a, b]" "Version a = ''001''" "Version b = ''002''"
    using demo_load_sql by blast
  obtain rs db' where up: "Up demo_exec quiet (\<lambda>_. quiet) (Some demo_dir) \<lparr>Adopt = False, DryRun = False\<rparr>
      \<lparr>ledger = None, schema = []\<rparr> = ((None, rs), db')"
    using demo_up by blast
  show ?thesis
    using up_prefix [OF ab(1) _ _ _ up refl] ab(2,3) up by (simp add: quiet_def ledger_has_def)
qed

text \<open>
  Migrating is idempotent: after a run without errors every migration on disk is in the ledger,
  and running again, whatever the server would answer, executes no statement and changes
  nothing.
\<close>

theorem up_idempotent:
  assumes "Load dir = Inr all" and "\<not> DryRun opts"
    and "Up exec f0 f dir opts db = ((None, rs), db')"
    and "\<not> ddl_fails f1" and "\<not> query_fails f1"
  shows "(\<forall>m \<in> set all. ledger_has db' (Version m)) \<and> Up exec' f1 f' dir opts' db' = ((None, []), db')"
proof -
  have ok: "\<not> ddl_fails f0" "\<not> query_fails f0"
    using assms(1,3) by (auto simp: Up_def EnsureLedger_def Applied_def split: if_splits)
  obtain db1 where run: "apply_all exec f opts (filter (\<lambda>m. \<not> ledger_has db (Version m)) all) [] db1 = ((None, rs), db')"
    and same: "\<forall>v. ledger_has db1 v \<longleftrightarrow> ledger_has db v" and led: "ledger db1 \<noteq> None"
    using Up_run [OF assms(1) ok, of exec f opts db] assms(3) by auto
  have has: "ledger_has db' (Version m)" if "m \<in> set all" for m
    using apply_all_prefix [OF assms(2) run] same that by auto
  have "ledger db' \<noteq> None"
    using has load_some [OF assms(1)] unfolding ledger_has_def by (metis option.simps(4))
  then have "db'\<lparr>ledger := Some (case ledger db' of None \<Rightarrow> [] | Some rows \<Rightarrow> rows)\<rparr> = db'"
    by auto
  moreover have "filter (\<lambda>m. \<not> ledger_has db' (Version m)) all = []"
    using has by (auto simp: filter_empty_conv)
  ultimately show ?thesis
    using Up_run [OF assms(1,4,5), of exec' f' opts' db'] has by simp
qed

theorem up_idempotent_witness:
  "\<exists>rs db'. Up demo_exec quiet (\<lambda>_. quiet) (Some demo_dir) \<lparr>Adopt = False, DryRun = False\<rparr> \<lparr>ledger = None, schema = []\<rparr> =
     ((None, rs), db') \<and>
     Up (\<lambda>_ _. Inl OtherError) quiet (\<lambda>_. quiet) (Some demo_dir) \<lparr>Adopt = False, DryRun = False\<rparr> db' = ((None, []), db')"
proof -
  obtain rs db' where up: "Up demo_exec quiet (\<lambda>_. quiet) (Some demo_dir) \<lparr>Adopt = False, DryRun = False\<rparr>
      \<lparr>ledger = None, schema = []\<rparr> = ((None, rs), db')"
    using demo_up by blast
  obtain all where "Load (Some demo_dir) = Inr all"
    using demo_load_sql by blast
  from up_idempotent [OF this _ up, of quiet "\<lambda>_ _. Inl OtherError"] show ?thesis
    using up by (auto simp: quiet_def)
qed

text \<open>
  A dry run is not free of writes: on a database that has no ledger yet it creates the ledger
  table, although the option promises to write nothing. The schema itself is untouched.
\<close>

theorem dry_run_creates_ledger:
  assumes "Load dir = Inr all" and "DryRun opts" and "\<not> ddl_fails f0" and "\<not> query_fails f0" and "ledger db = None"
  shows "snd (Up exec f0 f dir opts db) = db\<lparr>ledger := Some []\<rparr>"
proof -
  have dry: "snd (apply_all exec f opts ms rs db1) = db1" for ms rs and db1 :: "'a database"
    using assms(2) by (induction ms arbitrary: rs) (simp_all add: Apply_def Let_def)
  show ?thesis
    using Up_run [OF assms(1,3,4), of exec f opts db] dry assms(5) by auto
qed

theorem dry_run_creates_ledger_witness:
  "snd (Up demo_exec quiet (\<lambda>_. quiet) (Some demo_dir) \<lparr>Adopt = False, DryRun = True\<rparr> \<lparr>ledger = None, schema = []\<rparr>) =
     \<lparr>ledger = Some [], schema = []\<rparr>"
proof -
  obtain all where "Load (Some demo_dir) = Inr all"
    using demo_load_sql by blast
  from dry_run_creates_ledger [OF this, where opts = "\<lparr>Adopt = False, DryRun = True\<rparr>" and ?f0.0 = quiet
      and exec = demo_exec and db = "\<lparr>ledger = None, schema = []\<rparr>" and f = "\<lambda>_. quiet"] show ?thesis
    by (simp add: quiet_def)
qed

end
