(* ===== verification/Vault.thy ===== *)
theory Vault
  imports Crypto_Lib
begin

text \<open>
  Keys and sealed data: the master key and the device binding keys of auth-service
  (\<open>masterkey.go\<close>), the TOTP secrets at rest (\<open>totp.go\<close>), and the session packages that
  sync-receiver authenticates and decrypts (\<open>vault.go\<close>).

  HKDF is a third-party package: \<open>hkdf secret salt info\<close> gives the 32 bytes read from its stream, or
  \<open>None\<close> when reading fails. Random bytes are an argument, \<open>None\<close> when the source fails. The value
  of \<open>KEY_ENCRYPTION_KEY\<close> is the argument \<open>env\<close>.
\<close>

datatype vault_error =
    BadMasterKey | DecodeFailed | TooShort | AuthFailed | RandomFailed | DeriveFailed | HmacFailed

section \<open>Boxes: base64 of nonce, ciphertext and tag\<close>

text \<open>
  \<open>EncryptWithMasterKey\<close> and \<open>EncryptSecret\<close> end with the same steps, and so do the four functions
  that decrypt; these are the steps.
\<close>

definition seal_box :: "bytes \<Rightarrow> bytes \<Rightarrow> bytes \<Rightarrow> bytes \<Rightarrow> string" where
  "seal_box key nonce plaintext aad = b64_encode (nonce @ gcm_seal key nonce plaintext aad)"

definition open_combined :: "bytes \<Rightarrow> bytes \<Rightarrow> bytes \<Rightarrow> vault_error + bytes" where
  "open_combined key data aad =
     (if length data < gcm_nonce_size then Inl TooShort
      else let nonce = take gcm_nonce_size data; ct = drop gcm_nonce_size data in
        case gcm_open key nonce ct aad of None \<Rightarrow> Inl AuthFailed | Some pt \<Rightarrow> Inr pt)"

definition open_box :: "bytes \<Rightarrow> string \<Rightarrow> bytes \<Rightarrow> vault_error + bytes" where
  "open_box key ciphertext aad =
     (case b64_decode ciphertext of None \<Rightarrow> Inl DecodeFailed | Some data \<Rightarrow> open_combined key data aad)"

section \<open>The master key\<close>

definition hex64 :: "string \<Rightarrow> bool" where
  "hex64 h = (length h = 64 \<and> list_all is_hex h)"

definition masterKey :: "string \<Rightarrow> vault_error + bytes" where
  "masterKey env =
     (if \<not> hex64 env then Inl BadMasterKey
      else Inr (case hex_decode env of None \<Rightarrow> [] | Some b \<Rightarrow> b))"

definition EncryptWithMasterKey :: "string \<Rightarrow> bytes option \<Rightarrow> string \<Rightarrow> string \<Rightarrow> vault_error + string" where
  "EncryptWithMasterKey env nonce plaintext aad =
     (case masterKey env of
        Inl e \<Rightarrow> Inl e
      | Inr key \<Rightarrow>
          (case nonce of
             None \<Rightarrow> Inl RandomFailed
           | Some n \<Rightarrow> Inr (seal_box key n (bytes_of plaintext) (bytes_of aad))))"

definition DecryptWithMasterKey :: "string \<Rightarrow> string \<Rightarrow> string \<Rightarrow> vault_error + string" where
  "DecryptWithMasterKey env ciphertext aad =
     (case masterKey env of
        Inl e \<Rightarrow> Inl e
      | Inr key \<Rightarrow> map_sum id string_of (open_box key ciphertext (bytes_of aad)))"

definition GenerateBindingKey :: "bytes option \<Rightarrow> vault_error + string" where
  "GenerateBindingKey random = (case random of None \<Rightarrow> Inl RandomFailed | Some b \<Rightarrow> Inr (hex_encode b))"

text \<open>The same decryption in sync-receiver, with the user id as additional data.\<close>

definition DecryptBindingKey :: "string \<Rightarrow> string \<Rightarrow> string \<Rightarrow> vault_error + string" where
  "DecryptBindingKey env ciphertext userID =
     (case masterKey env of
        Inl e \<Rightarrow> Inl e
      | Inr key \<Rightarrow> map_sum id string_of (open_box key ciphertext (bytes_of userID)))"

section \<open>TOTP secrets at rest\<close>

definition deriveKey :: "string \<Rightarrow> bytes" where
  "deriveKey passphrase = sha256 (bytes_of (passphrase @ ''-qaat-totp-v1''))"

definition EncryptSecret :: "bytes option \<Rightarrow> string \<Rightarrow> string \<Rightarrow> vault_error + string" where
  "EncryptSecret nonce plaintext passphrase =
     (case nonce of
        None \<Rightarrow> Inl RandomFailed
      | Some n \<Rightarrow> Inr (seal_box (deriveKey passphrase) n (bytes_of plaintext) []))"

definition DecryptSecret :: "string \<Rightarrow> string \<Rightarrow> vault_error + string" where
  "DecryptSecret ciphertext passphrase = map_sum id string_of (open_box (deriveKey passphrase) ciphertext [])"

text \<open>Eight codes, each the first eight hex digits of six random bytes.\<close>

fun backup_codes :: "bytes option list \<Rightarrow> vault_error + string list" where
  "backup_codes [] = Inr []"
| "backup_codes (None # rs) = Inl RandomFailed"
| "backup_codes (Some b # rs) =
     (case backup_codes rs of Inl e \<Rightarrow> Inl e | Inr cs \<Rightarrow> Inr (take 8 (hex_encode b) # cs))"

definition GenerateBackupCodes :: "(nat \<Rightarrow> bytes option) \<Rightarrow> vault_error + string list" where
  "GenerateBackupCodes random = backup_codes (map random [0..<8])"

definition TOTPValidUntil :: "instant \<Rightarrow> int" where
  "TOTPValidUntil now = (let n = unix_seconds now; remaining = 30 - rem_trunc n 30 in n + remaining)"

section \<open>Session packages\<close>

definition hkdfSalt :: bytes where "hkdfSalt = bytes_of ''QAAT-IndexedDB-Salt-v1''"
definition hkdfAESInf :: bytes where "hkdfAESInf = bytes_of ''coordinator-vault-key''"
definition hkdfMACInf :: bytes where "hkdfMACInf = bytes_of ''coordinator-vault-hmac''"

type_synonym kdf = "bytes \<Rightarrow> bytes \<Rightarrow> bytes \<Rightarrow> bytes option"

definition deriveVaultKeys :: "kdf \<Rightarrow> string \<Rightarrow> vault_error + bytes \<times> bytes" where
  "deriveVaultKeys hkdf bindingKey =
     (case hkdf (bytes_of bindingKey) hkdfSalt hkdfAESInf of
        None \<Rightarrow> Inl DeriveFailed
      | Some aesKey \<Rightarrow>
          (case hkdf (bytes_of bindingKey) hkdfSalt hkdfMACInf of
             None \<Rightarrow> Inl DeriveFailed
           | Some hmacKey \<Rightarrow> Inr (aesKey, hmacKey)))"

definition VerifyAndDecryptPackage :: "kdf \<Rightarrow> string \<Rightarrow> bytes \<Rightarrow> string \<Rightarrow> vault_error + bytes" where
  "VerifyAndDecryptPackage hkdf bindingKey payload expectedHMACHex =
     (case deriveVaultKeys hkdf bindingKey of
        Inl e \<Rightarrow> Inl e
      | Inr (aesKey, hmacKey) \<Rightarrow>
          if hex_decode expectedHMACHex \<noteq> Some (hmac_sha256 hmacKey payload) then Inl HmacFailed
          else case b64_decode (string_of payload) of
            None \<Rightarrow> Inl DecodeFailed
          | Some combined \<Rightarrow> open_combined aesKey combined [])"

definition SealPackage :: "kdf \<Rightarrow> string \<Rightarrow> bytes option \<Rightarrow> bytes \<Rightarrow> vault_error + string \<times> string \<times> string" where
  "SealPackage hkdf bindingKey random plaintext =
     (case deriveVaultKeys hkdf bindingKey of
        Inl e \<Rightarrow> Inl e
      | Inr (aesKey, hmacKey) \<Rightarrow>
          (case random of
             None \<Rightarrow> Inl RandomFailed
           | Some iv \<Rightarrow>
               let combined = iv @ gcm_seal aesKey iv plaintext [];
                   encPayload = b64_encode combined;
                   hmacHex = hex_encode (hmac_sha256 hmacKey (bytes_of encPayload));
                   checksumHex = hex_encode (sha256 (bytes_of encPayload))
               in Inr (encPayload, hmacHex, checksumHex)))"

section \<open>Lemmas on boxes\<close>

lemma bytes_of_string_of [simp]: "bytes_of (string_of b) = b"
  by (induction b) (auto simp: bytes_of_def string_of_def)

lemma open_combined_seal:
  "length nonce = gcm_nonce_size \<Longrightarrow> open_combined key (nonce @ gcm_seal key nonce pt aad) aad = Inr pt"
  by (simp add: open_combined_def gcm.open_seal)

lemma open_combined_iff:
  "open_combined key data aad = Inr pt \<longleftrightarrow>
     (\<exists>nonce. length nonce = gcm_nonce_size \<and> data = nonce @ gcm_seal key nonce pt aad)"
proof
  assume "open_combined key data aad = Inr pt"
  then have "gcm_nonce_size \<le> length data"
    and "gcm_open key (take gcm_nonce_size data) (drop gcm_nonce_size data) aad = Some pt"
    by (auto simp: open_combined_def Let_def split: if_splits option.splits)
  then have "drop gcm_nonce_size data = gcm_seal key (take gcm_nonce_size data) pt aad"
    and "length (take gcm_nonce_size data) = gcm_nonce_size"
    by (simp_all add: gcm.unseal_iff)
  then show "\<exists>nonce. length nonce = gcm_nonce_size \<and> data = nonce @ gcm_seal key nonce pt aad"
    by (metis append_take_drop_id)
qed (auto simp: open_combined_seal)

lemma open_box_iff:
  "open_box key c aad = Inr pt \<longleftrightarrow>
     (\<exists>nonce. length nonce = gcm_nonce_size \<and> b64_decode c = Some (nonce @ gcm_seal key nonce pt aad))"
  by (auto simp: open_box_def open_combined_iff split: option.split)

lemma open_seal_box: "length nonce = gcm_nonce_size \<Longrightarrow> open_box key (seal_box key nonce pt aad) aad = Inr pt"
  by (auto simp: open_box_iff seal_box_def)

lemma map_sum_Inr_iff: "map_sum id string_of r = Inr s \<longleftrightarrow> r = Inr (bytes_of s)"
  by (cases r) auto

lemma hex64_decodes: "hex64 h \<Longrightarrow> \<exists>b. hex_decode h = Some b \<and> length b = 32"
proof -
  have hv: "is_hex c \<Longrightarrow> \<exists>n. hex_value c = Some n" for c
    by (auto simp: is_hex_def hex_value_def Let_def)
  have "list_all is_hex s \<Longrightarrow> even (length s) \<Longrightarrow> \<exists>b. hex_decode s = Some b \<and> 2 * length b = length s" for s
  proof (induction s rule: hex_decode.induct)
    case (3 c d cs)
    then obtain h l b where "hex_value c = Some h" "hex_value d = Some l" "hex_decode cs = Some b" "2 * length b = length cs"
      using hv by fastforce
    then show ?case
      by simp
  qed auto
  then show "hex64 h \<Longrightarrow> ?thesis"
    by (fastforce simp: hex64_def)
qed

section \<open>Properties\<close>

text \<open>
  What the device seals the server opens: for every binding key, nonce and plaintext, a package
  that \<open>SealPackage\<close> produces passes the HMAC check and decrypts to the same plaintext.
\<close>

theorem package_roundtrip:
  assumes "SealPackage hkdf bindingKey (Some iv) plaintext = Inr (enc, mac, chk)" and "length iv = gcm_nonce_size"
  shows "VerifyAndDecryptPackage hkdf bindingKey (bytes_of enc) mac = Inr plaintext"
  using assms by (auto simp: SealPackage_def VerifyAndDecryptPackage_def Let_def open_combined_seal split: sum.splits)

theorem package_roundtrip_witness:
  "\<exists>enc mac chk. SealPackage (\<lambda>s salt info. Some (sha256 (s @ salt @ info))) ''key'' (Some (replicate 12 0)) (bytes_of ''{}'') = Inr (enc, mac, chk) \<and>
     VerifyAndDecryptPackage (\<lambda>s salt info. Some (sha256 (s @ salt @ info))) ''key'' (bytes_of enc) mac = Inr (bytes_of ''{}'')"
proof -
  obtain enc mac chk where "SealPackage (\<lambda>s salt info. Some (sha256 (s @ salt @ info))) ''key'' (Some (replicate 12 0)) (bytes_of ''{}'') = Inr (enc, mac, chk)"
    by (auto simp: SealPackage_def deriveVaultKeys_def Let_def)
  from package_roundtrip [OF this] this show ?thesis
    by (auto simp: gcm_nonce_size_def)
qed

text \<open>
  C8. Nothing else is opened: a package is accepted with plaintext \<open>pt\<close> exactly when its HMAC field is
  the HMAC of the transmitted text under the device's key and the text is the base64 of a
  nonce and the sealing of \<open>pt\<close> under the device's vault key.
\<close>

theorem package_authentic:
  assumes "deriveVaultKeys hkdf bindingKey = Inr (aesKey, hmacKey)"
  shows "VerifyAndDecryptPackage hkdf bindingKey payload mac = Inr pt \<longleftrightarrow>
    hex_decode mac = Some (hmac_sha256 hmacKey payload) \<and>
    (\<exists>iv. length iv = gcm_nonce_size \<and> b64_decode (string_of payload) = Some (iv @ gcm_seal aesKey iv pt []))"
  using assms by (auto simp: VerifyAndDecryptPackage_def open_combined_iff split: option.split)

theorem package_authentic_witness:
  "VerifyAndDecryptPackage (\<lambda>s salt info. Some (sha256 s)) ''key'' (bytes_of ''AAAA'') ''00'' \<noteq> Inr (bytes_of ''{}'')"
proof -
  have "deriveVaultKeys (\<lambda>s salt info. Some (sha256 s)) ''key'' = Inr (sha256 (bytes_of ''key''), sha256 (bytes_of ''key''))"
    by (simp add: deriveVaultKeys_def)
  moreover have "length (hmac_sha256 k m) \<noteq> length [0 :: byte]" for k m
    by simp
  moreover have "hex_decode ''00'' = Some [0]"
    by code_simp
  ultimately show ?thesis
    using package_authentic [of "\<lambda>s salt info. Some (sha256 s)" "''key''"] by (metis option.inject)
qed

text \<open>
  The binding key crosses services and is bound to its owner: what auth-service encrypts under the
  shared master key sync-receiver decrypts for the same user, and a ciphertext opens for a user
  only when it is a sealing made for that very user id.
\<close>

theorem binding_key_cross_service:
  assumes "EncryptWithMasterKey env (Some nonce) secret user = Inr c" and "length nonce = gcm_nonce_size"
  shows "DecryptBindingKey env c user = Inr secret \<and> DecryptWithMasterKey env c user = Inr secret \<and>
    (\<forall>user' s. DecryptBindingKey env c user' = Inr s \<longrightarrow>
       (\<exists>key. masterKey env = Inr key \<and>
          gcm_seal key nonce (bytes_of s) (bytes_of user') = gcm_seal key nonce (bytes_of secret) (bytes_of user)))"
proof -
  obtain key where key: "masterKey env = Inr key" "c = seal_box key nonce (bytes_of secret) (bytes_of user)"
    using assms by (auto simp: EncryptWithMasterKey_def split: sum.splits)
  have "DecryptBindingKey env c user = Inr secret" "DecryptWithMasterKey env c user = Inr secret"
    using key open_seal_box [OF assms(2)] by (auto simp: DecryptBindingKey_def DecryptWithMasterKey_def map_sum_Inr_iff)
  moreover have "gcm_seal key nonce (bytes_of s) (bytes_of user') = gcm_seal key nonce (bytes_of secret) (bytes_of user)"
    if d: "DecryptBindingKey env c user' = Inr s" for user' s
  proof -
    obtain n where "length n = gcm_nonce_size" "nonce @ gcm_seal key nonce (bytes_of secret) (bytes_of user) = n @ gcm_seal key n (bytes_of s) (bytes_of user')"
      using d key by (auto simp: DecryptBindingKey_def map_sum_Inr_iff open_box_iff seal_box_def)
    then show ?thesis
      using assms(2) by (metis append_eq_append_conv)
  qed
  ultimately show ?thesis
    using key(1) by blast
qed

theorem binding_key_cross_service_witness:
  "\<exists>c. EncryptWithMasterKey (replicate 64 (CHR ''0'')) (Some (replicate 12 0)) ''secret'' ''u1'' = Inr c \<and>
     DecryptBindingKey (replicate 64 (CHR ''0'')) c ''u1'' = Inr ''secret''"
proof -
  have "hex64 (replicate 64 (CHR ''0''))"
    by code_simp
  then obtain c where "EncryptWithMasterKey (replicate 64 (CHR ''0'')) (Some (replicate 12 0)) ''secret'' ''u1'' = Inr c"
    by (auto simp: EncryptWithMasterKey_def masterKey_def)
  from binding_key_cross_service [OF this] this show ?thesis
    by (auto simp: gcm_nonce_size_def)
qed

lemma binding_box_opens:
  "EncryptWithMasterKey env (Some nonce) secret user = Inr c \<Longrightarrow> length nonce = gcm_nonce_size \<Longrightarrow>
     DecryptWithMasterKey env c user = Inr secret"
  by (auto simp: EncryptWithMasterKey_def DecryptWithMasterKey_def open_seal_box split: sum.splits)

lemma sealed_package_opens:
  assumes "deriveVaultKeys hkdf bk = Inr (aesKey, hmacKey)" and "length iv = gcm_nonce_size"
    and "enc = b64_encode (iv @ gcm_seal aesKey iv pt [])"
  shows "VerifyAndDecryptPackage hkdf bk (bytes_of enc) (hex_encode (hmac_sha256 hmacKey (bytes_of enc))) = Inr pt"
  using assms by (simp add: VerifyAndDecryptPackage_def open_combined_seal)

text \<open>TOTP secrets survive a round trip under the same passphrase.\<close>

lemma secret_roundtrip:
  "EncryptSecret (Some nonce) secret pass = Inr c \<Longrightarrow> length nonce = gcm_nonce_size \<Longrightarrow> DecryptSecret c pass = Inr secret"
  by (auto simp: EncryptSecret_def DecryptSecret_def open_seal_box)

lemma DecryptSecret_iff:
  "DecryptSecret c pass = Inr s \<longleftrightarrow> (\<exists>nonce. length nonce = gcm_nonce_size \<and>
     b64_decode c = Some (nonce @ gcm_seal (deriveKey pass) nonce (bytes_of s) []))"
  by (auto simp: DecryptSecret_def map_sum_Inr_iff open_box_iff)

end
