(* ===== verification/Lockout.thy ===== *)
theory Lockout
  imports Go_Prelude
begin

text \<open>
  The contract of a failure counter that locks: the accounts of auth-service and the patrol PINs both
  keep one. A failure counts up and, from the limit on, locks for a fixed span.
\<close>

locale lockout =
  fixes fail :: "instant \<Rightarrow> 's \<Rightarrow> 's"
    and count :: "'s \<Rightarrow> int"
    and locked :: "instant \<Rightarrow> 's \<Rightarrow> bool"
    and limit :: int
    and span :: duration
  assumes fail_counts: "count (fail t s) = count s + 1"
    and fail_locks: "limit \<le> count s + 1 \<Longrightarrow> locked t' (fail t s) \<longleftrightarrow> t' < t + span"
    and fail_spares: "count s + 1 < limit \<Longrightarrow> locked t' (fail t s) \<longleftrightarrow> locked t' s"
begin

lemma count_fails: "count (foldl (\<lambda>s t. fail t s) s ts) = count s + int (length ts)"
  by (induction ts arbitrary: s) (auto simp: fail_counts)

lemma spared_fails:
  "count s + int (length ts) < limit \<Longrightarrow> locked t' (foldl (\<lambda>s t. fail t s) s ts) \<longleftrightarrow> locked t' s"
proof (induction ts arbitrary: s)
  case (Cons t ts)
  then show ?case
    using Cons.IH [of "fail t s"] by (simp add: fail_counts fail_spares)
qed simp

lemma locked_after:
  assumes "ts \<noteq> []" and "limit \<le> count s + int (length ts)"
  shows "locked t' (foldl (\<lambda>s t. fail t s) s ts) \<longleftrightarrow> t' < last ts + span"
proof -
  obtain us u where ts: "ts = us @ [u]"
    using assms(1) by (metis rev_exhaust)
  then show ?thesis
    using assms(2) by (simp add: fail_locks count_fails)
qed

text \<open>The count stays, so once the limit is reached a single failure locks again.\<close>

lemma relock_after_expiry: "limit \<le> count s \<Longrightarrow> locked t' (fail t s) \<longleftrightarrow> t' < t + span"
  by (rule fail_locks) simp

end

end
