(* ===== verification/Auth_Service.thy ===== *)
theory Auth_Service
  imports Vault Lockout
begin

text \<open>
  The authentication service: its user and token stores (\<open>user_store.go\<close>, \<open>token_store.go\<close>,
  \<open>user.go\<close>), the tokens it issues (\<open>jwt.go\<close>), the seeded first-login passwords
  (\<open>seeded_default.go\<close>) and every handler of \<open>auth_handler.go\<close>.

  A handler takes the libraries and the environment of one request (\<open>auth_env\<close>), the service's
  configuration, its request and the state, and returns its reply and the new state. The state is
  the \<open>users\<close> and \<open>tenants\<close> tables and the Redis keys with their expiry. bcrypt, TOTP and JWT
  signing are third-party packages and are fields of \<open>auth_env\<close>; so are the clock, the random
  source and the database calls that fail. A body that is not JSON is \<open>None\<close>; a nil dereference,
  which the router turns into status 500, is the error code PANIC.
\<close>

section \<open>Data\<close>

text \<open>The columns of \<open>users\<close> that the service reads or writes; \<open>created_at\<close> and \<open>updated_at\<close> are left out.\<close>

record User =
  UserID :: string
  TenantID :: string
  Email :: string
  PasswordHash :: string
  Role :: string
  FullName :: string
  Title :: string
  RegistrationNumber :: string
  IsActive :: bool
  TOTPSecretEnc :: "string option"
  TOTPEnabled :: bool
  TOTPBackupCodesEnc :: "string option"
  DeviceBindingKeyEnc :: "string option"
  LastLoginAt :: "instant option"
  FailedLoginCount :: int
  LockedUntil :: "instant option"
  ForcePasswordChange :: bool

record tenant =
  t_id :: string
  t_domain :: "string option"
  t_institution_id :: "string option"
  t_created_at :: instant

record auth_state =
  users :: "User table"
  tenants :: "tenant table"
  redis :: "string \<Rightarrow> instant option"

definition MFARequired :: "string \<Rightarrow> bool" where
  "MFARequired r = (r = ''VC'' \<or> r = ''DQA_DIRECTOR'')"

definition IsLocked :: "User \<Rightarrow> instant \<Rightarrow> bool" where
  "IsLocked u now = (case LockedUntil u of None \<Rightarrow> False | Some t \<Rightarrow> now < t)"

record JWTConfig =
  Issuer :: string
  Audience :: string
  TTL :: duration

record Claims =
  Subject :: string
  ClaimIssuer :: string
  ClaimAudience :: "string list"
  IssuedAt :: instant
  ExpiresAt :: "instant option"
  ID :: string
  ClaimRole :: string
  ClaimTenant :: string

datatype auth_call =
    CallSoleTenant | CallGetByEmail | CallGetByID | CallRecordSuccess | CallRecordFailure
  | CallSetBinding | CallUpdatePassword | CallUpdateEmail | CallTenantDomain | CallSetTOTP
  | CallEnableTOTP | CallRedisExists | CallRedisSet

datatype draw = DrawJTI | DrawBindingKey | DrawBindingNonce | DrawSecretNonce | DrawBackup nat | DrawBackupNonce

record auth_env =
  clock :: instant
  fails :: "auth_call \<Rightarrow> bool"
  random :: "draw \<Rightarrow> bytes option"
  bcrypt_compare :: "string \<Rightarrow> string \<Rightarrow> bool"
  bcrypt_generate :: "string \<Rightarrow> string option"
  totp_generate :: "string \<Rightarrow> (string \<times> string) option"
  totp_validate :: "string \<Rightarrow> string \<Rightarrow> bool"
  jwt_sign :: "Claims \<Rightarrow> string option"
  jwt_parse :: "string \<Rightarrow> string \<Rightarrow> string \<Rightarrow> Claims option"
  key_encryption_key :: string
  default_tenant_id :: string

record AuthHandler =
  jwt :: JWTConfig
  disableMFA :: bool
  internalKey :: string

section \<open>The stores\<close>

datatype store_error = ErrNotFound | ErrQuery | ErrDuplicate

text \<open>\<open>GetByID\<close> leaves title and registration number empty; it does not select them.\<close>

definition GetByEmailAndTenant :: "auth_env \<Rightarrow> string \<Rightarrow> string \<Rightarrow> auth_state \<Rightarrow> store_error + User" where
  "GetByEmailAndTenant env email tid s =
     (if fails env CallGetByEmail then Inl ErrQuery
      else case select_one (\<lambda>u. Email u = email \<and> TenantID u = tid) (users s) of
        None \<Rightarrow> Inl ErrNotFound | Some u \<Rightarrow> Inr u)"

definition GetByID :: "auth_env \<Rightarrow> string \<Rightarrow> auth_state \<Rightarrow> store_error + User" where
  "GetByID env uid s =
     (if fails env CallGetByID then Inl ErrQuery
      else case select_one (\<lambda>u. UserID u = uid) (users s) of
        None \<Rightarrow> Inl ErrNotFound | Some u \<Rightarrow> Inr (u\<lparr>Title := '''', RegistrationNumber := ''''\<rparr>))"

definition zero_uuid :: string where "zero_uuid = ''00000000-0000-0000-0000-000000000000''"

fun earliest :: "tenant list \<Rightarrow> tenant option" where
  "earliest [] = None"
| "earliest (t # ts) =
     (case earliest ts of
        None \<Rightarrow> Some t
      | Some u \<Rightarrow> if t_created_at t \<le> t_created_at u then Some t else Some u)"

definition SoleTenantID :: "auth_env \<Rightarrow> auth_state \<Rightarrow> store_error + string" where
  "SoleTenantID env s =
     (if default_tenant_id env \<noteq> [] then Inr (default_tenant_id env)
      else if fails env CallSoleTenant then Inl ErrQuery
      else case earliest (filter (\<lambda>t. t_id t \<noteq> zero_uuid) (tenants s)) of
        None \<Rightarrow> Inl ErrNotFound | Some t \<Rightarrow> Inr (t_id t))"

definition TenantDomain :: "auth_env \<Rightarrow> string \<Rightarrow> auth_state \<Rightarrow> string" where
  "TenantDomain env tid s =
     (if fails env CallTenantDomain then ''''
      else case select_one (\<lambda>t. t_id t = tid) (tenants s) of
        None \<Rightarrow> '''' | Some t \<Rightarrow> (case t_domain t of None \<Rightarrow> '''' | Some d \<Rightarrow> d))"

definition TenantInstitutionID :: "bool \<Rightarrow> string \<Rightarrow> auth_state \<Rightarrow> store_error + string" where
  "TenantInstitutionID db_fails tid s =
     (if db_fails then Inl ErrQuery
      else case select_one (\<lambda>t. t_id t = tid) (tenants s) of
        None \<Rightarrow> Inl ErrNotFound | Some t \<Rightarrow> Inr (case t_institution_id t of None \<Rightarrow> '''' | Some i \<Rightarrow> i))"

definition update_user :: "string \<Rightarrow> (User \<Rightarrow> User) \<Rightarrow> auth_state \<Rightarrow> auth_state" where
  "update_user uid f s = s\<lparr>users := update_where (\<lambda>u. UserID u = uid) f (users s)\<rparr>"

definition login_success :: "instant \<Rightarrow> User \<Rightarrow> User" where
  "login_success now u = u\<lparr>LastLoginAt := Some now, FailedLoginCount := 0, LockedUntil := None\<rparr>"

definition login_failure :: "instant \<Rightarrow> User \<Rightarrow> User" where
  "login_failure now u =
     u\<lparr>FailedLoginCount := FailedLoginCount u + 1,
       LockedUntil := (if FailedLoginCount u + 1 \<ge> 5 then Some (now + 15 * minute) else LockedUntil u)\<rparr>"

definition RecordLoginSuccess :: "auth_env \<Rightarrow> string \<Rightarrow> auth_state \<Rightarrow> auth_state" where
  "RecordLoginSuccess env uid s =
     (if fails env CallRecordSuccess then s else update_user uid (login_success (clock env)) s)"

text \<open>\<open>failed_login_count\<close> is a \<open>SMALLINT\<close>: an update past its range is a database error.\<close>

definition RecordLoginFailure :: "auth_env \<Rightarrow> string \<Rightarrow> auth_state \<Rightarrow> auth_state" where
  "RecordLoginFailure env uid s =
     (if fails env CallRecordFailure \<or> list_ex (\<lambda>u. UserID u = uid \<and> 32767 < FailedLoginCount u + 1) (users s)
      then s else update_user uid (login_failure (clock env)) s)"

definition set_totp_secret :: "string \<Rightarrow> User \<Rightarrow> User" where
  "set_totp_secret enc u = u\<lparr>TOTPSecretEnc := Some enc\<rparr>"

definition SetTOTPSecret :: "auth_env \<Rightarrow> string \<Rightarrow> string \<Rightarrow> auth_state \<Rightarrow> auth_state option" where
  "SetTOTPSecret env uid enc s = (if fails env CallSetTOTP then None else Some (update_user uid (set_totp_secret enc) s))"

definition enable_totp :: "string \<Rightarrow> User \<Rightarrow> User" where
  "enable_totp enc u = u\<lparr>TOTPEnabled := True, TOTPBackupCodesEnc := Some enc\<rparr>"

definition EnableTOTP :: "auth_env \<Rightarrow> string \<Rightarrow> string \<Rightarrow> auth_state \<Rightarrow> auth_state" where
  "EnableTOTP env uid enc s = (if fails env CallEnableTOTP then s else update_user uid (enable_totp enc) s)"

definition set_binding :: "string \<Rightarrow> User \<Rightarrow> User" where
  "set_binding enc u = u\<lparr>DeviceBindingKeyEnc := Some enc\<rparr>"

definition SetDeviceBindingKey :: "auth_env \<Rightarrow> string \<Rightarrow> string \<Rightarrow> auth_state \<Rightarrow> auth_state option" where
  "SetDeviceBindingKey env uid enc s = (if fails env CallSetBinding then None else Some (update_user uid (set_binding enc) s))"

text \<open>\<open>UpdateEmail\<close>: the unique key on tenant and email makes a taken address an error.\<close>

definition UpdateEmail :: "auth_env \<Rightarrow> string \<Rightarrow> string \<Rightarrow> auth_state \<Rightarrow> store_error + auth_state" where
  "UpdateEmail env uid email s =
     (if fails env CallUpdateEmail then Inl ErrQuery
      else if list_ex (\<lambda>u. UserID u = uid \<and> list_ex (\<lambda>v. UserID v \<noteq> uid \<and> TenantID v = TenantID u \<and> Email v = email) (users s)) (users s)
      then Inl ErrDuplicate
      else Inr (update_user uid (\<lambda>u. u\<lparr>Email := email\<rparr>) s))"

definition set_password :: "string \<Rightarrow> User \<Rightarrow> User" where
  "set_password hash u =
     u\<lparr>PasswordHash := hash, FailedLoginCount := 0, LockedUntil := None, ForcePasswordChange := False\<rparr>"

definition UpdatePassword :: "auth_env \<Rightarrow> string \<Rightarrow> string \<Rightarrow> auth_state \<Rightarrow> auth_state option" where
  "UpdatePassword env uid hash s = (if fails env CallUpdatePassword then None else Some (update_user uid (set_password hash) s))"

definition jtiPrefix :: string where "jtiPrefix = ''jti:blacklist:''"

definition Blacklist :: "auth_env \<Rightarrow> string \<Rightarrow> duration \<Rightarrow> auth_state \<Rightarrow> auth_state" where
  "Blacklist env jti ttl s =
     (if fails env CallRedisSet then s
      else s\<lparr>redis := (redis s)(jtiPrefix @ jti \<mapsto> clock env + ttl)\<rparr>)"

definition IsBlacklisted :: "auth_env \<Rightarrow> string \<Rightarrow> auth_state \<Rightarrow> bool option" where
  "IsBlacklisted env jti s =
     (if fails env CallRedisExists then None
      else Some (case redis s (jtiPrefix @ jti) of None \<Rightarrow> False | Some t \<Rightarrow> clock env < t))"

section \<open>Tokens\<close>

definition generateJTI :: "auth_env \<Rightarrow> string option" where
  "generateJTI env = map_option hex_encode (random env DrawJTI)"

text \<open>\<open>NumericDate\<close> keeps whole seconds.\<close>

definition numeric_date :: "instant \<Rightarrow> instant" where
  "numeric_date t = unix_seconds t * second"

definition IssueWithTTL ::
  "auth_env \<Rightarrow> JWTConfig \<Rightarrow> string \<Rightarrow> string \<Rightarrow> string \<Rightarrow> duration \<Rightarrow> (string \<times> string \<times> instant) option" where
  "IssueWithTTL env cfg userID tenantID role ttl =
     (case generateJTI env of
        None \<Rightarrow> None
      | Some jti \<Rightarrow>
          let ttl = (if ttl \<le> 0 \<or> TTL cfg < ttl then TTL cfg else ttl);
              expiresAt = clock env + ttl;
              claims = \<lparr>Subject = userID, ClaimIssuer = Issuer cfg, ClaimAudience = [Audience cfg],
                IssuedAt = numeric_date (clock env), ExpiresAt = Some (numeric_date expiresAt), ID = jti,
                ClaimRole = role, ClaimTenant = tenantID\<rparr>
          in map_option (\<lambda>tok. (tok, jti, expiresAt)) (jwt_sign env claims))"

definition Issue :: "auth_env \<Rightarrow> JWTConfig \<Rightarrow> string \<Rightarrow> string \<Rightarrow> string \<Rightarrow> (string \<times> string \<times> instant) option" where
  "Issue env cfg userID tenantID role = IssueWithTTL env cfg userID tenantID role (TTL cfg)"

text \<open>\<open>Parse\<close>: the library checks signature, method, expiry, issuer and audience.\<close>

definition Parse :: "auth_env \<Rightarrow> JWTConfig \<Rightarrow> string \<Rightarrow> Claims option" where
  "Parse env cfg tokenString = jwt_parse env (Issuer cfg) (Audience cfg) tokenString"

section \<open>Seeded passwords\<close>

definition seededDefaults :: "(string \<times> string list) list" where
  "seededDefaults = [(''student'', [''student'', ''Student'']), (''lecturer'', [''lecturer'', ''Lecturer'']),
     (''patroller'', [''patroller'', ''Patroller''])]"

definition matchesSeededDefault :: "auth_env \<Rightarrow> User \<Rightarrow> string \<Rightarrow> bool" where
  "matchesSeededDefault env user submitted =
     (if \<not> ForcePasswordChange user \<or> submitted = [] then False
      else case map_of seededDefaults (to_lower submitted) of
        None \<Rightarrow> False
      | Some variants \<Rightarrow> list_ex (\<lambda>v. bcrypt_compare env (PasswordHash user) v) variants)"

section \<open>Requests and replies\<close>

record loginRequest =
  l_email :: string
  l_password :: string
  l_totp :: string
  l_tenant :: string

record loginResponse =
  AccessToken :: string
  ExpiresIn :: int
  JTI :: string
  RRole :: string
  RUserID :: string
  RFullName :: string
  RTitle :: string
  RRegistrationNo :: string
  RTenantID :: string
  RBindingKey :: string
  RForcePasswordChange :: bool

definition token_response :: "auth_env \<Rightarrow> string \<times> string \<times> instant \<Rightarrow> User \<Rightarrow> loginResponse" where
  "token_response env issued u =
     (let (tok, jti, expiresAt) = issued in
      \<lparr>AccessToken = tok, ExpiresIn = quot_trunc (time_sub expiresAt (clock env)) second, JTI = jti,
       RRole = Role u, RUserID = UserID u, RFullName = '''', RTitle = '''', RRegistrationNo = '''',
       RTenantID = TenantID u, RBindingKey = '''', RForcePasswordChange = False\<rparr>)"

text \<open>The header as a string, empty when it is not sent.\<close>

definition extractBearer :: "string \<Rightarrow> string" where
  "extractBearer h = (if \<not> has_prefix h ''Bearer '' then '''' else trim_prefix h ''Bearer '')"

text \<open>The first two steps of the handlers that act for a signed-in user.\<close>

definition bearer_claims :: "auth_env \<Rightarrow> AuthHandler \<Rightarrow> string \<Rightarrow> 'a reply + Claims" where
  "bearer_claims env h auth =
     (let tokenStr = extractBearer auth in
      if tokenStr = [] then Inl (Reject 401 ''MISSING_TOKEN'')
      else case Parse env (jwt h) tokenStr of
        None \<Rightarrow> Inl (Reject 401 ''TOKEN_INVALID'')
      | Some claims \<Rightarrow> Inr claims)"

section \<open>Login\<close>

definition resolveBindingKey :: "auth_env \<Rightarrow> User \<Rightarrow> auth_state \<Rightarrow> string option \<times> auth_state" where
  "resolveBindingKey env user s =
     (let stored = (case DeviceBindingKeyEnc user of
            Some enc \<Rightarrow> if enc \<noteq> [] then Some enc else None | None \<Rightarrow> None);
          opened = (case stored of
            None \<Rightarrow> None
          | Some enc \<Rightarrow> (case DecryptWithMasterKey (key_encryption_key env) enc (UserID user) of
              Inr key \<Rightarrow> Some key | Inl _ \<Rightarrow> None))
      in case opened of
        Some key \<Rightarrow> (Some key, s)
      | None \<Rightarrow>
          (case GenerateBindingKey (random env DrawBindingKey) of
             Inl _ \<Rightarrow> (None, s)
           | Inr key \<Rightarrow>
               (case EncryptWithMasterKey (key_encryption_key env) (random env DrawBindingNonce) key (UserID user) of
                  Inl _ \<Rightarrow> (None, s)
                | Inr enc \<Rightarrow>
                    (case SetDeviceBindingKey env (UserID user) enc s of
                       None \<Rightarrow> (None, s)
                     | Some s' \<Rightarrow> (Some key, s')))))"

text \<open>The TOTP gate of \<open>Login\<close>; \<open>None\<close> lets the request pass.\<close>

definition totp_gate :: "auth_env \<Rightarrow> AuthHandler \<Rightarrow> loginRequest \<Rightarrow> User \<Rightarrow> loginResponse reply option" where
  "totp_gate env h req user =
     (if MFARequired (Role user) \<and> \<not> disableMFA h then
        (if \<not> TOTPEnabled user then Some (Reject 403 ''MFA_SETUP_REQUIRED'')
         else if l_totp req = [] then Some (Reject 403 ''MFA_REQUIRED'')
         else case TOTPSecretEnc user of
           None \<Rightarrow> Some (Reject 500 ''PANIC'')
         | Some enc \<Rightarrow>
             (case DecryptSecret enc (PasswordHash user) of
                Inl _ \<Rightarrow> Some (Reject 500 ''INTERNAL_ERROR'')
              | Inr secret \<Rightarrow>
                  if \<not> totp_validate env secret (l_totp req) then Some (Reject 401 ''INVALID_MFA_CODE'') else None))
      else None)"

definition password_ok :: "auth_env \<Rightarrow> User \<Rightarrow> string \<Rightarrow> bool" where
  "password_ok env user pw = (bcrypt_compare env (PasswordHash user) pw \<or> matchesSeededDefault env user pw)"

text \<open>\<open>Login\<close> once the tenant is known.\<close>

definition login_user :: "auth_env \<Rightarrow> AuthHandler \<Rightarrow> loginRequest \<Rightarrow> User \<Rightarrow> auth_state \<Rightarrow> loginResponse reply \<times> auth_state" where
  "login_user env h req user s =
     (if \<not> IsActive user then (Reject 401 ''ACCOUNT_INACTIVE'', s)
      else let lockoutApplies = (Role user = ''STUDENT'') in
        if lockoutApplies \<and> IsLocked user (clock env) then (Reject 429 ''ACCOUNT_LOCKED'', s)
        else if \<not> password_ok env user (l_password req) then
          (Reject 401 ''INVALID_CREDENTIALS'', if lockoutApplies then RecordLoginFailure env (UserID user) s else s)
        else case totp_gate env h req user of
          Some r \<Rightarrow> (r, s)
        | None \<Rightarrow>
            (case Issue env (jwt h) (UserID user) (TenantID user) (Role user) of
               None \<Rightarrow> (Reject 500 ''INTERNAL_ERROR'', s)
             | Some issued \<Rightarrow>
                 let s = RecordLoginSuccess env (UserID user) s;
                     (key, s) = (if Role user = ''COORDINATOR'' then resolveBindingKey env user s else (Some '''', s))
                 in (case key of
                       None \<Rightarrow> (Reject 500 ''INTERNAL_ERROR'', s)
                     | Some bindingKey \<Rightarrow>
                         (Reply 200 ((token_response env issued user)\<lparr>RFullName := FullName user, RTitle := Title user,
                            RRegistrationNo := RegistrationNumber user, RBindingKey := bindingKey,
                            RForcePasswordChange := ForcePasswordChange user\<rparr>), s))))"

definition Login :: "auth_env \<Rightarrow> AuthHandler \<Rightarrow> loginRequest option \<Rightarrow> auth_state \<Rightarrow> loginResponse reply \<times> auth_state" where
  "Login env h body s =
     (case body of
        None \<Rightarrow> (Reject 400 ''INVALID_REQUEST'', s)
      | Some req \<Rightarrow>
          if l_email req = [] \<or> l_password req = [] then (Reject 400 ''INVALID_REQUEST'', s)
          else case (if l_tenant req = [] then SoleTenantID env s else Inr (l_tenant req)) of
            Inl _ \<Rightarrow> (Reject 500 ''NO_TENANT'', s)
          | Inr tenantID \<Rightarrow>
              (case GetByEmailAndTenant env (l_email req) tenantID s of
                 Inl ErrNotFound \<Rightarrow> (Reject 401 ''INVALID_CREDENTIALS'', s)
               | Inl _ \<Rightarrow> (Reject 500 ''INTERNAL_ERROR'', s)
               | Inr user \<Rightarrow> login_user env h req user s))"

section \<open>Self-service changes\<close>

definition ChangePassword ::
  "auth_env \<Rightarrow> AuthHandler \<Rightarrow> string \<Rightarrow> (string \<times> string) option \<Rightarrow> auth_state \<Rightarrow> string reply \<times> auth_state" where
  "ChangePassword env h auth body s =
     (case bearer_claims env h auth of
        Inl r \<Rightarrow> (r, s)
      | Inr claims \<Rightarrow>
          (case body of
             None \<Rightarrow> (Reject 400 ''INVALID_REQUEST'', s)
           | Some (current, new) \<Rightarrow>
               if length new < 8 then (Reject 400 ''WEAK_PASSWORD'', s)
               else case GetByID env (Subject claims) s of
                 Inl _ \<Rightarrow> (Reject 401 ''USER_NOT_FOUND'', s)
               | Inr user \<Rightarrow>
                   if \<not> password_ok env user current then (Reject 401 ''INVALID_CREDENTIALS'', s)
                   else case bcrypt_generate env new of
                     None \<Rightarrow> (Reject 500 ''INTERNAL_ERROR'', s)
                   | Some hash \<Rightarrow>
                       (case UpdatePassword env (UserID user) hash s of
                          None \<Rightarrow> (Reject 500 ''INTERNAL_ERROR'', s)
                        | Some s' \<Rightarrow> (Reply 200 ''PASSWORD_CHANGED'', s'))))"

definition ChangeEmail ::
  "auth_env \<Rightarrow> AuthHandler \<Rightarrow> string \<Rightarrow> (string \<times> string) option \<Rightarrow> auth_state \<Rightarrow> string reply \<times> auth_state" where
  "ChangeEmail env h auth body s =
     (case bearer_claims env h auth of
        Inl r \<Rightarrow> (r, s)
      | Inr claims \<Rightarrow>
          (case body of
             None \<Rightarrow> (Reject 400 ''INVALID_REQUEST'', s)
           | Some (current, newEmail) \<Rightarrow>
               let email = to_lower (trim_space newEmail) in
               (case last_index email (CHR ''@'') of
                  None \<Rightarrow> (Reject 400 ''INVALID_EMAIL'', s)
                | Some at \<Rightarrow>
                    if at = 0 \<or> CHR ''.'' \<notin> set (drop at email) then (Reject 400 ''INVALID_EMAIL'', s)
                    else case GetByID env (Subject claims) s of
                      Inl _ \<Rightarrow> (Reject 401 ''USER_NOT_FOUND'', s)
                    | Inr user \<Rightarrow>
                        if \<not> bcrypt_compare env (PasswordHash user) current then (Reject 401 ''INVALID_CREDENTIALS'', s)
                        else let domain = to_lower (trim_space (TenantDomain env (TenantID user) s));
                                 d = drop (at + 1) email in
                          if domain = [] \<or> (d \<noteq> domain \<and> \<not> has_suffix d (CHR ''.'' # domain))
                          then (Reject 400 ''EMAIL_DOMAIN_MISMATCH'', s)
                          else case UpdateEmail env (UserID user) email s of
                            Inl ErrDuplicate \<Rightarrow> (Reject 409 ''EMAIL_TAKEN'', s)
                          | Inl _ \<Rightarrow> (Reject 500 ''INTERNAL_ERROR'', s)
                          | Inr s' \<Rightarrow> (Reply 200 email, s'))))"

section \<open>Tokens for the gateway\<close>

text \<open>
  The three internal handlers differ in the role they serve and in the lifetime; \<open>issue\<close> is the call
  that makes the token. The header carries the shared secret.
\<close>

definition internal_token ::
  "auth_env \<Rightarrow> AuthHandler \<Rightarrow> string \<Rightarrow> string \<Rightarrow> (string \<times> string) option \<Rightarrow>
     (User \<Rightarrow> (string \<times> string \<times> instant) option) \<Rightarrow> auth_state \<Rightarrow> loginResponse reply" where
  "internal_token env h role key ids issue s =
     (if internalKey h = [] \<or> key \<noteq> internalKey h then Reject 401 ''UNAUTHORIZED''
      else case ids of
        None \<Rightarrow> Reject 400 ''INVALID_REQUEST''
      | Some (uid, tid) \<Rightarrow>
          if uid = [] \<or> tid = [] then Reject 400 ''INVALID_REQUEST''
          else case GetByID env uid s of
            Inl _ \<Rightarrow> Reject 403 ''FORBIDDEN''
          | Inr user \<Rightarrow>
              if TenantID user \<noteq> tid \<or> Role user \<noteq> role \<or> \<not> IsActive user then Reject 403 ''FORBIDDEN''
              else case issue user of
                None \<Rightarrow> Reject 500 ''INTERNAL_ERROR''
              | Some issued \<Rightarrow> Reply 200 (token_response env issued user))"

definition IssueLecturerToken ::
  "auth_env \<Rightarrow> AuthHandler \<Rightarrow> string \<Rightarrow> (string \<times> string) option \<Rightarrow> auth_state \<Rightarrow> loginResponse reply" where
  "IssueLecturerToken env h key body s =
     internal_token env h ''LECTURER'' key body (\<lambda>u. Issue env (jwt h) (UserID u) (TenantID u) (Role u)) s"

definition IssueStudentToken ::
  "auth_env \<Rightarrow> AuthHandler \<Rightarrow> string \<Rightarrow> (string \<times> string) option \<Rightarrow> auth_state \<Rightarrow> loginResponse reply" where
  "IssueStudentToken env h key body s =
     internal_token env h ''STUDENT'' key body (\<lambda>u. Issue env (jwt h) (UserID u) (TenantID u) (Role u)) s"

text \<open>\<open>time.Duration(TTLSeconds) * time.Second\<close> is 64-bit arithmetic and wraps.\<close>

definition duration_of_seconds :: "int \<Rightarrow> duration" where
  "duration_of_seconds n = sint (of_int (n * second) :: 64 word)"

definition IssueCoordinatorToken ::
  "auth_env \<Rightarrow> AuthHandler \<Rightarrow> string \<Rightarrow> (string \<times> string \<times> int) option \<Rightarrow> auth_state \<Rightarrow> loginResponse reply" where
  "IssueCoordinatorToken env h key body s =
     internal_token env h ''COORDINATOR'' key (map_option (\<lambda>(u, t, _). (u, t)) body)
       (\<lambda>u. IssueWithTTL env (jwt h) (UserID u) (TenantID u) (Role u)
          (duration_of_seconds (case body of Some (_, _, ttl) \<Rightarrow> ttl | None \<Rightarrow> 0))) s"

section \<open>Refresh and logout\<close>

text \<open>A claim without expiry would be a nil dereference; the service itself always sets one.\<close>

definition revoke :: "auth_env \<Rightarrow> Claims \<Rightarrow> instant \<Rightarrow> auth_state \<Rightarrow> auth_state" where
  "revoke env claims expiry s =
     (let remaining = time_sub expiry (clock env) in
      if 0 < remaining then Blacklist env (ID claims) remaining s else s)"

definition Refresh :: "auth_env \<Rightarrow> AuthHandler \<Rightarrow> string \<Rightarrow> auth_state \<Rightarrow> loginResponse reply \<times> auth_state" where
  "Refresh env h auth s =
     (case bearer_claims env h auth of
        Inl r \<Rightarrow> (r, s)
      | Inr claims \<Rightarrow>
          (case IsBlacklisted env (ID claims) s of
             None \<Rightarrow> (Reject 401 ''TOKEN_REVOKED'', s)
           | Some True \<Rightarrow> (Reject 401 ''TOKEN_REVOKED'', s)
           | Some False \<Rightarrow>
               (case ExpiresAt claims of
                  None \<Rightarrow> (Reject 500 ''PANIC'', s)
                | Some expiry \<Rightarrow>
                    let s = revoke env claims expiry s in
                    (case Issue env (jwt h) (Subject claims) (ClaimTenant claims) (ClaimRole claims) of
                       None \<Rightarrow> (Reject 500 ''INTERNAL_ERROR'', s)
                     | Some (tok, jti, expiresAt) \<Rightarrow>
                         (Reply 200 \<lparr>AccessToken = tok, ExpiresIn = quot_trunc (time_sub expiresAt (clock env)) second,
                            JTI = jti, RRole = ClaimRole claims, RUserID = Subject claims, RFullName = '''', RTitle = '''',
                            RRegistrationNo = '''', RTenantID = '''', RBindingKey = '''', RForcePasswordChange = False\<rparr>, s)))))"

definition Logout :: "auth_env \<Rightarrow> AuthHandler \<Rightarrow> string \<Rightarrow> auth_state \<Rightarrow> unit reply \<times> auth_state" where
  "Logout env h auth s =
     (let tokenStr = extractBearer auth in
      if tokenStr = [] then (Reject 401 ''MISSING_TOKEN'', s)
      else case Parse env (jwt h) tokenStr of
        None \<Rightarrow> (Reply 204 (), s)
      | Some claims \<Rightarrow>
          (case ExpiresAt claims of
             None \<Rightarrow> (Reject 500 ''PANIC'', s)
           | Some expiry \<Rightarrow> (Reply 204 (), revoke env claims expiry s)))"

section \<open>TOTP enrolment\<close>

definition EnrollMFA :: "auth_env \<Rightarrow> AuthHandler \<Rightarrow> string \<Rightarrow> auth_state \<Rightarrow> (string \<times> string list) reply \<times> auth_state" where
  "EnrollMFA env h auth s =
     (case bearer_claims env h auth of
        Inl r \<Rightarrow> (r, s)
      | Inr claims \<Rightarrow>
          (case GetByID env (Subject claims) s of
             Inl _ \<Rightarrow> (Reject 404 ''USER_NOT_FOUND'', s)
           | Inr user \<Rightarrow>
               if TOTPEnabled user then (Reject 409 ''MFA_ALREADY_ENROLLED'', s)
               else case totp_generate env (Email user) of
                 None \<Rightarrow> (Reject 500 ''INTERNAL_ERROR'', s)
               | Some (secret, url) \<Rightarrow>
                   (case EncryptSecret (random env DrawSecretNonce) secret (PasswordHash user) of
                      Inl _ \<Rightarrow> (Reject 500 ''INTERNAL_ERROR'', s)
                    | Inr enc \<Rightarrow>
                        (case SetTOTPSecret env (UserID user) enc s of
                           None \<Rightarrow> (Reject 500 ''INTERNAL_ERROR'', s)
                         | Some s \<Rightarrow>
                             (case GenerateBackupCodes (\<lambda>i. random env (DrawBackup i)) of
                                Inl _ \<Rightarrow> (Reject 500 ''INTERNAL_ERROR'', s)
                              | Inr codes \<Rightarrow> (Reply 200 (url, codes), s))))))"

definition VerifyMFA :: "auth_env \<Rightarrow> AuthHandler \<Rightarrow> string \<Rightarrow> string option \<Rightarrow> auth_state \<Rightarrow> string list reply \<times> auth_state" where
  "VerifyMFA env h auth body s =
     (case bearer_claims env h auth of
        Inl r \<Rightarrow> (r, s)
      | Inr claims \<Rightarrow>
          (case body of
             None \<Rightarrow> (Reject 400 ''INVALID_REQUEST'', s)
           | Some code \<Rightarrow>
               if code = [] then (Reject 400 ''INVALID_REQUEST'', s)
               else case GetByID env (Subject claims) s of
                 Inl _ \<Rightarrow> (Reject 404 ''USER_NOT_FOUND'', s)
               | Inr user \<Rightarrow>
                   (case TOTPSecretEnc user of
                      None \<Rightarrow> (Reject 400 ''MFA_NOT_INITIATED'', s)
                    | Some enc \<Rightarrow>
                        (case DecryptSecret enc (PasswordHash user) of
                           Inl _ \<Rightarrow> (Reject 500 ''INTERNAL_ERROR'', s)
                         | Inr secret \<Rightarrow>
                             if \<not> totp_validate env secret code then (Reject 401 ''INVALID_MFA_CODE'', s)
                             else let codes = (case GenerateBackupCodes (\<lambda>i. random env (DrawBackup i)) of
                                        Inl _ \<Rightarrow> [] | Inr cs \<Rightarrow> cs);
                                      encBackup = (case EncryptSecret (random env DrawBackupNonce) (join_with '','' codes) (PasswordHash user) of
                                        Inl _ \<Rightarrow> '''' | Inr c \<Rightarrow> c)
                                  in (Reply 200 codes, EnableTOTP env (UserID user) encBackup s)))))"

section \<open>Facts about the stores\<close>

interpretation account_lock: lockout login_failure FailedLoginCount "\<lambda>t u. IsLocked u t" 5 "15 * minute"
  by unfold_locales (auto simp: login_failure_def IsLocked_def)

interpretation user_failure: keyed_update UserID "login_failure t"
  by unfold_locales (simp add: login_failure_def)

interpretation user_success: keyed_update UserID "login_success t"
  by unfold_locales (simp add: login_success_def)

interpretation user_password: keyed_update UserID "set_password hash"
  by unfold_locales (simp add: set_password_def)

interpretation user_binding: keyed_update UserID "set_binding enc"
  by unfold_locales (simp add: set_binding_def)

lemma users_update_user [simp]: "users (update_user uid f s) = update_where (\<lambda>u. UserID u = uid) f (users s)"
  by (simp add: update_user_def)

lemma Issue_claims:
  "Issue env cfg uid tid role = Some (tok, jti, e) \<Longrightarrow>
     \<exists>claims. jwt_sign env claims = Some tok \<and> Subject claims = uid \<and> ClaimTenant claims = tid \<and>
       ClaimRole claims = role \<and> ID claims = jti \<and> ExpiresAt claims = Some (numeric_date (clock env + TTL cfg)) \<and>
       e = clock env + TTL cfg"
  by (auto simp: Issue_def IssueWithTTL_def Let_def split: option.splits)

lemma GetByEmail_Inr:
  "GetByEmailAndTenant env e t s = Inr u \<longleftrightarrow>
     \<not> fails env CallGetByEmail \<and> select_one (\<lambda>u. Email u = e \<and> TenantID u = t) (users s) = Some u"
  by (auto simp: GetByEmailAndTenant_def split: option.splits)

lemma totp_gate_None:
  "totp_gate env h req u = None \<longleftrightarrow> (MFARequired (Role u) \<and> \<not> disableMFA h \<longrightarrow>
     TOTPEnabled u \<and> l_totp req \<noteq> [] \<and> (\<exists>enc secret. TOTPSecretEnc u = Some enc \<and>
       DecryptSecret enc (PasswordHash u) = Inr secret \<and> totp_validate env secret (l_totp req)))"
  by (auto simp: totp_gate_def split: option.splits sum.splits)

lemma totp_gate_rejects: "totp_gate env h req u = Some r \<Longrightarrow> \<not> accepted r"
  by (auto simp: totp_gate_def split: if_splits option.splits sum.splits)

lemma login_user_accepted:
  assumes "login_user env h req u s = (Reply n r, s')"
  shows "IsActive u" "Role u = ''STUDENT'' \<Longrightarrow> \<not> IsLocked u (clock env)"
    "password_ok env u (l_password req)" "totp_gate env h req u = None"
    "\<exists>issued. Issue env (jwt h) (UserID u) (TenantID u) (Role u) = Some issued \<and>
       AccessToken r = fst issued \<and> JTI r = fst (snd issued)"
    "RUserID r = UserID u" "RRole r = Role u" "RTenantID r = TenantID u" "n = 200"
  using assms totp_gate_rejects [of env h req u]
  by (auto simp: login_user_def Let_def token_response_def split: if_splits option.splits prod.splits)

lemma Login_accepted:
  assumes "Login env h body s = (Reply n r, s')"
  obtains req u t where "body = Some req" "l_tenant req \<noteq> [] \<Longrightarrow> t = l_tenant req"
    "select_one (\<lambda>u. Email u = l_email req \<and> TenantID u = t) (users s) = Some u"
    "login_user env h req u s = (Reply n r, s')"
  using assms by (auto simp: Login_def GetByEmail_Inr split: if_splits option.splits sum.splits store_error.splits)


lemma login_facts:
  assumes "Login env h body s = (Reply n r, s')"
  shows "\<exists>req u. u \<in> set (users s) \<and> UserID u = RUserID r \<and> Role u = RRole r \<and>
    (MFARequired (Role u) \<and> \<not> disableMFA h \<longrightarrow> TOTPEnabled u \<and>
       (\<exists>enc secret. TOTPSecretEnc u = Some enc \<and> DecryptSecret enc (PasswordHash u) = Inr secret))"
proof -
  obtain req u t where l: "select_one (\<lambda>u. Email u = l_email req \<and> TenantID u = t) (users s) = Some u"
    "login_user env h req u s = (Reply n r, s')"
    by (rule Login_accepted [OF assms])
  show ?thesis
    using login_user_accepted(4,6,7) [OF l(2)] select_one_Some [OF l(1)] totp_gate_None [of env h req u] by metis
qed

text \<open>A small instance for examples: a reversible hash, and tokens that name their subject.\<close>

definition demo_claims :: "instant \<Rightarrow> string \<Rightarrow> Claims" where
  "demo_claims e sub = \<lparr>Subject = sub, ClaimIssuer = ''qaat'', ClaimAudience = [''qaat''], IssuedAt = 0, ExpiresAt = Some e,
     ID = ''j-'' @ sub, ClaimRole = ''STUDENT'', ClaimTenant = ''t1''\<rparr>"

definition demo_env :: "instant \<Rightarrow> auth_env" where
  "demo_env now = \<lparr>clock = now, fails = (\<lambda>_. False), random = (\<lambda>_. Some (replicate 12 0)),
     bcrypt_compare = (\<lambda>h p. h = ''h:'' @ p), bcrypt_generate = (\<lambda>p. Some (''h:'' @ p)),
     totp_generate = (\<lambda>e. Some (''s'', ''url'')), totp_validate = (\<lambda>s c. c = ''123456''),
     jwt_sign = (\<lambda>c. Some (Subject c)), jwt_parse = (\<lambda>i a tok. Some (demo_claims (100 * hour) tok)),
     key_encryption_key = replicate 64 (CHR ''0''), default_tenant_id = ''t1''\<rparr>"

definition demo_handler :: AuthHandler where
  "demo_handler = \<lparr>jwt = \<lparr>Issuer = ''qaat'', Audience = ''qaat'', TTL = 8 * hour\<rparr>, disableMFA = False, internalKey = ''k''\<rparr>"

definition demo_user :: "string \<Rightarrow> User" where
  "demo_user role = \<lparr>UserID = ''u1'', TenantID = ''t1'', Email = ''a@kiu.ac.ug'', PasswordHash = ''h:secret12'', Role = role,
     FullName = '''', Title = '''', RegistrationNumber = '''', IsActive = True, TOTPSecretEnc = None, TOTPEnabled = False,
     TOTPBackupCodesEnc = None, DeviceBindingKeyEnc = None, LastLoginAt = None, FailedLoginCount = 0, LockedUntil = None,
     ForcePasswordChange = False\<rparr>"

definition demo_auth :: "string \<Rightarrow> auth_state" where
  "demo_auth role = \<lparr>users = [demo_user role], tenants = [], redis = Map.empty\<rparr>"

definition demo_login :: "string \<Rightarrow> loginRequest" where
  "demo_login pw = \<lparr>l_email = ''a@kiu.ac.ug'', l_password = pw, l_totp = '''', l_tenant = ''t1''\<rparr>"

lemmas demo_auth_defs = demo_env_def demo_handler_def demo_user_def demo_auth_def demo_login_def demo_claims_def

lemmas login_defs = Login_def login_user_def GetByEmailAndTenant_def password_ok_def matchesSeededDefault_def
  totp_gate_def MFARequired_def Issue_def IssueWithTTL_def generateJTI_def IsLocked_def


section \<open>Lockout\<close>

lemma password_ok_failure [simp]: "password_ok env (login_failure t u) pw = password_ok env u pw"
  by (simp add: password_ok_def matchesSeededDefault_def login_failure_def cong: option.case_cong)

text \<open>One wrong password on an unlocked student account counts a failure and nothing else.\<close>

lemma wrong_login:
  assumes "select_one (\<lambda>u. Email u = l_email req \<and> TenantID u = l_tenant req) (users s) = Some u"
    and "l_email req \<noteq> []" "l_password req \<noteq> []" "l_tenant req \<noteq> []"
    and "IsActive u" "Role u = ''STUDENT''" "\<not> IsLocked u (clock env)" "\<not> password_ok env u (l_password req)"
    and "fails env = (\<lambda>_. False)" "\<And>v. v \<in> set (users s) \<Longrightarrow> FailedLoginCount v < 32767"
  shows "Login env h (Some req) s = (Reject 401 ''INVALID_CREDENTIALS'', update_user (UserID u) (login_failure (clock env)) s)"
    and "select_one (\<lambda>u. Email u = l_email req \<and> TenantID u = l_tenant req)
      (users (update_user (UserID u) (login_failure (clock env)) s)) = Some (login_failure (clock env) u)"
proof -
  have "\<not> list_ex (\<lambda>v. UserID v = UserID u \<and> 32767 < FailedLoginCount v + 1) (users s)"
    using assms(10) by (auto simp: list_ex_iff) (metis linorder_not_less zless_imp_add1_zle)
  then show "Login env h (Some req) s = (Reject 401 ''INVALID_CREDENTIALS'', update_user (UserID u) (login_failure (clock env)) s)"
    using assms by (simp add: Login_def GetByEmailAndTenant_def login_user_def RecordLoginFailure_def)
  show "select_one (\<lambda>u. Email u = l_email req \<and> TenantID u = l_tenant req)
      (users (update_user (UserID u) (login_failure (clock env)) s)) = Some (login_failure (clock env) u)"
    using select_update [OF assms(1), of "login_failure (clock env)" "\<lambda>v. UserID v = UserID u"]
    by (simp add: login_failure_def)
qed

text \<open>
  Lockout of student accounts: when an account already counts four failures, one more wrong
  password locks it, and every login within the next fifteen minutes is refused with status 429,
  the right password included; with fewer failures the account stays open.
\<close>

theorem student_lockout:
  assumes "select_one (\<lambda>u. Email u = l_email req \<and> TenantID u = l_tenant req) (users s) = Some u"
    and "l_email req \<noteq> []" "l_password req \<noteq> []" "l_tenant req \<noteq> []"
    and "IsActive u" "Role u = ''STUDENT''" "\<not> IsLocked u (clock env)" "\<not> password_ok env u (l_password req)"
    and "fails env = (\<lambda>_. False)" "\<And>v. v \<in> set (users s) \<Longrightarrow> FailedLoginCount v < 32767"
    and "Login env h (Some req) s = (r, s1)" "\<not> fails env' CallGetByEmail" "pw \<noteq> []"
  shows "r = Reject 401 ''INVALID_CREDENTIALS'' \<and>
    (if 4 \<le> FailedLoginCount u \<and> clock env' < clock env + 15 * minute
     then Login env' h (Some (req\<lparr>l_password := pw\<rparr>)) s1 = (Reject 429 ''ACCOUNT_LOCKED'', s1)
     else fst (Login env' h (Some (req\<lparr>l_password := pw\<rparr>)) s1) \<noteq> Reject 429 ''ACCOUNT_LOCKED'' \<or> IsLocked u (clock env'))"
proof -
  let ?v = "login_failure (clock env) u"
  have s1: "r = Reject 401 ''INVALID_CREDENTIALS''" "s1 = update_user (UserID u) (login_failure (clock env)) s"
    using wrong_login(1) [OF assms(1-10)] assms(11) by auto
  have sel: "select_one (\<lambda>u. Email u = l_email req \<and> TenantID u = l_tenant req) (users s1) = Some ?v"
    using wrong_login(2) [OF assms(1-10)] s1(2) by simp
  have lock: "IsLocked ?v (clock env') \<longleftrightarrow>
      (if 5 \<le> FailedLoginCount u + 1 then clock env' < clock env + 15 * minute else IsLocked u (clock env'))"
    using account_lock.fail_locks account_lock.fail_spares by simp
  have act: "IsActive ?v" "Role ?v = ''STUDENT''"
    using assms(5,6) by (simp_all add: login_failure_def)
  have gate: "totp_gate env' h (req\<lparr>l_password := pw\<rparr>) ?v = None"
    using act by (simp add: totp_gate_def MFARequired_def)
  have "Login env' h (Some (req\<lparr>l_password := pw\<rparr>)) s1 = login_user env' h (req\<lparr>l_password := pw\<rparr>) ?v s1"
    using sel assms(2,4,12,13) by (simp add: Login_def GetByEmailAndTenant_def)
  then show ?thesis
    using lock act s1(1) gate by (auto simp: login_user_def Let_def split: option.splits prod.splits)
qed

definition demo_locked_state :: auth_state where
  "demo_locked_state = (demo_auth ''STUDENT'')\<lparr>users := [(demo_user ''STUDENT'')\<lparr>FailedLoginCount := 4\<rparr>]\<rparr>"

theorem student_lockout_witness:
  "\<exists>s1. Login (demo_env 0) demo_handler (Some (demo_login ''wrong'')) demo_locked_state = (Reject 401 ''INVALID_CREDENTIALS'', s1) \<and>
     Login (demo_env minute) demo_handler (Some (demo_login ''secret12'')) s1 = (Reject 429 ''ACCOUNT_LOCKED'', s1)"
proof -
  obtain r s1 where l: "Login (demo_env 0) demo_handler (Some (demo_login ''wrong'')) demo_locked_state = (r, s1)"
    by (metis surj_pair)
  have req: "(demo_login ''wrong'')\<lparr>l_password := ''secret12''\<rparr> = demo_login ''secret12''"
    by (simp add: demo_login_def)
  show ?thesis
    using student_lockout [of "demo_login ''wrong''" demo_locked_state "(demo_user ''STUDENT'')\<lparr>FailedLoginCount := 4\<rparr>"
        "demo_env 0" demo_handler r s1 "demo_env minute" "''secret12''"] l
    by (auto simp: demo_locked_state_def req demo_auth_defs IsLocked_def password_ok_def matchesSeededDefault_def duration_defs)
qed

section \<open>The device binding key\<close>

lemma resolveBindingKey_ok:
  assumes "resolveBindingKey env u s = (Some key, s')"
    and "\<And>b. random env DrawBindingNonce = Some b \<Longrightarrow> length b = gcm_nonce_size"
    and "select_one (\<lambda>v. UserID v = UserID u) (users s) = Some v" "DeviceBindingKeyEnc v = DeviceBindingKeyEnc u"
  shows "\<exists>w enc. select_one (\<lambda>v. UserID v = UserID u) (users s') = Some w \<and>
    DeviceBindingKeyEnc w = Some enc \<and> DecryptBindingKey (key_encryption_key env) enc (UserID u) = Inr key"
proof (cases "s' = s \<and> (\<exists>enc. DeviceBindingKeyEnc u = Some enc \<and> DecryptWithMasterKey (key_encryption_key env) enc (UserID u) = Inr key)")
  case True
  then show ?thesis
    using assms(3,4) by (auto simp: DecryptBindingKey_def DecryptWithMasterKey_def)
next
  case False
  then obtain enc nonce where new: "EncryptWithMasterKey (key_encryption_key env) (Some nonce) key (UserID u) = Inr enc"
    "random env DrawBindingNonce = Some nonce" "s' = update_user (UserID u) (set_binding enc) s"
    using assms(1) by (auto simp: resolveBindingKey_def Let_def GenerateBindingKey_def SetDeviceBindingKey_def
        EncryptWithMasterKey_def split: option.splits sum.splits if_splits)
  have "DecryptWithMasterKey (key_encryption_key env) enc (UserID u) = Inr key"
    using binding_box_opens [OF new(1) assms(2) [OF new(2)]] .
  moreover have "select_one (\<lambda>v. UserID v = UserID u) (users s') = Some (set_binding enc v)"
    using user_binding.lookup_updated [of "UserID u" enc "users s"] assms(3) new(3) by simp
  ultimately show ?thesis
    by (auto simp: set_binding_def DecryptBindingKey_def DecryptWithMasterKey_def)
qed

text \<open>
  The two services agree on the binding key: after a coordinator's accepted login, the key in the
  reply is the one that sync-receiver recovers from the stored row for this user, whether the row
  was kept, written first now, or replaced because it could not be opened.
\<close>

theorem coordinator_binding_key:
  assumes "Login env h body s = (Reply n r, s')" and "RRole r = ''COORDINATOR''"
    and "\<And>b. random env DrawBindingNonce = Some b \<Longrightarrow> length b = gcm_nonce_size"
    and "distinct (map UserID (users s))"
  shows "\<exists>u enc. select_one (\<lambda>v. UserID v = RUserID r) (users s') = Some u \<and> DeviceBindingKeyEnc u = Some enc \<and>
    DecryptBindingKey (key_encryption_key env) enc (RUserID r) = Inr (RBindingKey r)"
proof -
  obtain req u t where l: "select_one (\<lambda>u. Email u = l_email req \<and> TenantID u = t) (users s) = Some u"
    "login_user env h req u s = (Reply n r, s')"
    by (rule Login_accepted [OF assms(1)])
  have role: "Role u = ''COORDINATOR''" and uid: "RUserID r = UserID u"
    using login_user_accepted(6,7) [OF l(2)] assms(2) by auto
  let ?s1 = "RecordLoginSuccess env (UserID u) s"
  have key: "resolveBindingKey env u ?s1 = (Some (RBindingKey r), s')"
    using l(2) role totp_gate_rejects [of env h req u]
    by (auto simp: login_user_def Let_def token_response_def split: if_splits option.splits prod.splits)
  have "select_one (\<lambda>v. UserID v = UserID u) (users s) = Some u"
    using select_unique [OF assms(4)] select_one_Some [OF l(1)] by blast
  then obtain v where "select_one (\<lambda>v. UserID v = UserID u) (users ?s1) = Some v" "DeviceBindingKeyEnc v = DeviceBindingKeyEnc u"
    using user_success.lookup_updated [of "UserID u" "clock env" "users s"]
    by (cases "fails env CallRecordSuccess") (auto simp: RecordLoginSuccess_def login_success_def)
  then show ?thesis
    using resolveBindingKey_ok [OF key assms(3)] uid by simp
qed

theorem coordinator_binding_key_witness:
  "\<exists>r s' u enc. Login (demo_env 0) demo_handler (Some (demo_login ''secret12'')) (demo_auth ''COORDINATOR'') = (Reply 200 r, s') \<and>
     select_one (\<lambda>v. UserID v = ''u1'') (users s') = Some u \<and> DeviceBindingKeyEnc u = Some enc \<and>
     DecryptBindingKey (replicate 64 (CHR ''0'')) enc ''u1'' = Inr (RBindingKey r)"
proof -
  have "hex64 (replicate 64 (CHR ''0''))"
    by code_simp
  then obtain k where k: "masterKey (replicate 64 (CHR ''0'')) = Inr k"
    by (simp add: masterKey_def)
  have "\<exists>r s'. Login (demo_env 0) demo_handler (Some (demo_login ''secret12'')) (demo_auth ''COORDINATOR'') = (Reply 200 r, s') \<and>
      RRole r = ''COORDINATOR'' \<and> RUserID r = ''u1''"
    by (simp add: login_defs demo_auth_defs resolveBindingKey_def GenerateBindingKey_def RecordLoginSuccess_def
        SetDeviceBindingKey_def EncryptWithMasterKey_def k token_response_def)
  then obtain r s' where l: "Login (demo_env 0) demo_handler (Some (demo_login ''secret12'')) (demo_auth ''COORDINATOR'') = (Reply 200 r, s')"
    "RRole r = ''COORDINATOR''" "RUserID r = ''u1''"
    by blast
  from coordinator_binding_key [OF l(1,2)] l(1,3) show ?thesis
    by (auto simp: demo_env_def demo_auth_def gcm_nonce_size_def)
qed

section \<open>Token lifetimes and roles\<close>

lemma internal_token_reply:
  assumes "internal_token env h role key ids issue s = Reply n r"
  shows "key = internalKey h \<and> key \<noteq> [] \<and> n = 200 \<and> RRole r = role \<and>
    (\<exists>u \<in> set (users s). UserID u = RUserID r \<and> TenantID u = RTenantID r \<and> IsActive u \<and> Role u = role) \<and>
    (\<exists>u i. issue u = Some i \<and> fst i = AccessToken r \<and> UserID u = RUserID r \<and> Role u = role)"
proof -
  obtain uid u i where u: "GetByID env uid s = Inr u" "Role u = role" "IsActive u" "issue u = Some i"
    "r = token_response env i u" "n = 200" "key = internalKey h" "internalKey h \<noteq> []"
    using assms by (auto simp: internal_token_def split: if_splits option.splits sum.splits)
  obtain v where v: "v \<in> set (users s)" "u = v\<lparr>Title := [], RegistrationNumber := []\<rparr>"
    using u(1) select_one_Some [of "\<lambda>u. UserID u = uid" "users s"] by (auto simp: GetByID_def split: if_splits option.splits)
  have r: "RUserID r = UserID u" "RRole r = Role u" "RTenantID r = TenantID u" "AccessToken r = fst i"
    using u(5) by (simp_all add: token_response_def split_def)
  have "UserID v = RUserID r \<and> TenantID v = RTenantID r \<and> IsActive v \<and> Role v = role"
    using u(2,3) v(2) r by simp
  then show ?thesis
    using u v(1) r by metis
qed

text \<open>
  The gateway cannot mint what it should not: a token from an internal handler needs the shared
  secret, names an active account of the given tenant with exactly the handler's role, and expires no
  later than the configured lifetime, earlier when a shorter one within range was asked for.
\<close>

theorem internal_tokens_bounded:
  assumes "\<exists>body'. handler = (IssueStudentToken env h key body' s, ''STUDENT'') \<or>
      handler = (IssueLecturerToken env h key body' s, ''LECTURER'') \<or>
      handler = (IssueCoordinatorToken env h key (map_option (\<lambda>(u, t). (u, t, ttl)) body') s, ''COORDINATOR'')"
    and "fst handler = Reply n r" and "0 < TTL (jwt h)"
  shows "key = internalKey h \<and> key \<noteq> [] \<and> n = 200 \<and> RRole r = snd handler \<and>
    (\<exists>u \<in> set (users s). UserID u = RUserID r \<and> TenantID u = RTenantID r \<and> IsActive u \<and> Role u = snd handler) \<and>
    (\<exists>claims e. jwt_sign env claims = Some (AccessToken r) \<and> ClaimRole claims = snd handler \<and> Subject claims = RUserID r \<and>
       ExpiresAt claims = Some (numeric_date e) \<and> e \<le> clock env + TTL (jwt h) \<and>
       (snd handler = ''COORDINATOR'' \<and> 0 < duration_of_seconds ttl \<and> duration_of_seconds ttl \<le> TTL (jwt h) \<longrightarrow>
          e = clock env + duration_of_seconds ttl))"
proof -
  have core: "key = internalKey h \<and> key \<noteq> [] \<and> n = 200 \<and> RRole r = role \<and>
      (\<exists>u \<in> set (users s). UserID u = RUserID r \<and> TenantID u = RTenantID r \<and> IsActive u \<and> Role u = role) \<and>
      (\<exists>u i. issue u = Some i \<and> fst i = AccessToken r \<and> UserID u = RUserID r \<and> Role u = role)"
    if tok: "internal_token env h role key ids issue s = Reply n r" for role ids issue
    using internal_token_reply [OF tok] by metis
  have ttl: "\<exists>claims e. jwt_sign env claims = Some (fst i) \<and> ClaimRole claims = role \<and> Subject claims = uid \<and>
      ExpiresAt claims = Some (numeric_date e) \<and> e \<le> clock env + TTL (jwt h) \<and>
      (0 < d \<and> d \<le> TTL (jwt h) \<longrightarrow> e = clock env + d)"
    if issued: "IssueWithTTL env (jwt h) uid tid role d = Some i" for uid tid role d i
  proof -
    let ?e = "clock env + (if d \<le> 0 \<or> TTL (jwt h) < d then TTL (jwt h) else d)"
    obtain claims where c: "jwt_sign env claims = Some (fst i)" "ClaimRole claims = role" "Subject claims = uid"
      "ExpiresAt claims = Some (numeric_date ?e)"
      using issued by (auto simp: IssueWithTTL_def Let_def split: option.splits)
    then show ?thesis
      by (intro exI [of _ claims] exI [of _ ?e]) auto
  qed
  obtain body' where "handler = (IssueStudentToken env h key body' s, ''STUDENT'') \<or>
      handler = (IssueLecturerToken env h key body' s, ''LECTURER'') \<or>
      handler = (IssueCoordinatorToken env h key (map_option (\<lambda>(u, t). (u, t, ttl)) body') s, ''COORDINATOR'')"
    using assms(1) by blast
  then show ?thesis
  proof (elim disjE)
    assume "handler = (IssueStudentToken env h key body' s, ''STUDENT'')"
    then show ?thesis
      using core assms(2) ttl unfolding IssueStudentToken_def Issue_def by fastforce
  next
    assume "handler = (IssueLecturerToken env h key body' s, ''LECTURER'')"
    then show ?thesis
      using core assms(2) ttl unfolding IssueLecturerToken_def Issue_def by fastforce
  next
    assume hd: "handler = (IssueCoordinatorToken env h key (map_option (\<lambda>(u, t). (u, t, ttl)) body') s, ''COORDINATOR'')"
    have "body' \<noteq> None"
      using hd assms(2) by (cases body') (auto simp: IssueCoordinatorToken_def internal_token_def split: if_splits)
    then have "internal_token env h ''COORDINATOR'' key body'
        (\<lambda>u. IssueWithTTL env (jwt h) (UserID u) (TenantID u) (Role u) (duration_of_seconds ttl)) s = Reply n r"
      using hd assms(2) by (auto simp: IssueCoordinatorToken_def)
    from core [OF this] ttl show ?thesis
      using hd by fastforce
  qed
qed

theorem internal_tokens_bounded_witness:
  "\<exists>n r. IssueStudentToken (demo_env 0) demo_handler ''k'' (Some (''u1'', ''t1'')) (demo_auth ''STUDENT'') = Reply n r \<and>
     RRole r = ''STUDENT''"
proof -
  have "\<exists>r. IssueStudentToken (demo_env 0) demo_handler ''k'' (Some (''u1'', ''t1'')) (demo_auth ''STUDENT'') = Reply 200 r"
    by (simp add: IssueStudentToken_def internal_token_def GetByID_def Issue_def IssueWithTTL_def generateJTI_def demo_auth_defs)
  then obtain r where r: "IssueStudentToken (demo_env 0) demo_handler ''k'' (Some (''u1'', ''t1'')) (demo_auth ''STUDENT'') = Reply 200 r"
    by blast
  have "\<exists>body'. (IssueStudentToken (demo_env 0) demo_handler ''k'' (Some (''u1'', ''t1'')) (demo_auth ''STUDENT''), ''STUDENT'') =
      (IssueStudentToken (demo_env 0) demo_handler ''k'' body' (demo_auth ''STUDENT''), ''STUDENT'')"
    by blast
  then show ?thesis
    using internal_tokens_bounded [OF _ _, where handler = "(IssueStudentToken (demo_env 0) demo_handler ''k'' (Some (''u1'', ''t1''))
        (demo_auth ''STUDENT''), ''STUDENT'')" and env = "demo_env 0" and h = demo_handler and key = "''k''" and s = "demo_auth ''STUDENT''"
        and n = 200 and r = r] r by (auto simp: demo_handler_def duration_defs simp del: ex_simps)
qed

section \<open>Refresh\<close>

text \<open>
  C23. A refreshed token cannot be refreshed again: a successful \<open>Refresh\<close> puts the old token's id on
  the blacklist until it expires, so presenting it again before then is refused and changes
  nothing. The new token keeps subject, tenant and role.
\<close>

theorem refresh_rotates:
  assumes "Refresh env h auth s = (Reply n r, s')" and "bearer_claims env h auth = (Inr claims :: loginResponse reply + Claims)"
    and "ExpiresAt claims = Some expiry" and "clock env < expiry" and "expiry - clock env \<le> max_duration" and "\<not> fails env CallRedisSet"
    and "bearer_claims env' h auth = (Inr claims :: loginResponse reply + Claims)" and "clock env' < expiry"
  shows "Refresh env' h auth s' = (Reject 401 ''TOKEN_REVOKED'', s') \<and>
    RUserID r = Subject claims \<and> RRole r = ClaimRole claims \<and>
    (\<exists>c. jwt_sign env c = Some (AccessToken r) \<and> Subject c = Subject claims \<and> ClaimTenant c = ClaimTenant claims \<and>
       ClaimRole c = ClaimRole claims)"
proof -
  have rem: "time_sub expiry (clock env) = expiry - clock env"
    using assms(4,5) by (simp add: time_sub_def)
  have r: "s' = Blacklist env (ID claims) (expiry - clock env) s"
    "\<exists>tok jti e. Issue env (jwt h) (Subject claims) (ClaimTenant claims) (ClaimRole claims) = Some (tok, jti, e) \<and>
       AccessToken r = tok \<and> RUserID r = Subject claims \<and> RRole r = ClaimRole claims"
    using assms(1,2,3,4) rem by (auto simp: Refresh_def revoke_def Let_def split: option.splits if_splits bool.splits)
  have "redis s' (jtiPrefix @ ID claims) = Some expiry"
    using r(1) assms(6) by (simp add: Blacklist_def)
  then have "IsBlacklisted env' (ID claims) s' \<noteq> Some False"
    using assms(8) by (simp add: IsBlacklisted_def)
  then have "Refresh env' h auth s' = (Reject 401 ''TOKEN_REVOKED'', s')"
    using assms(7) by (auto simp: Refresh_def split: option.splits bool.splits)
  then show ?thesis
    using r(2) Issue_claims by blast
qed

theorem refresh_rotates_witness:
  "\<exists>r s'. Refresh (demo_env 0) demo_handler ''Bearer u1'' (demo_auth ''STUDENT'') = (Reply 200 r, s') \<and>
     Refresh (demo_env hour) demo_handler ''Bearer u1'' s' = (Reject 401 ''TOKEN_REVOKED'', s')"
proof -
  have b: "bearer_claims (demo_env t) demo_handler ''Bearer u1'' = (Inr (demo_claims (100 * hour) ''u1'') :: loginResponse reply + Claims)" for t
    by (simp add: bearer_claims_def extractBearer_def has_prefix_def trim_prefix_def Parse_def demo_env_def demo_handler_def)
  have "\<exists>r s'. Refresh (demo_env 0) demo_handler ''Bearer u1'' (demo_auth ''STUDENT'') = (Reply 200 r, s')"
  proof -
    have "IsBlacklisted (demo_env 0) j (demo_auth ''STUDENT'') = Some False" for j
      by (simp add: IsBlacklisted_def demo_env_def demo_auth_def)
    moreover have "ExpiresAt (demo_claims (100 * hour) ''u1'') = Some (100 * hour)"
      by (simp add: demo_claims_def)
    moreover have "\<exists>tok jti e. Issue (demo_env 0) cfg a b c = Some (tok, jti, e)" for cfg a b c
      by (simp add: Issue_def IssueWithTTL_def generateJTI_def demo_env_def)
    ultimately show ?thesis
      by (auto simp: Refresh_def b Let_def split: option.split)
  qed
  then obtain r s' where l: "Refresh (demo_env 0) demo_handler ''Bearer u1'' (demo_auth ''STUDENT'') = (Reply 200 r, s')"
    by blast
  from refresh_rotates [OF l b _ _ _ _ b, of "100 * hour" hour] l show ?thesis
    by (auto simp: demo_env_def demo_claims_def duration_defs max_duration_def)
qed

section \<open>TOTP and passwords\<close>

text \<open>
  A password change breaks the second factor: \<open>ChangePassword\<close> replaces the hash from which the
  key of the stored TOTP secret is derived, and keeps the ciphertext. Afterwards an account whose
  role demands TOTP can log in only if the old ciphertext happens to be a sealing under the new
  key, which is what authenticated encryption rules out; otherwise the reply is an internal error.
\<close>

theorem password_change_breaks_totp:
  assumes "ChangePassword env h auth (Some (current, new)) s = (Reply n x, s')"
    and "select_one (\<lambda>v. UserID v = uid) (users s) = Some u"
    and "bearer_claims env h auth = (Inr claims :: string reply + Claims)" and "Subject claims = uid"
    and "TOTPSecretEnc u = Some enc" and "MFARequired (Role u)" and "\<not> disableMFA h"
    and "Login env' h body s' = (Reply n' r, s'')" and "RUserID r = uid" and "distinct (map UserID (users s))"
  shows "\<exists>hash nonce secret. bcrypt_generate env new = Some hash \<and> length nonce = gcm_nonce_size \<and>
    b64_decode enc = Some (nonce @ gcm_seal (deriveKey hash) nonce (bytes_of secret) [])"
proof -
  have uid: "UserID u = uid"
    using select_one_Some [OF assms(2)] by blast
  obtain hash where hash: "bcrypt_generate env new = Some hash" "s' = update_user uid (set_password hash) s"
    using assms(1,2,3,4) uid
    by (auto simp: ChangePassword_def GetByID_def UpdatePassword_def split: if_splits option.splits sum.splits)
  obtain req v where v: "v \<in> set (users s')" "UserID v = uid" "MFARequired (Role v) \<and> \<not> disableMFA h \<longrightarrow>
      (\<exists>e secret. TOTPSecretEnc v = Some e \<and> DecryptSecret e (PasswordHash v) = Inr secret)"
    using login_facts [OF assms(8)] assms(9) by metis
  have "distinct (map UserID (users s'))"
    using assms(10) user_password.keys_kept hash(2) by simp
  then have "select_one (\<lambda>w. UserID w = uid) (users s') = Some v"
    using select_unique [of UserID "users s'" v] v(1,2) by simp
  then have "v = set_password hash u"
    using user_password.lookup_updated [of uid hash "users s"] assms(2) hash(2) by simp
  then obtain secret where "DecryptSecret enc hash = Inr secret"
    using v(3) assms(5,6,7) by (auto simp: set_password_def)
  then show ?thesis
    using hash(1) by (auto simp: DecryptSecret_iff)
qed

definition enrolled_vc :: User where
  "enrolled_vc = (demo_user ''VC'')\<lparr>TOTPEnabled := True,
     TOTPSecretEnc := Some (seal_box (deriveKey ''h:secret12'') (replicate 12 0) (bytes_of ''s'') [])\<rparr>"

theorem password_change_breaks_totp_witness:
  "\<exists>hash nonce secret. bcrypt_generate (demo_env 0) ''secret12'' = Some hash \<and> length nonce = gcm_nonce_size \<and>
     b64_decode (seal_box (deriveKey ''h:secret12'') (replicate 12 0) (bytes_of ''s'') []) =
       Some (nonce @ gcm_seal (deriveKey hash) nonce (bytes_of secret) [])"
proof -
  let ?s = "(demo_auth ''VC'')\<lparr>users := [enrolled_vc]\<rparr>" and ?req = "(demo_login ''secret12'')\<lparr>l_totp := ''123456''\<rparr>"
  have dec: "DecryptSecret (seal_box (deriveKey ''h:secret12'') (replicate 12 0) (bytes_of ''s'') []) ''h:secret12'' = Inr ''s''"
    by (simp add: DecryptSecret_def open_seal_box gcm_nonce_size_def)
  have b: "bearer_claims (demo_env 0) demo_handler ''Bearer u1'' = (Inr (demo_claims (100 * hour) ''u1'') :: string reply + Claims)"
    by (simp add: bearer_claims_def extractBearer_def has_prefix_def trim_prefix_def Parse_def demo_env_def demo_handler_def)
  have c: "ChangePassword (demo_env 0) demo_handler ''Bearer u1'' (Some (''secret12'', ''secret12'')) ?s =
      (Reply 200 ''PASSWORD_CHANGED'', update_user ''u1'' (set_password ''h:secret12'') ?s)"
    by (simp add: ChangePassword_def b) (simp add: GetByID_def UpdatePassword_def password_ok_def enrolled_vc_def demo_auth_defs)
  have "\<exists>r s''. Login (demo_env 0) demo_handler (Some ?req) (update_user ''u1'' (set_password ''h:secret12'') ?s) = (Reply 200 r, s'') \<and> RUserID r = ''u1''"
    by (simp add: login_defs dec enrolled_vc_def set_password_def update_user_def demo_auth_defs token_response_def)
  then obtain r s'' where l: "Login (demo_env 0) demo_handler (Some ?req) (update_user ''u1'' (set_password ''h:secret12'') ?s) = (Reply 200 r, s'')"
    "RUserID r = ''u1''"
    by blast
  show ?thesis
    using password_change_breaks_totp [OF c _ b _ _ _ _ l(1,2), of enrolled_vc]
    by (simp add: enrolled_vc_def demo_user_def demo_auth_def demo_claims_def MFARequired_def demo_handler_def)
qed

text \<open>
  The second factor cannot be bootstrapped: with TOTP enforced, no handler that gives out tokens
  gives one to an account whose role demands TOTP and has not enrolled it; a login is refused, the
  internal handlers do not serve the role, and a refresh needs an earlier token. Enrolling itself
  needs a token.
\<close>

theorem totp_bootstrap_deadlock:
  assumes "MFARequired role" and "\<not> disableMFA h"
    and "\<And>u. u \<in> set (users s) \<Longrightarrow> Role u = role \<Longrightarrow> \<not> TOTPEnabled u"
  shows "(\<forall>n r s'. Login env h body s = (Reply n r, s') \<longrightarrow> RRole r \<noteq> role) \<and>
    (\<forall>n r. IssueStudentToken env h key ids s = Reply n r \<longrightarrow> RRole r \<noteq> role) \<and>
    (\<forall>n r. IssueLecturerToken env h key ids s = Reply n r \<longrightarrow> RRole r \<noteq> role) \<and>
    (\<forall>n r. IssueCoordinatorToken env h key ids' s = Reply n r \<longrightarrow> RRole r \<noteq> role) \<and>
    (\<forall>n r s'. Refresh env h auth s = (Reply n r, s') \<and> RRole r = role \<longrightarrow>
       (\<exists>claims. Parse env (jwt h) (extractBearer auth) = Some claims \<and> ClaimRole claims = role)) \<and>
    (\<forall>n x s'. EnrollMFA env h auth s = (Reply n x, s') \<longrightarrow> Parse env (jwt h) (extractBearer auth) \<noteq> None)"
proof -
  have login: "RRole r \<noteq> role" if l: "Login env h body s = (Reply n r, s')" for n r s'
    using login_facts [OF l] assms by metis
  have "RRole r \<noteq> role" if "internal_token env h rl key i iss s = Reply n r" "\<not> MFARequired rl" for rl i iss n r
    using internal_token_reply [OF that(1)] that(2) assms(1) by metis
  then have internal: "IssueStudentToken env h key ids s = Reply n r \<Longrightarrow> RRole r \<noteq> role"
    "IssueLecturerToken env h key ids s = Reply n r \<Longrightarrow> RRole r \<noteq> role"
    "IssueCoordinatorToken env h key ids' s = Reply n r \<Longrightarrow> RRole r \<noteq> role" for n r
    by (auto simp: IssueStudentToken_def IssueLecturerToken_def IssueCoordinatorToken_def MFARequired_def)
  have refresh: "\<exists>claims. Parse env (jwt h) (extractBearer auth) = Some claims \<and> ClaimRole claims = role"
    if "Refresh env h auth s = (Reply n r, s')" "RRole r = role" for n r s'
    using that by (auto simp: Refresh_def bearer_claims_def Let_def split: if_splits option.splits bool.splits)
  have enroll: "Parse env (jwt h) (extractBearer auth) \<noteq> None" if "EnrollMFA env h auth s = (Reply n x, s')" for n x s'
    using that by (auto simp: EnrollMFA_def bearer_claims_def Let_def split: if_splits option.splits)
  show ?thesis
    using login internal refresh enroll by blast
qed

theorem totp_bootstrap_deadlock_witness:
  "\<nexists>n r s'. Login (demo_env 0) demo_handler (Some (demo_login ''secret12'')) (demo_auth ''VC'') = (Reply n r, s') \<and> RRole r = ''VC''"
proof -
  have "MFARequired ''VC''" "\<not> disableMFA demo_handler" "u \<in> set (users (demo_auth ''VC'')) \<Longrightarrow> Role u = ''VC'' \<Longrightarrow> \<not> TOTPEnabled u" for u
    by (simp_all add: MFARequired_def demo_handler_def demo_auth_def demo_user_def)
  note rule = conjunct1 [OF totp_bootstrap_deadlock [where env = "demo_env 0" and body = "Some (demo_login ''secret12'')", OF this]]
  show ?thesis
    using rule by metis
qed

end
