(* ===== verification/Attendance_Table.thy ===== *)
theory Attendance_Table
  imports Go_Prelude
begin

text \<open>
  The \<open>attendance_logs\<close> table as the services share it: its columns, its unique indexes and what an
  \<open>INSERT\<close> does under them. sync-receiver writes it from uploaded packages and the gateway from
  online check-ins.

  The indexes are the primary key \<open>log_id\<close>, the vector clock (tenant, session, coordinator, sequence)
  of QR_SCAN rows, and (tenant, session, student) of QR_SCAN and of AUTHENTICATED rows. A NULL
  coordinator never equals another.
\<close>

record attendance_log =
  log_id :: string
  tenant_id :: string
  session_id :: string
  student_id :: string
  checkin_timestamp :: string
  device_fingerprint_hash :: "string option"
  sequence_number :: int
  entry_method :: string
  coordinator_id :: "string option"

definition vector_clash :: "attendance_log \<Rightarrow> attendance_log \<Rightarrow> bool" where
  "vector_clash a b =
     (entry_method a = ''QR_SCAN'' \<and> entry_method b = ''QR_SCAN'' \<and> tenant_id a = tenant_id b \<and>
      session_id a = session_id b \<and> coordinator_id a \<noteq> None \<and> coordinator_id a = coordinator_id b \<and>
      sequence_number a = sequence_number b)"

definition student_clash :: "attendance_log \<Rightarrow> attendance_log \<Rightarrow> bool" where
  "student_clash a b =
     (entry_method a = entry_method b \<and> entry_method a \<in> set [''QR_SCAN'', ''AUTHENTICATED''] \<and>
      tenant_id a = tenant_id b \<and> session_id a = session_id b \<and> student_id a = student_id b)"

definition clash :: "attendance_log \<Rightarrow> attendance_log \<Rightarrow> bool" where
  "clash a b = (log_id a = log_id b \<or> vector_clash a b \<or> student_clash a b)"

text \<open>The table respects its indexes: no two rows clash.\<close>

definition indexes_hold :: "attendance_log table \<Rightarrow> bool" where
  "indexes_hold rows = sorted_wrt (\<lambda>a b. \<not> clash a b) rows"

datatype insert_outcome = Inserted "attendance_log table" | Skipped | Violation

text \<open>
  \<open>INSERT\<close> of one row; with \<open>arbiter\<close> set it has \<^verbatim>\<open>ON CONFLICT (vector clock) DO NOTHING\<close>, which the
  server checks before the other indexes.
\<close>

definition insert_log :: "bool \<Rightarrow> attendance_log \<Rightarrow> attendance_log table \<Rightarrow> insert_outcome" where
  "insert_log arbiter row rows =
     (if arbiter \<and> list_ex (vector_clash row) rows then Skipped
      else if list_ex (clash row) rows then Violation
      else Inserted (rows @ [row]))"

text \<open>\<open>ROUND(x, 2)\<close> of the hours between two instants, in hundredths, halves away from zero.\<close>

definition round_hundredth_hours :: "duration \<Rightarrow> int" where
  "round_hundredth_hours d = sgn d * ((2 * \<bar>d\<bar> + hour div 100) div (2 * (hour div 100)))"

lemma clash_sym: "clash a b = clash b a"
  by (auto simp: clash_def vector_clash_def student_clash_def)

lemma insert_log_keeps_indexes:
  "indexes_hold rows \<Longrightarrow> insert_log arb row rows = Inserted rows' \<Longrightarrow> indexes_hold rows'"
  by (auto simp: insert_log_def indexes_hold_def sorted_wrt_append list_ex_iff clash_sym split: if_splits)

lemma insert_log_appends: "insert_log arb row rows = Inserted rows' \<Longrightarrow> rows' = rows @ [row]"
  by (auto simp: insert_log_def split: if_splits)

lemma indexes_student_unique:
  assumes "indexes_hold rows"
  shows "length (filter (\<lambda>r. entry_method r = ''QR_SCAN'' \<and> tenant_id r = t \<and> session_id r = sess \<and> student_id r = st) rows) \<le> 1"
  using assms
proof (induction rows)
  case (Cons r rows)
  have "filter (\<lambda>r. entry_method r = ''QR_SCAN'' \<and> tenant_id r = t \<and> session_id r = sess \<and> student_id r = st) rows = []"
    if "entry_method r = ''QR_SCAN'' \<and> tenant_id r = t \<and> session_id r = sess \<and> student_id r = st"
    using that Cons.prems by (auto simp: indexes_hold_def filter_empty_conv clash_def student_clash_def)
  then show ?case
    using Cons by (auto simp: indexes_hold_def)
qed simp

end
