(* ===== verification/Sync_Receiver.thy ===== *)
theory Sync_Receiver
  imports Attendance_Table Vault
begin

text \<open>
  The sync receiver (\<open>receiver.go\<close>): a coordinator's phone opens an upload, sends its chunks, asks
  where to resume, and completes it; completing reassembles the package, checks its checksum,
  authenticates and decrypts it with the device binding key, and writes the attendance it holds.

  The state is the tables the receiver reads and writes and the chunks in Redis with their expiry.
  \<open>sync_env\<close> holds one request's clock, its failing calls, the identity that the JWT middleware put
  in the context, and the parts that are not Go code: HKDF, the decoding of the package JSON into
  its fields, the server's reading of timestamps, and which rows its casts accept. Ids are compared
  as the text they are sent in.
\<close>

section \<open>State\<close>

record upload =
  upload_id :: string
  u_tenant :: string
  u_coordinator :: string
  u_sessions :: "string list"
  total_chunks :: int
  received_chunks :: "int list"
  package_checksum :: string
  package_hmac :: "string option"
  u_status :: string

record session_row =
  s_id :: string
  s_tenant :: string
  s_coordinator :: string
  s_unit :: string
  s_date :: string
  s_status :: string
  s_offering :: "string option"

record lecturer_log =
  ll_tenant :: string
  ll_session :: string
  ll_lecturer :: string
  ll_unit :: string
  ll_date :: string
  ll_scanned_at :: "string option"
  ll_fingerprint :: "string option"
  ll_ended_at :: "string option"
  ll_end_fingerprint :: "string option"
  ll_contact_hours :: "int option"

record coordinator_row =
  c_user :: string
  c_tenant :: string
  c_binding_key_enc :: "string option"

record sync_state =
  sync_uploads :: "upload table"
  chunk_store :: "string \<Rightarrow> (bytes \<times> instant) option"
  coordinators :: "coordinator_row table"
  sessions :: "session_row table"
  lecturer_logs :: "lecturer_log table"
  attendance_logs :: "attendance_log table"
  offerings :: "(string \<times> string \<times> string) list"
  lecturers :: "(string \<times> string \<times> string) list"
  hash_keys :: "(string \<times> string) list"
  students :: "(string \<times> string) list"

record attendance_record =
  r_log :: string
  r_session :: string
  r_student_hash :: string
  r_fingerprint :: string
  r_sequence :: int
  r_timestamp :: string
  r_method :: string

record package =
  p_session :: string
  p_unit :: string
  p_date :: string
  p_status :: string
  p_records :: "attendance_record list"
  p_lecturer :: string
  p_scanned_at :: string
  p_fingerprint :: string
  p_ended_at :: string
  p_end_fingerprint :: string

datatype sync_call =
    CallInsertUpload | CallSelectUpload | CallUpdateUpload | CallRedisSet | CallRedisGet
  | CallSelectKey | CallAcquire | CallSetTenant | CallInsertSession | CallInsertLecturer
  | CallHashKey | CallStudents | CallVerified | CallInsertLog nat | CallMarkSynced | CallReadBody

record sync_env =
  now :: instant
  failing :: "sync_call \<Rightarrow> bool"
  ctx_tenant :: string
  ctx_user :: string
  header_tenant :: string
  master_env :: string
  hkdf_fn :: kdf
  unmarshal :: "bytes \<Rightarrow> package option"
  timestamp :: "string \<Rightarrow> instant option"
  current_date :: string
  session_castable :: "package \<Rightarrow> bool"
  log_castable :: "attendance_log \<Rightarrow> bool"

section \<open>Tenant and upload\<close>

definition tenantIDPattern :: "string \<Rightarrow> bool" where
  "tenantIDPattern s = uuid_groups [8, 4, 4, 4, 12] s"

definition requireTenant :: "sync_env \<Rightarrow> string option" where
  "requireTenant env =
     (let tenantID = (if ctx_tenant env = [] then header_tenant env else ctx_tenant env) in
      if \<not> tenantIDPattern tenantID then None else Some tenantID)"

definition find_upload :: "sync_env \<Rightarrow> string \<Rightarrow> sync_state \<Rightarrow> upload option" where
  "find_upload env uid s =
     (if failing env CallSelectUpload then None else select_one (\<lambda>u. upload_id u = uid) (sync_uploads s))"

definition uploadTenant :: "sync_env \<Rightarrow> string \<Rightarrow> sync_state \<Rightarrow> string option" where
  "uploadTenant env uid s = map_option u_tenant (find_upload env uid s)"

definition chunkSize :: int where "chunkSize = 65536"
definition maxChunks :: int where "maxChunks = 10000"

record initRequest =
  i_coordinator :: string
  i_sessions :: "string list"
  i_total :: int
  i_checksum :: string
  i_hmac :: string

text \<open>\<open>Init\<close>: the server generates the upload id, here \<open>fresh\<close>.\<close>

definition Init :: "sync_env \<Rightarrow> string \<Rightarrow> initRequest option \<Rightarrow> sync_state \<Rightarrow> (string \<times> int) reply \<times> sync_state" where
  "Init env fresh body s =
     (case requireTenant env of
        None \<Rightarrow> (Reject 403 ''INVALID_TENANT'', s)
      | Some tenantID \<Rightarrow>
          (case body of
             None \<Rightarrow> (Reject 400 ''INVALID_REQUEST'', s)
           | Some req \<Rightarrow>
               if i_total req \<le> 0 \<or> maxChunks < i_total req then (Reject 400 ''INVALID_REQUEST'', s)
               else
                 let coordinatorID = (if ctx_user env = [] then i_coordinator req else ctx_user env) in
                 if failing env CallInsertUpload then (Reject 500 ''INTERNAL_ERROR'', s)
                 else (Reply 200 (fresh, chunkSize), s\<lparr>sync_uploads := sync_uploads s @
                   [\<lparr>upload_id = fresh, u_tenant = tenantID, u_coordinator = coordinatorID, u_sessions = i_sessions req,
                     total_chunks = i_total req, received_chunks = [], package_checksum = i_checksum req,
                     package_hmac = Some (i_hmac req), u_status = ''PENDING''\<rparr>]\<rparr>)))"

section \<open>Chunks\<close>

definition chunk_key :: "string \<Rightarrow> int \<Rightarrow> string" where
  "chunk_key uid i = ''sync:chunk:'' @ uid @ '':'' @ format_int i"

definition chunk_ttl :: duration where "chunk_ttl = 7 * 24 * hour"
definition chunk_cap :: nat where "chunk_cap = 2 ^ 20"

definition mark_received :: "int \<Rightarrow> upload \<Rightarrow> upload" where
  "mark_received i u =
     u\<lparr>received_chunks := (if i \<in> set (received_chunks u) then received_chunks u else received_chunks u @ [i]),
       u_status := ''UPLOADING''\<rparr>"

definition hmacSHA256 :: "bytes \<Rightarrow> string \<Rightarrow> string" where
  "hmacSHA256 key data = hex_encode (hmac_sha256 key (bytes_of data))"

text \<open>
  \<open>Chunk\<close>: the index comes as text, the body is cut at one mebibyte by the limit reader, and the
  result of storing it in Redis is not looked at.
\<close>

definition Chunk ::
  "sync_env \<Rightarrow> bytes \<Rightarrow> string \<Rightarrow> string \<Rightarrow> bytes \<Rightarrow> sync_state \<Rightarrow> (string \<times> int \<times> int \<times> string) reply \<times> sync_state" where
  "Chunk env serverSignKey uid idx body s =
     (case requireTenant env of
        None \<Rightarrow> (Reject 403 ''INVALID_TENANT'', s)
      | Some tenantID \<Rightarrow>
          (case go_atoi idx of
             None \<Rightarrow> (Reject 400 ''INVALID_REQUEST'', s)
           | Some chunkIdx \<Rightarrow>
               (case find_upload env uid s of
                  None \<Rightarrow> (Reject 404 ''UPLOAD_NOT_FOUND'', s)
                | Some u \<Rightarrow>
                    if u_tenant u \<noteq> tenantID then (Reject 403 ''FORBIDDEN'', s)
                    else if chunkIdx < 0 \<or> total_chunks u \<le> chunkIdx then (Reject 400 ''INVALID_REQUEST'', s)
                    else if failing env CallReadBody then (Reject 400 ''INVALID_REQUEST'', s)
                    else
                      let data = take chunk_cap body;
                          s = (if failing env CallRedisSet then s
                               else s\<lparr>chunk_store := (chunk_store s)(chunk_key uid chunkIdx \<mapsto> (data, now env + chunk_ttl))\<rparr>)
                      in if failing env CallUpdateUpload then (Reject 500 ''INTERNAL_ERROR'', s)
                         else (Reply 200 (uid, chunkIdx, chunkIdx + 1,
                                 hmacSHA256 serverSignKey (uid @ '':'' @ format_int chunkIdx)),
                               s\<lparr>sync_uploads := update_where (\<lambda>u. upload_id u = uid) (mark_received chunkIdx) (sync_uploads s)\<rparr>))))"

text \<open>The loop of \<open>Resume\<close> over \<open>i\<close>: the first index not received, 0 when there is none.\<close>

fun first_missing :: "int list \<Rightarrow> nat \<Rightarrow> nat \<Rightarrow> int" where
  "first_missing received i 0 = 0"
| "first_missing received i (Suc n) =
     (if int i \<notin> set received then int i else first_missing received (Suc i) n)"

definition Resume :: "sync_env \<Rightarrow> string \<Rightarrow> sync_state \<Rightarrow> (string \<times> int \<times> int list) reply" where
  "Resume env uid s =
     (case requireTenant env of
        None \<Rightarrow> Reject 403 ''INVALID_TENANT''
      | Some tenantID \<Rightarrow>
          (case find_upload env uid s of
             None \<Rightarrow> Reject 404 ''UPLOAD_NOT_FOUND''
           | Some u \<Rightarrow>
               if u_tenant u \<noteq> tenantID then Reject 403 ''FORBIDDEN''
               else Reply 200 (uid, first_missing (received_chunks u) 0 (nat (total_chunks u)), received_chunks u)))"

section \<open>Completing an upload\<close>

definition redis_get :: "sync_env \<Rightarrow> string \<Rightarrow> sync_state \<Rightarrow> bytes option" where
  "redis_get env key s =
     (if failing env CallRedisGet then None
      else case chunk_store s key of
        None \<Rightarrow> None | Some (data, expiry) \<Rightarrow> if now env < expiry then Some data else None)"

fun reassemble :: "sync_env \<Rightarrow> string \<Rightarrow> nat \<Rightarrow> nat \<Rightarrow> bytes \<Rightarrow> sync_state \<Rightarrow> bytes option" where
  "reassemble env uid i 0 payload s = Some payload"
| "reassemble env uid i (Suc n) payload s =
     (case redis_get env (chunk_key uid (int i)) s of
        None \<Rightarrow> None | Some chunk \<Rightarrow> reassemble env uid (Suc i) n (payload @ chunk) s)"

datatype package_error = MissingHMAC | NoCoordinator | NoBindingKey | UnwrapFailed vault_error | Unverified vault_error

definition decryptPackage ::
  "sync_env \<Rightarrow> string \<Rightarrow> string \<Rightarrow> string option \<Rightarrow> bytes \<Rightarrow> sync_state \<Rightarrow> package_error + bytes" where
  "decryptPackage env coordinatorID tenantID packageHMAC payload s =
     (case packageHMAC of
        None \<Rightarrow> Inl MissingHMAC
      | Some mac \<Rightarrow>
          if mac = [] then Inl MissingHMAC
          else case (if failing env CallSelectKey then None
                     else select_one (\<lambda>c. c_user c = coordinatorID \<and> c_tenant c = tenantID) (coordinators s)) of
            None \<Rightarrow> Inl NoCoordinator
          | Some c \<Rightarrow>
              (case c_binding_key_enc c of
                 None \<Rightarrow> Inl NoBindingKey
               | Some enc \<Rightarrow>
                   if enc = [] then Inl NoBindingKey
                   else case DecryptBindingKey (master_env env) enc coordinatorID of
                     Inl e \<Rightarrow> Inl (UnwrapFailed e)
                   | Inr bindingKey \<Rightarrow>
                       (case VerifyAndDecryptPackage (hkdf_fn env) bindingKey payload mac of
                          Inl e \<Rightarrow> Inl (Unverified e) | Inr pt \<Rightarrow> Inr pt)))"

definition buildHashIndex :: "sync_env \<Rightarrow> string \<Rightarrow> sync_state \<Rightarrow> (string \<rightharpoonup> string) option" where
  "buildHashIndex env tenantID s =
     (case (if failing env CallHashKey then None else map_of (hash_keys s) tenantID) of
        None \<Rightarrow> None
      | Some hashKey \<Rightarrow>
          if failing env CallStudents then None
          else Some (foldl (\<lambda>idx reg. idx(hmacSHA256 (bytes_of hashKey) reg \<mapsto> reg)) Map.empty
            (map snd (filter (\<lambda>(t, _). t = tenantID) (students s)))))"

definition nullif_empty :: "string \<Rightarrow> string option" where
  "nullif_empty s = (if s = [] then None else Some s)"

definition session_from_package :: "sync_env \<Rightarrow> package \<Rightarrow> string \<Rightarrow> string \<Rightarrow> sync_state \<Rightarrow> session_row" where
  "session_from_package env pkg tenantID coordinatorID s =
     \<lparr>s_id = p_session pkg, s_tenant = tenantID, s_coordinator = coordinatorID, s_unit = p_unit pkg,
      s_date = (if p_date pkg = [] then current_date env else p_date pkg),
      s_status = (if p_status pkg = ''AUTO_CLOSED'' then ''AUTO_CLOSED'' else ''CLOSED''),
      s_offering = map_option (\<lambda>(o_id, _). o_id)
        (find (\<lambda>(_, c, t). c = coordinatorID \<and> t = tenantID) (offerings s))\<rparr>"

text \<open>\<open>None\<close> is a database error; a session that exists already is left alone.\<close>

definition create_session :: "sync_env \<Rightarrow> package \<Rightarrow> string \<Rightarrow> string \<Rightarrow> sync_state \<Rightarrow> sync_state option" where
  "create_session env pkg tenantID coordinatorID s =
     (if p_session pkg = [] \<or> p_unit pkg = [] then Some s
      else if failing env CallInsertSession \<or> \<not> session_castable env pkg then None
      else if list_ex (\<lambda>r. s_id r = p_session pkg) (sessions s) then Some s
      else Some (s\<lparr>sessions := sessions s @ [session_from_package env pkg tenantID coordinatorID s]\<rparr>))"

definition contact_hours :: "sync_env \<Rightarrow> package \<Rightarrow> int option" where
  "contact_hours env pkg =
     (if p_ended_at pkg \<noteq> [] \<and> \<not> has_prefix (p_fingerprint pkg) ''daily-code:'' then
        (case (timestamp env (p_ended_at pkg), timestamp env (p_scanned_at pkg)) of
           (Some e, Some b) \<Rightarrow> Some (round_hundredth_hours (e - b))
         | _ \<Rightarrow> None)
      else None)"

definition seed_lecturer :: "sync_env \<Rightarrow> package \<Rightarrow> string \<Rightarrow> sync_state \<Rightarrow> sync_state option" where
  "seed_lecturer env pkg tenantID s =
     (if p_lecturer pkg = [] \<or> p_scanned_at pkg = [] \<or> p_session pkg = [] \<or> p_unit pkg = [] then Some s
      else if failing env CallInsertLecturer then None
      else if list_ex (\<lambda>l. ll_tenant l = tenantID \<and> ll_session l = p_session pkg) (lecturer_logs s) then Some s
      else if timestamp env (p_scanned_at pkg) = None \<or> (p_ended_at pkg \<noteq> [] \<and> timestamp env (p_ended_at pkg) = None) then None
      else Some (s\<lparr>lecturer_logs := lecturer_logs s @
        [\<lparr>ll_tenant = tenantID, ll_session = p_session pkg,
          ll_lecturer = (case find (\<lambda>(_, t, st). t = tenantID \<and> st = p_lecturer pkg) (lecturers s) of
             None \<Rightarrow> p_lecturer pkg | Some (lid, _) \<Rightarrow> lid),
          ll_unit = p_unit pkg, ll_date = (if p_date pkg = [] then current_date env else p_date pkg),
          ll_scanned_at = Some (p_scanned_at pkg), ll_fingerprint = nullif_empty (p_fingerprint pkg),
          ll_ended_at = nullif_empty (p_ended_at pkg), ll_end_fingerprint = nullif_empty (p_end_fingerprint pkg),
          ll_contact_hours = contact_hours env pkg\<rparr>]\<rparr>))"

definition verified_session :: "string \<Rightarrow> sync_state \<Rightarrow> string \<Rightarrow> bool" where
  "verified_session tenantID s sess =
     (sess \<noteq> [] \<and> list_ex (\<lambda>l. ll_tenant l = tenantID \<and> ll_session l = sess \<and> ll_scanned_at l \<noteq> None) (lecturer_logs s))"

definition resolve_student :: "(string \<rightharpoonup> string) \<Rightarrow> string \<Rightarrow> string option" where
  "resolve_student idx h =
     (case idx h of
        Some reg \<Rightarrow> if reg \<noteq> [] then Some reg else if length h \<le> 50 then Some h else None
      | None \<Rightarrow> if length h \<le> 50 then Some h else None)"

definition log_of :: "string \<Rightarrow> string \<Rightarrow> string \<Rightarrow> attendance_record \<Rightarrow> attendance_log" where
  "log_of tenantID coordinatorID student rec =
     \<lparr>log_id = r_log rec, tenant_id = tenantID, session_id = r_session rec, student_id = student,
      checkin_timestamp = r_timestamp rec, device_fingerprint_hash = Some (r_fingerprint rec),
      sequence_number = r_sequence rec, entry_method = r_method rec, coordinator_id = Some coordinatorID\<rparr>"

text \<open>The server's answer to one insert: casts and the reference to \<open>sessions\<close> first, then the indexes.\<close>

definition exec_insert :: "sync_env \<Rightarrow> nat \<Rightarrow> attendance_log \<Rightarrow> sync_state \<Rightarrow> insert_outcome" where
  "exec_insert env i row s =
     (if failing env (CallInsertLog i) \<or> \<not> log_castable env row then Violation
      else case insert_log True row (attendance_logs s) of
        Inserted rows \<Rightarrow> if list_ex (\<lambda>r. s_id r = session_id row) (sessions s) then Inserted rows else Violation
      | out \<Rightarrow> out)"

record counts =
  written :: nat
  duplicates :: nat
  rejectedNoLecturer :: nat

fun write_records ::
  "sync_env \<Rightarrow> (string \<Rightarrow> bool) \<Rightarrow> (string \<rightharpoonup> string) \<Rightarrow> string \<Rightarrow> string \<Rightarrow> nat \<Rightarrow> attendance_record list \<Rightarrow> counts \<Rightarrow>
     sync_state \<Rightarrow> (string option \<times> counts) \<times> sync_state" where
  "write_records env verified idx tenantID coordinatorID i [] c s = ((None, c), s)"
| "write_records env verified idx tenantID coordinatorID i (rec # recs) c s =
     (let c = (if \<not> verified (r_session rec) then c\<lparr>rejectedNoLecturer := rejectedNoLecturer c + 1\<rparr> else c) in
      case resolve_student idx (r_student_hash rec) of
        None \<Rightarrow> write_records env verified idx tenantID coordinatorID (Suc i) recs c s
      | Some student \<Rightarrow>
          (case exec_insert env i (log_of tenantID coordinatorID student rec) s of
             Violation \<Rightarrow> ((Some (r_log rec), c), s)
           | Skipped \<Rightarrow> write_records env verified idx tenantID coordinatorID (Suc i) recs (c\<lparr>duplicates := duplicates c + 1\<rparr>) s
           | Inserted rows \<Rightarrow>
               write_records env verified idx tenantID coordinatorID (Suc i) recs (c\<lparr>written := written c + 1\<rparr>)
                 (s\<lparr>attendance_logs := rows\<rparr>)))"

definition no_counts :: counts where
  "no_counts = \<lparr>written = 0, duplicates = 0, rejectedNoLecturer = 0\<rparr>"

definition writeAttendanceLogs ::
  "sync_env \<Rightarrow> bytes \<Rightarrow> string \<Rightarrow> string \<Rightarrow> sync_state \<Rightarrow> (string option \<times> counts) \<times> sync_state" where
  "writeAttendanceLogs env payload tenantID coordinatorID s =
     (case unmarshal env payload of
        None \<Rightarrow> ((Some ''parse'', no_counts), s)
      | Some pkg \<Rightarrow>
          if failing env CallAcquire \<or> failing env CallSetTenant then ((Some ''connection'', no_counts), s)
          else case create_session env pkg tenantID coordinatorID s of
            None \<Rightarrow> ((Some ''session'', no_counts), s)
          | Some s \<Rightarrow>
              (case seed_lecturer env pkg tenantID s of
                 None \<Rightarrow> ((Some ''lecturer'', no_counts), s)
               | Some s \<Rightarrow>
                   (case buildHashIndex env tenantID s of
                      None \<Rightarrow> ((Some ''index'', no_counts), s)
                    | Some idx \<Rightarrow>
                        if (p_session pkg \<noteq> [] \<or> list_ex (\<lambda>r. r_session r \<noteq> []) (p_records pkg)) \<and> failing env CallVerified
                        then ((Some ''verified'', no_counts), s)
                        else write_records env (verified_session tenantID s) idx tenantID coordinatorID 0 (p_records pkg) no_counts s)))"

definition mark_synced :: "upload \<Rightarrow> upload" where
  "mark_synced u = u\<lparr>u_status := ''SYNCED''\<rparr>"

definition write_and_mark :: "sync_env \<Rightarrow> string \<Rightarrow> string \<Rightarrow> string \<Rightarrow> bytes \<Rightarrow> sync_state \<Rightarrow> counts reply \<times> sync_state" where
  "write_and_mark env uid tenantID coordID plaintext s =
     (case writeAttendanceLogs env plaintext tenantID coordID s of
        ((Some _, _), s) \<Rightarrow> (Reject 500 ''WRITE_ERROR'', s)
      | ((None, c), s) \<Rightarrow>
          (Reply 200 c,
           if failing env CallMarkSynced then s
           else s\<lparr>sync_uploads := update_where (\<lambda>u. upload_id u = uid) mark_synced (sync_uploads s)\<rparr>))"

text \<open>
  \<open>Complete\<close>. The summary refresh that follows runs in the background on other tables and is left
  out; the failure of the last update is not looked at.
\<close>

definition Complete :: "sync_env \<Rightarrow> string \<Rightarrow> sync_state \<Rightarrow> counts reply \<times> sync_state" where
  "Complete env uid s =
     (case requireTenant env of
        None \<Rightarrow> (Reject 403 ''INVALID_TENANT'', s)
      | Some reqTenant \<Rightarrow>
          (case find_upload env uid s of
             None \<Rightarrow> (Reject 404 ''UPLOAD_NOT_FOUND'', s)
           | Some u \<Rightarrow>
               if u_tenant u \<noteq> reqTenant then (Reject 403 ''FORBIDDEN'', s)
               else if int (length (received_chunks u)) < total_chunks u then (Reject 409 ''UPLOAD_INCOMPLETE'', s)
               else case reassemble env uid 0 (nat (total_chunks u)) [] s of
                 None \<Rightarrow> (Reject 500 ''CHUNK_MISSING'', s)
               | Some fullPayload \<Rightarrow>
                   if hex_encode (sha256 fullPayload) \<noteq> package_checksum u then (Reject 422 ''CHECKSUM_MISMATCH'', s)
                   else case decryptPackage env (u_coordinator u) (u_tenant u) (package_hmac u) fullPayload s of
                     Inl _ \<Rightarrow> (Reject 422 ''PACKAGE_UNVERIFIED'', s)
                   | Inr plaintext \<Rightarrow>
                       write_and_mark env uid (u_tenant u) (u_coordinator u) plaintext s))"

section \<open>Uploads are well-formed\<close>

text \<open>The indices received are distinct and in range, so their number says whether all are there.\<close>

definition upload_ok :: "upload \<Rightarrow> bool" where
  "upload_ok u = (distinct (received_chunks u) \<and> (\<forall>i \<in> set (received_chunks u). 0 \<le> i \<and> i < total_chunks u) \<and>
     0 < total_chunks u \<and> total_chunks u \<le> maxChunks)"

definition uploads_ok :: "sync_state \<Rightarrow> bool" where
  "uploads_ok s = (distinct (map upload_id (sync_uploads s)) \<and> (\<forall>u \<in> set (sync_uploads s). upload_ok u))"

interpretation upload_received: keyed_update upload_id "mark_received i"
  by unfold_locales (simp add: mark_received_def)

interpretation upload_synced: keyed_update upload_id mark_synced
  by unfold_locales (simp add: mark_synced_def)

lemma mark_received_ok: "upload_ok u \<Longrightarrow> 0 \<le> i \<Longrightarrow> i < total_chunks u \<Longrightarrow> upload_ok (mark_received i u)"
  by (auto simp: upload_ok_def mark_received_def)

lemma mark_synced_ok: "upload_ok u \<Longrightarrow> upload_ok (mark_synced u)"
  by (simp add: upload_ok_def mark_synced_def)

lemma complete_iff_all:
  assumes "upload_ok u"
  shows "total_chunks u \<le> int (length (received_chunks u)) \<longleftrightarrow> set (received_chunks u) = {0..<total_chunks u}"
proof -
  have sub: "set (received_chunks u) \<subseteq> {0..<total_chunks u}" and card: "card (set (received_chunks u)) = length (received_chunks u)"
    using assms by (auto simp: upload_ok_def distinct_card)
  show ?thesis
  proof
    assume "total_chunks u \<le> int (length (received_chunks u))"
    then have "card {0..<total_chunks u} \<le> card (set (received_chunks u))"
      using card by simp
    then show "set (received_chunks u) = {0..<total_chunks u}"
      using sub by (intro card_seteq) auto
  next
    assume "set (received_chunks u) = {0..<total_chunks u}"
    then have "card {0..<total_chunks u} = length (received_chunks u)"
      using card by simp
    then show "total_chunks u \<le> int (length (received_chunks u))"
      by simp
  qed
qed

lemma write_records_uploads:
  "sync_uploads (snd (write_records env v idx t c i recs k s)) = sync_uploads s"
  by (induction recs arbitrary: i k s) (auto simp: Let_def split: option.split insert_outcome.split)

lemma writeAttendanceLogs_uploads: "sync_uploads (snd (writeAttendanceLogs env pl t c s)) = sync_uploads s"
proof -
  have "create_session env pkg t c s = Some s1 \<Longrightarrow> sync_uploads s1 = sync_uploads s" for pkg s1
    by (auto simp: create_session_def split: if_splits)
  moreover have "seed_lecturer env pkg t s1 = Some s2 \<Longrightarrow> sync_uploads s2 = sync_uploads s1" for pkg s1 s2
    by (auto simp: seed_lecturer_def split: if_splits)
  ultimately show ?thesis
    by (auto simp: writeAttendanceLogs_def write_records_uploads split: option.split)
qed

lemma uploads_ok_update:
  assumes "uploads_ok s" and "map upload_id (update_where p f (sync_uploads s)) = map upload_id (sync_uploads s)"
    and "\<And>u. u \<in> set (sync_uploads s) \<Longrightarrow> p u \<Longrightarrow> upload_ok (f u)"
  shows "uploads_ok (s\<lparr>sync_uploads := update_where p f (sync_uploads s)\<rparr>)"
  using assms by (auto simp: uploads_ok_def in_update_where)

lemma uploads_ok_cong: "sync_uploads s' = sync_uploads s \<Longrightarrow> uploads_ok s' = uploads_ok s"
  by (simp add: uploads_ok_def)

lemma Complete_step: "Complete env uid s = (r, s') \<Longrightarrow>
    s' = s \<and> \<not> accepted r \<or>
    (\<exists>u payload pt. requireTenant env = Some (u_tenant u) \<and> find_upload env uid s = Some u \<and>
       total_chunks u \<le> int (length (received_chunks u)) \<and>
       reassemble env uid 0 (nat (total_chunks u)) [] s = Some payload \<and>
       hex_encode (sha256 payload) = package_checksum u \<and>
       decryptPackage env (u_coordinator u) (u_tenant u) (package_hmac u) payload s = Inr pt \<and>
       (r, s') = write_and_mark env uid (u_tenant u) (u_coordinator u) pt s)"
  by (simp add: Complete_def split: option.splits if_splits sum.splits) (auto simp: not_less)

lemma write_and_mark_uploads:
  assumes "write_and_mark env uid t c pt s = (r, s')"
  shows "\<exists>s1. sync_uploads s1 = sync_uploads s \<and> (s' = s1 \<or>
    s' = s1\<lparr>sync_uploads := update_where (\<lambda>u. upload_id u = uid) mark_synced (sync_uploads s1)\<rparr>)"
proof -
  obtain e k s1 where w: "writeAttendanceLogs env pt t c s = ((e, k), s1)"
    by (metis surj_pair)
  then have "sync_uploads s1 = sync_uploads s"
    using writeAttendanceLogs_uploads [of env pt t c s] by simp
  then show ?thesis
    using assms w by (intro exI [of _ s1]) (auto simp: write_and_mark_def split: option.splits)
qed

text \<open>
  C2. Uploads stay well-formed under every handler: chunk indices are recorded at most once and only
  in the declared range, whatever is sent and whatever fails; so the count test of \<open>Complete\<close>
  passes exactly when every chunk was recorded, and resending one chunk cannot stand in for another.
\<close>

theorem uploads_stay_ok:
  assumes "uploads_ok s" and "fresh \<notin> set (map upload_id (sync_uploads s))"
  shows "uploads_ok (snd (Init env fresh body s)) \<and> uploads_ok (snd (Chunk env key uid idx data s)) \<and>
    uploads_ok (snd (Complete env uid s)) \<and>
    (\<forall>u \<in> set (sync_uploads s). total_chunks u \<le> int (length (received_chunks u)) \<longleftrightarrow>
       set (received_chunks u) = {0..<total_chunks u})"
proof -
  have init: "uploads_ok (snd (Init env fresh body s))"
    using assms by (auto simp: Init_def uploads_ok_def upload_ok_def Let_def maxChunks_def split: option.split)
  have recv: "uploads_ok (s'\<lparr>sync_uploads := update_where (\<lambda>u. upload_id u = uid) (mark_received i) (sync_uploads s')\<rparr>)"
    if "sync_uploads s' = sync_uploads s" "select_one (\<lambda>u. upload_id u = uid) (sync_uploads s) = Some u" "0 \<le> i" "i < total_chunks u" for s' u i
  proof (rule uploads_ok_update)
    show "uploads_ok s'"
      using assms(1) that(1) uploads_ok_cong by blast
    fix v assume v: "v \<in> set (sync_uploads s')" "upload_id v = uid"
    then have "v = u"
      using select_unique [of upload_id "sync_uploads s" v] assms(1) that(1,2) by (simp add: uploads_ok_def)
    then show "upload_ok (mark_received i v)"
      using assms(1) that v mark_received_ok by (auto simp: uploads_ok_def)
  qed (rule upload_received.keys_kept)
  have chunk: "uploads_ok (snd (Chunk env key uid idx data s))"
  proof -
    have store: "uploads_ok (s\<lparr>chunk_store := x\<rparr>)" for x
      using assms(1) by (simp add: uploads_ok_def)
    show ?thesis
      using assms(1) recv [of s] recv [of "s\<lparr>chunk_store := _\<rparr>"] store
      by (simp add: Chunk_def find_upload_def Let_def split: option.split)
  qed
  have sync: "uploads_ok (s'\<lparr>sync_uploads := update_where (\<lambda>u. upload_id u = uid) mark_synced (sync_uploads s')\<rparr>)"
    if "sync_uploads s' = sync_uploads s" for s'
    using assms(1) that uploads_ok_cong [OF that] mark_synced_ok upload_synced.keys_kept
    by (intro uploads_ok_update) (auto simp: uploads_ok_def)
  have "uploads_ok (snd (Complete env uid s))"
  proof -
    obtain r s' where c: "Complete env uid s = (r, s')"
      by (metis surj_pair)
    have "uploads_ok s'"
      using Complete_step [OF c] assms(1)
    proof (elim disjE exE conjE)
      fix u payload pt
      assume "(r, s') = write_and_mark env uid (u_tenant u) (u_coordinator u) pt s"
      then obtain s1 where "sync_uploads s1 = sync_uploads s" "s' = s1 \<or>
          s' = s1\<lparr>sync_uploads := update_where (\<lambda>u. upload_id u = uid) mark_synced (sync_uploads s1)\<rparr>"
        using write_and_mark_uploads by metis
      then show "uploads_ok s'"
        using sync [of s1] uploads_ok_cong [of s1 s] assms(1) by metis
    qed simp
    then show ?thesis
      using c by simp
  qed
  then show ?thesis
    using init chunk assms(1) complete_iff_all by (auto simp: uploads_ok_def)
qed

definition demo_tenant :: string where
  "demo_tenant = ''11111111-1111-1111-1111-111111111111''"

definition demo_sync_env :: sync_env where
  "demo_sync_env = \<lparr>now = 0, failing = (\<lambda>_. False), ctx_tenant = demo_tenant, ctx_user = ''c1'', header_tenant = '''',
     master_env = replicate 64 (CHR ''0''), hkdf_fn = (\<lambda>s salt info. Some (sha256 s)), unmarshal = (\<lambda>_. None),
     timestamp = (\<lambda>_. Some 0), current_date = ''2026-08-13'', session_castable = (\<lambda>_. True), log_castable = (\<lambda>_. True)\<rparr>"

definition demo_upload :: upload where
  "demo_upload = \<lparr>upload_id = ''up1'', u_tenant = demo_tenant, u_coordinator = ''c1'', u_sessions = [], total_chunks = 2,
     received_chunks = [0], package_checksum = '''', package_hmac = None, u_status = ''UPLOADING''\<rparr>"

definition demo_sync :: sync_state where
  "demo_sync = \<lparr>sync_uploads = [demo_upload], chunk_store = Map.empty, coordinators = [], sessions = [], lecturer_logs = [],
     attendance_logs = [], offerings = [], lecturers = [], hash_keys = [(demo_tenant, ''k'')], students = []\<rparr>"

lemma demo_require: "requireTenant demo_sync_env = Some demo_tenant"
proof -
  have "tenantIDPattern demo_tenant" "demo_tenant \<noteq> []"
    by code_simp+
  then show ?thesis
    by (simp add: requireTenant_def demo_sync_env_def)
qed

theorem uploads_stay_ok_witness:
  "uploads_ok demo_sync \<and> uploads_ok (snd (Chunk demo_sync_env [] ''up1'' ''1'' [] demo_sync))"
proof -
  have "uploads_ok demo_sync"
    by (simp add: uploads_ok_def upload_ok_def demo_sync_def demo_upload_def maxChunks_def)
  then show ?thesis
    using uploads_stay_ok [of demo_sync "''up2''" demo_sync_env None "[]" "''up1''" "''1''" "[]"]
    by (simp add: demo_sync_def demo_upload_def)
qed

section \<open>Completion is sound\<close>

lemma reassemble_chunks:
  "reassemble env uid i n acc s = Some payload \<Longrightarrow>
     (\<forall>k < n. redis_get env (chunk_key uid (int (i + k))) s \<noteq> None) \<and>
     payload = acc @ concat (map (\<lambda>k. the (redis_get env (chunk_key uid (int (i + k))) s)) [0..<n])"
proof (induction n arbitrary: i acc)
  case (Suc n)
  obtain ch where ch: "redis_get env (chunk_key uid (int i)) s = Some ch"
    "reassemble env uid (Suc i) n (acc @ ch) s = Some payload"
    using Suc.prems by (auto split: option.splits)
  have ih: "\<forall>k < n. redis_get env (chunk_key uid (int (Suc i + k))) s \<noteq> None"
    "payload = acc @ ch @ concat (map (\<lambda>k. the (redis_get env (chunk_key uid (int (Suc i + k))) s)) [0..<n])"
    using Suc.IH [OF ch(2)] by simp_all
  have "redis_get env (chunk_key uid (int (i + k))) s \<noteq> None" if "k < Suc n" for k
    using that ch(1) ih(1) by (cases k) auto
  moreover have "map f [0..<Suc n] = f 0 # map (\<lambda>k. f (Suc k)) [0..<n]" for f :: "nat \<Rightarrow> bytes"
    by (simp add: upt_conv_Cons map_Suc_upt [symmetric] del: upt_Suc)
  ultimately show ?case
    using ih(2) ch(1) by (simp add: ac_simps del: upt_Suc)
qed simp

lemma decryptPackage_ok:
  "decryptPackage env coord tenant mac payload s = Inr pt \<Longrightarrow>
     \<exists>h c enc bk. mac = Some h \<and> h \<noteq> [] \<and> c \<in> set (coordinators s) \<and> c_user c = coord \<and> c_tenant c = tenant \<and>
       c_binding_key_enc c = Some enc \<and> DecryptBindingKey (master_env env) enc coord = Inr bk \<and>
       VerifyAndDecryptPackage (hkdf_fn env) bk payload h = Inr pt"
  by (auto simp: decryptPackage_def split: option.splits if_splits sum.splits dest!: select_one_Some)

text \<open>
  C6. Only a whole, authentic package of the caller's tenant is written: an accepted \<open>Complete\<close> was
  sent for an upload of that tenant, whose every chunk is in the store; their concatenation in
  order has the declared checksum and decrypts, under the binding key of the coordinator who
  opened the upload, to the text whose records are written.
\<close>

theorem complete_sound:
  assumes "Complete env uid s = (Reply n c, s')"
  shows "\<exists>u payload h enc bk pt. requireTenant env = Some (u_tenant u) \<and> u \<in> set (sync_uploads s) \<and> upload_id u = uid \<and>
    payload = concat (map (\<lambda>k. the (redis_get env (chunk_key uid (int k)) s)) [0..<nat (total_chunks u)]) \<and>
    (\<forall>k < nat (total_chunks u). redis_get env (chunk_key uid (int k)) s \<noteq> None) \<and>
    hex_encode (sha256 payload) = package_checksum u \<and> package_hmac u = Some h \<and>
    (\<exists>co \<in> set (coordinators s). c_user co = u_coordinator u \<and> c_tenant co = u_tenant u \<and> c_binding_key_enc co = Some enc) \<and>
    DecryptBindingKey (master_env env) enc (u_coordinator u) = Inr bk \<and>
    VerifyAndDecryptPackage (hkdf_fn env) bk payload h = Inr pt \<and>
    fst (writeAttendanceLogs env pt (u_tenant u) (u_coordinator u) s) = (None, c)"
proof -
  obtain u payload pt where c: "requireTenant env = Some (u_tenant u)" "find_upload env uid s = Some u"
    "reassemble env uid 0 (nat (total_chunks u)) [] s = Some payload"
    "hex_encode (sha256 payload) = package_checksum u"
    "decryptPackage env (u_coordinator u) (u_tenant u) (package_hmac u) payload s = Inr pt"
    "(Reply n c, s') = write_and_mark env uid (u_tenant u) (u_coordinator u) pt s"
    using Complete_step [OF assms] by auto
  have u: "u \<in> set (sync_uploads s)" "upload_id u = uid"
    using c(2) by (auto simp: find_upload_def split: if_splits dest!: select_one_Some)
  obtain h co enc bk where d: "package_hmac u = Some h" "co \<in> set (coordinators s)" "c_user co = u_coordinator u"
    "c_tenant co = u_tenant u" "c_binding_key_enc co = Some enc" "DecryptBindingKey (master_env env) enc (u_coordinator u) = Inr bk"
    "VerifyAndDecryptPackage (hkdf_fn env) bk payload h = Inr pt"
    using decryptPackage_ok [OF c(5)] by blast
  have w: "fst (writeAttendanceLogs env pt (u_tenant u) (u_coordinator u) s) = (None, c)"
    using c(6) by (auto simp: write_and_mark_def split: prod.splits option.splits)
  show ?thesis
    using c(1,4) u d w reassemble_chunks [OF c(3)] by (intro exI [of _ u] exI [of _ payload] exI [of _ h] exI [of _ enc] exI [of _ bk] exI [of _ pt]) auto
qed

text \<open>A sealed package of one chunk, with no records in it.\<close>

definition demo_key :: bytes where "demo_key = sha256 (bytes_of ''bind'')"
definition demo_iv :: bytes where "demo_iv = replicate 12 0"
definition demo_text :: string where "demo_text = b64_encode (demo_iv @ gcm_seal demo_key demo_iv [] [])"

definition demo_package :: package where
  "demo_package = \<lparr>p_session = '''', p_unit = '''', p_date = '''', p_status = '''', p_records = [], p_lecturer = '''',
     p_scanned_at = '''', p_fingerprint = '''', p_ended_at = '''', p_end_fingerprint = ''''\<rparr>"

definition demo_sealed :: "bytes \<Rightarrow> sync_state" where
  "demo_sealed master = demo_sync\<lparr>
     sync_uploads := [demo_upload\<lparr>total_chunks := 1, package_checksum := hex_encode (sha256 (bytes_of demo_text)),
       package_hmac := Some (hex_encode (hmac_sha256 demo_key (bytes_of demo_text)))\<rparr>],
     chunk_store := [chunk_key ''up1'' 0 \<mapsto> (bytes_of demo_text, hour)],
     coordinators := [\<lparr>c_user = ''c1'', c_tenant = demo_tenant,
       c_binding_key_enc = Some (seal_box master demo_iv (bytes_of ''bind'') (bytes_of ''c1''))\<rparr>]\<rparr>"

definition demo_complete_env :: "package \<Rightarrow> sync_env" where
  "demo_complete_env pkg = demo_sync_env\<lparr>unmarshal := (\<lambda>_. Some pkg)\<rparr>"

lemma demo_opened:
  assumes k: "masterKey (replicate 64 (CHR ''0'')) = Inr master"
  shows "Complete (demo_complete_env pkg) ''up1'' (demo_sealed master) =
    write_and_mark (demo_complete_env pkg) ''up1'' demo_tenant ''c1'' [] (demo_sealed master)"
proof -
  let ?enc = "seal_box master demo_iv (bytes_of ''bind'') (bytes_of ''c1'')"
  let ?mac = "hex_encode (hmac_sha256 demo_key (bytes_of demo_text))"
  have box: "open_box master ?enc (bytes_of ''c1'') = Inr (bytes_of ''bind'')"
    by (rule open_seal_box) (simp add: demo_iv_def gcm_nonce_size_def)
  then have unwrap: "DecryptBindingKey (replicate 64 (CHR ''0'')) ?enc ''c1'' = Inr ''bind''"
    using k by (simp add: DecryptBindingKey_def)
  have keys: "deriveVaultKeys (\<lambda>s salt info. Some (sha256 s)) ''bind'' = Inr (demo_key, demo_key)"
    by (simp add: deriveVaultKeys_def demo_key_def)
  have verify: "VerifyAndDecryptPackage (\<lambda>s salt info. Some (sha256 s)) ''bind'' (bytes_of demo_text) ?mac = Inr []"
    by (rule sealed_package_opens [OF keys]) (simp_all add: demo_text_def demo_iv_def gcm_nonce_size_def)
  have nonempty: "?mac \<noteq> []" "?enc \<noteq> []"
  proof -
    show "?mac \<noteq> []"
      using hex_encode_length [of "hmac_sha256 demo_key (bytes_of demo_text)"] by (auto simp del: hex_encode_length)
    show "?enc \<noteq> []"
      using box by (auto simp: open_box_def b64_decode_def open_combined_def gcm_nonce_size_def)
  qed
  have tenant: "requireTenant (demo_complete_env pkg) = Some demo_tenant"
    using demo_require by (simp add: requireTenant_def demo_complete_env_def Let_def split: if_splits)
  have env: "\<not> failing (demo_complete_env pkg) call" "now (demo_complete_env pkg) = 0"
    "master_env (demo_complete_env pkg) = replicate 64 (CHR ''0'')"
    "hkdf_fn (demo_complete_env pkg) = (\<lambda>s salt info. Some (sha256 s))" for call
    by (simp_all add: demo_complete_env_def demo_sync_env_def)
  show ?thesis
    by (simp add: Complete_def tenant find_upload_def env demo_sealed_def demo_sync_def demo_upload_def redis_get_def
        decryptPackage_def nonempty unwrap verify duration_defs)
qed

lemma demo_master: obtains master where "masterKey (replicate 64 (CHR ''0'')) = Inr master"
proof -
  have "hex64 (replicate 64 (CHR ''0''))"
    by code_simp
  then show thesis
    using that by (simp add: masterKey_def)
qed

lemma demo_complete:
  assumes "masterKey (replicate 64 (CHR ''0'')) = Inr master"
  shows "\<exists>s'. Complete (demo_complete_env demo_package) ''up1'' (demo_sealed master) = (Reply 200 no_counts, s')"
  unfolding demo_opened [OF assms]
  by (simp add: write_and_mark_def writeAttendanceLogs_def demo_complete_env_def demo_sync_env_def demo_sealed_def
      demo_sync_def demo_package_def create_session_def seed_lecturer_def buildHashIndex_def)

theorem complete_sound_witness:
  "\<exists>master s' payload. Complete (demo_complete_env demo_package) ''up1'' (demo_sealed master) = (Reply 200 no_counts, s') \<and>
     hex_encode (sha256 payload) = hex_encode (sha256 (bytes_of demo_text))"
proof -
  obtain master s' where s': "Complete (demo_complete_env demo_package) ''up1'' (demo_sealed master) = (Reply 200 no_counts, s')"
    using demo_complete demo_master by metis
  from complete_sound [OF s'] show ?thesis
    using s' by (auto simp: demo_sealed_def)
qed

section \<open>Resuming\<close>

lemma first_missing_spec:
  "(\<forall>k. i \<le> k \<and> k < i + n \<longrightarrow> int k \<in> set rc) \<and> first_missing rc i n = 0 \<or>
   (\<exists>k. i \<le> k \<and> k < i + n \<and> first_missing rc i n = int k \<and> int k \<notin> set rc \<and> (\<forall>j. i \<le> j \<and> j < k \<longrightarrow> int j \<in> set rc))"
proof (induction n arbitrary: i)
  case (Suc n)
  show ?case
  proof (cases "int i \<in> set rc")
    case True
    have step: "(\<forall>j. Suc i \<le> j \<and> j < k \<longrightarrow> int j \<in> set rc) \<longrightarrow> (\<forall>j. i \<le> j \<and> j < k \<longrightarrow> int j \<in> set rc)" for k
      using True by (metis Suc_leI le_neq_implies_less)
    show ?thesis
      using Suc.IH [of "Suc i"] True step by (auto simp: Suc_le_eq)
  next
    case False
    then show ?thesis
      by auto
  qed
qed auto

lemma received_complete:
  assumes "upload_ok u"
  shows "set (received_chunks u) = {0..<total_chunks u} \<longleftrightarrow> (\<forall>k < nat (total_chunks u). int k \<in> set (received_chunks u))"
proof
  assume *: "\<forall>k < nat (total_chunks u). int k \<in> set (received_chunks u)"
  have "x \<in> set (received_chunks u)" if "0 \<le> x" "x < total_chunks u" for x
    using *[rule_format, of "nat x"] that by simp
  then show "set (received_chunks u) = {0..<total_chunks u}"
    using assms by (auto simp: upload_ok_def)
qed auto

text \<open>
  Resuming is right while something is missing: the answer is the smallest index not yet
  recorded. When nothing is missing the answer is 0, the same as for an upload of which nothing
  has arrived, so a client that follows it sends everything again.
\<close>

theorem resume_first_missing:
  assumes "requireTenant env = Some (u_tenant u)" and "find_upload env uid s = Some u" and "upload_ok u"
  shows "\<exists>k. Resume env uid s = Reply 200 (uid, k, received_chunks u) \<and>
    (if set (received_chunks u) = {0..<total_chunks u} then k = 0
     else 0 \<le> k \<and> k < total_chunks u \<and> k \<notin> set (received_chunks u) \<and>
       (\<forall>j. 0 \<le> j \<and> j < k \<longrightarrow> j \<in> set (received_chunks u)))"
proof -
  let ?rc = "received_chunks u" and ?n = "nat (total_chunks u)"
  let ?k = "first_missing ?rc 0 ?n"
  have "Resume env uid s = Reply 200 (uid, ?k, ?rc)"
    using assms(1,2) by (simp add: Resume_def)
  moreover have "?k = 0" if "set ?rc = {0..<total_chunks u}"
    using that first_missing_spec [of 0 ?n ?rc] by (auto simp: received_complete [OF assms(3)])
  moreover have "0 \<le> ?k \<and> ?k < total_chunks u \<and> ?k \<notin> set ?rc \<and> (\<forall>j. 0 \<le> j \<and> j < ?k \<longrightarrow> j \<in> set ?rc)"
    if gap: "set ?rc \<noteq> {0..<total_chunks u}"
  proof -
    obtain k where k: "k < ?n" "?k = int k" "int k \<notin> set ?rc" "\<forall>j < k. int j \<in> set ?rc"
      using gap first_missing_spec [of 0 ?n ?rc] by (auto simp: received_complete [OF assms(3)])
    moreover have "j \<in> set ?rc" if "0 \<le> j" "j < int k" for j
      using k(4)[rule_format, of "nat j"] that by (simp add: nat_less_iff)
    ultimately show ?thesis
      by auto
  qed
  ultimately show ?thesis
    by auto
qed

theorem resume_first_missing_witness:
  "Resume demo_sync_env ''up1'' demo_sync = Reply 200 (''up1'', 1, [0])"
proof -
  have 1: "requireTenant demo_sync_env = Some (u_tenant demo_upload)"
    by (simp add: demo_require demo_upload_def)
  have 2: "find_upload demo_sync_env ''up1'' demo_sync = Some demo_upload"
    by (simp add: find_upload_def demo_sync_env_def demo_sync_def demo_upload_def)
  have 3: "upload_ok demo_upload"
    by (simp add: demo_upload_def upload_ok_def maxChunks_def)
  have ne: "{0::int} \<noteq> {0..<2}"
  proof
    assume "{0::int} = {0..<2}"
    moreover have "(1::int) \<in> {0..<2}"
      by simp
    ultimately show False
      by (metis singletonD zero_neq_one)
  qed
  from resume_first_missing [OF 1 2 3] ne obtain k where
    "Resume demo_sync_env ''up1'' demo_sync = Reply 200 (''up1'', k, [0])" "0 \<le> k" "k < 2" "k \<noteq> 0"
    by (auto simp: demo_upload_def)
  moreover from this have "k = 1"
    by auto
  ultimately show ?thesis
    by simp
qed

section \<open>Writing attendance\<close>

lemma exec_insert_inserted:
  assumes "exec_insert env i row s = Inserted rows"
  shows "insert_log True row (attendance_logs s) = Inserted rows" and "rows = attendance_logs s @ [row]"
  using assms by (auto simp: exec_insert_def split: if_splits insert_outcome.splits dest: insert_log_appends)

lemma write_records_indexes:
  "indexes_hold (attendance_logs s) \<Longrightarrow> indexes_hold (attendance_logs (snd (write_records env v idx t c i recs k s)))"
proof (induction recs arbitrary: i k s)
  case (Cons rec recs)
  show ?case
  proof (cases "resolve_student idx (r_student_hash rec)")
    case None
    then show ?thesis
      using Cons by (simp add: Let_def)
  next
    case (Some st)
    show ?thesis
    proof (cases "exec_insert env i (log_of t c st rec) s")
      case (Inserted rows)
      then have "indexes_hold rows"
        using exec_insert_inserted(1) insert_log_keeps_indexes Cons.prems by blast
      then show ?thesis
        using Some Inserted Cons.IH by (simp add: Let_def)
    qed (use Some Cons in \<open>simp_all add: Let_def\<close>)
  qed
qed simp

lemma write_records_prefix:
  "\<exists>new. attendance_logs (snd (write_records env v idx t c i recs k s)) = attendance_logs s @ new \<and>
     (\<forall>r \<in> set new. tenant_id r = t \<and> coordinator_id r = Some c)"
proof (induction recs arbitrary: i k s)
  case (Cons rec recs)
  show ?case
  proof (cases "resolve_student idx (r_student_hash rec)")
    case None
    then show ?thesis
      using Cons.IH by (simp add: Let_def)
  next
    case (Some st)
    show ?thesis
    proof (cases "exec_insert env i (log_of t c st rec) s")
      case (Inserted rows)
      let ?k = "if \<not> v (r_session rec) then k\<lparr>rejectedNoLecturer := rejectedNoLecturer k + 1\<rparr> else k"
      obtain new where
        "attendance_logs (snd (write_records env v idx t c (Suc i) recs (?k\<lparr>written := written ?k + 1\<rparr>) (s\<lparr>attendance_logs := rows\<rparr>)))
           = rows @ new" "\<forall>r \<in> set new. tenant_id r = t \<and> coordinator_id r = Some c"
        using Cons.IH [of "Suc i" "?k\<lparr>written := written ?k + 1\<rparr>" "s\<lparr>attendance_logs := rows\<rparr>"] by auto
      then show ?thesis
        using Some Inserted exec_insert_inserted(2) [OF Inserted]
        by (intro exI [of _ "log_of t c st rec # new"]) (simp add: Let_def log_of_def)
    qed (use Some Cons.IH in \<open>simp_all add: Let_def\<close>)
  qed
qed simp

lemma create_session_effect:
  "create_session env pkg t c s = Some s1 \<Longrightarrow>
     (\<exists>new. s1 = s\<lparr>sessions := sessions s @ new\<rparr>) \<and>
     (sessions s2 = sessions s1 \<longrightarrow> create_session env pkg t c s2 = Some s2)"
  by (auto simp: create_session_def session_from_package_def split: if_splits intro: exI [of _ "[]"])

lemma seed_lecturer_effect:
  "seed_lecturer env pkg t s = Some s1 \<Longrightarrow>
     (\<exists>new. s1 = s\<lparr>lecturer_logs := lecturer_logs s @ new\<rparr>) \<and>
     (lecturer_logs s2 = lecturer_logs s1 \<longrightarrow> seed_lecturer env pkg t s2 = Some s2)"
  by (auto simp: seed_lecturer_def split: if_splits intro: exI [of _ "[]"])

lemma write_records_frame:
  "\<exists>a. snd (write_records env v idx t c i recs k s) = s\<lparr>attendance_logs := a\<rparr>"
proof (induction recs arbitrary: i k s)
  case Nil
  then show ?case
    by (auto intro: exI [of _ "attendance_logs s"])
next
  case (Cons rec recs)
  have same: "\<exists>a. s = s\<lparr>attendance_logs := a\<rparr>"
    by (auto intro: exI [of _ "attendance_logs s"])
  have step: "\<exists>a. snd (write_records env v idx t c j recs k' (s\<lparr>attendance_logs := rows\<rparr>)) = s\<lparr>attendance_logs := a\<rparr>" for j k' rows
    using Cons.IH [of j k' "s\<lparr>attendance_logs := rows\<rparr>"] by auto
  show ?case
    using Cons.IH same step by (simp add: Let_def split: option.split insert_outcome.split)
qed

text \<open>
  What \<open>writeAttendanceLogs\<close> does to the tables: \<open>None\<close> as its first result means that the package was
  parsed, its session and lecturer rows are there, and every record was gone through.
\<close>

lemma writeAttendanceLogs_cases:
  obtains (early) "attendance_logs (snd (writeAttendanceLogs env pl t c s)) = attendance_logs s"
      "fst (fst (writeAttendanceLogs env pl t c s)) \<noteq> None"
  | (records) pkg s1 s2 idx where "unmarshal env pl = Some pkg" "\<not> failing env CallAcquire" "\<not> failing env CallSetTenant"
      "create_session env pkg t c s = Some s1" "seed_lecturer env pkg t s1 = Some s2" "buildHashIndex env t s2 = Some idx"
      "\<not> ((p_session pkg \<noteq> [] \<or> list_ex (\<lambda>r. r_session r \<noteq> []) (p_records pkg)) \<and> failing env CallVerified)"
      "attendance_logs s2 = attendance_logs s"
      "writeAttendanceLogs env pl t c s = write_records env (verified_session t s2) idx t c 0 (p_records pkg) no_counts s2"
proof (cases "unmarshal env pl")
  case None
  then show thesis
    by (intro early) (simp_all add: writeAttendanceLogs_def)
next
  case (Some pkg)
  note pkg = Some
  show thesis
  proof (cases "failing env CallAcquire \<or> failing env CallSetTenant \<or> create_session env pkg t c s = None")
    case True
    then show thesis
      using pkg by (intro early) (auto simp: writeAttendanceLogs_def)
  next
    case False
    then obtain s1 where s1: "create_session env pkg t c s = Some s1"
      by auto
    then have a1: "attendance_logs s1 = attendance_logs s"
      using create_session_effect by fastforce
    show thesis
    proof (cases "seed_lecturer env pkg t s1")
      case None
      then show thesis
        using pkg s1 a1 False by (intro early) (simp_all add: writeAttendanceLogs_def)
    next
      case (Some s2)
      then have a2: "attendance_logs s2 = attendance_logs s"
        using seed_lecturer_effect a1 by fastforce
      let ?unchecked = "(p_session pkg \<noteq> [] \<or> list_ex (\<lambda>r. r_session r \<noteq> []) (p_records pkg)) \<and> failing env CallVerified"
      show thesis
      proof (cases "buildHashIndex env t s2 = None \<or> ?unchecked")
        case True
        have "attendance_logs (snd (writeAttendanceLogs env pl t c s)) = attendance_logs s \<and>
            fst (fst (writeAttendanceLogs env pl t c s)) \<noteq> None"
          using True pkg s1 Some False a2 by (auto simp: writeAttendanceLogs_def split: option.split)
        then show thesis
          using early by blast
      next
        case ok: False
        then obtain idx where "buildHashIndex env t s2 = Some idx"
          by auto
        then show thesis
          using ok pkg s1 Some False a2 by (intro records [of pkg s1 s2 idx]) (auto simp: writeAttendanceLogs_def)
      qed
    qed
  qed
qed

lemma writeAttendanceLogs_rows:
  "\<exists>new. attendance_logs (snd (writeAttendanceLogs env pl t c s)) = attendance_logs s @ new \<and>
     (\<forall>r \<in> set new. tenant_id r = t \<and> coordinator_id r = Some c)"
  "indexes_hold (attendance_logs s) \<Longrightarrow> indexes_hold (attendance_logs (snd (writeAttendanceLogs env pl t c s)))"
proof -
  show "\<exists>new. attendance_logs (snd (writeAttendanceLogs env pl t c s)) = attendance_logs s @ new \<and>
     (\<forall>r \<in> set new. tenant_id r = t \<and> coordinator_id r = Some c)"
  proof (cases rule: writeAttendanceLogs_cases [of env pl t c s])
    case (records pkg s1 s2 idx)
    then show ?thesis
      using write_records_prefix [of env _ idx t c 0 "p_records pkg" no_counts s2] by metis
  qed simp
  assume "indexes_hold (attendance_logs s)"
  then show "indexes_hold (attendance_logs (snd (writeAttendanceLogs env pl t c s)))"
    by (cases rule: writeAttendanceLogs_cases [of env pl t c s]) (simp_all add: write_records_indexes)
qed

lemma write_and_mark_logs:
  "attendance_logs (snd (write_and_mark env uid t c pt s)) = attendance_logs (snd (writeAttendanceLogs env pt t c s))"
  by (simp add: write_and_mark_def split: prod.split option.split)

text \<open>
  Completing an upload, however it ends, removes and rewrites nothing: it adds rows of the
  caller's own tenant, and only in the name of the coordinator who opened the upload. The unique
  indexes still hold after it, so no student has two scanned rows in one session.
\<close>

theorem complete_tenant_isolated:
  assumes "indexes_hold (attendance_logs s)"
  shows "\<exists>new. attendance_logs (snd (Complete env uid s)) = attendance_logs s @ new \<and>
    (\<forall>r \<in> set new. \<exists>u \<in> set (sync_uploads s). requireTenant env = Some (tenant_id r) \<and> upload_id u = uid \<and>
       tenant_id r = u_tenant u \<and> coordinator_id r = Some (u_coordinator u)) \<and>
    indexes_hold (attendance_logs s @ new) \<and>
    length (filter (\<lambda>r. entry_method r = ''QR_SCAN'' \<and> tenant_id r = t \<and> session_id r = sess \<and> student_id r = st)
      (attendance_logs s @ new)) \<le> 1"
proof -
  obtain r s' where c: "Complete env uid s = (r, s')"
    by (metis surj_pair)
  show ?thesis
    using Complete_step [OF c]
  proof (elim disjE exE conjE)
    assume "s' = s"
    then show ?thesis
      using c assms indexes_student_unique by (intro exI [of _ "[]"]) simp
  next
    fix u payload pt
    assume u: "requireTenant env = Some (u_tenant u)" "find_upload env uid s = Some u"
      and w: "(r, s') = write_and_mark env uid (u_tenant u) (u_coordinator u) pt s"
    have "u \<in> set (sync_uploads s)" "upload_id u = uid"
      using u(2) by (auto simp: find_upload_def split: if_splits dest!: select_one_Some)
    moreover obtain new where "attendance_logs s' = attendance_logs s @ new"
      "\<forall>r \<in> set new. tenant_id r = u_tenant u \<and> coordinator_id r = Some (u_coordinator u)" "indexes_hold (attendance_logs s')"
      using writeAttendanceLogs_rows [where s = s and env = env and pl = pt and t = "u_tenant u" and c = "u_coordinator u"] assms
        write_and_mark_logs [of env uid "u_tenant u" "u_coordinator u" pt s] w by (metis snd_conv)
    ultimately show ?thesis
      using u(1) c indexes_student_unique [of "attendance_logs s @ new" t sess st] by (intro exI [of _ new]) auto
  qed
qed

theorem complete_tenant_isolated_witness:
  "indexes_hold (attendance_logs demo_sync) \<and>
     (\<exists>new. attendance_logs (snd (Complete demo_sync_env ''up1'' demo_sync)) = attendance_logs demo_sync @ new \<and>
        indexes_hold (attendance_logs demo_sync @ new))"
proof -
  have "indexes_hold (attendance_logs demo_sync)"
    by (simp add: demo_sync_def indexes_hold_def)
  from this complete_tenant_isolated [OF this] show ?thesis
    by blast
qed

section \<open>Sending a package again\<close>

lemma exec_insert_clash:
  assumes "exec_insert env i row s \<noteq> Violation" and "list_ex (vector_clash row) (attendance_logs s')"
  shows "exec_insert env i row s' = Skipped"
  using assms by (auto simp: exec_insert_def insert_log_def split: if_splits)

lemma write_records_again:
  assumes "write_records env v idx t c i recs k s = ((None, k'), s')"
    and "\<forall>r \<in> set recs. r_method r = ''QR_SCAN''" and "set (attendance_logs s') \<subseteq> set (attendance_logs s'')"
  shows "\<exists>k3. write_records env v2 idx t c i recs k2 s'' = ((None, k3), s'') \<and> written k3 = written k2"
  using assms(1,2)
proof (induction recs arbitrary: i k s k2)
  case (Cons rec recs)
  let ?m = "\<lambda>v k. if \<not> v (r_session rec) then k\<lparr>rejectedNoLecturer := rejectedNoLecturer k + 1\<rparr> else k"
  have m: "written (?m v2 k2) = written k2"
    by simp
  show ?case
  proof (cases "resolve_student idx (r_student_hash rec)")
    case None
    then show ?thesis
      using Cons.IH [of "Suc i" "?m v k" s "?m v2 k2"] Cons.prems by (auto simp: Let_def split: if_splits)
  next
    case (Some st)
    let ?row = "log_of t c st rec"
    have self: "vector_clash ?row ?row"
      using Cons.prems(2) by (simp add: vector_clash_def log_of_def)
    obtain j k1 s1 where rest: "write_records env v idx t c (Suc i) recs k1 s1 = ((None, k'), s')"
      and hit: "list_ex (vector_clash ?row) (attendance_logs s1)" and ok: "exec_insert env i ?row s \<noteq> Violation"
    proof (cases "exec_insert env i ?row s")
      case (Inserted rows)
      show thesis
        by (rule that [of "(?m v k)\<lparr>written := written (?m v k) + 1\<rparr>" "s\<lparr>attendance_logs := rows\<rparr>"])
          (use Cons.prems(1) Some Inserted self exec_insert_inserted(2) [OF Inserted] in \<open>simp_all add: Let_def\<close>)
    next
      case Skipped
      show thesis
        by (rule that [of "(?m v k)\<lparr>duplicates := duplicates (?m v k) + 1\<rparr>" s])
          (use Cons.prems(1) Some Skipped in \<open>auto simp: Let_def exec_insert_def insert_log_def split: if_splits\<close>)
    qed (use Cons.prems(1) Some in \<open>simp add: Let_def\<close>)
    have "set (attendance_logs s1) \<subseteq> set (attendance_logs s'')"
      using write_records_prefix [of env v idx t c "Suc i" recs k1 s1] rest assms(3) by auto
    then have "exec_insert env i ?row s'' = Skipped"
      using exec_insert_clash [OF ok] hit by (auto simp: list_ex_iff)
    then show ?thesis
      using Some Cons.IH [OF rest, of "(?m v2 k2)\<lparr>duplicates := duplicates (?m v2 k2) + 1\<rparr>"] Cons.prems(2)
      by (cases "v2 (r_session rec)") (simp_all add: Let_def)
  qed
qed simp

lemma writeAttendanceLogs_again:
  assumes first: "writeAttendanceLogs env pl t c s = ((None, k), s')"
    and "\<And>pkg r. unmarshal env pl = Some pkg \<Longrightarrow> r \<in> set (p_records pkg) \<Longrightarrow> r_method r = ''QR_SCAN''"
  shows "\<exists>k'. writeAttendanceLogs env pl t c (s'\<lparr>sync_uploads := x\<rparr>) = ((None, k'), s'\<lparr>sync_uploads := x\<rparr>) \<and> written k' = 0"
proof (cases rule: writeAttendanceLogs_cases [of env pl t c s])
  case (records pkg s1 s2 idx)
  let ?s = "s'\<lparr>sync_uploads := x\<rparr>"
  obtain a where a: "s' = s2\<lparr>attendance_logs := a\<rparr>"
    using first records(9) write_records_frame [of env _ idx t c 0 "p_records pkg" no_counts s2] by (metis snd_conv)
  obtain new where "s2 = s1\<lparr>lecturer_logs := lecturer_logs s1 @ new\<rparr>"
    using seed_lecturer_effect [OF records(5)] by blast
  then have "sessions ?s = sessions s1" "lecturer_logs ?s = lecturer_logs s2"
    using a by simp_all
  then have "create_session env pkg t c ?s = Some ?s" "seed_lecturer env pkg t ?s = Some ?s"
    using create_session_effect [OF records(4)] seed_lecturer_effect [OF records(5)] by blast+
  moreover have "buildHashIndex env t ?s = Some idx"
    using records(6) a by (auto simp: buildHashIndex_def split: if_splits option.splits)
  moreover obtain k' where "write_records env (verified_session t ?s) idx t c 0 (p_records pkg) no_counts ?s = ((None, k'), ?s)"
    "written k' = written no_counts"
    using write_records_again [where s'' = ?s and ?v2.0 = "verified_session t ?s" and ?k2.0 = no_counts]
      first records(1,9) assms(2) by fastforce
  ultimately show ?thesis
    using records(1,2,3,7) by (auto simp: writeAttendanceLogs_def no_counts_def)
qed (use first in simp)

lemma writeAttendanceLogs_frame:
  "chunk_store (snd (writeAttendanceLogs env pl t c s)) = chunk_store s"
  "coordinators (snd (writeAttendanceLogs env pl t c s)) = coordinators s"
proof -
  have w: "chunk_store (snd (write_records env v idx t c i recs k s)) = chunk_store s \<and>
      coordinators (snd (write_records env v idx t c i recs k s)) = coordinators s" for v idx i recs k s
    using write_records_frame [of env v idx t c i recs k s] by auto
  have "create_session env pkg t c s = Some s1 \<Longrightarrow> chunk_store s1 = chunk_store s \<and> coordinators s1 = coordinators s" for pkg s1
    by (auto dest: create_session_effect)
  moreover have "seed_lecturer env pkg t s1 = Some s2 \<Longrightarrow> chunk_store s2 = chunk_store s1 \<and> coordinators s2 = coordinators s1" for pkg s1 s2
    by (auto dest: seed_lecturer_effect)
  ultimately show "chunk_store (snd (writeAttendanceLogs env pl t c s)) = chunk_store s"
    "coordinators (snd (writeAttendanceLogs env pl t c s)) = coordinators s"
    using w by (auto simp: writeAttendanceLogs_def split: option.split)
qed

lemma mark_idem: "update_where p mark_synced (update_where p mark_synced rows) = update_where p mark_synced rows"
  by (induction rows) (auto simp: mark_synced_def)

text \<open>
  Sending a package again is harmless: when completing an upload of scanned records was
  acknowledged, completing it a second time (the phone missed the answer) is acknowledged too,
  writes no row and leaves every table as it is.
\<close>

theorem complete_idempotent:
  assumes "Complete env uid s = (Reply 200 c, s')"
    and "\<forall>pl pkg. unmarshal env pl = Some pkg \<longrightarrow> (\<forall>r \<in> set (p_records pkg). r_method r = ''QR_SCAN'')"
  shows "\<exists>c'. Complete env uid s' = (Reply 200 c', s') \<and> written c' = 0"
proof -
  obtain u payload pt where u: "requireTenant env = Some (u_tenant u)" "find_upload env uid s = Some u"
    "total_chunks u \<le> int (length (received_chunks u))" "reassemble env uid 0 (nat (total_chunks u)) [] s = Some payload"
    "hex_encode (sha256 payload) = package_checksum u"
    "decryptPackage env (u_coordinator u) (u_tenant u) (package_hmac u) payload s = Inr pt"
    "(Reply 200 c, s') = write_and_mark env uid (u_tenant u) (u_coordinator u) pt s"
    using Complete_step [OF assms(1)] by auto
  let ?mark = "update_where (\<lambda>u. upload_id u = uid) mark_synced"
  obtain s1 where w: "writeAttendanceLogs env pt (u_tenant u) (u_coordinator u) s = ((None, c), s1)"
    and s': "s' = (if failing env CallMarkSynced then s1 else s1\<lparr>sync_uploads := ?mark (sync_uploads s1)\<rparr>)"
    using u(7) by (auto simp: write_and_mark_def split: prod.splits option.splits)
  obtain k where again: "writeAttendanceLogs env pt (u_tenant u) (u_coordinator u) s' = ((None, k), s')" "written k = 0"
  proof -
    have "s1\<lparr>sync_uploads := sync_uploads s'\<rparr> = s'"
      by (simp add: s')
    moreover have "r_method r = ''QR_SCAN''" if "unmarshal env pt = Some pkg" "r \<in> set (p_records pkg)" for pkg r
      using assms(2) that by blast
    ultimately show thesis
      using that writeAttendanceLogs_again [OF w, of "sync_uploads s'"] by auto
  qed
  have frame: "chunk_store s' = chunk_store s" "coordinators s' = coordinators s" "sync_uploads s1 = sync_uploads s"
    using writeAttendanceLogs_frame [of env pt "u_tenant u" "u_coordinator u" s] w s'
      writeAttendanceLogs_uploads [of env pt "u_tenant u" "u_coordinator u" s] by auto
  obtain u' where u': "find_upload env uid s' = Some u'" "u_tenant u' = u_tenant u" "u_coordinator u' = u_coordinator u"
    "total_chunks u' = total_chunks u" "received_chunks u' = received_chunks u" "package_checksum u' = package_checksum u"
    "package_hmac u' = package_hmac u"
  proof (cases "failing env CallMarkSynced")
    case False
    then have "find_upload env uid s' = Some (mark_synced u)"
      using u(2) s' frame(3) select_update [of "\<lambda>u. upload_id u = uid" "sync_uploads s" u mark_synced "\<lambda>u. upload_id u = uid"]
      by (auto simp: find_upload_def mark_synced_def split: if_splits dest: select_one_Some)
    then show thesis
      using that [of "mark_synced u"] by (simp add: mark_synced_def)
  next
    case True
    then have "find_upload env uid s' = Some u"
      using u(2) s' frame(3) by (auto simp: find_upload_def split: if_splits)
    then show thesis
      using that [of u] by simp
  qed
  have "reassemble env uid i n acc s' = reassemble env uid i n acc s" for i n acc
    by (induction n arbitrary: i acc) (simp_all add: redis_get_def frame split: option.split)
  moreover have "decryptPackage env co t m pl s' = decryptPackage env co t m pl s" for co t m pl
    unfolding decryptPackage_def frame ..
  ultimately have "Complete env uid s' = write_and_mark env uid (u_tenant u) (u_coordinator u) pt s'"
    using u u' by (simp add: Complete_def)
  also have "\<dots> = (Reply 200 k, s')"
    using again(1) s' by (auto simp: write_and_mark_def mark_idem)
  finally show ?thesis
    using again(2) by blast
qed

theorem complete_idempotent_witness:
  "\<exists>master s' c'. Complete (demo_complete_env demo_package) ''up1'' (demo_sealed master) = (Reply 200 no_counts, s') \<and>
     Complete (demo_complete_env demo_package) ''up1'' s' = (Reply 200 c', s')"
proof -
  obtain master s' where s': "Complete (demo_complete_env demo_package) ''up1'' (demo_sealed master) = (Reply 200 no_counts, s')"
    using demo_complete demo_master by metis
  from complete_idempotent [OF s'] show ?thesis
    using s' by (auto simp: demo_complete_env_def demo_package_def)
qed

section \<open>A failed write\<close>

definition demo_record :: "string \<Rightarrow> int \<Rightarrow> attendance_record" where
  "demo_record lid n = \<lparr>r_log = lid, r_session = ''s1'', r_student_hash = ''2024-BIT-1'', r_fingerprint = ''f'', r_sequence = n,
     r_timestamp = ''2026-08-13T08:00:00Z'', r_method = ''QR_SCAN''\<rparr>"

definition demo_twice :: package where
  "demo_twice = demo_package\<lparr>p_session := ''s1'', p_unit := ''u1'', p_records := [demo_record ''l1'' 1, demo_record ''l2'' 2]\<rparr>"

text \<open>
  A package is not written as a whole: with one student scanned twice under two sequence numbers,
  the second insert breaks the student index, completion answers a write error, and the session
  and the first row stay in the tables.
\<close>

theorem write_error_is_partial:
  "\<exists>env s s'. indexes_hold (attendance_logs s) \<and> Complete env ''up1'' s = (Reject 500 ''WRITE_ERROR'', s') \<and>
     attendance_logs s = [] \<and> map log_id (attendance_logs s') = [''l1''] \<and> sessions s = [] \<and> map s_id (sessions s') = [''s1'']"
proof -
  obtain master where m: "masterKey (replicate 64 (CHR ''0'')) = Inr master"
    by (rule demo_master)
  let ?env = "demo_complete_env demo_twice" and ?s = "demo_sealed master"
  show ?thesis
    by (rule exI [of _ ?env], rule exI [of _ ?s], rule exI [of _ "snd (Complete ?env ''up1'' ?s)"], unfold demo_opened [OF m])
      (simp add: write_and_mark_def writeAttendanceLogs_def demo_complete_env_def demo_sync_env_def demo_sealed_def
      demo_sync_def demo_twice_def demo_package_def demo_record_def create_session_def session_from_package_def seed_lecturer_def
      buildHashIndex_def resolve_student_def exec_insert_def insert_log_def clash_def vector_clash_def student_clash_def
      log_of_def indexes_hold_def Let_def)
qed

section \<open>What an acknowledgement means\<close>

text \<open>
  An acknowledged chunk is recorded as received, but the signed acknowledgement does not say
  that it was kept: it is also given when the store failed, and of a longer body only the
  first mebibyte is kept. When the store did not fail, the kept part can be read for seven days.
\<close>

theorem chunk_ack:
  assumes "Chunk env key uid idx body s = (Reply n (uid', i, next, sig), s')" and "now later < now env + chunk_ttl"
    and "\<not> failing later CallRedisGet"
  shows "go_atoi idx = Some i \<and> 0 \<le> i \<and> next = i + 1 \<and> sig = hmacSHA256 key (uid @ '':'' @ format_int i) \<and>
    (\<exists>u. select_one (\<lambda>u. upload_id u = uid) (sync_uploads s') = Some u \<and> i \<in> set (received_chunks u) \<and>
       requireTenant env = Some (u_tenant u)) \<and>
    (if failing env CallRedisSet then chunk_store s' = chunk_store s
     else redis_get later (chunk_key uid i) s' = Some (take (2 ^ 20) body))"
proof -
  obtain u where u: "find_upload env uid s = Some u" "requireTenant env = Some (u_tenant u)" "go_atoi idx = Some i" "0 \<le> i"
    "next = i + 1" "sig = hmacSHA256 key (uid @ '':'' @ format_int i)"
    and s': "s' = (if failing env CallRedisSet then s
               else s\<lparr>chunk_store := (chunk_store s)(chunk_key uid i \<mapsto> (take chunk_cap body, now env + chunk_ttl))\<rparr>)
             \<lparr>sync_uploads := update_where (\<lambda>u. upload_id u = uid) (mark_received i) (sync_uploads s)\<rparr>"
    using assms(1) by (auto simp: Chunk_def Let_def split: option.splits if_splits)
  have "select_one (\<lambda>u. upload_id u = uid) (sync_uploads s') = Some (mark_received i u)"
    using u(1) s' select_update [of "\<lambda>u. upload_id u = uid" "sync_uploads s" u "mark_received i" "\<lambda>u. upload_id u = uid"]
    by (auto simp: find_upload_def mark_received_def split: if_splits dest: select_one_Some)
  then show ?thesis
    using u s' assms(2,3) by (auto simp: mark_received_def redis_get_def chunk_cap_def)
qed

theorem chunk_ack_witness:
  "\<exists>sig s'. Chunk demo_sync_env [] ''up1'' ''1'' [7] demo_sync = (Reply 200 (''up1'', 1, 2, sig), s') \<and>
     redis_get demo_sync_env (chunk_key ''up1'' 1) s' = Some [7]"
proof -
  have "go_atoi ''1'' = Some 1"
    by code_simp
  then have "\<exists>sig s'. Chunk demo_sync_env [] ''up1'' ''1'' [7] demo_sync = (Reply 200 (''up1'', 1, 2, sig), s')"
    by (simp add: Chunk_def demo_require find_upload_def Let_def)
      (simp add: demo_sync_env_def demo_sync_def demo_upload_def)
  then obtain sig s' where c: "Chunk demo_sync_env [] ''up1'' ''1'' [7] demo_sync = (Reply 200 (''up1'', 1, 2, sig), s')"
    by blast
  have env: "now demo_sync_env < now demo_sync_env + chunk_ttl" "\<not> failing demo_sync_env x" for x
    by (simp_all add: demo_sync_env_def chunk_ttl_def duration_defs)
  from chunk_ack [OF c env(1) env(2)] c env(2) show ?thesis
    by auto
qed

end
