(* ===== verification/Proximity.thy ===== *)
theory Proximity
  imports Go_Prelude
begin

text \<open>
  Where a request comes from (\<open>clientip.go\<close>) and whether that is the coordinator's network
  (\<open>proximity.go\<close>), with the part of package \<open>net\<close> they use: \<open>SplitHostPort\<close> and \<open>ParseIP\<close>.

  An address is its 16 bytes, IPv4 ones in the mapped form, as in \<open>net.IP\<close>.
\<close>

section \<open>Package net\<close>

definition first_is :: "char \<Rightarrow> string \<Rightarrow> bool" where
  "first_is c s = (case s of x # _ \<Rightarrow> x = c | [] \<Rightarrow> False)"

text \<open>\<open>net.SplitHostPort\<close>: the host part, \<open>None\<close> for its errors.\<close>

definition SplitHostPort :: "string \<Rightarrow> string option" where
  "SplitHostPort hp =
     (case last_index hp (CHR '':'') of
        None \<Rightarrow> None
      | Some i \<Rightarrow>
          if first_is (CHR ''['') hp then
            (case index_byte hp (CHR '']'') of
               None \<Rightarrow> None
             | Some e \<Rightarrow>
                 if e + 1 \<noteq> i then None
                 else if CHR ''['' \<in> set (drop 1 hp) \<or> CHR '']'' \<in> set (drop (e + 1) hp) then None
                 else Some (take (e - 1) (drop 1 hp)))
          else if CHR '':'' \<in> set (take i hp) then None
          else if CHR ''['' \<in> set hp \<or> CHR '']'' \<in> set hp then None
          else Some (take i hp))"

text \<open>One field of a dotted address: up to three digits, no leading zero, at most 255.\<close>

definition v4_field :: "string \<Rightarrow> nat option" where
  "v4_field s =
     (if s = [] \<or> 3 < length s \<or> \<not> list_all is_digit s \<or> (1 < length s \<and> first_is (CHR ''0'') s) then None
      else let v = decimal_value s in if v \<le> 255 then Some v else None)"

definition parse_v4 :: "string \<Rightarrow> nat list option" where
  "parse_v4 s =
     (let fs = map v4_field (split_on (CHR ''.'') s) in
      if length fs = 4 \<and> list_all (\<lambda>f. f \<noteq> None) fs then Some (map the fs) else None)"

definition hex_val :: "char \<Rightarrow> nat" where
  "hex_val c = (let n = (of_char c :: nat) in if n \<le> 57 then n - 48 else if n \<le> 70 then n - 55 else n - 87)"

definition hex_number :: "string \<Rightarrow> nat" where
  "hex_number s = foldl (\<lambda>n c. n * 16 + hex_val c) 0 s"

text \<open>
  The groups of an IPv6 address: \<open>n\<close> groups are left, \<open>ell\<close> is where \<open>::\<close> stood. The result is the
  bytes read, that position and the text left over.
\<close>

fun v6_groups :: "nat \<Rightarrow> nat list \<Rightarrow> nat option \<Rightarrow> string \<Rightarrow> (nat list \<times> nat option \<times> string) option" where
  "v6_groups 0 acc ell s = Some (acc, ell, s)"
| "v6_groups (Suc n) acc ell s =
     (let g = takeWhile is_hex s; rest = dropWhile is_hex s in
      if g = [] \<or> 4 < length g then None
      else if first_is (CHR ''.'') rest then
        (if (ell = None \<and> length acc \<noteq> 12) \<or> 16 < length acc + 4 then None
         else map_option (\<lambda>v. (acc @ v, ell, [])) (parse_v4 s))
      else
        let acc = acc @ [hex_number g div 256, hex_number g mod 256] in
        case rest of
          [] \<Rightarrow> Some (acc, ell, [])
        | c # cs \<Rightarrow>
            if c \<noteq> CHR '':'' \<or> cs = [] then None
            else if first_is (CHR '':'') cs then
              (if ell \<noteq> None then None
               else if tl cs = [] then Some (acc, Some (length acc), [])
               else v6_groups n acc (Some (length acc)) (tl cs))
            else v6_groups n acc ell cs)"

definition parse_v6 :: "string \<Rightarrow> nat list option" where
  "parse_v6 s =
     (let dbl = has_prefix s ''::''; rest = (if dbl then drop 2 s else s) in
      if dbl \<and> rest = [] then Some (replicate 16 0)
      else case v6_groups 8 [] (if dbl then Some 0 else None) rest of
        None \<Rightarrow> None
      | Some (acc, ell, left) \<Rightarrow>
          if left \<noteq> [] then None
          else if length acc < 16 then
            (case ell of
               None \<Rightarrow> None
             | Some e \<Rightarrow> Some (take e acc @ replicate (16 - length acc) 0 @ drop e acc))
          else if ell \<noteq> None then None else Some acc)"

definition mapped_prefix :: "nat list" where
  "mapped_prefix = replicate 10 0 @ [255, 255]"

text \<open>\<open>net.ParseIP\<close>: the first of the characters dot and colon decides the form; a zone is refused.\<close>

definition ParseIP :: "string \<Rightarrow> nat list option" where
  "ParseIP s =
     (if CHR ''%'' \<in> set s then None
      else case find (\<lambda>c. c = CHR ''.'' \<or> c = CHR '':'') s of
        None \<Rightarrow> None
      | Some c \<Rightarrow> if c = CHR ''.'' then map_option (\<lambda>v. mapped_prefix @ v) (parse_v4 s) else parse_v6 s)"

definition To4 :: "nat list \<Rightarrow> nat list option" where
  "To4 ip = (if length ip = 16 \<and> take 12 ip = mapped_prefix then Some (drop 12 ip) else None)"

definition IsPrivate :: "nat list \<Rightarrow> bool" where
  "IsPrivate ip =
     (case To4 ip of
        Some v \<Rightarrow> v ! 0 = 10 \<or> (v ! 0 = 172 \<and> v ! 1 div 16 = 1) \<or> (v ! 0 = 192 \<and> v ! 1 = 168)
      | None \<Rightarrow> length ip = 16 \<and> ip ! 0 div 2 = 126)"

definition IsLoopback :: "nat list \<Rightarrow> bool" where
  "IsLoopback ip = (case To4 ip of Some v \<Rightarrow> v ! 0 = 127 | None \<Rightarrow> ip = replicate 15 0 @ [1])"

definition IsLinkLocalUnicast :: "nat list \<Rightarrow> bool" where
  "IsLinkLocalUnicast ip =
     (case To4 ip of
        Some v \<Rightarrow> v ! 0 = 169 \<and> v ! 1 = 254
      | None \<Rightarrow> length ip = 16 \<and> ip ! 0 = 254 \<and> ip ! 1 div 64 = 2)"

section \<open>The services' use of it\<close>

record origin =
  x_forwarded_for :: string
  remote_addr :: string

definition ClientIP :: "origin \<Rightarrow> string" where
  "ClientIP r =
     (let first = trim_space (hd (split_on (CHR '','') (x_forwarded_for r))) in
      if x_forwarded_for r \<noteq> [] \<and> first \<noteq> [] then first
      else
        let ip = (case last_index (remote_addr r) (CHR '':'') of
                    Some i \<Rightarrow> take i (remote_addr r) | None \<Rightarrow> remote_addr r);
            bracket = (\<lambda>c. c = CHR ''['' \<or> c = CHR '']'')
        in rev (dropWhile bracket (rev (dropWhile bracket ip))))"

definition stripPort :: "string \<Rightarrow> string" where
  "stripPort addr =
     (if addr = [] then addr else case SplitHostPort addr of Some host \<Rightarrow> host | None \<Rightarrow> addr)"

definition onSameLAN :: "string \<Rightarrow> string \<Rightarrow> bool" where
  "onSameLAN clientIP coordinatorIP =
     (case ParseIP (stripPort clientIP) of
        None \<Rightarrow> True
      | Some c \<Rightarrow>
          (case ParseIP (stripPort coordinatorIP) of
             None \<Rightarrow> False
           | Some k \<Rightarrow> c = k \<or>
               (case (To4 c, To4 k) of
                  (Some c4, Some k4) \<Rightarrow> c4 ! 0 = k4 ! 0 \<and> c4 ! 1 = k4 ! 1 \<and> c4 ! 2 = k4 ! 2
                | _ \<Rightarrow> False)) \<or>
          IsPrivate c \<or> IsLoopback c \<or> IsLinkLocalUnicast c)"

section \<open>Dotted addresses\<close>

definition dotted :: "nat \<Rightarrow> nat \<Rightarrow> nat \<Rightarrow> nat \<Rightarrow> string" where
  "dotted a b c d = join_with ''.'' [itoa a, itoa b, itoa c, itoa d]"

lemma split_on_single: "c \<notin> set w \<Longrightarrow> split_on c w = [w]"
  by (induction w) auto

lemma split_on_cons: "c \<notin> set w \<Longrightarrow> split_on c (w @ c # rest) = w # split_on c rest"
  by (induction w) auto

lemma itoa_chars: "x \<in> set (itoa n) \<Longrightarrow> is_digit x"
  using itoa_digits [of n] by (simp add: list_all_iff)

lemma separators_not_digits: "\<not> is_digit (CHR ''.'')" "\<not> is_digit (CHR '':'')" "\<not> is_digit (CHR ''%'')"
  by code_simp+

lemma itoa_no_separator: "CHR ''.'' \<notin> set (itoa n)" "CHR '':'' \<notin> set (itoa n)" "CHR ''%'' \<notin> set (itoa n)"
  using itoa_chars separators_not_digits by blast+

lemma digit_char_zero_iff: "d < 10 \<Longrightarrow> digit_char d = CHR ''0'' \<longleftrightarrow> d = 0"
proof -
  assume "d < 10"
  then have "digit_value (digit_char d) = d"
    by (rule digit_value_digit_char)
  moreover have "digit_char 0 = CHR ''0''" "digit_value (CHR ''0'') = 0"
    by code_simp+
  ultimately show ?thesis
    by metis
qed

lemma itoa_first: "0 < n \<Longrightarrow> \<not> first_is (CHR ''0'') (itoa n)"
proof (induction n rule: itoa.induct)
  case (1 n)
  show ?case
  proof (cases "n < 10")
    case True
    then show ?thesis
      using 1 by (simp add: itoa_small first_is_def digit_char_zero_iff)
  next
    case False
    then have "\<not> first_is (CHR ''0'') (itoa (n div 10))"
      using 1 by (simp add: div_greater_zero_iff)
    then show ?thesis
      using False by (cases "itoa (n div 10)") (simp_all add: itoa_step [of n] first_is_def)
  qed
qed

lemma v4_field_itoa: "a \<le> 255 \<Longrightarrow> v4_field (itoa a) = Some a"
proof -
  assume a: "a \<le> 255"
  have "length (itoa a) \<le> 3"
  proof (cases "a < 100")
    case True
    then show ?thesis
      by (cases "a < 10") (simp_all add: itoa_small itoa_step)
  next
    case False
    then have "10 \<le> a" "10 \<le> a div 10" "a div 10 div 10 < 10"
      using a by auto
    then show ?thesis
      by (simp add: itoa_step [of a] itoa_step [of "a div 10"] itoa_small [of "a div 10 div 10"])
  qed
  moreover have "\<not> (1 < length (itoa a) \<and> first_is (CHR ''0'') (itoa a))"
    using itoa_first [of a] by (cases "a = 0") (auto simp: itoa_small)
  ultimately show ?thesis
    using a itoa_digits by (simp add: v4_field_def)
qed

lemma parse_dotted:
  assumes "a \<le> 255" "b \<le> 255" "c \<le> 255" "d \<le> 255"
  shows "ParseIP (stripPort (dotted a b c d)) = Some (mapped_prefix @ [a, b, c, d])"
proof -
  let ?s = "dotted a b c d"
  have last: "last_index w (CHR '':'') = None" if "CHR '':'' \<notin> set w" for w
    using that by (induction w) auto
  have none: "CHR '':'' \<notin> set ?s" "CHR ''%'' \<notin> set ?s"
    using itoa_no_separator by (auto simp: dotted_def)
  then have strip: "stripPort ?s = ?s"
    by (simp add: stripPort_def SplitHostPort_def last)
  have "split_on (CHR ''.'') ?s = [itoa a, itoa b, itoa c, itoa d]"
    using itoa_no_separator by (simp add: dotted_def split_on_cons split_on_single)
  then have v4: "parse_v4 ?s = Some [a, b, c, d]"
    using assms by (simp add: parse_v4_def v4_field_itoa)
  have "find (\<lambda>x. x = CHR ''.'' \<or> x = CHR '':'') ?s = Some (CHR ''.'')"
  proof -
    have dot: "CHR ''.'' \<in> set ?s"
      by (simp add: dotted_def)
    then obtain x where x: "find (\<lambda>x. x = CHR ''.'' \<or> x = CHR '':'') ?s = Some x"
      by (cases "find (\<lambda>x. x = CHR ''.'' \<or> x = CHR '':'') ?s") (auto simp: find_None_iff)
    then show ?thesis
      using none by (auto simp: find_Some_iff dest: nth_mem)
  qed
  then show ?thesis
    using none v4 by (simp add: strip ParseIP_def)
qed

text \<open>
  The proximity proof, on dotted addresses: a client passes exactly when it shares the first three
  bytes with the coordinator's device or has a private, loopback or link-local address of its own.
\<close>

theorem same_lan_dotted:
  assumes "{a, b, c, d, a', b', c', d'} \<subseteq> {0..255}"
  shows "onSameLAN (dotted a b c d) (dotted a' b' c' d') \<longleftrightarrow>
    (a = a' \<and> b = b' \<and> c = c') \<or> a = 10 \<or> (a = 172 \<and> 16 \<le> b \<and> b < 32) \<or> (a = 192 \<and> b = 168) \<or>
    a = 127 \<or> (a = 169 \<and> b = 254)"
proof -
  have p: "ParseIP (stripPort (dotted a b c d)) = Some (mapped_prefix @ [a, b, c, d])"
    "ParseIP (stripPort (dotted a' b' c' d')) = Some (mapped_prefix @ [a', b', c', d'])"
    using assms by (auto intro!: parse_dotted)
  have to4: "To4 (mapped_prefix @ [x, y, z, w]) = Some [x, y, z, w]" for x y z w
    by (simp add: To4_def mapped_prefix_def)
  have "b div 16 = 1 \<longleftrightarrow> 16 \<le> b \<and> b < 32"
    by auto
  then show ?thesis
    by (auto simp: onSameLAN_def p to4 IsPrivate_def IsLoopback_def IsLinkLocalUnicast_def)
qed

theorem same_lan_dotted_witness:
  "onSameLAN (dotted 10 42 0 7) (dotted 10 42 0 1) \<and> \<not> onSameLAN (dotted 41 210 5 9) (dotted 10 42 0 1)"
  using same_lan_dotted [of 10 42 0 7 10 42 0 1] same_lan_dotted [of 41 210 5 9 10 42 0 1] by simp

text \<open>
  A request that carries a forwarding header is judged by the header alone: whatever address
  it was sent from, a header that is not an address, or a private one, passes the proximity proof
  against every coordinator.
\<close>

theorem forwarded_header_decides:
  assumes "x_forwarded_for r = h" and "h \<noteq> []" and "CHR '','' \<notin> set h" and "trim_space h = h"
  shows "ClientIP r = h \<and> (ParseIP (stripPort h) = None \<longrightarrow> onSameLAN (ClientIP r) k)"
proof -
  have "ClientIP r = h"
    using assms by (simp add: ClientIP_def split_on_single)
  then show ?thesis
    by (simp add: onSameLAN_def)
qed

theorem forwarded_header_decides_witness:
  "onSameLAN (ClientIP \<lparr>x_forwarded_for = ''unknown'', remote_addr = ''41.210.5.9:5000''\<rparr>) ''10.42.0.1''"
proof -
  let ?r = "\<lparr>x_forwarded_for = ''unknown'', remote_addr = ''41.210.5.9:5000''\<rparr>"
  have h: "x_forwarded_for ?r = ''unknown''" "''unknown'' \<noteq> []"
    by simp_all
  have f: "CHR '','' \<notin> set ''unknown''" "trim_space ''unknown'' = ''unknown''" "ParseIP (stripPort ''unknown'') = None"
    by code_simp+
  from forwarded_header_decides [OF h f(1,2)] f(3) show ?thesis
    by blast
qed

end
