(* ===== verification/Sessions.thy ===== *)
theory Sessions
  imports Attendance_Table Clock_Policy Proximity Room_Codes
begin

text \<open>
  The online session of the gateway: a coordinator opens it (\<open>sessions.go\<close>), inside the daily window
  the institution has set (\<open>session_window.go\<close>); the lecturer's scan starts and ends the lecture
  (\<open>lecturer_gate.go\<close>, \<open>lecturer_gate_scan.go\<close>); students check in (\<open>student_checkin.go\<close>).

  The state is the tables these handlers share. A connection with the tenant set sees only the
  rows of that tenant (row-level security); the lecturer's scan runs on the administrative
  pool and sees all rows. \<open>gw_env\<close> is one request: its clocks, failing calls, identity and origin.
  The announcement of a changed room is sent after the commit and touches none of these tables.
\<close>

section \<open>State\<close>

record session =
  sess_id :: string
  sess_tenant :: string
  sess_coordinator :: string
  sess_unit :: string
  sess_venue :: "string option"
  sess_lecturer :: "string option"
  sess_date :: string
  sess_gate_open :: "instant option"
  sess_gate_close :: "instant option"
  sess_window_start :: "instant option"
  sess_window_end :: "instant option"
  sess_end_time :: "instant option"
  sess_status :: string
  sess_secret :: "bytes option"
  sess_offering :: "string option"
  sess_planned_start :: "nat option"
  sess_planned_minutes :: "int option"
  sess_coordinator_ip :: "string option"
  sess_provision :: bool
  sess_provision_note :: "string option"
  sess_unscheduled :: bool
  sess_delivery_mode :: "string option"

record gate_log =
  gl_tenant :: string
  gl_session :: string
  gl_lecturer :: string
  gl_open :: instant
  gl_close :: "instant option"
  gl_unit :: string
  gl_venue :: "string option"
  gl_date :: string
  gl_hours :: "int option"
  gl_scanned :: "instant option"
  gl_fingerprint :: "string option"
  gl_ended :: "instant option"
  gl_end_fingerprint :: "string option"

text \<open>The ratio is the double \<open>m * 2 ^ - e\<close> that reading the column gives, as \<open>(m, e)\<close>.\<close>

record tenant_row =
  t_id :: string
  t_checkin_minutes :: "int option"
  t_window_start :: "nat \<times> nat"
  t_window_end :: "nat \<times> nat"
  t_active_days :: "int list"
  t_passcode_hash :: "string option"
  t_ratio :: "nat \<times> nat"

record student_row =
  st_id :: string
  st_tenant :: string
  st_email :: string
  st_enrollment :: string
  st_offering :: "string option"
  st_course :: string

record gw_state =
  g_sessions :: "session table"
  g_gate_logs :: "gate_log table"
  g_attendance :: "attendance_log table"
  g_tenants :: "tenant_row table"
  g_users :: "(string \<times> string \<times> string) list"
  g_students :: "student_row table"
  g_offerings :: "(string \<times> string \<times> string) list"
  g_assignments :: "(string \<times> string \<times> string \<times> int) list"
  g_units :: "(string \<times> string \<times> string) list"
  g_venues :: "string list"
  g_slots :: "(string \<times> string \<times> nat \<times> nat \<times> int) list"
  g_schedules :: "(string \<times> string \<times> nat option \<times> int option) list"
  g_lecturers :: "(string \<times> string option) list"
  g_credentials :: "string list"
  g_verified :: "string \<rightharpoonup> string"

datatype gw_call =
    CallAcquire | CallTenant | CallBegin | CallLock | CallOpenCheck | CallPolicy | CallOffering
  | CallAssignment | CallInsert | CallGateLog | CallCommit | CallSecret | CallClose | CallHours
  | CallCount | CallStudent | CallSession | CallEnrolled | CallStarted | CallDevice | CallDup | CallSeq
  | CallAttendance | CallWindow | CallSaveWindow | CallPasscode | CallSavePasscode | CallScanQuery
  | CallStart | CallEnd | CallRedis | CallRandom

record gw_env =
  clock_now :: instant
  g_now :: instant
  zone :: location
  g_failing :: "gw_call \<Rightarrow> bool"
  ctx_tenant_id :: string
  ctx_user_id :: string
  g_origin :: origin
  db_weekday :: nat
  timestamp_text :: "instant \<Rightarrow> string"

definition ValidTenantID :: "string \<Rightarrow> bool" where
  "ValidTenantID s = uuid_groups [8, 4, 4, 4, 12] s"

text \<open>Acquiring a connection and setting the tenant on it.\<close>

definition connected :: "gw_env \<Rightarrow> bool" where
  "connected env = (\<not> g_failing env CallAcquire \<and> ValidTenantID (ctx_tenant_id env) \<and> \<not> g_failing env CallTenant)"

section \<open>The daily window\<close>

record sessionWindowPayload =
  w_start :: string
  w_end :: string
  w_days :: "int list"

definition default_window :: sessionWindowPayload where
  "default_window = \<lparr>w_start = ''08:00'', w_end = ''17:00'', w_days = [1, 2, 3, 4, 5, 6]\<rparr>"

definition loadSessionWindow :: "gw_env \<Rightarrow> gw_state \<Rightarrow> sessionWindowPayload option" where
  "loadSessionWindow env s =
     (if g_failing env CallWindow then None
      else map_option (\<lambda>t. \<lparr>w_start = format_hhmm (fst (t_window_start t)) (snd (t_window_start t)),
                            w_end = format_hhmm (fst (t_window_end t)) (snd (t_window_end t)),
                            w_days = t_active_days t\<rparr>)
             (select_one (\<lambda>t. t_id t = ctx_tenant_id env) (g_tenants s)))"

definition withinSessionWindow :: "gw_env \<Rightarrow> gw_state \<Rightarrow> bool" where
  "withinSessionWindow env s =
     (case loadSessionWindow env s of
        None \<Rightarrow> True
      | Some w \<Rightarrow>
          let iso = int (ISOWeekday (zone env) (clock_now env)); cur = HHMM (zone env) (clock_now env) in
          if iso \<notin> set (w_days w) then False
          else if cur < w_start w \<or> w_end w \<le> cur then False else True)"

definition GetSessionWindow :: "gw_env \<Rightarrow> gw_state \<Rightarrow> sessionWindowPayload reply" where
  "GetSessionWindow env s =
     (case loadSessionWindow env s of None \<Rightarrow> Reject 404 ''TENANT_NOT_FOUND'' | Some w \<Rightarrow> Reply 200 w)"

text \<open>The days kept of a request: each valid one where it first appears.\<close>

fun normalise_days :: "int list \<Rightarrow> int list \<Rightarrow> int list" where
  "normalise_days seen [] = []"
| "normalise_days seen (d # ds) =
     (if 1 \<le> d \<and> d \<le> 7 \<and> d \<notin> set seen then d # normalise_days (d # seen) ds else normalise_days seen ds)"

definition PutSessionWindow :: "gw_env \<Rightarrow> sessionWindowPayload option \<Rightarrow> gw_state \<Rightarrow> sessionWindowPayload reply \<times> gw_state" where
  "PutSessionWindow env body s =
     (case body of
        None \<Rightarrow> (Reject 400 ''INVALID_REQUEST'', s)
      | Some req \<Rightarrow>
          (case (parse_hm (w_start req), parse_hm (w_end req)) of
             (Some (h, m), Some (h', m')) \<Rightarrow>
               if \<not> h * 60 + m < h' * 60 + m' then (Reject 400 ''INVALID_REQUEST'', s)
               else
                 let days = normalise_days [] (w_days req) in
                 if days = [] then (Reject 400 ''INVALID_REQUEST'', s)
                 else if g_failing env CallSaveWindow \<or> affected (\<lambda>t. t_id t = ctx_tenant_id env) (g_tenants s) = 0
                 then (Reject 500 ''INTERNAL_ERROR'', s)
                 else
                   let s = s\<lparr>g_tenants := update_where (\<lambda>t. t_id t = ctx_tenant_id env)
                          (\<lambda>t. t\<lparr>t_window_start := (h, m), t_window_end := (h', m'), t_active_days := days\<rparr>) (g_tenants s)\<rparr>
                   in (Reply 200 (case loadSessionWindow env s of None \<Rightarrow> default_window | Some w \<Rightarrow> w), s)
           | _ \<Rightarrow> (Reject 400 ''INVALID_REQUEST'', s)))"

section \<open>The passcode of the administration page\<close>

text \<open>bcrypt is a third-party package: its two functions are parameters.\<close>

definition tenant_passcode :: "gw_env \<Rightarrow> gw_state \<Rightarrow> string option" where
  "tenant_passcode env s =
     (if g_failing env CallPasscode then None
      else case select_one (\<lambda>t. t_id t = ctx_tenant_id env) (g_tenants s) of
        None \<Rightarrow> None | Some t \<Rightarrow> t_passcode_hash t)"

definition passcode_set :: "string option \<Rightarrow> bool" where
  "passcode_set h = (h \<noteq> None \<and> h \<noteq> Some [])"

definition GetUsersPasscodeStatus :: "gw_env \<Rightarrow> gw_state \<Rightarrow> bool reply" where
  "GetUsersPasscodeStatus env s = Reply 200 (passcode_set (tenant_passcode env s))"

definition PutUsersPasscode ::
  "(string \<Rightarrow> string \<Rightarrow> bool) \<Rightarrow> (string \<Rightarrow> string option) \<Rightarrow> gw_env \<Rightarrow> (string \<times> string) option \<Rightarrow> gw_state \<Rightarrow> bool reply \<times> gw_state" where
  "PutUsersPasscode compare generate env body s =
     (case body of
        None \<Rightarrow> (Reject 400 ''INVALID_REQUEST'', s)
      | Some (passcode, current) \<Rightarrow>
          if length passcode < 4 \<or> 128 < length passcode then (Reject 400 ''INVALID_REQUEST'', s)
          else
            let existing = tenant_passcode env s in
            if passcode_set existing \<and> \<not> compare (the existing) current then (Reject 403 ''INVALID_PASSCODE'', s)
            else if passcode_set existing \<and> passcode = current then (Reject 400 ''INVALID_REQUEST'', s)
            else case generate passcode of
              None \<Rightarrow> (Reject 500 ''INTERNAL_ERROR'', s)
            | Some h \<Rightarrow>
                if g_failing env CallSavePasscode \<or> affected (\<lambda>t. t_id t = ctx_tenant_id env) (g_tenants s) = 0
                then (Reject 500 ''INTERNAL_ERROR'', s)
                else (Reply 200 True, s\<lparr>g_tenants := update_where (\<lambda>t. t_id t = ctx_tenant_id env)
                        (\<lambda>t. t\<lparr>t_passcode_hash := Some h\<rparr>) (g_tenants s)\<rparr>))"

text \<open>The answer is whether the passcode is right and whether one is set.\<close>

definition VerifyUsersPasscode ::
  "(string \<Rightarrow> string \<Rightarrow> bool) \<Rightarrow> gw_env \<Rightarrow> string option \<Rightarrow> gw_state \<Rightarrow> (bool \<times> bool) reply" where
  "VerifyUsersPasscode compare env body s =
     (case body of
        None \<Rightarrow> Reject 400 ''INVALID_REQUEST''
      | Some passcode \<Rightarrow>
          let h = tenant_passcode env s in
          if \<not> passcode_set h then Reply 200 (True, False) else Reply 200 (compare (the h) passcode, True))"

section \<open>Opening a session\<close>

record openSessionRequest =
  UnitID :: string
  VenueID :: string
  LecturerID :: string
  SessionDate :: string
  RoomIsProvision :: bool
  ProvisionNote :: string
  Unscheduled :: bool

record openSessionResponse =
  o_session :: string
  o_tenant :: string
  o_code :: "string option"
  o_student_code :: "string option"
  o_remaining :: int
  o_window_end :: instant

text \<open>\<open>Time.Truncate\<close> of 24 hours rounds down to a multiple since the zero time, a UTC midnight.\<close>

definition truncate_day :: "instant \<Rightarrow> instant" where
  "truncate_day t = t - t mod (24 * hour)"

definition recent_date :: "location \<Rightarrow> instant \<Rightarrow> string \<Rightarrow> string" where
  "recent_date loc now requested =
     (let today = Today loc now in
      if requested = [] then today
      else case ParseDate loc requested of
        None \<Rightarrow> today
      | Some d \<Rightarrow>
          let days = quot_trunc (time_sub (truncate_day now) (truncate_day d)) (24 * hour) in
          if 0 \<le> days \<and> days \<le> 7 then requested else today)"

definition session_date_for :: "gw_env \<Rightarrow> string \<Rightarrow> string" where
  "session_date_for env requested = recent_date (zone env) (clock_now env) requested"

definition open_status :: "string \<Rightarrow> bool" where
  "open_status st = (st = ''ACTIVE'' \<or> st = ''PENDING_LECTURER'')"

definition find_open :: "gw_env \<Rightarrow> gw_state \<Rightarrow> string option" where
  "find_open env s =
     map_option sess_id (select_one (\<lambda>r. sess_tenant r = ctx_tenant_id env \<and> sess_coordinator r = ctx_user_id env \<and>
       open_status (sess_status r)) (g_sessions s))"

definition checkin_minutes :: "gw_env \<Rightarrow> gw_state \<Rightarrow> int" where
  "checkin_minutes env s =
     (case select_one (\<lambda>t. t_id t = ctx_tenant_id env) (g_tenants s) of
        None \<Rightarrow> 30
      | Some t \<Rightarrow> (case t_checkin_minutes t of None \<Rightarrow> 30 | Some m \<Rightarrow> if m \<le> 0 then 30 else m))"

definition offering_of :: "gw_env \<Rightarrow> gw_state \<Rightarrow> string" where
  "offering_of env s =
     (case find (\<lambda>(_, c, t). c = ctx_user_id env \<and> t = ctx_tenant_id env) (g_offerings s) of
        None \<Rightarrow> [] | Some (o_id, _) \<Rightarrow> o_id)"

definition assigned_lecturer :: "gw_env \<Rightarrow> string \<Rightarrow> gw_state \<Rightarrow> string" where
  "assigned_lecturer env unit s =
     (case sort_key (\<lambda>(_, _, _, created). created)
             (filter (\<lambda>(u, t, _). u = unit \<and> t = ctx_tenant_id env) (g_assignments s)) of
        [] \<Rightarrow> [] | (_, _, l, _) # _ \<Rightarrow> l)"

text \<open>Today's timetable slot of the unit for the cohort, the earliest first.\<close>

definition todays_slot :: "gw_env \<Rightarrow> string \<Rightarrow> string option \<Rightarrow> gw_state \<Rightarrow> (nat \<times> int) option" where
  "todays_slot env unit offering s =
     (case sort_key (\<lambda>(_, _, _, start, _). start)
             (filter (\<lambda>(u, o_id, dow, _). u = unit \<and> Some o_id = offering \<and> dow = db_weekday env) (g_slots s)) of
        [] \<Rightarrow> None | (_, _, _, start, len) # _ \<Rightarrow> Some (start, len))"

definition unit_schedule :: "string \<Rightarrow> string option \<Rightarrow> gw_state \<Rightarrow> nat option \<times> int option" where
  "unit_schedule unit offering s =
     (case find (\<lambda>(u, o_id, _). u = unit \<and> Some o_id = offering) (g_schedules s) of
        None \<Rightarrow> (None, None) | Some (_, _, start, len) \<Rightarrow> (start, len))"

definition new_session :: "gw_env \<Rightarrow> string \<Rightarrow> bytes \<Rightarrow> openSessionRequest \<Rightarrow> string \<Rightarrow> gw_state \<Rightarrow> session" where
  "new_session env fresh secret req lecturer s =
     (let offering = nullif (offering_of env s); slot = todays_slot env (UnitID req) offering s;
          (start, len) = unit_schedule (UnitID req) offering s
      in \<lparr>sess_id = fresh, sess_tenant = ctx_tenant_id env, sess_coordinator = ctx_user_id env, sess_unit = UnitID req,
          sess_venue = nullif (VenueID req), sess_lecturer = nullif lecturer,
          sess_date = session_date_for env (SessionDate req), sess_gate_open = Some (g_now env), sess_gate_close = None,
          sess_window_start = Some (g_now env), sess_window_end = Some (g_now env + checkin_minutes env s * minute),
          sess_end_time = None, sess_status = ''ACTIVE'', sess_secret = Some secret, sess_offering = offering,
          sess_planned_start = (case slot of Some (st, _) \<Rightarrow> Some st | None \<Rightarrow> start),
          sess_planned_minutes = (case slot of Some (_, l) \<Rightarrow> Some l | None \<Rightarrow> len),
          sess_coordinator_ip = nullif (ClientIP (g_origin env)), sess_provision = RoomIsProvision req,
          sess_provision_note = nullif (trim_space (ProvisionNote req)), sess_unscheduled = Unscheduled req,
          sess_delivery_mode = None\<rparr>)"

definition new_gate_log :: "gw_env \<Rightarrow> string \<Rightarrow> openSessionRequest \<Rightarrow> string \<Rightarrow> gate_log" where
  "new_gate_log env fresh req lecturer =
     \<lparr>gl_tenant = ctx_tenant_id env, gl_session = fresh, gl_lecturer = lecturer, gl_open = g_now env, gl_close = None,
      gl_unit = UnitID req, gl_venue = nullif (VenueID req), gl_date = session_date_for env (SessionDate req),
      gl_hours = None, gl_scanned = None, gl_fingerprint = None, gl_ended = None, gl_end_fingerprint = None\<rparr>"

text \<open>
  The transaction of \<open>OpenSession\<close>, under the coordinator's advisory lock. A statement that fails
  aborts it: the statements after it fail too, so an error that is not looked at before the
  insert surfaces as the failing insert, and one after it as the failing commit.
\<close>

definition open_lecturer :: "gw_env \<Rightarrow> openSessionRequest \<Rightarrow> gw_state \<Rightarrow> string" where
  "open_lecturer env req s = (if LecturerID req = [] then assigned_lecturer env (UnitID req) s else LecturerID req)"

definition insert_fails :: "gw_env \<Rightarrow> openSessionRequest \<Rightarrow> gw_state \<Rightarrow> bool" where
  "insert_fails env req s =
     (g_failing env CallOpenCheck \<or> g_failing env CallPolicy \<or> g_failing env CallOffering \<or>
      (LecturerID req = [] \<and> g_failing env CallAssignment) \<or> g_failing env CallInsert \<or>
      \<not> list_ex (\<lambda>(u, t, _). u = UnitID req \<and> t = ctx_tenant_id env) (g_units s) \<or>
      (VenueID req \<noteq> [] \<and> VenueID req \<notin> set (g_venues s)))"

definition commit_fails :: "gw_env \<Rightarrow> openSessionRequest \<Rightarrow> gw_state \<Rightarrow> bool" where
  "commit_fails env req s = ((open_lecturer env req s \<noteq> [] \<and> g_failing env CallGateLog) \<or> g_failing env CallCommit)"

definition opened_reply :: "gw_env \<Rightarrow> string \<Rightarrow> bytes \<Rightarrow> gw_state \<Rightarrow> openSessionResponse" where
  "opened_reply env fresh secret s =
     \<lparr>o_session = fresh, o_tenant = ctx_tenant_id env, o_code = Derive secret (g_now env),
      o_student_code = StaticCode secret, o_remaining = SecondsRemaining (g_now env),
      o_window_end = g_now env + checkin_minutes env s * minute\<rparr>"

definition opened_state :: "gw_env \<Rightarrow> string \<Rightarrow> bytes \<Rightarrow> openSessionRequest \<Rightarrow> gw_state \<Rightarrow> gw_state" where
  "opened_state env fresh secret req s =
     (let lecturer = open_lecturer env req s in
      s\<lparr>g_sessions := g_sessions s @ [new_session env fresh secret req lecturer s],
        g_gate_logs := g_gate_logs s @ (if lecturer = [] then [] else [new_gate_log env fresh req lecturer])\<rparr>)"

definition open_tx :: "gw_env \<Rightarrow> string \<Rightarrow> bytes \<Rightarrow> openSessionRequest \<Rightarrow> gw_state \<Rightarrow> openSessionResponse reply \<times> gw_state" where
  "open_tx env fresh secret req s =
     (case (if g_failing env CallOpenCheck then None else find_open env s) of
        Some openID \<Rightarrow> (Reject 409 ''SESSION_ALREADY_OPEN'', s)
      | None \<Rightarrow>
          if insert_fails env req s then (Reject 400 ''OPEN_FAILED'', s)
          else if commit_fails env req s then (Reject 500 ''INTERNAL_ERROR'', s)
          else (Reply 201 (opened_reply env fresh secret s), opened_state env fresh secret req s))"

definition OpenSession ::
  "gw_env \<Rightarrow> string \<Rightarrow> bytes \<Rightarrow> openSessionRequest option \<Rightarrow> gw_state \<Rightarrow> openSessionResponse reply \<times> gw_state" where
  "OpenSession env fresh secret body s =
     (case body of
        None \<Rightarrow> (Reject 400 ''INVALID_REQUEST'', s)
      | Some req \<Rightarrow>
          if UnitID req = [] then (Reject 400 ''INVALID_REQUEST'', s)
          else if \<not> withinSessionWindow env s then (Reject 409 ''WINDOW_CLOSED'', s)
          else if g_failing env CallRandom \<or> \<not> connected env \<or> g_failing env CallBegin \<or> g_failing env CallLock
          then (Reject 500 ''INTERNAL_ERROR'', s)
          else open_tx env fresh secret req s)"

section \<open>Showing the code and closing\<close>

definition session_count :: "string \<Rightarrow> string \<Rightarrow> gw_state \<Rightarrow> nat" where
  "session_count tenant sid s = length (filter (\<lambda>a. tenant_id a = tenant \<and> session_id a = sid) (g_attendance s))"

definition loadSessionSecret :: "gw_env \<Rightarrow> string \<Rightarrow> gw_state \<Rightarrow> (bytes \<times> string \<times> nat) option" where
  "loadSessionSecret env sid s =
     (if \<not> connected env \<or> g_failing env CallSecret then None
      else case select_one (\<lambda>r. sess_tenant r = ctx_tenant_id env \<and> sess_id r = sid \<and>
                  sess_coordinator r = ctx_user_id env \<and> sess_secret r \<noteq> None) (g_sessions s) of
        None \<Rightarrow> None
      | Some r \<Rightarrow> Some (the (sess_secret r), sess_status r, session_count (ctx_tenant_id env) sid s))"

definition CheckinCode :: "gw_env \<Rightarrow> string \<Rightarrow> gw_state \<Rightarrow> (string option \<times> string option \<times> int \<times> string \<times> nat) reply" where
  "CheckinCode env sid s =
     (if \<not> ValidTenantID sid then Reject 400 ''INVALID_SESSION_ID''
      else case loadSessionSecret env sid s of
        None \<Rightarrow> Reject 404 ''SESSION_NOT_FOUND''
      | Some (secret, status, count) \<Rightarrow>
          Reply 200 (Derive secret (g_now env), StaticCode secret, SecondsRemaining (g_now env), status, count))"

text \<open>The column \<open>contact_hours\<close> is \<^verbatim>\<open>DECIMAL(4,2)\<close>: from 100 hours on the update fails.\<close>

definition hours_fit :: "int \<Rightarrow> bool" where
  "hours_fit h = (\<bar>h\<bar> \<le> 9999)"

definition close_row :: "gw_env \<Rightarrow> session \<Rightarrow> session" where
  "close_row env r = r\<lparr>sess_status := ''CLOSED'', sess_gate_close := Some (g_now env), sess_end_time := Some (g_now env)\<rparr>"

definition close_hours :: "gw_env \<Rightarrow> gate_log \<Rightarrow> gate_log" where
  "close_hours env l = l\<lparr>gl_close := Some (g_now env), gl_hours := Some (round_hundredth_hours (g_now env - gl_open l))\<rparr>"

definition closable :: "gw_env \<Rightarrow> string \<Rightarrow> session \<Rightarrow> bool" where
  "closable env sid r = (sess_tenant r = ctx_tenant_id env \<and> sess_id r = sid \<and> sess_coordinator r = ctx_user_id env \<and>
     open_status (sess_status r))"

definition record_hours :: "gw_env \<Rightarrow> string \<Rightarrow> gw_state \<Rightarrow> gw_state" where
  "record_hours env sid s =
     (let mine = (\<lambda>l. gl_session l = sid \<and> gl_tenant l = ctx_tenant_id env) in
      if g_failing env CallHours \<or>
         \<not> list_all (\<lambda>l. mine l \<longrightarrow> hours_fit (round_hundredth_hours (g_now env - gl_open l))) (g_gate_logs s)
      then s else s\<lparr>g_gate_logs := update_where mine (close_hours env) (g_gate_logs s)\<rparr>)"

definition CloseSession :: "gw_env \<Rightarrow> string \<Rightarrow> gw_state \<Rightarrow> (string \<times> nat) reply \<times> gw_state" where
  "CloseSession env sid s =
     (if \<not> connected env then (Reject 500 ''INTERNAL_ERROR'', s)
      else if g_failing env CallClose \<or> affected (closable env sid) (g_sessions s) = 0
      then (Reject 404 ''NOT_FOUND'', s)
      else
        let s = s\<lparr>g_sessions := update_where (closable env sid) (close_row env) (g_sessions s)\<rparr>;
            s = record_hours env sid s
        in (Reply 200 (sid, if g_failing env CallCount then 0 else session_count (ctx_tenant_id env) sid s), s))"

section \<open>Student check-in\<close>

record studentCheckinRequest =
  c_session :: string
  c_room_code :: string
  c_fingerprint :: string

definition find_student :: "gw_env \<Rightarrow> gw_state \<Rightarrow> (string \<times> string) option" where
  "find_student env s =
     (case find (\<lambda>(u, t, _). u = ctx_user_id env \<and> t = ctx_tenant_id env) (g_users s) of
        None \<Rightarrow> None
      | Some (_, _, email) \<Rightarrow>
          map_option (\<lambda>st. (st_id st, st_enrollment st))
            (select_one (\<lambda>st. st_tenant st = ctx_tenant_id env \<and> st_email st = email) (g_students s)))"

definition visible_session :: "gw_env \<Rightarrow> string \<Rightarrow> gw_state \<Rightarrow> session option" where
  "visible_session env sid s =
     (if g_failing env CallSession then None
      else select_one (\<lambda>r. sess_tenant r = ctx_tenant_id env \<and> sess_id r = sid) (g_sessions s))"

text \<open>
  The two proofs of presence, or for an online class the rotating code and the cohort; the result is
  the refusal. A panic inside the code functions is excluded by their totality.
\<close>

definition presence_proof :: "gw_env \<Rightarrow> studentCheckinRequest \<Rightarrow> string \<Rightarrow> session \<Rightarrow> gw_state \<Rightarrow> (nat \<times> string) option" where
  "presence_proof env req student r s =
     (let secret = (case sess_secret r of None \<Rightarrow> [] | Some k \<Rightarrow> k) in
      if sess_delivery_mode r = Some ''ONLINE'' then
        (if Validate secret (trim_space (c_room_code req)) (g_now env) \<noteq> Some True then Some (422, ''CODE_NOT_CURRENT'')
         else case sess_offering r of
           None \<Rightarrow> None
         | Some offering \<Rightarrow>
             if \<not> g_failing env CallEnrolled \<and>
                list_ex (\<lambda>st. st_tenant st = ctx_tenant_id env \<and> st_id st = student \<and> st_offering st = Some offering) (g_students s)
             then None else Some (403, ''NOT_IN_THIS_COHORT''))
      else if ValidateStatic secret (c_room_code req) \<noteq> Some True then Some (422, ''PROXIMITY_FAILED'')
      else
        let ip = (case sess_coordinator_ip r of None \<Rightarrow> [] | Some k \<Rightarrow> k) in
        if ip = [] \<or> \<not> onSameLAN (ClientIP (g_origin env)) ip then Some (422, ''NOT_SAME_NETWORK'') else None)"

definition lecturer_started :: "gw_env \<Rightarrow> string \<Rightarrow> gw_state \<Rightarrow> bool" where
  "lecturer_started env sid s =
     (\<not> g_failing env CallStarted \<and>
      list_ex (\<lambda>l. gl_tenant l = ctx_tenant_id env \<and> gl_session l = sid \<and> gl_scanned l \<noteq> None) (g_gate_logs s))"

definition device_user :: "gw_env \<Rightarrow> string \<Rightarrow> string \<Rightarrow> gw_state \<Rightarrow> string" where
  "device_user env sid fp s =
     (if g_failing env CallDevice then []
      else case select_one (\<lambda>a. tenant_id a = ctx_tenant_id env \<and> session_id a = sid \<and> device_fingerprint_hash a = Some fp)
                  (g_attendance s) of
        None \<Rightarrow> [] | Some a \<Rightarrow> student_id a)"

definition next_sequence :: "string \<Rightarrow> string \<Rightarrow> gw_state \<Rightarrow> int" where
  "next_sequence tenant sid s =
     (let seqs = map sequence_number (filter (\<lambda>a. tenant_id a = tenant \<and> session_id a = sid) (g_attendance s)) in
      (case seqs of [] \<Rightarrow> 0 | n # ns \<Rightarrow> foldl max n ns) + 1)"

definition checkin_row :: "gw_env \<Rightarrow> string \<Rightarrow> studentCheckinRequest \<Rightarrow> string \<Rightarrow> session \<Rightarrow> gw_state \<Rightarrow> attendance_log" where
  "checkin_row env fresh req student r s =
     \<lparr>log_id = fresh, tenant_id = ctx_tenant_id env, session_id = c_session req, student_id = student,
      checkin_timestamp = timestamp_text env (g_now env), device_fingerprint_hash = Some (trim_space (c_fingerprint req)),
      sequence_number = next_sequence (ctx_tenant_id env) (c_session req) s, entry_method = ''AUTHENTICATED'',
      coordinator_id = Some (sess_coordinator r)\<rparr>"

text \<open>The last part of \<open>StudentCheckin\<close>: any failure of the insert is answered as success.\<close>

definition record_attendance ::
  "gw_env \<Rightarrow> string \<Rightarrow> studentCheckinRequest \<Rightarrow> string \<Rightarrow> session \<Rightarrow> gw_state \<Rightarrow> unit reply \<times> gw_state" where
  "record_attendance env fresh req student r s =
     (if g_failing env CallDup then (Reject 500 ''INTERNAL_ERROR'', s)
      else if list_ex (\<lambda>a. tenant_id a = ctx_tenant_id env \<and> session_id a = c_session req \<and> student_id a = student) (g_attendance s)
      then (Reply 200 (), s)
      else if g_failing env CallSeq then (Reject 500 ''INTERNAL_ERROR'', s)
      else case (if g_failing env CallAttendance then Violation
                 else insert_log False (checkin_row env fresh req student r s) (g_attendance s)) of
        Inserted rows \<Rightarrow> (Reply 200 (), s\<lparr>g_attendance := rows\<rparr>)
      | _ \<Rightarrow> (Reply 200 (), s))"

definition StudentCheckin ::
  "gw_env \<Rightarrow> string \<Rightarrow> studentCheckinRequest option \<Rightarrow> gw_state \<Rightarrow> unit reply \<times> gw_state" where
  "StudentCheckin env fresh body s =
     (case body of
        None \<Rightarrow> (Reject 400 ''INVALID_REQUEST'', s)
      | Some req \<Rightarrow>
          if c_session req = [] \<or> c_room_code req = [] then (Reject 400 ''INVALID_REQUEST'', s)
          else if \<not> connected env \<or> g_failing env CallStudent then (Reject 500 ''INTERNAL_ERROR'', s)
          else case find_student env s of
            None \<Rightarrow> (Reject 403 ''NOT_ON_ROSTER'', s)
          | Some (student, enrollment) \<Rightarrow>
              if enrollment \<noteq> ''ACTIVE'' then (Reject 403 ''NOT_ON_ROSTER'', s)
              else case visible_session env (c_session req) s of
                None \<Rightarrow> (Reject 422 ''SESSION_NOT_ACTIVE'', s)
              | Some r \<Rightarrow>
                  if sess_secret r = None \<or> sess_secret r = Some [] \<or> sess_status r \<noteq> ''ACTIVE'' then (Reject 422 ''SESSION_NOT_ACTIVE'', s)
                  else if (case sess_window_start r of None \<Rightarrow> False | Some t \<Rightarrow> g_now env < t) \<or>
                          (case sess_window_end r of None \<Rightarrow> False | Some t \<Rightarrow> t < g_now env)
                  then (Reject 422 ''GATE_NOT_OPEN'', s)
                  else case presence_proof env req student r s of
                    Some (n, reason) \<Rightarrow> (Reject n reason, s)
                  | None \<Rightarrow>
                      if \<not> lecturer_started env (c_session req) s then (Reject 422 ''LECTURER_NOT_STARTED'', s)
                      else
                        let fp = trim_space (c_fingerprint req); used = device_user env (c_session req) fp s in
                        if fp \<noteq> [] \<and> used \<noteq> [] \<and> used \<noteq> student then (Reject 422 ''DEVICE_ALREADY_USED'', s)
                        else record_attendance env fresh req student r s)"

section \<open>The lecturer's gate\<close>

text \<open>
  \<open>float64\<close> arithmetic, as far as the quorum needs it: the product of the ratio and an integer,
  rounded to 53 bits, ties to even, and \<open>math.Ceil\<close> of it.
\<close>

fun bit_length :: "nat \<Rightarrow> nat" where
  "bit_length n = (if n = 0 then 0 else Suc (bit_length (n div 2)))"

declare bit_length.simps [simp del]

definition round_even :: "nat \<Rightarrow> nat \<Rightarrow> nat" where
  "round_even n k =
     (let q = n div 2 ^ k; r = n mod 2 ^ k in
      if 2 * r < 2 ^ k \<or> (2 * r = 2 ^ k \<and> even q) then q else q + 1)"

definition float_product :: "nat \<Rightarrow> nat \<Rightarrow> nat" where
  "float_product m n = (let p = m * n; k = bit_length p - 53 in round_even p k * 2 ^ k)"

definition ceil_quotient :: "nat \<Rightarrow> nat \<Rightarrow> nat" where
  "ceil_quotient n k = (n + 2 ^ k - 1) div 2 ^ k"

definition required_students :: "nat \<times> nat \<Rightarrow> nat \<Rightarrow> nat" where
  "required_students ratio enrolled =
     max 1 (ceil_quotient (float_product (fst ratio) enrolled) (snd ratio))"

definition enrolled_count :: "session \<Rightarrow> gw_state \<Rightarrow> nat" where
  "enrolled_count r s =
     length (filter (\<lambda>st. st_enrollment st = ''ACTIVE'' \<and>
       (case sess_offering r of
          Some o_id \<Rightarrow> st_offering st = Some o_id
        | None \<Rightarrow> (case find (\<lambda>(u, _, _). u = sess_unit r) (g_units s) of
                    None \<Rightarrow> False | Some (_, _, course) \<Rightarrow> st_course st = course))) (g_students s))"

record scan_facts =
  f_session :: session
  f_lecturer :: string
  f_staff :: "string option"
  f_scanned :: "instant option"
  f_ended :: "instant option"
  f_attended :: nat
  f_enrolled :: nat
  f_ratio :: "nat \<times> nat"
  f_credentials :: nat

text \<open>The query of the scan, on the administrative pool; the join with \<open>tenants\<close> has no condition.\<close>

definition scan_query :: "gw_env \<Rightarrow> string \<Rightarrow> gw_state \<Rightarrow> scan_facts option" where
  "scan_query env sid s =
     (if g_failing env CallScanQuery then None
      else case select_one (\<lambda>r. sess_id r = sid) (g_sessions s) of
        None \<Rightarrow> None
      | Some r \<Rightarrow>
          (case (find (\<lambda>(l, _). Some l = sess_lecturer r) (g_lecturers s), g_tenants s) of
             (Some (l, staff), t # _) \<Rightarrow>
               let lal = select_one (\<lambda>g. gl_session g = sid) (g_gate_logs s) in
               Some \<lparr>f_session = r, f_lecturer = l, f_staff = staff,
                     f_scanned = (case lal of None \<Rightarrow> None | Some g \<Rightarrow> gl_scanned g),
                     f_ended = (case lal of None \<Rightarrow> None | Some g \<Rightarrow> gl_ended g),
                     f_attended = length (filter (\<lambda>a. session_id a = sid) (g_attendance s)),
                     f_enrolled = enrolled_count r s, f_ratio = t_ratio t,
                     f_credentials = length (filter (\<lambda>c. c = l) (g_credentials s))\<rparr>
           | _ \<Rightarrow> None))"

record lecturerScanRequest =
  l_session :: string
  l_staff :: string
  l_code :: string
  l_fingerprint :: string

definition start_log :: "gw_env \<Rightarrow> string \<Rightarrow> gate_log \<Rightarrow> gate_log" where
  "start_log env fp l = l\<lparr>gl_scanned := Some (g_now env), gl_fingerprint := Some fp\<rparr>"

definition scan_hours :: "gw_env \<Rightarrow> gate_log \<Rightarrow> int option" where
  "scan_hours env l = map_option (\<lambda>t. round_hundredth_hours (g_now env - t)) (gl_scanned l)"

definition end_log :: "gw_env \<Rightarrow> string \<Rightarrow> gate_log \<Rightarrow> gate_log" where
  "end_log env fp l = l\<lparr>gl_ended := Some (g_now env), gl_end_fingerprint := Some fp, gl_hours := scan_hours env l\<rparr>"

definition scan_start :: "gw_env \<Rightarrow> lecturerScanRequest \<Rightarrow> session \<Rightarrow> gw_state \<Rightarrow> string reply \<times> gw_state" where
  "scan_start env req r s =
     (let mine = (\<lambda>l. gl_session l = l_session req \<and> gl_tenant l = sess_tenant r \<and> gl_scanned l = None) in
      if sess_status r \<noteq> ''ACTIVE'' then (Reject 422 ''session_not_active'', s)
      else if g_failing env CallStart \<or> affected mine (g_gate_logs s) = 0 then (Reject 422 ''no_lecturer'', s)
      else (Reply 200 ''STARTED'', s\<lparr>g_gate_logs := update_where mine (start_log env (l_fingerprint req)) (g_gate_logs s)\<rparr>))"

definition scan_end :: "gw_env \<Rightarrow> lecturerScanRequest \<Rightarrow> scan_facts \<Rightarrow> gw_state \<Rightarrow> string reply \<times> gw_state" where
  "scan_end env req f s =
     (let mine = (\<lambda>l. gl_session l = l_session req \<and> gl_tenant l = sess_tenant (f_session f) \<and> gl_ended l = None) in
      if f_attended f < required_students (f_ratio f) (f_enrolled f) then (Reject 422 ''no_quorum'', s)
      else if g_failing env CallEnd \<or>
              \<not> list_all (\<lambda>l. mine l \<longrightarrow> (case scan_hours env l of None \<Rightarrow> True | Some h \<Rightarrow> hours_fit h)) (g_gate_logs s)
      then (Reject 500 ''INTERNAL_ERROR'', s)
      else (Reply 200 ''ENDED'', s\<lparr>g_gate_logs := update_where mine (end_log env (l_fingerprint req)) (g_gate_logs s)\<rparr>))"

text \<open>The fingerprint check: a credential demands a verification in Redis, which is used up.\<close>

definition biometric_gate :: "gw_env \<Rightarrow> string \<Rightarrow> scan_facts \<Rightarrow> gw_state \<Rightarrow> bool \<times> gw_state" where
  "biometric_gate env sid f s =
     (if f_credentials f = 0 then (True, s)
      else if g_failing env CallRedis \<or> g_verified s sid \<noteq> Some (f_lecturer f) then (False, s)
      else (True, s\<lparr>g_verified := (g_verified s)(sid := None)\<rparr>))"

text \<open>The gates of the scan in order: staff id, live code, network.\<close>

definition scan_refusal :: "gw_env \<Rightarrow> lecturerScanRequest \<Rightarrow> scan_facts \<Rightarrow> string option" where
  "scan_refusal env req f =
     (let r = f_session f; secret = (case sess_secret r of None \<Rightarrow> [] | Some k \<Rightarrow> k);
          ip = (case sess_coordinator_ip r of None \<Rightarrow> [] | Some k \<Rightarrow> k) in
      if f_staff f = None \<or> f_staff f = Some [] then Some ''no_staff_id''
      else if \<not> equal_fold (trim_space (l_staff req)) (trim_space (the (f_staff f))) then Some ''staff_id_mismatch''
      else if Validate secret (trim_space (l_code req)) (g_now env) \<noteq> Some True then Some ''wrong_code''
      else if ip = [] \<or> \<not> onSameLAN (ClientIP (g_origin env)) ip then Some ''not_same_network''
      else None)"

definition LecturerGateScan :: "gw_env \<Rightarrow> lecturerScanRequest option \<Rightarrow> gw_state \<Rightarrow> string reply \<times> gw_state" where
  "LecturerGateScan env body s =
     (case body of
        None \<Rightarrow> (Reject 400 ''INVALID_REQUEST'', s)
      | Some req \<Rightarrow>
          if l_session req = [] \<or> l_fingerprint req = [] \<or> l_staff req = [] \<or> l_code req = [] then (Reject 400 ''INVALID_REQUEST'', s)
          else if \<not> ValidTenantID (l_session req) then (Reject 400 ''INVALID_SESSION_ID'', s)
          else case scan_query env (l_session req) s of
            None \<Rightarrow> (Reject 422 ''no_staff_id'', s)
          | Some f \<Rightarrow>
              (case scan_refusal env req f of
                 Some e \<Rightarrow> (Reject 422 e, s)
               | None \<Rightarrow>
                   (case biometric_gate env (l_session req) f s of
                      (False, s) \<Rightarrow> (Reject 422 ''biometric_required'', s)
                    | (True, s) \<Rightarrow>
                        if f_scanned f = None then scan_start env req (f_session f) s
                        else if f_ended f = None then scan_end env req f s
                        else (Reply 200 ''ALREADY_COMPLETE'', s))))"

record base_request =
  b_host :: string
  b_forwarded_host :: string
  b_forwarded_proto :: string
  b_tls :: bool

definition requestBaseURL :: "base_request \<Rightarrow> string" where
  "requestBaseURL r =
     (let host = (if b_forwarded_host r \<noteq> [] then hd (split_on (CHR '','') (b_forwarded_host r)) else b_host r);
          scheme = (if b_forwarded_proto r \<noteq> [] then b_forwarded_proto r else if \<not> b_tls r then ''http'' else ''https'')
      in scheme @ ''://'' @ trim_space host)"

text \<open>\<open>strings.TrimRight(s, "/")\<close> of the override in the environment.\<close>

definition buildLecturerCheckinURL :: "string \<Rightarrow> base_request \<Rightarrow> string \<Rightarrow> string" where
  "buildLecturerCheckinURL override r sid =
     (let ov = rev (dropWhile (\<lambda>c. c = CHR ''/'') (rev override)); base = (if ov \<noteq> [] then ov else requestBaseURL r) in
      base @ ''/lecturer/checkin?s='' @ sid)"

definition LecturerGateQR :: "gw_env \<Rightarrow> string \<Rightarrow> base_request \<Rightarrow> string \<Rightarrow> gw_state \<Rightarrow> (string \<times> string) reply" where
  "LecturerGateQR env override r sid s =
     (if \<not> ValidTenantID sid then Reject 400 ''INVALID_SESSION_ID''
      else if \<not> connected env then Reject 500 ''INTERNAL_ERROR''
      else if g_failing env CallSession \<or>
              \<not> list_ex (\<lambda>x. sess_id x = sid \<and> sess_coordinator x = ctx_user_id env \<and> sess_tenant x = ctx_tenant_id env \<and>
                  sess_status x = ''ACTIVE'') (g_sessions s)
      then Reject 404 ''SESSION_NOT_FOUND''
      else Reply 200 (sid, buildLecturerCheckinURL override r sid))"

end
