(* ===== verification/Session_Props.thy ===== *)
theory Session_Props
  imports Sessions
begin

text \<open>
  What holds of the online session: an invariant of the shared tables over every sequence of requests,
  the single slot each coordinator has for an open session as an abstract machine that the tables
  refine, what a recorded attendance proves, and the arithmetic of the date, the window and the quorum.
\<close>

section \<open>The invariant\<close>

definition open_of :: "string \<Rightarrow> string \<Rightarrow> session \<Rightarrow> bool" where
  "open_of t c r = (sess_tenant r = t \<and> sess_coordinator r = c \<and> open_status (sess_status r))"

definition sessions_ok :: "session table \<Rightarrow> bool" where
  "sessions_ok rs = (distinct (map sess_id rs) \<and> (\<forall>t c. length (filter (open_of t c) rs) \<le> 1))"

definition logs_ok :: "session table \<Rightarrow> gate_log table \<Rightarrow> bool" where
  "logs_ok rs ls = (distinct (map gl_session ls) \<and>
     (\<forall>l \<in> set ls. (gl_session l, gl_tenant l) \<in> set (map (\<lambda>r. (sess_id r, sess_tenant r)) rs)) \<and>
     (\<forall>l \<in> set ls. gl_ended l \<noteq> None \<longrightarrow> gl_scanned l \<noteq> None))"

definition started :: "gate_log table \<Rightarrow> string \<Rightarrow> string \<Rightarrow> bool" where
  "started ls t sid = (\<exists>l \<in> set ls. gl_tenant l = t \<and> gl_session l = sid \<and> gl_scanned l \<noteq> None)"

definition attendance_ok :: "gate_log table \<Rightarrow> attendance_log table \<Rightarrow> bool" where
  "attendance_ok ls as = (indexes_hold as \<and>
     (\<forall>a \<in> set as. entry_method a = ''AUTHENTICATED'' \<longrightarrow> started ls (tenant_id a) (session_id a)))"

definition gw_ok :: "gw_state \<Rightarrow> bool" where
  "gw_ok s = (sessions_ok (g_sessions s) \<and> logs_ok (g_sessions s) (g_gate_logs s) \<and>
     attendance_ok (g_gate_logs s) (g_attendance s))"

text \<open>One request, of any of the handlers of \<open>Sessions\<close>, with any outcome of its calls.\<close>

inductive gw_step :: "gw_state \<Rightarrow> gw_state \<Rightarrow> bool" where
  open_session: "fresh \<notin> sess_id ` set (g_sessions s) \<Longrightarrow> gw_step s (snd (OpenSession env fresh secret body s))"
| close_session: "gw_step s (snd (CloseSession env sid s))"
| student_checkin: "gw_step s (snd (StudentCheckin env fresh req s))"
| lecturer_scan: "gw_step s (snd (LecturerGateScan env scan s))"
| session_window: "gw_step s (snd (PutSessionWindow env window s))"
| users_passcode: "gw_step s (snd (PutUsersPasscode compare generate env pass s))"

section \<open>Tables under updates\<close>

lemma filter_update_le:
  "(\<And>r. p r \<Longrightarrow> q (f r) \<Longrightarrow> q r) \<Longrightarrow> length (filter q (update_where p f rows)) \<le> length (filter q rows)"
  by (induction rows) (auto intro: le_SucI)

lemma map_update_where: "(\<And>r. k (f r) = k r) \<Longrightarrow> map k (update_where p f rows) = map k rows"
  by (induction rows) auto

text \<open>An update of a gate log that keeps its session and tenant and never takes a scan back.\<close>

definition log_update :: "(gate_log \<Rightarrow> gate_log) \<Rightarrow> bool" where
  "log_update f = (\<forall>l. gl_session (f l) = gl_session l \<and> gl_tenant (f l) = gl_tenant l \<and>
     (gl_scanned l \<noteq> None \<longrightarrow> gl_scanned (f l) \<noteq> None))"

lemma log_updates: "log_update (close_hours env)" "log_update (start_log env fp)" "log_update (end_log env fp)"
  by (simp_all add: log_update_def close_hours_def start_log_def end_log_def)

lemma started_update: "log_update f \<Longrightarrow> started ls t sid \<Longrightarrow> started (update_where p f ls) t sid"
proof -
  assume f: "log_update f" and "started ls t sid"
  then obtain l where l: "l \<in> set ls" "gl_tenant l = t" "gl_session l = sid" "gl_scanned l \<noteq> None"
    by (auto simp: started_def)
  let ?l = "if p l then f l else l"
  have "?l \<in> set (update_where p f ls)"
    using l(1) by (auto simp: update_where_def)
  moreover have "gl_tenant ?l = t \<and> gl_session ?l = sid \<and> gl_scanned ?l \<noteq> None"
    using f l by (simp add: log_update_def)
  ultimately show ?thesis
    unfolding started_def by blast
qed

lemma attendance_update: "log_update f \<Longrightarrow> attendance_ok ls as \<Longrightarrow> attendance_ok (update_where p f ls) as"
  using started_update by (auto simp: attendance_ok_def)

lemma logs_update:
  assumes "log_update f" and "logs_ok rs ls" and "\<And>l. l \<in> set ls \<Longrightarrow> p l \<Longrightarrow> gl_ended (f l) \<noteq> None \<Longrightarrow> gl_scanned (f l) \<noteq> None"
  shows "logs_ok rs (update_where p f ls)"
proof -
  have "map gl_session (update_where p f ls) = map gl_session ls"
    using assms(1) by (intro map_update_where) (simp add: log_update_def)
  then show ?thesis
    using assms by (auto simp: logs_ok_def in_update_where log_update_def split: if_splits)
qed

section \<open>Every request keeps it\<close>

lemma find_open_none: "find_open env s = None \<longleftrightarrow> filter (open_of (ctx_tenant_id env) (ctx_user_id env)) (g_sessions s) = []"
  by (auto simp: find_open_def select_one_None filter_empty_conv open_of_def)

lemma open_tx_cases:
  obtains (same) "snd (open_tx env fresh secret req s) = s" "\<not> accepted (fst (open_tx env fresh secret req s))"
  | (opened) "find_open env s = None"
      "open_tx env fresh secret req s = (Reply 201 (opened_reply env fresh secret s), opened_state env fresh secret req s)"
proof (cases "insert_fails env req s \<or> commit_fails env req s \<or> find_open env s \<noteq> None")
  case True
  then show thesis
    by (intro same) (auto simp: open_tx_def insert_fails_def split: option.split)
next
  case False
  then show thesis
    by (intro opened) (auto simp: open_tx_def insert_fails_def)
qed

lemma new_session_fields:
  "sess_id (new_session env fresh secret req l s) = fresh" "sess_tenant (new_session env fresh secret req l s) = ctx_tenant_id env"
  "sess_coordinator (new_session env fresh secret req l s) = ctx_user_id env" "sess_status (new_session env fresh secret req l s) = ''ACTIVE''"
  by (simp_all add: new_session_def Let_def split: prod.split)

lemma open_tx_ok:
  assumes "gw_ok s" and "fresh \<notin> sess_id ` set (g_sessions s)"
  shows "gw_ok (snd (open_tx env fresh secret req s))"
proof (cases rule: open_tx_cases [of env fresh secret req s])
  case opened
  define lecturer where "lecturer = open_lecturer env req s"
  let ?r = "new_session env fresh secret req lecturer s"
  let ?l = "if lecturer = [] then [] else [new_gate_log env fresh req lecturer]"
  have "length (filter (open_of t c) (g_sessions s @ [?r])) \<le> 1" for t c
    using opened(1) assms(1)
    by (auto simp: find_open_none open_of_def new_session_fields open_status_def gw_ok_def sessions_ok_def)
  then have 1: "sessions_ok (g_sessions s @ [?r])"
    using assms by (auto simp: sessions_ok_def gw_ok_def new_session_fields)
  have 2: "logs_ok (g_sessions s @ [?r]) (g_gate_logs s @ ?l)"
    using assms by (auto simp: logs_ok_def gw_ok_def new_gate_log_def new_session_fields)
  have 3: "attendance_ok (g_gate_logs s @ ?l) (g_attendance s)"
    using assms(1) by (auto simp: attendance_ok_def gw_ok_def started_def)
  show ?thesis
    unfolding opened(2) using 1 2 3 by (simp add: gw_ok_def opened_state_def Let_def flip: lecturer_def)
qed (use assms in simp)

lemma OpenSession_state:
  "snd (OpenSession env fresh secret body s) = s \<or>
   (\<exists>req. body = Some req \<and> OpenSession env fresh secret body s = open_tx env fresh secret req s)"
  by (auto simp: OpenSession_def split: option.split)

lemma CloseSession_ok: "gw_ok s \<Longrightarrow> gw_ok (snd (CloseSession env sid s))"
proof -
  assume ok: "gw_ok s"
  let ?s = "s\<lparr>g_sessions := update_where (closable env sid) (close_row env) (g_sessions s)\<rparr>"
  have ids: "map sess_id (g_sessions ?s) = map sess_id (g_sessions s)"
    "map (\<lambda>r. (sess_id r, sess_tenant r)) (g_sessions ?s) = map (\<lambda>r. (sess_id r, sess_tenant r)) (g_sessions s)"
    by (simp_all add: map_update_where close_row_def)
  have "length (filter (open_of t c) (g_sessions ?s)) \<le> 1" for t c
  proof -
    have "length (filter (open_of t c) (g_sessions ?s)) \<le> length (filter (open_of t c) (g_sessions s))"
      by (simp, rule filter_update_le) (simp add: open_of_def close_row_def open_status_def)
    also have "\<dots> \<le> 1"
      using ok by (simp add: gw_ok_def sessions_ok_def)
    finally show ?thesis .
  qed
  then have sess: "sessions_ok (g_sessions ?s)"
    using ok unfolding sessions_ok_def ids by (simp add: gw_ok_def sessions_ok_def)
  have "gw_ok (record_hours env sid ?s)"
  proof -
    have "logs_ok (g_sessions ?s) (g_gate_logs s)"
      using ok by (simp add: gw_ok_def logs_ok_def flip: ids(2))
    then have "logs_ok (g_sessions ?s) (update_where p (close_hours env) (g_gate_logs s))" for p
      by (rule logs_update [OF log_updates(1)]) (use ok in \<open>auto simp: close_hours_def gw_ok_def logs_ok_def\<close>)
    then show ?thesis
      using ok sess \<open>logs_ok (g_sessions ?s) (g_gate_logs s)\<close> attendance_update [OF log_updates(1)]
      by (simp add: record_hours_def gw_ok_def Let_def)
  qed
  then show ?thesis
    using ok by (simp add: CloseSession_def Let_def)
qed

lemma StudentCheckin_reaches:
  assumes "snd (StudentCheckin env fresh body s) \<noteq> s \<or> accepted (fst (StudentCheckin env fresh body s))"
  shows "\<exists>req student r. body = Some req \<and> connected env \<and> find_student env s = Some (student, ''ACTIVE'') \<and>
      visible_session env (c_session req) s = Some r \<and> sess_secret r \<noteq> None \<and> sess_status r = ''ACTIVE'' \<and>
      \<not> (case sess_window_start r of None \<Rightarrow> False | Some t \<Rightarrow> g_now env < t) \<and>
      \<not> (case sess_window_end r of None \<Rightarrow> False | Some t \<Rightarrow> t < g_now env) \<and>
      presence_proof env req student r s = None \<and> lecturer_started env (c_session req) s \<and>
      (trim_space (c_fingerprint req) = [] \<or> device_user env (c_session req) (trim_space (c_fingerprint req)) s \<in> {[], student}) \<and>
      StudentCheckin env fresh body s = record_attendance env fresh req student r s"
proof -
  obtain req student r where *: "body = Some req" "connected env" "find_student env s = Some (student, ''ACTIVE'')"
      "visible_session env (c_session req) s = Some r" "sess_secret r \<noteq> None" "sess_status r = ''ACTIVE''"
      "\<not> (case sess_window_start r of None \<Rightarrow> False | Some t \<Rightarrow> g_now env < t)"
      "\<not> (case sess_window_end r of None \<Rightarrow> False | Some t \<Rightarrow> t < g_now env)"
      "presence_proof env req student r s = None" "lecturer_started env (c_session req) s"
      "\<not> (trim_space (c_fingerprint req) \<noteq> [] \<and> device_user env (c_session req) (trim_space (c_fingerprint req)) s \<noteq> [] \<and>
          device_user env (c_session req) (trim_space (c_fingerprint req)) s \<noteq> student)"
    using assms by (simp add: StudentCheckin_def Let_def split: option.splits if_splits prod.splits)
  then have "StudentCheckin env fresh body s = record_attendance env fresh req student r s"
    using assms by (auto simp: StudentCheckin_def Let_def split: if_splits)
  then show ?thesis
    using * by blast
qed

lemma StudentCheckin_cases:
  obtains (same) "snd (StudentCheckin env fresh body s) = s"
  | (checked) req student r where "body = Some req" "lecturer_started env (c_session req) s"
      "StudentCheckin env fresh body s = record_attendance env fresh req student r s"
  using StudentCheckin_reaches by metis

lemma accepted_checkin:
  assumes "StudentCheckin env fresh body s = (Reply n x, s')"
  obtains req student r where "body = Some req" "find_student env s = Some (student, ''ACTIVE'')"
      "visible_session env (c_session req) s = Some r" "sess_secret r \<noteq> None" "sess_status r = ''ACTIVE''"
      "\<forall>t. sess_window_start r = Some t \<longrightarrow> t \<le> g_now env" "\<forall>t. sess_window_end r = Some t \<longrightarrow> g_now env \<le> t"
      "presence_proof env req student r s = None" "lecturer_started env (c_session req) s"
      "trim_space (c_fingerprint req) = [] \<or> device_user env (c_session req) (trim_space (c_fingerprint req)) s \<in> {[], student}"
      "record_attendance env fresh req student r s = (Reply n x, s')"
proof -
  obtain req student r where *: "body = Some req" "find_student env s = Some (student, ''ACTIVE'')"
      "visible_session env (c_session req) s = Some r" "sess_secret r \<noteq> None" "sess_status r = ''ACTIVE''"
      "\<not> (case sess_window_start r of None \<Rightarrow> False | Some t \<Rightarrow> g_now env < t)"
      "\<not> (case sess_window_end r of None \<Rightarrow> False | Some t \<Rightarrow> t < g_now env)"
      "presence_proof env req student r s = None" "lecturer_started env (c_session req) s"
      "trim_space (c_fingerprint req) = [] \<or> device_user env (c_session req) (trim_space (c_fingerprint req)) s \<in> {[], student}"
      "StudentCheckin env fresh body s = record_attendance env fresh req student r s"
    using StudentCheckin_reaches [of env fresh body s] assms by auto
  show thesis
    by (rule that [OF *(1-5) _ _ *(8-10)]) (use * assms in \<open>auto split: option.splits\<close>)
qed

lemma record_attendance_rows:
  "snd (record_attendance env fresh req student r s) = s \<or>
   (snd (record_attendance env fresh req student r s) = s\<lparr>g_attendance := g_attendance s @ [checkin_row env fresh req student r s]\<rparr> \<and>
    insert_log False (checkin_row env fresh req student r s) (g_attendance s) =
      Inserted (g_attendance s @ [checkin_row env fresh req student r s]))"
  by (auto simp: record_attendance_def split: if_splits insert_outcome.split dest: insert_log_appends)

lemma StudentCheckin_ok: "gw_ok s \<Longrightarrow> gw_ok (snd (StudentCheckin env fresh body s))"
proof -
  assume ok: "gw_ok s"
  show ?thesis
  proof (cases rule: StudentCheckin_cases [of env fresh body s])
    case (checked req student r)
    let ?a = "checkin_row env fresh req student r s"
    have "started (g_gate_logs s) (tenant_id ?a) (session_id ?a)"
      using checked(2) by (auto simp: lecturer_started_def checkin_row_def started_def list_ex_iff)
    then show ?thesis
      using ok record_attendance_rows [of env fresh req student r s] insert_log_keeps_indexes [of "g_attendance s" False ?a]
      unfolding checked(3) by (auto simp: gw_ok_def attendance_ok_def)
  qed (use ok in simp)
qed

lemma scan_start_ok: "gw_ok s \<Longrightarrow> gw_ok (snd (scan_start env req r s))"
proof -
  assume ok: "gw_ok s"
  have "logs_ok (g_sessions s) (update_where p (start_log env (l_fingerprint req)) (g_gate_logs s))" for p
    using ok by (intro logs_update [OF log_updates(2)]) (auto simp: start_log_def gw_ok_def)
  then show ?thesis
    using ok attendance_update [OF log_updates(2)] by (simp add: scan_start_def gw_ok_def Let_def)
qed

lemma scan_end_ok:
  assumes ok: "gw_ok s" and l: "select_one (\<lambda>g. gl_session g = l_session req) (g_gate_logs s) = Some l" "gl_scanned l \<noteq> None"
  shows "gw_ok (snd (scan_end env req f s))"
proof -
  have "logs_ok (g_sessions s) (update_where (\<lambda>l. gl_session l = l_session req \<and> gl_tenant l = sess_tenant (f_session f) \<and> gl_ended l = None)
      (end_log env (l_fingerprint req)) (g_gate_logs s))"
  proof (rule logs_update [OF log_updates(3)])
    fix l' assume "l' \<in> set (g_gate_logs s)" "gl_session l' = l_session req \<and> gl_tenant l' = sess_tenant (f_session f) \<and> gl_ended l' = None"
    then have "l' = l"
      using l(1) ok select_unique [of gl_session "g_gate_logs s" l'] by (simp add: gw_ok_def logs_ok_def)
    then show "gl_scanned (end_log env (l_fingerprint req) l') \<noteq> None"
      using l(2) by (simp add: end_log_def)
  qed (use ok in \<open>simp add: gw_ok_def\<close>)
  then show ?thesis
    using ok attendance_update [OF log_updates(3)] by (simp add: scan_end_def gw_ok_def Let_def)
qed

lemma gw_ok_verified [simp]: "gw_ok (s\<lparr>g_verified := v\<rparr>) = gw_ok s" "gw_ok (s\<lparr>g_tenants := ts\<rparr>) = gw_ok s"
  by (simp_all add: gw_ok_def)

lemma biometric_gate_state: "\<exists>v. snd (biometric_gate env sid f s) = s\<lparr>g_verified := v\<rparr>"
  by (auto simp: biometric_gate_def intro: exI [of _ "g_verified s"])

lemma LecturerGateScan_cases:
  obtains (frame) v where "snd (LecturerGateScan env body s) = s\<lparr>g_verified := v\<rparr>"
  | (start) req f v where "body = Some req" "scan_query env (l_session req) s = Some f" "f_scanned f = None"
      "LecturerGateScan env body s = scan_start env req (f_session f) (s\<lparr>g_verified := v\<rparr>)"
  | (finish) req f v where "body = Some req" "scan_query env (l_session req) s = Some f" "f_scanned f \<noteq> None" "f_ended f = None"
      "LecturerGateScan env body s = scan_end env req f (s\<lparr>g_verified := v\<rparr>)"
proof (cases "snd (LecturerGateScan env body s) = s")
  case True
  then show thesis
    by (intro frame [of "g_verified s"]) simp
next
  case False
  then obtain req f where req: "body = Some req" "scan_query env (l_session req) s = Some f"
    by (auto simp: LecturerGateScan_def split: option.splits if_splits)
  obtain b s1 where b: "biometric_gate env (l_session req) f s = (b, s1)"
    by (metis surj_pair)
  obtain v where v: "s1 = s\<lparr>g_verified := v\<rparr>"
    using biometric_gate_state [of env "l_session req" f s] b by auto
  have cases: "LecturerGateScan env body s = (if \<not> b then (Reject 422 ''biometric_required'', s1)
      else if f_scanned f = None then scan_start env req (f_session f) s1
      else if f_ended f = None then scan_end env req f s1 else (Reply 200 ''ALREADY_COMPLETE'', s1))"
    using False req b by (simp add: LecturerGateScan_def split: if_splits option.splits bool.split)
  show thesis
  proof (cases "b \<and> (f_scanned f = None \<or> f_ended f = None)")
    case True
    then show thesis
      using cases req v by (cases "f_scanned f") (auto intro: start finish)
  next
    case False
    then show thesis
      using cases v by (intro frame [of v]) auto
  qed
qed

lemma LecturerGateScan_ok: "gw_ok s \<Longrightarrow> gw_ok (snd (LecturerGateScan env body s))"
proof -
  assume ok: "gw_ok s"
  show ?thesis
  proof (cases rule: LecturerGateScan_cases [of env body s])
    case (finish req f v)
    then obtain l where "select_one (\<lambda>g. gl_session g = l_session req) (g_gate_logs s) = Some l" "gl_scanned l \<noteq> None"
      by (auto simp: scan_query_def Let_def split: if_splits option.splits list.splits)
    then show ?thesis
      unfolding finish(5) using ok by (intro scan_end_ok) simp_all
  qed (use ok scan_start_ok in simp_all)
qed

lemma settings_ok: "gw_ok s \<Longrightarrow> gw_ok (snd (PutSessionWindow env body s))" "gw_ok s \<Longrightarrow> gw_ok (snd (PutUsersPasscode compare generate env pass s))"
  by (auto simp: PutSessionWindow_def PutUsersPasscode_def Let_def split: option.split prod.split)

lemma gw_step_ok: "gw_step s s' \<Longrightarrow> gw_ok s \<Longrightarrow> gw_ok s'"
proof (induction rule: gw_step.induct)
  case (open_session fresh s env secret body)
  then show ?case
    using OpenSession_state [of env fresh secret body s] open_tx_ok [of s fresh env secret] by (elim disjE exE conjE) simp_all
qed (simp_all add: CloseSession_ok StudentCheckin_ok LecturerGateScan_ok settings_ok)

interpretation gw: kept_property gw_step gw_ok
  by unfold_locales (rule gw_step_ok)


definition demo_gw :: gw_state where
  "demo_gw = \<lparr>g_sessions = [], g_gate_logs = [], g_attendance = [], g_tenants = [], g_users = [], g_students = [], g_offerings = [],
     g_assignments = [], g_units = [], g_venues = [], g_slots = [], g_schedules = [], g_lecturers = [], g_credentials = [],
     g_verified = Map.empty\<rparr>"

definition demo_gw_env :: gw_env where
  "demo_gw_env = \<lparr>clock_now = 0, g_now = 0, zone = kampala, g_failing = (\<lambda>_. False),
     ctx_tenant_id = ''11111111-1111-1111-1111-111111111111'', ctx_user_id = ''c1'',
     g_origin = \<lparr>x_forwarded_for = [], remote_addr = ''10.42.0.1:5000''\<rparr>, db_weekday = 4, timestamp_text = (\<lambda>_. [])\<rparr>"

lemma demo_gw_ok: "gw_ok demo_gw"
  by (simp add: gw_ok_def demo_gw_def sessions_ok_def logs_ok_def attendance_ok_def indexes_hold_def)


section \<open>One slot per coordinator\<close>

text \<open>The abstract machine: each coordinator of a tenant has one slot, empty or holding a session.\<close>

type_synonym slots = "string \<times> string \<Rightarrow> string option"

inductive slot_step :: "slots \<Rightarrow> slots \<Rightarrow> bool" where
  stay: "slot_step m m"
| take_slot: "m k = None \<Longrightarrow> slot_step m (m(k := Some sid))"
| free_slot: "m k = Some sid \<Longrightarrow> slot_step m (m(k := None))"

definition slots_of :: "gw_state \<Rightarrow> slots" where
  "slots_of s = (\<lambda>(t, c). map_option sess_id (select_one (open_of t c) (g_sessions s)))"

lemma slots_unchanged: "g_sessions s' = g_sessions s \<Longrightarrow> slots_of s' = slots_of s"
  by (simp add: slots_of_def)

lemma quiet_sessions:
  "g_sessions (snd (StudentCheckin env fresh req s)) = g_sessions s"
  "g_sessions (snd (LecturerGateScan env scan s)) = g_sessions s"
  "g_sessions (snd (PutSessionWindow env window s)) = g_sessions s"
  "g_sessions (snd (PutUsersPasscode compare generate env pass s)) = g_sessions s"
proof -
  show "g_sessions (snd (StudentCheckin env fresh req s)) = g_sessions s"
  proof (cases rule: StudentCheckin_cases [of env fresh req s])
    case (checked r student ro)
    then show ?thesis
      using record_attendance_rows [of env fresh r student ro s] by auto
  qed simp
  have "g_sessions (snd (scan_start env r x s)) = g_sessions s" "g_sessions (snd (scan_end env r f s)) = g_sessions s" for r x f s
    by (simp_all add: scan_start_def scan_end_def Let_def)
  then show "g_sessions (snd (LecturerGateScan env scan s)) = g_sessions s"
    by (cases rule: LecturerGateScan_cases [of env scan s]) simp_all
qed (auto simp: PutSessionWindow_def PutUsersPasscode_def Let_def split: option.split prod.split)

lemma slots_open:
  assumes "find_open env s = None"
  shows "slots_of (opened_state env fresh secret req s) = (slots_of s)((ctx_tenant_id env, ctx_user_id env) := Some fresh)"
    and "slots_of s (ctx_tenant_id env, ctx_user_id env) = None"
proof -
  show "slots_of s (ctx_tenant_id env, ctx_user_id env) = None"
    using assms by (auto simp: find_open_none slots_of_def select_one_None filter_empty_conv)
  then show "slots_of (opened_state env fresh secret req s) = (slots_of s)((ctx_tenant_id env, ctx_user_id env) := Some fresh)"
    by (auto simp: slots_of_def opened_state_def Let_def select_one_append open_of_def new_session_fields open_status_def
        fun_eq_iff split: option.split)
qed

lemma select_one_filter: "select_one p rows = (case filter p rows of [] \<Rightarrow> None | r # _ \<Rightarrow> Some r)"
  by (induction rows) (auto simp: select_one_def)

lemma close_slot:
  assumes "gw_ok s" and "affected (closable env sid) (g_sessions s) \<noteq> 0"
  shows "slots_of s (ctx_tenant_id env, ctx_user_id env) = Some sid"
    and "slots_of (s\<lparr>g_sessions := update_where (closable env sid) (close_row env) (g_sessions s)\<rparr>) =
      (slots_of s)((ctx_tenant_id env, ctx_user_id env) := None)"
proof -
  let ?open = "open_of (ctx_tenant_id env) (ctx_user_id env)"
  obtain r where r: "r \<in> set (g_sessions s)" "closable env sid r"
    using assms(2) by (auto simp: affected_zero)
  have one: "r' = r" if "r' \<in> set (g_sessions s)" "?open r'" for r'
  proof -
    have "length (filter ?open (g_sessions s)) \<le> 1"
      using assms(1) by (simp add: gw_ok_def sessions_ok_def)
    moreover have "{r, r'} \<subseteq> set (filter ?open (g_sessions s))"
      using r that by (auto simp: open_of_def closable_def)
    ultimately show ?thesis
      by (cases "filter ?open (g_sessions s)") (auto simp: le_Suc_eq)
  qed
  show "slots_of s (ctx_tenant_id env, ctx_user_id env) = Some sid"
  proof (cases "select_one ?open (g_sessions s)")
    case None
    then show ?thesis
      using r by (auto simp: select_one_None open_of_def closable_def)
  next
    case (Some r')
    then show ?thesis
      using one select_one_Some [OF Some] r(2) by (auto simp: slots_of_def closable_def)
  qed
  have gone: "select_one ?open (update_where (closable env sid) (close_row env) (g_sessions s)) = None"
    unfolding select_one_None
  proof
    fix x assume "x \<in> set (update_where (closable env sid) (close_row env) (g_sessions s))"
    then obtain y where y: "y \<in> set (g_sessions s)" "x = (if closable env sid y then close_row env y else y)"
      by (auto simp: in_update_where)
    show "\<not> ?open x"
    proof (cases "closable env sid y")
      case True
      then show ?thesis
        using y(2) by (simp add: open_of_def close_row_def open_status_def)
    next
      case False
      then show ?thesis
        using y one r(2) by auto
    qed
  qed
  have other: "select_one (open_of t c) (update_where (closable env sid) (close_row env) (g_sessions s)) =
      select_one (open_of t c) (g_sessions s)" if "(t, c) \<noteq> (ctx_tenant_id env, ctx_user_id env)" for t c
    using that by (intro select_update_other) (auto simp: open_of_def closable_def close_row_def)
  show "slots_of (s\<lparr>g_sessions := update_where (closable env sid) (close_row env) (g_sessions s)\<rparr>) =
      (slots_of s)((ctx_tenant_id env, ctx_user_id env) := None)"
    using gone other by (auto simp: slots_of_def fun_eq_iff)
qed

lemma record_hours_sessions: "g_sessions (record_hours env sid s) = g_sessions s"
  by (simp add: record_hours_def Let_def)



section \<open>What a recorded attendance proves\<close>

lemma presence_proved:
  "presence_proof env req student r s = None \<Longrightarrow>
     (if sess_delivery_mode r = Some ''ONLINE''
      then Validate (case sess_secret r of None \<Rightarrow> [] | Some k \<Rightarrow> k) (trim_space (c_room_code req)) (g_now env) = Some True \<and>
        (\<forall>off. sess_offering r = Some off \<longrightarrow> (\<exists>st \<in> set (g_students s). st_id st = student \<and> st_offering st = Some off))
      else ValidateStatic (case sess_secret r of None \<Rightarrow> [] | Some k \<Rightarrow> k) (c_room_code req) = Some True \<and>
        (\<exists>ip. sess_coordinator_ip r = Some ip \<and> onSameLAN (ClientIP (g_origin env)) ip))"
  by (auto simp: presence_proof_def Let_def list_ex_iff split: if_splits option.splits)

lemma insert_checkin:
  assumes "\<not> list_ex (\<lambda>a. tenant_id a = ctx_tenant_id env \<and> session_id a = c_session req \<and> student_id a = student) (g_attendance s)"
    and "fresh \<notin> log_id ` set (g_attendance s)"
  shows "insert_log False (checkin_row env fresh req student r s) (g_attendance s) =
    Inserted (g_attendance s @ [checkin_row env fresh req student r s])"
proof -
  have "\<not> clash (checkin_row env fresh req student r s) a" if "a \<in> set (g_attendance s)" for a
    using that assms by (auto simp: clash_def vector_clash_def student_clash_def checkin_row_def list_ex_iff)
  then show ?thesis
    by (auto simp: insert_log_def list_ex_iff)
qed

lemma record_attendance_present:
  assumes "record_attendance env fresh req student r s = (Reply n x, s')" and "fresh \<notin> log_id ` set (g_attendance s)"
  shows "(\<exists>a \<in> set (g_attendance s'). tenant_id a = ctx_tenant_id env \<and> session_id a = c_session req \<and> student_id a = student) \<or>
    (g_failing env CallAttendance \<and> s' = s)"
  using assms insert_checkin [OF _ assms(2), of env req student r]
  by (auto simp: record_attendance_def list_ex_iff checkin_row_def split: if_splits)

text \<open>
  C18. A check-in answered as present was made by an active student, in an active session of their tenant,
  within its window, after the lecturer's scan, with the room code and from the coordinator's
  network (or, online, the current rotating code and membership of the cohort), and from a
  device not used by another student in the session; the attendance is recorded, unless the insert
  failed, which is answered the same way.
\<close>

theorem checkin_present:
  assumes "StudentCheckin env fresh body s = (Reply n x, s')" and "fresh \<notin> log_id ` set (g_attendance s)"
  shows "\<exists>req student r. body = Some req \<and> find_student env s = Some (student, ''ACTIVE'') \<and>
    r \<in> set (g_sessions s) \<and> sess_id r = c_session req \<and> sess_tenant r = ctx_tenant_id env \<and> sess_status r = ''ACTIVE'' \<and>
    (\<forall>t. sess_window_start r = Some t \<longrightarrow> t \<le> g_now env) \<and> (\<forall>t. sess_window_end r = Some t \<longrightarrow> g_now env \<le> t) \<and>
    (if sess_delivery_mode r = Some ''ONLINE''
     then Validate (the (sess_secret r)) (trim_space (c_room_code req)) (g_now env) = Some True \<and>
       (\<forall>off. sess_offering r = Some off \<longrightarrow> (\<exists>st \<in> set (g_students s). st_id st = student \<and> st_offering st = Some off))
     else ValidateStatic (the (sess_secret r)) (c_room_code req) = Some True \<and>
       (\<exists>ip. sess_coordinator_ip r = Some ip \<and> onSameLAN (ClientIP (g_origin env)) ip)) \<and>
    started (g_gate_logs s) (ctx_tenant_id env) (c_session req) \<and>
    (trim_space (c_fingerprint req) = [] \<or> device_user env (c_session req) (trim_space (c_fingerprint req)) s \<in> {[], student}) \<and>
    ((\<exists>a \<in> set (g_attendance s'). tenant_id a = ctx_tenant_id env \<and> session_id a = c_session req \<and> student_id a = student) \<or>
     (g_failing env CallAttendance \<and> s' = s))"
proof -
  obtain req student r where c: "body = Some req" "find_student env s = Some (student, ''ACTIVE'')"
      "visible_session env (c_session req) s = Some r" "sess_secret r \<noteq> None" "sess_status r = ''ACTIVE''"
      "\<forall>t. sess_window_start r = Some t \<longrightarrow> t \<le> g_now env" "\<forall>t. sess_window_end r = Some t \<longrightarrow> g_now env \<le> t"
      "presence_proof env req student r s = None" "lecturer_started env (c_session req) s"
      "trim_space (c_fingerprint req) = [] \<or> device_user env (c_session req) (trim_space (c_fingerprint req)) s \<in> {[], student}"
      "record_attendance env fresh req student r s = (Reply n x, s')"
    using accepted_checkin [OF assms(1)] by blast
  have r: "r \<in> set (g_sessions s)" "sess_id r = c_session req" "sess_tenant r = ctx_tenant_id env"
    using c(3) by (auto simp: visible_session_def split: if_splits dest!: select_one_Some)
  have "started (g_gate_logs s) (ctx_tenant_id env) (c_session req)"
    using c(9) by (auto simp: lecturer_started_def started_def list_ex_iff)
  moreover obtain k where k: "sess_secret r = Some k"
    using c(4) by auto
  ultimately show ?thesis
    using c r presence_proved [OF c(8), unfolded k option.case] record_attendance_present [OF c(11) assms(2)]
    by (intro exI [of _ req] exI [of _ student] exI [of _ r]) simp
qed

section \<open>The date of a session\<close>

lemma quot_trunc_mult: "0 < d \<Longrightarrow> quot_trunc (d * k) d = k"
  by (simp add: quot_trunc_def abs_mult sgn_mult sgn_mult_abs)

lemma truncate_difference:
  assumes "d = at_civil kampala v 0 0"
  shows "truncate_day now - truncate_day d = (24 * hour) * (now div (24 * hour) - (int (day_number v) - epoch_day - 1))"
proof -
  let ?D = "24 * hour :: int" and ?n = "int (day_number v) - epoch_day - 1"
  have d: "d = ?n * ?D + 21 * hour"
    using assms by (simp add: at_civil_def kampala_def algebra_simps)
  have "d div ?D = ?n"
    unfolding d by (simp add: duration_defs)
  then have "truncate_day d = ?D * ?n"
    using minus_mod_eq_mult_div [of d ?D] by (simp add: truncate_day_def)
  moreover have "truncate_day now = ?D * (now div ?D)"
    using minus_mod_eq_mult_div [of now ?D] by (simp add: truncate_day_def)
  ultimately show ?thesis
    by (simp add: algebra_simps)
qed

text \<open>
  The date a phone asks for is kept exactly when it lies between six days before and one day
  after the current UTC date, with the institution in Kampala: tomorrow's date is kept, and the date
  seven days back is not, whereas the comment in the code promises the last seven days and today.
\<close>

theorem open_date_window:
  assumes "zone env = kampala" and "parse_ymd req = Some v" and "0 \<le> clock_now env" and "clock_now env < 2 ^ 62"
    and "1900 \<le> year v" and "year v \<le> 2100"
  shows "session_date_for env req =
    (if clock_now env div (24 * hour) - 6 \<le> int (day_number v) - epoch_day \<and>
        int (day_number v) - epoch_day \<le> clock_now env div (24 * hour) + 1
     then req else Today kampala (clock_now env))"
proof -
  let ?D = "24 * hour :: int" and ?now = "clock_now env"
  let ?k = "?now div ?D - (int (day_number v) - epoch_day - 1)"
  have nonempty: "req \<noteq> []"
    using assms(2) by (auto simp: parse_ymd_def)
  have diff: "truncate_day ?now - truncate_day (at_civil kampala v 0 0) = ?D * ?k"
    by (rule truncate_difference) simp
  have "\<bar>?D * ?k\<bar> < 2 ^ 63"
  proof -
    have "valid_date v"
      using assms(2) by (auto simp: parse_ymd_def Let_def split: if_splits option.splits)
    then have "day v < 100"
      by (rule valid_date_small)
    moreover have "sum_list (take (month v - 1) (month_lengths (year v))) \<le> 366"
    proof -
      have "sum_list (take k ls) \<le> sum_list ls" for k and ls :: "nat list"
        by (metis append_take_drop_id le_add1 sum_list_append)
      then have "sum_list (take (month v - 1) (month_lengths (year v))) \<le> year_days (year v)"
        using month_lengths_sum by metis
      then show ?thesis
        by (simp add: year_days_def split: if_splits)
    qed
    moreover have "365 * year v \<le> days_before_year (year v)" "days_before_year (year v) \<le> 366 * year v"
      by (rule days_before_year_ge, rule days_before_year_upper)
    ultimately have "693500 \<le> day_number v" "day_number v \<le> 769066"
      using assms(5,6) by (simp_all add: day_number_def)
    moreover have "0 \<le> ?now div ?D" "?now div ?D < 53376"
      using assms(3,4) by (simp_all add: duration_defs pos_imp_zdiv_nonneg_iff div_less_iff_less_mult)
    ultimately show ?thesis
      by (simp add: epoch_day_def duration_defs abs_less_iff)
  qed
  then have "time_sub (truncate_day ?now) (truncate_day (at_civil kampala v 0 0)) = ?D * ?k"
    by (simp add: time_sub_def max_duration_def diff)
  moreover have "quot_trunc (?D * ?k) ?D = ?k"
    by (rule quot_trunc_mult) (simp add: duration_defs)
  ultimately show ?thesis
    using assms(1,2) nonempty by (auto simp: session_date_for_def recent_date_def ParseDate_def Let_def)
qed

section \<open>The daily window\<close>

lemma digit_char_compare:
  assumes "a < 10" "b < 10"
  shows "digit_char a < digit_char b \<longleftrightarrow> a < b" "digit_char a = digit_char b \<longleftrightarrow> a = b"
proof -
  show "digit_char a = digit_char b \<longleftrightarrow> a = b"
    using digit_value_digit_char assms by metis
  show "digit_char a < digit_char b \<longleftrightarrow> a < b"
    using assms by (simp add: digit_char_def less_char_def)
qed

lemma digits_equal: "(x :: nat) = y \<longleftrightarrow> x div 10 = y div 10 \<and> x mod 10 = y mod 10"
  by (metis div_mult_mod_eq)

lemma digits_order: "(x :: nat) < y \<longleftrightarrow> x div 10 < y div 10 \<or> x div 10 = y div 10 \<and> x mod 10 < y mod 10"
proof (cases "x div 10 = y div 10")
  case True
  then have "x = y div 10 * 10 + x mod 10" "y = y div 10 * 10 + y mod 10"
    by (metis div_mult_mod_eq)+
  then have "x < y \<longleftrightarrow> x mod 10 < y mod 10"
    by (metis nat_add_left_cancel_less)
  then show ?thesis
    using True by simp
next
  case False
  then show ?thesis
    using div_le_mono [of x y 10] div_le_mono [of y x 10] by (auto simp: not_less le_less)
qed

lemma hhmm_less:
  assumes "h < 24" "m < 60" "h' < 24" "m' < 60"
  shows "format_hhmm h m < format_hhmm h' m' \<longleftrightarrow> h * 60 + m < h' * 60 + m'"
proof -
  have digits: "format_hhmm h m = [digit_char (h div 10), digit_char (h mod 10), CHR '':'', digit_char (m div 10), digit_char (m mod 10)]"
    if "h < 24" "m < 60" for h m
  proof -
    have "fixed_digits 2 n = [digit_char (n div 10), digit_char (n mod 10)]" if "n < 100" for n
      using that by (simp add: numeral_2_eq_2)
    then show ?thesis
      using that by (simp add: format_hhmm_def pad2)
  qed
  have small: "n div 10 < 10" "n mod 10 < 10" if "n < 60" for n :: nat
    using that by auto
  have "format_hhmm h m < format_hhmm h' m' \<longleftrightarrow>
      h div 10 < h' div 10 \<or> h div 10 = h' div 10 \<and> (h mod 10 < h' mod 10 \<or> h mod 10 = h' mod 10 \<and>
        (m div 10 < m' div 10 \<or> m div 10 = m' div 10 \<and> m mod 10 < m' mod 10))"
    using assms small [of h] small [of h'] small [of m] small [of m'] by (simp add: digits digit_char_compare)
  also have "\<dots> \<longleftrightarrow> h < h' \<or> h = h' \<and> m < m'"
    using digits_order [of h h'] digits_order [of m m'] digits_equal [of h h'] by blast
  also have "\<dots> \<longleftrightarrow> h * 60 + m < h' * 60 + m'"
    using assms by linarith
  finally show ?thesis .
qed

lemma parse_hm_bounds: "parse_hm s = Some (h, m) \<Longrightarrow> h < 24 \<and> m < 60"
  by (auto simp: parse_hm_def Let_def split: if_splits option.splits)

lemma normalise_days_set: "set (normalise_days seen ds) = {d \<in> set ds. 1 \<le> d \<and> d \<le> 7 \<and> d \<notin> set seen}"
  by (induction seen ds rule: normalise_days.induct) auto

text \<open>
  Saving a window takes effect as it reads: after an accepted change, sessions may be opened exactly
  on the chosen weekdays (the valid ones of the request) from the start minute up to, not
  including, the end minute, though the code compares clock times as text.
\<close>

theorem session_window_effective:
  assumes "PutSessionWindow env (Some req) s = (Reply n w, s')" and "parse_hm (w_start req) = Some (h, m)"
    and "parse_hm (w_end req) = Some (h', m')"
    and "ctx_tenant_id env' = ctx_tenant_id env" and "\<not> g_failing env' CallWindow"
  shows "withinSessionWindow env' s' \<longleftrightarrow>
    int (ISOWeekday (zone env') (clock_now env')) \<in> set (w_days req) \<and>
    h * 60 + m \<le> MinutesSinceMidnight (zone env') (clock_now env') \<and>
    MinutesSinceMidnight (zone env') (clock_now env') < h' * 60 + m'"
proof -
  let ?mine = "\<lambda>t. t_id t = ctx_tenant_id env" and ?days = "normalise_days [] (w_days req)"
  let ?upd = "\<lambda>t. t\<lparr>t_window_start := (h, m), t_window_end := (h', m'), t_active_days := ?days\<rparr>"
  let ?H = "hour_of (zone env') (clock_now env')" and ?M = "minute_of (zone env') (clock_now env')"
  have s': "s' = s\<lparr>g_tenants := update_where ?mine ?upd (g_tenants s)\<rparr>" and hit: "affected ?mine (g_tenants s) \<noteq> 0"
    using assms(1-3) by (auto simp: PutSessionWindow_def Let_def split: if_splits)
  obtain t where t: "select_one ?mine (g_tenants s) = Some t"
    using hit by (cases "select_one ?mine (g_tenants s)") (auto simp: select_one_None affected_zero)
  then have "select_one ?mine (g_tenants s') = Some (?upd t)"
    using select_update [OF t, of ?upd ?mine] select_one_Some [OF t] by (simp add: s')
  then have load: "loadSessionWindow env' s' = Some \<lparr>w_start = format_hhmm h m, w_end = format_hhmm h' m', w_days = ?days\<rparr>"
    using assms(4,5) by (simp add: loadSessionWindow_def)
  have b: "?H < 24" "?M < 60" "h < 24" "m < 60" "h' < 24" "m' < 60"
    using hour_minute_bounds parse_hm_bounds assms(2,3) by blast+
  have iso: "1 \<le> int (ISOWeekday l c) \<and> int (ISOWeekday l c) \<le> 7" for l c
    by (auto simp: ISOWeekday_def go_weekday_def Let_def Suc_le_eq)
  have "HHMM (zone env') (clock_now env') < format_hhmm h m \<longleftrightarrow> ?H * 60 + ?M < h * 60 + m"
    "format_hhmm h' m' \<le> HHMM (zone env') (clock_now env') \<longleftrightarrow> \<not> ?H * 60 + ?M < h' * 60 + m'"
    using hhmm_less [OF b(1,2,3,4)] hhmm_less [OF b(1,2,5,6)] by (simp_all add: HHMM_def flip: not_less)
  then show ?thesis
    using iso by (auto simp: withinSessionWindow_def load Let_def normalise_days_set MinutesSinceMidnight_def)
qed

section \<open>Contact hours\<close>

text \<open>
  Closing a session sets the contact hours of its lecturer to the span from the gate's opening to
  the closing, whatever was there: the hours of a lecture that the lecturer's two scans measured
  are overwritten, and a lecturer who never scanned is credited too.
\<close>

theorem close_sets_contact_hours:
  assumes "CloseSession env sid s = (Reply n x, s')" and "\<not> g_failing env CallHours"
    and "l \<in> set (g_gate_logs s)" and "gl_session l = sid" and "gl_tenant l = ctx_tenant_id env"
    and "\<forall>l \<in> set (g_gate_logs s). hours_fit (round_hundredth_hours (g_now env - gl_open l))"
  shows "l\<lparr>gl_close := Some (g_now env), gl_hours := Some (round_hundredth_hours (g_now env - gl_open l))\<rparr> \<in> set (g_gate_logs s')"
proof -
  let ?mine = "\<lambda>l. gl_session l = sid \<and> gl_tenant l = ctx_tenant_id env"
  have "g_gate_logs s' = update_where ?mine (close_hours env) (g_gate_logs s)"
    using assms(1,2,6) by (auto simp: CloseSession_def record_hours_def Let_def list_all_iff split: if_splits)
  then show ?thesis
    using assms(3-5) by (auto simp: in_update_where close_hours_def intro!: bexI [of _ l])
qed

definition demo_open :: session where
  "demo_open = \<lparr>sess_id = ''s1'', sess_tenant = ctx_tenant_id demo_gw_env, sess_coordinator = ''c1'', sess_unit = ''u1'', sess_venue = None,
     sess_lecturer = Some ''l1'', sess_date = ''1970-01-01'', sess_gate_open = Some 0, sess_gate_close = None, sess_window_start = None,
     sess_window_end = None, sess_end_time = None, sess_status = ''ACTIVE'', sess_secret = Some [1], sess_offering = None,
     sess_planned_start = None, sess_planned_minutes = None, sess_coordinator_ip = Some ''10.42.0.1'', sess_provision = False,
     sess_provision_note = None, sess_unscheduled = False, sess_delivery_mode = None\<rparr>"

definition demo_gate :: gate_log where
  "demo_gate = \<lparr>gl_tenant = ctx_tenant_id demo_gw_env, gl_session = ''s1'', gl_lecturer = ''l1'', gl_open = - hour, gl_close = None,
     gl_unit = ''u1'', gl_venue = None, gl_date = ''1970-01-01'', gl_hours = None, gl_scanned = None, gl_fingerprint = None,
     gl_ended = None, gl_end_fingerprint = None\<rparr>"

definition demo_running :: gw_state where
  "demo_running = demo_gw\<lparr>g_sessions := [demo_open], g_gate_logs := [demo_gate]\<rparr>"

lemma demo_connected: "connected demo_gw_env"
proof -
  have "ValidTenantID ''11111111-1111-1111-1111-111111111111''"
    by code_simp
  then show ?thesis
    by (simp add: connected_def demo_gw_env_def)
qed

theorem close_sets_contact_hours_witness:
  "gl_hours (hd (g_gate_logs (snd (CloseSession demo_gw_env ''s1'' demo_running)))) = Some 100"
proof -
  have "\<exists>x s'. CloseSession demo_gw_env ''s1'' demo_running = (Reply 200 x, s') \<and> length (g_gate_logs s') = 1"
    by (simp add: CloseSession_def demo_connected record_hours_def Let_def)
      (simp add: demo_gw_env_def demo_running_def demo_gw_def demo_open_def demo_gate_def affected_def closable_def open_status_def)
  then obtain x s' where c: "CloseSession demo_gw_env ''s1'' demo_running = (Reply 200 x, s')" "length (g_gate_logs s') = 1"
    by blast
  have h: "\<not> g_failing demo_gw_env CallHours" "demo_gate \<in> set (g_gate_logs demo_running)" "gl_session demo_gate = ''s1''"
    "gl_tenant demo_gate = ctx_tenant_id demo_gw_env"
    "\<forall>l \<in> set (g_gate_logs demo_running). hours_fit (round_hundredth_hours (g_now demo_gw_env - gl_open l))"
    by (simp_all add: demo_gw_env_def demo_running_def demo_gate_def hours_fit_def round_hundredth_hours_def duration_defs)
  from close_sets_contact_hours [OF c(1) h] c show ?thesis
    by (cases "g_gate_logs s'") (auto simp: demo_gw_env_def demo_gate_def round_hundredth_hours_def duration_defs)
qed

section \<open>The quorum\<close>

lemma bit_length_bound: "k < 2 ^ b \<Longrightarrow> bit_length k \<le> b"
proof (induction k arbitrary: b rule: bit_length.induct)
  case (1 k)
  show ?case
  proof (cases "k = 0")
    case False
    then obtain c where "b = Suc c"
      using 1(2) by (cases b) auto
    then show ?thesis
      using False 1 by (subst bit_length.simps) (auto simp: less_mult_imp_div_less)
  qed (simp add: bit_length.simps)
qed

lemma bit_length_lower: "2 ^ b \<le> k \<Longrightarrow> Suc b \<le> bit_length k"
proof (induction b arbitrary: k)
  case 0
  then show ?case
    by (subst bit_length.simps) auto
next
  case (Suc b)
  have "0 < (2 :: nat) ^ Suc b"
    by simp
  then have "k \<noteq> 0" "2 ^ b \<le> k div 2"
    using Suc.prems by (linarith, auto)
  then show ?case
    using Suc.IH [of "k div 2"] by (subst bit_length.simps) simp
qed

lemma float_product_55: "float_product 4953959590107546 100 = 495395959010754624"
proof -
  have "bit_length 495395959010754600 = 59"
    using bit_length_bound [of 495395959010754600 59] bit_length_lower [of 58 495395959010754600] by simp
  then show ?thesis
    by (simp add: float_product_def round_even_def Let_def)
qed

text \<open>
  With the default ratio of one half, an odd class is rounded up: a lecture may be ended exactly when at
  least half of the enrolled students, and at least one, attended. The product is a float64,
  so a ratio that has no finite binary form can ask for one student more than its exact value:
  with 0.55 (the nearest double) and 100 enrolled, 56 are required.
\<close>

theorem quorum_rounding:
  assumes "n < 2 ^ 53"
  shows "required_students (1, 1) n = max 1 ((n + 1) div 2) \<and> required_students (4953959590107546, 53) 100 = 56 \<and>
    \<bar>20 * 4953959590107546 - 11 * 2 ^ 53 :: int\<bar> \<le> 10"
proof -
  have "required_students (1, 1) n = max 1 ((n + 1) div 2)"
    using bit_length_bound [OF assms] by (simp add: required_students_def float_product_def round_even_def ceil_quotient_def Let_def)
  moreover have "required_students (4953959590107546, 53) 100 = 56"
    by (simp add: required_students_def float_product_55 ceil_quotient_def)
  ultimately show ?thesis
    by simp
qed

theorem quorum_rounding_witness: "required_students (1, 1) 45 = 23"
  using quorum_rounding [of 45] by simp

theorem open_date_window_witness:
  "session_date_for demo_gw_env ''1970-01-02'' = ''1970-01-02''"
proof -
  have z: "zone demo_gw_env = kampala" "0 \<le> clock_now demo_gw_env" "clock_now demo_gw_env < 2 ^ 62" "clock_now demo_gw_env = 0"
    by (simp_all add: demo_gw_env_def)
  have p: "parse_ymd ''1970-01-02'' = Some \<lparr>year = 1970, month = 1, day = 2\<rparr>"
    by code_simp
  have "day_number \<lparr>year = 1970, month = 1, day = 2\<rparr> = 719529"
    by (simp add: day_number_def days_before_year_def)
  then show ?thesis
    using open_date_window [OF z(1) p z(2,3)] by (simp add: z(4) epoch_day_def)
qed

section \<open>The passcode\<close>

text \<open>
  A set passcode is changed only by someone who knows it, as long as reading it succeeds; the new
  one is the one that opens the page from then on. When the read fails the change goes through
  without the old passcode.
\<close>

theorem passcode_change_guarded:
  assumes "PutUsersPasscode compare generate env (Some (new, current)) s = (Reply n x, s')"
    and "\<And>p h. generate p = Some h \<Longrightarrow> h \<noteq> [] \<and> compare h p" and "\<not> g_failing env CallPasscode"
  shows "(\<forall>h. tenant_passcode env s = Some h \<and> h \<noteq> [] \<longrightarrow> compare h current \<and> new \<noteq> current) \<and>
    VerifyUsersPasscode compare env (Some new) s' = Reply 200 (True, True) \<and>
    (\<forall>env'. g_failing env' CallPasscode \<and> ctx_tenant_id env' = ctx_tenant_id env \<and> g_failing env' CallSavePasscode = False \<longrightarrow>
       accepted (fst (PutUsersPasscode compare generate env' (Some (new, guess)) s)))"
proof -
  let ?mine = "\<lambda>t. t_id t = ctx_tenant_id env"
  obtain h where h: "generate new = Some h" and hit: "affected ?mine (g_tenants s) \<noteq> 0"
    and s': "s' = s\<lparr>g_tenants := update_where ?mine (\<lambda>t. t\<lparr>t_passcode_hash := Some h\<rparr>) (g_tenants s)\<rparr>"
    and len: "4 \<le> length new" "length new \<le> 128"
    and old: "passcode_set (tenant_passcode env s) \<longrightarrow> compare (the (tenant_passcode env s)) current \<and> new \<noteq> current"
    using assms(1) by (auto simp: PutUsersPasscode_def Let_def not_less split: if_splits option.splits)
  obtain t where t: "select_one ?mine (g_tenants s) = Some t"
    using hit by (cases "select_one ?mine (g_tenants s)") (auto simp: select_one_None affected_zero)
  have "select_one ?mine (g_tenants s') = Some (t\<lparr>t_passcode_hash := Some h\<rparr>)"
    using select_update [OF t, of "\<lambda>t. t\<lparr>t_passcode_hash := Some h\<rparr>" ?mine] select_one_Some [OF t] by (simp add: s')
  then have "VerifyUsersPasscode compare env (Some new) s' = Reply 200 (True, True)"
    using assms(2) [OF h] assms(3) by (simp add: VerifyUsersPasscode_def tenant_passcode_def passcode_set_def Let_def)
  moreover have "accepted (fst (PutUsersPasscode compare generate env' (Some (new, guess)) s))"
    if "g_failing env' CallPasscode" "ctx_tenant_id env' = ctx_tenant_id env" "\<not> g_failing env' CallSavePasscode" for env'
    using that h hit len by (simp add: PutUsersPasscode_def tenant_passcode_def passcode_set_def Let_def)
  ultimately show ?thesis
    using old by (auto simp: passcode_set_def)
qed

section \<open>Instances\<close>

definition demo_tenant_row :: tenant_row where
  "demo_tenant_row = \<lparr>t_id = ctx_tenant_id demo_gw_env, t_checkin_minutes = None, t_window_start = (8, 0), t_window_end = (17, 0),
     t_active_days = [1], t_passcode_hash = None, t_ratio = (1, 1)\<rparr>"

theorem session_window_effective_witness:
  "withinSessionWindow demo_gw_env (snd (PutSessionWindow demo_gw_env (Some \<lparr>w_start = ''2:30'', w_end = ''3:01'', w_days = [9, 4]\<rparr>)
     (demo_gw\<lparr>g_tenants := [demo_tenant_row]\<rparr>)))"
proof -
  let ?req = "\<lparr>w_start = ''2:30'', w_end = ''3:01'', w_days = [9, 4]\<rparr>" and ?s = "demo_gw\<lparr>g_tenants := [demo_tenant_row]\<rparr>"
  have p: "parse_hm (w_start ?req) = Some (2, 30)" "parse_hm (w_end ?req) = Some (3, 1)"
    by code_simp+
  have "normalise_days [] (w_days ?req) \<noteq> []"
    by simp
  then obtain w s' where put: "PutSessionWindow demo_gw_env (Some ?req) ?s = (Reply 200 w, s')"
    using p by (simp add: PutSessionWindow_def Let_def) (simp add: demo_gw_env_def demo_tenant_row_def affected_def Let_def)
  have f: "ctx_tenant_id demo_gw_env = ctx_tenant_id demo_gw_env" "\<not> g_failing demo_gw_env CallWindow"
    by (simp_all add: demo_gw_env_def)
  have "ISOWeekday (zone demo_gw_env) (clock_now demo_gw_env) = 4" "MinutesSinceMidnight (zone demo_gw_env) (clock_now demo_gw_env) = 180"
    by (simp_all add: demo_gw_env_def ISOWeekday_def go_weekday_def civil_day_def MinutesSinceMidnight_def hour_of_def minute_of_def
        since_midnight_def kampala_def epoch_day_def duration_defs)
  then show ?thesis
    using session_window_effective [OF put p f] put by simp
qed

theorem passcode_change_guarded_witness:
  "VerifyUsersPasscode (\<lambda>h p. h = ''h'' @ p) demo_gw_env (Some ''4321'')
     (snd (PutUsersPasscode (\<lambda>h p. h = ''h'' @ p) (\<lambda>p. Some (''h'' @ p)) demo_gw_env (Some (''4321'', []))
       (demo_gw\<lparr>g_tenants := [demo_tenant_row]\<rparr>))) = Reply 200 (True, True)"
proof -
  let ?cmp = "\<lambda>h p. h = ''h'' @ p" and ?gen = "\<lambda>p. Some (''h'' @ p)" and ?s = "demo_gw\<lparr>g_tenants := [demo_tenant_row]\<rparr>"
  obtain x s' where put: "PutUsersPasscode ?cmp ?gen demo_gw_env (Some (''4321'', [])) ?s = (Reply 200 x, s')"
    by (simp add: PutUsersPasscode_def tenant_passcode_def passcode_set_def demo_gw_env_def demo_tenant_row_def affected_def Let_def)
  have "\<not> g_failing demo_gw_env CallPasscode"
    by (simp add: demo_gw_env_def)
  then show ?thesis
    using passcode_change_guarded [OF put] put by simp
qed

definition demo_student :: student_row where
  "demo_student = \<lparr>st_id = ''2024-1'', st_tenant = ctx_tenant_id demo_gw_env, st_email = ''a@b'', st_enrollment = ''ACTIVE'',
     st_offering = None, st_course = ''bit''\<rparr>"

definition demo_class :: gw_state where
  "demo_class = demo_running\<lparr>g_gate_logs := [demo_gate\<lparr>gl_scanned := Some 0\<rparr>], g_students := [demo_student],
     g_users := [(''c1'', ctx_tenant_id demo_gw_env, ''a@b'')]\<rparr>"

theorem checkin_present_witness:
  "\<exists>code s'. StudentCheckin demo_gw_env ''a1'' (Some \<lparr>c_session = ''s1'', c_room_code = code, c_fingerprint = ''f''\<rparr>) demo_class =
       (Reply 200 (), s') \<and> (\<exists>a \<in> set (g_attendance s'). student_id a = ''2024-1'')"
proof -
  obtain code where code: "StaticCode [1] = Some code" "length code = Digits"
    using StaticCode_total [of "[1]"] StaticCode_code [of "[1]"] by (auto simp: fixed_digits_length)
  let ?req = "\<lparr>c_session = ''s1'', c_room_code = code, c_fingerprint = ''f''\<rparr>"
  have lan: "onSameLAN (ClientIP (g_origin demo_gw_env)) ''10.42.0.1''"
    by code_simp
  have valid: "ValidateStatic [1] code = Some True" "code \<noteq> []"
    using code by (auto simp: ValidateStatic_def Digits_def)
  have presence: "presence_proof demo_gw_env ?req ''2024-1'' demo_open demo_class = None"
    using lan valid by (simp add: presence_proof_def demo_open_def)
  have student: "find_student demo_gw_env demo_class = Some (''2024-1'', ''ACTIVE'')"
    by (simp add: find_student_def demo_class_def demo_student_def demo_gw_env_def)
  have session: "visible_session demo_gw_env ''s1'' demo_class = Some demo_open"
    by (simp add: visible_session_def demo_class_def demo_running_def demo_gw_env_def demo_open_def)
  have started: "lecturer_started demo_gw_env ''s1'' demo_class"
    by (simp add: lecturer_started_def demo_class_def demo_gate_def demo_gw_env_def)
  have rest: "\<exists>s'. record_attendance demo_gw_env ''a1'' ?req ''2024-1'' demo_open demo_class = (Reply 200 (), s')"
    by (simp add: record_attendance_def demo_class_def demo_running_def demo_gw_def demo_gw_env_def insert_log_def)
  have "\<exists>s'. StudentCheckin demo_gw_env ''a1'' (Some ?req) demo_class = (Reply 200 (), s')"
    using rest valid(2)
    by (simp add: StudentCheckin_def demo_connected student session presence started Let_def)
      (simp add: demo_gw_env_def demo_open_def device_user_def demo_class_def demo_running_def demo_gw_def select_one_def)
  then obtain s' where c: "StudentCheckin demo_gw_env ''a1'' (Some ?req) demo_class = (Reply 200 (), s')"
    by blast
  have fresh: "''a1'' \<notin> log_id ` set (g_attendance demo_class)"
    by (simp add: demo_class_def demo_running_def demo_gw_def)
  have "\<not> g_failing demo_gw_env CallAttendance"
    by (simp add: demo_gw_env_def)
  then show ?thesis
    using checkin_present [OF c fresh] c student by auto
qed

end
