(* ===== verification/Patrol_PIN.thy ===== *)
theory Patrol_PIN
  imports Lockout
begin

text \<open>
  The PIN in front of a monitor's round (\<open>patrol_pin.go\<close>): which PINs may be set, setting and changing
  one, verifying it under a lockout, and the administrator's reset.

  The state is the table \<open>patroller_pins\<close>, one row per user, and the audit entries written. bcrypt's
  two functions are parameters. Every statement runs inside its own \<open>withPatrolConn\<close>; a call fails,
  as the environment says, when its connection, the tenant setting or the statement itself fails.
\<close>

section \<open>Which PINs\<close>

definition patrolPINMinLen :: nat where "patrolPINMinLen = 4"
definition patrolPINMaxLen :: nat where "patrolPINMaxLen = 8"
definition patrolPINMaxAttempts :: int where "patrolPINMaxAttempts = 5"
definition patrolPINLockout :: duration where "patrolPINLockout = 15 * minute"

datatype pin_error = BadLength | NotDigits | TooEasy

text \<open>The loop over the flags \<open>same\<close>, \<open>up\<close> and \<open>down\<close>; bytes are compared modulo 256.\<close>

definition byte_at :: "string \<Rightarrow> nat \<Rightarrow> byte" where
  "byte_at pin i = of_nat (of_char (pin ! i))"

fun pin_flags :: "string \<Rightarrow> nat \<Rightarrow> nat \<Rightarrow> bool \<times> bool \<times> bool \<Rightarrow> bool \<times> bool \<times> bool" where
  "pin_flags pin i 0 flags = flags"
| "pin_flags pin i (Suc n) (same, up, down) =
     pin_flags pin (Suc i) n
       (same \<and> byte_at pin i = byte_at pin 0, up \<and> byte_at pin i = byte_at pin (i - 1) + 1,
        down \<and> byte_at pin i = byte_at pin (i - 1) - 1)"

definition validPatrolPIN :: "string \<Rightarrow> pin_error option" where
  "validPatrolPIN pin =
     (if length pin < patrolPINMinLen \<or> patrolPINMaxLen < length pin then Some BadLength
      else if \<not> list_all is_digit pin then Some NotDigits
      else
        let (same, up, down) = pin_flags pin 1 (length pin - 1) (True, True, True) in
        if same \<or> up \<or> down then Some TooEasy else None)"

section \<open>State\<close>

record pin_row =
  pin_user :: string
  pin_hash :: string
  failed_attempts :: int
  pin_locked_until :: "instant option"
  last_verified_at :: "instant option"

record pin_store =
  patroller_pins :: "pin_row table"
  pin_audit :: "(string \<times> string \<times> string) list"

datatype pin_call = CallPinLoad | CallPinStore | CallPinFail | CallPinClear | CallPinDelete | CallPinAudit

record pin_env =
  pin_now :: instant
  pin_failing :: "pin_call \<Rightarrow> bool"
  pin_me :: string
  pin_compare :: "string \<Rightarrow> string \<Rightarrow> bool"
  pin_generate :: "string \<Rightarrow> string option"

record patrolPINState =
  PinSet :: bool
  PinLocked :: bool
  LockedUntil :: "instant option"
  AttemptsLeft :: int

definition locked_at :: "instant \<Rightarrow> pin_row \<Rightarrow> bool" where
  "locked_at t r = (case pin_locked_until r of None \<Rightarrow> False | Some u \<Rightarrow> t < u)"

definition pin_of :: "string \<Rightarrow> pin_store \<Rightarrow> pin_row option" where
  "pin_of user s = select_one (\<lambda>r. pin_user r = user) (patroller_pins s)"

text \<open>\<open>loadPatrolPIN\<close>; \<open>None\<close> is the error.\<close>

definition loadPatrolPIN :: "pin_env \<Rightarrow> pin_store \<Rightarrow> (string \<times> patrolPINState) option" where
  "loadPatrolPIN env s =
     (if pin_failing env CallPinLoad then None
      else case pin_of (pin_me env) s of
        None \<Rightarrow> Some ([], \<lparr>PinSet = False, PinLocked = False, LockedUntil = None, AttemptsLeft = patrolPINMaxAttempts\<rparr>)
      | Some r \<Rightarrow>
          let locked = locked_at (pin_now env) r;
              attempts = (if locked then failed_attempts r else 0);
              left = patrolPINMaxAttempts - attempts
          in Some (pin_hash r, \<lparr>PinSet = True, PinLocked = locked,
               LockedUntil = (if locked then pin_locked_until r else None),
               AttemptsLeft = (if left < 0 then 0 else left)\<rparr>))"

definition PatrolPINStatus :: "pin_env \<Rightarrow> pin_store \<Rightarrow> patrolPINState reply" where
  "PatrolPINStatus env s =
     (case loadPatrolPIN env s of None \<Rightarrow> Reject 500 ''INTERNAL_ERROR'' | Some (_, st) \<Rightarrow> Reply 200 st)"

definition store_pin :: "string \<Rightarrow> string \<Rightarrow> pin_row table \<Rightarrow> pin_row table" where
  "store_pin user h =
     upsert pin_user (\<lambda>new old. old\<lparr>pin_hash := pin_hash new, failed_attempts := 0, pin_locked_until := None\<rparr>)
       \<lparr>pin_user = user, pin_hash = h, failed_attempts = 0, pin_locked_until = None, last_verified_at = None\<rparr>"

interpretation pins: keyed_upsert pin_user "\<lambda>new old. old\<lparr>pin_hash := pin_hash new, failed_attempts := 0, pin_locked_until := None\<rparr>"
  by unfold_locales simp

definition SetPatrolPIN :: "pin_env \<Rightarrow> (string \<times> string) option \<Rightarrow> pin_store \<Rightarrow> unit reply \<times> pin_store" where
  "SetPatrolPIN env body s =
     (case body of
        None \<Rightarrow> (Reject 400 ''INVALID_REQUEST'', s)
      | Some (pin0, current0) \<Rightarrow>
          let pin = trim_space pin0; current = trim_space current0 in
          if validPatrolPIN pin \<noteq> None then (Reject 400 ''WEAK_PIN'', s)
          else case loadPatrolPIN env s of
            None \<Rightarrow> (Reject 500 ''INTERNAL_ERROR'', s)
          | Some (existing, st) \<Rightarrow>
              if PinLocked st then (Reject 429 ''PIN_LOCKED'', s)
              else if PinSet st \<and> \<not> pin_compare env existing current then (Reject 401 ''INVALID_PIN'', s)
              else if PinSet st \<and> current = pin then (Reject 400 ''INVALID_REQUEST'', s)
              else case pin_generate env pin of
                None \<Rightarrow> (Reject 500 ''INTERNAL_ERROR'', s)
              | Some h \<Rightarrow>
                  if pin_failing env CallPinStore then (Reject 500 ''INTERNAL_ERROR'', s)
                  else (Reply 200 (), s\<lparr>patroller_pins := store_pin (pin_me env) h (patroller_pins s)\<rparr>))"

text \<open>The statement that counts a failure and locks from the limit on.\<close>

definition count_failure :: "instant \<Rightarrow> pin_row \<Rightarrow> pin_row" where
  "count_failure t r =
     r\<lparr>failed_attempts := failed_attempts r + 1,
       pin_locked_until := (if patrolPINMaxAttempts \<le> failed_attempts r + 1 then Some (t + patrolPINLockout) else pin_locked_until r)\<rparr>"

definition clear_failures :: "instant \<Rightarrow> pin_row \<Rightarrow> pin_row" where
  "clear_failures t r = r\<lparr>last_verified_at := Some t, failed_attempts := 0, pin_locked_until := None\<rparr>"

definition update_pin :: "string \<Rightarrow> (pin_row \<Rightarrow> pin_row) \<Rightarrow> pin_store \<Rightarrow> pin_store" where
  "update_pin user f s = s\<lparr>patroller_pins := update_where (\<lambda>r. pin_user r = user) f (patroller_pins s)\<rparr>"

text \<open>
  A wrong PIN. The error of counting it is dropped: the scanned variables then keep their zero values,
  no failure and no lock.
\<close>

datatype verify_body = Verified | PinWrong int | PinLockedUntil "instant option"

definition scanned_failure :: "pin_env \<Rightarrow> pin_store \<Rightarrow> (int \<times> instant option) \<times> pin_store" where
  "scanned_failure env s =
     (if pin_failing env CallPinFail then ((0, None), s)
      else
        let s' = update_pin (pin_me env) (count_failure (pin_now env)) s in
        (case pin_of (pin_me env) s' of None \<Rightarrow> (0, None) | Some r \<Rightarrow> (failed_attempts r, pin_locked_until r), s'))"

definition wrong_pin :: "pin_env \<Rightarrow> pin_store \<Rightarrow> verify_body reply \<times> pin_store" where
  "wrong_pin env s =
     (let ((attempts, locked_until), s') = scanned_failure env s;
          left = (if patrolPINMaxAttempts - attempts < 0 then 0 else patrolPINMaxAttempts - attempts);
          locked = (case locked_until of None \<Rightarrow> False | Some u \<Rightarrow> pin_now env < u)
      in if locked then (Reply 429 (PinLockedUntil locked_until), s') else (Reply 401 (PinWrong left), s'))"

definition VerifyPatrolPIN :: "pin_env \<Rightarrow> string option \<Rightarrow> pin_store \<Rightarrow> verify_body reply \<times> pin_store" where
  "VerifyPatrolPIN env body s =
     (case body of
        None \<Rightarrow> (Reject 400 ''INVALID_REQUEST'', s)
      | Some pin0 \<Rightarrow>
          let pin = trim_space pin0 in
          case loadPatrolPIN env s of
            None \<Rightarrow> (Reject 500 ''INTERNAL_ERROR'', s)
          | Some (h, st) \<Rightarrow>
              if \<not> PinSet st then (Reject 409 ''PIN_NOT_SET'', s)
              else if PinLocked st then (Reject 429 ''PIN_LOCKED'', s)
              else if \<not> pin_compare env h pin then wrong_pin env s
              else (Reply 200 Verified, if pin_failing env CallPinClear then s else update_pin (pin_me env) (clear_failures (pin_now env)) s))"

definition ResetPatrolPIN :: "pin_env \<Rightarrow> string \<Rightarrow> pin_store \<Rightarrow> unit reply \<times> pin_store" where
  "ResetPatrolPIN env target0 s =
     (let target = trim_space target0 in
      if target = [] then (Reject 400 ''INVALID_REQUEST'', s)
      else if pin_failing env CallPinDelete then (Reject 500 ''INTERNAL_ERROR'', s)
      else if affected (\<lambda>r. pin_user r = target) (patroller_pins s) = 0 then (Reject 404 ''NOT_FOUND'', s)
      else (Reply 200 (), s\<lparr>patroller_pins := delete_where (\<lambda>r. pin_user r = target) (patroller_pins s),
             pin_audit := (if pin_failing env CallPinAudit then pin_audit s
                           else pin_audit s @ [(pin_me env, ''PATROL_PIN_RESET'', target)])\<rparr>))"

section \<open>Which PINs pass\<close>

text \<open>A reference for the three flags: all digits equal, each one more, each one less than the last.\<close>

definition repeated :: "nat list \<Rightarrow> bool" where
  "repeated ds = (\<forall>d \<in> set ds. d = hd ds)"

definition running :: "int \<Rightarrow> nat list \<Rightarrow> bool" where
  "running k ds = (\<forall>i < length ds - 1. int (ds ! Suc i) = int (ds ! i) + k)"

lemma pin_flags_all:
  "pin_flags pin i n (a, b, c) =
     (a \<and> (\<forall>j. i \<le> j \<and> j < i + n \<longrightarrow> byte_at pin j = byte_at pin 0),
      b \<and> (\<forall>j. i \<le> j \<and> j < i + n \<longrightarrow> byte_at pin j = byte_at pin (j - 1) + 1),
      c \<and> (\<forall>j. i \<le> j \<and> j < i + n \<longrightarrow> byte_at pin j = byte_at pin (j - 1) - 1))"
proof (induction n arbitrary: i a b c)
  case (Suc n)
  have "(\<forall>j. i \<le> j \<and> j < i + Suc n \<longrightarrow> P j) \<longleftrightarrow> P i \<and> (\<forall>j. Suc i \<le> j \<and> j < Suc i + n \<longrightarrow> P j)" for P
    by (metis Suc_leD Suc_le_eq add_Suc add_Suc_right le_add1 le_neq_implies_less less_Suc_eq_le order_refl)
  then show ?case
    by (simp add: Suc.IH conj_ac del: add_Suc_right)
qed auto

lemma byte_at_digit:
  assumes "list_all is_digit pin" and "i < length pin"
  shows "byte_at pin i = of_nat (48 + digit_value (pin ! i)) \<and> digit_value (pin ! i) < 10"
proof -
  from assms have "is_digit (pin ! i)"
    by (simp add: list_all_length)
  then show ?thesis
    by (auto simp: is_digit_def Let_def byte_at_def digit_value_def)
qed

lemma small_byte_inj: "a < 256 \<Longrightarrow> b < 256 \<Longrightarrow> (of_nat a :: byte) = of_nat b \<longleftrightarrow> a = b"
  by (simp add: word_of_nat_eq_iff take_bit_eq_mod)

lemma digit_byte_eq:
  assumes "a < 10" "b < 10"
  shows "((of_nat (48 + a) :: byte) = of_nat (48 + b)) \<longleftrightarrow> a = b"
    and "((of_nat (48 + a) :: byte) = of_nat (48 + b) + 1) \<longleftrightarrow> int a = int b + 1"
    and "((of_nat (48 + a) :: byte) = of_nat (48 + b) - 1) \<longleftrightarrow> int a = int b - 1"
proof -
  have up: "(of_nat n :: byte) + 1 = of_nat (Suc n)" for n
    by simp
  have down: "(x :: byte) = y - 1 \<longleftrightarrow> x + 1 = y" for x y
    by (auto simp: algebra_simps)
  show "((of_nat (48 + a) :: byte) = of_nat (48 + b)) \<longleftrightarrow> a = b"
    using assms by (subst small_byte_inj) auto
  show "((of_nat (48 + a) :: byte) = of_nat (48 + b) + 1) \<longleftrightarrow> int a = int b + 1"
    using assms by (subst up, subst small_byte_inj) auto
  show "((of_nat (48 + a) :: byte) = of_nat (48 + b) - 1) \<longleftrightarrow> int a = int b - 1"
    using assms by (subst down, subst up, subst small_byte_inj) auto
qed

lemma byte_at_compare:
  assumes "list_all is_digit pin" and "i < length pin" and "j < length pin"
  shows "byte_at pin i = byte_at pin j \<longleftrightarrow> digit_value (pin ! i) = digit_value (pin ! j)"
    and "byte_at pin i = byte_at pin j + 1 \<longleftrightarrow> int (digit_value (pin ! i)) = int (digit_value (pin ! j)) + 1"
    and "byte_at pin i = byte_at pin j - 1 \<longleftrightarrow> int (digit_value (pin ! i)) = int (digit_value (pin ! j)) - 1"
  using byte_at_digit [OF assms(1,2)] byte_at_digit [OF assms(1,3)] digit_byte_eq by metis+

lemma shift_index: "(\<forall>j. Suc 0 \<le> j \<and> j < n \<longrightarrow> P j) \<longleftrightarrow> (\<forall>i < n - 1. P (Suc i))"
  by (metis Suc_le_D Suc_less_eq2 Suc_pred' gr_zeroI less_diff_conv not_less_zero plus_1_eq_Suc add.commute Suc_le_mono le0)

lemma flags_reference:
  assumes "list_all is_digit pin" and "pin \<noteq> []"
  shows "pin_flags pin 1 (length pin - 1) (True, True, True) =
    (repeated (map digit_value pin), running 1 (map digit_value pin), running (- 1) (map digit_value pin))"
proof -
  have "repeated (map digit_value pin) \<longleftrightarrow> (\<forall>i < length pin - 1. digit_value (pin ! Suc i) = digit_value (pin ! 0))"
    using assms(2) by (cases pin) (auto simp: repeated_def all_set_conv_all_nth)
  moreover have "0 < length pin"
    using assms(2) by simp
  ultimately show ?thesis
    using assms(1) by (auto simp: pin_flags_all shift_index running_def byte_at_compare)
qed

text \<open>
  A PIN may be set exactly when it is four to eight digits, not one digit repeated, and not a run
  of digits each one above or each one below the last; the byte arithmetic of the loop, which wraps,
  agrees with the arithmetic of the digits.
\<close>

theorem valid_pin_reference:
  "validPatrolPIN pin = None \<longleftrightarrow>
     4 \<le> length pin \<and> length pin \<le> 8 \<and> list_all is_digit pin \<and> \<not> repeated (map digit_value pin)
       \<and> \<not> running 1 (map digit_value pin) \<and> \<not> running (- 1) (map digit_value pin)"
proof (cases "4 \<le> length pin \<and> length pin \<le> 8 \<and> list_all is_digit pin")
  case True
  then have "pin \<noteq> []"
    by auto
  with True show ?thesis
    using flags_reference [of pin] by (simp add: validPatrolPIN_def patrolPINMinLen_def patrolPINMaxLen_def)
next
  case False
  then show ?thesis
    by (auto simp: validPatrolPIN_def patrolPINMinLen_def patrolPINMaxLen_def)
qed

section \<open>The lockout\<close>

interpretation pin_lock: lockout count_failure failed_attempts locked_at patrolPINMaxAttempts patrolPINLockout
  by unfold_locales (auto simp: count_failure_def locked_at_def)

text \<open>A sequence of requests to verify, each a time and the PIN sent.\<close>

definition attempt :: "pin_env \<Rightarrow> pin_store \<Rightarrow> instant \<times> string \<Rightarrow> pin_store" where
  "attempt env s g = snd (VerifyPatrolPIN (env\<lparr>pin_now := fst g\<rparr>) (Some (snd g)) s)"

lemma pin_of_update:
  "pin_of u s = Some r \<Longrightarrow> (\<And>x. pin_user (f x) = pin_user x) \<Longrightarrow> pin_of u (update_pin u f s) = Some (f r)"
  by (auto simp: pin_of_def update_pin_def dest: select_one_Some intro!: trans [OF select_update])

lemma load_own:
  "pin_of (pin_me env) s = Some r \<Longrightarrow> \<not> pin_failing env CallPinLoad \<Longrightarrow>
     \<exists>st. loadPatrolPIN env s = Some (pin_hash r, st) \<and> PinSet st \<and> PinLocked st = locked_at (pin_now env) r"
  by (simp add: loadPatrolPIN_def Let_def)

lemma verify_locked:
  "pin_of (pin_me env) s = Some r \<Longrightarrow> \<not> pin_failing env CallPinLoad \<Longrightarrow> locked_at (pin_now env) r \<Longrightarrow>
     VerifyPatrolPIN env (Some p) s = (Reject 429 ''PIN_LOCKED'', s)"
  by (drule (1) load_own) (auto simp: VerifyPatrolPIN_def)

lemma verify_right:
  "pin_of (pin_me env) s = Some r \<Longrightarrow> \<not> pin_failing env CallPinLoad \<Longrightarrow> \<not> locked_at (pin_now env) r \<Longrightarrow>
     pin_compare env (pin_hash r) (trim_space p) \<Longrightarrow> \<not> pin_failing env CallPinClear \<Longrightarrow>
     VerifyPatrolPIN env (Some p) s = (Reply 200 Verified, update_pin (pin_me env) (clear_failures (pin_now env)) s)"
  by (drule (1) load_own) (auto simp: VerifyPatrolPIN_def)

lemma verify_wrong:
  "pin_of (pin_me env) s = Some r \<Longrightarrow> \<not> pin_failing env CallPinLoad \<Longrightarrow> \<not> locked_at (pin_now env) r \<Longrightarrow>
     \<not> pin_compare env (pin_hash r) (trim_space p) \<Longrightarrow> VerifyPatrolPIN env (Some p) s = wrong_pin env s"
  by (drule (1) load_own) (auto simp: VerifyPatrolPIN_def)

lemma wrong_pin_counts:
  "\<not> pin_failing env CallPinFail \<Longrightarrow> snd (wrong_pin env s) = update_pin (pin_me env) (count_failure (pin_now env)) s"
  by (simp add: wrong_pin_def scanned_failure_def Let_def split: prod.splits)

lemma attempt_wrong:
  assumes "pin_of (pin_me env) s = Some r" and "\<not> locked_at t r" and "\<not> pin_compare env (pin_hash r) (trim_space p)"
    and "\<not> pin_failing env CallPinLoad" and "\<not> pin_failing env CallPinFail"
  shows "pin_of (pin_me env) (attempt env s (t, p)) = Some (count_failure t r)"
  using assms verify_wrong [of "env\<lparr>pin_now := t\<rparr>" s r p] wrong_pin_counts [of "env\<lparr>pin_now := t\<rparr>" s]
  by (simp add: attempt_def pin_of_update count_failure_def)

lemma attempts_wrong:
  assumes "\<not> pin_failing env CallPinLoad" and "\<not> pin_failing env CallPinFail"
  shows "pin_of (pin_me env) s = Some r \<Longrightarrow> pin_locked_until r = None \<Longrightarrow>
    failed_attempts r + int (length gs) \<le> patrolPINMaxAttempts \<Longrightarrow>
    \<forall>g \<in> set gs. \<not> pin_compare env (pin_hash r) (trim_space (snd g)) \<Longrightarrow>
    pin_of (pin_me env) (foldl (attempt env) s gs) = Some (foldl (\<lambda>r t. count_failure t r) r (map fst gs))"
proof (induction gs arbitrary: s r)
  case (Cons g gs)
  have row: "pin_of (pin_me env) (attempt env s g) = Some (count_failure (fst g) r)"
    using Cons.prems assms attempt_wrong [of env s r "fst g" "snd g"] by (simp add: locked_at_def)
  show ?case
  proof (cases gs)
    case Nil
    then show ?thesis
      using row by simp
  next
    case Cons_gs: (Cons _ _)
    then show ?thesis
      using Cons.IH [OF row] Cons.prems by (simp add: count_failure_def)
  qed
qed simp

text \<open>
  C31. Five wrong PINs on a clean row lock it for fifteen minutes after the last: until then every PIN,
  the right one too, is answered 429 and changes nothing. The count outlives the lock: afterwards the
  status reports five attempts left, yet one more wrong PIN locks again for fifteen minutes, while
  the right PIN is accepted.
\<close>

theorem pin_lockout:
  assumes row: "pin_of (pin_me env) s = Some r" and "failed_attempts r = 0" and "pin_locked_until r = None"
    and "pin_failing env = (\<lambda>_. False)" and five: "length gs = 5"
    and "\<forall>g \<in> set gs. \<not> pin_compare env (pin_hash r) (trim_space (snd g))"
    and "env' = env\<lparr>pin_now := t\<rparr>" and "s' = foldl (attempt env) s gs" and "until = fst (last gs) + 15 * minute"
  shows "if t < until then VerifyPatrolPIN env' (Some p) s' = (Reject 429 ''PIN_LOCKED'', s')
    else if pin_compare env (pin_hash r) (trim_space p) then fst (VerifyPatrolPIN env' (Some p) s') = Reply 200 Verified
    else PatrolPINStatus env' s' = Reply 200 \<lparr>PinSet = True, PinLocked = False, LockedUntil = None, AttemptsLeft = 5\<rparr>
      \<and> fst (VerifyPatrolPIN env' (Some p) s') = Reply 429 (PinLockedUntil (Some (t + 15 * minute)))"
proof -
  define r' where "r' = foldl (\<lambda>r t. count_failure t r) r (map fst gs)"
  have "pin_hash (foldl (\<lambda>r t. count_failure t r) x ts) = pin_hash x" for x ts
    by (induction ts arbitrary: x) (auto simp: count_failure_def)
  then have hash: "pin_hash r' = pin_hash r"
    by (simp add: r'_def)
  have row': "pin_of (pin_me env) s' = Some r'"
    unfolding assms(8) r'_def by (rule attempts_wrong) (use assms in \<open>auto simp: patrolPINMaxAttempts_def\<close>)
  have gs: "gs \<noteq> []"
    using five by auto
  then have locked: "locked_at t r' \<longleftrightarrow> t < until"
    using pin_lock.locked_after [of "map fst gs" r t] assms(2,9) five
    by (simp add: r'_def last_map patrolPINMaxAttempts_def patrolPINLockout_def)
  have count: "failed_attempts r' = 5"
    using assms(2) five by (simp add: r'_def pin_lock.count_fails)
  consider "t < until" | "until \<le> t" "pin_compare env (pin_hash r) (trim_space p)"
    | "until \<le> t" "\<not> pin_compare env (pin_hash r) (trim_space p)"
    by linarith
  then show ?thesis
  proof cases
    case 1
    then show ?thesis
      using verify_locked [of env' s' r' p] row' locked assms(4,7) by simp
  next
    case 2
    then show ?thesis
      using verify_right [of env' s' r' p] row' locked assms(4,7) hash by simp
  next
    case 3
    then show ?thesis
      using verify_wrong [of env' s' r' p] pin_of_update [OF row', of "count_failure t"] row' locked count hash assms(4,7)
      by (simp add: PatrolPINStatus_def loadPatrolPIN_def wrong_pin_def scanned_failure_def Let_def
          patrolPINMaxAttempts_def patrolPINLockout_def minute_def second_def count_failure_def)
  qed
qed

definition example_pin_env :: pin_env where
  "example_pin_env = \<lparr>pin_now = 0, pin_failing = (\<lambda>_. False), pin_me = ''u'', pin_compare = (\<lambda>h p. h = p), pin_generate = Some\<rparr>"

definition example_pins :: pin_store where
  "example_pins = \<lparr>patroller_pins = [\<lparr>pin_user = ''u'', pin_hash = ''2580'', failed_attempts = 0, pin_locked_until = None,
     last_verified_at = None\<rparr>], pin_audit = []\<rparr>"

lemma example_pin_row: "pin_of (pin_me example_pin_env) example_pins = Some (hd (patroller_pins example_pins))"
  by (simp add: pin_of_def example_pins_def example_pin_env_def)

lemma example_trims: "trim_space ''1111'' = ''1111''" "trim_space ''2580'' = ''2580''" "trim_space ''1397'' = ''1397''"
  by code_simp+

lemma example_now: "example_pin_env = example_pin_env\<lparr>pin_now := 0\<rparr>"
  by (simp add: example_pin_env_def)

lemma example_pin_fields:
  "pin_failing example_pin_env = (\<lambda>_. False)" "pin_compare example_pin_env = (=)" "pin_generate example_pin_env = Some"
  "hd (patroller_pins example_pins) = \<lparr>pin_user = ''u'', pin_hash = ''2580'', failed_attempts = 0, pin_locked_until = None,
     last_verified_at = None\<rparr>"
  by (auto simp: example_pin_env_def example_pins_def)

theorem pin_lockout_witness:
  "fst (VerifyPatrolPIN example_pin_env (Some ''2580'') (foldl (attempt example_pin_env) example_pins (replicate 5 (0, ''1111''))))
     = Reject 429 ''PIN_LOCKED''"
  using pin_lockout [OF example_pin_row _ _ _ _ _ example_now refl refl, of "replicate 5 (0, ''1111'')" "''2580''"] example_trims
  by (simp add: example_pin_fields minute_def second_def)

section \<open>Changing a PIN\<close>

text \<open>
  A wrong current PIN sent to the endpoint that changes the PIN is refused but never counted:
  however many are tried, the table is as before, so that the next request with the right one still
  changes the PIN. The endpoint tests a current PIN without the lockout of the verification.
\<close>

theorem change_guesses_uncounted:
  assumes row: "pin_of (pin_me env) s = Some r" and "\<not> locked_at (pin_now env) r" and "\<not> pin_failing env CallPinLoad"
    and "validPatrolPIN (trim_space pin) = None"
    and "\<forall>g \<in> set gs. \<not> pin_compare env (pin_hash r) (trim_space g)"
    and "pin_compare env (pin_hash r) (trim_space cur)" and "trim_space cur \<noteq> trim_space pin"
    and "pin_generate env (trim_space pin) = Some h" and "\<not> pin_failing env CallPinStore"
  shows "foldl (\<lambda>s g. snd (SetPatrolPIN env (Some (pin, g)) s)) s gs = s
    \<and> (let (reply, s') = SetPatrolPIN env (Some (pin, cur)) s
       in reply = Reply 200 () \<and> map_option pin_hash (pin_of (pin_me env) s') = Some h)"
proof
  obtain st where st: "loadPatrolPIN env s = Some (pin_hash r, st)" "PinSet st" "\<not> PinLocked st"
    using load_own [OF row assms(3)] assms(2) by auto
  then have "snd (SetPatrolPIN env (Some (pin, g)) s) = s" if "g \<in> set gs" for g
    using assms(4,5) that by (simp add: SetPatrolPIN_def Let_def)
  then show "foldl (\<lambda>s g. snd (SetPatrolPIN env (Some (pin, g)) s)) s gs = s"
    by (induction gs) auto
  have "map_option pin_hash (pin_of (pin_me env) (s\<lparr>patroller_pins := store_pin (pin_me env) h (patroller_pins s)\<rparr>)) = Some h"
    using pins.lookup_upsert [of "\<lparr>pin_user = pin_me env, pin_hash = h, failed_attempts = 0, pin_locked_until = None, last_verified_at = None\<rparr>"]
    by (simp add: pin_of_def store_pin_def split: option.splits)
  then show "let (reply, s') = SetPatrolPIN env (Some (pin, cur)) s
      in reply = Reply 200 () \<and> map_option pin_hash (pin_of (pin_me env) s') = Some h"
    using st assms(4,6-) by (simp add: SetPatrolPIN_def Let_def)
qed

lemma example_new_pin: "validPatrolPIN ''1397'' = None"
  by code_simp

theorem change_guesses_uncounted_witness:
  "foldl (\<lambda>s g. snd (SetPatrolPIN example_pin_env (Some (''1397'', g)) s)) example_pins (replicate 10000 ''1111'') = example_pins"
  using change_guesses_uncounted [OF example_pin_row, where pin = "''1397''" and cur = "''2580''" and gs = "replicate 10000 ''1111''" and h = "''1397''"] example_trims
  by (simp add: example_pin_fields locked_at_def example_new_pin)

end
