(* ===== verification/Patrol.thy ===== *)
theory Patrol
  imports Sessions
begin

text \<open>
  A QA monitor's round (\<open>patrol.go\<close>, \<open>patrol_search.go\<close>, \<open>patrol_concurrent.go\<close>, \<open>patrol_notify.go\<close>): the
  handset on record, the week's timetable and the search, the batch of ticks, and the alerts they send.

  The state is the tables the handlers read and write. A connection with the tenant set sees
  only the rows of its tenant (\<open>seen\<close>). The casts of the server from text to a date, a timestamp, a UUID
  and a time of day, and from a timestamp to its date, are parameters of the request's environment, as
  is which statements the server refuses; a date is a day number, a time of day its minutes. The
  messages are the bytes of their UTF-8 encoding; their constant sender role and audience are left out.
\<close>

section \<open>State\<close>

record slot_row =
  ts_tenant :: string
  ts_unit :: string
  ts_offering :: "string option"
  ts_lecturer :: "string option"
  ts_room :: "string option"
  ts_venue :: "string option"
  ts_dow :: nat
  ts_start :: nat
  ts_minutes :: "int option"

record unit_row =
  cu_id :: string
  cu_tenant :: string
  cu_name :: "string option"
  cu_course :: "string option"
  cu_year :: "nat option"
  cu_semester :: "nat option"

record course_row =
  co_id :: string
  co_tenant :: string
  co_name :: "string option"
  co_department :: "string option"
  co_school :: "string option"

record offering_row =
  of_id :: string
  of_tenant :: string
  of_course :: "string option"
  of_session_type :: "string option"
  of_year :: "nat option"
  of_semester :: "nat option"
  of_intake :: "string option"
  of_mode :: "string option"

record lecturer_row =
  lec_id :: string
  lec_tenant :: string
  lec_staff :: "string option"
  lec_name :: "string option"
  lec_department :: "string option"
  lec_user :: "string option"

record user_row =
  us_id :: string
  us_tenant :: string
  us_role :: string
  us_name :: "string option"
  us_staff :: "string option"
  us_email :: "string option"
  us_department :: "string option"
  us_school :: "string option"
  us_active :: "bool option"

record venue_row =
  ve_id :: string
  ve_tenant :: string
  ve_name :: string
  ve_building :: "string option"
  ve_active :: "bool option"

record binding_row =
  b_user :: string
  b_tenant :: string
  b_fingerprint :: string
  b_bound :: instant
  b_seen :: instant

record patrol_log =
  pl_id :: string
  pl_tenant :: string
  pl_unit :: string
  pl_unit_name :: "string option"
  pl_course :: "string option"
  pl_lecturer :: string
  pl_lecturer_name :: "string option"
  pl_room :: "string option"
  pl_date :: nat
  pl_time :: string
  pl_taught :: bool
  pl_patroller :: string
  pl_patroller_name :: string
  pl_patroller_staff :: string
  pl_taken :: instant
  pl_device :: string
  pl_method :: string
  pl_offering :: "string option"
  pl_found_venue :: "string option"
  pl_found_time :: "string option"
  pl_found_date :: "nat option"
  pl_venue_changed :: bool
  pl_remarks :: "string option"
  pl_compensation :: bool
  pl_compensation_for :: "nat option"
  pl_compensation_at :: "instant option"
  pl_students :: "int option"
  pl_class :: "string option"
  pl_school :: "string option"
  pl_department :: "string option"
  pl_end :: "string option"

record app_notification =
  n_id :: string
  n_tenant :: string
  n_sender :: string
  n_unit :: "string option"
  n_subject :: string
  n_body :: string
  n_action :: "string option"
  n_action_ref :: "string option"

record extra_unit_row =
  ex_patrol :: string
  ex_unit :: string
  ex_name :: "string option"
  ex_course :: "string option"
  ex_class :: "string option"
  ex_school :: "string option"
  ex_department :: "string option"
  ex_resolved :: bool

record patrol_db =
  d_slots :: "slot_row table"
  d_units :: "unit_row table"
  d_courses :: "course_row table"
  d_offerings :: "offering_row table"
  d_venues :: "venue_row table"
  d_lecturers :: "lecturer_row table"
  d_assignments :: "(string \<times> string \<times> string \<times> string) list"
  d_users :: "user_row table"
  d_user_schools :: "(string \<times> string) list"
  d_schools :: "(string \<times> string \<times> string) list"
  d_bindings :: "binding_row table"
  d_logs :: "patrol_log table"
  d_notifications :: "app_notification table"
  d_recipients :: "(string \<times> string \<times> string) list"
  d_audit :: "(string \<times> string \<times> string) list"
  d_extra_units :: "extra_unit_row table"

datatype patrol_call =
    PConn | PBinding | PSlots | PConcurrent | PUser | PLecturer | PNotify | PVenueQuery | PVenueNotify
  | PDelete | PAudit | PList | PGuard | PUnit | PStaff | PVenue | PManual | PDeleteExtra | PExtra

text \<open>
  One request. \<open>p_failing c i\<close> says that call \<open>c\<close> fails for the \<open>i\<close>-th element of the batch (0 outside a
  loop), \<open>p_unreachable i u\<close> that entering recipient \<open>u\<close> does; \<open>p_refuses\<close> says which log
  rows the server does not take, whatever id it gives them.
\<close>

record patrol_env =
  p_tenant :: string
  p_user :: string
  p_header :: string
  p_now :: instant
  p_today :: nat
  p_zone :: location
  p_failing :: "patrol_call \<Rightarrow> nat \<Rightarrow> bool"
  p_refuses :: "patrol_log \<Rightarrow> bool"
  p_date :: "string \<Rightarrow> nat option"
  p_timestamp :: "string \<Rightarrow> instant option"
  p_uuid :: "string \<Rightarrow> string option"
  p_time :: "string \<Rightarrow> nat option"
  p_day_of :: "instant \<Rightarrow> nat"
  p_fresh :: "nat \<Rightarrow> string"
  p_unreachable :: "nat \<Rightarrow> string \<Rightarrow> bool"

definition seen :: "patrol_env \<Rightarrow> ('r \<Rightarrow> string) \<Rightarrow> 'r table \<Rightarrow> 'r table" where
  "seen env tenant_of rows = filter (\<lambda>r. tenant_of r = p_tenant env) rows"

definition ready :: "patrol_env \<Rightarrow> bool" where
  "ready env = (\<not> p_failing env PConn 0 \<and> ValidTenantID (p_tenant env))"

section \<open>The handset\<close>

definition deviceFingerprint :: "patrol_env \<Rightarrow> string" where
  "deviceFingerprint env = trim_space (p_header env)"

text \<open>The row a call puts on record; a row of the user only changes its handset and time.\<close>

definition bind_row :: "patrol_env \<Rightarrow> string \<Rightarrow> binding_row" where
  "bind_row env fp = \<lparr>b_user = p_user env, b_tenant = p_tenant env, b_fingerprint = fp, b_bound = p_now env, b_seen = p_now env\<rparr>"

definition rebind :: "binding_row \<Rightarrow> binding_row \<Rightarrow> binding_row" where
  "rebind new old = old\<lparr>b_fingerprint := b_fingerprint new, b_seen := b_seen new\<rparr>"

definition record_handset :: "patrol_env \<Rightarrow> string \<Rightarrow> patrol_db \<Rightarrow> patrol_db" where
  "record_handset env fp s = s\<lparr>d_bindings := upsert b_user rebind (bind_row env fp) (d_bindings s)\<rparr>"

text \<open>The one-device lock is commented out in the source: nothing is refused.\<close>

definition checkPatrolDevice :: "patrol_env \<Rightarrow> patrol_db \<Rightarrow> bool \<times> patrol_db" where
  "checkPatrolDevice env s =
     (let fp = deviceFingerprint env in
      (True, if fp \<noteq> [] \<and> \<not> p_failing env PBinding 0 then record_handset env fp s else s))"

text \<open>\<open>body\<close> is the fingerprint of the body, empty when it does not decode.\<close>

definition BindPatrolDevice :: "patrol_env \<Rightarrow> string \<Rightarrow> patrol_db \<Rightarrow> bool reply \<times> patrol_db" where
  "BindPatrolDevice env body s =
     (let fp = (if deviceFingerprint env = [] then trim_space body else deviceFingerprint env) in
      if fp = [] then (Reject 400 ''INVALID_REQUEST'', s)
      else if \<not> ready env then (Reject 500 ''INTERNAL_ERROR'', s)
      else if p_failing env PBinding 0 then (Reject 500 ''INTERNAL_ERROR'', s)
      else (Reply 200 True, record_handset env fp s))"

record binding_view =
  bv_user :: string
  bv_name :: string
  bv_email :: string
  bv_staff :: string
  bv_bound :: instant
  bv_seen :: instant

definition binding_view_of :: "patrol_db \<Rightarrow> binding_row \<Rightarrow> binding_view list" where
  "binding_view_of s b =
     map (\<lambda>u. \<lparr>bv_user = b_user b, bv_name = or_empty (us_name u), bv_email = or_empty (us_email u),
             bv_staff = or_empty (us_staff u), bv_bound = b_bound b, bv_seen = b_seen b\<rparr>)
       (filter (\<lambda>u. us_id u = b_user b) (d_users s))"

definition ListPatrolBindings :: "patrol_env \<Rightarrow> patrol_db \<Rightarrow> binding_view list reply" where
  "ListPatrolBindings env s =
     (if \<not> ready env \<or> p_failing env PList 0 then Reject 500 ''INTERNAL_ERROR''
      else Reply 200 (concat (map (binding_view_of (s\<lparr>d_users := seen env us_tenant (d_users s)\<rparr>))
             (sort_key (\<lambda>b. - b_seen b) (seen env b_tenant (d_bindings s))))))"

definition ReleasePatrolBinding :: "patrol_env \<Rightarrow> string \<Rightarrow> patrol_db \<Rightarrow> nat reply \<times> patrol_db" where
  "ReleasePatrolBinding env user0 s =
     (let user = trim_space user0; mine = (\<lambda>b. b_tenant b = p_tenant env \<and> b_user b = user) in
      if user = [] then (Reject 400 ''INVALID_REQUEST'', s)
      else if \<not> ready env \<or> p_failing env PDelete 0 then (Reject 500 ''INTERNAL_ERROR'', s)
      else
        let n = affected mine (d_bindings s) in
        (Reply 200 n, s\<lparr>d_bindings := delete_where mine (d_bindings s),
           d_audit := (if 0 < n \<and> \<not> p_failing env PAudit 0
                       then d_audit s @ [(p_user env, ''PATROL_DEVICE_RELEASED'', user)] else d_audit s)\<rparr>))"

section \<open>The timetable of a round\<close>

record patrolSlotUnit =
  su_unit :: string
  su_name :: string
  su_course :: string
  su_offering :: string
  su_cohort :: string
  su_room :: string

record patrolSlot =
  sl_unit :: string
  sl_name :: string
  sl_course :: string
  sl_staff :: string
  sl_lecturer :: string
  sl_room :: string
  sl_room_code :: string
  sl_dow :: nat
  sl_start :: string
  sl_minutes :: int
  sl_offering :: string
  sl_cohort :: string
  sl_also :: "patrolSlotUnit list"

definition find_unit :: "patrol_env \<Rightarrow> patrol_db \<Rightarrow> string \<Rightarrow> unit_row option" where
  "find_unit env s u = select_one (\<lambda>r. cu_id r = u) (seen env cu_tenant (d_units s))"

definition find_offering :: "patrol_env \<Rightarrow> patrol_db \<Rightarrow> slot_row \<Rightarrow> offering_row option" where
  "find_offering env s ts =
     (case ts_offering ts of None \<Rightarrow> None | Some i \<Rightarrow> select_one (\<lambda>r. of_id r = i) (seen env of_tenant (d_offerings s)))"

text \<open>The latest assignment of the unit.\<close>

fun latest :: "(string \<times> string) list \<Rightarrow> (string \<times> string) option" where
  "latest [] = None"
| "latest ((l, y) # rest) = (case latest rest of Some (l', y') \<Rightarrow> if y < y' then Some (l', y') else Some (l, y) | None \<Rightarrow> Some (l, y))"

definition assigned_to :: "patrol_env \<Rightarrow> patrol_db \<Rightarrow> string \<Rightarrow> string option" where
  "assigned_to env s unit =
     map_option fst (latest (map (\<lambda>(_, _, l, y). (l, y)) (filter (\<lambda>(u, t, _). u = unit \<and> t = p_tenant env) (d_assignments s))))"

text \<open>The lecturer of a slot: its own, or the unit's assignment when it has none.\<close>

definition slot_lecturer :: "patrol_env \<Rightarrow> patrol_db \<Rightarrow> slot_row \<Rightarrow> lecturer_row option" where
  "slot_lecturer env s ts =
     (let wanted = (case ts_lecturer ts of Some l \<Rightarrow> Some l | None \<Rightarrow> assigned_to env s (ts_unit ts)) in
      select_one (\<lambda>l. Some (lec_id l) = wanted) (seen env lec_tenant (d_lecturers s)))"

text \<open>The label of a cohort, whose parts are joined by a middle dot.\<close>

definition middle_dot :: string where
  "middle_dot = '' '' @ [char_of (194 :: nat), char_of (183 :: nat)] @ '' ''"

definition cohort_label :: "patrol_env \<Rightarrow> patrol_db \<Rightarrow> offering_row option \<Rightarrow> string" where
  "cohort_label env s off =
     (case off of
        None \<Rightarrow> []
      | Some r \<Rightarrow>
          let course = (case of_course r of None \<Rightarrow> None
                | Some c \<Rightarrow> (case select_one (\<lambda>x. co_id x = c) (seen env co_tenant (d_courses s)) of None \<Rightarrow> None | Some x \<Rightarrow> co_name x))
          in join_with middle_dot (List.map_filter id
               [course, of_session_type r, map_option (\<lambda>y. ''Yr'' @ itoa y) (of_year r),
                map_option (\<lambda>y. ''Sem'' @ itoa y) (of_semester r), (case of_intake r of None \<Rightarrow> None | Some i \<Rightarrow> nullif i)]))"

definition in_person :: "patrol_env \<Rightarrow> patrol_db \<Rightarrow> slot_row \<Rightarrow> bool" where
  "in_person env s ts =
     (case find_offering env s ts of None \<Rightarrow> True | Some r \<Rightarrow> of_mode r \<noteq> Some ''ONLINE'')"

definition start_text :: "slot_row \<Rightarrow> string" where
  "start_text ts = format_hhmm (ts_start ts div 60) (ts_start ts mod 60)"

definition free_text :: "slot_row \<Rightarrow> string option" where
  "free_text ts = (case ts_room ts of None \<Rightarrow> None | Some r \<Rightarrow> nullif r)"

text \<open>The columns the manifest and the search select of a slot whose unit exists.\<close>

definition slot_view :: "patrol_env \<Rightarrow> patrol_db \<Rightarrow> slot_row \<Rightarrow> patrolSlot option" where
  "slot_view env s ts =
     (case find_unit env s (ts_unit ts) of
        None \<Rightarrow> None
      | Some u \<Rightarrow>
          let lec = slot_lecturer env s ts in
          Some \<lparr>sl_unit = ts_unit ts, sl_name = (case cu_name u of None \<Rightarrow> ts_unit ts | Some n \<Rightarrow> n),
            sl_course = or_empty (cu_course u),
            sl_staff = (case lec of None \<Rightarrow> [] | Some l \<Rightarrow> or_empty (lec_staff l)),
            sl_lecturer = (case lec of None \<Rightarrow> [] | Some l \<Rightarrow> or_empty (lec_name l)),
            sl_room = (case free_text ts of Some r \<Rightarrow> r | None \<Rightarrow> or_empty (ts_venue ts)),
            sl_room_code = or_empty (ts_venue ts), sl_dow = ts_dow ts, sl_start = start_text ts,
            sl_minutes = (case ts_minutes ts of None \<Rightarrow> 60 | Some m \<Rightarrow> m), sl_offering = or_empty (ts_offering ts),
            sl_cohort = cohort_label env s (find_offering env s ts), sl_also = []\<rparr>)"

definition round_slots :: "patrol_env \<Rightarrow> patrol_db \<Rightarrow> slot_row list" where
  "round_slots env s = filter (\<lambda>ts. ts_tenant ts = p_tenant env \<and> in_person env s ts) (d_slots s)"

section \<open>The other units in the room\<close>

text \<open>What the query of \<open>attachConcurrentUnits\<close> returns of a slot: lecturer, weekday, start, room and unit.\<close>

record concurrent_row =
  cr_staff :: string
  cr_dow :: nat
  cr_start :: string
  cr_room :: string
  cr_unit :: patrolSlotUnit

definition venue_name :: "patrol_env \<Rightarrow> patrol_db \<Rightarrow> string \<Rightarrow> string option" where
  "venue_name env s v =
     map_option ve_name (select_one (\<lambda>x. ve_id x = v) (seen env ve_tenant (d_venues s)))"

definition resolved_room :: "patrol_env \<Rightarrow> patrol_db \<Rightarrow> slot_row \<Rightarrow> string" where
  "resolved_room env s ts =
     (case free_text ts of
        Some r \<Rightarrow> r
      | None \<Rightarrow> (case ts_venue ts of
          None \<Rightarrow> [] | Some v \<Rightarrow> (case venue_name env s v of Some n \<Rightarrow> n | None \<Rightarrow> v)))"

definition concurrent_view :: "patrol_env \<Rightarrow> patrol_db \<Rightarrow> slot_row \<Rightarrow> concurrent_row option" where
  "concurrent_view env s ts =
     (case find_unit env s (ts_unit ts) of
        None \<Rightarrow> None
      | Some u \<Rightarrow>
          Some \<lparr>cr_staff = (case slot_lecturer env s ts of None \<Rightarrow> [] | Some l \<Rightarrow> or_empty (lec_staff l)),
            cr_dow = ts_dow ts, cr_start = start_text ts, cr_room = resolved_room env s ts,
            cr_unit = \<lparr>su_unit = ts_unit ts, su_name = (case cu_name u of None \<Rightarrow> ts_unit ts | Some n \<Rightarrow> n),
              su_course = or_empty (cu_course u), su_offering = or_empty (ts_offering ts),
              su_cohort = cohort_label env s (find_offering env s ts), su_room = resolved_room env s ts\<rparr>\<rparr>)"

definition norm :: "string \<Rightarrow> string" where
  "norm v = to_lower (trim_space v)"

definition same_lecture :: "patrolSlot \<Rightarrow> concurrent_row \<Rightarrow> bool" where
  "same_lecture me x =
     (norm (cr_staff x) = norm (sl_staff me) \<and> cr_dow x = sl_dow me \<and> cr_start x = sl_start me \<and>
      norm (cr_room x) = norm (sl_room me))"

definition same_entry :: "patrolSlot \<Rightarrow> concurrent_row \<Rightarrow> bool" where
  "same_entry me x = (norm (su_unit (cr_unit x)) = norm (sl_unit me) \<and> su_offering (cr_unit x) = sl_offering me)"

definition staff_ids :: "patrolSlot list \<Rightarrow> string list" where
  "staff_ids slots = remdups (filter (\<lambda>x. x \<noteq> []) (map (\<lambda>sl. trim_space (sl_staff sl)) slots))"

definition attachConcurrentUnits :: "patrol_env \<Rightarrow> patrol_db \<Rightarrow> patrolSlot list \<Rightarrow> patrolSlot list" where
  "attachConcurrentUnits env s slots =
     (if slots = [] \<or> staff_ids slots = [] \<or> p_failing env PConcurrent 0 then slots
      else
        let all = filter (\<lambda>x. cr_staff x \<in> set (staff_ids slots)) (List.map_filter (concurrent_view env s) (round_slots env s)) in
        map (\<lambda>me. me\<lparr>sl_also := sl_also me @ map cr_unit (filter (\<lambda>x. same_lecture me x \<and> \<not> same_entry me x) all)\<rparr>) slots)"

record manifest =
  m_date :: string
  m_dow :: nat
  m_slots :: "patrolSlot list"

definition PatrolManifest :: "patrol_env \<Rightarrow> patrol_db \<Rightarrow> manifest reply \<times> patrol_db" where
  "PatrolManifest env s =
     (if \<not> ready env then (Reject 500 ''INTERNAL_ERROR'', s)
      else
        let (ok, s) = checkPatrolDevice env s in
        if \<not> ok then (Reject 403 ''DEVICE_NOT_BOUND'', s)
        else if p_failing env PSlots 0 then (Reject 500 ''INTERNAL_ERROR'', s)
        else
          let slots = List.map_filter (slot_view env s)
                (sort_key (\<lambda>ts. ts_dow ts * 1440 + ts_start ts) (round_slots env s))
          in (Reply 200 \<lparr>m_date = Today utc (p_now env), m_dow = ISOWeekday (p_zone env) (p_now env),
                m_slots = attachConcurrentUnits env s slots\<rparr>, s))"

section \<open>The search\<close>

datatype search_mode = ByLecturer | ByUnit

definition search_mode_of :: "string \<Rightarrow> search_mode option" where
  "search_mode_of by0 =
     (let mode = to_lower (trim_space by0) in
      if mode = [] \<or> mode = ''lecturer'' then Some ByLecturer else if mode = ''unit'' then Some ByUnit else None)"

definition matches_search :: "patrol_env \<Rightarrow> patrol_db \<Rightarrow> search_mode \<Rightarrow> string \<Rightarrow> slot_row \<Rightarrow> bool" where
  "matches_search env s mode needle ts =
     (case mode of
        ByLecturer \<Rightarrow>
          (let lec = slot_lecturer env s ts;
               field = (\<lambda>f. btrim (to_lower (case lec of None \<Rightarrow> [] | Some l \<Rightarrow> or_empty (f l))))
           in sql_like needle (field lec_staff) \<or> sql_like needle (field lec_name))
      | ByUnit \<Rightarrow>
          sql_like needle (btrim (to_lower (ts_unit ts))) \<or>
          sql_like needle (btrim (to_lower (case find_unit env s (ts_unit ts) of None \<Rightarrow> [] | Some u \<Rightarrow> or_empty (cu_name u)))))"

definition PatrolSearch :: "patrol_env \<Rightarrow> string \<Rightarrow> string \<Rightarrow> patrol_db \<Rightarrow> patrolSlot list reply \<times> patrol_db" where
  "PatrolSearch env by0 q0 s =
     (let q = trim_space q0 in
      case search_mode_of by0 of
        None \<Rightarrow> (Reject 400 ''INVALID_REQUEST'', s)
      | Some mode \<Rightarrow>
          if q = [] then (Reply 200 [], s)
          else if \<not> ready env then (Reject 500 ''INTERNAL_ERROR'', s)
          else
            let (ok, s) = checkPatrolDevice env s in
            if \<not> ok then (Reject 403 ''DEVICE_NOT_BOUND'', s)
            else if p_failing env PSlots 0 then (Reject 500 ''INTERNAL_ERROR'', s)
            else
              let needle = to_lower (trim_space q) @ ''%'';
                  rows = filter (\<lambda>ts. ts_dow ts = ISOWeekday (p_zone env) (p_now env) \<and> find_unit env s (ts_unit ts) \<noteq> None \<and>
                           matches_search env s mode needle ts) (round_slots env s)
              in (Reply 200 (attachConcurrentUnits env s (List.map_filter (slot_view env s) (take 50 (sort_key ts_start rows)))), s))"

section \<open>The alerts\<close>

record patrolLogIn =
  li_unit :: string
  li_unit_name :: string
  li_course :: string
  li_lecturer :: string
  li_lecturer_name :: string
  li_room :: string
  li_date :: string
  li_time :: string
  li_taught :: bool
  li_taken_at :: string
  li_offering :: string
  li_found_venue :: string
  li_found_time :: string
  li_found_date :: string
  li_venue_changed :: bool
  li_remarks :: string
  li_compensation :: bool
  li_compensation_for :: string

definition patrolSenderName :: string where "patrolSenderName = ''QA Monitor''"

definition em_dash :: string where
  "em_dash = '' '' @ [char_of (226 :: nat), char_of (128 :: nat), char_of (148 :: nat)] @ '' ''"

definition arrow :: string where
  "arrow = '' '' @ [char_of (226 :: nat), char_of (134 :: nat), char_of (146 :: nat)] @ '' ''"

text \<open>Layout \<open>Mon 2 Jan 2006\<close>; day 0 of the calendar was a Saturday.\<close>

definition weekday_names :: "string list" where
  "weekday_names = [''Sun'', ''Mon'', ''Tue'', ''Wed'', ''Thu'', ''Fri'', ''Sat'']"

definition month_names :: "string list" where
  "month_names = [''Jan'', ''Feb'', ''Mar'', ''Apr'', ''May'', ''Jun'', ''Jul'', ''Aug'', ''Sep'', ''Oct'', ''Nov'', ''Dec'']"

definition long_date :: "date \<Rightarrow> string" where
  "long_date d = weekday_names ! ((day_number d + 6) mod 7) @ '' '' @ itoa (day d) @ '' '' @ month_names ! (month d - 1)
     @ '' '' @ pad_decimal 4 (year d)"

definition lectureWhen :: "string \<Rightarrow> string \<Rightarrow> string" where
  "lectureWhen date0 start0 =
     (let date = trim_space date0; start = trim_space start0;
          day_text = (case parse_ymd date of None \<Rightarrow> date | Some d \<Rightarrow> long_date d)
      in if day_text \<noteq> [] \<and> start \<noteq> [] then day_text @ '' at '' @ start
         else if start \<noteq> [] then ''at '' @ start
         else day_text)"

definition nonBlank :: "string list \<Rightarrow> string list" where
  "nonBlank parts = filter (\<lambda>p. p \<noteq> []) (map trim_space parts)"

definition changes_of :: "patrolLogIn \<Rightarrow> string list" where
  "changes_of l =
     (let v = trim_space (li_found_venue l); room = trim_space (li_room l);
          t = trim_space (li_found_time l); d = trim_space (li_found_date l);
          changes =
            (if v \<noteq> [] \<and> \<not> equal_fold v room
             then [''room: '' @ (if room = [] then ''no room on the timetable'' else room) @ arrow @ v] else []) @
            (if t \<noteq> [] \<and> t \<noteq> trim_space (li_time l) then [''time: '' @ li_time l @ arrow @ t] else []) @
            (if d \<noteq> [] \<and> d \<noteq> trim_space (li_date l) then [''date: '' @ li_date l @ arrow @ d] else [])
      in if changes = [] then [''details differ from the published timetable''] else changes)"

definition newline :: string where
  "newline = [char_of (10 :: nat)]"

definition venueChangeMessage :: "patrolLogIn \<Rightarrow> string \<times> string" where
  "venueChangeMessage l =
     (let when = lectureWhen (li_date l) (li_time l);
          subject = ''Lecture moved: '' @ trim_space (li_unit_name l)
            @ (if li_course l \<noteq> [] then '' ('' @ li_course l @ '')'' else []) @ (if when \<noteq> [] then em_dash @ when else []);
          detail = trim_space (join_with '', '' (nonBlank [when, li_room l]));
          published = ''its published slot'' @ (if detail \<noteq> [] then '' ('' @ detail @ '')'' else []);
          r = trim_space (li_remarks l)
      in (subject,
          ''The QA monitor found this lecture away from '' @ published @ em_dash @ join_with ''; '' (changes_of l) @ ''.''
          @ newline @ newline @ ''This change was not recorded on the timetable. If it is permanent, ask the ''
          @ ''Teaching & Learning Centre to update the published week; students are still ''
          @ ''being sent to the timetabled room.''
          @ (if r \<noteq> [] then newline @ newline @ ''Note recorded by the QA monitor: '' @ r else [])))"

text \<open>Who hears of a move: the lecturer, and the people whose remit covers the unit.\<close>

definition key_of :: "string \<Rightarrow> string" where
  "key_of v = btrim (to_lower v)"

definition unit_org :: "patrol_env \<Rightarrow> patrol_db \<Rightarrow> string \<Rightarrow> (string \<times> string) option" where
  "unit_org env s unit =
     (case select_one (\<lambda>u. cu_id u = unit \<and> cu_tenant u = p_tenant env \<and>
             (\<exists>c \<in> set (seen env co_tenant (d_courses s)). Some (co_id c) = cu_course u)) (d_units s) of
        None \<Rightarrow> None
      | Some u \<Rightarrow> map_option (\<lambda>c. (or_empty (co_department c), or_empty (co_school c)))
          (select_one (\<lambda>c. Some (co_id c) = cu_course u) (seen env co_tenant (d_courses s))))"

definition matches_name :: "string option \<Rightarrow> string \<Rightarrow> bool" where
  "matches_name v name = (name \<noteq> [] \<and> (case v of None \<Rightarrow> False | Some x \<Rightarrow> key_of x = key_of name))"

definition covers_school :: "patrol_db \<Rightarrow> string \<Rightarrow> string \<Rightarrow> bool" where
  "covers_school s user school =
     (school \<noteq> [] \<and> list_ex (\<lambda>(u, sid). u = user \<and> list_ex (\<lambda>(i, _, n). i = sid \<and> key_of n = key_of school) (d_schools s)) (d_user_schools s))"

definition overseer :: "patrol_db \<Rightarrow> string \<Rightarrow> string \<Rightarrow> user_row \<Rightarrow> bool" where
  "overseer s department school u =
     ((us_role u \<in> set [''HOD'', ''QA_DEPT_REP''] \<and> matches_name (us_department u) department) \<or>
      (us_role u \<in> set [''DEAN'', ''QA_SCHOOL_HANDLER''] \<and> matches_name (us_school u) school) \<or>
      (us_role u = ''QA_SCHOOL_HANDLER'' \<and> covers_school s (us_id u) school) \<or>
      us_role u \<in> set [''DQA_DIRECTOR'', ''QA_OFFICER''])"

definition lecturer_users :: "patrol_env \<Rightarrow> patrol_db \<Rightarrow> string \<Rightarrow> string list" where
  "lecturer_users env s staff =
     List.map_filter lec_user (filter (\<lambda>l. lec_tenant l = p_tenant env \<and>
       (case lec_staff l of None \<Rightarrow> False | Some x \<Rightarrow> key_of x = key_of staff)) (d_lecturers s))"

definition venueChangeRecipients :: "patrol_env \<Rightarrow> patrol_db \<Rightarrow> nat \<Rightarrow> string \<Rightarrow> string \<Rightarrow> string list" where
  "venueChangeRecipients env s i unit staff =
     (if p_failing env PVenueQuery i then []
      else remdups (nonBlank (lecturer_users env s staff @
        (case unit_org env s unit of
           None \<Rightarrow> []
         | Some (department, school) \<Rightarrow>
             map us_id (filter (\<lambda>u. us_tenant u = p_tenant env \<and> overseer s department school u) (d_users s))))))"

section \<open>A batch of ticks\<close>

text \<open>
  The row a tick is filed under: a date or a time in the future is clamped to today and now. A
  non-empty text that the server cannot cast fails the statement (\<open>None\<close>). \<open>n\<close> is the number of rows before.
\<close>

definition opt_cast :: "(string \<Rightarrow> 'a option) \<Rightarrow> string \<Rightarrow> 'a option option" where
  "opt_cast f v = (if v = [] then Some None else map_option Some (f v))"

definition or_default :: "'a \<Rightarrow> 'a option \<Rightarrow> 'a" where
  "or_default d v = (case v of None \<Rightarrow> d | Some x \<Rightarrow> x)"

definition tick_row :: "patrol_env \<Rightarrow> string \<times> string \<Rightarrow> nat \<Rightarrow> patrolLogIn \<Rightarrow> patrol_log option" where
  "tick_row env who n l =
     (case (opt_cast (p_date env) (li_date l), opt_cast (p_timestamp env) (li_taken_at l),
            opt_cast (p_uuid env) (li_offering l), opt_cast (p_date env) (li_found_date l),
            opt_cast (p_date env) (li_compensation_for l)) of
        (Some date, Some taken, Some off, Some found, Some made_good) \<Rightarrow>
          Some \<lparr>pl_id = p_fresh env n, pl_tenant = p_tenant env, pl_unit = li_unit l,
            pl_unit_name = Some (li_unit_name l), pl_course = Some (li_course l), pl_lecturer = li_lecturer l,
            pl_lecturer_name = Some (li_lecturer_name l), pl_room = Some (li_room l),
            pl_date = min (or_default (p_today env) date) (p_today env), pl_time = li_time l, pl_taught = li_taught l,
            pl_patroller = p_user env, pl_patroller_name = fst who, pl_patroller_staff = snd who,
            pl_taken = min (or_default (p_now env) taken) (p_now env), pl_device = deviceFingerprint env, pl_method = ''PATROL'',
            pl_offering = off, pl_found_venue = nullif (li_found_venue l), pl_found_time = nullif (li_found_time l),
            pl_found_date = found, pl_venue_changed = li_venue_changed l, pl_remarks = nullif (li_remarks l),
            pl_compensation = li_compensation l, pl_compensation_for = made_good, pl_compensation_at = None, pl_students = None,
            pl_class = None, pl_school = None, pl_department = None, pl_end = None\<rparr>
      | _ \<Rightarrow> None)"

definition zero_uuid :: string where
  "zero_uuid = ''00000000-0000-0000-0000-000000000000''"

text \<open>The unique index of the table, and what a second tick of the same slot changes.\<close>

definition slot_key :: "patrol_log \<Rightarrow> string \<times> string \<times> nat \<times> string \<times> string" where
  "slot_key r = (pl_tenant r, pl_unit r, pl_date r, pl_time r, (case pl_offering r of None \<Rightarrow> zero_uuid | Some i \<Rightarrow> i))"

definition retick :: "patrol_log \<Rightarrow> patrol_log \<Rightarrow> patrol_log" where
  "retick new old =
     old\<lparr>pl_taught := pl_taught new, pl_patroller := pl_patroller new, pl_patroller_name := pl_patroller_name new,
       pl_patroller_staff := pl_patroller_staff new, pl_taken := pl_taken new, pl_device := pl_device new,
       pl_found_venue := pl_found_venue new, pl_found_time := pl_found_time new, pl_found_date := pl_found_date new,
       pl_venue_changed := pl_venue_changed new, pl_remarks := pl_remarks new, pl_compensation := pl_compensation new,
       pl_compensation_for := pl_compensation_for new\<rparr>"

text \<open>A recipient of a notification is entered once.\<close>

definition add_recipient :: "patrol_env \<Rightarrow> nat \<Rightarrow> string \<Rightarrow> string \<Rightarrow> patrol_db \<Rightarrow> patrol_db" where
  "add_recipient env i nid user s =
     (if p_unreachable env i user \<or> list_ex (\<lambda>(n, _, u). n = nid \<and> u = user) (d_recipients s) then s
      else s\<lparr>d_recipients := d_recipients s @ [(nid, p_tenant env, user)]\<rparr>)"

definition tick_alert :: "patrolLogIn \<Rightarrow> string \<times> string \<times> string \<times> string" where
  "tick_alert l =
     (let when = lectureWhen (li_date l) (li_time l);
          subject = ''Monitor: '' @ li_unit_name l @ (if when \<noteq> [] then em_dash @ when else []);
          body = ''You were recorded as '' @ (if li_taught l then ''TAUGHT'' else ''NOT TAUGHT'') @ '' for '' @ li_unit_name l
            @ (if li_course l \<noteq> [] then '' ('' @ li_course l @ '')'' else []) @ (if when \<noteq> [] then '', '' @ when else [])
            @ (if li_room l \<noteq> [] then '', in '' @ li_room l else []) @ ''.''
      in if li_taught l then (subject, body, [], [])
         else (subject, body @ '' If you did teach it, say so here'' @ em_dash @ ''your account is filed ''
            @ ''beside the monitor's and read with it. It does not overturn the tick ''
            @ ''on its own; it makes sure there are two accounts and not one.'',
            ''APPEAL_NOT_TAUGHT'', li_unit l @ ''|'' @ li_date l @ ''|'' @ li_time l))"

definition alert_lecturer :: "patrol_env \<Rightarrow> nat \<Rightarrow> patrolLogIn \<Rightarrow> patrol_db \<Rightarrow> patrol_db" where
  "alert_lecturer env i l s =
     (case (if p_failing env PLecturer i then [] else lecturer_users env s (li_lecturer l)) of
        [] \<Rightarrow> s
      | account # _ \<Rightarrow>
          if account = [] \<or> p_failing env PNotify i then s
          else
            let (subject, body, action, ref) = tick_alert l; nid = p_fresh env (length (d_notifications s));
                s = s\<lparr>d_notifications := d_notifications s @ [\<lparr>n_id = nid, n_tenant = p_tenant env, n_sender = patrolSenderName,
                      n_unit = None, n_subject = subject, n_body = body, n_action = nullif action, n_action_ref = nullif ref\<rparr>]\<rparr>
            in add_recipient env i nid account s)"

definition alert_move :: "patrol_env \<Rightarrow> nat \<Rightarrow> patrolLogIn \<Rightarrow> patrol_db \<Rightarrow> patrol_db" where
  "alert_move env i l s =
     (let recips = venueChangeRecipients env s i (li_unit l) (li_lecturer l) in
      if \<not> li_venue_changed l \<or> recips = [] \<or> p_failing env PVenueNotify i then s
      else
        let (subject, body) = venueChangeMessage l; vid = p_fresh env (length (d_notifications s));
            s = s\<lparr>d_notifications := d_notifications s @ [\<lparr>n_id = vid, n_tenant = p_tenant env, n_sender = patrolSenderName,
                  n_unit = Some (li_unit l), n_subject = subject, n_body = body, n_action = None, n_action_ref = None\<rparr>]\<rparr>
        in fold (add_recipient env i vid) recips s)"

text \<open>One element of the loop: whether it counts as written, and the state.\<close>

definition sync_one :: "patrol_env \<Rightarrow> string \<times> string \<Rightarrow> nat \<Rightarrow> patrolLogIn \<Rightarrow> patrol_db \<Rightarrow> bool \<times> patrol_db" where
  "sync_one env who i l s =
     (if li_unit l = [] \<or> li_date l = [] then (False, s)
      else case tick_row env who (length (d_logs s)) l of
        None \<Rightarrow> (False, s)
      | Some row \<Rightarrow>
          if p_refuses env (row\<lparr>pl_id := []\<rparr>) then (False, s)
          else
            let s = s\<lparr>d_logs := upsert slot_key retick row (d_logs s)\<rparr>
            in (True, alert_move env i l (alert_lecturer env i l s)))"

fun sync_all :: "patrol_env \<Rightarrow> string \<times> string \<Rightarrow> nat \<Rightarrow> patrolLogIn list \<Rightarrow> patrol_db \<Rightarrow> nat \<times> patrol_db" where
  "sync_all env who i [] s = (0, s)"
| "sync_all env who i (l # ls) s =
     (let (ok, s) = sync_one env who i l s; (n, s) = sync_all env who (Suc i) ls s in ((if ok then Suc n else n), s))"

definition patroller_identity :: "patrol_env \<Rightarrow> patrol_db \<Rightarrow> string \<times> string" where
  "patroller_identity env s =
     (case (if p_failing env PUser 0 then None else select_one (\<lambda>u. us_id u = p_user env) (seen env us_tenant (d_users s))) of
        None \<Rightarrow> ([], []) | Some u \<Rightarrow> (or_empty (us_name u), or_empty (us_staff u)))"

definition PatrolSync :: "patrol_env \<Rightarrow> patrolLogIn list option \<Rightarrow> patrol_db \<Rightarrow> nat reply \<times> patrol_db" where
  "PatrolSync env body s =
     (case body of
        None \<Rightarrow> (Reject 400 ''INVALID_REQUEST'', s)
      | Some logs \<Rightarrow>
          if \<not> ready env then (Reject 500 ''INTERNAL_ERROR'', s)
          else
            let (ok, s) = checkPatrolDevice env s in
            if \<not> ok then (Reject 403 ''DEVICE_NOT_BOUND'', s)
            else let (n, s) = sync_all env (patroller_identity env s) 0 logs s in (Reply 200 n, s))"

text \<open>\<^verbatim>\<open>ORDER BY\<close> a text column: a value that is missing sorts last.\<close>

definition order_by :: "('r \<Rightarrow> string option) \<Rightarrow> 'r list \<Rightarrow> 'r list" where
  "order_by column rows =
     sort_key (\<lambda>r. or_empty (column r)) (filter (\<lambda>r. column r \<noteq> None) rows) @ filter (\<lambda>r. column r = None) rows"

text \<open>The monitors a message can address.\<close>

definition ListPatrollers :: "patrol_env \<Rightarrow> patrol_db \<Rightarrow> (string \<times> string \<times> string \<times> string) list reply" where
  "ListPatrollers env s =
     (if \<not> ready env \<or> p_failing env PList 0 then Reject 500 ''INTERNAL_ERROR''
      else Reply 200 (map (\<lambda>u. (us_id u, or_empty (us_staff u), or_empty (us_name u), or_empty (us_email u)))
        (order_by us_name (filter (\<lambda>u. us_tenant u = p_tenant env \<and> us_role u = ''QA_PATROLLER'' \<and> or_default True (us_active u)) (d_users s)))))"

end
