(* ===== verification/Patrol_Manual.thy ===== *)
theory Patrol_Manual
  imports Patrol
begin

text \<open>
  A lecture that was taught but never timetabled (\<open>patrol_manual.go\<close>): the lists the form picks from, the
  entry with its guard against lectures that are on the round, and the other units the same hour
  covered; with the time-of-day parsers of \<open>session_schedule.go\<close> and \<open>employee_sheet.go\<close> it uses.
\<close>

section \<open>Times of day\<close>

text \<open>The sum runs in a 64-bit \<open>int\<close> and wraps on more than eighteen digits.\<close>

definition atoiSafe :: "string \<Rightarrow> int" where
  "atoiSafe s = (if list_all is_digit s then sint (word_of_nat (decimal_value s) :: 64 word) else - 1)"

lemma atoiSafe_short: "length s \<le> 18 \<Longrightarrow> atoiSafe s = (if list_all is_digit s then int (decimal_value s) else - 1)"
proof -
  assume short: "length s \<le> 18"
  have "int (decimal_value s) < 2 ^ 63" if "list_all is_digit s"
  proof -
    have "decimal_value s < 10 ^ 18"
      using decimal_value_bound [OF that] power_increasing [OF short, of "10 :: nat"] by linarith
    then show ?thesis
      by simp
  qed
  then show "atoiSafe s = (if list_all is_digit s then int (decimal_value s) else - 1)"
    by (simp add: atoiSafe_def signed_of_nat signed_take_bit_int_eq_self)
qed

definition validHHMM :: "string \<Rightarrow> bool" where
  "validHHMM s =
     (if length s < 4 \<or> 5 < length s then False
      else if \<not> list_all (\<lambda>ch. ch = CHR '':'' \<or> is_digit ch) s then False
      else case last_index s (CHR '':'') of
        None \<Rightarrow> False
      | Some c \<Rightarrow>
          if c < 1 then False
          else
            let h = atoiSafe (take c s); m = atoiSafe (drop (c + 1) s) in
            0 \<le> h \<and> h \<le> 23 \<and> 0 \<le> m \<and> m \<le> 59)"

definition hhmmMinutes :: "string \<Rightarrow> int option" where
  "hhmmMinutes s0 =
     (case split_on (CHR '':'') (trim_space s0) of
        a # b # _ \<Rightarrow>
          (case (go_atoi (trim_space a), go_atoi (trim_space b)) of (Some h, Some m) \<Rightarrow> Some (h * 60 + m) | _ \<Rightarrow> None)
      | _ \<Rightarrow> None)"

definition endsAfter :: "string \<Rightarrow> string \<Rightarrow> bool" where
  "endsAfter start end = (case (hhmmMinutes start, hhmmMinutes end) of (Some a, Some b) \<Rightarrow> a < b | _ \<Rightarrow> False)"

text \<open>
  \<open>time.ParseInLocation\<close> on the layouts of \<open>parseCompensationAt\<close>: \<open>getnum\<close> reads two digits, or one where
  the layout allows it; seconds may carry a fraction; the zone is \<open>Z\<close> or an offset.
\<close>

fun getnum :: "bool \<Rightarrow> string \<Rightarrow> (nat \<times> string) option" where
  "getnum fixed (a # b # rest) =
     (if \<not> is_digit a then None
      else if is_digit b then Some (digit_value a * 10 + digit_value b, rest)
      else if fixed then None else Some (digit_value a, b # rest))"
| "getnum fixed [a] = (if is_digit a \<and> \<not> fixed then Some (digit_value a, []) else None)"
| "getnum fixed [] = None"

definition after_char :: "char \<Rightarrow> string \<Rightarrow> string option" where
  "after_char c s = (case s of x # rest \<Rightarrow> if x = c then Some rest else None | [] \<Rightarrow> None)"

definition below :: "nat \<Rightarrow> (nat \<times> string) option \<Rightarrow> (nat \<times> string) option" where
  "below n v = (case v of Some (k, rest) \<Rightarrow> if k < n then Some (k, rest) else None | None \<Rightarrow> None)"

definition parse_fraction :: "string \<Rightarrow> nat \<times> string" where
  "parse_fraction s =
     (case s of
        p # d # _ \<Rightarrow>
          if (p = CHR ''.'' \<or> p = CHR '','') \<and> is_digit d
          then let ds = takeWhile is_digit (tl s); kept = take 9 ds
               in (decimal_value kept * 10 ^ (9 - length kept), dropWhile is_digit (tl s))
          else (0, s)
      | _ \<Rightarrow> (0, s))"

text \<open>Seconds and nanoseconds, when the layout has them.\<close>

definition parse_seconds :: "bool \<Rightarrow> string \<Rightarrow> (duration \<times> string) option" where
  "parse_seconds secs s =
     (if \<not> secs then Some (0, s)
      else case Option.bind (after_char (CHR '':'') s) (\<lambda>r. below 60 (getnum True r)) of
        None \<Rightarrow> None
      | Some (sec, rest) \<Rightarrow> let (ns, rest) = parse_fraction rest in Some (int sec * second + int ns, rest))"

text \<open>The offset from UTC: that of the location where the layout has no zone.\<close>

definition parse_zone :: "bool \<Rightarrow> location \<Rightarrow> string \<Rightarrow> (duration \<times> string) option" where
  "parse_zone zoned loc s =
     (if \<not> zoned then Some (loc, s)
      else case s of
        [] \<Rightarrow> None
      | sign # rest \<Rightarrow>
          if sign = CHR ''Z'' then Some (0, rest)
          else if sign \<noteq> CHR ''+'' \<and> sign \<noteq> CHR ''-'' then None
          else (case below 25 (getnum True rest) of
            None \<Rightarrow> None
          | Some (h, rest) \<Rightarrow>
              (case Option.bind (after_char (CHR '':'') rest) (\<lambda>r. below 61 (getnum True r)) of
                 None \<Rightarrow> None
               | Some (m, rest) \<Rightarrow>
                   let off = int h * hour + int m * minute in Some (if sign = CHR ''-'' then - off else off, rest))))"

definition parse_layout :: "char \<Rightarrow> bool \<Rightarrow> bool \<Rightarrow> location \<Rightarrow> string \<Rightarrow> instant option" where
  "parse_layout sep secs zoned loc s =
     (case (parse_ymd (take 10 s), Option.bind (after_char sep (drop 10 s)) (\<lambda>r. below 24 (getnum False r))) of
        (Some d, Some (h, rest)) \<Rightarrow>
          (case Option.bind (after_char (CHR '':'') rest) (\<lambda>r. below 60 (getnum True r)) of
             None \<Rightarrow> None
           | Some (m, rest) \<Rightarrow>
               (case parse_seconds secs rest of
                  None \<Rightarrow> None
                | Some (sec, rest) \<Rightarrow>
                    (case parse_zone zoned loc rest of
                       None \<Rightarrow> None
                     | Some (off, rest) \<Rightarrow> if rest = [] then Some (at_civil off d h m + sec) else None)))
      | _ \<Rightarrow> None)"

fun first_some :: "'a option list \<Rightarrow> 'a option" where
  "first_some [] = None"
| "first_some (v # vs) = (case v of None \<Rightarrow> first_some vs | Some x \<Rightarrow> Some x)"

definition parseCompensationAt :: "location \<Rightarrow> string \<Rightarrow> string \<Rightarrow> instant option" where
  "parseCompensationAt loc at0 date_only =
     (let at = trim_space at0; d = trim_space date_only in
      first_some [parse_layout (CHR ''T'') True True loc at, parse_layout (CHR ''T'') False False loc at,
        parse_layout (CHR '' '') False False loc at, parse_layout (CHR ''T'') True False loc at,
        if d \<noteq> [] then ParseDate loc d else None])"

section \<open>The lists of the form\<close>

definition class_group_of :: "unit_row \<Rightarrow> string" where
  "class_group_of u =
     (case (cu_year u, cu_semester u) of (Some y, Some n) \<Rightarrow> itoa y @ '':'' @ itoa n | _ \<Rightarrow> [])"

definition unit_course :: "patrol_env \<Rightarrow> patrol_db \<Rightarrow> unit_row \<Rightarrow> string \<times> string" where
  "unit_course env s u =
     (case select_one (\<lambda>c. Some (co_id c) = cu_course u) (seen env co_tenant (d_courses s)) of
        None \<Rightarrow> ([], []) | Some c \<Rightarrow> (or_empty (co_department c), or_empty (co_school c)))"

record reference_unit =
  ru_unit :: string
  ru_name :: string
  ru_course :: string
  ru_department :: string
  ru_school :: string
  ru_class :: string

definition reference_unit_of :: "patrol_env \<Rightarrow> patrol_db \<Rightarrow> unit_row \<Rightarrow> reference_unit" where
  "reference_unit_of env s u =
     \<lparr>ru_unit = cu_id u, ru_name = or_empty (cu_name u), ru_course = or_empty (cu_course u),
      ru_department = fst (unit_course env s u), ru_school = snd (unit_course env s u), ru_class = class_group_of u\<rparr>"

record reference_lists =
  rl_rooms :: "(string \<times> string \<times> string) list"
  rl_units :: "reference_unit list"
  rl_lecturers :: "(string \<times> string \<times> string) list"
  rl_schools :: "string list"

definition unless :: "bool \<Rightarrow> 'a list \<Rightarrow> 'a list" where
  "unless failed rows = (if failed then [] else rows)"

text \<open>The four queries fail independently (call \<open>PList\<close>, one to four).\<close>

definition PatrolReference :: "patrol_env \<Rightarrow> patrol_db \<Rightarrow> reference_lists reply" where
  "PatrolReference env s =
     (if \<not> ready env then Reject 500 ''INTERNAL_ERROR''
      else Reply 200
        \<lparr>rl_rooms = unless (p_failing env PList 1) (map (\<lambda>v. (ve_id v, ve_name v, or_empty (ve_building v)))
           (sort_key ve_id (filter (\<lambda>v. ve_tenant v = p_tenant env \<and> or_default True (ve_active v)) (d_venues s)))),
         rl_units = unless (p_failing env PList 2) (map (reference_unit_of env s)
           (sort_key cu_id (seen env cu_tenant (d_units s)))),
         rl_lecturers = unless (p_failing env PList 3) (map (\<lambda>l. (or_empty (lec_staff l), or_empty (lec_name l), or_empty (lec_department l)))
           (order_by lec_name (filter (\<lambda>l. or_empty (lec_staff l) \<noteq> []) (seen env lec_tenant (d_lecturers s))))),
         rl_schools = unless (p_failing env PList 4) (filter (\<lambda>n. trim_space n \<noteq> [])
           (sort (map (\<lambda>(_, _, n). n) (filter (\<lambda>(_, t, _). t = p_tenant env) (d_schools s)))))\<rparr>)"

section \<open>The entry\<close>

record manualExtraUnit =
  xu_unit :: string
  xu_name :: string
  xu_class :: string
  xu_school :: string
  xu_department :: string

record manualEntry =
  me_room_id :: string
  me_room :: string
  me_unit :: string
  me_unit_name :: string
  me_staff :: string
  me_lecturer :: string
  me_class :: string
  me_school :: string
  me_department :: string
  me_students :: int
  me_also :: "manualExtraUnit list"
  me_date :: string
  me_time :: string
  me_end :: string
  me_taught :: bool
  me_remarks :: string
  me_compensation :: bool
  me_compensation_at :: string
  me_compensation_for :: string

definition trimmed_entry :: "manualEntry \<Rightarrow> manualEntry" where
  "trimmed_entry req =
     req\<lparr>me_unit := trim_space (me_unit req), me_unit_name := trim_space (me_unit_name req),
       me_staff := trim_space (me_staff req), me_lecturer := trim_space (me_lecturer req)\<rparr>"

text \<open>The first refusals; \<open>Inr\<close> carries the lecture a compensation makes good.\<close>

definition entry_checks :: "patrol_env \<Rightarrow> manualEntry \<Rightarrow> string + instant option" where
  "entry_checks env req =
     (if me_unit req = [] \<and> me_unit_name req = [] then Inl ''INVALID_REQUEST''
      else if me_staff req = [] \<and> me_lecturer req = [] then Inl ''INVALID_REQUEST''
      else if me_students req < 0 then Inl ''INVALID_REQUEST''
      else if \<not> me_compensation req then Inr None
      else case parseCompensationAt (p_zone env) (me_compensation_at req) (me_compensation_for req) of
        None \<Rightarrow> Inl ''COMPENSATION_FOR_REQUIRED''
      | Some at \<Rightarrow> if p_now env + 2 * minute < at then Inl ''COMPENSATION_IN_FUTURE'' else Inr (Some at))"

definition entry_date :: "patrol_env \<Rightarrow> manualEntry \<Rightarrow> string" where
  "entry_date env req = recent_date (p_zone env) (p_now env) (trim_space (me_date req))"

definition observed_at :: "patrol_env \<Rightarrow> manualEntry \<Rightarrow> string" where
  "observed_at env req =
     (let t = trim_space (me_time req) in if validHHMM t then t else HHMM (p_zone env) (p_now env))"

definition end_time_of :: "patrol_env \<Rightarrow> manualEntry \<Rightarrow> string" where
  "end_time_of env req =
     (let e = trim_space (me_end req) in if \<not> validHHMM e \<or> \<not> endsAfter (observed_at env req) e then [] else e)"

text \<open>The guard: a timetabled slot of the picked unit that covers the observed time today.\<close>

definition covers :: "slot_row \<Rightarrow> nat \<Rightarrow> bool" where
  "covers ts t =
     (int (ts_start ts) < int t + 1 \<and> int t < min (int (ts_start ts) + or_default 60 (ts_minutes ts)) 1440)"

definition on_the_round :: "patrol_env \<Rightarrow> patrol_db \<Rightarrow> string \<Rightarrow> string \<Rightarrow> slot_row option" where
  "on_the_round env s unit observed =
     (if unit = [] \<or> p_failing env PGuard 0 then None
      else case p_time env observed of
        None \<Rightarrow> None
      | Some t \<Rightarrow>
          (case sort_key ts_start (filter (\<lambda>ts. ts_tenant ts = p_tenant env \<and> ts_unit ts = unit \<and>
                  ts_dow ts = ISOWeekday (p_zone env) (p_now env) \<and> covers ts t) (d_slots s)) of
             [] \<Rightarrow> None | ts # _ \<Rightarrow> Some ts))"

text \<open>Resolving a unit: what was typed wins over what the curriculum says.\<close>

record resolved_unit =
  rs_unit :: string
  rs_name :: string
  rs_course :: string
  rs_class :: string
  rs_school :: string
  rs_department :: string
  rs_resolved :: bool

definition or_else :: "string \<Rightarrow> string \<Rightarrow> string" where
  "or_else a b = (if a = [] then b else a)"

definition curriculum_unit :: "patrol_env \<Rightarrow> patrol_db \<Rightarrow> nat \<Rightarrow> string \<Rightarrow> unit_row option" where
  "curriculum_unit env s i unit =
     (if p_failing env PUnit i then None
      else select_one (\<lambda>u. cu_id u = unit \<and> cu_tenant u = p_tenant env) (d_units s))"

definition resolve_unit :: "patrol_env \<Rightarrow> patrol_db \<Rightarrow> nat \<Rightarrow> resolved_unit \<Rightarrow> resolved_unit" where
  "resolve_unit env s i x =
     (if rs_unit x = [] then x\<lparr>rs_unit := take 50 (rs_name x)\<rparr>
      else case curriculum_unit env s i (rs_unit x) of
        None \<Rightarrow> x
      | Some u \<Rightarrow>
          x\<lparr>rs_name := or_else (rs_name x) (or_empty (cu_name u)), rs_course := or_empty (cu_course u),
            rs_school := or_else (rs_school x) (snd (unit_course env s u)),
            rs_department := or_else (rs_department x) (fst (unit_course env s u)),
            rs_class := or_else (rs_class x) (class_group_of u), rs_resolved := True\<rparr>)"

definition primary_unit :: "patrol_env \<Rightarrow> patrol_db \<Rightarrow> manualEntry \<Rightarrow> resolved_unit" where
  "primary_unit env s req =
     resolve_unit env s 0 \<lparr>rs_unit = me_unit req, rs_name = me_unit_name req, rs_course = [],
       rs_class = trim_space (me_class req), rs_school = trim_space (me_school req),
       rs_department = trim_space (me_department req), rs_resolved = False\<rparr>"

definition entry_lecturer :: "patrol_env \<Rightarrow> patrol_db \<Rightarrow> manualEntry \<Rightarrow> string \<times> string" where
  "entry_lecturer env s req =
     (if me_staff req = [] then (take 50 (me_lecturer req), me_lecturer req)
      else
        let found = (if p_failing env PStaff 0 then None
              else select_one (\<lambda>l. lec_tenant l = p_tenant env \<and>
                (case lec_staff l of None \<Rightarrow> False | Some x \<Rightarrow> key_of x = key_of (me_staff req))) (d_lecturers s));
            n = (case found of None \<Rightarrow> [] | Some l \<Rightarrow> or_empty (lec_name l))
        in (me_staff req, if n \<noteq> [] \<and> me_lecturer req = [] then n else me_lecturer req))"

definition entry_room :: "patrol_env \<Rightarrow> patrol_db \<Rightarrow> manualEntry \<Rightarrow> string" where
  "entry_room env s req =
     (let room = trim_space (me_room req); i = trim_space (me_room_id req) in
      if i = [] then room
      else case (if p_failing env PVenue 0 then None else venue_name env s i) of
        Some n \<Rightarrow> or_else room n | None \<Rightarrow> or_else room i)"

definition manual_row ::
  "patrol_env \<Rightarrow> patrol_db \<Rightarrow> manualEntry \<Rightarrow> instant option \<Rightarrow> patrol_log option" where
  "manual_row env s req made_good =
     (let u = primary_unit env s req; (lec, lec_name) = entry_lecturer env s req; who = patroller_identity env s in
      map_option (\<lambda>date.
        \<lparr>pl_id = p_fresh env (length (d_logs s)), pl_tenant = p_tenant env, pl_unit = rs_unit u, pl_unit_name = nullif (rs_name u),
         pl_course = nullif (rs_course u), pl_lecturer = lec, pl_lecturer_name = nullif lec_name,
         pl_room = nullif (entry_room env s req), pl_date = date, pl_time = observed_at env req, pl_taught = me_taught req,
         pl_patroller = p_user env, pl_patroller_name = fst who, pl_patroller_staff = snd who, pl_taken = p_now env,
         pl_device = deviceFingerprint env, pl_method = ''MANUAL'', pl_offering = None, pl_found_venue = None,
         pl_found_time = None, pl_found_date = None, pl_venue_changed = False, pl_remarks = nullif (me_remarks req),
         pl_compensation = me_compensation req, pl_compensation_for = map_option (p_day_of env) made_good,
         pl_compensation_at = made_good, pl_students = (if me_students req = 0 then None else Some (me_students req)),
         pl_class = nullif (rs_class u), pl_school = nullif (rs_school u), pl_department = nullif (rs_department u),
         pl_end = nullif (end_time_of env req)\<rparr>)
        (p_date env (entry_date env req)))"

definition refile :: "patrol_log \<Rightarrow> patrol_log \<Rightarrow> patrol_log" where
  "refile new old =
     old\<lparr>pl_taught := pl_taught new, pl_room := pl_room new, pl_lecturer := pl_lecturer new,
       pl_lecturer_name := pl_lecturer_name new, pl_patroller := pl_patroller new,
       pl_patroller_name := pl_patroller_name new, pl_patroller_staff := pl_patroller_staff new, pl_taken := pl_taken new,
       pl_remarks := pl_remarks new, pl_compensation := pl_compensation new, pl_compensation_for := pl_compensation_for new,
       pl_compensation_at := pl_compensation_at new, pl_students := pl_students new, pl_class := pl_class new,
       pl_school := pl_school new, pl_department := pl_department new, pl_end := pl_end new, pl_method := ''MANUAL''\<rparr>"

text \<open>The other units: blank ones and repeated codes are dropped, a refused insert is skipped.\<close>

definition extra_unit :: "patrol_env \<Rightarrow> patrol_db \<Rightarrow> string \<Rightarrow> nat \<Rightarrow> manualExtraUnit \<Rightarrow> resolved_unit" where
  "extra_unit env s school i e =
     (let x = resolve_unit env s i \<lparr>rs_unit = trim_space (xu_unit e), rs_name = trim_space (xu_name e), rs_course = [],
            rs_class = trim_space (xu_class e), rs_school = trim_space (xu_school e),
            rs_department = trim_space (xu_department e), rs_resolved = False\<rparr>
      in x\<lparr>rs_school := or_else (rs_school x) school\<rparr>)"

definition extra_row :: "string \<Rightarrow> resolved_unit \<Rightarrow> extra_unit_row" where
  "extra_row pid x =
     \<lparr>ex_patrol = pid, ex_unit = rs_unit x, ex_name = nullif (rs_name x), ex_course = nullif (rs_course x),
      ex_class = nullif (rs_class x), ex_school = nullif (rs_school x), ex_department = nullif (rs_department x),
      ex_resolved = rs_resolved x\<rparr>"

definition store_extra :: "extra_unit_row \<Rightarrow> patrol_db \<Rightarrow> patrol_db" where
  "store_extra row s =
     s\<lparr>d_extra_units := upsert (\<lambda>r. (ex_patrol r, ex_unit r)) (\<lambda>new old. old) row (d_extra_units s)\<rparr>"

fun writeExtraUnits ::
  "patrol_env \<Rightarrow> string \<Rightarrow> string \<Rightarrow> string list \<Rightarrow> nat \<Rightarrow> manualExtraUnit list \<Rightarrow> patrol_db \<Rightarrow> resolved_unit list \<times> patrol_db" where
  "writeExtraUnits env pid school known i [] s = ([], s)"
| "writeExtraUnits env pid school known i (e # es) s =
     (let x = extra_unit env s school i e; key = to_lower (rs_unit x) in
      if trim_space (xu_unit e) = [] \<and> trim_space (xu_name e) = [] then writeExtraUnits env pid school known (Suc i) es s
      else if key = [] \<or> key \<in> set known then writeExtraUnits env pid school known (Suc i) es s
      else if p_failing env PExtra i then writeExtraUnits env pid school (key # known) (Suc i) es s
      else let (out, s) = writeExtraUnits env pid school (key # known) (Suc i) es (store_extra (extra_row pid x) s)
           in (x # out, s))"

fun dedupeNonEmpty :: "string list \<Rightarrow> string list \<Rightarrow> string list" where
  "dedupeNonEmpty known [] = []"
| "dedupeNonEmpty known (v0 # vs) =
     (let v = trim_space v0; k = to_lower v in
      if v = [] \<or> k \<in> set known then dedupeNonEmpty known vs else v # dedupeNonEmpty (k # known) vs)"

record manual_reply =
  mr_patrol :: string
  mr_unit :: resolved_unit
  mr_room :: string
  mr_lecturer :: string
  mr_students :: int
  mr_date :: string
  mr_time :: string
  mr_end :: string
  mr_also :: "resolved_unit list"
  mr_schools :: "string list"
  mr_departments :: "string list"
  mr_compensation_at :: "instant option"

definition file_entry :: "patrol_env \<Rightarrow> manualEntry \<Rightarrow> instant option \<Rightarrow> patrol_db \<Rightarrow> manual_reply reply \<times> patrol_db" where
  "file_entry env req made_good s =
     (case manual_row env s req made_good of
        None \<Rightarrow> (Reject 500 ''INTERNAL_ERROR'', s)
      | Some row \<Rightarrow>
          if p_failing env PManual 0 \<or> p_refuses env (row\<lparr>pl_id := []\<rparr>) then (Reject 500 ''INTERNAL_ERROR'', s)
          else
            let u = primary_unit env s req; room = entry_room env s req; lec = snd (entry_lecturer env s req);
                s = s\<lparr>d_logs := upsert slot_key refile row (d_logs s)\<rparr>;
                pid = (case select_one (\<lambda>r. slot_key r = slot_key row) (d_logs s) of None \<Rightarrow> [] | Some r \<Rightarrow> pl_id r);
                s = (if p_failing env PDeleteExtra 0 then s
                     else s\<lparr>d_extra_units := delete_where (\<lambda>r. ex_patrol r = pid) (d_extra_units s)\<rparr>);
                (extras, s) = writeExtraUnits env pid (rs_school u) [to_lower (trim_space (rs_unit u))] 1 (me_also req) s
            in (Reply 200 \<lparr>mr_patrol = pid, mr_unit = u, mr_room = room, mr_lecturer = lec, mr_students = me_students req,
                  mr_date = entry_date env req, mr_time = observed_at env req, mr_end = end_time_of env req, mr_also = extras,
                  mr_schools = dedupeNonEmpty [] (rs_school u # map rs_school extras),
                  mr_departments = dedupeNonEmpty [] (rs_department u # map rs_department extras),
                  mr_compensation_at = made_good\<rparr>, s))"

definition PatrolManualEntry :: "patrol_env \<Rightarrow> manualEntry option \<Rightarrow> patrol_db \<Rightarrow> manual_reply reply \<times> patrol_db" where
  "PatrolManualEntry env body s =
     (case body of
        None \<Rightarrow> (Reject 400 ''INVALID_REQUEST'', s)
      | Some req0 \<Rightarrow>
          let req = trimmed_entry req0 in
          case entry_checks env req of
            Inl code \<Rightarrow> (Reject 400 code, s)
          | Inr made_good \<Rightarrow>
              if \<not> ready env then (Reject 500 ''INTERNAL_ERROR'', s)
              else
                let (ok, s) = checkPatrolDevice env s in
                if \<not> ok then (Reject 403 ''DEVICE_NOT_BOUND'', s)
                else if on_the_round env s (me_unit req) (observed_at env req) \<noteq> None then (Reject 409 ''ON_THE_ROUND'', s)
                else file_entry env req made_good s)"

end
