(* ===== verification/Patrol_Props.thy ===== *)
theory Patrol_Props
  imports Patrol_Manual
begin

text \<open>
  What the round's handlers keep: one row per slot, per handset and per unit of an entry, whatever
  the order of the calls; ticks that are never filed in the future; a batch that may be sent again;
  and the cases where the companions, the search and the guard of a manual entry fall short of their
  comments.
\<close>

section \<open>One row per key\<close>

interpretation logs_sync: keyed_upsert slot_key retick
  by unfold_locales (simp add: slot_key_def retick_def)

interpretation logs_manual: keyed_upsert slot_key refile
  by unfold_locales (simp add: slot_key_def refile_def)

interpretation handsets: keyed_upsert b_user rebind
  by unfold_locales (simp add: rebind_def)

interpretation extras: keyed_upsert "\<lambda>r. (ex_patrol r, ex_unit r)" "\<lambda>new old. old"
  by unfold_locales simp

definition patrol_ok :: "patrol_db \<Rightarrow> bool" where
  "patrol_ok s =
     (distinct (map slot_key (d_logs s)) \<and> distinct (map b_user (d_bindings s)) \<and>
      distinct (map (\<lambda>r. (ex_patrol r, ex_unit r)) (d_extra_units s)) \<and>
      distinct (map (\<lambda>(n, _, u). (n, u)) (d_recipients s)))"

inductive patrol_step :: "patrol_db \<Rightarrow> patrol_db \<Rightarrow> bool" where
  bind: "patrol_step s (snd (BindPatrolDevice env fp s))"
| release: "patrol_step s (snd (ReleasePatrolBinding env u s))"
| manifest: "patrol_step s (snd (PatrolManifest env s))"
| search: "patrol_step s (snd (PatrolSearch env by0 q s))"
| sync: "patrol_step s (snd (PatrolSync env body s))"
| manual: "patrol_step s (snd (PatrolManualEntry env entry s))"

lemma distinct_map_filter_key: "distinct (map f xs) \<Longrightarrow> distinct (map f (filter p xs))"
  by (induction xs) auto

lemma handset_ok: "patrol_ok s \<Longrightarrow> patrol_ok (record_handset env fp s)"
  by (simp add: patrol_ok_def record_handset_def handsets.one_per_key)

lemma device_ok: "patrol_ok s \<Longrightarrow> patrol_ok (snd (checkPatrolDevice env s))"
  by (simp add: checkPatrolDevice_def Let_def handset_ok)

lemma recipient_ok: "patrol_ok s \<Longrightarrow> patrol_ok (add_recipient env i nid u s)"
  by (auto simp: patrol_ok_def add_recipient_def list_ex_iff)

lemma recipients_ok: "patrol_ok s \<Longrightarrow> patrol_ok (fold (add_recipient env i nid) us s)"
  by (induction us arbitrary: s) (auto intro: recipient_ok)

lemma notify_ok [simp]: "patrol_ok (s\<lparr>d_notifications := ns\<rparr>) = patrol_ok s"
  by (simp add: patrol_ok_def)

lemma alert_lecturer_ok: "patrol_ok s \<Longrightarrow> patrol_ok (alert_lecturer env i l s)"
  by (auto simp: alert_lecturer_def Let_def recipient_ok split: list.split prod.split)

lemma alert_move_ok: "patrol_ok s \<Longrightarrow> patrol_ok (alert_move env i l s)"
  by (auto simp: alert_move_def Let_def recipients_ok split: prod.split)

lemma logs_sync_ok: "patrol_ok s \<Longrightarrow> patrol_ok (s\<lparr>d_logs := upsert slot_key retick row (d_logs s)\<rparr>)"
  by (simp add: patrol_ok_def logs_sync.one_per_key)

lemma logs_manual_ok: "patrol_ok s \<Longrightarrow> patrol_ok (s\<lparr>d_logs := upsert slot_key refile row (d_logs s)\<rparr>)"
  by (simp add: patrol_ok_def logs_manual.one_per_key)

lemma sync_one_ok: "patrol_ok s \<Longrightarrow> patrol_ok (snd (sync_one env who i l s))"
  by (auto simp: sync_one_def Let_def split: option.split intro!: alert_move_ok alert_lecturer_ok logs_sync_ok)

lemma sync_all_ok: "patrol_ok s \<Longrightarrow> patrol_ok (snd (sync_all env who i ls s))"
proof (induction ls arbitrary: i s)
  case (Cons l ls)
  then show ?case
    using sync_one_ok [of s env who i l] by (simp add: Let_def split: prod.split) (metis snd_conv)
qed simp

lemma extra_ok: "patrol_ok s \<Longrightarrow> patrol_ok (store_extra row s)"
  unfolding patrol_ok_def store_extra_def by (simp add: extras.one_per_key)

lemma extras_ok: "patrol_ok s \<Longrightarrow> patrol_ok (snd (writeExtraUnits env pid school known i es s))"
  by (induction env pid school known i es s rule: writeExtraUnits.induct)
    (auto simp: Let_def extra_ok split: prod.split)

lemma delete_extras_ok: "patrol_ok s \<Longrightarrow> xs = d_extra_units s \<Longrightarrow> patrol_ok (s\<lparr>d_extra_units := delete_where p xs\<rparr>)"
  by (simp add: patrol_ok_def delete_where_def distinct_map_filter_key)

lemma file_entry_ok: "patrol_ok s \<Longrightarrow> patrol_ok (snd (file_entry env req made_good s))"
  by (cases "manual_row env s req made_good")
    (auto simp: file_entry_def Let_def case_prod_beta intro!: extras_ok logs_manual_ok delete_extras_ok)



lemma patrol_step_ok:
  assumes "patrol_step s s'" and "patrol_ok s"
  shows "patrol_ok s'"
  using assms
proof (induction rule: patrol_step.induct)
  case (bind s env fp)
  then show ?case
    by (simp add: BindPatrolDevice_def Let_def handset_ok)
next
  case (release s env u)
  then show ?case
    by (simp add: ReleasePatrolBinding_def Let_def patrol_ok_def delete_where_def distinct_map_filter_key)
next
  case (manifest s env)
  then show ?case
    by (simp add: PatrolManifest_def Let_def case_prod_beta device_ok)
next
  case (search s env by0 q)
  then show ?case
    by (simp add: PatrolSearch_def Let_def case_prod_beta device_ok split: option.split)
next
  case (sync s env body)
  then show ?case
    by (simp add: PatrolSync_def Let_def case_prod_beta device_ok sync_all_ok split: option.split)
next
  case (manual s env entry)
  then show ?case
    by (simp add: PatrolManualEntry_def Let_def case_prod_beta device_ok file_entry_ok split: option.split sum.split)
qed

interpretation patrol: kept_property patrol_step patrol_ok
  by unfold_locales (rule patrol_step_ok)


section \<open>Sending a batch again\<close>

text \<open>
  Rows that are put one after the other, where merging overwrites: \<open>mk n l\<close> is the row of element \<open>l\<close>
  put into a table of \<open>n\<close> rows, and only the identifier the table gives it depends on \<open>n\<close>.
\<close>

locale overwriting_batch = keyed_upsert key merge
  for key :: "'r \<Rightarrow> 'k" and merge :: "'r \<Rightarrow> 'r \<Rightarrow> 'r" +
  fixes mk :: "nat \<Rightarrow> 'l \<Rightarrow> 'r"
  assumes mk_key: "key (mk n l) = key (mk m l)"
    and mk_merge: "merge (mk n l) = merge (mk m l)"
    and mk_self: "merge (mk n l) (mk m l) = mk m l"
    and overwrites: "merge (mk n l) (merge (mk m l') old) = merge (mk n l) old"
begin

definition put :: "'r table \<Rightarrow> 'l \<Rightarrow> 'r table" where
  "put rows l = upsert key merge (mk (length rows) l) rows"

definition k :: "'l \<Rightarrow> 'k" where
  "k l = key (mk 0 l)"

lemma key_k: "key (mk n l) = k l"
  unfolding k_def by (rule mk_key)

definition overwrite :: "'r \<Rightarrow> 'l \<Rightarrow> 'r" where
  "overwrite r l = (if key r = k l then merge (mk 0 l) r else r)"

lemma overwrite_own: "key r = k l \<Longrightarrow> overwrite r l = merge (mk 0 l) r"
  by (simp add: overwrite_def)

lemma overwrite_other: "key r \<noteq> k l \<Longrightarrow> overwrite r l = r"
  by (simp add: overwrite_def)

lemma key_overwrite: "key (overwrite r l) = key r"
  by (simp add: overwrite_def key_merge)

lemma merge_overwrite: "merge (mk n l) (overwrite r l') = merge (mk n l) r"
  by (simp add: overwrite_def overwrites)

lemma put_known: "k l \<in> key ` set rows \<Longrightarrow> put rows l = map (\<lambda>r. overwrite r l) rows"
  by (auto simp: put_def upsert_def key_k update_where_def list_ex_iff overwrite_def mk_merge [of "length rows" l 0])

lemma put_new: "k l \<notin> key ` set rows \<Longrightarrow> put rows l = rows @ [mk (length rows) l]"
  by (force simp: put_def upsert_def key_k list_ex_iff)

lemma put_keys: "key ` set (put rows l) = insert (k l) (key ` set rows)"
  by (cases "k l \<in> key ` set rows") (auto simp: put_known put_new key_k key_overwrite image_image)

lemma puts_keys: "key ` set (foldl put rows ls) = key ` set rows \<union> k ` set ls"
  by (induction ls arbitrary: rows) (auto simp: put_keys)

lemma key_overwrites: "key (foldl overwrite r ls) = key r"
  by (induction ls arbitrary: r) (auto simp: key_overwrite)

lemma merge_overwrites: "merge (mk n l) (foldl overwrite r ls) = merge (mk n l) r"
  by (induction ls arbitrary: r) (auto simp: merge_overwrite)

lemma puts_known: "k ` set ls \<subseteq> key ` set rows \<Longrightarrow> foldl put rows ls = map (\<lambda>r. foldl overwrite r ls) rows"
proof (induction ls arbitrary: rows)
  case (Cons l ls)
  then have "k ` set ls \<subseteq> key ` set (put rows l)"
    by (auto simp: put_keys)
  then show ?case
    using Cons by (simp add: put_known comp_def)
qed simp

text \<open>A row carries what the last element of its key has put there.\<close>

primrec settled :: "'l list \<Rightarrow> 'r \<Rightarrow> bool" where
  "settled [] r = True"
| "settled (l # ls) r = (if key r = k l then merge (mk 0 l) r = r else settled ls r)"

lemma puts_settle: "r \<in> set (foldl put rows ls) \<Longrightarrow> settled (rev ls) r"
proof (induction ls arbitrary: r rule: rev_induct)
  case (snoc l ls)
  show ?case
  proof (cases "k l \<in> key ` set (foldl put rows ls)")
    case True
    with snoc.prems obtain r0 where "r0 \<in> set (foldl put rows ls)" "r = overwrite r0 l"
      by (auto simp: put_known)
    then show ?thesis
      using snoc.IH [of r0] by (cases "key r0 = k l") (auto simp: overwrite_own overwrite_other key_merge overwrites)
  next
    case False
    with snoc show ?thesis
      by (force simp: put_new key_k mk_self)
  qed
qed simp

lemma settled_kept: "settled (rev ls) r \<Longrightarrow> foldl overwrite r ls = r"
proof (induction ls rule: rev_induct)
  case (snoc l ls)
  then show ?case
    by (cases "key r = k l") (simp_all add: overwrite_own overwrite_other key_overwrites merge_overwrites)
qed simp

lemma batch_twice: "foldl put (foldl put rows ls) ls = foldl put rows ls"
  by (subst puts_known) (auto simp: puts_keys intro!: map_idI settled_kept dest: puts_settle)

end

lemma tick_row_id: "map_option (\<lambda>r. r\<lparr>pl_id := i\<rparr>) (tick_row env who n l) = map_option (\<lambda>r. r\<lparr>pl_id := i\<rparr>) (tick_row env who m l)"
  by (auto simp: tick_row_def split: option.split)

lemma tick_row_cases:
  "(tick_row env who n l = None \<and> tick_row env who m l = None) \<or>
   (\<exists>r i j. tick_row env who n l = Some (r\<lparr>pl_id := i\<rparr>) \<and> tick_row env who m l = Some (r\<lparr>pl_id := j\<rparr>))"
proof (cases "tick_row env who n l")
  case None
  then show ?thesis
    using tick_row_id [of "[]" env who n l m] by simp
next
  case (Some r)
  then obtain r' where r': "tick_row env who m l = Some r'"
    using tick_row_id [of "[]" env who n l m] by (cases "tick_row env who m l") auto
  with Some have "r\<lparr>pl_id := pl_id r'\<rparr> = r'"
    using tick_row_id [of "pl_id r'" env who n l m] by simp
  with Some r' show ?thesis
    by (intro disjI2 exI [of _ r] exI [of _ "pl_id r"] exI [of _ "pl_id r'"]) simp
qed

interpretation ticks: overwriting_batch slot_key retick "\<lambda>n l. the (tick_row env who n l)" for env who
proof
  fix n m l l' old
  note same = tick_row_cases [of env who n l m]
  show "slot_key (the (tick_row env who n l)) = slot_key (the (tick_row env who m l))"
    using same by (auto simp: slot_key_def)
  show "retick (the (tick_row env who n l)) = retick (the (tick_row env who m l))"
    using same by (auto simp: retick_def fun_eq_iff)
  show "retick (the (tick_row env who n l)) (the (tick_row env who m l)) = the (tick_row env who m l)"
    using same by (auto simp: retick_def)
  show "retick (the (tick_row env who n l)) (retick (the (tick_row env who m l')) old) = retick (the (tick_row env who n l)) old"
    by (simp add: retick_def)
qed

text \<open>Which elements of a batch are written depends neither on the table nor on their position.\<close>

definition written :: "patrol_env \<Rightarrow> string \<times> string \<Rightarrow> patrolLogIn \<Rightarrow> bool" where
  "written env who l =
     (li_unit l \<noteq> [] \<and> li_date l \<noteq> [] \<and>
      (case tick_row env who 0 l of None \<Rightarrow> False | Some row \<Rightarrow> \<not> p_refuses env (row\<lparr>pl_id := []\<rparr>)))"

lemma recipients_keep_logs [simp]: "d_logs (fold (add_recipient env i nid) us s) = d_logs s"
  by (induction us arbitrary: s) (auto simp: add_recipient_def)

lemma alerts_keep_logs [simp]:
  "d_logs (alert_lecturer env i l s) = d_logs s" "d_logs (alert_move env i l s) = d_logs s"
  by (auto simp: alert_lecturer_def alert_move_def add_recipient_def Let_def split: list.split prod.split)

lemma sync_one_logs:
  "fst (sync_one env who i l s) = written env who l"
  "d_logs (snd (sync_one env who i l s)) = (if written env who l then ticks.put env who (d_logs s) l else d_logs s)"
  using tick_row_cases [of env who "length (d_logs s)" l 0]
  by (auto simp: sync_one_def written_def ticks.put_def Let_def)

lemma sync_all_logs:
  "fst (sync_all env who i ls s) = length (filter (written env who) ls) \<and>
   d_logs (snd (sync_all env who i ls s)) = foldl (ticks.put env who) (d_logs s) (filter (written env who) ls)"
proof (induction ls arbitrary: i s)
  case (Cons l ls)
  then show ?case
    by (simp add: Let_def case_prod_beta sync_one_logs)
qed simp

lemma alerts_keep_users [simp]: "d_users (snd (sync_all env who i ls s)) = d_users s"
proof (induction ls arbitrary: i s)
  case (Cons l ls)
  have "d_users (fold (add_recipient env i nid) us s) = d_users s" for nid us s
    by (induction us arbitrary: s) (auto simp: add_recipient_def)
  then have "d_users (snd (sync_one env who i l s)) = d_users s"
    by (auto simp: sync_one_def alert_lecturer_def alert_move_def add_recipient_def Let_def split: option.split list.split prod.split)
  with Cons show ?case
    by (simp add: Let_def case_prod_beta)
qed simp

lemma device_keeps [simp]:
  "d_users (snd (checkPatrolDevice env s)) = d_users s" "d_logs (snd (checkPatrolDevice env s)) = d_logs s"
  "fst (checkPatrolDevice env s)"
  by (auto simp: checkPatrolDevice_def record_handset_def Let_def)

lemma sync_logs:
  assumes "ready env"
  shows "fst (PatrolSync env (Some ls) s) = Reply 200 (length (filter (written env (patroller_identity env s)) ls)) \<and>
    d_logs (snd (PatrolSync env (Some ls) s)) =
      foldl (ticks.put env (patroller_identity env s)) (d_logs s) (filter (written env (patroller_identity env s)) ls) \<and>
    d_users (snd (PatrolSync env (Some ls) s)) = d_users s"
proof -
  have "patroller_identity env (snd (checkPatrolDevice env s)) = patroller_identity env s"
    by (simp add: patroller_identity_def)
  with assms show ?thesis
    by (simp add: PatrolSync_def Let_def case_prod_beta sync_all_logs)
qed


section \<open>When a tick is filed\<close>

lemma tick_row_clamped:
  "tick_row env who n l = Some r \<Longrightarrow> pl_date r \<le> p_today env \<and> pl_taken r \<le> p_now env \<and> pl_patroller r = p_user env"
  by (auto simp: tick_row_def split: option.splits)

lemma put_clamped:
  assumes "r \<in> set (ticks.put env who rows l)" and "written env who l"
  shows "r \<in> set rows \<or> (pl_date r \<le> p_today env \<and> pl_taken r \<le> p_now env \<and> pl_patroller r = p_user env)"
proof -
  obtain row where row: "tick_row env who (length rows) l = Some row"
    using assms(2) tick_row_cases [of env who "length rows" l 0] by (auto simp: written_def)
  have "r \<in> set rows \<or> r = row \<or> (\<exists>old \<in> set rows. slot_key old = slot_key row \<and> r = retick row old)"
    using assms(1) row by (auto simp: ticks.put_def dest: logs_sync.upsert_new)
  then show ?thesis
    using tick_row_clamped [OF row] by (auto simp: retick_def slot_key_def)
qed

lemma puts_clamped:
  "r \<in> set (foldl (ticks.put env who) rows (filter (written env who) ls)) \<Longrightarrow>
    r \<in> set rows \<or> (pl_date r \<le> p_today env \<and> pl_taken r \<le> p_now env \<and> pl_patroller r = p_user env)"
proof (induction ls rule: rev_induct)
  case (snoc l ls)
  then show ?case
    by (cases "written env who l") (auto dest: put_clamped)
qed simp

text \<open>
  A handset with a wrong clock cannot file a tick in the future: every row a batch has written or
  changed is dated today or before, was taken by now, and names the monitor of the token; every
  other row is untouched.
\<close>

theorem ticks_never_future:
  assumes "r \<in> set (d_logs (snd (PatrolSync env body s)))"
  shows "r \<in> set (d_logs s) \<or> (pl_date r \<le> p_today env \<and> pl_taken r \<le> p_now env \<and> pl_patroller r = p_user env)"
proof (cases "body = None \<or> \<not> ready env")
  case True
  then show ?thesis
    using assms by (auto simp: PatrolSync_def split: option.splits)
next
  case False
  then show ?thesis
    using assms sync_logs [of env "the body" s] puts_clamped by fastforce
qed

section \<open>Companions\<close>

lemma in_map_filter: "x \<in> set (List.map_filter f xs) \<longleftrightarrow> (\<exists>y \<in> set xs. f y = Some x)"
  by (force simp: map_filter_def)

lemma slot_view_room:
  "slot_view env s ts = Some me \<Longrightarrow> free_text ts = None \<Longrightarrow> sl_room me = or_empty (ts_venue ts)"
  "slot_view env s ts = Some me \<Longrightarrow> sl_also me = []"
  by (auto simp: slot_view_def Let_def split: option.splits)

lemma concurrent_view_room: "concurrent_view env s ts = Some x \<Longrightarrow> cr_room x = resolved_room env s ts"
  by (auto simp: concurrent_view_def split: option.splits)

text \<open>
  Where the timetable names managed rooms only (no free text) and the rooms have names other than
  their codes, no lecture of the round has a companion: the manifest shows the code of the room
  and the companions' query its name, and the two are compared.
\<close>

theorem manifest_without_companions:
  assumes venue_only: "\<forall>ts \<in> set (d_slots s). free_text ts = None \<and> (\<exists>v n. ts_venue ts = Some v \<and> venue_name env s v = Some n)"
    and apart: "\<forall>v w n. venue_name env s v \<noteq> None \<and> venue_name env s w = Some n \<longrightarrow> norm n \<noteq> norm v"
    and "fst (PatrolManifest env s) = Reply 200 m"
  shows "\<forall>sl \<in> set (m_slots m). sl_also sl = []"
proof -
  define s' where "s' = snd (checkPatrolDevice env s)"
  have same: "d_slots s' = d_slots s" "venue_name env s' = venue_name env s"
    by (auto simp: s'_def checkPatrolDevice_def record_handset_def venue_name_def Let_def fun_eq_iff)
  have round: "ts \<in> set (d_slots s)" if "ts \<in> set (round_slots env s')" for ts
    using that same by (auto simp: round_slots_def)
  define slots where "slots = List.map_filter (slot_view env s') (sort_key (\<lambda>ts. ts_dow ts * 1440 + ts_start ts) (round_slots env s'))"
  have m: "m_slots m = attachConcurrentUnits env s' slots"
    using assms(3) by (auto simp: PatrolManifest_def Let_def case_prod_beta slots_def s'_def split: if_splits)
  have slots: "\<exists>ts \<in> set (d_slots s). slot_view env s' ts = Some me" if "me \<in> set slots" for me
    using that round by (auto simp: slots_def in_map_filter)
  have room: "venue_name env s (sl_room me) \<noteq> None" if "me \<in> set slots" for me
    using slots [OF that] venue_only by (auto simp: slot_view_room or_empty_def)
  have code: "\<exists>w. venue_name env s w = Some (cr_room x)"
    if "x \<in> set (List.map_filter (concurrent_view env s') (round_slots env s'))" for x
    using that venue_only round by (fastforce simp: in_map_filter concurrent_view_room resolved_room_def same)
  have fresh: "sl_also me = []" if "me \<in> set slots" for me
    using slots [OF that] by (auto simp: slot_view_room)
  have "\<not> same_lecture me x"
    if "me \<in> set slots" "x \<in> set (List.map_filter (concurrent_view env s') (round_slots env s'))" for me x
    using room [OF that(1)] code [OF that(2)] apart unfolding same_lecture_def by metis
  then show ?thesis
    using fresh by (auto simp: m attachConcurrentUnits_def Let_def filter_empty_conv)
qed

section \<open>The search\<close>

definition plain :: "string \<Rightarrow> bool" where
  "plain q = list_all (\<lambda>c. c \<noteq> CHR ''%'' \<and> c \<noteq> CHR ''_'' \<and> c \<noteq> CHR 0x5C) q"

lemma like_all: "sql_like ''%'' v"
  by (induction v) auto

lemma like_prefix: "plain q \<Longrightarrow> sql_like (q @ ''%'') v \<longleftrightarrow> has_prefix v q"
proof (induction q arbitrary: v)
  case Nil
  then show ?case
    by (simp add: has_prefix_def like_all)
next
  case (Cons c q)
  then show ?case
    by (cases v) (auto simp: has_prefix_def plain_def)
qed

lemma like_wild: "sql_like ''%%'' v"
  by (cases v) (auto simp: like_all)

text \<open>
  A search term without \<^verbatim>\<open>%\<close>, \<^verbatim>\<open>_\<close> and backslash finds the lectures whose unit, or whose lecturer,
  begins with it, letter case and outer spaces aside. The term is not escaped, though: the single
  character \<^verbatim>\<open>%\<close> finds every lecture of the day, the listing that an empty term is refused for.
\<close>

theorem search_terms:
  "(plain q \<longrightarrow> (matches_search env s ByUnit (q @ ''%'') ts \<longleftrightarrow>
      has_prefix (btrim (to_lower (ts_unit ts))) q \<or>
      has_prefix (btrim (to_lower (case find_unit env s (ts_unit ts) of None \<Rightarrow> [] | Some u \<Rightarrow> or_empty (cu_name u)))) q)) \<and>
   (plain q \<longrightarrow> (matches_search env s ByLecturer (q @ ''%'') ts \<longleftrightarrow>
      (let field = (\<lambda>f. btrim (to_lower (case slot_lecturer env s ts of None \<Rightarrow> [] | Some l \<Rightarrow> or_empty (f l))))
       in has_prefix (field lec_staff) q \<or> has_prefix (field lec_name) q))) \<and>
   matches_search env s mode (to_lower (trim_space ''%'') @ ''%'') ts"
proof -
  have "to_lower (trim_space ''%'') @ ''%'' = ''%%''"
    by code_simp
  then show ?thesis
    by (cases mode) (simp_all add: matches_search_def like_prefix like_wild Let_def)
qed

section \<open>The day of a manifest\<close>

definition iso_weekday_of :: "date \<Rightarrow> nat" where
  "iso_weekday_of d = (let w = (day_number d + 6) mod 7 in if w = 0 then 7 else w)"

lemma kampala_day:
  assumes "0 \<le> t"
  shows "civil_day kampala t = civil_day utc t + (if since_midnight kampala t < 3 * hour then 1 else 0)"
proof -
  define D where "D = 24 * hour"
  have D: "D = 86400000000000" "3 * hour = 10800000000000" "kampala = 10800000000000"
    by (simp_all add: D_def kampala_def duration_defs)
  define q r where "q = (t + kampala) div D" and "r = (t + kampala) mod D"
  have "t + kampala = D * q + r" "0 \<le> r" "r < D"
    using D(1) by (simp_all add: q_def r_def)
  then have t: "t = D * q + (r - 3 * hour)" "t = D * (q - 1) + (D + r - 3 * hour)" "0 \<le> r" "r < D"
    using D by (auto simp: algebra_simps)
  have "t div D = (if r < 3 * hour then q - 1 else q)"
    using t(3,4) D int_div_pos_eq [OF t(1)] int_div_pos_eq [OF t(2)] by auto
  moreover have "0 \<le> q"
    using assms D by (simp add: q_def)
  ultimately show ?thesis
    using assms by (auto simp: civil_day_def utc_def since_midnight_def epoch_day_def q_def [symmetric] r_def [symmetric] D_def [symmetric])
qed

lemma iso_weekday_civil: "ISOWeekday loc t = iso_weekday_of (date_of_day (civil_day loc t))"
  by (simp add: ISOWeekday_def go_weekday_def iso_weekday_of_def day_number_date_of_day)

lemma next_day_differs: "iso_weekday_of (date_of_day n) \<noteq> iso_weekday_of (date_of_day (n + 1))"
proof -
  have "(n + 6) mod 7 \<noteq> (n + 1 + 6) mod 7"
    by presburger
  moreover have "(k :: nat) mod 7 \<noteq> 7" for k
    by (metis mod_less_divisor less_irrefl zero_less_numeral)
  ultimately show ?thesis
    by (auto simp: iso_weekday_of_def day_number_date_of_day Let_def)
qed

text \<open>
  The manifest gives its date in UTC and its weekday in the institution's time: in Kampala they
  name the same day exactly from three in the morning on; before, the weekday is already that of the
  next day.
\<close>

theorem manifest_day:
  assumes "fst (PatrolManifest env s) = Reply 200 m" and "p_zone env = kampala"
    and "0 \<le> p_now env" and "year (civil_date utc (p_now env)) < 10000"
  shows "\<exists>d. parse_ymd (m_date m) = Some d \<and>
    (m_dow m = iso_weekday_of d \<longleftrightarrow> 3 * hour \<le> since_midnight kampala (p_now env))"
proof -
  have m: "m_date m = Today utc (p_now env)" "m_dow m = ISOWeekday kampala (p_now env)"
    using assms(1,2) by (auto simp: PatrolManifest_def Let_def case_prod_beta split: if_splits)
  let ?d = "civil_date utc (p_now env)"
  have "parse_ymd (m_date m) = Some ?d"
    using assms(4) by (simp add: m(1) Today_def parse_format_date civil_date_def date_of_day_valid)
  moreover have "m_dow m = iso_weekday_of ?d \<longleftrightarrow> 3 * hour \<le> since_midnight kampala (p_now env)"
    using kampala_day [OF assms(3)] next_day_differs [of "civil_day utc (p_now env)"]
    by (auto simp: m(2) iso_weekday_civil civil_date_def)
  ultimately show ?thesis
    by blast
qed

section \<open>Times of day\<close>

lemma last_index_None: "last_index s c = None \<longleftrightarrow> c \<notin> set s"
  by (induction s) (auto split: option.split)

lemma last_index_last: "c \<notin> set b \<Longrightarrow> last_index (a @ c # b) c = Some (length a)"
proof (induction a)
  case Nil
  then have "last_index b c = None"
    by (simp add: last_index_None)
  then show ?case
    by simp
qed simp

lemma colon_no_digit: "list_all is_digit b \<Longrightarrow> CHR '':'' \<notin> set b"
  by (auto simp: list_all_iff is_digit_def Let_def)

lemma atoiSafe_bounds:
  "length a \<le> 18 \<Longrightarrow> 0 \<le> atoiSafe a \<and> atoiSafe a \<le> int n \<longleftrightarrow> list_all is_digit a \<and> decimal_value a \<le> n"
  by (simp add: atoiSafe_short)

lemma validHHMM_split:
  assumes "CHR '':'' \<notin> set b"
  shows "validHHMM (a @ CHR '':'' # b) \<longleftrightarrow>
    a \<noteq> [] \<and> 3 \<le> length a + length b \<and> length a + length b \<le> 4 \<and> list_all is_digit a \<and> list_all is_digit b \<and>
    decimal_value a \<le> 23 \<and> decimal_value b \<le> 59"
proof -
  have "list_all is_digit w \<Longrightarrow> list_all (\<lambda>ch. ch = CHR '':'' \<or> is_digit ch) w" for w
    by (auto simp: list_all_iff)
  then show ?thesis
    using atoiSafe_bounds [of a 23] atoiSafe_bounds [of b 59] assms
    by (auto simp: validHHMM_def last_index_last Let_def Suc_le_eq)
qed

text \<open>
  The check of a time of day accepts exactly one or more digits below 24, a colon, and digits below
  60, four or five characters in all. The minutes may be missing or have one or three digits:
  \<open>12:5\<close>, \<open>1:005\<close> and \<open>012:\<close> pass, though the comment promises \<open>H:MM\<close> or \<open>HH:MM\<close>.
\<close>

theorem valid_hhmm_reference:
  "(validHHMM s \<longleftrightarrow> (\<exists>a b. s = a @ '':'' @ b \<and> a \<noteq> [] \<and> list_all is_digit a \<and> list_all is_digit b \<and>
      4 \<le> length s \<and> length s \<le> 5 \<and> decimal_value a < 24 \<and> decimal_value b < 60)) \<and>
   validHHMM ''12:5'' \<and> validHHMM ''1:005'' \<and> validHHMM ''012:'' \<and> parse_hm ''012:'' = None"
proof (intro conjI)
  show "validHHMM s \<longleftrightarrow> (\<exists>a b. s = a @ '':'' @ b \<and> a \<noteq> [] \<and> list_all is_digit a \<and> list_all is_digit b \<and>
      4 \<le> length s \<and> length s \<le> 5 \<and> decimal_value a < 24 \<and> decimal_value b < 60)"
  proof
    assume valid: "validHHMM s"
    then have "CHR '':'' \<in> set s"
      using last_index_None [of s "CHR '':''"] by (auto simp: validHHMM_def split: if_splits)
    then obtain a b where s: "s = a @ CHR '':'' # b" "CHR '':'' \<notin> set b"
      by (metis split_list_last)
    with valid show "\<exists>a b. s = a @ '':'' @ b \<and> a \<noteq> [] \<and> list_all is_digit a \<and> list_all is_digit b \<and>
        4 \<le> length s \<and> length s \<le> 5 \<and> decimal_value a < 24 \<and> decimal_value b < 60"
      by (intro exI [of _ a] exI [of _ b]) (auto simp: validHHMM_split)
  next
    assume "\<exists>a b. s = a @ '':'' @ b \<and> a \<noteq> [] \<and> list_all is_digit a \<and> list_all is_digit b \<and>
        4 \<le> length s \<and> length s \<le> 5 \<and> decimal_value a < 24 \<and> decimal_value b < 60"
    then show "validHHMM s"
      by (auto simp: validHHMM_split colon_no_digit)
  qed
qed code_simp+

section \<open>The guard of a manual entry\<close>

lemma file_entry_answers: "fst (file_entry env req made_good s) \<noteq> Reject 409 code"
  by (cases "manual_row env s req made_good") (auto simp: file_entry_def Let_def case_prod_beta)

lemma on_the_round_iff:
  "\<not> p_failing env PGuard 0 \<Longrightarrow> on_the_round env s unit observed \<noteq> None \<longleftrightarrow>
    unit \<noteq> [] \<and> (\<exists>t. p_time env observed = Some t \<and> (\<exists>ts \<in> set (d_slots s). ts_tenant ts = p_tenant env \<and> ts_unit ts = unit \<and>
      ts_dow ts = ISOWeekday (p_zone env) (p_now env) \<and> covers ts t))"
proof -
  have "(case sort_key ts_start (filter p rows) of [] \<Rightarrow> None | ts # _ \<Rightarrow> Some ts) \<noteq> None \<longleftrightarrow> (\<exists>ts \<in> set rows. p ts)" for p rows
    by (metis (no_types, lifting) filter_empty_conv list.exhaust list.simps(4,5) option.distinct(1) set_empty set_sort)
  then show "\<not> p_failing env PGuard 0 \<Longrightarrow> ?thesis"
    by (auto simp: on_the_round_def split: option.split)
qed

text \<open>
  A manual entry that passes the first checks is sent back to the round exactly when the picked unit
  has a slot on the weekday of the server's clock that covers the observed time. The date the
  entry is filed under plays no part: an entry for yesterday is held against today's timetable, and
  a time the server cannot read is held against nothing.
\<close>

theorem manual_guard:
  assumes "entry_checks env (trimmed_entry req) = Inr made_good" and "ready env" and "\<not> p_failing env PGuard 0"
  shows "fst (PatrolManualEntry env (Some req) s) = Reject 409 ''ON_THE_ROUND'' \<longleftrightarrow>
    trim_space (me_unit req) \<noteq> [] \<and>
    (\<exists>t. p_time env (observed_at env (trimmed_entry req)) = Some t \<and> (\<exists>ts \<in> set (d_slots s). ts_tenant ts = p_tenant env \<and>
      ts_unit ts = trim_space (me_unit req) \<and> ts_dow ts = ISOWeekday (p_zone env) (p_now env) \<and> covers ts t))"
proof -
  define s' where "s' = snd (checkPatrolDevice env s)"
  have "d_slots s' = d_slots s"
    by (simp add: s'_def checkPatrolDevice_def record_handset_def Let_def)
  moreover have "fst (PatrolManualEntry env (Some req) s) = Reject 409 ''ON_THE_ROUND'' \<longleftrightarrow>
      on_the_round env s' (trim_space (me_unit req)) (observed_at env (trimmed_entry req)) \<noteq> None"
    using assms(1,2) file_entry_answers by (simp add: PatrolManualEntry_def Let_def case_prod_beta s'_def trimmed_entry_def)
  ultimately show ?thesis
    using on_the_round_iff [OF assms(3)] by simp
qed

section \<open>The other units of an entry\<close>

definition fresh_codes :: "string list \<Rightarrow> resolved_unit list \<Rightarrow> bool" where
  "fresh_codes known xs = (distinct (map (\<lambda>x. to_lower (rs_unit x)) xs) \<and> (\<forall>x \<in> set xs. to_lower (rs_unit x) \<notin> insert [] (set known)))"

lemma fresh_codes_Nil: "fresh_codes known []"
  by (simp add: fresh_codes_def)

lemma fresh_codes_Cons:
  "fresh_codes (to_lower (rs_unit x) # known) xs \<Longrightarrow> to_lower (rs_unit x) \<noteq> [] \<Longrightarrow> to_lower (rs_unit x) \<notin> set known \<Longrightarrow>
     fresh_codes known (x # xs)"
  by (force simp: fresh_codes_def)

lemma fresh_codes_less: "fresh_codes (c # known) xs \<Longrightarrow> fresh_codes known xs"
  by (simp add: fresh_codes_def)

lemma extras_fresh: "fresh_codes known (fst (writeExtraUnits env pid school known i es s))"
proof (induction es arbitrary: known i s)
  case (Cons e es)
  show ?case
    using Cons.IH by (auto simp: Let_def case_prod_beta intro: fresh_codes_Cons fresh_codes_less)
qed (simp add: fresh_codes_Nil)

lemma store_extra_new:
  assumes "\<forall>r \<in> set (d_extra_units s). ex_patrol r = pid \<longrightarrow> to_lower (ex_unit r) \<in> set known"
    and "to_lower (rs_unit x) \<notin> set known"
  shows "d_extra_units (store_extra (extra_row pid x) s) = d_extra_units s @ [extra_row pid x]"
  using assms by (auto simp: store_extra_def upsert_def extra_row_def list_ex_iff)

lemma extras_stored:
  "\<forall>r \<in> set (d_extra_units s). ex_patrol r = pid \<longrightarrow> to_lower (ex_unit r) \<in> set known \<Longrightarrow>
   filter (\<lambda>r. ex_patrol r = pid) (d_extra_units (snd (writeExtraUnits env pid school known i es s))) =
     filter (\<lambda>r. ex_patrol r = pid) (d_extra_units s) @ map (extra_row pid) (fst (writeExtraUnits env pid school known i es s))"
proof (induction es arbitrary: known i s)
  case (Cons e es)
  define x where "x = extra_unit env s school i e"
  have more: "\<forall>r \<in> set (d_extra_units s). ex_patrol r = pid \<longrightarrow> to_lower (ex_unit r) \<in> set (c # known)" for c
    using Cons.prems by simp
  have stored: "d_extra_units (store_extra (extra_row pid x) s) = d_extra_units s @ [extra_row pid x]"
    if "to_lower (rs_unit x) \<notin> set known"
    using store_extra_new [OF Cons.prems that] .
  have own: "ex_patrol (extra_row pid x) = pid" "ex_unit (extra_row pid x) = rs_unit x"
    by (simp_all add: extra_row_def)
  show ?case
  proof (cases "(trim_space (xu_unit e) = [] \<and> trim_space (xu_name e) = []) \<or> to_lower (rs_unit x) = [] \<or> to_lower (rs_unit x) \<in> set known")
    case True
    then show ?thesis
      using Cons.IH [OF Cons.prems] by (auto simp: Let_def x_def [symmetric])
  next
    case False
    then show ?thesis
      using Cons.IH [OF more] Cons.IH [of "store_extra (extra_row pid x) s" "to_lower (rs_unit x) # known"] Cons.prems stored own
      by (auto simp: Let_def case_prod_beta x_def [symmetric])
  qed
qed simp

lemma file_entry_units:
  assumes "file_entry env req made_good s = (Reply 200 r, s')"
  shows "fresh_codes [to_lower (trim_space (rs_unit (mr_unit r)))] (mr_also r)"
    and "\<not> p_failing env PDeleteExtra 0 \<Longrightarrow>
      filter (\<lambda>x. ex_patrol x = mr_patrol r) (d_extra_units s') = map (extra_row (mr_patrol r)) (mr_also r)"
proof -
  obtain row where row: "manual_row env s req made_good = Some row" "\<not> (p_failing env PManual 0 \<or> p_refuses env (row\<lparr>pl_id := []\<rparr>))"
    using assms by (cases "manual_row env s req made_good") (auto simp: file_entry_def split: if_splits)
  show "fresh_codes [to_lower (trim_space (rs_unit (mr_unit r)))] (mr_also r)"
    using assms row by (auto simp: file_entry_def Let_def case_prod_beta extras_fresh)
  show "filter (\<lambda>x. ex_patrol x = mr_patrol r) (d_extra_units s') = map (extra_row (mr_patrol r)) (mr_also r)"
    if "\<not> p_failing env PDeleteExtra 0"
    using assms row that by (auto simp: file_entry_def Let_def case_prod_beta extras_stored delete_where_def)
qed

text \<open>
  The additional units of an accepted entry are different codes, letter case aside, none of them
  blank and none the entry's own unit; and after it they are exactly the rows stored for it, those of
  an earlier filing being gone. One lecture is never counted twice against one unit.
\<close>

theorem manual_units_once:
  assumes "PatrolManualEntry env (Some req) s = (Reply 200 r, s')" and "\<not> p_failing env PDeleteExtra 0"
  shows "distinct (map (\<lambda>x. to_lower (rs_unit x)) (mr_also r)) \<and>
    (\<forall>x \<in> set (mr_also r). rs_unit x \<noteq> [] \<and> to_lower (rs_unit x) \<noteq> to_lower (trim_space (rs_unit (mr_unit r)))) \<and>
    filter (\<lambda>x. ex_patrol x = mr_patrol r) (d_extra_units s') = map (extra_row (mr_patrol r)) (mr_also r)"
proof -
  obtain made_good s0 where filed: "file_entry env (trimmed_entry req) made_good s0 = (Reply 200 r, s')"
    using assms(1) by (auto simp: PatrolManualEntry_def Let_def case_prod_beta split: if_splits sum.splits)
  show ?thesis
    using file_entry_units [OF filed] assms(2) by (auto simp: fresh_codes_def to_lower_def)
qed

section \<open>A round\<close>

text \<open>A small institution: one room with a name, two units of one lecturer in it at nine on Thursdays.\<close>

definition demo_round_env :: patrol_env where
  "demo_round_env =
     \<lparr>p_tenant = zero_uuid, p_user = ''m'', p_header = ''h'', p_now = 0, p_today = 719528, p_zone = kampala,
      p_failing = (\<lambda>_ _. False), p_refuses = (\<lambda>_. False), p_date = (\<lambda>_. Some 719530), p_timestamp = (\<lambda>_. None),
      p_uuid = Some, p_time = (\<lambda>t. map_option (\<lambda>(h, m). h * 60 + m) (parse_hm t)), p_day_of = civil_day utc, p_fresh = itoa,
      p_unreachable = (\<lambda>_ _. False)\<rparr>"

definition demo_slot :: "string \<Rightarrow> slot_row" where
  "demo_slot u =
     \<lparr>ts_tenant = zero_uuid, ts_unit = u, ts_offering = None, ts_lecturer = Some ''l'', ts_room = None, ts_venue = Some ''v1'',
      ts_dow = 4, ts_start = 540, ts_minutes = Some 60\<rparr>"

definition demo_round :: patrol_db where
  "demo_round =
     \<lparr>d_slots = [demo_slot ''u1'', demo_slot ''u2''],
      d_units = [\<lparr>cu_id = ''u1'', cu_tenant = zero_uuid, cu_name = None, cu_course = None, cu_year = None, cu_semester = None\<rparr>,
                 \<lparr>cu_id = ''u2'', cu_tenant = zero_uuid, cu_name = None, cu_course = None, cu_year = None, cu_semester = None\<rparr>],
      d_courses = [], d_offerings = [],
      d_venues = [\<lparr>ve_id = ''v1'', ve_tenant = zero_uuid, ve_name = ''hall'', ve_building = None, ve_active = None\<rparr>],
      d_lecturers = [\<lparr>lec_id = ''l'', lec_tenant = zero_uuid, lec_staff = Some ''s1'', lec_name = None, lec_department = None, lec_user = None\<rparr>],
      d_assignments = [], d_users = [], d_user_schools = [], d_schools = [], d_bindings = [], d_logs = [], d_notifications = [],
      d_recipients = [], d_audit = [], d_extra_units = []\<rparr>"

definition demo_tick :: patrolLogIn where
  "demo_tick =
     \<lparr>li_unit = ''u1'', li_unit_name = ''Logic'', li_course = [], li_lecturer = ''s1'', li_lecturer_name = [], li_room = [],
      li_date = ''1970-01-03'', li_time = ''09:00'', li_taught = False, li_taken_at = [], li_offering = [], li_found_venue = [],
      li_found_time = [], li_found_date = [], li_venue_changed = False, li_remarks = [], li_compensation = False,
      li_compensation_for = []\<rparr>"

definition demo_entry :: "string \<Rightarrow> manualEntry" where
  "demo_entry u =
     \<lparr>me_room_id = [], me_room = [], me_unit = u, me_unit_name = ''Logic'', me_staff = ''s1'', me_lecturer = [], me_class = [],
      me_school = [], me_department = [], me_students = 12,
      me_also = [\<lparr>xu_unit = ''u2'', xu_name = [], xu_class = [], xu_school = [], xu_department = []\<rparr>,
                 \<lparr>xu_unit = ''U2'', xu_name = [], xu_class = [], xu_school = [], xu_department = []\<rparr>],
      me_date = [], me_time = ''9:30'', me_end = [], me_taught = True, me_remarks = [], me_compensation = False,
      me_compensation_at = [], me_compensation_for = []\<rparr>"

lemma demo_ready: "ready demo_round_env" "ready (demo_round_env\<lparr>p_now := t\<rparr>)"
proof -
  have "ValidTenantID zero_uuid"
    by code_simp
  then show "ready demo_round_env" "ready (demo_round_env\<lparr>p_now := t\<rparr>)"
    by (simp_all add: ready_def demo_round_env_def)
qed

lemma demo_ok: "patrol_ok demo_round"
  by (simp add: patrol_ok_def demo_round_def)

lemma demo_calls:
  "\<not> p_failing demo_round_env c i" "\<not> p_failing (demo_round_env\<lparr>p_now := t\<rparr>) c i" "\<not> p_refuses demo_round_env r"
  by (simp_all add: demo_round_env_def)

lemma demo_written: "written demo_round_env who demo_tick"
  by (simp add: written_def tick_row_def opt_cast_def demo_tick_def demo_round_env_def)



theorem ticks_never_future_witness:
  "let rows = d_logs (snd (PatrolSync demo_round_env (Some [demo_tick]) demo_round))
   in length rows = 1 \<and> pl_date (hd rows) \<le> 719528 \<and> p_date demo_round_env (li_date demo_tick) = Some 719530"
proof -
  let ?rows = "d_logs (snd (PatrolSync demo_round_env (Some [demo_tick]) demo_round))"
  have "?rows = ticks.put demo_round_env (patroller_identity demo_round_env demo_round) [] demo_tick"
    using sync_logs [OF demo_ready(1), of "[demo_tick]" demo_round] by (simp add: demo_written demo_round_def)
  then have one: "length ?rows = 1"
    by (simp add: ticks.put_def upsert_def)
  then have "hd ?rows \<in> set ?rows"
    by (cases ?rows) auto
  then show ?thesis
    using ticks_never_future [of "hd ?rows" demo_round_env "Some [demo_tick]" demo_round] one
    by (simp add: Let_def demo_round_env_def demo_round_def)
qed

lemma demo_venues: "venue_name demo_round_env demo_round v = (if v = ''v1'' then Some ''hall'' else None)"
  by (simp add: venue_name_def seen_def demo_round_def demo_round_env_def select_one_def)

lemma demo_manifest: "\<exists>m. fst (PatrolManifest (demo_round_env\<lparr>p_now := t\<rparr>) demo_round) = Reply 200 m"
  by (simp add: PatrolManifest_def demo_ready demo_calls case_prod_beta Let_def)

theorem manifest_without_companions_witness:
  "\<exists>m. fst (PatrolManifest demo_round_env demo_round) = Reply 200 m \<and> list_all (\<lambda>sl. sl_also sl = []) (m_slots m)"
proof -
  have now: "demo_round_env\<lparr>p_now := 0\<rparr> = demo_round_env"
    by (simp add: demo_round_env_def)
  obtain m where m: "fst (PatrolManifest demo_round_env demo_round) = Reply 200 m"
    using demo_manifest [of 0] by (auto simp: now)
  have venues: "\<forall>ts \<in> set (d_slots demo_round). free_text ts = None \<and> (\<exists>v n. ts_venue ts = Some v \<and> venue_name demo_round_env demo_round v = Some n)"
    by (simp add: demo_venues) (simp add: demo_round_def demo_slot_def free_text_def)
  have "norm ''hall'' \<noteq> norm ''v1''"
    by code_simp
  then have "\<forall>v w n. venue_name demo_round_env demo_round v \<noteq> None \<and> venue_name demo_round_env demo_round w = Some n \<longrightarrow> norm n \<noteq> norm v"
    by (auto simp: demo_venues split: if_splits)
  then show ?thesis
    using manifest_without_companions [OF venues _ m] m by (auto simp: list_all_iff)
qed

theorem search_terms_witness:
  "matches_search demo_round_env demo_round ByUnit ''u1%'' (demo_slot ''u1'') \<and>
   matches_search demo_round_env demo_round ByLecturer (to_lower (trim_space ''%'') @ ''%'') (demo_slot ''u2'')"
proof -
  have "has_prefix (btrim (to_lower (ts_unit (demo_slot ''u1'')))) ''u1'' \<and> plain ''u1''"
    by code_simp
  then show ?thesis
    using search_terms [of "''u1''" demo_round_env demo_round "demo_slot ''u1''"]
      search_terms [of "''u1''" demo_round_env demo_round "demo_slot ''u2''" ByLecturer] by simp
qed

lemma early_year: "civil_day utc t < 1000000 \<Longrightarrow> year (civil_date utc t) < 10000"
proof -
  assume early: "civil_day utc t < 1000000"
  let ?n = "civil_day utc t"
  have "365 * year (date_of_day ?n) \<le> ?n"
    using find_year_bounds [OF start_year, of ?n] days_before_year_ge [of "find_year (?n div 366) ?n"]
    by (simp add: date_of_day_def Let_def split: prod.split)
  with early show ?thesis
    by (simp add: civil_date_def)
qed

theorem manifest_day_witness:
  "\<exists>m d. fst (PatrolManifest (demo_round_env\<lparr>p_now := 22 * hour\<rparr>) demo_round) = Reply 200 m \<and>
     parse_ymd (m_date m) = Some d \<and> m_dow m \<noteq> iso_weekday_of d"
proof -
  obtain m where m: "fst (PatrolManifest (demo_round_env\<lparr>p_now := 22 * hour\<rparr>) demo_round) = Reply 200 m"
    using demo_manifest by blast
  have "year (civil_date utc (22 * hour)) < 10000"
    by (rule early_year) (simp add: civil_day_def utc_def epoch_day_def duration_defs)
  then show ?thesis
    using manifest_day [OF m] m by (force simp: demo_round_env_def since_midnight_def kampala_def duration_defs)
qed

lemma demo_checks:
  "entry_checks demo_round_env (trimmed_entry (demo_entry u)) = Inr None"
  "observed_at demo_round_env (trimmed_entry (demo_entry u)) = ''9:30''"
proof -
  have "trim_space ''s1'' = ''s1''" "trim_space ''Logic'' = ''Logic''" "trim_space ''9:30'' = ''9:30''" "validHHMM ''9:30''"
    by code_simp+
  then show "entry_checks demo_round_env (trimmed_entry (demo_entry u)) = Inr None"
    "observed_at demo_round_env (trimmed_entry (demo_entry u)) = ''9:30''"
    by (simp_all add: entry_checks_def observed_at_def trimmed_entry_def demo_entry_def Let_def)
qed

theorem manual_guard_witness:
  "fst (PatrolManualEntry demo_round_env (Some (demo_entry ''u1'')) demo_round) = Reject 409 ''ON_THE_ROUND''"
proof -
  have u1: "trim_space ''u1'' = ''u1''" and "parse_hm ''9:30'' = Some (9, 30)"
    by code_simp+
  then have "p_time demo_round_env ''9:30'' = Some 570"
    by (simp add: demo_round_env_def)
  moreover note u1
  moreover have "ISOWeekday (p_zone demo_round_env) (p_now demo_round_env) = 4"
    by (simp add: demo_round_env_def ISOWeekday_def go_weekday_def civil_day_def kampala_def epoch_day_def duration_defs)
  ultimately show ?thesis
    using manual_guard [OF demo_checks(1) [of "''u1''"] demo_ready(1) demo_calls(1), of demo_round]
    by (simp add: demo_checks(2)) (simp add: demo_entry_def demo_round_def demo_slot_def demo_round_env_def covers_def or_default_def)
qed

theorem manual_units_once_witness:
  "\<exists>r. fst (PatrolManualEntry demo_round_env (Some (demo_entry [])) demo_round) = Reply 200 r \<and>
     distinct (map (\<lambda>x. to_lower (rs_unit x)) (mr_also r))"
proof -
  have "p_date demo_round_env v = Some 719530" for v
    by (simp add: demo_round_env_def)
  then have "\<exists>r. fst (file_entry demo_round_env req made_good s) = Reply 200 r" for req made_good s
    by (simp add: file_entry_def manual_row_def demo_calls Let_def case_prod_beta)
  moreover have "me_unit (trimmed_entry (demo_entry [])) = []"
    by code_simp
  ultimately obtain r where r: "fst (PatrolManualEntry demo_round_env (Some (demo_entry [])) demo_round) = Reply 200 r"
    by (simp add: PatrolManualEntry_def Let_def case_prod_beta demo_checks demo_ready on_the_round_def) blast
  then show ?thesis
    using manual_units_once [of demo_round_env "demo_entry []" demo_round r] demo_calls
    by (metis prod.collapse)
qed

end
