(* ===== verification/Roles.thy ===== *)
theory Roles
  imports Main
begin

text \<open>
  The roles of the system (\<open>middleware/rbac.go\<close>), as the strings a token carries, and that no two of them are the same.
\<close>

definition RoleCoordinator :: string where "RoleCoordinator = ''COORDINATOR''"
definition RoleQAOfficer :: string where "RoleQAOfficer = ''QA_OFFICER''"
definition RoleDQADirector :: string where "RoleDQADirector = ''DQA_DIRECTOR''"
definition RoleVC :: string where "RoleVC = ''VC''"
definition RoleDVC :: string where "RoleDVC = ''DVC''"
definition RoleAdmin :: string where "RoleAdmin = ''ADMIN''"
definition RoleStudent :: string where "RoleStudent = ''STUDENT''"
definition RoleLecturer :: string where "RoleLecturer = ''LECTURER''"
definition RolePatroller :: string where "RolePatroller = ''QA_PATROLLER''"
definition RoleHOD :: string where "RoleHOD = ''HOD''"
definition RoleDean :: string where "RoleDean = ''DEAN''"
definition RoleQASchool :: string where "RoleQASchool = ''QA_SCHOOL_HANDLER''"
definition RoleQADeptRep :: string where "RoleQADeptRep = ''QA_DEPT_REP''"
definition RoleTLC :: string where "RoleTLC = ''TLC''"

lemmas role_defs = RoleCoordinator_def RoleQAOfficer_def RoleDQADirector_def RoleVC_def RoleDVC_def RoleAdmin_def RoleStudent_def RoleLecturer_def
  RolePatroller_def RoleHOD_def RoleDean_def RoleQASchool_def RoleQADeptRep_def RoleTLC_def

definition all_roles :: "string list" where
  "all_roles = [RoleCoordinator, RoleQAOfficer, RoleDQADirector, RoleVC, RoleDVC, RoleAdmin, RoleStudent, RoleLecturer,
     RolePatroller, RoleHOD, RoleDean, RoleQASchool, RoleQADeptRep, RoleTLC]"

lemma roles_distinct: "distinct all_roles"
  by (simp add: all_roles_def role_defs)

end
