(* ===== verification/Gateway.thy ===== *)
theory Gateway
  imports Auth_Service Sessions Roles
begin

text \<open>
  What stands in front of a handler: the token check of the gateway (\<open>jwt.go\<close>) and the same check of
  session-manager and sync-receiver, the tenant and role checks (\<open>tenant.go\<close>, \<open>rbac.go\<close>), the rate
  limits (\<open>ratelimit.go\<close>) and the audit log (\<open>audit.go\<close>).

  A handler is a function of the request's context and the state; a middleware wraps one. Parsing a
  token is the JWT library's, as in \<open>Auth_Service\<close>, and Redis is the store auth-service writes the
  revoked tokens to. The limiter of a caller is a value of the rate library: a fresh one, and what
  \<open>Allow\<close> answers at a time, are parameters.
\<close>

section \<open>The token\<close>

record request_context =
  cx_user :: string
  cx_tenant :: string
  cx_role :: string
  cx_jti :: string

definition no_context :: request_context where
  "no_context = \<lparr>cx_user = [], cx_tenant = [], cx_role = [], cx_jti = []\<rparr>"

record mw_env =
  mw_now :: instant
  mw_redis_fails :: bool
  mw_parse :: "string \<Rightarrow> string \<Rightarrow> string \<Rightarrow> Claims option"
  mw_issuer :: string
  mw_audience :: string

definition isBlacklisted :: "mw_env \<Rightarrow> (string \<Rightarrow> instant option) \<Rightarrow> string \<Rightarrow> bool option" where
  "isBlacklisted env store jti =
     (if mw_redis_fails env then None
      else Some (case store (''jti:blacklist:'' @ jti) of None \<Rightarrow> False | Some t \<Rightarrow> mw_now env < t))"

definition parseToken :: "mw_env \<Rightarrow> string \<Rightarrow> Claims option" where
  "parseToken env tokenStr = mw_parse env (mw_issuer env) (mw_audience env) tokenStr"

definition claims_context :: "Claims \<Rightarrow> request_context" where
  "claims_context c = \<lparr>cx_user = Subject c, cx_tenant = ClaimTenant c, cx_role = ClaimRole c, cx_jti = ID c\<rparr>"

text \<open>\<open>auth\<close> is the \<open>Authorization\<close> header, empty when it is not sent.\<close>

definition JWTAuth ::
  "mw_env \<Rightarrow> (string \<Rightarrow> instant option) \<Rightarrow> string \<Rightarrow> (request_context \<Rightarrow> 's \<Rightarrow> 'a reply \<times> 's) \<Rightarrow> 's \<Rightarrow> 'a reply \<times> 's" where
  "JWTAuth env store auth nxt s =
     (let tokenStr = extractBearer auth in
      if tokenStr = [] then (Reject 401 ''MISSING_TOKEN'', s)
      else case parseToken env tokenStr of
        None \<Rightarrow> (Reject 401 ''TOKEN_INVALID'', s)
      | Some claims \<Rightarrow>
          if isBlacklisted env store (ID claims) \<noteq> Some False then (Reject 401 ''TOKEN_REVOKED'', s)
          else nxt (claims_context claims) s)"

text \<open>The middleware of session-manager, and that of sync-receiver, which does not keep the role.\<close>

definition sm_Middleware ::
  "mw_env \<Rightarrow> (string \<Rightarrow> instant option) \<Rightarrow> string \<Rightarrow> (request_context \<Rightarrow> 's \<Rightarrow> 'a reply \<times> 's) \<Rightarrow> 's \<Rightarrow> 'a reply \<times> 's" where
  "sm_Middleware env store auth nxt s =
     (let tokenStr = extractBearer auth in
      if tokenStr = [] then (Reject 401 ''MISSING_TOKEN'', s)
      else case parseToken env tokenStr of
        None \<Rightarrow> (Reject 401 ''TOKEN_INVALID'', s)
      | Some c \<Rightarrow>
          if isBlacklisted env store (ID c) \<noteq> Some False then (Reject 401 ''TOKEN_REVOKED'', s)
          else nxt \<lparr>cx_user = Subject c, cx_tenant = ClaimTenant c, cx_role = ClaimRole c, cx_jti = []\<rparr> s)"

definition sr_Middleware ::
  "mw_env \<Rightarrow> (string \<Rightarrow> instant option) \<Rightarrow> string \<Rightarrow> (request_context \<Rightarrow> 's \<Rightarrow> 'a reply \<times> 's) \<Rightarrow> 's \<Rightarrow> 'a reply \<times> 's" where
  "sr_Middleware env store auth nxt s =
     (let tokenStr = extractBearer auth in
      if tokenStr = [] then (Reject 401 ''MISSING_TOKEN'', s)
      else case parseToken env tokenStr of
        None \<Rightarrow> (Reject 401 ''TOKEN_INVALID'', s)
      | Some c \<Rightarrow>
          if isBlacklisted env store (ID c) \<noteq> Some False then (Reject 401 ''TOKEN_REVOKED'', s)
          else nxt \<lparr>cx_user = Subject c, cx_tenant = ClaimTenant c, cx_role = [], cx_jti = []\<rparr> s)"

section \<open>Tenant and role\<close>

definition SetTenant :: "(request_context \<Rightarrow> 's \<Rightarrow> 'a reply \<times> 's) \<Rightarrow> request_context \<Rightarrow> 's \<Rightarrow> 'a reply \<times> 's" where
  "SetTenant nxt cx s =
     (if cx_tenant cx = [] then (Reject 500 ''MISSING_TENANT'', s)
      else if \<not> ValidTenantID (cx_tenant cx) then (Reject 403 ''INVALID_TENANT'', s)
      else nxt cx s)"

definition RequireRole :: "string list \<Rightarrow> (request_context \<Rightarrow> 's \<Rightarrow> 'a reply \<times> 's) \<Rightarrow> request_context \<Rightarrow> 's \<Rightarrow> 'a reply \<times> 's" where
  "RequireRole roles nxt cx s =
     (if cx_role cx \<notin> set roles then (Reject 403 ''INSUFFICIENT_ROLE'', s) else nxt cx s)"

text \<open>
  A connection of the pool carries the tenant last set on it; the hook of the pool clears it
  when the connection is taken out. \<open>SetTenantConn\<close> answers whether it succeeded.
\<close>

definition clear_on_acquire :: "string option \<Rightarrow> string option" where
  "clear_on_acquire conn = None"

definition SetTenantConn :: "bool \<Rightarrow> string \<Rightarrow> string option \<Rightarrow> bool \<times> string option" where
  "SetTenantConn exec_fails tenantID conn =
     (if \<not> ValidTenantID tenantID then (False, conn)
      else if exec_fails then (False, conn)
      else (True, Some tenantID))"

text \<open>\<open>tenantDB.Exec\<close>: \<open>run\<close> is the statement on a connection with its tenant; \<open>None\<close> is an error.\<close>

definition tenantDB_Exec ::
  "bool \<Rightarrow> bool \<Rightarrow> string \<Rightarrow> (string option \<Rightarrow> 's \<Rightarrow> 's option) \<Rightarrow> string option \<Rightarrow> 's \<Rightarrow> bool \<times> string option \<times> 's" where
  "tenantDB_Exec acquire_fails set_fails tenantID run conn s =
     (if acquire_fails then (False, conn, s)
      else
        let (ok, conn) = SetTenantConn set_fails tenantID (clear_on_acquire conn) in
        if \<not> ok then (False, conn, s)
        else case run conn s of None \<Rightarrow> (False, conn, s) | Some s' \<Rightarrow> (True, conn, s'))"

section \<open>Rate limits\<close>

record 'l limiter_maps =
  coordinators :: "string \<Rightarrow> 'l option"
  global_limits :: "string \<Rightarrow> 'l option"

definition take_limiter :: "'l \<Rightarrow> (string \<Rightarrow> 'l option) \<Rightarrow> string \<Rightarrow> 'l" where
  "take_limiter fresh m k = (case m k of None \<Rightarrow> fresh | Some l \<Rightarrow> l)"

text \<open>
  \<open>new r b\<close> is \<open>rate.NewLimiter(r, b)\<close> and \<open>allow t l\<close> the answer of \<open>Allow\<close> at time \<open>t\<close> with the limiter
  after it; the reply is \<open>None\<close> when the request is passed on.
\<close>

definition CoordinatorRateLimit ::
  "(nat \<Rightarrow> nat \<Rightarrow> 'l) \<Rightarrow> (instant \<Rightarrow> 'l \<Rightarrow> bool \<times> 'l) \<Rightarrow> instant \<Rightarrow> request_context \<Rightarrow> string \<Rightarrow> 'l limiter_maps \<Rightarrow> bool \<times> 'l limiter_maps" where
  "CoordinatorRateLimit new allow now cx ip m =
     (if cx_role cx = RoleCoordinator
      then let (ok, l) = allow now (take_limiter (new 50 100) (coordinators m) (cx_user cx))
           in (ok, m\<lparr>coordinators := (coordinators m)(cx_user cx \<mapsto> l)\<rparr>)
      else let (ok, l) = allow now (take_limiter (new 200 400) (global_limits m) ip)
           in (ok, m\<lparr>global_limits := (global_limits m)(ip \<mapsto> l)\<rparr>))"

record 'l ip_entry =
  lim :: 'l
  seen_at :: instant

record 'l ip_limits =
  ips :: "string \<Rightarrow> 'l ip_entry option"
  next_sweep :: "instant option"

definition idleFor :: duration where "idleFor = 10 * minute"

text \<open>The zero time of \<open>next\<close> is before every instant, hence \<open>None\<close>.\<close>

definition sweep_ips :: "instant \<Rightarrow> 'l ip_limits \<Rightarrow> 'l ip_limits" where
  "sweep_ips now m =
     (if (case next_sweep m of None \<Rightarrow> False | Some t \<Rightarrow> now < t) then m
      else m\<lparr>next_sweep := Some (now + minute),
             ips := (\<lambda>ip. case ips m ip of None \<Rightarrow> None | Some e \<Rightarrow> if idleFor < now - seen_at e then None else Some e)\<rparr>)"

definition PublicIPRateLimit ::
  "'l \<Rightarrow> (instant \<Rightarrow> 'l \<Rightarrow> bool \<times> 'l) \<Rightarrow> instant \<Rightarrow> string \<Rightarrow> 'l ip_limits \<Rightarrow> bool \<times> 'l ip_limits" where
  "PublicIPRateLimit fresh allow now ip m =
     (let m = sweep_ips now m;
          (ok, l) = allow now (case ips m ip of None \<Rightarrow> fresh | Some e \<Rightarrow> lim e)
      in (ok, m\<lparr>ips := (ips m)(ip \<mapsto> \<lparr>lim = l, seen_at = now\<rparr>)\<rparr>))"

section \<open>The audit log\<close>

record audit_request =
  rq_method :: string
  rq_path :: string
  rq_multipart :: bool
  rq_body :: bytes
  rq_origin :: origin

record audit_entry =
  ae_actor :: string
  ae_role :: string
  ae_action :: string
  ae_payload :: "bytes option"
  ae_ip :: string

definition maxAuditBody :: nat where "maxAuditBody = 12 * 1024 * 1024"

text \<open>
  \<open>AuditLog\<close>: the body the handler is given, and the entry written after it. The write is a goroutine whose error is
  dropped: \<open>written\<close> says whether it succeeds. A body that is not JSON leaves the payload empty.
\<close>

definition downstream_body :: "audit_request \<Rightarrow> bytes" where
  "downstream_body rq = (if rq_multipart rq then rq_body rq else take maxAuditBody (rq_body rq))"

definition audit_ip :: "origin \<Rightarrow> string" where
  "audit_ip o' =
     (if x_forwarded_for o' \<noteq> [] then hd (split_on (CHR '','') (x_forwarded_for o'))
      else case last_index (remote_addr o') (CHR '':'') of None \<Rightarrow> remote_addr o' | Some i \<Rightarrow> take i (remote_addr o'))"

definition AuditLog ::
  "(bytes \<Rightarrow> bool) \<Rightarrow> bool \<Rightarrow> audit_request \<Rightarrow> request_context \<Rightarrow> (bytes \<Rightarrow> 's \<Rightarrow> 'a reply \<times> 's) \<Rightarrow> 's \<Rightarrow> 'a reply \<times> 's \<times> audit_entry option" where
  "AuditLog is_json written rq cx nxt s =
     (if rq_method rq = ''GET'' \<or> rq_method rq = ''OPTIONS'' \<or> cx_role cx = RoleCoordinator
      then let (r, s) = nxt (rq_body rq) s in (r, s, None)
      else
        let snap = (if rq_multipart rq then [] else take 8192 (downstream_body rq));
            (r, s) = nxt (downstream_body rq) s
        in if 400 \<le> status_of r \<and> status_of r < 500 then (r, s, None)
           else (r, s, if written
                 then Some \<lparr>ae_actor = cx_user cx, ae_role = cx_role cx, ae_action = rq_method rq @ '' '' @ rq_path rq,
                        ae_payload = (if snap \<noteq> [] \<and> is_json snap then Some snap else None), ae_ip = audit_ip (rq_origin rq)\<rparr>
                 else None))"

section \<open>Revocation across the services\<close>

text \<open>
  What the three services share: a middleware that asks Redis about the identifier of the token. A
  revoked one is refused by each, whatever it guards.
\<close>

locale revocable =
  fixes mw :: "mw_env \<Rightarrow> (string \<Rightarrow> instant option) \<Rightarrow> string \<Rightarrow> (request_context \<Rightarrow> 's \<Rightarrow> 'a reply \<times> 's) \<Rightarrow> 's \<Rightarrow> 'a reply \<times> 's"
  assumes refuses_revoked:
    "parseToken env (extractBearer auth) = Some c \<Longrightarrow> extractBearer auth \<noteq> [] \<Longrightarrow>
     isBlacklisted env store (ID c) \<noteq> Some False \<Longrightarrow> mw env store auth nxt s = (Reject 401 ''TOKEN_REVOKED'', s)"
begin

lemma revoked_until:
  assumes "parseToken env (extractBearer auth) = Some c" and "extractBearer auth \<noteq> []"
    and "store (jtiPrefix @ ID c) = Some t" and "mw_now env < t"
  shows "mw env store auth nxt s = (Reject 401 ''TOKEN_REVOKED'', s)"
  using assms by (intro refuses_revoked [of env auth c]) (auto simp: isBlacklisted_def jtiPrefix_def)

end

interpretation gateway_mw: revocable JWTAuth
  by unfold_locales (auto simp: JWTAuth_def)

interpretation session_manager_mw: revocable sm_Middleware
  by unfold_locales (auto simp: sm_Middleware_def)

interpretation sync_receiver_mw: revocable sr_Middleware
  by unfold_locales (auto simp: sr_Middleware_def)

lemma revoke_store:
  assumes "clock aenv < expiry" and "expiry - clock aenv \<le> max_duration" and "\<not> fails aenv CallRedisSet"
  shows "redis (revoke aenv c expiry st) (jtiPrefix @ ID c) = Some expiry"
  using assms by (simp add: revoke_def Blacklist_def time_sub_def max_duration_def Let_def)

text \<open>
  C24. Signing out is felt everywhere: once auth-service has revoked a token, the gateway,
  session-manager and sync-receiver, asking the same Redis, refuse it as revoked and run nothing,
  at every time until the token expires of itself.
\<close>

theorem logout_revokes_everywhere:
  assumes "Parse aenv (jwt h) (extractBearer auth) = Some c" and "extractBearer auth \<noteq> []" and "ExpiresAt c = Some expiry"
    and "clock aenv < expiry" and "expiry - clock aenv \<le> max_duration" and "\<not> fails aenv CallRedisSet"
    and "store = redis (snd (Logout aenv h auth st))"
    and "parseToken env (extractBearer auth) = Some c" and "mw_now env < expiry"
  shows "JWTAuth env store auth nxt s = (Reject 401 ''TOKEN_REVOKED'', s) \<and>
    sm_Middleware env store auth nxt s = (Reject 401 ''TOKEN_REVOKED'', s) \<and>
    sr_Middleware env store auth nxt s = (Reject 401 ''TOKEN_REVOKED'', s)"
proof -
  have "store (jtiPrefix @ ID c) = Some expiry"
    using assms(1-3,7) revoke_store [OF assms(4-6)] by (simp add: Logout_def)
  then show ?thesis
    using assms(2,8,9)
    by (intro conjI gateway_mw.revoked_until session_manager_mw.revoked_until sync_receiver_mw.revoked_until)
qed

definition demo_mw :: "instant \<Rightarrow> mw_env" where
  "demo_mw now = \<lparr>mw_now = now, mw_redis_fails = False, mw_parse = (\<lambda>_ _ tok. Some (demo_claims (100 * hour) tok)),
     mw_issuer = ''qaat'', mw_audience = ''qaat''\<rparr>"

theorem logout_revokes_everywhere_witness:
  "JWTAuth (demo_mw (99 * hour)) (redis (snd (Logout (demo_env 0) demo_handler ''Bearer u1'' (demo_auth ''STUDENT'')))) ''Bearer u1''
     (\<lambda>_ s. (Reply 200 (), s)) () = (Reject 401 ''TOKEN_REVOKED'', ())"
proof -
  have "extractBearer ''Bearer u1'' = ''u1''"
    by code_simp
  then show ?thesis
    using logout_revokes_everywhere [of "demo_env 0" demo_handler "''Bearer u1''" "demo_claims (100 * hour) ''u1''" "100 * hour",
        OF _ _ _ _ _ _ refl, of "demo_mw (99 * hour)" "demo_auth ''STUDENT''" "\<lambda>_ s. (Reply 200 (), s)" "()"]
    by (simp add: Parse_def parseToken_def demo_env_def demo_mw_def demo_claims_def max_duration_def duration_defs)
qed

section \<open>Forgetting idle callers\<close>

text \<open>The limit without eviction: a limiter is kept for every caller ever seen.\<close>

definition remembering_limit ::
  "'l \<Rightarrow> (instant \<Rightarrow> 'l \<Rightarrow> bool \<times> 'l) \<Rightarrow> instant \<Rightarrow> string \<Rightarrow> (string \<Rightarrow> 'l option) \<Rightarrow> bool \<times> (string \<Rightarrow> 'l option)" where
  "remembering_limit fresh allow now ip m =
     (let (ok, l) = allow now (take_limiter fresh m ip) in (ok, m(ip \<mapsto> l)))"

fun decisions :: "(instant \<Rightarrow> string \<Rightarrow> 'm \<Rightarrow> bool \<times> 'm) \<Rightarrow> 'm \<Rightarrow> (instant \<times> string) list \<Rightarrow> bool list" where
  "decisions limit m [] = []"
| "decisions limit m ((t, ip) # rs) = (let (ok, m) = limit t ip m in ok # decisions limit m rs)"

text \<open>
  What the rate library documents of a limiter, as far as it is needed: one that has been idle for
  the window is full again (\<open>settled\<close>), and a full one answers as a fresh one does.
\<close>

definition refills :: "'l \<Rightarrow> (instant \<Rightarrow> 'l \<Rightarrow> bool \<times> 'l) \<Rightarrow> (instant \<Rightarrow> 'l \<Rightarrow> bool) \<Rightarrow> bool" where
  "refills fresh allow settled =
     ((\<forall>t u l. settled t l \<and> t \<le> u \<longrightarrow> allow u l = allow u fresh) \<and>
      (\<forall>t u l. idleFor < u - t \<longrightarrow> settled u (snd (allow t l))))"

text \<open>What the two maps may hold of one caller: the same limiter, or one that was forgotten when it was full.\<close>

fun same_entry_limit ::
  "(instant \<Rightarrow> 'l \<Rightarrow> bool \<times> 'l) \<Rightarrow> (instant \<Rightarrow> 'l \<Rightarrow> bool) \<Rightarrow> instant \<Rightarrow> 'l ip_entry option \<Rightarrow> 'l option \<Rightarrow> bool" where
  "same_entry_limit allow settled now (Some e) l = (l = Some (lim e) \<and> (\<exists>l0. lim e = snd (allow (seen_at e) l0)))"
| "same_entry_limit allow settled now None (Some l) = (\<exists>t \<le> now. settled t l)"
| "same_entry_limit allow settled now None None = True"

definition same_limits ::
  "(instant \<Rightarrow> 'l \<Rightarrow> bool \<times> 'l) \<Rightarrow> (instant \<Rightarrow> 'l \<Rightarrow> bool) \<Rightarrow> instant \<Rightarrow> 'l ip_limits \<Rightarrow> (string \<Rightarrow> 'l option) \<Rightarrow> bool" where
  "same_limits allow settled now m m' = (\<forall>ip. same_entry_limit allow settled now (ips m ip) (m' ip))"

lemma same_entry_later: "same_entry_limit allow settled t e l \<Longrightarrow> t \<le> now \<Longrightarrow> same_entry_limit allow settled now e l"
  by (cases e; cases l) (auto intro: order.trans)

lemma same_entry_forgotten:
  "refills fresh allow settled \<Longrightarrow> same_entry_limit allow settled now (Some e) l \<Longrightarrow> idleFor < now - seen_at e \<Longrightarrow>
     same_entry_limit allow settled now None l"
  by (auto simp: refills_def)

lemma sweep_entry:
  "ips (sweep_ips now m) ip = ips m ip \<or> (\<exists>e. ips m ip = Some e \<and> idleFor < now - seen_at e \<and> ips (sweep_ips now m) ip = None)"
  by (auto simp: sweep_ips_def split: option.split)

lemma sweep_same:
  assumes "refills fresh allow settled" and "same_limits allow settled t m m'" and "t \<le> now"
  shows "same_limits allow settled now (sweep_ips now m) m'"
  unfolding same_limits_def
proof
  fix ip
  have "same_entry_limit allow settled now (ips m ip) (m' ip)"
    using assms(2,3) same_entry_later unfolding same_limits_def by blast
  then show "same_entry_limit allow settled now (ips (sweep_ips now m) ip) (m' ip)"
    using sweep_entry [of now m ip] same_entry_forgotten [OF assms(1)] by metis
qed

lemma asked_same:
  "refills fresh allow settled \<Longrightarrow> same_entry_limit allow settled now e l \<Longrightarrow>
     allow now (case e of None \<Rightarrow> fresh | Some e \<Rightarrow> lim e) = allow now (case l of None \<Rightarrow> fresh | Some l \<Rightarrow> l)"
  by (cases e; cases l) (auto simp: refills_def)

lemma limit_same:
  assumes "refills fresh allow settled" and "same_limits allow settled t m m'" and "t \<le> now"
  shows "fst (PublicIPRateLimit fresh allow now ip m) = fst (remembering_limit fresh allow now ip m')"
    and "same_limits allow settled now (snd (PublicIPRateLimit fresh allow now ip m)) (snd (remembering_limit fresh allow now ip m'))"
proof -
  let ?m = "sweep_ips now m"
  have same: "same_entry_limit allow settled now (ips ?m i) (m' i)" for i
    using sweep_same [OF assms] by (simp add: same_limits_def)
  have asked: "allow now (case ips ?m ip of None \<Rightarrow> fresh | Some e \<Rightarrow> lim e) = allow now (take_limiter fresh m' ip)"
    unfolding take_limiter_def by (rule asked_same [OF assms(1) same])
  then show "fst (PublicIPRateLimit fresh allow now ip m) = fst (remembering_limit fresh allow now ip m')"
    by (simp add: PublicIPRateLimit_def remembering_limit_def Let_def case_prod_beta)
  show "same_limits allow settled now (snd (PublicIPRateLimit fresh allow now ip m)) (snd (remembering_limit fresh allow now ip m'))"
    using same asked by (auto simp: same_limits_def PublicIPRateLimit_def remembering_limit_def Let_def case_prod_beta)
qed

lemma decisions_same:
  assumes "refills fresh allow settled"
  shows "same_limits allow settled t m m' \<Longrightarrow> sorted (t # map fst rs) \<Longrightarrow>
    decisions (PublicIPRateLimit fresh allow) m rs = decisions (remembering_limit fresh allow) m' rs"
proof (induction rs arbitrary: t m m')
  case (Cons r rs)
  obtain now ip where r: "r = (now, ip)"
    by fastforce
  then have now: "t \<le> now" "sorted (now # map fst rs)"
    using Cons.prems(2) by auto
  show ?case
    using limit_same [OF assms Cons.prems(1) now(1), of ip] Cons.IH [OF _ now(2)] by (simp add: r Let_def case_prod_beta)
qed simp

text \<open>
  Forgetting callers that have been idle for ten minutes grants nothing: for any requests in the
  order of time, the public limit answers exactly as one that keeps the limiter of every caller
  for ever, provided a limiter idle that long is full again.
\<close>

theorem eviction_unnoticed:
  assumes "refills fresh allow settled" and "sorted (map fst rs)"
  shows "decisions (PublicIPRateLimit fresh allow) \<lparr>ips = Map.empty, next_sweep = None\<rparr> rs =
    decisions (remembering_limit fresh allow) Map.empty rs"
proof (cases rs)
  case (Cons r rest)
  show ?thesis
    by (rule decisions_same [OF assms(1), of "fst (hd rs)"]) (use assms(2) Cons in \<open>auto simp: same_limits_def\<close>)
qed simp

text \<open>A bucket of five requests a second with a burst of twenty, kept as the time it has saved up.\<close>

definition bucket_allow :: "instant \<Rightarrow> (duration \<times> instant) option \<Rightarrow> bool \<times> (duration \<times> instant) option" where
  "bucket_allow now b =
     (let have_saved = (case b of None \<Rightarrow> 4 * second | Some (c, at) \<Rightarrow> max 0 (min (4 * second) (c + (now - at))))
      in if second \<le> 5 * have_saved then (True, Some (have_saved - second div 5, now)) else (False, Some (have_saved, now)))"

definition bucket_settled :: "instant \<Rightarrow> (duration \<times> instant) option \<Rightarrow> bool" where
  "bucket_settled t b = (case b of None \<Rightarrow> True | Some (c, at) \<Rightarrow> 4 * second \<le> c + (t - at))"

lemma bucket_refills: "refills None bucket_allow bucket_settled"
proof -
  have "bucket_allow u l = bucket_allow u None" if "bucket_settled t l" "t \<le> u" for t u l
    using that by (auto simp: bucket_settled_def bucket_allow_def duration_defs Let_def split: option.splits)
  moreover have "bucket_settled u (snd (bucket_allow t l))" if "idleFor < u - t" for t u l
    using that by (auto simp: bucket_settled_def bucket_allow_def idleFor_def duration_defs Let_def split: option.splits)
  ultimately show ?thesis
    by (auto simp: refills_def)
qed

theorem eviction_unnoticed_witness:
  "decisions (PublicIPRateLimit None bucket_allow) \<lparr>ips = Map.empty, next_sweep = None\<rparr>
     [(0, ''10.0.0.1''), (0, ''10.0.0.2''), (11 * minute, ''10.0.0.1'')] =
   decisions (remembering_limit None bucket_allow) Map.empty [(0, ''10.0.0.1''), (0, ''10.0.0.2''), (11 * minute, ''10.0.0.1'')]"
  by (rule eviction_unnoticed [OF bucket_refills]) (simp add: duration_defs)

end
