(* ===== verification/Router.thy ===== *)
theory Router
  imports Gateway
begin

text \<open>
  The router of the gateway (\<open>router.go\<close>): the table of its routes with the checks each is behind, the
  middlewares every request passes (\<open>security.go\<close>, \<open>cors.go\<close>) and the proxy to the other services (\<open>proxy.go\<close>).

  A route is its method and pattern, the limit per address of a public one or the roles of a protected one, the
  connection pool its handler is given and the handler's name. Which route a request takes is the routing library's: a
  parameter, of which is used only that it answers with a registered route. Header names are in canonical form.
\<close>

section \<open>Groups of roles\<close>

definition orgDashRoles :: "string list" where
  "orgDashRoles = [RoleHOD, RoleDean, RoleQADeptRep, RoleQASchool, RoleQAOfficer, RoleDQADirector, RoleVC, RoleDVC, RoleAdmin]"

definition hodAssign :: "string list" where
  "hodAssign = [RoleHOD, RoleDean, RoleAdmin, RoleTLC]"

definition qaRep :: "string list" where
  "qaRep = [RoleQADeptRep, RoleQASchool]"

definition qaRepOrOversight :: "string list" where
  "qaRepOrOversight = [RoleQADeptRep, RoleQASchool, RoleQAOfficer, RoleDQADirector, RoleVC, RoleDVC, RoleAdmin]"

definition coverageReaders :: "string list" where
  "coverageReaders = [RoleDQADirector, RoleQAOfficer, RoleVC, RoleDVC, RoleAdmin, RoleHOD, RoleDean, RoleQADeptRep, RoleQASchool]"

definition adminOwn :: "string list" where
  "adminOwn = [RoleAdmin]"

definition employeeReaders :: "string list" where
  "employeeReaders = [RoleAdmin, RoleVC, RoleDVC, RoleDQADirector, RoleQAOfficer]"

definition inboxRoles :: "string list" where
  "inboxRoles = [RoleStudent, RoleCoordinator, RoleLecturer, RoleHOD, RoleDean, RoleQADeptRep, RoleQASchool, RoleAdmin, RoleQAOfficer, RoleDQADirector, RoleVC, RoleDVC, RolePatroller]"

definition timetableReaders :: "string list" where
  "timetableReaders = [RoleAdmin, RoleQAOfficer, RoleTLC, RoleHOD, RoleDean, RoleQASchool, RoleQADeptRep, RoleDQADirector, RoleVC, RoleDVC]"

definition attendanceReaders :: "string list" where
  "attendanceReaders = [RoleAdmin, RoleQAOfficer, RoleVC, RoleDVC, RoleDQADirector, RoleHOD, RoleDean, RoleQADeptRep, RoleQASchool]"

section \<open>The table\<close>

datatype pool = Scoped | Privileged | NoPool

datatype guard = Public "(nat \<times> nat) option" | Protected "string list option"

record route =
  rt_method :: string
  rt_pattern :: string
  rt_guard :: guard
  rt_pool :: pool
  rt_handler :: string

definition public :: "string \<Rightarrow> string \<Rightarrow> (nat \<times> nat) option \<Rightarrow> pool \<Rightarrow> string \<Rightarrow> route" where
  "public m p limit db h = \<lparr>rt_method = m, rt_pattern = p, rt_guard = Public limit, rt_pool = db, rt_handler = h\<rparr>"

definition secured :: "string \<Rightarrow> string \<Rightarrow> string list option \<Rightarrow> pool \<Rightarrow> string \<Rightarrow> route" where
  "secured m p roles db h = \<lparr>rt_method = m, rt_pattern = p, rt_guard = Protected roles, rt_pool = db, rt_handler = h\<rparr>"

definition public_routes :: "route list" where
  "public_routes =
     [public ''GET'' ''/health'' None NoPool ''Health'',
      public ''GET'' ''/api/v1/health'' None NoPool ''Health'',
      public ''POST'' ''/internal/cron/notify-no-shows'' None Privileged ''CronNotifyNoShows'',
      public ''GET'' ''/metrics'' None NoPool ''promhttp.Handler'',
      public ''GET'' ''/api/v1/student/progress'' (Some (150, 1500)) Privileged ''StudentProgressByReg'',
      public ''POST'' ''/api/v1/student/register-device'' (Some (5, 20)) Privileged ''RegisterDevice'',
      public ''POST'' ''/api/v1/auth/app-login'' (Some (5, 250)) Privileged ''AppLogin'',
      public ''POST'' ''/api/v1/lecturer/gate-scan'' (Some (5, 60)) Privileged ''LecturerGateScan'',
      public ''GET'' ''/lecturer/checkin'' None NoPool ''LecturerCheckinPage'',
      public ''GET'' ''/lecturer/enroll'' None NoPool ''LecturerEnrollPage'',
      public ''GET'' ''/api/v1/lecturer/session-info'' (Some (10, 60)) Privileged ''LecturerSessionInfo'',
      public ''POST'' ''/api/v1/lecturer/webauthn/enroll/begin'' (Some (10, 60)) Privileged ''LecturerEnrollBegin'',
      public ''POST'' ''/api/v1/lecturer/webauthn/enroll/finish'' (Some (10, 60)) Privileged ''LecturerEnrollFinish'',
      public ''POST'' ''/api/v1/lecturer/webauthn/assert/begin'' (Some (20, 60)) Privileged ''LecturerAssertBegin'',
      public ''POST'' ''/api/v1/lecturer/webauthn/assert/finish'' (Some (20, 60)) Privileged ''LecturerAssertFinish'',
      public ''GET'' ''/api/v1/lecturer-portal/overview'' (Some (30, 60)) Privileged ''LecturerPortalOverview'',
      public ''GET'' ''/api/v1/lecturer-portal/attendance'' (Some (30, 60)) Privileged ''LecturerPortalAttendance'',
      public ''POST'' ''/api/v1/auth/coordinator-standby-login'' (Some (5, 20)) Privileged ''CoordinatorStandbyLogin'',
      public ''GET'' ''/api/v1/branding/public'' None Privileged ''GetPublicBranding'',
      public ''POST'' ''/api/v1/auth/login'' (Some (5, 60)) NoPool ''authProxy'',
      public ''GET'' ''/api/v1/auth/tenant-lookup'' None Privileged ''TenantLookup'']"

definition account_routes :: "route list" where
  "account_routes =
     [secured ''POST'' ''/api/v1/auth/change-password'' None NoPool ''authProxy'',
      secured ''POST'' ''/api/v1/auth/change-email'' None NoPool ''authProxy'',
      secured ''POST'' ''/api/v1/auth/logout'' None NoPool ''authProxy'',
      secured ''POST'' ''/api/v1/auth/refresh'' None NoPool ''authProxy'']"

definition patrol_routes :: "route list" where
  "patrol_routes =
     [secured ''GET'' ''/api/v1/manifest/daily'' (Some [RoleCoordinator]) Scoped ''ManifestDaily'',
      secured ''POST'' ''/api/v1/patrol/bind-device'' (Some [RolePatroller]) Scoped ''BindPatrolDevice'',
      secured ''GET'' ''/api/v1/patrol/manifest'' (Some [RolePatroller]) Scoped ''PatrolManifest'',
      secured ''GET'' ''/api/v1/patrol/search'' (Some [RolePatroller]) Scoped ''PatrolSearch'',
      secured ''POST'' ''/api/v1/patrol/sync'' (Some [RolePatroller]) Scoped ''PatrolSync'',
      secured ''GET'' ''/api/v1/patrol/reference'' (Some [RolePatroller]) Scoped ''PatrolReference'',
      secured ''POST'' ''/api/v1/patrol/manual'' (Some [RolePatroller]) Scoped ''PatrolManualEntry'',
      secured ''GET'' ''/api/v1/patrol/pin'' (Some [RolePatroller]) Scoped ''PatrolPINStatus'',
      secured ''POST'' ''/api/v1/patrol/pin'' (Some [RolePatroller]) Scoped ''SetPatrolPIN'',
      secured ''POST'' ''/api/v1/patrol/pin/verify'' (Some [RolePatroller]) Scoped ''VerifyPatrolPIN'',
      secured ''GET'' ''/api/v1/admin/patrol-bindings'' (Some [RoleAdmin]) Scoped ''ListPatrolBindings'',
      secured ''DELETE'' ''/api/v1/admin/patrol-bindings/{user_id}'' (Some [RoleAdmin]) Scoped ''ReleasePatrolBinding'',
      secured ''DELETE'' ''/api/v1/admin/patrol-pins/{user_id}'' (Some [RoleAdmin]) Scoped ''ResetPatrolPIN'']"

definition org_routes :: "route list" where
  "org_routes =
     [secured ''GET'' ''/api/v1/admin/audit'' (Some [RoleAdmin]) Privileged ''ListAdminAudit'',
      secured ''GET'' ''/api/v1/admin/overview'' (Some [RoleAdmin]) Privileged ''AdminOverview'',
      secured ''GET'' ''/api/v1/hod/assignments'' (Some hodAssign) Scoped ''HODListAssignments'',
      secured ''GET'' ''/api/v1/hod/assignable'' (Some hodAssign) Scoped ''HODAssignable'',
      secured ''POST'' ''/api/v1/hod/assignments'' (Some hodAssign) Scoped ''HODCreateAssignment'',
      secured ''DELETE'' ''/api/v1/hod/assignments/{assignment_id}'' (Some hodAssign) Scoped ''HODDeleteAssignment'',
      secured ''GET'' ''/api/v1/org/overview'' (Some orgDashRoles) Privileged ''OrgOverview'',
      secured ''GET'' ''/api/v1/org/at-risk'' (Some orgDashRoles) Privileged ''OrgAtRisk'',
      secured ''GET'' ''/api/v1/org/analytics'' (Some orgDashRoles) Scoped ''OrgAnalytics'',
      secured ''GET'' ''/api/v1/org/departments'' (Some orgDashRoles) Privileged ''OrgDepartments'',
      secured ''GET'' ''/api/v1/hod/lecturers'' (Some [RoleHOD]) Scoped ''HODLecturers'',
      secured ''GET'' ''/api/v1/dean/lecturers'' (Some [RoleDean]) Scoped ''DeanLecturers'']"

definition qa_rep_routes :: "route list" where
  "qa_rep_routes =
     [secured ''GET'' ''/api/v1/qa-rep/scope'' (Some qaRep) Scoped ''QARepScope'',
      secured ''GET'' ''/api/v1/qa-rep/lecturers'' (Some qaRep) Scoped ''QARepLecturers'',
      secured ''GET'' ''/api/v1/qa-rep/departments'' (Some qaRepOrOversight) Scoped ''QARepDepartments'',
      secured ''GET'' ''/api/v1/qa-rep/submissions'' (Some qaRepOrOversight) Scoped ''QAListSubmissions'',
      secured ''POST'' ''/api/v1/qa-rep/submissions'' (Some qaRep) Scoped ''QASubmitReport'',
      secured ''GET'' ''/api/v1/qa-rep/submissions/{id}/file'' (Some qaRepOrOversight) Scoped ''QASubmissionFile'',
      secured ''DELETE'' ''/api/v1/qa-rep/submissions/{id}'' (Some qaRepOrOversight) Scoped ''QADeleteSubmission'',
      secured ''GET'' ''/api/v1/qa-rep/template.xlsx'' (Some qaRep) Scoped ''QARepTemplate'',
      secured ''GET'' ''/api/v1/reports/lecturer-teaching'' (Some [RoleQAOfficer, RoleDQADirector, RoleVC, RoleDVC, RoleAdmin, RoleHOD, RoleDean, RoleQASchool, RoleQADeptRep]) Scoped ''LecturerTeachingReport'',
      secured ''GET'' ''/api/v1/reports/lecturer-teaching/export.xlsx'' (Some [RoleQAOfficer, RoleDQADirector, RoleVC, RoleDVC, RoleAdmin, RoleHOD, RoleDean, RoleQASchool, RoleQADeptRep]) Scoped ''LecturerTeachingExport xlsx'',
      secured ''GET'' ''/api/v1/reports/lecturer-teaching/export.csv'' (Some [RoleQAOfficer, RoleDQADirector, RoleVC, RoleDVC, RoleAdmin, RoleHOD, RoleDean, RoleQASchool, RoleQADeptRep]) Scoped ''LecturerTeachingExport csv'',
      secured ''GET'' ''/api/v1/reports/lecturer-teaching/export.pdf'' (Some [RoleQAOfficer, RoleDQADirector, RoleVC, RoleDVC, RoleAdmin, RoleHOD, RoleDean, RoleQASchool, RoleQADeptRep]) Scoped ''LecturerTeachingExport pdf'',
      secured ''GET'' ''/api/v1/qa/employee-no-shows'' (Some [RoleQAOfficer, RoleDQADirector, RoleAdmin]) Privileged ''EmployeeNoShows'',
      secured ''POST'' ''/api/v1/qa/notify-no-shows'' (Some [RoleQAOfficer, RoleDQADirector, RoleAdmin]) Privileged ''NotifyNoShows'']"

definition session_routes :: "route list" where
  "session_routes =
     [secured ''POST'' ''/api/v1/sessions/warden-link'' (Some [RoleCoordinator]) NoPool ''sessionProxy'',
      secured ''POST'' ''/api/v1/sessions/open'' (Some [RoleCoordinator]) Scoped ''OpenSession'',
      secured ''GET'' ''/api/v1/sessions/{session_id}/checkin-code'' (Some [RoleCoordinator]) Scoped ''CheckinCode'',
      secured ''POST'' ''/api/v1/student/checkin'' (Some [RoleStudent]) Scoped ''StudentCheckin'',
      secured ''GET'' ''/api/v1/student/live-sessions'' (Some [RoleStudent]) Scoped ''StudentLiveSessions'',
      secured ''GET'' ''/api/v1/student/home'' (Some [RoleStudent]) Privileged ''StudentHome'',
      secured ''POST'' ''/api/v1/sync/init'' (Some [RoleCoordinator]) NoPool ''syncProxy'',
      secured ''POST'' ''/api/v1/sync/chunk/{upload_id}/{chunk_index}'' (Some [RoleCoordinator]) NoPool ''syncProxy'',
      secured ''GET'' ''/api/v1/sync/resume/{upload_id}'' (Some [RoleCoordinator]) NoPool ''syncProxy'',
      secured ''POST'' ''/api/v1/sync/complete/{upload_id}'' (Some [RoleCoordinator]) NoPool ''syncProxy'']"

definition report_routes :: "route list" where
  "report_routes =
     [secured ''GET'' ''/api/v1/eligibility/{student_id}'' (Some [RoleQAOfficer, RoleDQADirector, RoleVC, RoleDVC, RoleStudent]) Scoped ''GetEligibility'',
      secured ''POST'' ''/api/v1/eligibility/clearance-token'' (Some [RoleDQADirector]) NoPool ''sessionProxy'',
      secured ''GET'' ''/api/v1/dashboard/dqa/patrol-coverage'' (Some coverageReaders) Scoped ''PatrolCoverage'',
      secured ''GET'' ''/api/v1/dashboard/dqa/patrol-coverage/export.xlsx'' (Some coverageReaders) Scoped ''PatrolCoverageExport xlsx'',
      secured ''GET'' ''/api/v1/dashboard/dqa/patrol-coverage/export.csv'' (Some coverageReaders) Scoped ''PatrolCoverageExport csv'',
      secured ''GET'' ''/api/v1/dashboard/dqa/patrol-coverage/export.pdf'' (Some coverageReaders) Scoped ''PatrolCoverageExport pdf'',
      secured ''GET'' ''/api/v1/dashboard/dqa/unit-attendance/export.xlsx'' (Some coverageReaders) Scoped ''UnitAttendanceExport xlsx'',
      secured ''GET'' ''/api/v1/dashboard/dqa/unit-attendance/export.csv'' (Some coverageReaders) Scoped ''UnitAttendanceExport csv'',
      secured ''GET'' ''/api/v1/dashboard/dqa/unit-attendance/export.pdf'' (Some coverageReaders) Scoped ''UnitAttendanceExport pdf'',
      secured ''GET'' ''/api/v1/dashboard/dqa/unit-attendance'' (Some coverageReaders) Scoped ''UnitAttendanceReport'']"

definition messaging_routes :: "route list" where
  "messaging_routes =
     [secured ''POST'' ''/api/v1/messages'' (Some [RoleDQADirector, RoleQAOfficer, RoleQADeptRep, RoleQASchool]) Privileged ''SendQAMessage'',
      secured ''GET'' ''/api/v1/messages'' (Some [RoleDQADirector, RoleQAOfficer, RoleQADeptRep, RoleQASchool]) Privileged ''ListQAMessages'',
      secured ''GET'' ''/api/v1/messages/unread-count'' (Some [RoleDQADirector, RoleQAOfficer, RoleQADeptRep, RoleQASchool]) Privileged ''UnreadQAMessageCount'',
      secured ''GET'' ''/api/v1/messages/audiences'' (Some [RoleDQADirector]) Privileged ''QAAudiences'',
      secured ''POST'' ''/api/v1/messages/{id}/read'' (Some [RoleDQADirector, RoleQAOfficer, RoleQADeptRep, RoleQASchool]) Privileged ''MarkQAMessageRead'',
      secured ''GET'' ''/api/v1/messages/{id}/attachment'' (Some [RoleDQADirector, RoleQAOfficer, RoleQADeptRep, RoleQASchool]) Privileged ''QAMessageAttachment'',
      secured ''DELETE'' ''/api/v1/messages/{id}'' (Some [RoleDQADirector, RoleQAOfficer, RoleQADeptRep, RoleQASchool]) Privileged ''DismissQAMessage'']"

definition branding_routes :: "route list" where
  "branding_routes =
     [secured ''GET'' ''/api/v1/branding'' None Scoped ''GetBranding'']"

definition settings_routes :: "route list" where
  "settings_routes =
     [secured ''GET'' ''/api/v1/admin/settings/thresholds'' (Some [RoleAdmin]) Scoped ''GetThresholds'',
      secured ''PUT'' ''/api/v1/admin/settings/thresholds'' (Some [RoleAdmin]) Scoped ''PutThresholds'',
      secured ''GET'' ''/api/v1/admin/settings/intakes'' (Some [RoleAdmin]) Scoped ''GetIntakes'',
      secured ''PUT'' ''/api/v1/admin/settings/intakes'' (Some [RoleAdmin]) Scoped ''PutIntakes'',
      secured ''GET'' ''/api/v1/admin/settings/levels'' (Some [RoleAdmin]) Scoped ''GetLevels'',
      secured ''PUT'' ''/api/v1/admin/settings/levels'' (Some [RoleAdmin]) Scoped ''PutLevels'',
      secured ''GET'' ''/api/v1/admin/settings/study-sessions'' (Some [RoleAdmin]) Scoped ''GetStudySessions'',
      secured ''PUT'' ''/api/v1/admin/settings/study-sessions'' (Some [RoleAdmin]) Scoped ''PutStudySessions'',
      secured ''GET'' ''/api/v1/admin/settings/staff-id-prefix'' (Some [RoleAdmin]) Scoped ''GetStaffIDPrefix'',
      secured ''PUT'' ''/api/v1/admin/settings/staff-id-prefix'' (Some [RoleAdmin]) Scoped ''PutStaffIDPrefix'',
      secured ''GET'' ''/api/v1/admin/settings/titles'' (Some [RoleAdmin]) Scoped ''GetTitles'',
      secured ''PUT'' ''/api/v1/admin/settings/titles'' (Some [RoleAdmin]) Scoped ''PutTitles'',
      secured ''GET'' ''/api/v1/admin/settings/session-window'' (Some [RoleAdmin]) Scoped ''GetSessionWindow'',
      secured ''PUT'' ''/api/v1/admin/settings/session-window'' (Some [RoleAdmin]) Scoped ''PutSessionWindow'',
      secured ''GET'' ''/api/v1/admin/settings/users-passcode'' (Some [RoleAdmin]) Scoped ''GetUsersPasscodeStatus'',
      secured ''PUT'' ''/api/v1/admin/settings/users-passcode'' (Some [RoleAdmin]) Scoped ''PutUsersPasscode'',
      secured ''POST'' ''/api/v1/admin/settings/users-passcode/verify'' (Some [RoleAdmin]) Scoped ''VerifyUsersPasscode'']"

definition structure_routes :: "route list" where
  "structure_routes =
     [secured ''GET'' ''/api/v1/admin/users'' (Some [RoleAdmin]) Privileged ''ListTenantUsers'',
      secured ''POST'' ''/api/v1/admin/users'' (Some [RoleAdmin]) Privileged ''CreateUser'',
      secured ''POST'' ''/api/v1/admin/users/import'' (Some [RoleAdmin]) Privileged ''ImportUsers'',
      secured ''GET'' ''/api/v1/admin/users/export.xlsx'' (Some [RoleAdmin]) Privileged ''ExportUsersXLSX'',
      secured ''GET'' ''/api/v1/admin/schools'' (Some [RoleAdmin]) Privileged ''ListSchools'',
      secured ''POST'' ''/api/v1/admin/schools'' (Some [RoleAdmin]) Privileged ''CreateSchool'',
      secured ''DELETE'' ''/api/v1/admin/schools/{school_id}'' (Some [RoleAdmin]) Privileged ''DeleteSchool'',
      secured ''PATCH'' ''/api/v1/admin/schools/{school_id}'' (Some [RoleAdmin]) Privileged ''UpdateSchool'',
      secured ''GET'' ''/api/v1/admin/departments'' (Some [RoleAdmin]) Privileged ''ListDepartments'',
      secured ''POST'' ''/api/v1/admin/org/import'' (Some [RoleAdmin]) Privileged ''ImportOrgChart'',
      secured ''POST'' ''/api/v1/admin/departments'' (Some [RoleAdmin]) Privileged ''CreateDepartment'',
      secured ''DELETE'' ''/api/v1/admin/departments/{department_id}'' (Some [RoleAdmin]) Privileged ''DeleteDepartment'',
      secured ''GET'' ''/api/v1/admin/courses'' (Some [RoleAdmin]) Privileged ''ListCourses'',
      secured ''POST'' ''/api/v1/admin/courses'' (Some [RoleAdmin]) Privileged ''CreateCourse'',
      secured ''POST'' ''/api/v1/admin/courses/import'' (Some [RoleAdmin]) Privileged ''ImportCourses'',
      secured ''GET'' ''/api/v1/admin/courses/export.xlsx'' (Some [RoleAdmin]) Privileged ''ExportCoursesXLSX'',
      secured ''POST'' ''/api/v1/admin/course-units/import'' (Some [RoleAdmin]) Privileged ''ImportCourseUnits'',
      secured ''GET'' ''/api/v1/admin/course-units/export.xlsx'' (Some [RoleAdmin]) Privileged ''ExportCourseUnitsXLSX'',
      secured ''POST'' ''/api/v1/admin/lecturer-assignments/import'' (Some [RoleAdmin]) Privileged ''ImportLecturerAssignmentsFile'',
      secured ''GET'' ''/api/v1/admin/lecturer-assignments/export.xlsx'' (Some [RoleAdmin]) Privileged ''ExportLecturerAssignmentsXLSX'',
      secured ''PATCH'' ''/api/v1/admin/academic-period'' (Some [RoleAdmin]) Privileged ''UpdateTenantAcademicPeriod'',
      secured ''POST'' ''/api/v1/admin/academic-period/advance'' (Some [RoleAdmin]) Privileged ''AdvanceAcademicPeriod'',
      secured ''POST'' ''/api/v1/admin/clear-semester-data'' (Some [RoleAdmin]) Privileged ''ClearSemesterData'',
      secured ''GET'' ''/api/v1/admin/semester-archives'' (Some [RoleAdmin]) Privileged ''ListSemesterArchives'',
      secured ''GET'' ''/api/v1/admin/semester-archives/{archive_id}/download'' (Some [RoleAdmin]) Privileged ''DownloadSemesterArchive'',
      secured ''DELETE'' ''/api/v1/admin/semester-archives/{archive_id}'' (Some [RoleAdmin]) Privileged ''DeleteSemesterArchive'']"

definition room_routes :: "route list" where
  "room_routes =
     [secured ''GET'' ''/api/v1/admin/rooms'' (Some adminOwn) Privileged ''ListRooms'',
      secured ''GET'' ''/api/v1/admin/venues'' (Some adminOwn) Privileged ''ListRooms'',
      secured ''POST'' ''/api/v1/admin/rooms'' (Some adminOwn) Privileged ''CreateRoom'',
      secured ''POST'' ''/api/v1/admin/venues'' (Some adminOwn) Privileged ''CreateRoom'',
      secured ''PATCH'' ''/api/v1/admin/rooms/{room_code}'' (Some adminOwn) Privileged ''UpdateRoom'',
      secured ''PATCH'' ''/api/v1/admin/venues/{room_code}'' (Some adminOwn) Privileged ''UpdateRoom'',
      secured ''DELETE'' ''/api/v1/admin/rooms/{room_code}'' (Some adminOwn) Privileged ''DeleteRoom'',
      secured ''DELETE'' ''/api/v1/admin/venues/{room_code}'' (Some adminOwn) Privileged ''DeleteRoom'',
      secured ''POST'' ''/api/v1/admin/rooms/import'' (Some adminOwn) Privileged ''ImportRooms'',
      secured ''POST'' ''/api/v1/admin/venues/import'' (Some adminOwn) Privileged ''ImportRooms'',
      secured ''GET'' ''/api/v1/admin/rooms/export.xlsx'' (Some adminOwn) Privileged ''ExportRoomsXLSX'',
      secured ''GET'' ''/api/v1/admin/venues/export.xlsx'' (Some adminOwn) Privileged ''ExportRoomsXLSX'']"

definition people_routes :: "route list" where
  "people_routes =
     [secured ''GET'' ''/api/v1/admin/students'' (Some [RoleAdmin]) Privileged ''ListStudents'',
      secured ''POST'' ''/api/v1/admin/students'' (Some [RoleAdmin]) Privileged ''CreateStudent'',
      secured ''PATCH'' ''/api/v1/admin/students'' (Some [RoleAdmin]) Privileged ''UpdateStudent'',
      secured ''DELETE'' ''/api/v1/admin/students'' (Some [RoleAdmin]) Privileged ''DeleteStudent'',
      secured ''GET'' ''/api/v1/admin/students/export.xlsx'' (Some [RoleAdmin]) Privileged ''ExportStudentsXLSX'',
      secured ''GET'' ''/api/v1/admin/coordinators'' (Some [RoleAdmin]) Privileged ''ListCoordinators'',
      secured ''GET'' ''/api/v1/admin/coordinators/export.xlsx'' (Some [RoleAdmin]) Privileged ''ExportCoordinatorsXLSX'',
      secured ''POST'' ''/api/v1/admin/coordinators/import'' (Some [RoleAdmin]) Privileged ''ImportCoordinators'',
      secured ''GET'' ''/api/v1/admin/offerings'' (Some [RoleAdmin]) Privileged ''ListOfferings'',
      secured ''POST'' ''/api/v1/admin/offerings'' (Some [RoleAdmin]) Privileged ''CreateOffering'',
      secured ''POST'' ''/api/v1/admin/cohorts/apply-all'' (Some [RoleAdmin]) Privileged ''ApplyCohortAllCourses'',
      secured ''GET'' ''/api/v1/admin/lecturers'' (Some [RoleAdmin]) Privileged ''ListLecturers'',
      secured ''POST'' ''/api/v1/admin/lecturers'' (Some [RoleAdmin]) Privileged ''CreateLecturer'',
      secured ''POST'' ''/api/v1/admin/lecturers/import'' (Some [RoleAdmin]) Privileged ''ImportLecturers'',
      secured ''GET'' ''/api/v1/admin/lecturers/export.xlsx'' (Some [RoleAdmin]) Privileged ''ExportLecturersXLSX'',
      secured ''DELETE'' ''/api/v1/admin/lecturers/{lecturer_id}'' (Some [RoleAdmin]) Privileged ''DeleteLecturer'',
      secured ''POST'' ''/api/v1/admin/lecturers/bulk-delete'' (Some [RoleAdmin]) Privileged ''BulkDeleteLecturers'',
      secured ''POST'' ''/api/v1/admin/lecturers/{lecturer_id}/enroll-link'' (Some [RoleAdmin]) Privileged ''AdminLecturerEnrollLink'',
      secured ''GET'' ''/api/v1/admin/lecturer-assignments'' (Some [RoleAdmin]) Privileged ''ListLecturerAssignments'',
      secured ''POST'' ''/api/v1/admin/lecturer-assignments'' (Some [RoleAdmin]) Privileged ''CreateLecturerAssignment'',
      secured ''PATCH'' ''/api/v1/admin/users/{user_id}/status'' (Some [RoleAdmin]) Privileged ''SetUserStatus'',
      secured ''PATCH'' ''/api/v1/admin/users/{user_id}'' (Some [RoleAdmin]) Privileged ''UpdateUser'',
      secured ''DELETE'' ''/api/v1/admin/users/{user_id}'' (Some [RoleAdmin]) Privileged ''DeleteUser'',
      secured ''GET'' ''/api/v1/admin/courses/{course_id}/units'' (Some [RoleAdmin]) Privileged ''ListCourseUnits'',
      secured ''POST'' ''/api/v1/admin/courses/{course_id}/units'' (Some [RoleAdmin]) Privileged ''CreateCourseUnit'',
      secured ''PATCH'' ''/api/v1/admin/courses/{course_id}'' (Some [RoleAdmin]) Privileged ''UpdateCourse'',
      secured ''PATCH'' ''/api/v1/admin/courses/{course_id}/units/{unit_id}'' (Some [RoleAdmin]) Privileged ''UpdateCourseUnit'',
      secured ''GET'' ''/api/v1/admin/courses/{course_id}/roadmap'' (Some [RoleAdmin]) Privileged ''GetCourseRoadmap'',
      secured ''DELETE'' ''/api/v1/admin/lecturer-assignments/{assignment_id}'' (Some [RoleAdmin]) Privileged ''DeleteLecturerAssignment'',
      secured ''DELETE'' ''/api/v1/admin/offerings/{offering_id}'' (Some [RoleAdmin]) Privileged ''DeleteOffering'',
      secured ''PATCH'' ''/api/v1/admin/offerings/{offering_id}'' (Some [RoleAdmin]) Privileged ''UpdateOffering'',
      secured ''PATCH'' ''/api/v1/admin/lecturers/{lecturer_id}'' (Some [RoleAdmin]) Privileged ''UpdateLecturer'']"

definition employee_routes :: "route list" where
  "employee_routes =
     [secured ''GET'' ''/api/v1/admin/employees'' (Some [RoleAdmin]) Privileged ''ListEmployees'',
      secured ''POST'' ''/api/v1/admin/employees'' (Some [RoleAdmin]) Privileged ''CreateEmployee'',
      secured ''POST'' ''/api/v1/admin/employees/import'' (Some [RoleAdmin]) Privileged ''ImportEmployees'',
      secured ''GET'' ''/api/v1/admin/employees/export.xlsx'' (Some [RoleAdmin]) Privileged ''ExportEmployeesXLSX'',
      secured ''PATCH'' ''/api/v1/admin/employees/{id}'' (Some [RoleAdmin]) Privileged ''UpdateEmployee'',
      secured ''DELETE'' ''/api/v1/admin/employees/{id}'' (Some [RoleAdmin]) Privileged ''DeleteEmployee'',
      secured ''POST'' ''/api/v1/admin/employee-attendance/import'' (Some [RoleAdmin]) Privileged ''ImportEmployeePunches'',
      secured ''POST'' ''/api/v1/admin/employee-attendance/sheet'' (Some [RoleAdmin]) Privileged ''ImportEmployeeSheet'',
      secured ''GET'' ''/api/v1/dashboard/employee-days'' (Some employeeReaders) Scoped ''EmployeeDays'',
      secured ''GET'' ''/api/v1/dashboard/employee-days/export.xlsx'' (Some employeeReaders) Scoped ''EmployeeDaysExport xlsx'',
      secured ''GET'' ''/api/v1/dashboard/employee-days/export.csv'' (Some employeeReaders) Scoped ''EmployeeDaysExport csv'',
      secured ''GET'' ''/api/v1/dashboard/employee-days/export.pdf'' (Some employeeReaders) Scoped ''EmployeeDaysExport pdf'',
      secured ''GET'' ''/api/v1/admin/employee-attendance'' (Some [RoleAdmin]) Privileged ''EmployeeAttendanceReport'',
      secured ''GET'' ''/api/v1/admin/employee-attendance/export.xlsx'' (Some [RoleAdmin]) Privileged ''EmployeeAttendanceExport xlsx'',
      secured ''GET'' ''/api/v1/admin/employee-attendance/export.csv'' (Some [RoleAdmin]) Privileged ''EmployeeAttendanceExport csv'',
      secured ''GET'' ''/api/v1/admin/employee-attendance/export.pdf'' (Some [RoleAdmin]) Privileged ''EmployeeAttendanceExport pdf'']"

definition coordinator_routes :: "route list" where
  "coordinator_routes =
     [secured ''GET'' ''/api/v1/coordinator/units/{unit_id}/lecturers'' (Some [RoleCoordinator]) Scoped ''GetUnitLecturers'',
      secured ''GET'' ''/api/v1/coordinator/units/{unit_id}/schedule'' (Some [RoleCoordinator]) Scoped ''GetUnitSchedule'',
      secured ''PUT'' ''/api/v1/coordinator/units/{unit_id}/schedule'' (Some [RoleCoordinator]) Scoped ''SetUnitSchedule'',
      secured ''POST'' ''/api/v1/sessions/{session_id}/close'' (Some [RoleCoordinator]) Scoped ''CloseSession'',
      secured ''GET'' ''/api/v1/sessions/{session_id}/lecturer-gate-qr'' (Some [RoleCoordinator]) Scoped ''LecturerGateQR'',
      secured ''GET'' ''/api/v1/coordinator/overview'' (Some [RoleCoordinator]) Scoped ''CoordinatorOverview'',
      secured ''GET'' ''/api/v1/coordinator/students'' (Some [RoleCoordinator]) Scoped ''CoordinatorStudents'',
      secured ''GET'' ''/api/v1/coordinator/last-roster'' (Some [RoleCoordinator]) Scoped ''CoordinatorLastRoster'',
      secured ''GET'' ''/api/v1/coordinator/attendance'' (Some [RoleCoordinator]) Scoped ''CoordinatorAttendance'',
      secured ''GET'' ''/api/v1/coordinator/trends'' (Some [RoleCoordinator]) Scoped ''CoordinatorTrends'',
      secured ''GET'' ''/api/v1/coordinator/active-sessions'' (Some [RoleCoordinator]) Scoped ''CoordinatorActiveSessions'',
      secured ''POST'' ''/api/v1/coordinator/standby'' (Some [RoleCoordinator]) Privileged ''CreateCoordinatorStandby'',
      secured ''GET'' ''/api/v1/coordinator/standby'' (Some [RoleCoordinator]) Privileged ''ListCoordinatorStandby'',
      secured ''POST'' ''/api/v1/coordinator/standby/{id}/revoke'' (Some [RoleCoordinator]) Privileged ''RevokeCoordinatorStandby'']"

definition lecturer_routes :: "route list" where
  "lecturer_routes =
     [secured ''GET'' ''/api/v1/lecturer/overview'' (Some [RoleLecturer]) Privileged ''LecturerOverview'',
      secured ''GET'' ''/api/v1/lecturer/attendance'' (Some [RoleLecturer]) Privileged ''LecturerAttendance'',
      secured ''GET'' ''/api/v1/lecturer/calendar'' (Some [RoleLecturer]) Privileged ''LecturerCalendar'',
      secured ''GET'' ''/api/v1/lecturer/online-class'' (Some [RoleLecturer]) Privileged ''GetOnlineClass'',
      secured ''POST'' ''/api/v1/lecturer/online-class'' (Some [RoleLecturer]) Privileged ''StartOnlineClass'',
      secured ''POST'' ''/api/v1/lecturer/online-class/end'' (Some [RoleLecturer]) Privileged ''EndOnlineClass'',
      secured ''GET'' ''/api/v1/lecturer/roster'' (Some [RoleLecturer]) Privileged ''LecturerRoster'',
      secured ''GET'' ''/api/v1/lecturer/sessions'' (Some [RoleLecturer]) Privileged ''LecturerSessions'',
      secured ''GET'' ''/api/v1/lecturer/sessions/{session_id}/students'' (Some [RoleLecturer]) Privileged ''LecturerSessionStudents'',
      secured ''GET'' ''/api/v1/lecturer/timetable'' (Some [RoleLecturer]) Privileged ''LecturerTimetable'',
      secured ''POST'' ''/api/v1/lecturer/presence-claims'' (Some [RoleLecturer]) Scoped ''SubmitPresenceClaims'',
      secured ''GET'' ''/api/v1/lecturer/unrecorded'' (Some [RoleLecturer]) Privileged ''LecturerUnrecorded'',
      secured ''GET'' ''/api/v1/lecturer/recipients'' (Some [RoleLecturer]) Privileged ''LecturerRecipients'',
      secured ''GET'' ''/api/v1/lecturer/combined-class-code'' (Some [RoleLecturer]) Privileged ''LecturerCombinedClassCode'',
      secured ''POST'' ''/api/v1/coordinator/combined-class-code/verify'' (Some [RoleCoordinator, RoleQAOfficer, RoleDQADirector, RoleAdmin]) Privileged ''VerifyCombinedClassCode'']"

definition notification_routes :: "route list" where
  "notification_routes =
     [secured ''POST'' ''/api/v1/app-notifications'' (Some [RoleLecturer, RoleCoordinator, RoleHOD, RoleDean, RoleQADeptRep, RoleQASchool, RoleQAOfficer, RoleDQADirector]) Privileged ''SendAppNotification'',
      secured ''GET'' ''/api/v1/app-notifications'' (Some inboxRoles) Privileged ''ListAppNotifications'',
      secured ''GET'' ''/api/v1/app-notifications/unread-count'' (Some inboxRoles) Privileged ''UnreadAppNotificationCount'',
      secured ''POST'' ''/api/v1/app-notifications/{id}/read'' (Some inboxRoles) Privileged ''MarkAppNotificationRead'',
      secured ''DELETE'' ''/api/v1/app-notifications/{id}'' (Some inboxRoles) Privileged ''DismissAppNotification'',
      secured ''GET'' ''/api/v1/coordinator/lecturers'' (Some [RoleCoordinator]) Privileged ''CoordinatorLecturers'',
      secured ''GET'' ''/api/v1/admin/lecturer-attendance'' (Some [RoleAdmin]) Privileged ''GetLecturerAttendanceLogs'',
      secured ''GET'' ''/api/v1/admin/lecturer-attendance/summary'' (Some [RoleAdmin]) Privileged ''GetLecturerAttendanceSummary'']"

definition export_routes :: "route list" where
  "export_routes =
     [secured ''GET'' ''/api/v1/reports/vc/audit.pdf'' (Some [RoleVC, RoleDVC]) Scoped ''VCAuditPDF'',
      secured ''GET'' ''/api/v1/reports/dqa/eligibility.csv'' (Some [RoleDQADirector]) Scoped ''DQAEligibilityCSV'',
      secured ''POST'' ''/api/v1/import/csv'' (Some [RoleAdmin, RoleDQADirector]) Scoped ''ImportCSV'',
      secured ''POST'' ''/api/v1/import/trigger'' (Some [RoleAdmin]) Scoped ''ImportTrigger'',
      secured ''POST'' ''/api/v1/admin/timetable/import'' (Some [RoleTLC, RoleAdmin]) Privileged ''ImportTimetable'']"

definition timetable_routes :: "route list" where
  "timetable_routes =
     [secured ''GET'' ''/api/v1/dashboard/vc/overview'' (Some [RoleVC, RoleDVC]) Scoped ''VCOverview'',
      secured ''GET'' ''/api/v1/dashboard/vc/lecturer-workload'' (Some [RoleVC, RoleDVC]) Scoped ''VCLecturerWorkload'',
      secured ''GET'' ''/api/v1/dashboard/dqa/thresholds'' (Some [RoleDQADirector]) Scoped ''GetThresholds'',
      secured ''PUT'' ''/api/v1/dashboard/dqa/thresholds'' (Some [RoleDQADirector]) Scoped ''PutThresholds'',
      secured ''GET'' ''/api/v1/dashboard/dqa/course-health'' (Some [RoleDQADirector]) Scoped ''DQACourseHealth'',
      secured ''GET'' ''/api/v1/dashboard/dqa/trends'' (Some [RoleDQADirector]) Scoped ''DQATrends'',
      secured ''GET'' ''/api/v1/dashboard/dqa/punctuality'' (Some [RoleDQADirector]) Scoped ''DQAPunctuality'',
      secured ''GET'' ''/api/v1/dashboard/dqa/ineligible'' (Some [RoleDQADirector]) Scoped ''DQABulkIneligible'',
      secured ''GET'' ''/api/v1/dashboard/dqa/eligibility-all'' (Some [RoleDQADirector]) Scoped ''DQAAllEligibility'',
      secured ''GET'' ''/api/v1/dashboard/timetable'' (Some timetableReaders) Scoped ''TimetableOverview'',
      secured ''PUT'' ''/api/v1/dashboard/timetable'' (Some [RoleAdmin, RoleQAOfficer, RoleTLC]) Scoped ''SetTimetableSchedule'',
      secured ''GET'' ''/api/v1/dashboard/rooms'' (Some [RoleAdmin, RoleQAOfficer, RoleDQADirector, RoleCoordinator, RoleHOD, RoleDean, RoleQASchool, RoleQADeptRep, RoleTLC, RoleVC, RoleDVC]) Scoped ''DashboardRooms'',
      secured ''GET'' ''/api/v1/rooms/free'' (Some [RoleCoordinator, RoleAdmin, RoleQAOfficer, RoleDQADirector, RoleTLC, RoleHOD, RoleDean, RoleQASchool, RoleQADeptRep, RoleVC, RoleDVC, RolePatroller]) Scoped ''FreeRooms'',
      secured ''GET'' ''/api/v1/dashboard/timetable/slots'' (Some timetableReaders) Scoped ''GetTimetableSlots'',
      secured ''PUT'' ''/api/v1/dashboard/timetable/slots'' (Some [RoleTLC, RoleAdmin, RoleQAOfficer]) Scoped ''UpsertTimetableSlot'',
      secured ''DELETE'' ''/api/v1/dashboard/timetable/slots/{slot_id}'' (Some [RoleTLC, RoleAdmin, RoleQAOfficer]) Scoped ''DeleteTimetableSlot'']"

definition qa_routes :: "route list" where
  "qa_routes =
     [secured ''POST'' ''/api/v1/dashboard/qa/device-reset'' (Some [RoleQAOfficer]) Scoped ''QADeviceReset'',
      secured ''POST'' ''/api/v1/dashboard/qa/attendance-correction'' (Some [RoleQAOfficer]) Scoped ''QAManualCorrection'',
      secured ''GET'' ''/api/v1/dashboard/qa/coordinator-health'' (Some [RoleQAOfficer]) Scoped ''QACoordinatorHealth'',
      secured ''GET'' ''/api/v1/dashboard/qa/patrol-bindings'' (Some [RoleQAOfficer, RoleDQADirector]) Scoped ''ListPatrolBindings'',
      secured ''DELETE'' ''/api/v1/dashboard/qa/patrol-bindings/{user_id}'' (Some [RoleQAOfficer, RoleDQADirector]) Scoped ''ReleasePatrolBinding'',
      secured ''GET'' ''/api/v1/dashboard/qa/presence-claims'' (Some [RoleQAOfficer, RoleQASchool, RoleDQADirector, RoleAdmin]) Scoped ''ListPresenceClaims'',
      secured ''GET'' ''/api/v1/dashboard/qa/patrollers'' (Some [RoleQAOfficer, RoleDQADirector]) Scoped ''ListPatrollers'']"

definition attendance_routes :: "route list" where
  "attendance_routes =
     [secured ''GET'' ''/api/v1/dashboard/qa/student-attendance'' (Some attendanceReaders) Scoped ''QAStudentAttendance'',
      secured ''GET'' ''/api/v1/dashboard/upanel/attendance'' (Some attendanceReaders) Scoped ''UPanelAttendance'',
      secured ''GET'' ''/api/v1/dashboard/qa/student-attendance/export.xlsx'' (Some attendanceReaders) Scoped ''QAStudentAttendanceReport xlsx'',
      secured ''GET'' ''/api/v1/dashboard/qa/student-attendance/export.csv'' (Some attendanceReaders) Scoped ''QAStudentAttendanceReport csv'',
      secured ''GET'' ''/api/v1/dashboard/qa/student-attendance/export.pdf'' (Some attendanceReaders) Scoped ''QAStudentAttendanceReport pdf'',
      secured ''POST'' ''/api/v1/dashboard/qa/student-attendance/import'' (Some [RoleAdmin, RoleQAOfficer]) Scoped ''QAStudentAttendanceImport'',
      secured ''GET'' ''/api/v1/dashboard/lecturer-attendance'' (Some attendanceReaders) Scoped ''LecturerAttendanceLogsForCaller'',
      secured ''GET'' ''/api/v1/dashboard/lecturer-attendance/summary'' (Some attendanceReaders) Scoped ''LecturerAttendanceSummaryForCaller'',
      secured ''GET'' ''/api/v1/dashboard/lecturer-attendance/export.xlsx'' (Some attendanceReaders) Scoped ''LecturerAttendanceExport xlsx'',
      secured ''GET'' ''/api/v1/dashboard/lecturer-attendance/export.csv'' (Some attendanceReaders) Scoped ''LecturerAttendanceExport csv'',
      secured ''GET'' ''/api/v1/dashboard/lecturer-attendance/export.pdf'' (Some attendanceReaders) Scoped ''LecturerAttendanceExport pdf'',
      secured ''GET'' ''/api/v1/dashboard/lecturer-attendance/patrol'' (Some attendanceReaders) Scoped ''LecturerPatrolAttendance'',
      secured ''GET'' ''/api/v1/dashboard/lecturer-attendance/patrol/export.xlsx'' (Some attendanceReaders) Scoped ''LecturerPatrolExport xlsx'',
      secured ''GET'' ''/api/v1/dashboard/lecturer-attendance/patrol/export.csv'' (Some attendanceReaders) Scoped ''LecturerPatrolExport csv'',
      secured ''GET'' ''/api/v1/dashboard/lecturer-attendance/patrol/export.pdf'' (Some attendanceReaders) Scoped ''LecturerPatrolExport pdf'',
      secured ''GET'' ''/api/v1/sessions/{session_id}/roster'' (Some [RoleCoordinator]) Scoped ''SessionRoster'']"

definition routes :: "route list" where
  "routes = public_routes @ account_routes @ patrol_routes @ org_routes @ qa_rep_routes @ session_routes @ report_routes @ messaging_routes @ branding_routes @ settings_routes @ structure_routes @ room_routes @ people_routes @ employee_routes @ coordinator_routes @ lecturer_routes @ notification_routes @ export_routes @ timetable_routes @ qa_routes @ attendance_routes"

section \<open>Requests\<close>

type_synonym headers = "string \<Rightarrow> string option"

record http_request =
  hr_method :: string
  hr_path :: string
  hr_uri :: string
  hr_host :: string
  hr_headers :: headers
  hr_remote :: string
  hr_body :: bytes

definition header_get :: "headers \<Rightarrow> string \<Rightarrow> string" where
  "header_get h k = (case h k of None \<Rightarrow> [] | Some v \<Rightarrow> v)"

text \<open>
  The surroundings of a request: what the token check needs and the revoked tokens, the rate library (\<open>new\<close>, \<open>allow\<close>), whether bytes are
  JSON and whether the audit write succeeds, the routing library with the address it takes for the caller's and the
  identifier it gives the request, and the configuration. \<open>rx_url_host\<close> is \<open>url.Parse\<close> followed by \<open>Hostname\<close>, \<open>None\<close> its error.
\<close>

record 'l router_env =
  rx_mw :: mw_env
  rx_revoked :: "string \<Rightarrow> instant option"
  rx_new :: "nat \<Rightarrow> nat \<Rightarrow> 'l"
  rx_allow :: "instant \<Rightarrow> 'l \<Rightarrow> bool \<times> 'l"
  rx_json :: "bytes \<Rightarrow> bool"
  rx_audit_written :: bool
  rx_route :: "string \<Rightarrow> string \<Rightarrow> nat + route"
  rx_real_ip :: "http_request \<Rightarrow> string"
  rx_request_id :: string
  rx_env :: string
  rx_origins :: "string list"
  rx_url_host :: "string \<Rightarrow> string option"

record ('l, 's) router_state =
  rs_app :: 's
  rs_limits :: "'l limiter_maps"
  rs_public :: "string \<times> string \<Rightarrow> 'l ip_limits"
  rs_audit :: "audit_entry list"

datatype 'a response = Redirect nat string | NoContent nat | NotRouted nat | Routed "'a reply"

definition origin_of :: "http_request \<Rightarrow> origin" where
  "origin_of rq = \<lparr>x_forwarded_for = header_get (hr_headers rq) ''X-Forwarded-For'', remote_addr = hr_remote rq\<rparr>"

definition audit_view :: "http_request \<Rightarrow> audit_request" where
  "audit_view rq = \<lparr>rq_method = hr_method rq, rq_path = hr_path rq,
     rq_multipart = has_prefix (header_get (hr_headers rq) ''Content-Type'') ''multipart/'', rq_body = hr_body rq, rq_origin = origin_of rq\<rparr>"

section \<open>A route and its checks\<close>

definition rate_limited ::
  "'l router_env \<Rightarrow> http_request \<Rightarrow> (request_context \<Rightarrow> ('l, 's) router_state \<Rightarrow> 'a reply \<times> ('l, 's) router_state) \<Rightarrow>
     request_context \<Rightarrow> ('l, 's) router_state \<Rightarrow> 'a reply \<times> ('l, 's) router_state" where
  "rate_limited env rq nxt cx s =
     (let (ok, m) = CoordinatorRateLimit (rx_new env) (rx_allow env) (mw_now (rx_mw env)) cx (ClientIP (origin_of rq)) (rs_limits s);
          s = s\<lparr>rs_limits := m\<rparr>
      in if ok then nxt cx s else (Reject 429 ''RATE_LIMIT_EXCEEDED'', s))"

definition audited ::
  "'l router_env \<Rightarrow> http_request \<Rightarrow> (http_request \<Rightarrow> request_context \<Rightarrow> ('l, 's) router_state \<Rightarrow> 'a reply \<times> ('l, 's) router_state) \<Rightarrow>
     request_context \<Rightarrow> ('l, 's) router_state \<Rightarrow> 'a reply \<times> ('l, 's) router_state" where
  "audited env rq nxt cx s =
     (let (r, s, entry) = AuditLog (rx_json env) (rx_audit_written env) (audit_view rq) cx (\<lambda>body. nxt (rq\<lparr>hr_body := body\<rparr>) cx) s
      in (r, case entry of None \<Rightarrow> s | Some e \<Rightarrow> s\<lparr>rs_audit := rs_audit s @ [e]\<rparr>))"

definition role_checked ::
  "string list option \<Rightarrow> (request_context \<Rightarrow> 's \<Rightarrow> 'a reply \<times> 's) \<Rightarrow> request_context \<Rightarrow> 's \<Rightarrow> 'a reply \<times> 's" where
  "role_checked roles nxt = (case roles of None \<Rightarrow> nxt | Some rs \<Rightarrow> RequireRole rs nxt)"

text \<open>A handler sees the request, its context and the application's state.\<close>

type_synonym ('a, 's) handler_fun = "string \<Rightarrow> http_request \<Rightarrow> request_context \<Rightarrow> 's \<Rightarrow> 'a reply \<times> 's"

definition run_handler ::
  "('a, 's) handler_fun \<Rightarrow> string \<Rightarrow> http_request \<Rightarrow> request_context \<Rightarrow> ('l, 's) router_state \<Rightarrow> 'a reply \<times> ('l, 's) router_state" where
  "run_handler handlers h rq cx s = (let (r, app) = handlers h rq cx (rs_app s) in (r, s\<lparr>rs_app := app\<rparr>))"

definition run_secured ::
  "'l router_env \<Rightarrow> ('a, 's) handler_fun \<Rightarrow> string list option \<Rightarrow> string \<Rightarrow> http_request \<Rightarrow> ('l, 's) router_state \<Rightarrow> 'a reply \<times> ('l, 's) router_state" where
  "run_secured env handlers roles h rq =
     JWTAuth (rx_mw env) (rx_revoked env) (header_get (hr_headers rq) ''Authorization'')
       (SetTenant (rate_limited env rq (audited env rq (\<lambda>rq. role_checked roles (run_handler handlers h rq)))))"

definition run_public ::
  "'l router_env \<Rightarrow> ('a, 's) handler_fun \<Rightarrow> (nat \<times> nat) option \<Rightarrow> route \<Rightarrow> http_request \<Rightarrow> ('l, 's) router_state \<Rightarrow> 'a reply \<times> ('l, 's) router_state" where
  "run_public env handlers limit rt rq s =
     (case limit of
        None \<Rightarrow> run_handler handlers (rt_handler rt) rq no_context s
      | Some (perSec, burst) \<Rightarrow>
          let k = (rt_method rt, rt_pattern rt);
              (ok, m) = PublicIPRateLimit (rx_new env perSec burst) (rx_allow env) (mw_now (rx_mw env)) (ClientIP (origin_of rq)) (rs_public s k);
              s = s\<lparr>rs_public := (rs_public s)(k := m)\<rparr>
          in if ok then run_handler handlers (rt_handler rt) rq no_context s else (Reject 429 ''RATE_LIMIT_EXCEEDED'', s))"

definition run_route ::
  "'l router_env \<Rightarrow> ('a, 's) handler_fun \<Rightarrow> route \<Rightarrow> http_request \<Rightarrow> ('l, 's) router_state \<Rightarrow> 'a reply \<times> ('l, 's) router_state" where
  "run_route env handlers rt rq s =
     (case rt_guard rt of
        Public limit \<Rightarrow> run_public env handlers limit rt rq s
      | Protected roles \<Rightarrow> run_secured env handlers roles (rt_handler rt) rq s)"

section \<open>What every request passes\<close>

definition RequireHTTPS :: "string \<Rightarrow> http_request \<Rightarrow> string option" where
  "RequireHTTPS env rq =
     (if env = ''production'' \<and> header_get (hr_headers rq) ''X-Forwarded-Proto'' = ''http''
      then Some (''https://'' @ hr_host rq @ hr_uri rq) else None)"

definition SecurityHeaders :: "string \<Rightarrow> headers \<Rightarrow> headers" where
  "SecurityHeaders env h =
     h(''Strict-Transport-Security'' \<mapsto> ''max-age=63072000; includeSubDomains; preload'',
       ''X-Content-Type-Options'' \<mapsto> ''nosniff'',
       ''X-Frame-Options'' \<mapsto> ''DENY'',
       ''Referrer-Policy'' \<mapsto> ''strict-origin-when-cross-origin'',
       ''Permissions-Policy'' \<mapsto> ''camera=(), microphone=(), geolocation=(self), bluetooth=(), usb=()'',
       ''Content-Security-Policy'' \<mapsto>
         (if env = ''production''
          then ''default-src 'none'; script-src 'self'; style-src 'self' 'unsafe-inline'; img-src 'self' data: blob:; font-src 'self'; connect-src 'self' https://api.qaat.platform; manifest-src 'self'; worker-src 'self' blob:; frame-ancestors 'none'; base-uri 'self'; form-action 'self'' @ [CHR 0x27]
          else ''default-src * 'unsafe-inline' 'unsafe-eval' data: blob:''),
       ''Cross-Origin-Opener-Policy'' \<mapsto> ''same-origin'',
       ''Cross-Origin-Embedder-Policy'' \<mapsto> ''require-corp'',
       ''Cross-Origin-Resource-Policy'' \<mapsto> ''same-site'')"

definition isLocalOrigin :: "(string \<Rightarrow> string option) \<Rightarrow> string \<Rightarrow> bool" where
  "isLocalOrigin url_host orig =
     (case url_host orig of
        None \<Rightarrow> False
      | Some host \<Rightarrow>
          if host = ''localhost'' \<or> has_suffix host ''.local'' then True
          else case ParseIP host of None \<Rightarrow> False | Some ip \<Rightarrow> IsLoopback ip \<or> IsPrivate ip)"

text \<open>\<open>CORS\<close>: the headers of the answer, and whether it ends here (a preflight).\<close>

definition CORS :: "string list \<Rightarrow> (string \<Rightarrow> string option) \<Rightarrow> http_request \<Rightarrow> headers \<Rightarrow> headers \<times> bool" where
  "CORS allowedOrigins url_host rq h =
     (let orig = header_get (hr_headers rq) ''Origin'';
          h = (if orig \<noteq> [] \<and> (orig \<in> set allowedOrigins \<or> isLocalOrigin url_host orig)
               then h(''Access-Control-Allow-Origin'' \<mapsto> orig, ''Access-Control-Allow-Credentials'' \<mapsto> ''true'', ''Vary'' \<mapsto> ''Origin'')
               else h)
      in if hr_method rq = ''OPTIONS''
         then (h(''Access-Control-Allow-Methods'' \<mapsto> ''GET, POST, PUT, PATCH, DELETE, OPTIONS'',
                 ''Access-Control-Allow-Headers'' \<mapsto> ''Authorization, Content-Type, X-Correlation-ID, X-Device-Fingerprint, X-Coordinator-ID'',
                 ''Access-Control-Max-Age'' \<mapsto> ''86400''), True)
         else (h, False))"

definition correlationID :: "'l router_env \<Rightarrow> http_request \<Rightarrow> headers \<Rightarrow> headers" where
  "correlationID env rq h =
     h(''X-Correlation-Id'' \<mapsto>
        (if header_get (hr_headers rq) ''X-Correlation-Id'' = [] then rx_request_id env else header_get (hr_headers rq) ''X-Correlation-Id''))"

definition ServeHTTP ::
  "'l router_env \<Rightarrow> ('a, 's) handler_fun \<Rightarrow> http_request \<Rightarrow> ('l, 's) router_state \<Rightarrow> headers \<times> 'a response \<times> ('l, 's) router_state" where
  "ServeHTTP env handlers rq0 s =
     (let rq = rq0\<lparr>hr_remote := rx_real_ip env rq0\<rparr>; h = correlationID env rq Map.empty in
      case RequireHTTPS (rx_env env) rq of
        Some target \<Rightarrow> (h, Redirect 301 target, s)
      | None \<Rightarrow>
          (case CORS (rx_origins env) (rx_url_host env) rq (SecurityHeaders (rx_env env) h) of
             (h, True) \<Rightarrow> (h, NoContent 204, s)
           | (h, False) \<Rightarrow>
               (case rx_route env (hr_method rq) (hr_path rq) of
                  Inl st \<Rightarrow> (h, NotRouted st, s)
                | Inr rt \<Rightarrow> (let (r, s) = run_route env handlers rt rq s in (h, Routed r, s)))))"

section \<open>The proxy\<close>

text \<open>
  What the proxy forwards of the headers. The function the source installs runs first; the proxy of the standard library then takes out
  the headers the request itself lists in \<open>Connection\<close>, and its own hop-by-hop headers. The forwarding
  headers it adds afterwards are left out.
\<close>

fun canonical_from :: "bool \<Rightarrow> string \<Rightarrow> string" where
  "canonical_from up [] = []"
| "canonical_from up (c # cs) = (if up then to_upper [c] else to_lower [c]) @ canonical_from (c = CHR ''-'') cs"

definition set_header :: "string \<Rightarrow> string \<Rightarrow> headers \<Rightarrow> headers" where
  "set_header k v h = (if v = [] then h else h(k \<mapsto> v))"

definition director :: "request_context \<Rightarrow> string \<Rightarrow> headers \<Rightarrow> headers" where
  "director cx host h =
     (let clientHost = (if header_get h ''X-Forwarded-Host'' \<noteq> [] then header_get h ''X-Forwarded-Host'' else host);
          h = (if h ''User-Agent'' = None then h(''User-Agent'' \<mapsto> []) else h);
          h = set_header ''X-Forwarded-Host'' clientHost h;
          h = h(''X-Tenant-Id'' := None, ''X-User-Id'' := None, ''X-Role'' := None)
      in set_header ''X-Role'' (cx_role cx) (set_header ''X-User-Id'' (cx_user cx) (set_header ''X-Tenant-Id'' (cx_tenant cx) h)))"

definition hop_headers :: "string list" where
  "hop_headers = [''Connection'', ''Proxy-Connection'', ''Keep-Alive'', ''Proxy-Authenticate'', ''Proxy-Authorization'',
     ''Te'', ''Trailer'', ''Transfer-Encoding'', ''Upgrade'']"

definition proxied :: "request_context \<Rightarrow> http_request \<Rightarrow> headers" where
  "proxied cx rq =
     (let h = director cx (hr_host rq) (hr_headers rq);
          listed = map (canonical_from True \<circ> trim_space) (split_on (CHR '','') (header_get h ''Connection''))
      in (\<lambda>k. if k \<in> set listed \<or> k \<in> set hop_headers then None else h k))"

section \<open>Nothing runs unguarded\<close>

definition self_service :: "route list" where
  "self_service = account_routes @ branding_routes"

text \<open>Who may be in the context a handler is run with.\<close>

definition token_admits :: "'l router_env \<Rightarrow> http_request \<Rightarrow> Claims \<Rightarrow> bool" where
  "token_admits env rq c =
     (let auth = header_get (hr_headers rq) ''Authorization'' in
      extractBearer auth \<noteq> [] \<and> parseToken (rx_mw env) (extractBearer auth) = Some c \<and>
      isBlacklisted (rx_mw env) (rx_revoked env) (ID c) = Some False \<and> ValidTenantID (ClaimTenant c))"

fun role_ok :: "string list option \<Rightarrow> string \<Rightarrow> bool" where
  "role_ok None role = True"
| "role_ok (Some rs) role = (role \<in> set rs)"

definition admitted :: "'l router_env \<Rightarrow> http_request \<Rightarrow> route \<Rightarrow> request_context \<Rightarrow> bool" where
  "admitted env rq rt cx =
     (case rt_guard rt of
        Public _ \<Rightarrow> rt \<in> set public_routes \<and> cx = no_context
      | Protected roles \<Rightarrow>
          \<exists>c. cx = claims_context c \<and> token_admits env rq c \<and>
            role_ok roles (ClaimRole c) \<and> (roles = None \<longrightarrow> rt \<in> set self_service))"

definition roles_listed :: "route \<Rightarrow> bool" where
  "roles_listed r = (case rt_guard r of Protected (Some rs) \<Rightarrow> rs \<noteq> [] | _ \<Rightarrow> False)"

lemmas route_list_defs = account_routes_def patrol_routes_def org_routes_def qa_rep_routes_def session_routes_def report_routes_def
  messaging_routes_def settings_routes_def structure_routes_def room_routes_def people_routes_def employee_routes_def
  coordinator_routes_def lecturer_routes_def notification_routes_def export_routes_def timetable_routes_def qa_routes_def attendance_routes_def

lemmas role_list_defs = orgDashRoles_def hodAssign_def qaRep_def qaRepOrOversight_def coverageReaders_def adminOwn_def employeeReaders_def
  inboxRoles_def timetableReaders_def attendanceReaders_def

lemma secured_listed [simp]: "roles_listed (secured m p (Some rs) db h) = (rs \<noteq> [])"
  by (simp add: roles_listed_def secured_def)

lemma public_tables: "list_all (\<lambda>r. \<exists>l. rt_guard r = Public l) public_routes"
  by (simp add: public_routes_def public_def)

lemma self_service_tables: "list_all (\<lambda>r. rt_guard r = Protected None) self_service"
  by (simp add: self_service_def account_routes_def branding_routes_def) (simp add: secured_def)

lemma protected_tables:
  "list_all roles_listed (patrol_routes @ org_routes @ qa_rep_routes @ session_routes @ report_routes @ messaging_routes @
     settings_routes @ structure_routes @ room_routes @ people_routes @ employee_routes @ coordinator_routes @ lecturer_routes @ notification_routes @
     export_routes @ timetable_routes @ qa_routes @ attendance_routes)"
  by (simp add: route_list_defs role_list_defs)

lemma route_guards:
  assumes "rt \<in> set routes"
  shows "(\<exists>l. rt_guard rt = Public l) \<and> rt \<in> set public_routes \<or>
    rt_guard rt = Protected None \<and> rt \<in> set self_service \<or> (\<exists>rs. rt_guard rt = Protected (Some rs) \<and> rs \<noteq> [])"
proof -
  have listed: "\<exists>rs. rt_guard r = Protected (Some rs) \<and> rs \<noteq> []" if "roles_listed r" for r
    using that by (auto simp: roles_listed_def split: guard.splits option.splits)
  show ?thesis
    using assms public_tables self_service_tables protected_tables listed
    unfolding routes_def self_service_def list_all_iff by auto
qed

text \<open>The protected chain: the handler with the token's context, or a refusal that leaves the application alone.\<close>

lemma role_checked_cases:
  "(\<exists>st code. role_checked roles nxt cx s = (Reject st code, s)) \<or>
   role_ok roles (cx_role cx) \<and> role_checked roles nxt cx s = nxt cx s"
  by (cases roles) (auto simp: role_checked_def RequireRole_def)

lemma AuditLog_runs:
  assumes "AuditLog js wr rq cx nxt s = (r, s', e)"
  obtains body where "nxt body s = (r, s')"
  using assms by (auto simp: AuditLog_def Let_def split: if_splits prod.splits)

lemma run_handler_app:
  "run_handler handlers h rq cx s = (r, s') \<Longrightarrow> handlers h rq cx (rs_app s) = (r, rs_app s') \<and> rs_audit s' = rs_audit s"
  by (auto simp: run_handler_def split: prod.splits)

lemma audited_cases:
  assumes "audited env rq (\<lambda>rq. role_checked roles (run_handler handlers h rq)) cx s = (r, s')"
  shows "rs_app s' = rs_app s \<and> (\<exists>st code. r = Reject st code) \<or>
    role_ok roles (cx_role cx) \<and>
      (\<exists>body. handlers h (rq\<lparr>hr_body := body\<rparr>) cx (rs_app s) = (r, rs_app s'))"
proof -
  obtain s1 e where a: "AuditLog (rx_json env) (rx_audit_written env) (audit_view rq) cx
      (\<lambda>body. role_checked roles (run_handler handlers h (rq\<lparr>hr_body := body\<rparr>)) cx) s = (r, s1, e)"
    and app: "rs_app s' = rs_app s1"
    using assms by (auto simp: audited_def split: prod.splits option.splits)
  obtain body where "role_checked roles (run_handler handlers h (rq\<lparr>hr_body := body\<rparr>)) cx s = (r, s1)"
    using AuditLog_runs [OF a] .
  then show ?thesis
    using role_checked_cases [of roles "run_handler handlers h (rq\<lparr>hr_body := body\<rparr>)" cx s] app run_handler_app by fastforce
qed

lemma no_tenant_invalid: "\<not> ValidTenantID []"
  by code_simp

lemma claims_context_simps [simp]:
  "cx_role (claims_context c) = ClaimRole c" "cx_user (claims_context c) = Subject c" "cx_tenant (claims_context c) = ClaimTenant c"
  by (simp_all add: claims_context_def)

lemma run_secured_admitted:
  assumes "token_admits env rq c"
  shows "run_secured env handlers roles h rq s =
    rate_limited env rq (audited env rq (\<lambda>rq. role_checked roles (run_handler handlers h rq))) (claims_context c) s"
proof -
  have "ClaimTenant c \<noteq> []"
    using assms no_tenant_invalid by (auto simp: token_admits_def Let_def)
  then show ?thesis
    using assms by (auto simp: run_secured_def token_admits_def JWTAuth_def SetTenant_def claims_context_def Let_def)
qed

lemma rate_limited_cases:
  "rate_limited env rq nxt cx s = (r, s') \<Longrightarrow>
     \<exists>m. r = Reject 429 ''RATE_LIMIT_EXCEEDED'' \<and> s' = s\<lparr>rs_limits := m\<rparr> \<or> nxt cx (s\<lparr>rs_limits := m\<rparr>) = (r, s')"
  by (fastforce simp: rate_limited_def Let_def split: prod.splits if_splits)

lemma run_secured_cases:
  assumes "run_secured env handlers roles h rq s = (r, s')"
  shows "rs_app s' = rs_app s \<and> (\<exists>st code. r = Reject st code) \<or>
    (\<exists>c body. token_admits env rq c \<and> role_ok roles (ClaimRole c) \<and>
      handlers h (rq\<lparr>hr_body := body\<rparr>) (claims_context c) (rs_app s) = (r, rs_app s'))"
proof (cases "\<exists>c. token_admits env rq c")
  case True
  then obtain c where c: "token_admits env rq c" ..
  then obtain m where "r = Reject 429 ''RATE_LIMIT_EXCEEDED'' \<and> s' = s\<lparr>rs_limits := m\<rparr> \<or>
      audited env rq (\<lambda>rq. role_checked roles (run_handler handlers h rq)) (claims_context c) (s\<lparr>rs_limits := m\<rparr>) = (r, s')"
    using assms rate_limited_cases by (metis run_secured_admitted)
  then show ?thesis
    using audited_cases [of env rq roles handlers h "claims_context c" "s\<lparr>rs_limits := m\<rparr>" r s'] c by auto
next
  case False
  then show ?thesis
    using assms
    by (auto simp: run_secured_def token_admits_def JWTAuth_def SetTenant_def claims_context_def Let_def split: if_splits option.splits)
qed

lemma run_public_cases:
  assumes "run_public env handlers limit rt rq s = (r, s')"
  shows "rs_app s' = rs_app s \<and> (\<exists>st code. r = Reject st code) \<or> handlers (rt_handler rt) rq no_context (rs_app s) = (r, rs_app s')"
  using assms by (auto simp: run_public_def run_handler_def Let_def split: option.splits prod.splits if_splits)

text \<open>
  C9. Nothing behind the gateway runs unguarded. Whatever a request holds, either the application's state is as before and the answer is
  a refusal of the gateway's own, or it is the answer of the handler of a registered route, run for a caller who was admitted: on a public
  route with no identity at all, and on every other one with the user, tenant and role of a token that the JWT
  library accepts, that is not revoked and whose tenant is well-formed. The role is one of the route's, and only the five
  routes of \<open>self_service\<close> take every role.
\<close>

theorem gateway_guarded:
  assumes "\<And>m p rt. rx_route env m p = Inr rt \<Longrightarrow> rt \<in> set routes"
    and "ServeHTTP env handlers rq s = (h, resp, s')"
  shows "rs_app s' = rs_app s \<and> (\<forall>st x. resp \<noteq> Routed (Reply st x)) \<or>
    (\<exists>rt rq' cx r. rx_route env (hr_method rq) (hr_path rq) = Inr rt \<and> rt \<in> set routes \<and> admitted env rq rt cx \<and>
       resp = Routed r \<and> handlers (rt_handler rt) rq' cx (rs_app s) = (r, rs_app s'))"
proof (cases resp)
  case (Routed r)
  let ?rq = "rq\<lparr>hr_remote := rx_real_ip env rq\<rparr>"
  obtain rt where rt: "rx_route env (hr_method rq) (hr_path rq) = Inr rt" and run: "run_route env handlers rt ?rq s = (r, s')"
    using assms(2) Routed by (auto simp: ServeHTTP_def Let_def split: option.splits prod.splits bool.splits sum.splits)
  have tok: "token_admits env ?rq c = token_admits env rq c" for c
    by (simp add: token_admits_def)
  have known: "rt \<in> set routes"
    using assms(1) rt .
  consider l where "rt_guard rt = Public l" "rt \<in> set public_routes" | "rt_guard rt = Protected None" "rt \<in> set self_service"
    | rs where "rt_guard rt = Protected (Some rs)"
    using route_guards [OF known] by blast
  then show ?thesis
  proof cases
    case 1
    then have "run_public env handlers l rt ?rq s = (r, s')"
      using run by (simp add: run_route_def)
    from run_public_cases [OF this] show ?thesis
      using rt known 1 Routed by (auto simp: admitted_def)
  next
    case 2
    then have "run_secured env handlers None (rt_handler rt) ?rq s = (r, s')"
      using run by (simp add: run_route_def)
    from run_secured_cases [OF this] show ?thesis
      using rt known 2 Routed by (fastforce simp: admitted_def tok)
  next
    case 3
    then have "run_secured env handlers (Some rs) (rt_handler rt) ?rq s = (r, s')"
      using run by (simp add: run_route_def)
    from run_secured_cases [OF this] show ?thesis
      using rt known 3 Routed by (fastforce simp: admitted_def tok)
  qed
qed (use assms(2) in \<open>auto simp: ServeHTTP_def Let_def split: option.splits prod.splits bool.splits sum.splits\<close>)

section \<open>Every change leaves its mark\<close>


section \<open>Identity is not forged\<close>

lemma set_header_apply: "set_header k v h j = (if j = k \<and> v \<noteq> [] then Some v else h j)"
  by (simp add: set_header_def)

text \<open>
  Whatever headers a caller sends, the service behind the proxy is never told of another tenant, user or role than those of the
  context the gateway derived from the token: each of the three headers is that value or missing, and all are missing on a public route.
  A caller can make them go missing, by listing them in \<open>Connection\<close>; without that header they are exactly the context's.
\<close>

theorem proxy_identity:
  "header_get (proxied cx rq) ''X-Tenant-Id'' \<in> {[], cx_tenant cx} \<and> header_get (proxied cx rq) ''X-User-Id'' \<in> {[], cx_user cx} \<and>
   header_get (proxied cx rq) ''X-Role'' \<in> {[], cx_role cx} \<and>
   (hr_headers rq ''Connection'' = None \<longrightarrow>
      header_get (proxied cx rq) ''X-Tenant-Id'' = cx_tenant cx \<and> header_get (proxied cx rq) ''X-User-Id'' = cx_user cx \<and>
      header_get (proxied cx rq) ''X-Role'' = cx_role cx) \<and>
   header_get (proxied no_context rq) ''X-Tenant-Id'' = [] \<and> header_get (proxied no_context rq) ''X-User-Id'' = [] \<and>
   header_get (proxied no_context rq) ''X-Role'' = []"
proof -
  have d: "director cx host h ''X-Tenant-Id'' = (if cx_tenant cx = [] then None else Some (cx_tenant cx))"
    "director cx host h ''X-User-Id'' = (if cx_user cx = [] then None else Some (cx_user cx))"
    "director cx host h ''X-Role'' = (if cx_role cx = [] then None else Some (cx_role cx))"
    "director cx host h ''Connection'' = h ''Connection''" for cx host h
    by (simp_all add: director_def Let_def set_header_apply)
  have none: "canonical_from True (trim_space []) = []"
    by (simp add: trim_space_def trim_left_def trim_right_def)
  have hop: "''X-Tenant-Id'' \<notin> set hop_headers" "''X-User-Id'' \<notin> set hop_headers" "''X-Role'' \<notin> set hop_headers"
    by (simp_all add: hop_headers_def)
  show ?thesis
    using hop none by (auto simp: proxied_def Let_def header_get_def d no_context_def)
qed

section \<open>What a token opens\<close>

definition opens :: "string \<Rightarrow> route \<Rightarrow> bool" where
  "opens role rt = (case rt_guard rt of Public _ \<Rightarrow> False | Protected roles \<Rightarrow> role_ok roles role)"

lemma opens_secured [simp]: "opens role (secured m p roles db h) = role_ok roles role"
  by (simp add: opens_def secured_def)

lemma opens_public [simp]: "opens role (public m p limit db h) = False"
  by (simp add: opens_def public_def)

lemma not_student:
  "RoleStudent \<noteq> RoleCoordinator" "RoleStudent \<noteq> RoleQAOfficer" "RoleStudent \<noteq> RoleDQADirector" "RoleStudent \<noteq> RoleVC"
  "RoleStudent \<noteq> RoleDVC" "RoleStudent \<noteq> RoleAdmin" "RoleStudent \<noteq> RoleLecturer" "RoleStudent \<noteq> RolePatroller" "RoleStudent \<noteq> RoleHOD"
  "RoleStudent \<noteq> RoleDean" "RoleStudent \<noteq> RoleQASchool" "RoleStudent \<noteq> RoleQADeptRep" "RoleStudent \<noteq> RoleTLC"
  by (simp_all add: role_defs)

lemma student_opens_none:
  "filter (opens RoleStudent) public_routes = []"
  "filter (opens RoleStudent) patrol_routes = []"
  "filter (opens RoleStudent) org_routes = []"
  "filter (opens RoleStudent) qa_rep_routes = []"
  "filter (opens RoleStudent) messaging_routes = []"
  "filter (opens RoleStudent) settings_routes = []"
  "filter (opens RoleStudent) structure_routes = []"
  "filter (opens RoleStudent) room_routes = []"
  "filter (opens RoleStudent) people_routes = []"
  "filter (opens RoleStudent) employee_routes = []"
  "filter (opens RoleStudent) coordinator_routes = []"
  "filter (opens RoleStudent) lecturer_routes = []"
  "filter (opens RoleStudent) export_routes = []"
  "filter (opens RoleStudent) timetable_routes = []"
  "filter (opens RoleStudent) qa_routes = []"
  "filter (opens RoleStudent) attendance_routes = []"
  by (simp_all add: public_routes_def route_list_defs role_list_defs not_student)

lemma student_opens_some:
  "filter (opens RoleStudent) session_routes =
     [secured ''POST'' ''/api/v1/student/checkin'' (Some [RoleStudent]) Scoped ''StudentCheckin'',
      secured ''GET'' ''/api/v1/student/live-sessions'' (Some [RoleStudent]) Scoped ''StudentLiveSessions'',
      secured ''GET'' ''/api/v1/student/home'' (Some [RoleStudent]) Privileged ''StudentHome'']"
  "filter (opens RoleStudent) report_routes =
     [secured ''GET'' ''/api/v1/eligibility/{student_id}'' (Some [RoleQAOfficer, RoleDQADirector, RoleVC, RoleDVC, RoleStudent]) Scoped ''GetEligibility'']"
  "filter (opens RoleStudent) notification_routes =
     [secured ''GET'' ''/api/v1/app-notifications'' (Some inboxRoles) Privileged ''ListAppNotifications'',
      secured ''GET'' ''/api/v1/app-notifications/unread-count'' (Some inboxRoles) Privileged ''UnreadAppNotificationCount'',
      secured ''POST'' ''/api/v1/app-notifications/{id}/read'' (Some inboxRoles) Privileged ''MarkAppNotificationRead'',
      secured ''DELETE'' ''/api/v1/app-notifications/{id}'' (Some inboxRoles) Privileged ''DismissAppNotification'']"
  by (simp_all add: route_list_defs role_list_defs not_student not_student [symmetric])

text \<open>
  What the token of a student opens: of all the protected routes, exactly these. Beyond signing out, renewing and changing the
  account's own details, a student checks in, sees the running sessions, the own home page, an eligibility record and the
  inbox, and nothing else of the system is in reach.
\<close>

theorem student_reach:
  "filter (opens RoleStudent) routes =
     account_routes @
     [secured ''POST'' ''/api/v1/student/checkin'' (Some [RoleStudent]) Scoped ''StudentCheckin'',
      secured ''GET'' ''/api/v1/student/live-sessions'' (Some [RoleStudent]) Scoped ''StudentLiveSessions'',
      secured ''GET'' ''/api/v1/student/home'' (Some [RoleStudent]) Privileged ''StudentHome''] @
     [secured ''GET'' ''/api/v1/eligibility/{student_id}'' (Some [RoleQAOfficer, RoleDQADirector, RoleVC, RoleDVC, RoleStudent]) Scoped ''GetEligibility''] @
     branding_routes @
     [secured ''GET'' ''/api/v1/app-notifications'' (Some inboxRoles) Privileged ''ListAppNotifications'',
      secured ''GET'' ''/api/v1/app-notifications/unread-count'' (Some inboxRoles) Privileged ''UnreadAppNotificationCount'',
      secured ''POST'' ''/api/v1/app-notifications/{id}/read'' (Some inboxRoles) Privileged ''MarkAppNotificationRead'',
      secured ''DELETE'' ''/api/v1/app-notifications/{id}'' (Some inboxRoles) Privileged ''DismissAppNotification'']"
proof -
  have "filter (opens RoleStudent) account_routes = account_routes" "filter (opens RoleStudent) branding_routes = branding_routes"
    by (simp_all add: account_routes_def branding_routes_def)
  then show ?thesis
    by (simp only: routes_def filter_append student_opens_none student_opens_some append_Nil append_Nil2)
qed

section \<open>A request that goes through\<close>

text \<open>A patroller sets a PIN; the rate limiter lets everything through.\<close>

definition pin_route :: route where
  "pin_route = secured ''POST'' ''/api/v1/patrol/pin'' (Some [RolePatroller]) Scoped ''SetPatrolPIN''"

lemma pin_route_registered: "pin_route \<in> set routes"
proof -
  have "pin_route \<in> set patrol_routes"
    by (simp add: pin_route_def patrol_routes_def)
  then show ?thesis
    by (simp add: routes_def)
qed

definition patroller_claims :: Claims where
  "patroller_claims = (demo_claims (100 * hour) ''p1'')\<lparr>ClaimRole := RolePatroller, ClaimTenant := ''11111111-1111-1111-1111-111111111111''\<rparr>"

definition pin_env_router :: "unit router_env" where
  "pin_env_router = \<lparr>rx_mw = (demo_mw 0)\<lparr>mw_parse := (\<lambda>_ _ _. Some patroller_claims)\<rparr>, rx_revoked = (\<lambda>_. None), rx_new = (\<lambda>_ _. ()),
     rx_allow = (\<lambda>_ _. (True, ())), rx_json = (\<lambda>_. True), rx_audit_written = True,
     rx_route = (\<lambda>m p. if m = ''POST'' then Inr pin_route else Inl 404), rx_real_ip = hr_remote, rx_request_id = ''r'', rx_env = ''dev'',
     rx_origins = [], rx_url_host = (\<lambda>_. None)\<rparr>"

definition pin_request :: http_request where
  "pin_request = \<lparr>hr_method = ''POST'', hr_path = ''/api/v1/patrol/pin'', hr_uri = ''/api/v1/patrol/pin'', hr_host = ''q'',
     hr_headers = [''Authorization'' \<mapsto> ''Bearer t''], hr_remote = ''10.0.0.1:5'', hr_body = bytes_of ''{pin:4071}''\<rparr>"

definition quiet_state :: "(unit, nat) router_state" where
  "quiet_state = \<lparr>rs_app = 0, rs_limits = \<lparr>coordinators = Map.empty, global_limits = Map.empty\<rparr>,
     rs_public = (\<lambda>_. \<lparr>ips = Map.empty, next_sweep = None\<rparr>), rs_audit = []\<rparr>"

definition counting :: "(unit, nat) handler_fun" where
  "counting h rq cx n = (Reply 200 (), Suc n)"

lemma pin_token: "token_admits pin_env_router pin_request patroller_claims"
proof -
  have "extractBearer ''Bearer t'' = ''t''" "ValidTenantID ''11111111-1111-1111-1111-111111111111''"
    by code_simp+
  then show ?thesis
    by (simp add: token_admits_def header_get_def pin_request_def pin_env_router_def demo_mw_def parseToken_def isBlacklisted_def
        patroller_claims_def)
qed

lemma pin_served:
  "\<exists>h s'. ServeHTTP pin_env_router counting pin_request quiet_state = (h, Routed (Reply 200 ()), s') \<and> rs_app s' = Suc 0"
proof -
  have rq: "pin_request\<lparr>hr_remote := rx_real_ip pin_env_router pin_request\<rparr> = pin_request"
    by (simp add: pin_env_router_def)
  have "run_route pin_env_router counting pin_route pin_request quiet_state =
      rate_limited pin_env_router pin_request (audited pin_env_router pin_request
        (\<lambda>rq. role_checked (Some [RolePatroller]) (run_handler counting ''SetPatrolPIN'' rq))) (claims_context patroller_claims) quiet_state"
    by (simp add: run_route_def pin_route_def secured_def run_secured_admitted [OF pin_token])
  moreover have "ClaimRole patroller_claims = RolePatroller" "RolePatroller \<noteq> RoleCoordinator"
    by (simp_all add: patroller_claims_def role_defs)
  ultimately have "\<exists>s'. run_route pin_env_router counting pin_route pin_request quiet_state = (Reply 200 (), s') \<and> rs_app s' = Suc 0"
    by (simp add: rate_limited_def CoordinatorRateLimit_def role_checked_def quiet_state_def pin_env_router_def)
       (simp add: audited_def AuditLog_def audit_view_def pin_request_def RequireRole_def run_handler_def counting_def Let_def)
  then show ?thesis
    using rq by (simp add: ServeHTTP_def RequireHTTPS_def CORS_def Let_def)
       (simp add: pin_env_router_def pin_request_def split: prod.splits, force)
qed

theorem gateway_guarded_witness:
  "\<exists>rt cx. admitted pin_env_router pin_request rt cx \<and> rt \<in> set routes \<and> cx_role cx = RolePatroller"
proof -
  obtain h s' where served: "ServeHTTP pin_env_router counting pin_request quiet_state = (h, Routed (Reply 200 ()), s')" "rs_app s' = Suc 0"
    using pin_served by blast
  have "rx_route pin_env_router m p = Inr rt \<Longrightarrow> rt \<in> set routes" for m p rt
    using pin_route_registered by (auto simp: pin_env_router_def split: if_splits)
  then obtain rt cx where rt: "rx_route pin_env_router (hr_method pin_request) (hr_path pin_request) = Inr rt" "rt \<in> set routes"
      "admitted pin_env_router pin_request rt cx"
    using gateway_guarded [OF _ served(1)] by blast
  then have "rt_guard rt = Protected (Some [RolePatroller])"
    by (auto simp: pin_env_router_def pin_request_def pin_route_def secured_def)
  then have "cx_role cx = RolePatroller"
    using rt(3) by (auto simp: admitted_def)
  then show ?thesis
    using rt(2,3) by blast
qed


text \<open>A caller who claims another tenant in a header.\<close>

theorem proxy_identity_witness:
  "header_get (proxied (claims_context patroller_claims) (pin_request\<lparr>hr_headers := [''X-Tenant-Id'' \<mapsto> ''t2'']\<rparr>)) ''X-Tenant-Id'' =
     ClaimTenant patroller_claims"
  using proxy_identity [of "claims_context patroller_claims" "pin_request\<lparr>hr_headers := [''X-Tenant-Id'' \<mapsto> ''t2'']\<rparr>"] by simp

end
