(* ===== verification/Lecture_Jobs.thy ===== *)
theory Lecture_Jobs
  imports Scheduler Patrol
begin

text \<open>
  The scheduled work of the gateway about lectures (\<open>jobs/lectures.go\<close>): the reminder before a lecture, the
  notice that nobody recorded it, and the summons to the QA office. Each job is handed a window by
  the scheduler, looks up the slots due in it, and claims a notification before it writes it.

  The world of the jobs is the tables they read and write; they run on the administrative pool and see all
  rows. \<open>job_env\<close> is one run: the clock, the zone of the windows, and which calls fail, for which slot.
\<close>

section \<open>State\<close>

record job_slot = slot_row +
  ts_id :: string

record job_world =
  jw_slots :: "job_slot table"
  jw_units :: "unit_row table"
  jw_lecturers :: "lecturer_row table"
  jw_assignments :: "(string \<times> string \<times> string) list"
  jw_sessions :: "session table"
  jw_logs :: "patrol_log table"
  jw_claims :: "notification table"
  jw_inbox :: "app_notification table"
  jw_recipients :: "(string \<times> string \<times> string) list"

datatype job_call = JQuery | JRecorded | JClaim | JInsert | JRecipient

record job_env =
  je_now :: instant
  je_zone :: location
  je_failing :: "job_call \<Rightarrow> nat \<Rightarrow> bool"
  je_fresh :: "nat \<Rightarrow> string"

definition KindLectureReminder :: string where "KindLectureReminder = ''LECTURE_REMINDER''"
definition KindAttendanceMissing :: string where "KindAttendanceMissing = ''ATTENDANCE_MISSING''"
definition KindQAEscalation :: string where "KindQAEscalation = ''QA_ESCALATION''"

definition remindBeforeMinutes :: nat where "remindBeforeMinutes = 10"
definition chaseAfterMinutes :: nat where "chaseAfterMinutes = 10"
definition escalateAfterMinutes :: nat where "escalateAfterMinutes = 20"
definition qaVisitWithinMinutes :: nat where "qaVisitWithinMinutes = 20"

record dueSlot =
  ds_tenant :: string
  ds_slot :: string
  ds_unit :: string
  ds_unit_name :: string
  ds_course :: string
  ds_room :: string
  ds_start :: string
  ds_user :: string
  ds_name :: string
  ds_staff :: string

section \<open>The slots that are due\<close>

text \<open>The lecturer with an account: the slot's own, or the latest assignment of the unit when it has none.\<close>

definition account_lecturer :: "job_world \<Rightarrow> job_slot \<Rightarrow> lecturer_row option" where
  "account_lecturer w ts =
     (let wanted = (case ts_lecturer ts of
            Some l \<Rightarrow> Some l
          | None \<Rightarrow> map_option fst (latest (map (\<lambda>(_, l, y). (l, y)) (filter (\<lambda>(u, _). u = ts_unit ts) (jw_assignments w)))))
      in select_one (\<lambda>l. lec_user l \<noteq> None \<and> Some (lec_id l) = wanted) (jw_lecturers w))"

definition due_view :: "job_world \<Rightarrow> job_slot \<Rightarrow> dueSlot option" where
  "due_view w ts =
     (case (select_one (\<lambda>u. cu_id u = ts_unit ts) (jw_units w), account_lecturer w ts) of
        (Some u, Some l) \<Rightarrow>
          Some \<lparr>ds_tenant = ts_tenant ts, ds_slot = ts_id ts, ds_unit = ts_unit ts,
            ds_unit_name = (case cu_name u of None \<Rightarrow> ts_unit ts | Some n \<Rightarrow> n), ds_course = or_empty (cu_course u),
            ds_room = (case free_text (slot_row.truncate ts) of Some r \<Rightarrow> r | None \<Rightarrow> or_empty (ts_venue ts)),
            ds_start = start_text (slot_row.truncate ts), ds_user = or_empty (lec_user l), ds_name = or_empty (lec_name l),
            ds_staff = or_empty (lec_staff l)\<rparr>
      | _ \<Rightarrow> None)"

text \<open>The band of start times of a window, as minutes since midnight.\<close>

definition slot_band :: "location \<Rightarrow> Window \<Rightarrow> nat \<Rightarrow> bool \<Rightarrow> int \<times> int" where
  "slot_band loc win offset ahead =
     (let a = int (MinutesSinceMidnight loc (From win)); b = int (MinutesSinceMidnight loc (To win)) in
      if ahead then (a + int offset, b + int offset) else (a - int offset, b - int offset))"

definition due_slots :: "location \<Rightarrow> Window \<Rightarrow> nat \<Rightarrow> bool \<Rightarrow> job_slot table \<Rightarrow> job_slot list" where
  "due_slots loc win offset ahead rows =
     (let (fromMin, toMin) = slot_band loc win offset ahead in
      if toMin < 0 \<or> 24 * 60 < fromMin then []
      else filter (\<lambda>ts. ts_dow ts = ISOWeekday loc (From win) \<and> fromMin \<le> int (ts_start ts) \<and> int (ts_start ts) < toMin) rows)"

definition querySlots :: "job_env \<Rightarrow> Window \<Rightarrow> nat \<Rightarrow> bool \<Rightarrow> job_world \<Rightarrow> string + dueSlot list" where
  "querySlots env win offset ahead w =
     (let (fromMin, toMin) = slot_band (je_zone env) win offset ahead in
      if toMin < 0 \<or> 24 * 60 < fromMin then Inr []
      else if je_failing env JQuery 0 then Inl ''due slots''
      else Inr (List.map_filter (due_view w) (due_slots (je_zone env) win offset ahead (jw_slots w))))"

definition slotsStartingIn :: "job_env \<Rightarrow> Window \<Rightarrow> nat \<Rightarrow> job_world \<Rightarrow> string + dueSlot list" where
  "slotsStartingIn env win offset w = querySlots env win offset True w"

definition slotsStartedAgo :: "job_env \<Rightarrow> Window \<Rightarrow> nat \<Rightarrow> job_world \<Rightarrow> string + dueSlot list" where
  "slotsStartedAgo env win offset w = querySlots env win offset False w"

text \<open>Any evidence of the lecture today: a session of the unit, or a tick of the round. \<open>None\<close> is the error.\<close>

definition attendanceRecorded :: "job_env \<Rightarrow> nat \<Rightarrow> dueSlot \<Rightarrow> job_world \<Rightarrow> bool option" where
  "attendanceRecorded env i s w =
     (let today = Today (je_zone env) (je_now env) in
      if je_failing env JRecorded i then None
      else Some
        (list_ex (\<lambda>se. sess_tenant se = ds_tenant s \<and> sess_unit se = ds_unit s \<and> sess_date se = today \<and>
            sess_status se \<in> set [''ACTIVE'', ''PENDING_LECTURER'', ''CLOSED'', ''AUTO_CLOSED'']) (jw_sessions w) \<or>
         list_ex (\<lambda>p. pl_tenant p = ds_tenant s \<and> pl_unit p = ds_unit s \<and>
            Some (pl_date p) = map_option day_number (parse_ymd today)) (jw_logs w)))"

section \<open>Claim, then send\<close>

text \<open>\<open>ParseDate\<close> of today's own date never fails within the years of the calendar; its error is kept.\<close>

definition notifyLecturer ::
  "job_env \<Rightarrow> nat \<Rightarrow> dueSlot \<Rightarrow> string \<Rightarrow> string \<Rightarrow> string \<Rightarrow> job_world \<Rightarrow> string option \<times> job_world" where
  "notifyLecturer env i s knd subject body w =
     (case ParseDate (je_zone env) (Today (je_zone env) (je_now env)) of
        None \<Rightarrow> (Some ''parse date'', w)
      | Some d \<Rightarrow>
          (case AlreadySent (je_failing env JClaim i) knd (ds_slot s) (Today (je_zone env) d) (ds_user s) ''APP'' (jw_claims w) of
             (Inl _, claims) \<Rightarrow> (Some ''claim'', w\<lparr>jw_claims := claims\<rparr>)
           | (Inr True, claims) \<Rightarrow> (None, w\<lparr>jw_claims := claims\<rparr>)
           | (Inr False, claims) \<Rightarrow>
               let w = w\<lparr>jw_claims := claims\<rparr>; nid = je_fresh env (length (jw_inbox w)) in
               if je_failing env JInsert i then (Some ''write notification'', w)
               else
                 let w = w\<lparr>jw_inbox := jw_inbox w @ [\<lparr>n_id = nid, n_tenant = ds_tenant s, n_sender = ''QAAT'', n_unit = Some (ds_unit s),
                       n_subject = subject, n_body = body, n_action = None, n_action_ref = None\<rparr>]\<rparr>
                 in if je_failing env JRecipient i then (Some ''recipient'', w)
                    else (None, if list_ex (\<lambda>(n, _, u). n = nid \<and> u = ds_user s) (jw_recipients w) then w
                                else w\<lparr>jw_recipients := jw_recipients w @ [(nid, ds_tenant s, ds_user s)]\<rparr>)))"

definition paren :: "string \<Rightarrow> string" where
  "paren s = (if trim_space s = [] then [] else '' ('' @ s @ '')'')"

definition ifNotBlank :: "string \<Rightarrow> string \<Rightarrow> string" where
  "ifNotBlank s prefix = (if trim_space s = [] then [] else prefix @ s)"

section \<open>The jobs\<close>

text \<open>The loop of a job: the first error stops it, and the scheduler will try the window again.\<close>

fun each_slot ::
  "(nat \<Rightarrow> 's \<Rightarrow> 'w \<Rightarrow> string option \<times> 'w) \<Rightarrow> nat \<Rightarrow> 's list \<Rightarrow> 'w \<Rightarrow> string option \<times> 'w" where
  "each_slot f i [] w = (None, w)"
| "each_slot f i (s # ss) w =
     (case f i s w of (Some e, w) \<Rightarrow> (Some e, w) | (None, w) \<Rightarrow> each_slot f (Suc i) ss w)"

definition reminder_text :: "dueSlot \<Rightarrow> string \<times> string" where
  "reminder_text s =
     (''Starts in '' @ itoa remindBeforeMinutes @ '' minutes: '' @ ds_unit_name s,
      ds_unit_name s @ paren (ds_course s) @ '' begins at '' @ ds_start s @ ifNotBlank (ds_room s) '' in '' @ ''.'')"

definition lectureReminder :: "job_env \<Rightarrow> Window \<Rightarrow> job_world \<Rightarrow> string option \<times> job_world" where
  "lectureReminder env win w =
     (case slotsStartingIn env win remindBeforeMinutes w of
        Inl e \<Rightarrow> (Some e, w)
      | Inr slots \<Rightarrow>
          each_slot (\<lambda>i s w. notifyLecturer env i s KindLectureReminder (fst (reminder_text s)) (snd (reminder_text s)) w) 0 slots w)"

definition missing_text :: "dueSlot \<Rightarrow> string \<times> string" where
  "missing_text s =
     (''Attendance not recorded: '' @ ds_unit_name s @ '' at '' @ ds_start s,
      ''Your '' @ ds_unit_name s @ '' lecture'' @ paren (ds_course s) @ '' was due to start at '' @ ds_start s
      @ ifNotBlank (ds_room s) '' in '' @ '', and neither the coordinator nor a QA patroller has recorded it.''
      @ newline @ newline @ ''If you are teaching, ask the coordinator to open the session.'')"

definition escalation_text :: "dueSlot \<Rightarrow> string \<times> string" where
  "escalation_text s =
     (''Please visit the QA office: '' @ ds_unit_name s @ '' at '' @ ds_start s,
      ''Your '' @ ds_unit_name s @ '' lecture'' @ paren (ds_course s) @ '' at '' @ ds_start s @ ifNotBlank (ds_room s) '' in ''
      @ '' has no attendance record'' @ em_dash @ ''neither the coordinator nor a QA patroller captured it.'' @ newline @ newline
      @ ''If you taught this lecture, please go to the Quality Assurance office within '' @ itoa qaVisitWithinMinutes
      @ '' minutes so the record can be corrected. Left as it is, this counts as a lecture that did not happen.'')"

text \<open>The two jobs that run after the start tell the lecturer only when nobody has recorded the lecture.\<close>

definition unless_recorded ::
  "job_env \<Rightarrow> string \<Rightarrow> (dueSlot \<Rightarrow> string \<times> string) \<Rightarrow> nat \<Rightarrow> dueSlot \<Rightarrow> job_world \<Rightarrow> string option \<times> job_world" where
  "unless_recorded env knd msg i s w =
     (case attendanceRecorded env i s w of
        None \<Rightarrow> (Some ''recorded'', w)
      | Some True \<Rightarrow> (None, w)
      | Some False \<Rightarrow> notifyLecturer env i s knd (fst (msg s)) (snd (msg s)) w)"

definition attendanceMissing :: "job_env \<Rightarrow> Window \<Rightarrow> job_world \<Rightarrow> string option \<times> job_world" where
  "attendanceMissing env win w =
     (case slotsStartedAgo env win chaseAfterMinutes w of
        Inl e \<Rightarrow> (Some e, w)
      | Inr slots \<Rightarrow> each_slot (unless_recorded env KindAttendanceMissing missing_text) 0 slots w)"

definition qaEscalation :: "job_env \<Rightarrow> Window \<Rightarrow> job_world \<Rightarrow> string option \<times> job_world" where
  "qaEscalation env win w =
     (case slotsStartedAgo env win escalateAfterMinutes w of
        Inl e \<Rightarrow> (Some e, w)
      | Inr slots \<Rightarrow> each_slot (unless_recorded env KindQAEscalation escalation_text) 0 slots w)"

definition Register_lectures :: "job_env \<Rightarrow> job_world Scheduler \<Rightarrow> job_world Scheduler" where
  "Register_lectures env s =
     Register \<lparr>Name = ''qa_escalation'', Every = minute, MaxCatchUp = 60 * minute, Run = qaEscalation env\<rparr>
     (Register \<lparr>Name = ''attendance_missing'', Every = minute, MaxCatchUp = 60 * minute, Run = attendanceMissing env\<rparr>
     (Register \<lparr>Name = ''lecture_reminder'', Every = minute, MaxCatchUp = 30 * minute, Run = lectureReminder env\<rparr> s))"

section \<open>One window for every lecture\<close>

lemma mod_mult_div: "a mod (b * c) div b = a div b mod c" if "0 < b" "0 < c" for a b c :: int
  using that by (simp add: zmod_zmult2_eq)

lemma duration_facts: "0 < minute" "hour = minute * 60" "24 * hour = minute * 1440"
  by (simp_all add: duration_defs)

lemma minutes_of_day: "MinutesSinceMidnight loc t = nat ((t + loc) div minute mod 1440)"
proof -
  let ?s = "since_midnight loc t"
  have s: "?s div minute = (t + loc) div minute mod 1440" "0 \<le> ?s"
    using mod_mult_div [of minute 1440 "t + loc"] duration_facts(1) by (simp_all add: since_midnight_def duration_facts(3))
  obtain n where n: "?s div minute = int n"
    using s duration_facts(1) by (metis nonneg_int_cases pos_imp_zdiv_nonneg_iff)
  moreover have "?s div hour = ?s div minute div 60" "?s mod hour div minute = ?s div minute mod 60"
    using duration_facts(1) by (simp_all add: duration_facts(2) mod_mult_div zdiv_zmult2_eq)
  ultimately have "hour_of loc t = n div 60" "minute_of loc t = n mod 60"
    by (simp_all add: hour_of_def minute_of_def nat_div_distrib nat_mod_distrib)
  then show ?thesis
    using s(1) n by (simp add: MinutesSinceMidnight_def)
qed

text \<open>The minutes of a day are cut by windows of one minute, wherever in the minute they begin.\<close>

lemma day_window:
  assumes dawn: "since_midnight loc dawn = 0" and "0 \<le> d" "d < minute"
  shows "MinutesSinceMidnight loc (dawn + d + int k * minute) = k mod 1440"
    and "k < 1440 \<Longrightarrow> ISOWeekday loc (dawn + d + int k * minute) = ISOWeekday loc dawn"
proof -
  obtain q where q: "dawn + loc = minute * (1440 * q)"
    using dawn by (metis duration_facts(3) mod_0_imp_dvd dvdE mult.assoc since_midnight_def)
  have split_at: "dawn + d + int k * minute + loc = minute * (1440 * q + int k) + d"
    using q by (simp add: algebra_simps)
  then have quot: "(dawn + d + int k * minute + loc) div minute = 1440 * q + int k"
    using assms(2,3) by (simp only: split_at) simp
  then show "MinutesSinceMidnight loc (dawn + d + int k * minute) = k mod 1440"
    by (simp add: minutes_of_day nat_mod_distrib)
  show "ISOWeekday loc (dawn + d + int k * minute) = ISOWeekday loc dawn" if "k < 1440"
  proof -
    have "(dawn + d + int k * minute + loc) div (24 * hour) = (1440 * q + int k) div 1440"
      using quot duration_facts(1) by (simp add: duration_facts(3) zdiv_zmult2_eq)
    also have "\<dots> = (dawn + loc) div (24 * hour)"
      using that q duration_facts(1) by (simp add: duration_facts(3))
    finally show ?thesis
      by (simp add: ISOWeekday_def go_weekday_def civil_day_def)
  qed
qed

lemma due_ahead:
  assumes "since_midnight loc dawn = 0" "0 \<le> d" "d < minute" "i < 1440" "ts_start ts < 1440" "ts \<in> set rows"
  shows "ts \<in> set (due_slots loc (window_at (dawn + d) minute i) offset True rows) \<longleftrightarrow>
    ts_dow ts = ISOWeekday loc dawn \<and> ts_start ts = i + offset \<and> i < 1439"
proof -
  have "i = 1439 \<or> Suc i < 1440"
    using assms(4) by auto
  then show ?thesis
    using assms day_window [OF assms(1-3), of i] day_window(1) [OF assms(1-3), of "Suc i"]
    by (auto simp: due_slots_def slot_band_def)
qed

lemma due_behind:
  assumes "since_midnight loc dawn = 0" "0 \<le> d" "d < minute" "i < 1440" "ts \<in> set rows"
  shows "ts \<in> set (due_slots loc (window_at (dawn + d) minute i) offset False rows) \<longleftrightarrow>
    ts_dow ts = ISOWeekday loc dawn \<and> ts_start ts + offset = i \<and> i < 1439"
proof -
  have "i = 1439 \<or> Suc i < 1440"
    using assms(4) by auto
  then show ?thesis
    using assms day_window [OF assms(1-3), of i] day_window(1) [OF assms(1-3), of "Suc i"]
    by (auto simp: due_slots_def slot_band_def)
qed

lemma filter_upt_eq: "filter (\<lambda>i. i = k) [0..<n] = (if k < n then [k] else [])"
  by (induction n) auto

text \<open>
  Windows and lectures: over the 1440 windows of one minute that begin in a day, a lecture of that
  weekday is due ahead of time in exactly one window, the one \<open>offset\<close> minutes before its start, and
  afterwards in exactly one, \<open>offset\<close> minutes past it. It is in none at all when that
  window begins before midnight, in the last minute of the day or after it: the first lectures of the
  day are never announced, the last ones never chased.
\<close>

theorem slot_due_once:
  assumes "since_midnight loc dawn = 0" "0 \<le> d" "d < minute"
    and "ts \<in> set rows" "ts_start ts < 1440" "ts_dow ts = ISOWeekday loc dawn"
  shows "filter (\<lambda>i. ts \<in> set (due_slots loc (window_at (dawn + d) minute i) offset True rows)) [0..<1440] =
      (if offset \<le> ts_start ts \<and> ts_start ts - offset < 1439 then [ts_start ts - offset] else []) \<and>
    filter (\<lambda>i. ts \<in> set (due_slots loc (window_at (dawn + d) minute i) offset False rows)) [0..<1440] =
      (if ts_start ts + offset < 1439 then [ts_start ts + offset] else [])"
proof -
  have "filter (\<lambda>i. ts \<in> set (due_slots loc (window_at (dawn + d) minute i) offset True rows)) [0..<1440] =
      filter (\<lambda>i. i = (if offset \<le> ts_start ts \<and> ts_start ts - offset < 1439 then ts_start ts - offset else 1440)) [0..<1440]"
    using assms by (intro filter_cong refl) (auto simp: due_ahead)
  moreover have "filter (\<lambda>i. ts \<in> set (due_slots loc (window_at (dawn + d) minute i) offset False rows)) [0..<1440] =
      filter (\<lambda>i. i = (if ts_start ts + offset < 1439 then ts_start ts + offset else 1440)) [0..<1440]"
    using assms by (intro filter_cong refl) (auto simp: due_behind)
  ultimately show ?thesis
    unfolding filter_upt_eq by auto
qed

definition demo_slot :: job_slot where
  "demo_slot = \<lparr>ts_tenant = ''kiu'', ts_unit = ''BIT1101'', ts_offering = None, ts_lecturer = Some ''L1'', ts_room = None,
     ts_venue = Some ''LT1'', ts_dow = 4, ts_start = 480, ts_minutes = Some 120, ts_id = ''slot-1''\<rparr>"

theorem slot_due_once_witness:
  "filter (\<lambda>i. demo_slot \<in> set (due_slots utc (window_at (0 + 7) minute i) remindBeforeMinutes True [demo_slot])) [0..<1440] = [470]"
  using slot_due_once [of utc 0 7 demo_slot "[demo_slot]" remindBeforeMinutes]
  by (simp add: demo_slot_def remindBeforeMinutes_def since_midnight_def utc_def duration_defs
      ISOWeekday_def go_weekday_def civil_day_def epoch_day_def del: upt.simps)

section \<open>At most one message, and none forgotten\<close>

definition claim_key :: "notification \<Rightarrow> string \<times> string \<times> string" where
  "claim_key n = (kind n, subject_key n, subject_date n)"

text \<open>What a run adds: claims with fresh keys, and no more messages than claims.\<close>

definition claims_first :: "('w \<Rightarrow> notification table) \<Rightarrow> ('w \<Rightarrow> 'm list) \<Rightarrow> 'w \<Rightarrow> 'w \<Rightarrow> bool" where
  "claims_first claims sent w w' =
     (\<exists>cs ms. claims w' = claims w @ cs \<and> sent w' = sent w @ ms \<and> length ms \<le> length cs \<and>
        (distinct (map claim_key (claims w)) \<longrightarrow> distinct (map claim_key (claims w'))))"

lemma claims_first_refl [simp]: "claims_first claims sent w w"
  by (simp add: claims_first_def)

lemma claims_first_trans [trans]:
  "claims_first claims sent u v \<Longrightarrow> claims_first claims sent v w \<Longrightarrow> claims_first claims sent u w"
  unfolding claims_first_def by (metis (no_types, opaque_lifting) add_mono append.assoc length_append)

lemma notified_keys: "notified k log \<longleftrightarrow> k \<in> set (map claim_key log)"
  by (auto simp: notified_def claim_key_def)

lemma each_slot_claims_first:
  assumes "\<And>i s w. claims_first claims sent w (snd (f i s w))"
  shows "claims_first claims sent w (snd (each_slot f i ss w))"
proof (induction ss arbitrary: i w)
  case (Cons s ss)
  show ?case
    using assms [of w i s] Cons.IH [of "snd (f i s w)" "Suc i"]
    by (cases "f i s w") (auto split: option.split intro: claims_first_trans)
qed simp

abbreviation lecture_sends :: "job_world \<Rightarrow> job_world \<Rightarrow> bool" where
  "lecture_sends \<equiv> claims_first jw_claims jw_inbox"

lemma notifyLecturer_claims_first: "lecture_sends w (snd (notifyLecturer env i s knd subj body w))"
  by (auto simp: notifyLecturer_def AlreadySent_def select_notification notified_keys claims_first_def Let_def
      split: option.split if_splits) (simp_all add: claim_key_def)

lemma unless_recorded_claims_first: "lecture_sends w (snd (unless_recorded env knd msg i s w))"
  by (simp add: unless_recorded_def notifyLecturer_claims_first split: option.split bool.split)

lemma jobs_claim_first:
  "lecture_sends w (snd (lectureReminder env win w))"
  "lecture_sends w (snd (attendanceMissing env win w))"
  "lecture_sends w (snd (qaEscalation env win w))"
  by (auto simp: lectureReminder_def attendanceMissing_def qaEscalation_def
      notifyLecturer_claims_first unless_recorded_claims_first intro!: each_slot_claims_first split: sum.split)

text \<open>The jobs in any order, over any windows and with any failures, while the rest of the system records lectures.\<close>

inductive lecture_step :: "job_world \<Rightarrow> job_world \<Rightarrow> bool" where
  remind: "lecture_step w (snd (lectureReminder env win w))"
| chase: "lecture_step w (snd (attendanceMissing env win w))"
| escalate: "lecture_step w (snd (qaEscalation env win w))"
| recorded: "lecture_step w (w\<lparr>jw_sessions := ss, jw_logs := ls, jw_slots := ts\<rparr>)"

interpretation lecture_runs: kept_property lecture_step "lecture_sends w0"
proof
  fix w w'
  assume step: "lecture_step w w'" and ok: "lecture_sends w0 w"
  from step have "lecture_sends w w'"
    by cases (use jobs_claim_first in \<open>auto simp: claims_first_def\<close>)
  with ok show "lecture_sends w0 w'"
    by (rule claims_first_trans)
qed

text \<open>
  C28. At most one message per claim: however often the three jobs run, retry their windows, overlap and fail,
  the notification log only grows, its keys (kind, slot and day) stay distinct, and the inboxes receive
  no more messages than keys are claimed.
\<close>

theorem lecture_messages_bounded:
  assumes "lecture_step\<^sup>*\<^sup>* w w'" "distinct (map claim_key (jw_claims w))"
  shows "distinct (map claim_key (jw_claims w')) \<and>
    (\<exists>cs ms. jw_claims w' = jw_claims w @ cs \<and> jw_inbox w' = jw_inbox w @ ms \<and> length ms \<le> length cs)"
  using lecture_runs.reached [OF assms(1), of w] assms(2) by (auto simp: claims_first_def)

section \<open>A run without failures\<close>

definition told :: "string \<Rightarrow> dueSlot \<Rightarrow> job_world \<Rightarrow> bool" where
  "told subj s w =
     list_ex (\<lambda>m. n_unit m = Some (ds_unit s) \<and> n_subject m = subj \<and>
        list_ex (\<lambda>(n, _, u). n = n_id m \<and> u = ds_user s) (jw_recipients w)) (jw_inbox w)"

text \<open>What one slot brings about: no error, the claim, the message when the claim is new; nothing is taken back.\<close>

definition served :: "string \<Rightarrow> string \<Rightarrow> (dueSlot \<Rightarrow> string) \<Rightarrow> dueSlot \<Rightarrow> job_world \<Rightarrow> job_world \<Rightarrow> bool" where
  "served knd today subj s w w' =
     (notified (knd, ds_slot s, today) (jw_claims w') \<and>
      (notified (knd, ds_slot s, today) (jw_claims w) \<or> told (subj s) s w'))"

definition grows :: "job_world \<Rightarrow> job_world \<Rightarrow> bool" where
  "grows w w' =
     (set (jw_inbox w) \<subseteq> set (jw_inbox w') \<and> set (jw_recipients w) \<subseteq> set (jw_recipients w') \<and>
      set (jw_claims w) \<subseteq> set (jw_claims w') \<and> jw_sessions w' = jw_sessions w \<and> jw_logs w' = jw_logs w)"

lemma grows_refl [simp]: "grows w w"
  by (simp add: grows_def)

lemma grows_trans: "grows u v \<Longrightarrow> grows v w \<Longrightarrow> grows u w"
  by (auto simp: grows_def)

lemma told_mono: "grows w w' \<Longrightarrow> told subj s w \<Longrightarrow> told subj s w'"
  unfolding told_def grows_def list_ex_iff by blast

lemma served_mono: "grows w w' \<Longrightarrow> served knd today subj s u w \<Longrightarrow> served knd today subj s u w'"
  unfolding served_def by (auto simp: told_mono) (auto simp: grows_def notified_def)

lemma recorded_mono: "grows w w' \<Longrightarrow> attendanceRecorded env i s w' = attendanceRecorded env i s w"
  unfolding grows_def attendanceRecorded_def by (elim conjE) (simp only:)

lemma same_day:
  "Today loc (now - since_midnight loc now) = Today loc now"
proof -
  have "(now - since_midnight loc now + loc) div (24 * hour) = (now + loc) div (24 * hour)"
  proof -
    have "now - since_midnight loc now + loc = (now + loc) div (24 * hour) * (24 * hour)"
      by (simp only: since_midnight_def minus_mod_eq_div_mult [symmetric])
    then show ?thesis
      by (simp add: duration_defs)
  qed
  then show ?thesis
    by (simp add: Today_def civil_date_def civil_day_def)
qed

lemma today_parses:
  assumes "0 \<le> epoch_day + (now + loc) div (24 * hour)" and "year (civil_date loc now) < 10000"
  shows "ParseDate loc (Today loc now) = Some (now - since_midnight loc now)"
proof -
  have "parse_ymd (Today loc now) = Some (civil_date loc now)"
    unfolding Today_def using assms(2) by (intro parse_format_date) (simp_all add: civil_date_def date_of_day_valid)
  then show ?thesis
    using at_civil_now [OF assms(1)] by (simp add: ParseDate_def)
qed

definition no_failure :: "job_env \<Rightarrow> bool" where
  "no_failure env =
     ((\<forall>c i. \<not> je_failing env c i) \<and>
      ParseDate (je_zone env) (Today (je_zone env) (je_now env)) = Some (je_now env - since_midnight (je_zone env) (je_now env)))"

lemma notifyLecturer_serves:
  assumes "no_failure env"
  shows "fst (notifyLecturer env i s knd (subj s) body w) = None"
    and "served knd (Today (je_zone env) (je_now env)) subj s w (snd (notifyLecturer env i s knd (subj s) body w))"
    and "grows w (snd (notifyLecturer env i s knd (subj s) body w))"
    and "ds_slot s' \<noteq> ds_slot s \<Longrightarrow>
      notified (knd, ds_slot s', d) (jw_claims (snd (notifyLecturer env i s knd (subj s) body w))) \<longleftrightarrow> notified (knd, ds_slot s', d) (jw_claims w)"
  using assms
  by (auto simp: notifyLecturer_def no_failure_def same_day AlreadySent_def select_notification served_def grows_def
      told_def notified_keys Let_def claim_key_def list_ex_iff split: if_splits)

text \<open>The loop: slots with different identifiers do not hide each other's claims.\<close>

lemma each_slot_serves:
  assumes f: "\<And>i s w. fst (f i s w) = None" "\<And>i s w. grows w (snd (f i s w))"
      "\<And>i s w. R s w \<or> served knd today subj s w (snd (f i s w))"
      "\<And>i s (s' :: dueSlot) w. ds_slot s' \<noteq> ds_slot s \<Longrightarrow>
         notified (knd, ds_slot s', today) (jw_claims (snd (f i s w))) \<longleftrightarrow> notified (knd, ds_slot s', today) (jw_claims w)"
    and R: "\<And>s w w'. grows w w' \<Longrightarrow> R s w' = R s w"
    and "distinct (map ds_slot ss)"
  shows "fst (each_slot f i ss w) = None \<and> grows w (snd (each_slot f i ss w)) \<and>
    (\<forall>s \<in> set ss. R s w \<or> served knd today subj s w (snd (each_slot f i ss w)))"
  using assms(6)
proof (induction ss arbitrary: i w)
  case (Cons h ss)
  define v where "v = snd (f i h w)"
  define u where "u = snd (each_slot f (Suc i) ss v)"
  have step: "each_slot f i (h # ss) w = each_slot f (Suc i) ss v"
    using f(1) [of i h w] by (cases "f i h w") (simp add: v_def)
  have IH: "fst (each_slot f (Suc i) ss v) = None" "grows v u" "\<forall>s \<in> set ss. R s v \<or> served knd today subj s v u"
    using Cons.IH [of "Suc i" v] Cons.prems by (simp_all add: u_def)
  have wv: "grows w v"
    using f(2) by (simp add: v_def)
  have "R h w \<or> served knd today subj h w u"
    using f(3) [of h w i] served_mono [OF IH(2)] by (auto simp: v_def)
  moreover have "R s w \<or> served knd today subj s w u" if "s \<in> set ss" for s
  proof -
    have "ds_slot s \<noteq> ds_slot h"
      using Cons.prems imageI [OF that, of ds_slot] by auto
    then show ?thesis
      using IH(3) that f(4) [of s h i w] R [OF wv, of s] by (auto simp: served_def v_def)
  qed
  ultimately show ?case
    using IH(1,2) wv grows_trans step by (auto simp: u_def)
qed simp

lemma recorded_answers: "no_failure env \<Longrightarrow> \<exists>b. \<forall>i. attendanceRecorded env i s w = Some b"
  unfolding attendanceRecorded_def no_failure_def by (simp only: Let_def if_False) blast

lemma unless_recorded_serves:
  assumes "no_failure env"
  shows "fst (unless_recorded env knd msg i s w) = None"
    and "grows w (snd (unless_recorded env knd msg i s w))"
    and "attendanceRecorded env 0 s w = Some True \<or>
      served knd (Today (je_zone env) (je_now env)) (fst \<circ> msg) s w (snd (unless_recorded env knd msg i s w))"
    and "ds_slot s' \<noteq> ds_slot s \<Longrightarrow>
      notified (knd, ds_slot s', d) (jw_claims (snd (unless_recorded env knd msg i s w))) \<longleftrightarrow> notified (knd, ds_slot s', d) (jw_claims w)"
proof -
  let ?u = "unless_recorded env knd msg i s w"
  note notify = notifyLecturer_serves [OF assms, where i = i and s = s and knd = knd and subj = "fst \<circ> msg" and body = "snd (msg s)" and w = w]
  obtain b where b: "\<forall>i. attendanceRecorded env i s w = Some b"
    using recorded_answers [OF assms] by blast
  then have u: "?u = (if b then (None, w) else notifyLecturer env i s knd ((fst \<circ> msg) s) (snd (msg s)) w)"
    by (simp add: unless_recorded_def split: bool.split)
  show "fst ?u = None" "grows w (snd ?u)"
    "attendanceRecorded env 0 s w = Some True \<or> served knd (Today (je_zone env) (je_now env)) (fst \<circ> msg) s w (snd ?u)"
    using notify(1-3) b by (simp_all add: u del: comp_apply)
  show "notified (knd, ds_slot s', d) (jw_claims (snd ?u)) \<longleftrightarrow> notified (knd, ds_slot s', d) (jw_claims w)"
    if "ds_slot s' \<noteq> ds_slot s"
    using notify(4) [OF that] by (simp add: u del: comp_apply)
qed

text \<open>
  C29. Nobody is forgotten: a run of \<open>attendanceMissing\<close> whose calls all succeed ends without an error, and
  every lecture due in its window is afterwards either on record, by a session or a tick of today, or claimed in the log;
  the lecturer of a lecture that was neither on record nor claimed before has the message in their inbox.
\<close>

theorem missing_lectures_chased:
  assumes ok: "\<forall>c i. \<not> je_failing env c i"
    and year: "0 \<le> epoch_day + (je_now env + je_zone env) div (24 * hour)" "year (civil_date (je_zone env) (je_now env)) < 10000"
    and due: "slotsStartedAgo env win chaseAfterMinutes w = Inr slots" "distinct (map ds_slot slots)"
    and run: "attendanceMissing env win w = (err, w')"
    and s: "s \<in> set slots" and today: "today = Today (je_zone env) (je_now env)"
  shows "err = None \<and>
    (attendanceRecorded env 0 s w = Some True \<or>
     notified (KindAttendanceMissing, ds_slot s, today) (jw_claims w') \<and>
     (notified (KindAttendanceMissing, ds_slot s, today) (jw_claims w) \<or> told (fst (missing_text s)) s w'))"
proof -
  have "no_failure env"
    using ok year today_parses by (simp add: no_failure_def)
  note serves = unless_recorded_serves [OF this, where knd = KindAttendanceMissing and msg = missing_text]
  have "each_slot (unless_recorded env KindAttendanceMissing missing_text) 0 slots w = (err, w')"
    using run due(1) by (simp add: attendanceMissing_def)
  moreover have "fst (each_slot (unless_recorded env KindAttendanceMissing missing_text) 0 slots w) = None \<and>
      grows w (snd (each_slot (unless_recorded env KindAttendanceMissing missing_text) 0 slots w)) \<and>
      (\<forall>s \<in> set slots. attendanceRecorded env 0 s w = Some True \<or>
         served KindAttendanceMissing today (fst \<circ> missing_text) s w
           (snd (each_slot (unless_recorded env KindAttendanceMissing missing_text) 0 slots w)))"
    unfolding today by (rule each_slot_serves [OF serves _ due(2)]) (simp_all add: recorded_mono)
  ultimately show ?thesis
    using s by (auto simp: served_def)
qed

definition demo_env :: job_env where
  "demo_env = \<lparr>je_now = 490 * minute, je_zone = utc, je_failing = (\<lambda>_ _. False), je_fresh = itoa\<rparr>"

definition demo_win :: Window where
  "demo_win = \<lparr>From = 490 * minute, To = 491 * minute\<rparr>"

definition demo_jobs :: job_world where
  "demo_jobs = \<lparr>jw_slots = [demo_slot],
     jw_units = [\<lparr>cu_id = ''BIT1101'', cu_tenant = ''kiu'', cu_name = Some ''Logic'', cu_course = None, cu_year = None, cu_semester = None\<rparr>],
     jw_lecturers = [\<lparr>lec_id = ''L1'', lec_tenant = ''kiu'', lec_staff = None, lec_name = None, lec_department = None, lec_user = Some ''u7''\<rparr>],
     jw_assignments = [], jw_sessions = [], jw_logs = [], jw_claims = [], jw_inbox = [], jw_recipients = []\<rparr>"

definition demo_due :: dueSlot where
  "demo_due = \<lparr>ds_tenant = ''kiu'', ds_slot = ''slot-1'', ds_unit = ''BIT1101'', ds_unit_name = ''Logic'', ds_course = [], ds_room = ''LT1'',
     ds_start = ''08:00'', ds_user = ''u7'', ds_name = [], ds_staff = []\<rparr>"

lemma demo_due_view: "due_view demo_jobs demo_slot = Some demo_due"
  by code_simp

lemma demo_minutes:
  "MinutesSinceMidnight utc (490 * minute) = 490" "MinutesSinceMidnight utc (491 * minute) = 491"
  "ISOWeekday utc (490 * minute) = 4" "civil_day utc (490 * minute) = 719528"
  by (simp_all add: minutes_of_day utc_def duration_defs ISOWeekday_def go_weekday_def civil_day_def epoch_day_def)

lemma demo_slots: "slotsStartedAgo demo_env demo_win chaseAfterMinutes demo_jobs = Inr [demo_due]"
proof -
  have "due_slots utc demo_win 10 False [demo_slot] = [demo_slot]"
    by (simp add: due_slots_def slot_band_def demo_win_def demo_minutes) (simp add: demo_slot_def)
  moreover have "slot_band utc demo_win 10 False = (480, 481)"
    by (simp add: slot_band_def demo_win_def demo_minutes)
  ultimately show ?thesis
    using demo_due_view
    by (simp add: slotsStartedAgo_def querySlots_def demo_env_def chaseAfterMinutes_def demo_jobs_def List.map_filter_def)
qed

lemma demo_day: "civil_date utc (490 * minute) = \<lparr>year = 1970, month = 1, day = 1\<rparr>"
  by (simp add: civil_date_def demo_minutes date_of_day_def find_year.simps days_before_year_def month_lengths_def leap_def)

lemma demo_today: "Today utc (490 * minute) = ''1970-01-01''"
  unfolding Today_def demo_day by code_simp

lemma demo_unrecorded: "attendanceRecorded demo_env 0 demo_due demo_jobs = Some False"
  by (simp add: attendanceRecorded_def demo_env_def demo_jobs_def)

theorem missing_lectures_chased_witness:
  "notified (KindAttendanceMissing, ''slot-1'', ''1970-01-01'') (jw_claims (snd (attendanceMissing demo_env demo_win demo_jobs)))"
  using missing_lectures_chased [of demo_env demo_win demo_jobs "[demo_due]" "fst (attendanceMissing demo_env demo_win demo_jobs)"
      "snd (attendanceMissing demo_env demo_win demo_jobs)" demo_due "''1970-01-01''"] demo_slots demo_unrecorded demo_day demo_today
  by (simp add: demo_env_def demo_due_def) (simp add: utc_def duration_defs epoch_day_def demo_jobs_def notified_def)

theorem lecture_messages_bounded_witness:
  "distinct (map claim_key (jw_claims (snd (attendanceMissing demo_env demo_win demo_jobs))))"
proof -
  have "lecture_step\<^sup>*\<^sup>* demo_jobs (snd (attendanceMissing demo_env demo_win demo_jobs))"
    by (intro r_into_rtranclp lecture_step.chase)
  from lecture_messages_bounded [OF this] show ?thesis
    by (simp add: demo_jobs_def)
qed

end
