(* ===== verification/Employee_Jobs.thy ===== *)
theory Employee_Jobs
  imports Lecture_Jobs
begin

text \<open>
  The alerts to the staff without accounts (\<open>jobs/employees.go\<close>): what an imported sheet says of a day, and the reminder
  to clock out at five. The messages leave through the notification service; here they are
  the list of what was handed to it, whether or not it could deliver.

  Texts of the sheet are the nullable columns of \<open>employee_attendance_days\<close>; a date is its \<open>YYYY-MM-DD\<close> rendering. A query without
  an order reads its tables in storage order.
\<close>

section \<open>State\<close>

record employee_day =
  ed_tenant :: string
  ed_ac :: string
  ed_name :: string
  ed_department :: "string option"
  ed_date :: string
  ed_on_duty :: "string option"
  ed_off_duty :: "string option"
  ed_clock_in :: "string option"
  ed_clock_out :: "string option"
  ed_late :: bool
  ed_early :: bool
  ed_absent :: bool
  ed_imported :: instant

record employee_contact =
  em_staff :: string
  em_email :: "string option"
  em_phone :: "string option"

record employeeAlert =
  ea_tenant :: string
  ea_tenant_name :: string
  ea_ac :: string
  ea_name :: string
  ea_email :: string
  ea_phone :: string
  ea_department :: string
  ea_date :: string
  ea_on_duty :: string
  ea_off_duty :: string
  ea_clock_in :: string
  ea_clock_out :: string

record direct_message =
  dm_tenant :: string
  dm_subject :: string
  dm_message :: string
  dm_name :: string
  dm_email :: string
  dm_phone :: string
  dm_department :: string

record employee_world =
  ew_days :: "employee_day table"
  ew_tenants :: "string option list"
  ew_registry :: "employee_contact table"
  ew_claims :: "notification table"
  ew_posted :: "direct_message list"

record employee_env =
  ee_now :: instant
  ee_zone :: location
  ee_current_date :: string
  ee_query_fails :: bool
  ee_claim_fails :: "nat \<Rightarrow> bool"

definition KindEmployeeLate :: string where "KindEmployeeLate = ''EMPLOYEE_LATE''"
definition KindEmployeeEarlyOut :: string where "KindEmployeeEarlyOut = ''EMPLOYEE_EARLY_OUT''"
definition KindEmployeeNoCheckin :: string where "KindEmployeeNoCheckin = ''EMPLOYEE_NO_CHECKIN''"
definition KindEmployeeCheckout :: string where "KindEmployeeCheckout = ''EMPLOYEE_CHECKOUT_REMINDER''"
definition checkoutReminderHHMM :: string where "checkoutReminderHHMM = ''17:00''"
definition employeeAlertBatchSize :: nat where "employeeAlertBatchSize = 500"

section \<open>Sending\<close>

definition postDirectNotification :: "employeeAlert \<Rightarrow> string \<Rightarrow> string \<Rightarrow> employee_world \<Rightarrow> employee_world" where
  "postDirectNotification a subject body w =
     w\<lparr>ew_posted := ew_posted w @ [\<lparr>dm_tenant = ea_tenant_name a, dm_subject = subject, dm_message = body, dm_name = ea_name a,
         dm_email = ea_email a, dm_phone = ea_phone a, dm_department = ea_department a\<rparr>]\<rparr>"

text \<open>A date that does not parse is replaced by the present day.\<close>

definition alertEmployee ::
  "employee_env \<Rightarrow> nat \<Rightarrow> employeeAlert \<Rightarrow> string \<Rightarrow> string \<Rightarrow> string \<Rightarrow> employee_world \<Rightarrow> string option \<times> employee_world" where
  "alertEmployee env i a knd subject body w =
     (let d = (case ParseDate (ee_zone env) (ea_date a) of None \<Rightarrow> ee_now env | Some d \<Rightarrow> d) in
      case AlreadySent (ee_claim_fails env i) knd (ea_ac a) (Today (ee_zone env) d) [] ''EMAIL,WHATSAPP'' (ew_claims w) of
        (Inl _, claims) \<Rightarrow> (Some ''claim'', w\<lparr>ew_claims := claims\<rparr>)
      | (Inr True, claims) \<Rightarrow> (None, w\<lparr>ew_claims := claims\<rparr>)
      | (Inr False, claims) \<Rightarrow> (None, postDirectNotification a subject body (w\<lparr>ew_claims := claims\<rparr>)))"

section \<open>The exceptions of an imported sheet\<close>

definition same_badge :: "employee_day \<Rightarrow> employee_contact \<Rightarrow> bool" where
  "same_badge d e = (btrim (to_lower (em_staff e)) = btrim (to_lower (ed_ac d)))"

text \<open>The left join with the registry keeps a day without an entry, with no contact.\<close>

definition contacts :: "employee_world \<Rightarrow> employee_day \<Rightarrow> (string \<times> string) list" where
  "contacts w d =
     (case filter (same_badge d) (ew_registry w) of
        [] \<Rightarrow> [([], [])]
      | es \<Rightarrow> map (\<lambda>e. (or_empty (em_email e), or_empty (em_phone e))) es)"

definition alert_of :: "employee_day \<Rightarrow> string option \<Rightarrow> string \<times> string \<Rightarrow> employeeAlert" where
  "alert_of d t c =
     \<lparr>ea_tenant = ed_tenant d, ea_tenant_name = or_empty t, ea_ac = ed_ac d, ea_name = ed_name d, ea_email = fst c, ea_phone = snd c,
      ea_department = or_empty (ed_department d), ea_date = ed_date d, ea_on_duty = or_empty (ed_on_duty d), ea_off_duty = or_empty (ed_off_duty d),
      ea_clock_in = or_empty (ed_clock_in d), ea_clock_out = or_empty (ed_clock_out d)\<rparr>"

definition reachable_days :: "(employee_day \<Rightarrow> bool) \<Rightarrow> employee_world \<Rightarrow> (employee_day \<times> employeeAlert) list" where
  "reachable_days p w =
     take employeeAlertBatchSize
       (concat (map (\<lambda>d. concat (map (\<lambda>t. map (\<lambda>c. (d, alert_of d t c))
           (filter (\<lambda>c. fst c \<noteq> [] \<or> snd c \<noteq> []) (contacts w d))) (ew_tenants w))) (filter p (ew_days w))))"

definition absent_text :: "employeeAlert \<Rightarrow> string" where
  "absent_text a = ''Our records show no check-in for you on '' @ ea_date a
     @ ''. If you were at work, please see HR so the record can be corrected.''"

definition late_text :: "employeeAlert \<Rightarrow> string" where
  "late_text a = ''You checked in at '' @ ea_clock_in a @ '' on '' @ ea_date a @ '', after your '' @ ea_on_duty a @ '' start.''"

definition early_text :: "employeeAlert \<Rightarrow> string" where
  "early_text a = ''You checked out at '' @ ea_clock_out a @ '' on '' @ ea_date a @ '', before your '' @ ea_off_duty a @ '' finish.''"

definition checkout_text :: "employeeAlert \<Rightarrow> string" where
  "checkout_text a = ''Your shift ends at '' @ ea_off_duty a @ ''. Please remember to check out before you leave'' @ em_dash
     @ ''an unclosed day is recorded as incomplete.''"

text \<open>One row of the batch: absence silences lateness, an early departure is told beside either.\<close>

definition arrival_alert :: "employee_env \<Rightarrow> nat \<Rightarrow> employee_day \<Rightarrow> employeeAlert \<Rightarrow> employee_world \<Rightarrow> string option \<times> employee_world" where
  "arrival_alert env i d a w =
     (if ed_absent d then alertEmployee env i a KindEmployeeNoCheckin ''No check-in recorded'' (absent_text a) w
      else if ed_late d then alertEmployee env i a KindEmployeeLate ''Late check-in recorded'' (late_text a) w
      else (None, w))"

fun exception_row :: "employee_env \<Rightarrow> nat \<Rightarrow> employee_day \<times> employeeAlert \<Rightarrow> employee_world \<Rightarrow> string option \<times> employee_world" where
  "exception_row env i (d, a) w =
     (case arrival_alert env (2 * i) d a w of
        (Some err, w) \<Rightarrow> (Some err, w)
      | (None, w) \<Rightarrow>
          if ed_early d then alertEmployee env (2 * i + 1) a KindEmployeeEarlyOut ''Early check-out recorded'' (early_text a) w
          else (None, w))"

definition exceptional :: "Window \<Rightarrow> employee_day \<Rightarrow> bool" where
  "exceptional win d = (From win \<le> ed_imported d \<and> ed_imported d < To win \<and> (ed_late d \<or> ed_early d \<or> ed_absent d))"

definition employeeExceptions :: "employee_env \<Rightarrow> Window \<Rightarrow> employee_world \<Rightarrow> string option \<times> employee_world" where
  "employeeExceptions env win w =
     (if ee_query_fails env then (Some ''employee exceptions'', w)
      else each_slot (exception_row env) 0 (reachable_days (exceptional win) w) w)"

section \<open>The reminder at five\<close>

text \<open>\<open>fmt.Sscanf\<close> with \<open>%d:%d\<close>: an optional sign and digits, a colon, and the same again; what follows is not read.\<close>

definition scan_int :: "string \<Rightarrow> (int \<times> string) option" where
  "scan_int s =
     (let s = dropWhile (\<lambda>c. c = CHR '' '') s;
          (neg, t) = (case s of [] \<Rightarrow> (False, []) | c # r \<Rightarrow> if c = CHR ''-'' then (True, r) else if c = CHR ''+'' then (False, r) else (False, s));
          ds = takeWhile is_digit t
      in if ds = [] then None
         else Some ((if neg then - 1 else 1) * int (decimal_value ds), dropWhile is_digit t))"

definition sscanf_hm :: "string \<Rightarrow> (int \<times> int) option" where
  "sscanf_hm s =
     (case scan_int s of
        Some (h, c # r) \<Rightarrow> if c = CHR '':'' then map_option (\<lambda>(m, _). (h, m)) (scan_int r) else None
      | _ \<Rightarrow> None)"

text \<open>\<open>time.Date\<close> on the day of the window's beginning; hours and minutes out of range carry over.\<close>

definition hhmmWithin :: "location \<Rightarrow> Window \<Rightarrow> string \<Rightarrow> instant option" where
  "hhmmWithin loc win hhmm =
     (case sscanf_hm hhmm of
        None \<Rightarrow> None
      | Some (h, m) \<Rightarrow>
          let target = From win - since_midnight loc (From win) + h * hour + m * minute in
          if From win \<le> target \<and> target < To win then Some target else None)"

definition still_in :: "employee_env \<Rightarrow> employee_day \<Rightarrow> bool" where
  "still_in env d = (ed_date d = ee_current_date env \<and> or_empty (ed_clock_in d) \<noteq> [] \<and> or_empty (ed_clock_out d) = [])"

definition checkoutReminder :: "employee_env \<Rightarrow> Window \<Rightarrow> employee_world \<Rightarrow> string option \<times> employee_world" where
  "checkoutReminder env win w =
     (if hhmmWithin (ee_zone env) win checkoutReminderHHMM = None then (None, w)
      else if ee_query_fails env then (Some ''checkout reminder'', w)
      else each_slot (\<lambda>i (_, a) w. alertEmployee env i a KindEmployeeCheckout ''Remember to check out'' (checkout_text a) w) 0
             (reachable_days (still_in env) w) w)"

definition RegisterEmployeeJobs :: "employee_env \<Rightarrow> employee_world Scheduler \<Rightarrow> employee_world Scheduler" where
  "RegisterEmployeeJobs env s =
     Register \<lparr>Name = ''employee_checkout_reminder'', Every = 5 * minute, MaxCatchUp = 2 * 60 * minute, Run = checkoutReminder env\<rparr>
     (Register \<lparr>Name = ''employee_exceptions'', Every = 5 * minute, MaxCatchUp = 12 * 60 * minute, Run = employeeExceptions env\<rparr> s)"

section \<open>At most one message per claim\<close>

abbreviation staff_sends :: "employee_world \<Rightarrow> employee_world \<Rightarrow> bool" where
  "staff_sends \<equiv> claims_first ew_claims ew_posted"

lemma alertEmployee_sends: "staff_sends w (snd (alertEmployee env i a knd subj body w))"
  by (auto simp: alertEmployee_def AlreadySent_def select_notification notified_keys claims_first_def Let_def
      postDirectNotification_def split: if_splits) (simp_all add: claim_key_def)

lemma exception_row_sends: "staff_sends w (snd (exception_row env i p w))"
proof -
  obtain d a where p: "p = (d, a)"
    by (cases p)
  have "staff_sends w (snd (arrival_alert env (2 * i) d a w))"
    by (simp add: arrival_alert_def alertEmployee_sends)
  then show ?thesis
    unfolding p using alertEmployee_sends claims_first_trans
    by (fastforce split: prod.split option.split)
qed

lemma employee_jobs_send:
  "staff_sends w (snd (employeeExceptions env win w))"
  "staff_sends w (snd (checkoutReminder env win w))"
  by (auto simp: employeeExceptions_def checkoutReminder_def exception_row_sends alertEmployee_sends
      simp del: exception_row.simps intro!: each_slot_claims_first)

inductive staff_step :: "employee_world \<Rightarrow> employee_world \<Rightarrow> bool" where
  exceptions: "staff_step w (snd (employeeExceptions env win w))"
| checkout: "staff_step w (snd (checkoutReminder env win w))"
| imported: "staff_step w (w\<lparr>ew_days := ds, ew_registry := es\<rparr>)"

interpretation staff_runs: kept_property staff_step "staff_sends w0"
proof
  fix w w'
  assume step: "staff_step w w'" and ok: "staff_sends w0 w"
  from step have "staff_sends w w'"
    by cases (use employee_jobs_send in \<open>auto simp: claims_first_def\<close>)
  with ok show "staff_sends w0 w'"
    by (rule claims_first_trans)
qed

text \<open>
  However often a sheet is uploaded again and the two jobs run over it, the notification log keeps one entry per kind, badge
  and day, and no more messages are handed to the notification service than entries were added.
\<close>

theorem staff_messages_bounded:
  assumes "staff_step\<^sup>*\<^sup>* w w'" "distinct (map claim_key (ew_claims w))"
  shows "distinct (map claim_key (ew_claims w')) \<and>
    (\<exists>cs ms. ew_claims w' = ew_claims w @ cs \<and> ew_posted w' = ew_posted w @ ms \<and> length ms \<le> length cs)"
  using staff_runs.reached [OF assms(1), of w] assms(2) by (auto simp: claims_first_def)

definition demo_staff :: employee_world where
  "demo_staff = \<lparr>ew_days = [], ew_tenants = [Some ''KIU''], ew_registry = [], ew_claims = [], ew_posted = []\<rparr>"

definition demo_staff_env :: employee_env where
  "demo_staff_env = \<lparr>ee_now = 0, ee_zone = utc, ee_current_date = ''1970-01-01'', ee_query_fails = False, ee_claim_fails = (\<lambda>_. False)\<rparr>"

definition demo_staff_day :: employee_day where
  "demo_staff_day = \<lparr>ed_tenant = ''kiu'', ed_ac = ''101'', ed_name = ''A'', ed_department = None, ed_date = ''1970-01-01'',
     ed_on_duty = Some ''08:00'', ed_off_duty = Some ''17:00'', ed_clock_in = Some ''08:40'', ed_clock_out = Some ''16:00'',
     ed_late = True, ed_early = True, ed_absent = False, ed_imported = 5\<rparr>"

theorem staff_messages_bounded_witness:
  "\<exists>cs ms. ew_claims (snd (employeeExceptions demo_staff_env \<lparr>From = 0, To = 10\<rparr>
      (demo_staff\<lparr>ew_days := [demo_staff_day], ew_registry := [\<lparr>em_staff = ''101'', em_email = Some ''a@kiu'', em_phone = None\<rparr>]\<rparr>))) = cs \<and>
    ew_posted (snd (employeeExceptions demo_staff_env \<lparr>From = 0, To = 10\<rparr>
      (demo_staff\<lparr>ew_days := [demo_staff_day], ew_registry := [\<lparr>em_staff = ''101'', em_email = Some ''a@kiu'', em_phone = None\<rparr>]\<rparr>))) = ms \<and>
    length ms \<le> length cs"
proof -
  have "staff_step\<^sup>*\<^sup>* demo_staff (snd (employeeExceptions demo_staff_env \<lparr>From = 0, To = 10\<rparr>
      (demo_staff\<lparr>ew_days := [demo_staff_day], ew_registry := [\<lparr>em_staff = ''101'', em_email = Some ''a@kiu'', em_phone = None\<rparr>]\<rparr>)))"
    by (rule rtranclp.rtrancl_into_rtrancl, rule r_into_rtranclp, rule staff_step.imported, rule staff_step.exceptions)
  from staff_messages_bounded [OF this] show ?thesis
    by (simp add: demo_staff_def)
qed

section \<open>Once a day\<close>

lemma checkout_time: "sscanf_hm checkoutReminderHHMM = Some (17, 0)"
  by code_simp

lemma midnight_of:
  assumes "t - since_midnight loc t \<le> u" "u \<le> t"
  shows "u - since_midnight loc u = t - since_midnight loc t"
proof -
  let ?D = "24 * hour"
  have pos: "0 < ?D"
    by (simp add: duration_defs)
  define q where "q = (t + loc) div ?D"
  have cut: "x - since_midnight loc x = (x + loc) div ?D * ?D - loc" for x
    by (simp only: since_midnight_def minus_mod_eq_div_mult [symmetric])
  have t: "t - since_midnight loc t = q * ?D - loc"
    by (simp add: cut q_def)
  have "since_midnight loc t < ?D"
    using pos by (simp add: since_midnight_def)
  then have "(u + loc) div ?D = q"
    using assms t pos by (intro int_div_pos_eq [of _ _ _ "u + loc - q * ?D"]) auto
  then show ?thesis
    by (simp add: cut q_def)
qed


text \<open>
  The reminder fires once a day: when the windows of the job tile time from some start, each no longer than seventeen hours, exactly
  one of them contains the five o'clock of a given day, and it is found there whenever in the
  day the window began, so a late sweep finds it too.
\<close>

theorem checkout_reminder_once:
  assumes "0 < every" "every \<le> 17 * hour" "start \<le> five" "since_midnight loc five = 17 * hour"
  shows "\<exists>!i. hhmmWithin loc (window_at start every i) checkoutReminderHHMM = Some five"
proof -
  have hit: "hhmmWithin loc win checkoutReminderHHMM = Some five \<longleftrightarrow>
      five = From win - since_midnight loc (From win) + 17 * hour \<and> From win \<le> five \<and> five < To win" for win
    by (auto simp: hhmmWithin_def checkout_time Let_def)
  define n where "n = nat ((five - start) div every)"
  have n: "int n = (five - start) div every"
    using assms(1,3) by (simp add: n_def pos_imp_zdiv_nonneg_iff)
  have bounds: "From (window_at start every i) \<le> five \<and> five < To (window_at start every i) \<longleftrightarrow> i = n" for i
  proof -
    have "(five - start) div every = int i" if "int i * every \<le> five - start" "five - start < int i * every + every"
      using that by (intro int_div_pos_eq [of _ _ _ "five - start - int i * every"]) auto
    moreover have "int n * every \<le> five - start" "five - start < int n * every + every"
      using pos_mod_sign [OF assms(1), of "five - start"] pos_mod_bound [OF assms(1), of "five - start"]
        div_mult_mod_eq [of "five - start" every] unfolding n by linarith+
    ultimately show ?thesis
      using n by (auto simp: algebra_simps)
  qed
  have near: "five - since_midnight loc five \<le> From (window_at start every n)"
    using bounds [of n] assms(2,4) by (simp add: algebra_simps)
  have "five = From (window_at start every n) - since_midnight loc (From (window_at start every n)) + 17 * hour"
    using midnight_of [OF near] bounds [of n] assms(4) by simp
  with bounds hit show ?thesis
    by (intro ex1I [of _ n]) blast+
qed

theorem checkout_reminder_once_witness:
  "\<exists>!i. hhmmWithin utc (window_at (16 * hour + 59 * minute) (5 * minute) i) checkoutReminderHHMM = Some (17 * hour)"
  using checkout_reminder_once [of "5 * minute" "16 * hour + 59 * minute" "17 * hour" utc]
  by (simp add: duration_defs since_midnight_def utc_def)

end
