(* ===== verification/Standby.thy ===== *)
theory Standby
  imports Auth_Service Clock_Policy
begin

text \<open>
  The emergency standby of a coordinator (\<open>handlers/coordinator_standby.go\<close>): a coordinator names a student of the own cohort, the
  student trades the code for a token of the coordinator until the day ends. The token itself is minted by the
  auth-service; the call crosses to the model of its handler, so the two lifetimes meet in one theorem.

  A request runs against one \<open>standby_env\<close>: the clock is read more than once in a request and the readings
  are separate fields; random bytes and database errors are given per attempt. A session body is \<open>None\<close> when it does not decode.
\<close>

section \<open>State\<close>

record delegation =
  dl_id :: string
  dl_tenant :: string
  dl_offering :: string
  dl_coordinator :: string
  dl_deputy :: string
  dl_deputy_name :: string
  dl_code :: string
  dl_expires :: instant
  dl_revoked :: bool
  dl_created :: instant
  dl_last_used :: "instant option"

record cohort_student =
  cs_id :: string
  cs_tenant :: string
  cs_offering :: "string option"
  cs_status :: string
  cs_name :: string

record standby_db =
  sb_delegations :: "delegation table"
  sb_offerings :: "(string \<times> string \<times> string option) list"
  sb_students :: "cohort_student table"

datatype standby_call = SOffering | SStudent | SRevoke | SList | SLogin | SUsed

record standby_env =
  sb_tenant :: string
  sb_user :: string
  sb_zone :: location
  sb_now :: instant
  sb_later :: instant
  sb_failing :: "standby_call \<Rightarrow> bool"
  sb_insert_error :: "nat \<Rightarrow> string option"
  sb_random :: "nat \<Rightarrow> bytes"
  sb_fresh :: "nat \<Rightarrow> string"

section \<open>Issuing\<close>

definition standby_alphabet :: string where
  "standby_alphabet = ''ABCDEFGHJKLMNPQRSTUVWXYZ23456789''"

definition randStandbyCode :: "bytes \<Rightarrow> string" where
  "randStandbyCode b = map (\<lambda>x. standby_alphabet ! (unat x mod length standby_alphabet)) (take 8 b)"

text \<open>The insert of one attempt; the message of a taken code names the constraint of the table.\<close>

definition insert_delegation :: "standby_env \<Rightarrow> nat \<Rightarrow> delegation \<Rightarrow> standby_db \<Rightarrow> string + standby_db" where
  "insert_delegation env attempt row s =
     (case sb_insert_error env attempt of
        Some e \<Rightarrow> Inl e
      | None \<Rightarrow>
          if list_ex (\<lambda>d. dl_tenant d = dl_tenant row \<and> dl_code d = dl_code row) (sb_delegations s)
          then Inl ''duplicate key value violates unique constraint coordinator_delegations_tenant_id_code_key''
          else Inr (s\<lparr>sb_delegations := sb_delegations s @ [row]\<rparr>))"

text \<open>Five attempts at a code; only an error that names the table is tried again.\<close>

fun issue_loop :: "standby_env \<Rightarrow> nat \<Rightarrow> nat \<Rightarrow> (string \<Rightarrow> delegation) \<Rightarrow> standby_db \<Rightarrow> string + string \<times> standby_db" where
  "issue_loop env 0 attempt mk s = Inl ''no attempt''"
| "issue_loop env (Suc n) attempt mk s =
     (let code = randStandbyCode (sb_random env attempt) in
      case insert_delegation env attempt (mk code) s of
        Inr s' \<Rightarrow> Inr (code, s')
      | Inl e \<Rightarrow> if n = 0 \<or> \<not> contains e ''coordinator_delegations'' then Inl e else issue_loop env n (Suc attempt) mk s)"

definition end_of_day :: "location \<Rightarrow> instant \<Rightarrow> instant" where
  "end_of_day loc now = now - since_midnight loc now + 23 * hour + 59 * minute + 59 * second"

definition own_offering :: "standby_env \<Rightarrow> standby_db \<Rightarrow> string option" where
  "own_offering env s =
     (if sb_failing env SOffering then None
      else map_option fst (select_one (\<lambda>(_, t, c). c = Some (sb_user env) \<and> t = sb_tenant env) (sb_offerings s)))"

definition cohort_member :: "standby_env \<Rightarrow> string \<Rightarrow> string \<Rightarrow> standby_db \<Rightarrow> cohort_student option" where
  "cohort_member env reg offering s =
     (if sb_failing env SStudent then None
      else select_one (\<lambda>c. cs_id c = reg \<and> cs_tenant c = sb_tenant env \<and> cs_offering c = Some offering \<and> cs_status c = ''ACTIVE'') (sb_students s))"

definition CreateCoordinatorStandby ::
  "standby_env \<Rightarrow> string option \<Rightarrow> standby_db \<Rightarrow> delegation reply \<times> standby_db" where
  "CreateCoordinatorStandby env body s =
     (case body of
        None \<Rightarrow> (Reject 400 ''INVALID_REQUEST'', s)
      | Some raw \<Rightarrow>
          let deputyReg = trim_space raw in
          if deputyReg = [] then (Reject 400 ''INVALID_REQUEST'', s)
          else case own_offering env s of
            None \<Rightarrow> (Reject 400 ''NO_OFFERING'', s)
          | Some offeringID \<Rightarrow>
              (case cohort_member env deputyReg offeringID s of
                 None \<Rightarrow> (Reject 422 ''NOT_IN_COHORT'', s)
               | Some deputy \<Rightarrow>
                   let mk = (\<lambda>code. \<lparr>dl_id = sb_fresh env (length (sb_delegations s)), dl_tenant = sb_tenant env, dl_offering = offeringID,
                         dl_coordinator = sb_user env, dl_deputy = deputyReg, dl_deputy_name = cs_name deputy, dl_code = code,
                         dl_expires = end_of_day (sb_zone env) (sb_now env), dl_revoked = False, dl_created = sb_now env, dl_last_used = None\<rparr>)
                   in case issue_loop env 5 0 mk s of
                        Inl _ \<Rightarrow> (Reject 500 ''INTERNAL_ERROR'', s)
                      | Inr (code, s') \<Rightarrow> (Reply 201 (mk code), s')))"

section \<open>Listing and revoking\<close>

text \<open>The latest first; \<open>insort_key\<close> on the negated time keeps the order of equal times.\<close>

definition ListCoordinatorStandby :: "standby_env \<Rightarrow> standby_db \<Rightarrow> delegation list reply" where
  "ListCoordinatorStandby env s =
     (if sb_failing env SList then Reject 500 ''INTERNAL_ERROR''
      else Reply 200 (sort_key (\<lambda>d. - dl_created d)
        (filter (\<lambda>d. dl_tenant d = sb_tenant env \<and> dl_coordinator d = sb_user env \<and> \<not> dl_revoked d \<and> sb_now env < dl_expires d)
          (sb_delegations s))))"

definition RevokeCoordinatorStandby :: "standby_env \<Rightarrow> string \<Rightarrow> standby_db \<Rightarrow> string reply \<times> standby_db" where
  "RevokeCoordinatorStandby env sid s =
     (let mine = (\<lambda>d. dl_id d = sid \<and> dl_tenant d = sb_tenant env \<and> dl_coordinator d = sb_user env) in
      if sb_failing env SRevoke \<or> affected mine (sb_delegations s) = 0 then (Reject 404 ''NOT_FOUND'', s)
      else (Reply 200 ''REVOKED'', s\<lparr>sb_delegations := update_where mine (\<lambda>d. d\<lparr>dl_revoked := True\<rparr>) (sb_delegations s)\<rparr>))"

section \<open>Trading the code for a token\<close>

text \<open>
  \<open>int64(d.Seconds())\<close>: whole seconds, towards zero. The detour through a double is exact for every duration below
  forty days, and the day ends sooner.
\<close>

definition whole_seconds :: "duration \<Rightarrow> int" where
  "whole_seconds d = quot_trunc d second"

text \<open>
  The call to the auth-service: \<open>None\<close> is a connection that failed or an answer other than 200. \<open>reachable\<close> is the network;
  \<open>auth\<close>, \<open>h\<close> and \<open>users\<close> are the service on the other end, \<open>key\<close> the secret the gateway was configured with.
\<close>

record auth_peer =
  ap_env :: auth_env
  ap_handler :: AuthHandler
  ap_state :: auth_state
  ap_reachable :: bool
  ap_key :: string

definition mintCoordinatorToken :: "auth_peer \<Rightarrow> string \<Rightarrow> string \<Rightarrow> int \<Rightarrow> loginResponse option" where
  "mintCoordinatorToken p userID tenantID ttlSeconds =
     (if \<not> ap_reachable p then None
      else case IssueCoordinatorToken (ap_env p) (ap_handler p) (ap_key p) (Some (userID, tenantID, ttlSeconds)) (ap_state p) of
        Reply n r \<Rightarrow> if n = 200 then Some r else None
      | Reject _ _ \<Rightarrow> None)"

definition CoordinatorStandbyLogin ::
  "standby_env \<Rightarrow> auth_peer \<Rightarrow> (string \<times> string) option \<Rightarrow> standby_db \<Rightarrow> loginResponse reply \<times> standby_db" where
  "CoordinatorStandbyLogin env p body s =
     (case body of
        None \<Rightarrow> (Reject 400 ''INVALID_REQUEST'', s)
      | Some (rawCode, rawReg) \<Rightarrow>
          let code = to_upper (trim_space rawCode); reg = trim_space rawReg in
          if code = [] \<or> reg = [] then (Reject 400 ''INVALID_REQUEST'', s)
          else case (if sb_failing env SLogin then None else select_one (\<lambda>d. dl_code d = code) (sb_delegations s)) of
            None \<Rightarrow> (Reject 401 ''INVALID_CODE'', s)
          | Some d \<Rightarrow>
              if dl_revoked d \<or> dl_expires d < sb_now env then (Reject 401 ''EXPIRED'', s)
              else if \<not> equal_fold reg (dl_deputy d) then (Reject 401 ''WRONG_REG'', s)
              else case mintCoordinatorToken p (dl_coordinator d) (dl_tenant d) (whole_seconds (time_sub (dl_expires d) (sb_later env))) of
                None \<Rightarrow> (Reject 502 ''TOKEN_FAILED'', s)
              | Some r \<Rightarrow>
                  (Reply 200 r,
                   if sb_failing env SUsed then s
                   else s\<lparr>sb_delegations := update_where (\<lambda>e. dl_id e = dl_id d) (\<lambda>e. e\<lparr>dl_last_used := Some (sb_later env)\<rparr>) (sb_delegations s)\<rparr>))"

section \<open>What the code buys\<close>

lemma whole_seconds_bounds:
  shows "0 \<le> d \<Longrightarrow> 0 \<le> whole_seconds d * second \<and> whole_seconds d * second \<le> d \<and> d < whole_seconds d * second + second"
    and "d < 0 \<Longrightarrow> d \<le> whole_seconds d * second \<and> whole_seconds d * second \<le> 0"
proof -
  have pos: "0 < second" "\<bar>second\<bar> = second" "sgn second = 1"
    by (simp_all add: duration_defs)
  have q: "0 \<le> x div second * second" "x div second * second \<le> x" "x < x div second * second + second" if "0 \<le> x" for x
    using that pos div_mult_mod_eq [of x second] pos_mod_sign [OF pos(1), of x] pos_mod_bound [OF pos(1), of x]
    by (simp_all add: pos_imp_zdiv_nonneg_iff, linarith+)
  show "0 \<le> d \<Longrightarrow> 0 \<le> whole_seconds d * second \<and> whole_seconds d * second \<le> d \<and> d < whole_seconds d * second + second"
    using q [of d] pos by (cases "d = 0") (auto simp: whole_seconds_def quot_trunc_def)
  show "d < 0 \<Longrightarrow> d \<le> whole_seconds d * second \<and> whole_seconds d * second \<le> 0"
    using q [of "- d"] pos by (auto simp: whole_seconds_def quot_trunc_def)
qed

lemma whole_seconds_fit:
  "duration_of_seconds (whole_seconds (time_sub a b)) = whole_seconds (time_sub a b) * second"
proof -
  let ?d = "time_sub a b"
  have d: "- (2 ^ 63) \<le> ?d" "?d \<le> 2 ^ 63 - 1"
    by (simp_all add: time_sub_def max_duration_def)
  have "- (2 ^ 63) \<le> whole_seconds ?d * second \<and> whole_seconds ?d * second < 2 ^ 63"
    using d whole_seconds_bounds [of ?d] by (cases "0 \<le> ?d") auto
  then have "signed_take_bit 63 (whole_seconds ?d * second) = whole_seconds ?d * second"
    by (simp add: signed_take_bit_int_eq_self)
  then show ?thesis
    by (simp add: duration_of_seconds_def signed_of_int del: of_int_mult)
qed

lemma mint_reply:
  assumes "mintCoordinatorToken p uid tid ttl = Some r"
  shows "RRole r = ''COORDINATOR'' \<and> RUserID r = uid \<and>
    (\<exists>u \<in> set (users (ap_state p)). UserID u = uid \<and> TenantID u = tid \<and> IsActive u \<and> Role u = ''COORDINATOR'') \<and>
    (\<exists>claims. jwt_sign (ap_env p) claims = Some (AccessToken r) \<and> Subject claims = uid \<and> ClaimRole claims = ''COORDINATOR'' \<and>
       ExpiresAt claims = Some (numeric_date (clock (ap_env p) +
         (let d = duration_of_seconds ttl; full = TTL (jwt (ap_handler p)) in if d \<le> 0 \<or> full < d then full else d))))"
  using assms
  by (auto simp: mintCoordinatorToken_def IssueCoordinatorToken_def internal_token_def token_response_def GetByID_def
      IssueWithTTL_def Let_def split: if_splits option.splits sum.splits reply.splits dest!: select_one_Some)

text \<open>
  C27. The standby login end to end, across both services: a token is handed out only for a code on record that is neither revoked nor past its
  time, to the student it was issued to; it is a coordinator's token in the name of the coordinator who issued the
  code, whose account is active. With a second or more left it expires with the delegation, counted from the moment
  it is minted; with less than a second left, the lifetime sent is zero and the auth-service
  answers with its full lifetime, so the token outlives the day.
\<close>

theorem standby_login_sound:
  assumes "CoordinatorStandbyLogin env p (Some (code, reg)) s = (Reply n r, s')" and "0 < TTL (jwt (ap_handler p))"
  shows "\<exists>d \<in> set (sb_delegations s). dl_code d = to_upper (trim_space code) \<and> \<not> dl_revoked d \<and> sb_now env \<le> dl_expires d \<and>
    equal_fold (trim_space reg) (dl_deputy d) \<and> RRole r = ''COORDINATOR'' \<and> RUserID r = dl_coordinator d \<and>
    (\<exists>u \<in> set (users (ap_state p)). UserID u = dl_coordinator d \<and> TenantID u = dl_tenant d \<and> IsActive u) \<and>
    (\<exists>claims e. jwt_sign (ap_env p) claims = Some (AccessToken r) \<and> Subject claims = dl_coordinator d \<and>
       ExpiresAt claims = Some (numeric_date e) \<and> e \<le> clock (ap_env p) + TTL (jwt (ap_handler p)) \<and>
       (let left = time_sub (dl_expires d) (sb_later env) in
        if second \<le> left then e \<le> clock (ap_env p) + left else e = clock (ap_env p) + TTL (jwt (ap_handler p))))"
proof -
  obtain d where d: "d \<in> set (sb_delegations s)" "dl_code d = to_upper (trim_space code)" "\<not> dl_revoked d" "sb_now env \<le> dl_expires d"
      "equal_fold (trim_space reg) (dl_deputy d)"
    and mint: "mintCoordinatorToken p (dl_coordinator d) (dl_tenant d) (whole_seconds (time_sub (dl_expires d) (sb_later env))) = Some r"
    using assms(1)
    by (auto simp: CoordinatorStandbyLogin_def Let_def split: if_splits option.splits dest!: select_one_Some)
  define left where "left = time_sub (dl_expires d) (sb_later env)"
  define full where "full = TTL (jwt (ap_handler p))"
  define e where "e = clock (ap_env p) + (let k = whole_seconds left * second in if k \<le> 0 \<or> full < k then full else k)"
  have "e \<le> clock (ap_env p) + full"
    by (simp add: e_def Let_def)
  moreover have "if second \<le> left then e \<le> clock (ap_env p) + left else e = clock (ap_env p) + full"
  proof (cases "0 \<le> left")
    case True
    have "second > 0"
      by (simp add: duration_defs)
    moreover have "second \<le> whole_seconds left * second" if "\<not> whole_seconds left \<le> 0"
      using mult_right_mono [of 1 "whole_seconds left" second] that \<open>second > 0\<close> by simp
    moreover have "whole_seconds left * second \<le> 0" if "whole_seconds left \<le> 0"
      using that \<open>second > 0\<close> by (simp add: mult_nonpos_nonneg)
    ultimately have "whole_seconds left * second \<le> 0 \<longleftrightarrow> left < second"
      using whole_seconds_bounds(1) [OF True] by fastforce
    then show ?thesis
      using whole_seconds_bounds(1) [OF True] by (auto simp: e_def Let_def)
  next
    case False
    then show ?thesis
      using whole_seconds_bounds(2) [of left] by (auto simp: e_def Let_def duration_defs)
  qed
  moreover have fit: "duration_of_seconds (whole_seconds left) = whole_seconds left * second"
    by (simp add: left_def whole_seconds_fit)
  moreover have e: "clock (ap_env p) + (if whole_seconds left * second \<le> 0 \<or> full < whole_seconds left * second
      then full else whole_seconds left * second) = e"
    by (simp add: e_def Let_def)
  moreover note minted = mint_reply [OF mint, folded left_def full_def, unfolded fit Let_def e]
  ultimately show ?thesis
    using d unfolding left_def full_def Let_def by (intro bexI [of _ d] conjI) blast+
qed

section \<open>Delegations on record\<close>

text \<open>
  What holds of every delegation: eight characters of the alphabet, unique in the tenant, a lifetime of less than a
  day from its creation, at the second before midnight; the deputy was an active student of the offering the coordinator owned.
\<close>

definition code_ok :: "string \<Rightarrow> bool" where
  "code_ok c = (length c = 8 \<and> list_all (\<lambda>x. x \<in> set standby_alphabet) c)"

definition standby_ok :: "standby_db \<Rightarrow> bool" where
  "standby_ok s =
     (distinct (map (\<lambda>d. (dl_tenant d, dl_code d)) (sb_delegations s)) \<and>
      list_all (\<lambda>d. code_ok (dl_code d) \<and> dl_expires d < dl_created d + 24 * hour \<and> dl_created d \<le> dl_expires d + second) (sb_delegations s))"

lemma code_upper: "code_ok c \<Longrightarrow> to_upper c = c"
proof -
  have "\<forall>x \<in> set standby_alphabet. upper_char x = x"
    by code_simp
  then show "code_ok c \<Longrightarrow> to_upper c = c"
    by (auto simp: code_ok_def to_upper_def list_all_iff intro!: map_idI)
qed

lemma rand_code_ok: "length b = 8 \<Longrightarrow> code_ok (randStandbyCode b)"
proof -
  have "0 < length standby_alphabet"
    by code_simp
  then show "length b = 8 \<Longrightarrow> code_ok (randStandbyCode b)"
    by (auto simp: code_ok_def randStandbyCode_def list_all_iff intro!: nth_mem)
qed

lemma end_of_day_bounds: "end_of_day loc now < now + 24 * hour" "now \<le> end_of_day loc now + second"
proof -
  have "0 \<le> since_midnight loc now" "since_midnight loc now < 24 * hour"
    by (simp_all add: since_midnight_def duration_defs)
  then show "end_of_day loc now < now + 24 * hour" "now \<le> end_of_day loc now + second"
    by (simp_all add: end_of_day_def duration_defs)
qed

lemma issue_loop_cases:
  assumes "issue_loop env n attempt mk s = Inr (code, s')" and "\<And>k. length (sb_random env k) = 8" and "\<And>c. dl_code (mk c) = c"
  shows "code_ok code \<and> s' = s\<lparr>sb_delegations := sb_delegations s @ [mk code]\<rparr> \<and>
    \<not> list_ex (\<lambda>d. dl_tenant d = dl_tenant (mk code) \<and> dl_code d = code) (sb_delegations s)"
  using assms
proof (induction n arbitrary: attempt)
  case (Suc n)
  show ?case
  proof (cases "insert_delegation env attempt (mk (randStandbyCode (sb_random env attempt))) s")
    case (Inl e)
    then show ?thesis
      using Suc by (auto simp: Let_def split: if_splits)
  next
    case (Inr t)
    then show ?thesis
      using Suc.prems rand_code_ok by (auto simp: insert_delegation_def Let_def split: option.splits if_splits)
  qed
qed simp

inductive standby_step :: "standby_db \<Rightarrow> standby_db \<Rightarrow> bool" where
  create: "(\<And>k. length (sb_random env k) = 8) \<Longrightarrow> standby_step s (snd (CreateCoordinatorStandby env body s))"
| revoke: "standby_step s (snd (RevokeCoordinatorStandby env sid s))"
| login: "standby_step s (snd (CoordinatorStandbyLogin env p body' s))"
| enrolment: "standby_step s (s\<lparr>sb_offerings := os, sb_students := ss\<rparr>)"

lemma standby_ok_update:
  assumes "standby_ok s" and "\<And>d. dl_tenant (f d) = dl_tenant d \<and> dl_code (f d) = dl_code d \<and> dl_expires (f d) = dl_expires d \<and> dl_created (f d) = dl_created d"
  shows "standby_ok (s\<lparr>sb_delegations := update_where q f (sb_delegations s)\<rparr>)"
  using assms by (auto simp: standby_ok_def update_where_def list_all_iff comp_def if_distrib cong: if_cong)

lemma create_keeps:
  assumes "standby_ok s" "\<And>k. length (sb_random env k) = 8"
  shows "standby_ok (snd (CreateCoordinatorStandby env body s))"
proof -
  have keep: "standby_ok s'" if loop: "issue_loop env 5 0 mk s = Inr (code, s')"
    and mk: "\<And>c. dl_code (mk c) = c" "\<And>c. dl_expires (mk c) = end_of_day (sb_zone env) (dl_created (mk c))" for mk code s'
    using issue_loop_cases [OF loop assms(2) mk(1)] mk end_of_day_bounds assms(1)
    by (auto simp: standby_ok_def list_ex_iff list_all_iff)
  show ?thesis
    using assms(1) by (auto simp: CreateCoordinatorStandby_def Let_def keep split: option.split sum.split)
qed

interpretation standby: kept_property standby_step standby_ok
proof
  fix s s'
  assume "standby_step s s'" "standby_ok s"
  then show "standby_ok s'"
  proof cases
    case (create env body)
    then show ?thesis
      using create_keeps \<open>standby_ok s\<close> by simp
  next
    case (revoke env sid)
    then show ?thesis
      using \<open>standby_ok s\<close> by (auto simp: RevokeCoordinatorStandby_def Let_def intro!: standby_ok_update)
  next
    case (login env p body')
    then show ?thesis
      using \<open>standby_ok s\<close>
      by (auto simp: CoordinatorStandbyLogin_def Let_def intro!: standby_ok_update split: option.split)
  next
    case (enrolment os ss)
    then show ?thesis
      using \<open>standby_ok s\<close> by (simp add: standby_ok_def)
  qed
qed

text \<open>
  C32. Well-formedness of the delegations, whatever coordinators and students do in whatever order: codes are eight characters of the
  alphabet without look-alikes, no two delegations of a tenant share one, and a delegation lives less than a day
  from its creation. Random reads deliver the eight bytes asked for.
\<close>

theorem standby_well_formed:
  assumes "standby_step\<^sup>*\<^sup>* s s'" "standby_ok s"
  shows "standby_ok s'"
  using assms by (rule standby.reached)

text \<open>
  Who may be named: a delegation is created only for a coordinator with an offering of the tenant and an active student of
  exactly that offering, it is appended to the table and nothing else changes; every refusal leaves
  the tables as they were.
\<close>

theorem standby_issue_sound:
  "case CreateCoordinatorStandby env body s of
     (Reply n d, s') \<Rightarrow> n = 201 \<and> s' = s\<lparr>sb_delegations := sb_delegations s @ [d]\<rparr> \<and> dl_coordinator d = sb_user env \<and>
       dl_tenant d = sb_tenant env \<and> dl_expires d = end_of_day (sb_zone env) (sb_now env) \<and> \<not> dl_revoked d \<and>
       (dl_offering d, sb_tenant env, Some (sb_user env)) \<in> set (sb_offerings s) \<and>
       (\<exists>c \<in> set (sb_students s). cs_id c = dl_deputy d \<and> cs_tenant c = sb_tenant env \<and> cs_offering c = Some (dl_offering d) \<and> cs_status c = ''ACTIVE'')
   | (Reject _ _, s') \<Rightarrow> s' = s"
proof -
  have grown: "s' = s\<lparr>sb_delegations := sb_delegations s @ [mk code]\<rparr>" if "issue_loop env n attempt mk s = Inr (code, s')" for n attempt mk code s'
    using that by (induction n arbitrary: attempt)
      (auto simp: Let_def insert_delegation_def split: sum.splits if_splits option.splits)
  have owned: "(offering, sb_tenant env, Some (sb_user env)) \<in> set (sb_offerings s)" if "own_offering env s = Some offering" for offering
    using that by (auto simp: own_offering_def split: if_splits dest!: select_one_Some)
  show ?thesis
    by (auto simp: CreateCoordinatorStandby_def cohort_member_def Let_def owned
        split: option.splits sum.splits if_splits dest!: select_one_Some dest: grown)
qed

definition demo_standby :: standby_db where
  "demo_standby = \<lparr>sb_delegations = [], sb_offerings = [(''o1'', ''t1'', Some ''u1'')],
     sb_students = [\<lparr>cs_id = ''2024-08-1'', cs_tenant = ''t1'', cs_offering = Some ''o1'', cs_status = ''ACTIVE'', cs_name = ''Deputy''\<rparr>]\<rparr>"

definition demo_standby_env :: "instant \<Rightarrow> standby_env" where
  "demo_standby_env now = \<lparr>sb_tenant = ''t1'', sb_user = ''u1'', sb_zone = utc, sb_now = now, sb_later = now, sb_failing = (\<lambda>_. False),
     sb_insert_error = (\<lambda>_. None), sb_random = (\<lambda>_. replicate 8 0), sb_fresh = itoa\<rparr>"

definition demo_peer :: "instant \<Rightarrow> auth_peer" where
  "demo_peer now = \<lparr>ap_env = demo_env now, ap_handler = demo_handler, ap_state = demo_auth ''COORDINATOR'', ap_reachable = True, ap_key = ''k''\<rparr>"

definition demo_delegated :: standby_db where
  "demo_delegated = snd (CreateCoordinatorStandby (demo_standby_env (9 * hour)) (Some ''2024-08-1'') demo_standby)"

lemma demo_delegations:
  "sb_delegations demo_delegated = [\<lparr>dl_id = ''0'', dl_tenant = ''t1'', dl_offering = ''o1'', dl_coordinator = ''u1'',
     dl_deputy = ''2024-08-1'', dl_deputy_name = ''Deputy'', dl_code = ''AAAAAAAA'', dl_expires = 86399 * second, dl_revoked = False,
     dl_created = 9 * hour, dl_last_used = None\<rparr>]"
  by code_simp

theorem standby_well_formed_witness: "standby_ok demo_delegated"
proof -
  have "standby_step\<^sup>*\<^sup>* demo_standby demo_delegated"
    unfolding demo_delegated_def by (intro r_into_rtranclp standby_step.create) (simp add: demo_standby_env_def)
  from standby_well_formed [OF this] show ?thesis
    by (simp add: standby_ok_def demo_standby_def)
qed

theorem standby_login_sound_witness:
  "\<exists>r s'. CoordinatorStandbyLogin (demo_standby_env (86399 * second)) (demo_peer (86399 * second)) (Some ('' aaaaaaaa'', ''2024-08-1'')) demo_delegated
      = (Reply 200 r, s') \<and>
    (\<exists>claims. jwt_sign (demo_env (86399 * second)) claims = Some (AccessToken r) \<and>
       ExpiresAt claims = Some (numeric_date (86399 * second + 8 * hour)))"
proof -
  let ?l = "CoordinatorStandbyLogin (demo_standby_env (86399 * second)) (demo_peer (86399 * second)) (Some ('' aaaaaaaa'', ''2024-08-1'')) demo_delegated"
  have texts: "to_upper (trim_space '' aaaaaaaa'') = ''AAAAAAAA''" "trim_space ''2024-08-1'' = ''2024-08-1''" "equal_fold ''2024-08-1'' ''2024-08-1''"
    by code_simp+
  have "\<exists>r s'. ?l = (Reply 200 r, s')"
    by (simp add: CoordinatorStandbyLogin_def Let_def texts demo_delegations demo_standby_env_def select_one_def mintCoordinatorToken_def
        demo_peer_def IssueCoordinatorToken_def internal_token_def GetByID_def IssueWithTTL_def generateJTI_def demo_auth_defs)
  then obtain r s' where l: "?l = (Reply 200 r, s')"
    by blast
  have "second \<le> time_sub (86399 * second) (86399 * second) \<longleftrightarrow> False"
    by (simp add: time_sub_def max_duration_def duration_defs)
  moreover have "0 < TTL (jwt (ap_handler (demo_peer (86399 * second))))"
    by (simp add: demo_peer_def demo_handler_def duration_defs)
  ultimately have "\<exists>claims. jwt_sign (demo_env (86399 * second)) claims = Some (AccessToken r) \<and>
       ExpiresAt claims = Some (numeric_date (86399 * second + 8 * hour))"
    using standby_login_sound [OF l]
    by (simp add: demo_delegations demo_peer_def demo_handler_def demo_standby_env_def Let_def demo_env_def) blast
  with l show ?thesis
    by blast
qed

end
