(* ===== verification/Timetable.thy ===== *)
theory Timetable
  imports Patrol_Manual Roles
begin

text \<open>
  The weekly timetable (\<open>handlers/timetable_slots.go\<close>, \<open>timetable_tlc_scope.go\<close>, \<open>session_schedule.go\<close>, \<open>free_rooms.go\<close>):
  the grid a Teaching and Learning Centre edits, its bulk import, the older one-row schedule of a unit, and the search for a free room.

  Times of day are minutes since midnight; \<open>te_time\<close> is the cast of the server from text to a time, \<open>te_failing\<close>
  says which statement of a request meets a database error. The table carries two constraints, the unique key of a slot and the
  exclusion constraint on rooms; both are checked by \<open>store_slot\<close>.
\<close>

section \<open>State\<close>

record tslot =
  tt_id :: string
  tt_tenant :: string
  tt_offering :: string
  tt_unit :: string
  tt_day :: int
  tt_start :: nat
  tt_duration :: int
  tt_room :: "string option"
  tt_lecturer :: "string option"
  tt_venue :: "string option"

record tt_cohort =
  tc_id :: string
  tc_tenant :: string
  tc_course :: string
  tc_type :: string
  tc_year :: int
  tc_semester :: int
  tc_level :: string
  tc_intake :: string
  tc_coordinator :: "string option"

record tt_unit_row =
  un_id :: string
  un_tenant :: string
  un_course :: string
  un_name :: string
  un_year :: "int option"
  un_semester :: "int option"
  un_level :: "string option"

record unit_schedule_row =
  sc_offering :: string
  sc_unit :: string
  sc_tenant :: string
  sc_day :: "int option"
  sc_start :: "nat option"
  sc_duration :: "int option"
  sc_locked :: bool

record tt_venue_row = venue_row +
  vn_floor :: "int option"
  vn_capacity :: "int option"
  vn_type :: "string option"
  vn_school :: "string option"
  vn_department :: "string option"

record live_session =
  ls_tenant :: string
  ls_venue :: "string option"
  ls_unit :: string
  ls_date :: string
  ls_status :: string
  ls_opened :: instant
  ls_provision :: bool

record tt_db =
  td_slots :: "tslot table"
  td_cohorts :: "tt_cohort table"
  td_units :: "tt_unit_row table"
  td_courses :: "course_row table"
  td_lecturers :: "lecturer_row table"
  td_assignments :: "(string \<times> string \<times> string \<times> string \<times> string) list"
  td_users :: "user_row table"
  td_venues :: "tt_venue_row table"
  td_schools :: "(string \<times> string) list"
  td_departments :: "(string \<times> string) list"
  td_sessions :: "live_session table"
  td_schedules :: "unit_schedule_row table"
  td_years :: "(string \<times> string) list"
  td_manifests :: "(string \<times> string \<times> string) list"

datatype tt_call = TUser | TUnit | TCohort | TClash | TRoom | TInsert | TSlot | TDelete | TRead | TSchedule
  | TNewCohort | TNewUnit | TLecturer | TAssign

record tt_env =
  te_tenant :: string
  te_user :: string
  te_role :: string
  te_now :: instant
  te_zone :: location
  te_connected :: bool
  te_redis :: bool
  te_failing :: "tt_call \<Rightarrow> nat \<Rightarrow> bool"
  te_time :: "string \<Rightarrow> nat option"
  te_uuid :: "string \<Rightarrow> bool"
  te_fresh :: "nat \<Rightarrow> string"

section \<open>Who may edit which department\<close>

definition user_department :: "tt_env \<Rightarrow> tt_db \<Rightarrow> string" where
  "user_department env s =
     (if te_failing env TUser 0 then []
      else case select_one (\<lambda>u. us_id u = te_user env \<and> us_tenant u = te_tenant env) (td_users s) of
        None \<Rightarrow> [] | Some u \<Rightarrow> or_empty (us_department u))"

definition unit_department :: "tt_env \<Rightarrow> string \<Rightarrow> tt_db \<Rightarrow> string" where
  "unit_department env unit s =
     (if te_failing env TUnit 0 then []
      else case select_one (\<lambda>u. un_id u = unit \<and> un_tenant u = te_tenant env) (td_units s) of
        None \<Rightarrow> []
      | Some u \<Rightarrow>
          (case select_one (\<lambda>c. co_id c = un_course u) (td_courses s) of
             None \<Rightarrow> [] | Some c \<Rightarrow> or_empty (co_department c)))"

text \<open>\<open>Some\<close> is the refusal with its text.\<close>

definition tlcScopeError :: "string \<Rightarrow> string \<Rightarrow> string \<Rightarrow> string" where
  "tlcScopeError theirs unit unit_in =
     (if unit_in = [] then ''the unit '' @ unit @ '' is not filed under any department, so it cannot be matched to yours ('' @ theirs
        @ ''). Ask an administrator to file its course.''
      else ''you design the timetable for '' @ theirs @ ''; '' @ unit @ '' belongs to '' @ unit_in @ ''.'')"

definition checkTimetableScope :: "tt_env \<Rightarrow> string \<Rightarrow> tt_db \<Rightarrow> string option" where
  "checkTimetableScope env unit s =
     (if te_role env \<noteq> RoleTLC then None
      else
        let department = user_department env s in
        if trim_space department = [] then None
        else
          let unitDept = unit_department env unit s in
          if equal_fold (trim_space unitDept) (trim_space department) then None
          else Some (tlcScopeError department unit unitDept))"

definition tlcDepartment :: "tt_env \<Rightarrow> tt_db \<Rightarrow> string" where
  "tlcDepartment env s = (if te_role env \<noteq> RoleTLC then [] else trim_space (user_department env s))"

section \<open>Cached manifests\<close>

definition bustCoordinatorManifest :: "tt_env \<Rightarrow> string \<Rightarrow> tt_db \<Rightarrow> tt_db" where
  "bustCoordinatorManifest env coordinator s =
     (if \<not> te_redis env \<or> coordinator = [] then s
      else s\<lparr>td_manifests := filter (\<lambda>(t, c, _). \<not> (t = te_tenant env \<and> c = coordinator)) (td_manifests s)\<rparr>)"

definition bustTenantManifests :: "tt_env \<Rightarrow> tt_db \<Rightarrow> tt_db" where
  "bustTenantManifests env s =
     (if \<not> te_redis env \<or> te_tenant env = [] then s
      else s\<lparr>td_manifests := filter (\<lambda>(t, _, _). t \<noteq> te_tenant env) (td_manifests s)\<rparr>)"

section \<open>The table of slots\<close>

text \<open>A \<open>time\<close> plus an interval wraps at midnight.\<close>

definition time_plus :: "nat \<Rightarrow> int \<Rightarrow> int" where
  "time_plus start mins = (int start + mins) mod 1440"

definition wrapped_overlap :: "nat \<Rightarrow> int \<Rightarrow> nat \<Rightarrow> int \<Rightarrow> bool" where
  "wrapped_overlap a m b n = (int a < time_plus b n \<and> int b < time_plus a m)"

definition room_key :: "string \<Rightarrow> string" where
  "room_key r = btrim (to_lower r)"

definition no_lecturer :: string where
  "no_lecturer = ''00000000-0000-0000-0000-000000000000''"

definition lecturer_key :: "string option \<Rightarrow> string" where
  "lecturer_key l = (case l of None \<Rightarrow> no_lecturer | Some l \<Rightarrow> l)"

text \<open>The exclusion constraint of migration 099 on a pair of rows: a half-open range of minutes without a wrap.\<close>

definition minutes_overlap :: "nat \<Rightarrow> int \<Rightarrow> nat \<Rightarrow> int \<Rightarrow> bool" where
  "minutes_overlap a m b n = (int a < int b + max n 1 \<and> int b < int a + max m 1)"

definition room_conflict :: "tslot \<Rightarrow> tslot \<Rightarrow> bool" where
  "room_conflict x y =
     (case (tt_room x, tt_room y) of
        (Some r, Some q) \<Rightarrow>
          btrim r \<noteq> [] \<and> btrim q \<noteq> [] \<and> tt_tenant x = tt_tenant y \<and> room_key r = room_key q \<and> tt_day x = tt_day y \<and>
          minutes_overlap (tt_start x) (tt_duration x) (tt_start y) (tt_duration y) \<and>
          lecturer_key (tt_lecturer x) \<noteq> lecturer_key (tt_lecturer y)
      | _ \<Rightarrow> False)"

definition tslot_key :: "tslot \<Rightarrow> string \<times> string \<times> int \<times> nat" where
  "tslot_key x = (tt_offering x, tt_unit x, tt_day x, tt_start x)"

text \<open>The columns that saving a slot again overwrites; the lecturer stays when none is given.\<close>

definition resave :: "tslot \<Rightarrow> tslot \<Rightarrow> tslot" where
  "resave new old =
     old\<lparr>tt_duration := tt_duration new, tt_room := tt_room new,
         tt_lecturer := (case tt_lecturer new of None \<Rightarrow> tt_lecturer old | Some l \<Rightarrow> Some l), tt_venue := tt_venue new\<rparr>"

datatype tt_error = RoomDoubleBooking | OtherError

text \<open>The row-level policy of the gateway's own pool (\<open>rls\<close>) forbids to overwrite a row of another tenant; the administrative pool bypasses it.\<close>

definition store_slot :: "tt_env \<Rightarrow> bool \<Rightarrow> nat \<Rightarrow> tslot \<Rightarrow> tt_db \<Rightarrow> tt_error + string \<times> tt_db" where
  "store_slot env rls i row s =
     (if te_failing env TInsert i \<or> rls \<and> list_ex (\<lambda>x. tslot_key x = tslot_key row \<and> tt_tenant x \<noteq> te_tenant env) (td_slots s) \<or> \<not> list_ex (\<lambda>c. tc_id c = tt_offering row) (td_cohorts s) \<or>
         \<not> list_ex (\<lambda>u. un_id u = tt_unit row) (td_units s) \<or>
         (case tt_lecturer row of None \<Rightarrow> False | Some l \<Rightarrow> \<not> list_ex (\<lambda>e. lec_id e = l) (td_lecturers s))
      then Inl OtherError
      else
        let stored = (case select_one (\<lambda>x. tslot_key x = tslot_key row) (td_slots s) of None \<Rightarrow> row | Some old \<Rightarrow> resave row old);
            others = filter (\<lambda>x. tslot_key x \<noteq> tslot_key row) (td_slots s)
        in if list_ex (room_conflict stored) others then Inl RoomDoubleBooking
           else Inr (tt_id stored, s\<lparr>td_slots := upsert tslot_key resave row (td_slots s)\<rparr>))"

definition resolve_venue :: "tt_env \<Rightarrow> string \<Rightarrow> tt_db \<Rightarrow> string option" where
  "resolve_venue env room s =
     map_option ve_id (select_one (\<lambda>v. ve_tenant v = te_tenant env \<and>
       (btrim (to_lower (ve_id v)) = room_key room \<or> btrim (to_lower (ve_name v)) = room_key room)) (td_venues s))"

section \<open>Saving one slot\<close>

record slot_request =
  sr_offering :: string
  sr_unit :: string
  sr_day :: int
  sr_start :: string
  sr_duration :: int
  sr_room :: string
  sr_lecturer :: string

definition is_weekend :: "string \<Rightarrow> bool" where
  "is_weekend session_type = contains (to_lower session_type) ''weekend''"

definition cohort_of :: "tt_env \<Rightarrow> nat \<Rightarrow> string \<Rightarrow> tt_db \<Rightarrow> string \<times> string" where
  "cohort_of env i offering s =
     (if te_failing env TCohort i then ([], [])
      else case select_one (\<lambda>c. tc_id c = offering \<and> tc_tenant c = te_tenant env) (td_cohorts s) of
        None \<Rightarrow> ([], []) | Some c \<Rightarrow> (or_empty (tc_coordinator c), tc_type c))"

definition cohort_clash :: "tt_env \<Rightarrow> nat \<Rightarrow> string \<Rightarrow> string \<Rightarrow> int \<Rightarrow> nat \<Rightarrow> int \<Rightarrow> tt_db \<Rightarrow> tslot option" where
  "cohort_clash env i offering unit d start mins s =
     (if te_failing env TClash i then None
      else select_one (\<lambda>x. tt_tenant x = te_tenant env \<and> tt_offering x = offering \<and> tt_day x = d \<and>
        \<not> (tt_unit x = unit \<and> tt_start x = start) \<and> wrapped_overlap (tt_start x) (tt_duration x) start mins) (td_slots s))"

text \<open>The import asks the same of a room without the clause on lecturers.\<close>

definition room_taken :: "tt_env \<Rightarrow> nat \<Rightarrow> bool \<Rightarrow> string \<Rightarrow> string \<Rightarrow> string \<Rightarrow> int \<Rightarrow> nat \<Rightarrow> int \<Rightarrow> string option \<Rightarrow> tt_db \<Rightarrow> tslot option" where
  "room_taken env i by_lecturer room offering unit d start mins lecturer s =
     (if te_failing env TRoom i then None
      else select_one (\<lambda>x. tt_tenant x = te_tenant env \<and> tt_day x = d \<and>
        (case tt_room x of None \<Rightarrow> False | Some r \<Rightarrow> room_key r = room_key room) \<and>
        \<not> (tt_offering x = offering \<and> tt_unit x = unit \<and> tt_start x = start) \<and>
        wrapped_overlap (tt_start x) (tt_duration x) start mins \<and>
        (by_lecturer \<longrightarrow> lecturer_key (tt_lecturer x) \<noteq> lecturer_key lecturer)) (td_slots s))"

definition slot_of :: "tt_env \<Rightarrow> string \<Rightarrow> slot_request \<Rightarrow> nat \<Rightarrow> int \<Rightarrow> tt_db \<Rightarrow> tslot" where
  "slot_of env sid req start mins s =
     \<lparr>tt_id = sid, tt_tenant = te_tenant env, tt_offering = sr_offering req, tt_unit = sr_unit req, tt_day = sr_day req, tt_start = start,
      tt_duration = mins, tt_room = nullif (sr_room req), tt_lecturer = nullif (sr_lecturer req), tt_venue = resolve_venue env (sr_room req) s\<rparr>"

text \<open>
  What follows the checks of the request: the guards and the write. A query that fails reads as no clash; a lecturer
  that is no identifier fails the query on the room and then the insert.
\<close>

definition save_slot :: "tt_env \<Rightarrow> slot_request \<Rightarrow> int \<Rightarrow> tt_db \<Rightarrow> string reply \<times> tt_db" where
  "save_slot env req mins s =
     (let (coordinator, session_type) = cohort_of env 0 (sr_offering req) s in
      if is_weekend session_type \<noteq> (sr_day req = 6 \<or> sr_day req = 7) then (Reject 409 ''DAY_MISMATCH'', s)
      else case te_time env (sr_start req) of
        None \<Rightarrow> (Reject 500 ''INTERNAL_ERROR'', s)
      | Some start \<Rightarrow>
          if cohort_clash env 0 (sr_offering req) (sr_unit req) (sr_day req) start mins s \<noteq> None then (Reject 409 ''SCHEDULE_CLASH'', s)
          else if trim_space (sr_room req) \<noteq> [] \<and> (sr_lecturer req = [] \<or> te_uuid env (sr_lecturer req)) \<and>
            room_taken env 0 True (trim_space (sr_room req)) (sr_offering req) (sr_unit req) (sr_day req) start mins (nullif (sr_lecturer req)) s \<noteq> None
          then (Reject 409 ''ROOM_DOUBLE_BOOKED'', s)
          else case store_slot env True 0 (slot_of env (te_fresh env (length (td_slots s))) req start mins s) s of
            Inl RoomDoubleBooking \<Rightarrow> (Reject 409 ''ROOM_DOUBLE_BOOKED'', s)
          | Inl OtherError \<Rightarrow> (Reject 500 ''INTERNAL_ERROR'', s)
          | Inr (sid, s') \<Rightarrow> (Reply 200 sid, bustCoordinatorManifest env coordinator s'))"

definition UpsertTimetableSlot :: "tt_env \<Rightarrow> slot_request option \<Rightarrow> tt_db \<Rightarrow> string reply \<times> tt_db" where
  "UpsertTimetableSlot env body s =
     (case body of
        None \<Rightarrow> (Reject 400 ''INVALID_REQUEST'', s)
      | Some req \<Rightarrow>
          if sr_offering req = [] \<or> sr_unit req = [] then (Reject 400 ''INVALID_REQUEST'', s)
          else if sr_day req < 1 \<or> 7 < sr_day req \<or> \<not> validHHMM (sr_start req) then (Reject 400 ''INVALID_SCHEDULE'', s)
          else if \<not> te_connected env then (Reject 500 ''INTERNAL_ERROR'', s)
          else if checkTimetableScope env (sr_unit req) s \<noteq> None then (Reject 403 ''OUT_OF_DEPARTMENT'', s)
          else save_slot env req (if sr_duration req \<le> 0 then 60 else sr_duration req) s)"

section \<open>Removing a slot\<close>

definition DeleteTimetableSlot :: "tt_env \<Rightarrow> string \<Rightarrow> tt_db \<Rightarrow> string reply \<times> tt_db" where
  "DeleteTimetableSlot env sid s =
     (if \<not> te_connected env then (Reject 500 ''INTERNAL_ERROR'', s)
      else case (if te_failing env TSlot 0 then None else select_one (\<lambda>x. tt_id x = sid \<and> tt_tenant x = te_tenant env) (td_slots s)) of
        None \<Rightarrow> (Reject 404 ''NOT_FOUND'', s)
      | Some x \<Rightarrow>
          if checkTimetableScope env (tt_unit x) s \<noteq> None then (Reject 403 ''OUT_OF_DEPARTMENT'', s)
          else if te_failing env TDelete 0 then (Reject 500 ''INTERNAL_ERROR'', s)
          else (Reply 200 ''deleted'', bustTenantManifests env
            (s\<lparr>td_slots := delete_where (\<lambda>y. tt_id y = sid \<and> tt_tenant y = te_tenant env) (td_slots s)\<rparr>)))"

section \<open>Texts of an imported timetable\<close>

definition parseDay :: "string \<Rightarrow> int" where
  "parseDay s0 =
     (let s = to_lower (trim_space s0) in
      if has_prefix s ''mon'' then 1 else if has_prefix s ''tue'' then 2 else if has_prefix s ''wed'' then 3
      else if has_prefix s ''thu'' then 4 else if has_prefix s ''fri'' then 5 else if has_prefix s ''sat'' then 6
      else if has_prefix s ''sun'' then 7
      else case go_atoi s of None \<Rightarrow> 0 | Some n \<Rightarrow> if 1 \<le> n \<and> n \<le> 7 then n else 0)"

text \<open>\<open>strings.NewReplacer("am", "", "pm", "")\<close>: one pass from the left.\<close>

fun drop_meridiem :: "string \<Rightarrow> string" where
  "drop_meridiem (a # b # s) =
     (if (a = CHR ''a'' \<or> a = CHR ''p'') \<and> b = CHR ''m'' then drop_meridiem s else a # drop_meridiem (b # s))"
| "drop_meridiem s = s"

text \<open>Hours and minutes of a text without its am or pm; \<open>SplitN\<close> cuts at the first colon.\<close>

definition clock_fields :: "string \<Rightarrow> int \<times> int" where
  "clock_fields s =
     (case index_byte s (CHR '':'') of
        Some i \<Rightarrow> (atoiSafe (trim_space (take i s)), atoiSafe (trim_space (drop (i + 1) s)))
      | None \<Rightarrow> (atoiSafe s, 0))"

definition parseClock :: "string \<Rightarrow> string option" where
  "parseClock s0 =
     (let s = to_lower (trim_space s0) in
      if s = [] then None
      else
        let pm = contains s ''pm''; am = contains s ''am'';
            (hh, mm) = clock_fields (trim_space (drop_meridiem s));
            hh = (if pm \<and> hh < 12 then hh + 12 else hh);
            hh = (if am \<and> hh = 12 then 0 else hh)
        in if hh < 0 \<or> 23 < hh \<or> mm < 0 \<or> 59 < mm then None else Some (format_hhmm (nat hh) (nat mm)))"

definition clock_minutes :: "string \<Rightarrow> int option" where
  "clock_minutes s = (case index_byte s (CHR '':'') of None \<Rightarrow> None | Some i \<Rightarrow> Some (atoiSafe (take i s) * 60 + atoiSafe (drop (i + 1) s)))"

definition clockDiffMinutes :: "string \<Rightarrow> string \<Rightarrow> int" where
  "clockDiffMinutes start end =
     (case (clock_minutes start, clock_minutes end) of (Some a, Some b) \<Rightarrow> if b \<le> a then 0 else b - a | _ \<Rightarrow> 0)"

section \<open>The bulk import\<close>

text \<open>The rows of the file, as the CSV or spreadsheet reader gives them; of two columns with one name the last counts.\<close>

definition column :: "string list \<Rightarrow> string \<Rightarrow> nat option" where
  "column header name =
     (case filter (\<lambda>i. to_lower (trim_space (header ! i)) = name) [0..<length header] of [] \<Rightarrow> None | is \<Rightarrow> Some (last is))"

definition cell :: "string list \<Rightarrow> string list \<Rightarrow> string \<Rightarrow> string" where
  "cell header row name =
     (case column header name of None \<Rightarrow> [] | Some i \<Rightarrow> if length row \<le> i then [] else trim_space (row ! i))"

datatype import_problem =
    MissingFields | WrongDay | OfferingFailed | LinkFailed | CohortBusy string nat | RoomBusy string nat | RoomRace | SlotFailed

record importResult =
  ir_inserted :: nat
  ir_skipped :: nat
  ir_errors :: "(nat \<times> import_problem) list"

definition skip_line :: "nat \<Rightarrow> import_problem \<Rightarrow> importResult \<Rightarrow> importResult" where
  "skip_line ln p r = r\<lparr>ir_skipped := ir_skipped r + 1, ir_errors := ir_errors r @ [(ln, p)]\<rparr>"

record import_line =
  il_course :: string
  il_unit :: string
  il_unit_name :: string
  il_day :: int
  il_start :: string
  il_level :: string
  il_year :: int
  il_semester :: int
  il_type :: string
  il_minutes :: int
  il_room :: string
  il_staff :: string

definition import_minutes :: "string list \<Rightarrow> string list \<Rightarrow> string \<Rightarrow> int" where
  "import_minutes header row start =
     (let dur = atoiSafe (cell header row ''duration_minutes'');
          dur = (if dur = 0 then case parseClock (cell header row ''end_time'') of None \<Rightarrow> dur | Some end \<Rightarrow> clockDiffMinutes start end else dur)
      in if dur \<le> 0 then 60 else dur)"

definition read_line :: "string list \<Rightarrow> string list \<Rightarrow> import_problem + import_line" where
  "read_line header row =
     (let get = cell header row; d = parseDay (get ''day'') in
      case parseClock (get ''start_time'') of
        None \<Rightarrow> Inl MissingFields
      | Some start \<Rightarrow>
          if get ''course_id'' = [] \<or> get ''unit_id'' = [] \<or> d = 0 then Inl MissingFields
          else
            let session_type = (if get ''session_type'' = [] then ''Day'' else get ''session_type'') in
            if is_weekend session_type \<noteq> (d = 6 \<or> d = 7) then Inl WrongDay
            else Inr \<lparr>il_course = get ''course_id'', il_unit = get ''unit_id'',
                   il_unit_name = (if trim_space (get ''unit_name'') = [] then get ''unit_id'' else get ''unit_name''), il_day = d, il_start = start,
                   il_level = get ''level'', il_year = atoiSafe (get ''study_year''), il_semester = atoiSafe (get ''semester''),
                   il_type = session_type, il_minutes = import_minutes header row start, il_room = get ''room'', il_staff = get ''staff_id''\<rparr>)"

text \<open>
  The cohort of a line, created when there is none. The insert writes an empty level as \<open>NULL\<close>, which the column
  does not admit. A new unit needs a semester of 1 or 2; its errors are not looked at.
\<close>

definition import_cohort :: "tt_env \<Rightarrow> nat \<Rightarrow> import_line \<Rightarrow> tt_db \<Rightarrow> (string \<times> tt_db) option" where
  "import_cohort env ln l s =
     (case (if te_failing env TCohort ln then None
            else select_one (\<lambda>c. tc_tenant c = te_tenant env \<and> tc_course c = il_course l \<and> tc_type c = il_type l \<and> tc_year c = il_year l \<and>
              tc_semester c = il_semester l \<and> tc_level c = il_level l) (td_cohorts s)) of
        Some c \<Rightarrow> Some (tc_id c, s)
      | None \<Rightarrow>
          if te_failing env TNewCohort ln \<or> il_level l = [] \<or> \<not> list_ex (\<lambda>c. co_id c = il_course l) (td_courses s) then None
          else let oid = te_fresh env (length (td_cohorts s)) in
            Some (oid, s\<lparr>td_cohorts := td_cohorts s @ [\<lparr>tc_id = oid, tc_tenant = te_tenant env, tc_course = il_course l, tc_type = il_type l,
              tc_year = il_year l, tc_semester = il_semester l, tc_level = il_level l, tc_intake = [], tc_coordinator = None\<rparr>]\<rparr>))"

definition import_unit :: "tt_env \<Rightarrow> nat \<Rightarrow> import_line \<Rightarrow> tt_db \<Rightarrow> tt_db" where
  "import_unit env ln l s =
     (if te_failing env TNewUnit ln \<or> list_ex (\<lambda>u. un_id u = il_unit l) (td_units s) \<or> il_semester l \<notin> {1, 2} \<or>
         \<not> list_ex (\<lambda>c. co_id c = il_course l) (td_courses s) then s
      else s\<lparr>td_units := td_units s @ [\<lparr>un_id = il_unit l, un_tenant = te_tenant env, un_course = il_course l, un_name = il_unit_name l,
        un_year = Some (il_year l), un_semester = Some (il_semester l), un_level = nullif (il_level l)\<rparr>]\<rparr>)"

definition import_lecturer :: "tt_env \<Rightarrow> nat \<Rightarrow> import_line \<Rightarrow> tt_db \<Rightarrow> string" where
  "import_lecturer env ln l s =
     (if il_staff l = [] \<or> te_failing env TLecturer ln then []
      else case select_one (\<lambda>e. lec_tenant e = te_tenant env \<and> lec_staff e = Some (il_staff l)) (td_lecturers s) of
        None \<Rightarrow> [] | Some e \<Rightarrow> lec_id e)"

definition link_lecturer :: "tt_env \<Rightarrow> nat \<Rightarrow> string \<Rightarrow> import_line \<Rightarrow> importResult \<Rightarrow> tt_db \<Rightarrow> importResult \<times> tt_db" where
  "link_lecturer env ln lecturer l r s =
     (if lecturer = [] then (r, s)
      else if te_failing env TAssign ln then (r\<lparr>ir_errors := ir_errors r @ [(ln, LinkFailed)]\<rparr>, s)
      else if list_ex (\<lambda>(t, e, u, _). t = te_tenant env \<and> e = lecturer \<and> u = il_unit l) (td_assignments s) then (r, s)
      else (r, s\<lparr>td_assignments := td_assignments s @ [(te_tenant env, lecturer, il_unit l, il_course l,
              case map_of (td_years s) (te_tenant env) of None \<Rightarrow> [] | Some y \<Rightarrow> y)]\<rparr>))"

text \<open>The slot of a line, once its cohort, unit and lecturer are known.\<close>

definition import_slot :: "tt_env \<Rightarrow> nat \<Rightarrow> string \<Rightarrow> string \<Rightarrow> import_line \<Rightarrow> importResult \<Rightarrow> tt_db \<Rightarrow> importResult \<times> tt_db" where
  "import_slot env ln offering lecturer l r s =
     (case te_time env (il_start l) of
        None \<Rightarrow> (skip_line ln SlotFailed r, s)
      | Some start \<Rightarrow>
          (case cohort_clash env ln offering (il_unit l) (il_day l) start (il_minutes l) s of
             Some x \<Rightarrow> (skip_line ln (CohortBusy (tt_unit x) (tt_start x)) r, s)
           | None \<Rightarrow>
               (case (if il_room l = [] then None
                      else room_taken env ln False (il_room l) offering (il_unit l) (il_day l) start (il_minutes l) None s) of
                  Some x \<Rightarrow> (skip_line ln (RoomBusy (tt_unit x) (tt_start x)) r, s)
                | None \<Rightarrow>
                    (case store_slot env False ln
                        \<lparr>tt_id = te_fresh env (length (td_slots s)), tt_tenant = te_tenant env, tt_offering = offering, tt_unit = il_unit l,
                         tt_day = il_day l, tt_start = start, tt_duration = il_minutes l, tt_room = nullif (il_room l), tt_lecturer = nullif lecturer,
                         tt_venue = resolve_venue env (il_room l) s\<rparr> s of
                       Inl RoomDoubleBooking \<Rightarrow> (skip_line ln RoomRace r, s)
                     | Inl OtherError \<Rightarrow> (skip_line ln SlotFailed r, s)
                     | Inr (_, s') \<Rightarrow> (r\<lparr>ir_inserted := ir_inserted r + 1\<rparr>, s')))))"

definition import_line_step :: "tt_env \<Rightarrow> string list \<Rightarrow> nat \<Rightarrow> string list \<Rightarrow> importResult \<Rightarrow> tt_db \<Rightarrow> importResult \<times> tt_db" where
  "import_line_step env header ln row r s =
     (case read_line header row of
        Inl p \<Rightarrow> (skip_line ln p r, s)
      | Inr l \<Rightarrow>
          (case import_cohort env ln l s of
             None \<Rightarrow> (skip_line ln OfferingFailed r, s)
           | Some (offering, s) \<Rightarrow>
               let s = import_unit env ln l s;
                   lecturer = import_lecturer env ln l s;
                   (r, s) = link_lecturer env ln lecturer l r s
               in import_slot env ln offering lecturer l r s))"

fun import_lines :: "tt_env \<Rightarrow> string list \<Rightarrow> nat \<Rightarrow> string list list \<Rightarrow> importResult \<Rightarrow> tt_db \<Rightarrow> importResult \<times> tt_db" where
  "import_lines env header ln [] r s = (r, s)"
| "import_lines env header ln (row # rows) r s =
     (case import_line_step env header ln row r s of (r, s) \<Rightarrow> import_lines env header (Suc ln) rows r s)"

definition processTimetableCSV :: "tt_env \<Rightarrow> string list list option \<Rightarrow> tt_db \<Rightarrow> (string + importResult) \<times> tt_db" where
  "processTimetableCSV env file s =
     (case file of
        None \<Rightarrow> (Inl ''could not parse the file'', s)
      | Some [] \<Rightarrow> (Inl ''file has no rows'', s)
      | Some (header # rows) \<Rightarrow>
          (case filter (\<lambda>c. column header c = None) [''course_id'', ''unit_id'', ''day'', ''start_time''] of
             c # _ \<Rightarrow> (Inl (''missing required column: '' @ c), s)
           | [] \<Rightarrow>
               (case import_lines env header 1 rows \<lparr>ir_inserted = 0, ir_skipped = 0, ir_errors = []\<rparr> s of (r, s) \<Rightarrow> (Inr r, s))))"

text \<open>The multipart form is \<open>None\<close> when it or its field is missing.\<close>

definition ImportTimetable :: "tt_env \<Rightarrow> string list list option option \<Rightarrow> tt_db \<Rightarrow> importResult reply \<times> tt_db" where
  "ImportTimetable env form s =
     (case form of
        None \<Rightarrow> (Reject 400 ''INVALID_REQUEST'', s)
      | Some file \<Rightarrow>
          (case processTimetableCSV env file s of
             (Inl _, s) \<Rightarrow> (Reject 422 ''CSV_PARSE_ERROR'', s)
           | (Inr r, s) \<Rightarrow> (Reply 200 r, bustTenantManifests env s)))"

section \<open>Reading the grid\<close>

record slotRow =
  rw_id :: string
  rw_offering :: string
  rw_unit :: string
  rw_unit_name :: string
  rw_day :: int
  rw_start :: string
  rw_duration :: int
  rw_room :: string
  rw_room_code :: string
  rw_lecturer :: string
  rw_lecturer_name :: string
  rw_department :: string

record slotOffering =
  ro_id :: string
  ro_course :: string
  ro_course_name :: string
  ro_type :: string
  ro_year :: int
  ro_semester :: int
  ro_level :: string
  ro_intake :: string
  ro_coordinator :: string

record slotGrid =
  gr_offerings :: "slotOffering list"
  gr_slots :: "slotRow list"
  gr_department :: string

definition find_tt_unit :: "string \<Rightarrow> tt_db \<Rightarrow> tt_unit_row option" where
  "find_tt_unit unit s = select_one (\<lambda>u. un_id u = unit) (td_units s)"

definition grid_row :: "tt_db \<Rightarrow> tslot \<Rightarrow> slotRow" where
  "grid_row s x =
     (let u = find_tt_unit (tt_unit x) s;
          c = (case u of None \<Rightarrow> None | Some u \<Rightarrow> select_one (\<lambda>c. co_id c = un_course u) (td_courses s));
          l = select_one (\<lambda>l. Some (lec_id l) = tt_lecturer x) (td_lecturers s)
      in \<lparr>rw_id = tt_id x, rw_offering = tt_offering x, rw_unit = tt_unit x,
          rw_unit_name = (case u of None \<Rightarrow> tt_unit x | Some u \<Rightarrow> un_name u), rw_day = tt_day x,
          rw_start = format_hhmm (tt_start x div 60) (tt_start x mod 60), rw_duration = tt_duration x, rw_room = or_empty (tt_room x),
          rw_room_code = or_empty (tt_venue x), rw_lecturer = or_empty (tt_lecturer x),
          rw_lecturer_name = (case l of None \<Rightarrow> [] | Some l \<Rightarrow> or_empty (lec_name l)),
          rw_department = (case c of None \<Rightarrow> [] | Some c \<Rightarrow> or_empty (co_department c))\<rparr>)"

definition grid_offering :: "tt_db \<Rightarrow> tt_cohort \<Rightarrow> slotOffering option" where
  "grid_offering s o' =
     (case select_one (\<lambda>c. co_id c = tc_course o') (td_courses s) of
        None \<Rightarrow> None
      | Some c \<Rightarrow> Some \<lparr>ro_id = tc_id o', ro_course = tc_course o', ro_course_name = or_empty (co_name c), ro_type = tc_type o',
          ro_year = tc_year o', ro_semester = tc_semester o', ro_level = tc_level o', ro_intake = tc_intake o',
          ro_coordinator = (case select_one (\<lambda>u. Some (us_id u) = tc_coordinator o') (td_users s) of None \<Rightarrow> [] | Some u \<Rightarrow> or_empty (us_name u))\<rparr>)"

text \<open>Offerings come in the collation of the server (\<open>collate\<close>), slots by day and time.\<close>

definition GetTimetableSlots :: "(slotOffering list \<Rightarrow> slotOffering list) \<Rightarrow> tt_env \<Rightarrow> tt_db \<Rightarrow> slotGrid reply" where
  "GetTimetableSlots collate env s =
     (if \<not> te_connected env \<or> te_failing env TRead 0 \<or> te_failing env TRead 1 then Reject 500 ''INTERNAL_ERROR''
      else Reply 200 \<lparr>
        gr_offerings = collate (List.map_filter (grid_offering s) (filter (\<lambda>c. tc_tenant c = te_tenant env) (td_cohorts s))),
        gr_slots = map (grid_row s) (sort_key (\<lambda>x. tt_day x * 1440 + int (tt_start x)) (filter (\<lambda>x. tt_tenant x = te_tenant env) (td_slots s))),
        gr_department = tlcDepartment env s\<rparr>)"

section \<open>The schedule of a unit\<close>

definition coordinatorOffering :: "tt_env \<Rightarrow> tt_db \<Rightarrow> string option" where
  "coordinatorOffering env s =
     (if te_failing env TCohort 0 then None
      else map_option tc_id (select_one (\<lambda>c. tc_coordinator c = Some (te_user env) \<and> tc_tenant c = te_tenant env) (td_cohorts s)))"

record unitSchedule =
  uc_unit :: string
  uc_day :: int
  uc_start :: string
  uc_duration :: int
  uc_locked :: bool

definition schedule_view :: "unit_schedule_row \<Rightarrow> unitSchedule" where
  "schedule_view x =
     \<lparr>uc_unit = sc_unit x, uc_day = (case sc_day x of None \<Rightarrow> 0 | Some d \<Rightarrow> d),
      uc_start = (case sc_start x of None \<Rightarrow> [] | Some t \<Rightarrow> format_hhmm (t div 60) (t mod 60)),
      uc_duration = (case sc_duration x of None \<Rightarrow> 0 | Some d \<Rightarrow> d), uc_locked = sc_locked x\<rparr>"

definition GetUnitSchedule :: "tt_env \<Rightarrow> string \<Rightarrow> tt_db \<Rightarrow> unitSchedule reply" where
  "GetUnitSchedule env unit s =
     (if \<not> te_connected env then Reject 500 ''INTERNAL_ERROR''
      else case coordinatorOffering env s of
        None \<Rightarrow> Reject 404 ''NO_OFFERING''
      | Some oid \<Rightarrow>
          if te_failing env TSchedule 0 then Reject 500 ''INTERNAL_ERROR''
          else case select_one (\<lambda>x. sc_offering x = oid \<and> sc_unit x = unit \<and> sc_tenant x = te_tenant env) (td_schedules s) of
            None \<Rightarrow> Reply 200 \<lparr>uc_unit = unit, uc_day = 0, uc_start = [], uc_duration = 0, uc_locked = False\<rparr>
          | Some x \<Rightarrow> Reply 200 (schedule_view x))"

definition schedule_key :: "unit_schedule_row \<Rightarrow> string \<times> string" where
  "schedule_key x = (sc_offering x, sc_unit x)"

text \<open>The conflict clause overwrites an unlocked row only; the second component is the number of rows affected.\<close>

definition lock_schedule :: "unit_schedule_row \<Rightarrow> unit_schedule_row table \<Rightarrow> unit_schedule_row table \<times> nat" where
  "lock_schedule row rows =
     (if list_ex (\<lambda>x. schedule_key x = schedule_key row) rows
      then let free = (\<lambda>x. schedule_key x = schedule_key row \<and> \<not> sc_locked x) in
        (update_where free (\<lambda>x. x\<lparr>sc_day := sc_day row, sc_start := sc_start row, sc_duration := sc_duration row, sc_locked := True\<rparr>) rows,
         affected free rows)
      else (rows @ [row], 1))"

definition SetUnitSchedule :: "tt_env \<Rightarrow> string \<Rightarrow> (int \<times> string \<times> int) option \<Rightarrow> tt_db \<Rightarrow> unitSchedule reply \<times> tt_db" where
  "SetUnitSchedule env unit body s =
     (case body of
        None \<Rightarrow> (Reject 400 ''INVALID_REQUEST'', s)
      | Some (d, start, mins) \<Rightarrow>
          if \<not> validHHMM start \<or> mins < 5 \<or> 600 < mins then (Reject 400 ''INVALID_SCHEDULE'', s)
          else if d < 0 \<or> 7 < d then (Reject 400 ''INVALID_SCHEDULE'', s)
          else if \<not> te_connected env then (Reject 500 ''INTERNAL_ERROR'', s)
          else case coordinatorOffering env s of
            None \<Rightarrow> (Reject 404 ''NO_OFFERING'', s)
          | Some oid \<Rightarrow>
              (case te_time env start of
                 None \<Rightarrow> (Reject 500 ''INTERNAL_ERROR'', s)
               | Some t \<Rightarrow>
                   if te_failing env TSchedule 0 \<or> \<not> list_ex (\<lambda>u. un_id u = unit) (td_units s) then (Reject 500 ''INTERNAL_ERROR'', s)
                   else
                     let (rows, n) = lock_schedule \<lparr>sc_offering = oid, sc_unit = unit, sc_tenant = te_tenant env,
                           sc_day = (if d = 0 then None else Some d), sc_start = Some t, sc_duration = Some mins, sc_locked = True\<rparr> (td_schedules s)
                     in if n = 0 then (Reject 409 ''SCHEDULE_LOCKED'', s)
                        else (Reply 200 \<lparr>uc_unit = unit, uc_day = d, uc_start = start, uc_duration = mins, uc_locked = True\<rparr>,
                              bustCoordinatorManifest env (te_user env) (s\<lparr>td_schedules := rows\<rparr>))))"

section \<open>Free rooms\<close>

definition mid_dot :: string where
  "mid_dot = [CHR 0x20, CHR 0xC2, CHR 0xB7, CHR 0x20]"

record freeRoom =
  fr_venue :: string
  fr_name :: string
  fr_building :: string
  fr_floor :: int
  fr_capacity :: int
  fr_type :: string
  fr_school :: string
  fr_department :: string
  fr_free :: bool
  fr_by :: string
  fr_until :: string
  fr_kind :: string
  fr_note :: string

definition unit_label :: "string \<Rightarrow> tt_db \<Rightarrow> string" where
  "unit_label unit s = (case find_tt_unit unit s of None \<Rightarrow> unit | Some u \<Rightarrow> if un_name u = [] then unit else un_name u)"

definition live_label :: "live_session \<Rightarrow> tt_db \<Rightarrow> string" where
  "live_label x s =
     (case select_one (\<lambda>u. un_id u = ls_unit x \<and> un_tenant u = ls_tenant x) (td_units s) of
        None \<Rightarrow> ls_unit x | Some u \<Rightarrow> if un_name u = [] then ls_unit x else un_name u)"

definition slot_label :: "tt_db \<Rightarrow> tslot \<Rightarrow> string" where
  "slot_label s x =
     unit_label (tt_unit x) s @
     (case select_one (\<lambda>o'. tc_id o' = tt_offering x \<and> tc_tenant o' = tt_tenant x) (td_cohorts s) of
        None \<Rightarrow> [] | Some o' \<Rightarrow> if tc_type o' = [] then [] else mid_dot @ tc_type o')"

definition slot_until :: "tslot \<Rightarrow> string" where
  "slot_until x = (let n = nat (min (int (tt_start x) + tt_duration x) 1439) in format_hhmm (n div 60) (n mod 60))"

definition occupies :: "tt_venue_row \<Rightarrow> int \<Rightarrow> nat \<Rightarrow> int \<Rightarrow> tslot \<Rightarrow> bool" where
  "occupies v d at mins x =
     (tt_tenant x = ve_tenant v \<and> tt_venue x = Some (ve_id v) \<and> tt_day x = d \<and>
      int (tt_start x) < int at + mins \<and> int at < min (int (tt_start x) + tt_duration x) 1440)"

definition timetabled :: "tt_venue_row \<Rightarrow> int \<Rightarrow> nat \<Rightarrow> int \<Rightarrow> tt_db \<Rightarrow> tslot option" where
  "timetabled v d at mins s =
     (case sort_key tt_start (filter (occupies v d at mins) (td_slots s)) of [] \<Rightarrow> None | x # _ \<Rightarrow> Some x)"

definition live_in :: "tt_venue_row \<Rightarrow> string \<Rightarrow> live_session \<Rightarrow> bool" where
  "live_in v today x =
     (ls_tenant x = ve_tenant v \<and> ls_venue x = Some (ve_id v) \<and> ls_date x = today \<and> ls_status x \<in> set [''ACTIVE'', ''PENDING_LECTURER''])"

definition running :: "tt_venue_row \<Rightarrow> string \<Rightarrow> tt_db \<Rightarrow> live_session option" where
  "running v today s =
     (case sort_key (\<lambda>x. - ls_opened x) (filter (live_in v today) (td_sessions s)) of [] \<Rightarrow> None | x # _ \<Rightarrow> Some x)"

definition room_state :: "tt_db \<Rightarrow> int \<Rightarrow> nat \<Rightarrow> int \<Rightarrow> string \<Rightarrow> tt_venue_row \<Rightarrow> freeRoom" where
  "room_state s d at mins today v =
     (let x = \<lparr>fr_venue = ve_id v, fr_name = ve_name v, fr_building = or_empty (ve_building v),
            fr_floor = (case vn_floor v of None \<Rightarrow> 0 | Some n \<Rightarrow> n), fr_capacity = (case vn_capacity v of None \<Rightarrow> 0 | Some n \<Rightarrow> n),
            fr_type = or_empty (vn_type v),
            fr_school = (case vn_school v of None \<Rightarrow> [] | Some k \<Rightarrow> or_empty (map_of (td_schools s) k)),
            fr_department = (case vn_department v of None \<Rightarrow> [] | Some k \<Rightarrow> or_empty (map_of (td_departments s) k)),
            fr_free = False, fr_by = [], fr_until = [], fr_kind = [], fr_note = []\<rparr>;
          tt = timetabled v d at mins s; live = running v today s;
          tt_label = (case tt of None \<Rightarrow> [] | Some y \<Rightarrow> slot_label s y);
          held_by = (case live of None \<Rightarrow> [] | Some y \<Rightarrow> live_label y s)
      in if held_by \<noteq> [] then
           x\<lparr>fr_by := held_by, fr_kind := ''LIVE_SESSION'',
             fr_note := (case live of Some y \<Rightarrow> if ls_provision y then ''using this room as a provision'' else [] | None \<Rightarrow> [])\<rparr>
         else if tt_label \<noteq> [] then
           x\<lparr>fr_by := tt_label, fr_kind := ''TIMETABLE'', fr_until := (case tt of Some y \<Rightarrow> slot_until y | None \<Rightarrow> [])\<rparr>
         else x\<lparr>fr_free := True\<rparr>)"

record free_reply =
  fq_at :: string
  fq_minutes :: int
  fq_day :: nat
  fq_total :: nat
  fq_free :: nat
  fq_rooms :: "freeRoom list"

definition wanted_minutes :: "string \<Rightarrow> int" where
  "wanted_minutes q = (case go_atoi (trim_space q) of None \<Rightarrow> 60 | Some v \<Rightarrow> if 0 < v \<and> v \<le> 600 then v else 60)"

text \<open>The rooms come in the collation of the server.\<close>

definition FreeRooms :: "(tt_venue_row list \<Rightarrow> tt_venue_row list) \<Rightarrow> tt_env \<Rightarrow> string \<Rightarrow> string \<Rightarrow> tt_db \<Rightarrow> free_reply reply" where
  "FreeRooms collate env q_at q_minutes s =
     (let at = (if validHHMM (trim_space q_at) then trim_space q_at else HHMM (te_zone env) (te_now env));
          mins = wanted_minutes q_minutes;
          d = ISOWeekday (te_zone env) (te_now env)
      in if \<not> te_connected env then Reject 500 ''INTERNAL_ERROR''
         else case (if te_failing env TRead 0 then None else te_time env at) of
           None \<Rightarrow> Reject 500 ''INTERNAL_ERROR''
         | Some t \<Rightarrow>
             let rooms = map (room_state s (int d) t mins (Today (te_zone env) (te_now env)))
                   (collate (filter (\<lambda>v. ve_tenant v = te_tenant env \<and> (case ve_active v of None \<Rightarrow> True | Some b \<Rightarrow> b)) (td_venues s)))
             in Reply 200 \<lparr>fq_at = at, fq_minutes = mins, fq_day = d, fq_total = length rooms, fq_free = length (filter fr_free rooms), fq_rooms = rooms\<rparr>)"

end
