(* ===== verification/Timetable_Props.thy ===== *)
theory Timetable_Props
  imports Timetable
begin

text \<open>
  Properties of the timetable: rooms and cohorts are not booked twice as far as the guards reach, and where they do not; departments;
  the lock of a unit's schedule; the free rooms; the clock texts of an import.
\<close>

section \<open>Steps\<close>

inductive tt_step :: "tt_db \<Rightarrow> tt_db \<Rightarrow> bool" where
  save: "tt_step s (snd (UpsertTimetableSlot env body s))"
| remove: "tt_step s (snd (DeleteTimetableSlot env sid s))"
| import: "tt_step s (snd (ImportTimetable env form s))"
| schedule: "tt_step s (snd (SetUnitSchedule env unit body' s))"

text \<open>Any property of the slots that storing a slot and deleting keep is kept by every step; lemmas for the parts of the import.\<close>

lemma bust_slots [simp]:
  "td_slots (bustCoordinatorManifest env c s) = td_slots s" "td_slots (bustTenantManifests env s) = td_slots s"
  "td_schedules (bustCoordinatorManifest env c s) = td_schedules s" "td_schedules (bustTenantManifests env s) = td_schedules s"
  by (simp_all add: bustCoordinatorManifest_def bustTenantManifests_def)

lemma store_slot_cases:
  assumes "store_slot env rls i row s = Inr (sid, s')"
  shows "s' = s\<lparr>td_slots := upsert tslot_key resave row (td_slots s)\<rparr>"
    and "\<not> list_ex (room_conflict (case select_one (\<lambda>x. tslot_key x = tslot_key row) (td_slots s) of None \<Rightarrow> row | Some old \<Rightarrow> resave row old))
      (filter (\<lambda>x. tslot_key x \<noteq> tslot_key row) (td_slots s))"
  using assms by (auto simp: store_slot_def Let_def split: if_splits)

locale slot_property =
  fixes ok :: "tslot table \<Rightarrow> bool"
  assumes stored: "store_slot env rls i row s = Inr (sid, s') \<Longrightarrow> ok (td_slots s) \<Longrightarrow> ok (td_slots s')"
    and deleted: "ok rows \<Longrightarrow> ok (delete_where p rows)"
begin

lemma save_keeps: "ok (td_slots s) \<Longrightarrow> ok (td_slots (snd (save_slot env req mins s)))"
  unfolding save_slot_def Let_def case_prod_beta
  by (auto intro: stored split: option.split sum.split tt_error.split)

lemma upsert_keeps: "ok (td_slots s) \<Longrightarrow> ok (td_slots (snd (UpsertTimetableSlot env body s)))"
  by (simp add: UpsertTimetableSlot_def save_keeps split: option.split)

lemma delete_keeps: "ok (td_slots s) \<Longrightarrow> ok (td_slots (snd (DeleteTimetableSlot env sid s)))"
  by (auto simp: DeleteTimetableSlot_def intro: deleted split: option.split)

lemma import_slot_keeps: "ok (td_slots s) \<Longrightarrow> ok (td_slots (snd (import_slot env ln offering lecturer l r s)))"
  by (auto simp: import_slot_def intro: stored split: option.split sum.split tt_error.split)

lemma import_line_keeps: "ok (td_slots s) \<Longrightarrow> ok (td_slots (snd (import_line_step env header ln row r s)))"
proof -
  assume s: "ok (td_slots s)"
  have "td_slots s' = td_slots s" if "import_cohort env ln l s = Some (oid, s')" for l oid s'
    using that by (auto simp: import_cohort_def Let_def split: option.splits if_splits)
  moreover have "td_slots (import_unit env ln l s') = td_slots s'" for l s'
    by (simp add: import_unit_def)
  moreover have "td_slots (snd (link_lecturer env ln e l r s')) = td_slots s'" for e l r s'
    by (simp add: link_lecturer_def)
  ultimately show "ok (td_slots (snd (import_line_step env header ln row r s)))"
    using s by (auto simp: import_line_step_def Let_def case_prod_beta intro!: import_slot_keeps split: sum.split option.split)
qed

lemma import_lines_keep: "ok (td_slots s) \<Longrightarrow> ok (td_slots (snd (import_lines env header ln rows r s)))"
proof (induction rows arbitrary: ln r s)
  case (Cons row rows)
  show ?case
    using Cons.IH [OF import_line_keeps [OF Cons.prems, of env header ln row r], of "Suc ln" "fst (import_line_step env header ln row r s)"]
    by (simp add: case_prod_beta)
qed simp

lemma processed:
  assumes "ok (td_slots s)"
  shows "ok (td_slots (snd (processTimetableCSV env content s)))"
proof (cases content)
  case (Some rows)
  then show ?thesis
    using assms import_lines_keep by (cases rows) (simp_all add: processTimetableCSV_def case_prod_beta split: list.split)
qed (simp add: processTimetableCSV_def assms)

lemma step_keeps: "tt_step s s' \<Longrightarrow> ok (td_slots s) \<Longrightarrow> ok (td_slots s')"
proof (induction rule: tt_step.induct)
  case (import s env form)
  then show ?case
    using processed by (auto simp: ImportTimetable_def case_prod_beta split: option.split sum.split)
next
  case (schedule s env unit body')
  then show ?case
    by (auto simp: SetUnitSchedule_def Let_def case_prod_beta split: option.split)
qed (simp_all add: upsert_keeps delete_keeps)

end

section \<open>Rooms\<close>

interpretation tslots: keyed_upsert tslot_key resave
  by unfold_locales (simp add: tslot_key_def resave_def)

lemma upsert_members:
  assumes "distinct (map tslot_key rows)"
  shows "set (upsert tslot_key resave row rows) =
    {x \<in> set rows. tslot_key x \<noteq> tslot_key row} \<union>
    {case select_one (\<lambda>x. tslot_key x = tslot_key row) rows of None \<Rightarrow> row | Some old \<Rightarrow> resave row old}"
proof (cases "select_one (\<lambda>x. tslot_key x = tslot_key row) rows")
  case None
  moreover from None have "\<forall>x \<in> set rows. tslot_key x \<noteq> tslot_key row"
    by (simp add: select_one_None)
  ultimately show ?thesis
    by (auto simp only: upsert_def list_ex_iff) auto
next
  case (Some old)
  then have old: "old \<in> set rows" "tslot_key old = tslot_key row"
    by (auto dest: select_one_Some)
  have uniq: "tslot_key x = tslot_key row \<longleftrightarrow> x = old" if "x \<in> set rows" for x
    using assms old that by (metis distinct_map inj_onD)
  have "upsert tslot_key resave row rows = map (\<lambda>x. if x = old then resave row old else x) rows"
    using old by (auto simp: upsert_def update_where_def list_ex_iff uniq intro!: map_cong)
  moreover have "{x \<in> set rows. tslot_key x \<noteq> tslot_key row} = set rows - {old}"
    using uniq by blast
  ultimately show ?thesis
    using old(1) by (simp only: Some set_map option.case) auto
qed

definition rooms_ok :: "tslot table \<Rightarrow> bool" where
  "rooms_ok rows = (distinct (map tslot_key rows) \<and> (\<forall>x \<in> set rows. \<forall>y \<in> set rows. \<not> room_conflict x y))"

lemma room_conflict_sym: "room_conflict x y \<Longrightarrow> room_conflict y x"
  by (auto simp: room_conflict_def minutes_overlap_def split: option.splits)

lemma room_conflict_irrefl [simp]: "\<not> room_conflict x x"
  by (simp add: room_conflict_def split: option.split)

interpretation room_slots: slot_property rooms_ok
proof
  fix env rls i row s sid s'
  assume st: "store_slot env rls i row s = Inr (sid, s')" and ok: "rooms_ok (td_slots s)"
  let ?new = "case select_one (\<lambda>x. tslot_key x = tslot_key row) (td_slots s) of None \<Rightarrow> row | Some old \<Rightarrow> resave row old"
  have free: "\<not> room_conflict ?new x \<and> \<not> room_conflict x ?new" if "x \<in> set (td_slots s)" "tslot_key x \<noteq> tslot_key row" for x
    using store_slot_cases(2) [OF st] that room_conflict_sym by (auto simp: list_ex_iff)
  have dist: "distinct (map tslot_key (td_slots s))"
    using ok by (simp add: rooms_ok_def)
  show "rooms_ok (td_slots s')"
    using ok free tslots.one_per_key [OF dist, of row] upsert_members [OF dist, of row] store_slot_cases(1) [OF st]
    by (auto simp: rooms_ok_def simp del: split_paired_All)
next
  fix rows p
  assume "rooms_ok rows"
  then show "rooms_ok (delete_where p rows)"
    by (auto simp: rooms_ok_def delete_where_def distinct_map_filter)
qed

interpretation room_steps: kept_property tt_step "\<lambda>s. rooms_ok (td_slots s)"
  by unfold_locales (rule room_slots.step_keeps)


section \<open>Cohorts\<close>

text \<open>Within the day the wrapped comparison of the guard is the overlap of the two lectures.\<close>

lemma wrapped_overlap_exact:
  assumes "0 < m" "0 < n" "int a + m < 1440" "int b + n < 1440"
  shows "wrapped_overlap a m b n \<longleftrightarrow> int a < int b + n \<and> int b < int a + m"
  using assms by (simp add: wrapped_overlap_def time_plus_def)

definition ends_today :: "tslot \<Rightarrow> bool" where
  "ends_today x = (0 < tt_duration x \<and> int (tt_start x) + tt_duration x < 1440)"

definition same_hour :: "tslot \<Rightarrow> tslot \<Rightarrow> bool" where
  "same_hour x y =
     (tt_tenant x = tt_tenant y \<and> tt_offering x = tt_offering y \<and> tt_day x = tt_day y \<and> tslot_key x \<noteq> tslot_key y \<and>
      int (tt_start x) < int (tt_start y) + tt_duration y \<and> int (tt_start y) < int (tt_start x) + tt_duration x)"

definition cohorts_ok :: "tslot table \<Rightarrow> bool" where
  "cohorts_ok rows =
     (distinct (map tslot_key rows) \<and> (\<forall>x \<in> set rows. ends_today x \<and> (\<forall>y \<in> set rows. \<not> same_hour x y)))"

lemma same_hour_sym: "same_hour x y \<Longrightarrow> same_hour y x"
  by (auto simp: same_hour_def)

lemma cohort_clash_None:
  assumes "cohort_clash env i offering unit d start mins s = None" "\<not> te_failing env TClash i"
    and "x \<in> set (td_slots s)" "ends_today x" "0 < mins" "int start + mins < 1440"
    and "tt_tenant x = te_tenant env" "tt_offering x = offering" "tt_day x = d" "\<not> (tt_unit x = unit \<and> tt_start x = start)"
  shows "\<not> (int (tt_start x) < int start + mins \<and> int start < int (tt_start x) + tt_duration x)"
  using assms wrapped_overlap_exact [of "tt_duration x" mins "tt_start x" start]
  by (auto simp: cohort_clash_def select_one_None ends_today_def)

lemma store_keeps_cohorts:
  assumes st: "store_slot env True i row s = Inr (sid, s')" and ok: "cohorts_ok (td_slots s)"
    and row: "tt_tenant row = te_tenant env" "ends_today row" "\<not> te_failing env TClash i"
      "cohort_clash env i (tt_offering row) (tt_unit row) (tt_day row) (tt_start row) (tt_duration row) s = None"
  shows "cohorts_ok (td_slots s')"
proof -
  define new where "new = (case select_one (\<lambda>x. tslot_key x = tslot_key row) (td_slots s) of None \<Rightarrow> row | Some old \<Rightarrow> resave row old)"
  have dist: "distinct (map tslot_key (td_slots s))"
    using ok by (simp add: cohorts_ok_def)
  have tenants: "tt_tenant x = te_tenant env" if "x \<in> set (td_slots s)" "tslot_key x = tslot_key row" for x
    using st that by (auto simp: store_slot_def list_ex_iff split: if_splits)
  have "tt_tenant new = te_tenant env \<and> tslot_key new = tslot_key row \<and> tt_duration new = tt_duration row"
    using row(1) tenants
    by (auto simp: new_def resave_def tslot_key_def split: option.split dest!: select_one_Some)
  then have new: "tt_tenant new = te_tenant env" "tslot_key new = tslot_key row" "tt_duration new = tt_duration row"
      "tt_offering new = tt_offering row" "tt_day new = tt_day row" "tt_start new = tt_start row" "tt_unit new = tt_unit row"
    by (auto simp: tslot_key_def)
  have "\<not> same_hour new x" if "x \<in> set (td_slots s)" "tslot_key x \<noteq> tslot_key row" for x
  proof
    assume "same_hour new x"
    then have "tt_tenant x = te_tenant env" "tt_offering x = tt_offering row" "tt_day x = tt_day row"
        "int (tt_start x) < int (tt_start row) + tt_duration row" "int (tt_start row) < int (tt_start x) + tt_duration x"
      using new by (auto simp: same_hour_def)
    moreover from this have "\<not> (tt_unit x = tt_unit row \<and> tt_start x = tt_start row)"
      using that(2) by (auto simp: tslot_key_def)
    ultimately show False
      using cohort_clash_None [OF row(4,3) that(1)] ok row(2) that(1) by (auto simp: cohorts_ok_def ends_today_def)
  qed
  then have free: "\<not> same_hour new x" "\<not> same_hour x new" if "x \<in> set (td_slots s)" "tslot_key x \<noteq> tslot_key row" for x
    using that same_hour_sym by blast+
  have "ends_today new" "\<not> same_hour new new"
    using row(2) new by (simp_all add: ends_today_def same_hour_def)
  then show ?thesis
    using ok free tslots.one_per_key [OF dist, of row] upsert_members [OF dist, of row, folded new_def] store_slot_cases(1) [OF st]
    by (auto simp: cohorts_ok_def simp del: split_paired_All)
qed

lemma save_slot_cases:
  obtains "td_slots (snd (save_slot env req mins s)) = td_slots s"
  | t sid x s' where "te_time env (sr_start req) = Some t" "cohort_clash env 0 (sr_offering req) (sr_unit req) (sr_day req) t mins s = None"
      "store_slot env True 0 (slot_of env sid req t mins s) s = Inr (x, s')" "td_slots (snd (save_slot env req mins s)) = td_slots s'"
proof (cases "te_time env (sr_start req)")
  case None
  then show ?thesis
    using that(1) by (simp add: save_slot_def case_prod_beta)
next
  case (Some t)
  let ?store = "store_slot env True 0 (slot_of env (te_fresh env (length (td_slots s))) req t mins s) s"
  show ?thesis
  proof (cases "cohort_clash env 0 (sr_offering req) (sr_unit req) (sr_day req) t mins s = None \<and> (\<exists>x s'. ?store = Inr (x, s'))")
    case True
    then obtain x s' where st: "?store = Inr (x, s')"
      by blast
    have "td_slots (snd (save_slot env req mins s)) = td_slots s \<or> td_slots (snd (save_slot env req mins s)) = td_slots s'"
      by (simp add: save_slot_def Some st case_prod_beta)
    then show ?thesis
      using that True Some st by blast
  next
    case False
    then have "td_slots (snd (save_slot env req mins s)) = td_slots s"
      by (cases ?store) (simp_all add: save_slot_def Some case_prod_beta split: tt_error.split)
    then show ?thesis
      by (rule that(1))
  qed
qed

text \<open>
  Cohorts: while every lecture ends before midnight and the guard's query succeeds, saving a slot leaves no two lectures of one cohort
  overlapping, whether the request is stored or refused.
\<close>

theorem cohort_not_double_booked:
  assumes "cohorts_ok (td_slots s)" "\<not> te_failing env TClash 0"
    and "\<forall>t. te_time env (sr_start req) = Some t \<longrightarrow> int t + (if sr_duration req \<le> 0 then 60 else sr_duration req) < 1440"
  shows "cohorts_ok (td_slots (snd (UpsertTimetableSlot env (Some req) s)))"
proof -
  let ?m = "if sr_duration req \<le> 0 then 60 else sr_duration req"
  have "cohorts_ok (td_slots (snd (save_slot env req ?m s)))"
  proof (cases rule: save_slot_cases [of env req ?m s])
    case (2 t sid x s')
    have "cohorts_ok (td_slots s')"
    proof (rule store_keeps_cohorts [OF 2(3) assms(1)])
      show "ends_today (slot_of env sid req t ?m s)"
        using assms(3) 2(1) by (auto simp: ends_today_def slot_of_def)
    qed (use 2(2) assms(2) in \<open>simp_all add: slot_of_def\<close>)
    then show ?thesis
      using 2(4) by simp
  qed (use assms(1) in simp)
  then show ?thesis
    using assms(1) by (simp add: UpsertTimetableSlot_def)
qed

section \<open>Where the guards do not reach\<close>

definition demo_tt :: tt_db where
  "demo_tt = \<lparr>td_slots = [], td_cohorts = [
       \<lparr>tc_id = ''o1'', tc_tenant = ''t1'', tc_course = ''BIT'', tc_type = ''E'', tc_year = 1, tc_semester = 1, tc_level = ''UG'', tc_intake = [], tc_coordinator = None\<rparr>,
       \<lparr>tc_id = ''o2'', tc_tenant = ''t1'', tc_course = ''BIT'', tc_type = ''D'', tc_year = 1, tc_semester = 1, tc_level = ''UG'', tc_intake = [], tc_coordinator = None\<rparr>],
     td_units = [
       \<lparr>un_id = ''BIT1'', un_tenant = ''t1'', un_course = ''BIT'', un_name = ''Logic'', un_year = Some 1, un_semester = Some 1, un_level = None\<rparr>,
       \<lparr>un_id = ''BIT2'', un_tenant = ''t1'', un_course = ''BIT'', un_name = ''Networks'', un_year = Some 1, un_semester = Some 1, un_level = None\<rparr>],
     td_courses = [\<lparr>co_id = ''BIT'', co_tenant = ''t1'', co_name = Some ''IT'', co_department = Some ''Computing'', co_school = None\<rparr>],
     td_lecturers = [], td_assignments = [], td_users = [], td_venues = [], td_schools = [], td_departments = [], td_sessions = [],
     td_schedules = [], td_years = [], td_manifests = []\<rparr>"

definition demo_tt_env :: tt_env where
  "demo_tt_env = \<lparr>te_tenant = ''t1'', te_user = ''adm'', te_role = ''ADMIN'', te_now = 0, te_zone = 0, te_connected = True, te_redis = True,
     te_failing = (\<lambda>_ _. False), te_time = (\<lambda>t. map_option (\<lambda>(h, m). h * 60 + m) (parse_hm t)), te_uuid = (\<lambda>_. True), te_fresh = itoa\<rparr>"

definition demo_slot_request :: "string \<Rightarrow> string \<Rightarrow> string \<Rightarrow> int \<Rightarrow> slot_request" where
  "demo_slot_request offering unit start mins =
     \<lparr>sr_offering = offering, sr_unit = unit, sr_day = 2, sr_start = start, sr_duration = mins, sr_room = ''C1'', sr_lecturer = []\<rparr>"

text \<open>
  Two holes. A lecture that runs past midnight ends, for the guard, in the early morning: an evening cohort is given a second unit in the
  middle of its first. And two slots that name no lecturer are one lecturer to the guard and to the constraint: two
  cohorts with different units are booked into one room at one hour, although "nobody named twice" is to be caught.
\<close>

theorem booking_holes:
  "(let s = snd (UpsertTimetableSlot demo_tt_env (Some (demo_slot_request ''o1'' ''BIT1'' ''22:00'' 180)) demo_tt);
        (r, s') = UpsertTimetableSlot demo_tt_env (Some (demo_slot_request ''o1'' ''BIT2'' ''23:00'' 30)) s
    in accepted r \<and> map (\<lambda>x. (tt_unit x, tt_day x, tt_start x, tt_duration x)) (td_slots s') = [(''BIT1'', 2, 1320, 180), (''BIT2'', 2, 1380, 30)]) \<and>
   (let s = snd (UpsertTimetableSlot demo_tt_env (Some (demo_slot_request ''o1'' ''BIT1'' ''14:00'' 120)) demo_tt);
        (r, s') = UpsertTimetableSlot demo_tt_env (Some (demo_slot_request ''o2'' ''BIT2'' ''14:00'' 120)) s
    in accepted r \<and> map (\<lambda>x. (tt_offering x, tt_unit x, tt_room x, tt_start x)) (td_slots s') =
         [(''o1'', ''BIT1'', Some ''C1'', 840), (''o2'', ''BIT2'', Some ''C1'', 840)])"
  by code_simp

theorem cohort_not_double_booked_witness:
  "cohorts_ok (td_slots (snd (UpsertTimetableSlot demo_tt_env (Some (demo_slot_request ''o1'' ''BIT1'' ''14:00'' 120)) demo_tt)))"
proof -
  have "parse_hm ''14:00'' = Some (14, 0)"
    by code_simp
  then show ?thesis
    using cohort_not_double_booked [of demo_tt demo_tt_env "demo_slot_request ''o1'' ''BIT1'' ''14:00'' 120"]
    by (simp add: demo_tt_def demo_tt_env_def demo_slot_request_def cohorts_ok_def)
qed


section \<open>Departments\<close>

lemma upsert_other_unit:
  assumes "tt_unit row \<noteq> unit"
  shows "filter (\<lambda>x. tt_unit x = unit) (upsert tslot_key resave row rows) = filter (\<lambda>x. tt_unit x = unit) rows"
proof -
  have "filter (\<lambda>x. tt_unit x = unit) (map (\<lambda>x. if tslot_key x = tslot_key row then resave row x else x) rows) =
      filter (\<lambda>x. tt_unit x = unit) rows"
    by (induction rows) (use assms in \<open>auto simp: resave_def tslot_key_def\<close>)
  then show ?thesis
    using assms by (simp add: upsert_def update_where_def)
qed

text \<open>
  A departmental TLC stays in the own department: with a department on the account that can be read, saving and removing change slots
  only of units whose course is filed under that department, compared without case and outer spaces.
\<close>

theorem tlc_own_department:
  assumes "te_role env = RoleTLC" "trim_space (user_department env s) \<noteq> []"
    and "\<not> equal_fold (trim_space (unit_department env unit s)) (trim_space (user_department env s))"
    and "distinct (map tt_id (td_slots s))"
  shows "filter (\<lambda>x. tt_unit x = unit) (td_slots (snd (UpsertTimetableSlot env body s))) = filter (\<lambda>x. tt_unit x = unit) (td_slots s) \<and>
    filter (\<lambda>x. tt_unit x = unit) (td_slots (snd (DeleteTimetableSlot env sid s))) = filter (\<lambda>x. tt_unit x = unit) (td_slots s)"
proof -
  have refused: "checkTimetableScope env unit s \<noteq> None"
    using assms(1-3) by (simp add: checkTimetableScope_def Let_def)
  have saved: "filter (\<lambda>x. tt_unit x = unit) (td_slots (snd (save_slot env req m s))) = filter (\<lambda>x. tt_unit x = unit) (td_slots s)"
    if "sr_unit req \<noteq> unit" for req m
  proof (cases rule: save_slot_cases [of env req m s])
    case (2 t sid x s')
    then have "tt_unit (slot_of env sid req t m s) \<noteq> unit"
      using that by (simp add: slot_of_def)
    then have "filter (\<lambda>x. tt_unit x = unit) (upsert tslot_key resave (slot_of env sid req t m s) (td_slots s)) = filter (\<lambda>x. tt_unit x = unit) (td_slots s)"
      by (rule upsert_other_unit)
    then show ?thesis
      using 2(4) store_slot_cases(1) [OF 2(3)] by simp
  qed simp
  moreover have "filter (\<lambda>x. tt_unit x = unit) (td_slots (snd (DeleteTimetableSlot env sid s))) = filter (\<lambda>x. tt_unit x = unit) (td_slots s)"
  proof -
    have "x = y" if "x \<in> set (td_slots s)" "y \<in> set (td_slots s)" "tt_id x = tt_id y" for x y
      using assms(4) that by (metis distinct_map inj_onD)
    then have del: "filter (\<lambda>y. tt_unit y = unit) (delete_where (\<lambda>y. tt_id y = tt_id x \<and> tt_tenant y = te_tenant env) (td_slots s)) =
        filter (\<lambda>y. tt_unit y = unit) (td_slots s)"
      if "x \<in> set (td_slots s)" "tt_unit x \<noteq> unit" for x
      unfolding delete_where_def filter_filter using that by (intro filter_cong refl) metis
    have "tt_unit x \<noteq> unit" if "checkTimetableScope env (tt_unit x) s = None" for x :: tslot
      using assms(1-3) that by (auto simp: checkTimetableScope_def Let_def)
    then show ?thesis
      by (auto simp: DeleteTimetableSlot_def intro!: del split: option.split dest!: select_one_Some)
  qed
  moreover have "filter (\<lambda>x. tt_unit x = unit) (td_slots (snd (UpsertTimetableSlot env (Some req) s))) =
      filter (\<lambda>x. tt_unit x = unit) (td_slots s)" for req
    using refused saved [of req] by (cases "sr_unit req = unit") (simp_all add: UpsertTimetableSlot_def)
  ultimately show ?thesis
    by (cases body) (simp_all add: UpsertTimetableSlot_def)
qed

definition demo_tlc :: tt_env where
  "demo_tlc = demo_tt_env\<lparr>te_user := ''tlc'', te_role := RoleTLC\<rparr>"

theorem tlc_own_department_witness:
  "filter (\<lambda>x. tt_unit x = ''BIT1'') (td_slots (snd (UpsertTimetableSlot demo_tlc (Some (demo_slot_request ''o1'' ''BIT1'' ''14:00'' 120))
     (demo_tt\<lparr>td_users := [\<lparr>us_id = ''tlc'', us_tenant = ''t1'', us_role = ''TLC'', us_name = None, us_staff = None, us_email = None,
        us_department = Some ''Law'', us_school = None, us_active = None\<rparr>]\<rparr>)))) = []"
proof -
  let ?s = "demo_tt\<lparr>td_users := [\<lparr>us_id = ''tlc'', us_tenant = ''t1'', us_role = ''TLC'', us_name = None, us_staff = None, us_email = None,
        us_department = Some ''Law'', us_school = None, us_active = None\<rparr>]\<rparr>"
  have "user_department demo_tlc ?s = ''Law''" "unit_department demo_tlc ''BIT1'' ?s = ''Computing''" "trim_space ''Law'' = ''Law''"
    "\<not> equal_fold (trim_space ''Computing'') ''Law''"
    by code_simp+
  then show ?thesis
    using tlc_own_department [of demo_tlc ?s "''BIT1''" "Some (demo_slot_request ''o1'' ''BIT1'' ''14:00'' 120)" "''x''"]
    by (simp add: demo_tt_def) (simp add: demo_tlc_def)
qed

section \<open>The lock of a schedule\<close>

lemma save_schedules: "td_schedules (snd (UpsertTimetableSlot env body s)) = td_schedules s"
proof -
  have "td_schedules (snd (save_slot env req m s)) = td_schedules s" for req m
    unfolding save_slot_def Let_def case_prod_beta
    by (auto dest: store_slot_cases(1) split: option.split sum.split tt_error.split)
  then show ?thesis
    by (simp add: UpsertTimetableSlot_def split: option.split)
qed

lemma delete_schedules: "td_schedules (snd (DeleteTimetableSlot env sid s)) = td_schedules s"
  by (simp add: DeleteTimetableSlot_def split: option.split)

lemma import_line_schedules: "td_schedules (snd (import_line_step env header ln row r s)) = td_schedules s"
proof -
  have "td_schedules (snd (import_slot env ln offering lecturer l r s)) = td_schedules s" for offering lecturer l r s
    unfolding import_slot_def by (auto dest: store_slot_cases(1) split: option.split sum.split tt_error.split)
  moreover have "td_schedules s' = td_schedules s" if "import_cohort env ln l s = Some (oid, s')" for l oid s'
    using that by (auto simp: import_cohort_def Let_def split: option.splits if_splits)
  moreover have "td_schedules (import_unit env ln l s') = td_schedules s'" for l s'
    by (simp add: import_unit_def)
  moreover have "td_schedules (snd (link_lecturer env ln e l r s')) = td_schedules s'" for e l r s'
    by (simp add: link_lecturer_def)
  ultimately show ?thesis
    by (auto simp: import_line_step_def Let_def case_prod_beta split: sum.split option.split)
qed

lemma import_schedules: "td_schedules (snd (ImportTimetable env form s)) = td_schedules s"
proof -
  have lines: "td_schedules (snd (import_lines env header ln rows r s)) = td_schedules s" for header ln rows r s
    by (induction rows arbitrary: ln r s) (simp_all add: case_prod_beta import_line_schedules)
  have "td_schedules (snd (processTimetableCSV env content s)) = td_schedules s" for content
    by (cases content; cases "the content") (simp_all add: processTimetableCSV_def case_prod_beta lines split: list.split)
  then show ?thesis
    by (simp add: ImportTimetable_def case_prod_beta split: option.split sum.split)
qed

text \<open>
  A schedule is set once: whatever the coordinators send, a locked row keeps its day, time and length through every step of the
  timetable.
\<close>

theorem schedule_locked_for_good:
  assumes "tt_step\<^sup>*\<^sup>* s s'" and "x \<in> set (td_schedules s)" "sc_locked x"
  shows "x \<in> set (td_schedules s')"
  using assms(1)
proof (induction rule: rtranclp_induct)
  case (step t u)
  have locked: "x \<in> set (fst (lock_schedule row rows))" if "x \<in> set rows" for row rows
    using that assms(3) by (auto simp: lock_schedule_def in_update_where Let_def)
  from step(2) show ?case
  proof cases
    case (schedule env unit body')
    then show ?thesis
      using step(3) locked by (auto simp: SetUnitSchedule_def Let_def case_prod_beta split: option.split)
  qed (use step(3) in \<open>simp_all add: save_schedules delete_schedules import_schedules\<close>)
qed (rule assms(2))

definition demo_coordinator :: tt_env where
  "demo_coordinator = demo_tt_env\<lparr>te_user := ''co'', te_role := ''COORDINATOR''\<rparr>"

definition demo_tt_locked :: tt_db where
  "demo_tt_locked = snd (SetUnitSchedule demo_coordinator ''BIT1'' (Some (2, ''14:00'', 120))
     (demo_tt\<lparr>td_cohorts := map (\<lambda>c. c\<lparr>tc_coordinator := Some ''co''\<rparr>) (td_cohorts demo_tt)\<rparr>))"

definition demo_lock :: unit_schedule_row where
  "demo_lock = \<lparr>sc_offering = ''o1'', sc_unit = ''BIT1'', sc_tenant = ''t1'', sc_day = Some 2, sc_start = Some 840, sc_duration = Some 120, sc_locked = True\<rparr>"

lemma demo_locked_rows: "td_schedules demo_tt_locked = [demo_lock]"
  by code_simp

theorem schedule_locked_for_good_witness:
  "demo_lock \<in> set (td_schedules (snd (SetUnitSchedule demo_coordinator ''BIT1'' (Some (5, ''08:00'', 60)) demo_tt_locked)))"
  by (rule schedule_locked_for_good [OF r_into_rtranclp, OF tt_step.schedule]) (simp_all add: demo_locked_rows demo_lock_def)

section \<open>Free rooms\<close>

lemma first_sorted:
  "(case sort_key f (filter P xs) of [] \<Rightarrow> None | x # _ \<Rightarrow> Some x) = None \<longleftrightarrow> (\<nexists>x. x \<in> set xs \<and> P x)"
  "(case sort_key f (filter P xs) of [] \<Rightarrow> None | x # _ \<Rightarrow> Some x) = Some y \<Longrightarrow> y \<in> set xs \<and> P y"
proof -
  have set: "set (sort_key f (filter P xs)) = {x \<in> set xs. P x}"
    by simp
  show "(case sort_key f (filter P xs) of [] \<Rightarrow> None | x # _ \<Rightarrow> Some x) = None \<longleftrightarrow> (\<nexists>x. x \<in> set xs \<and> P x)"
    using set by (cases "sort_key f (filter P xs)") (auto simp del: set_sort)
  show "(case sort_key f (filter P xs) of [] \<Rightarrow> None | x # _ \<Rightarrow> Some x) = Some y \<Longrightarrow> y \<in> set xs \<and> P y"
    using set by (cases "sort_key f (filter P xs)") (auto simp del: set_sort)
qed

lemma label_not_empty:
  "tt_unit x \<noteq> [] \<Longrightarrow> slot_label s x \<noteq> []" "ls_unit y \<noteq> [] \<Longrightarrow> live_label y s \<noteq> []"
  by (auto simp: slot_label_def unit_label_def live_label_def split: option.splits)

lemma room_state_free:
  assumes "list_all (\<lambda>x. tt_unit x \<noteq> []) (td_slots s)" "list_all (\<lambda>y. ls_unit y \<noteq> []) (td_sessions s)"
  shows "fr_free (room_state s d t mins today v) \<longleftrightarrow> timetabled v d t mins s = None \<and> running v today s = None"
proof -
  have "slot_label s x \<noteq> []" if "timetabled v d t mins s = Some x" for x
    using first_sorted(2) that [unfolded timetabled_def] assms(1) label_not_empty(1) by (fastforce simp: list_all_iff)
  moreover have "live_label y s \<noteq> []" if "running v today s = Some y" for y
    using first_sorted(2) that [unfolded running_def] assms(2) label_not_empty(2) by (fastforce simp: list_all_iff)
  ultimately show ?thesis
    by (cases "timetabled v d t mins s"; cases "running v today s") (auto simp: room_state_def Let_def)
qed

text \<open>
  A room is offered as free exactly when no slot of that weekday is timetabled in it in any minute of the wanted window before midnight, a late
  lecture counting until midnight, and no session of today is open in it.
\<close>

theorem free_rooms_exact:
  assumes "FreeRooms collate env q_at q_minutes s = Reply n r" "room \<in> set (fq_rooms r)" "\<And>vs. set (collate vs) = set vs"
    and "list_all (\<lambda>x. tt_unit x \<noteq> [] \<and> 0 < tt_duration x \<and> tt_start x < 1440) (td_slots s)" "list_all (\<lambda>y. ls_unit y \<noteq> []) (td_sessions s)"
    and "\<And>q t. te_time env q = Some t \<Longrightarrow> t < 1440"
  shows "\<exists>v \<in> set (td_venues s). \<exists>t. fr_venue room = ve_id v \<and> ve_tenant v = te_tenant env \<and> te_time env (fq_at r) = Some t \<and>
    (fr_free room \<longleftrightarrow>
      (\<nexists>x k. x \<in> set (td_slots s) \<and> tt_tenant x = te_tenant env \<and> tt_venue x = Some (ve_id v) \<and> tt_day x = int (fq_day r) \<and>
         int t \<le> k \<and> k < int t + fq_minutes r \<and> int (tt_start x) \<le> k \<and> k < int (tt_start x) + tt_duration x \<and> k < 1440) \<and>
      (\<nexists>y. y \<in> set (td_sessions s) \<and> live_in v (Today (te_zone env) (te_now env)) y))"
proof -
  define mins where "mins = wanted_minutes q_minutes"
  obtain v t where v: "v \<in> set (td_venues s)" "ve_tenant v = te_tenant env" and t: "te_time env (fq_at r) = Some t"
    and room: "room = room_state s (int (fq_day r)) t mins (Today (te_zone env) (te_now env)) v" and mins: "fq_minutes r = mins"
    using assms(1,2,3) by (auto simp: FreeRooms_def Let_def mins_def split: if_splits option.splits)
  have pos: "0 < mins"
    by (simp add: mins_def wanted_minutes_def split: option.split)
  have at: "t < 1440"
    using assms(6) t .
  let ?today = "Today (te_zone env) (te_now env)"
  have occ: "occupies v d t mins x \<longleftrightarrow> tt_tenant x = te_tenant env \<and> tt_venue x = Some (ve_id v) \<and> tt_day x = d \<and>
      (\<exists>k. int t \<le> k \<and> k < int t + mins \<and> int (tt_start x) \<le> k \<and> k < int (tt_start x) + tt_duration x \<and> k < 1440)"
    if "x \<in> set (td_slots s)" for x d
  proof -
    have "0 < tt_duration x" "tt_start x < 1440"
      using assms(4) that by (auto simp: list_all_iff)
    then have "int (tt_start x) < int t + mins \<and> int t < min (int (tt_start x) + tt_duration x) 1440 \<longleftrightarrow>
        (\<exists>k. int t \<le> k \<and> k < int t + mins \<and> int (tt_start x) \<le> k \<and> k < int (tt_start x) + tt_duration x \<and> k < 1440)"
      using pos at by (intro iffI exI [of _ "max (int t) (int (tt_start x))"]) auto
    then show ?thesis
      by (auto simp: occupies_def v(2))
  qed
  have free: "fr_free room \<longleftrightarrow> timetabled v (int (fq_day r)) t mins s = None \<and> running v ?today s = None"
    unfolding room using assms(4,5) by (intro room_state_free) (auto simp: list_all_iff)
  have "timetabled v d t mins s = None \<longleftrightarrow> (\<nexists>x. x \<in> set (td_slots s) \<and> occupies v d t mins x)" for d
    unfolding timetabled_def by (rule first_sorted(1))
  moreover have "running v ?today s = None \<longleftrightarrow> (\<nexists>y. y \<in> set (td_sessions s) \<and> live_in v ?today y)"
    unfolding running_def by (rule first_sorted(1))
  moreover have "fr_venue room = ve_id v"
    by (simp add: room room_state_def Let_def)
  moreover have "(\<nexists>x. x \<in> set (td_slots s) \<and> occupies v (int (fq_day r)) t mins x) \<longleftrightarrow>
      (\<nexists>x k. x \<in> set (td_slots s) \<and> tt_tenant x = te_tenant env \<and> tt_venue x = Some (ve_id v) \<and> tt_day x = int (fq_day r) \<and>
         int t \<le> k \<and> k < int t + mins \<and> int (tt_start x) \<le> k \<and> k < int (tt_start x) + tt_duration x \<and> k < 1440)"
    using occ [where d = "int (fq_day r)"] by blast
  ultimately show ?thesis
    using v t unfolding mins free by (intro bexI [of _ v] exI [of _ t] conjI) (simp_all only: refl)
qed

definition demo_venue :: tt_venue_row where
  "demo_venue = \<lparr>ve_id = ''C1'', ve_tenant = ''t1'', ve_name = ''C1'', ve_building = None, ve_active = None, vn_floor = None, vn_capacity = None,
     vn_type = None, vn_school = None, vn_department = None\<rparr>"

theorem free_rooms_exact_witness:
  "\<exists>r. FreeRooms (\<lambda>vs. vs) (demo_tt_env\<lparr>te_time := \<lambda>_. Some 840\<rparr>) ''14:00'' [] (demo_tt\<lparr>td_venues := [demo_venue]\<rparr>) = Reply 200 r \<and>
    list_ex fr_free (fq_rooms r)"
proof -
  let ?env = "demo_tt_env\<lparr>te_time := \<lambda>_. Some 840\<rparr>" and ?s = "demo_tt\<lparr>td_venues := [demo_venue]\<rparr>"
  have "\<exists>r room. FreeRooms (\<lambda>vs. vs) ?env ''14:00'' [] ?s = Reply 200 r \<and> fq_rooms r = [room]"
    by (simp add: FreeRooms_def Let_def demo_tt_env_def demo_venue_def)
  then obtain r room where r: "FreeRooms (\<lambda>vs. vs) ?env ''14:00'' [] ?s = Reply 200 r" "fq_rooms r = [room]"
    by blast
  then have "fr_free room"
    using free_rooms_exact [OF r(1), of room] by (simp add: demo_tt_def demo_venue_def)
  then show ?thesis
    using r by auto
qed

section \<open>Clock texts\<close>

text \<open>A time as a person writes it with am and pm.\<close>

definition twelve_hour :: "nat \<Rightarrow> nat \<Rightarrow> string" where
  "twelve_hour h m = itoa (if h mod 12 = 0 then 12 else h mod 12) @ '':'' @ pad_decimal 2 m @ (if h < 12 then '' am'' else '' pm'')"

definition clock_chars :: "string \<Rightarrow> bool" where
  "clock_chars u = list_all (\<lambda>c. c = CHR '':'' \<or> is_digit c) u"

lemma clock_char_facts:
  assumes "c = CHR '':'' \<or> is_digit c"
  shows "\<not> is_space c" "lower_char c = c" "c \<noteq> CHR ''a''" "c \<noteq> CHR ''p''" "c \<noteq> CHR ''m''"
  using assms by (auto simp: is_digit_def is_space_def lower_char_def Let_def)

lemma clock_lower: "clock_chars u \<Longrightarrow> to_lower u = u"
  by (auto simp: clock_chars_def to_lower_def list_all_iff intro!: map_idI dest!: bspec clock_char_facts(2))

lemma clock_drop: "clock_chars u \<Longrightarrow> drop_meridiem (u @ v) = u @ drop_meridiem v" if "v = [] \<or> hd v \<noteq> CHR ''m''"
proof (induction u)
  case (Cons c u)
  then have "c \<noteq> CHR ''a''" "c \<noteq> CHR ''p''"
    using clock_char_facts by (auto simp: clock_chars_def)
  with Cons show ?case
    by (cases "u @ v") (auto simp: clock_chars_def)
qed simp

lemma clock_contains: "clock_chars u \<Longrightarrow> c \<in> {CHR ''a'', CHR ''p''} \<Longrightarrow> contains (u @ v) [c, CHR ''m''] = contains v [c, CHR ''m'']"
proof (induction u)
  case (Cons d u)
  then have "d \<noteq> CHR ''a''" "d \<noteq> CHR ''p''"
    using clock_char_facts by (auto simp: clock_chars_def)
  with Cons show ?case
    by (auto simp: clock_chars_def has_prefix_def)
qed simp

lemma trim_space_fixed:
  assumes "s \<noteq> []" "\<not> is_space (hd s)" "\<not> is_space (last s)"
  shows "trim_space s = s"
proof -
  have "trim_left s = s"
    using assms by (simp add: trim_left_fixed)
  moreover have "dropWhile is_space (rev s) = rev s"
    using assms by (cases s rule: rev_cases) simp_all
  ultimately show ?thesis
    by (simp add: trim_space_def trim_right_def)
qed

lemma clock_trim: "clock_chars u \<Longrightarrow> trim_space u = u"
proof (cases "u = []")
  case False
  assume "clock_chars u"
  then have "\<not> is_space c" if "c \<in> set u" for c
    using that clock_char_facts(1) by (auto simp: clock_chars_def list_all_iff)
  then show ?thesis
    using False by (intro trim_space_fixed) auto
qed (simp add: trim_space_def trim_left_def trim_right_def)

lemma index_of_first: "c \<notin> set a \<Longrightarrow> index_byte (a @ c # b) c = Some (length a)"
  by (induction a) auto

lemma digits_clock: "list_all is_digit a \<Longrightarrow> clock_chars a" "list_all is_digit a \<Longrightarrow> CHR '':'' \<notin> set a"
  by (auto simp: clock_chars_def list_all_iff is_digit_def Let_def)

lemma clock_fields_digits:
  assumes "list_all is_digit a" "list_all is_digit b" "length a \<le> 18" "length b \<le> 18"
  shows "clock_fields (a @ CHR '':'' # b) = (int (decimal_value a), int (decimal_value b))"
  using assms by (simp add: clock_fields_def index_of_first digits_clock clock_trim atoiSafe_short)

lemma clock_trim_blank: "clock_chars u \<Longrightarrow> u \<noteq> [] \<Longrightarrow> trim_space (u @ '' '') = u"
proof -
  assume u: "clock_chars u" "u \<noteq> []"
  then have sp: "\<not> is_space (hd u)" "\<not> is_space (last u)"
    using clock_char_facts(1) by (auto simp: clock_chars_def list_all_iff)
  have "dropWhile is_space (rev u) = rev u"
    using u(2) sp(2) by (cases u rule: rev_cases) simp_all
  moreover have "is_space (CHR '' '')"
    by code_simp
  ultimately show ?thesis
    using u(2) sp(1) trim_left_fixed [of "u @ '' ''"] by (simp add: trim_space_def trim_right_def)
qed

lemma meridiem:
  "to_lower '' am'' = '' am''" "to_lower '' pm'' = '' pm''" "contains '' pm'' ''pm''" "contains '' am'' ''am''"
  "\<not> contains '' am'' ''pm''" "\<not> contains '' pm'' ''am''" "drop_meridiem '' am'' = '' ''" "drop_meridiem '' pm'' = '' ''"
  "\<not> contains [] ''am''" "\<not> contains [] ''pm''"
  by code_simp+

text \<open>The digits of a text with its suffix, after the cleaning steps of \<open>parseClock\<close>.\<close>

lemma parseClock_digits:
  assumes "list_all is_digit a" "list_all is_digit b" "a \<noteq> []" "b \<noteq> []" "length a \<le> 18" "length b \<le> 18"
    and "suffix = [] \<and> hh = decimal_value a \<or> suffix = '' am'' \<and> hh = (if decimal_value a = 12 then 0 else decimal_value a) \<or>
      suffix = '' pm'' \<and> hh = (if decimal_value a < 12 then decimal_value a + 12 else decimal_value a)"
    and "hh < 24" "decimal_value b < 60"
  shows "parseClock (a @ CHR '':'' # b @ suffix) = Some (format_hhmm hh (decimal_value b))"
proof -
  let ?u = "a @ CHR '':'' # b" and ?s = "a @ CHR '':'' # b @ suffix"
  have u: "clock_chars ?u"
    using assms(1,2) by (auto simp: clock_chars_def list_all_iff)
  have split_s: "?s = ?u @ suffix"
    by simp
  have ends: "\<not> is_space (hd ?s)" "\<not> is_space (last ?s)"
    using assms(1-4,7) clock_char_facts(1) by (auto simp: list_all_iff is_space_def)
  have low: "to_lower suffix = suffix" and pm: "contains suffix ''pm'' \<longleftrightarrow> suffix = '' pm''" and am: "contains suffix ''am'' \<longleftrightarrow> suffix = '' am''"
    using assms(7) meridiem by (auto simp: to_lower_def)
  have cut: "trim_space (drop_meridiem ?s) = ?u"
    using assms(7) meridiem clock_drop [of suffix ?u] u clock_trim [OF u] clock_trim_blank [OF u] unfolding split_s by auto
  have "trim_space ?s = ?s"
    using ends by (intro trim_space_fixed) auto
  moreover have "to_lower ?s = ?s"
    using clock_lower [OF u] low to_lower_append [of ?u suffix] unfolding split_s by simp
  moreover have "contains ?s ''pm'' \<longleftrightarrow> suffix = '' pm''" "contains ?s ''am'' \<longleftrightarrow> suffix = '' am''"
    unfolding split_s using clock_contains [OF u] pm am by auto
  ultimately show ?thesis
    using assms(7-9) cut clock_fields_digits [OF assms(1,2,5,6)] by (auto simp: parseClock_def Let_def nat_add_distrib)
qed

text \<open>
  The clock of an import: what a person writes for a time of day, on twenty-four hours or with am and pm, midnight as
  12 am and noon as 12 pm, is read back as that time.
\<close>

theorem parse_clock_roundtrip:
  assumes "h < 24" "m < 60"
  shows "parseClock (format_hhmm h m) = Some (format_hhmm h m) \<and> parseClock (twelve_hour h m) = Some (format_hhmm h m)"
proof -
  have two: "pad_decimal 2 m = fixed_digits 2 m" "pad_decimal 2 h = fixed_digits 2 h"
    using assms by (simp_all add: pad2)
  have m: "list_all is_digit (fixed_digits 2 m)" "decimal_value (fixed_digits 2 m) = m" "fixed_digits 2 m \<noteq> []" "length (fixed_digits 2 m) \<le> 18"
    using assms by (simp_all add: fixed_digits_digits decimal_value_fixed del: fixed_digits.simps) (simp add: numeral_2_eq_2)
  have h: "list_all is_digit (fixed_digits 2 h)" "decimal_value (fixed_digits 2 h) = h" "fixed_digits 2 h \<noteq> []" "length (fixed_digits 2 h) \<le> 18"
    using assms by (simp_all add: fixed_digits_digits decimal_value_fixed del: fixed_digits.simps) (simp add: numeral_2_eq_2)
  let ?k = "if h mod 12 = 0 then 12 else h mod 12"
  have late: "h = h mod 12 + 12" if "\<not> h < 12"
    using that assms(1) by (auto simp: mod_if)
  have k: "itoa ?k \<noteq> []" "length (itoa ?k) \<le> 18"
    using itoa_step [of ?k] itoa_small [of ?k] itoa_small [of "?k div 10"] mod_less_divisor [of 12 h]
    by (simp, cases "?k < 10") auto
  have "parseClock (format_hhmm h m) = Some (format_hhmm h m)"
    using parseClock_digits [OF h(1) m(1) h(3) m(3) h(4) m(4), of "[]" h] assms h(2) m(2) by (simp add: format_hhmm_def two)
  moreover have "parseClock (twelve_hour h m) = Some (format_hhmm h m)"
    using parseClock_digits [OF itoa_digits m(1) k(1) m(3) k(2) m(4), of "if h < 12 then '' am'' else '' pm''" h] assms m(2) late
    by (auto simp: twelve_hour_def two)
  ultimately show ?thesis
    by blast
qed

theorem parse_clock_roundtrip_witness: "parseClock (twelve_hour 0 30) = Some (format_hhmm 0 30)"
  using parse_clock_roundtrip [of 0 30] by simp

end
