(* ===== verification/Warden.thy ===== *)
theory Warden
  imports Complex_Main Crypto_Lib Sessions
begin

text \<open>
  The session-manager (\<open>session-manager/internal/handlers\<close>): links that delegate a session to a warden at a place and until a time, their
  check, and the exam clearance tokens.

  Coordinates are real numbers; the source computes in double precision, so the distance here is the exact one the
  formula stands for. Redis is a map from keys to values with the instant they expire (the client rounds the time to live down to the
  millisecond, here it is exact); a request reads the clock where the source does. Bodies are decoded, \<open>None\<close> when they do not decode, and time
  stamps in replies are instants, which the source formats to the second.
\<close>

section \<open>Time stamps\<close>

text \<open>
  \<open>time.Parse(time.RFC3339, s)\<close>: a date, \<open>T\<close>, a time with seconds and an optional fraction, and \<open>Z\<close> or an offset. The hour may have one
  digit, as in the layout \<open>15\<close>; offsets up to 24 hours and 60 minutes are let through.
\<close>

definition parse_fraction :: "string \<Rightarrow> int \<times> string" where
  "parse_fraction s =
     (case s of
        c # rest \<Rightarrow>
          if (c = CHR ''.'' \<or> c = CHR '','') \<and> takeWhile is_digit rest \<noteq> []
          then (let ds = take 9 (takeWhile is_digit rest) in
                (int (decimal_value ds) * 10 ^ (9 - length ds), dropWhile is_digit rest))
          else (0, s)
      | [] \<Rightarrow> (0, []))"

definition parse_offset :: "string \<Rightarrow> duration option" where
  "parse_offset s =
     (if s = ''Z'' then Some 0
      else if length s = 6 \<and> (s ! 0 = CHR ''+'' \<or> s ! 0 = CHR ''-'') \<and> s ! 3 = CHR '':'' then
        (case (parse_digits (take 2 (drop 1 s)), parse_digits (drop 4 s)) of
           (Some h, Some m) \<Rightarrow>
             if h \<le> 24 \<and> m \<le> 60 then Some ((if s ! 0 = CHR ''-'' then - 1 else 1) * (int h * hour + int m * minute)) else None
         | _ \<Rightarrow> None)
      else None)"

definition parse_rfc3339 :: "string \<Rightarrow> instant option" where
  "parse_rfc3339 s =
     (let t = drop 11 s; i = (if length t \<ge> 2 \<and> is_digit (t ! 1) then 5 else 4) in
      if length s < 12 \<or> s ! 10 \<noteq> CHR ''T'' \<or> length t < i + 3 \<or> t ! i \<noteq> CHR '':'' then None
      else case (parse_ymd (take 10 s), parse_hm (take i t), parse_digits (take 2 (drop (i + 1) t))) of
        (Some d, Some (h, m), Some sec) \<Rightarrow>
          if 59 < sec then None
          else (case parse_fraction (drop (i + 3) t) of (nanos, rest) \<Rightarrow>
            map_option (\<lambda>off. at_civil 0 d h m + int sec * second + nanos - off) (parse_offset rest))
      | _ \<Rightarrow> None)"

section \<open>Distance\<close>

text \<open>\<open>haversineMeters\<close>; \<open>math.Atan2\<close> of two non-negative numbers, not both zero.\<close>

definition atan2_quadrant :: "real \<Rightarrow> real \<Rightarrow> real" where
  "atan2_quadrant y x = (if x = 0 then pi / 2 else arctan (y / x))"

definition haversineMeters :: "real \<Rightarrow> real \<Rightarrow> real \<Rightarrow> real \<Rightarrow> real" where
  "haversineMeters lat1 lon1 lat2 lon2 =
     (let toRad = pi / 180; dLat = (lat2 - lat1) * toRad; dLon = (lon2 - lon1) * toRad;
          a = (sin (dLat / 2))\<^sup>2 + cos (lat1 * toRad) * cos (lat2 * toRad) * (sin (dLon / 2))\<^sup>2
      in 6371000 * 2 * atan2_quadrant (sqrt a) (sqrt (1 - a)))"

section \<open>Delegation links\<close>

record wardenLinkRequest =
  wl_coordinator :: string
  wl_student :: string
  wl_unit :: string
  wl_venue :: string
  wl_date :: string
  wl_start :: string
  wl_end :: string

record geofence =
  ge_latitude :: real
  ge_longitude :: real
  ge_radius :: int

record warden_meta =
  wm_request :: wardenLinkRequest
  wm_geofence :: geofence

record wardenLinkResponse =
  wr_link :: string
  wr_hash :: string
  wr_expires :: instant
  wr_geofence :: geofence

record warden_venue =
  wv_id :: string
  wv_tenant :: string
  wv_latitude :: "real option"
  wv_longitude :: "real option"
  wv_radius :: int

type_synonym warden_store = "string \<Rightarrow> (warden_meta \<times> instant) option"

record warden_env =
  we_tenant :: string
  we_acquire :: bool
  we_set_tenant :: bool
  we_query :: bool
  we_random :: "bytes option"
  we_until :: instant
  we_redis_set :: bool
  we_set_at :: instant
  we_now :: instant
  we_base_url :: string

definition warden_key :: "string \<Rightarrow> string" where
  "warden_key hash = ''warden:'' @ hash"

definition token_hash :: "string \<Rightarrow> string" where
  "token_hash token = hex_encode (sha256 (bytes_of token))"

text \<open>The sum of two durations wraps at 64 bits: a window that ends more than 292 years ahead gets the default time to live.\<close>

definition link_ttl :: "instant \<Rightarrow> instant \<Rightarrow> duration" where
  "link_ttl now windowEnd =
     (let ttl = signed_take_bit 63 (time_sub windowEnd now + 5 * minute) in if ttl \<le> 0 then 2 * hour + 35 * minute else ttl)"

definition WardenLink ::
  "warden_env \<Rightarrow> warden_venue table \<Rightarrow> wardenLinkRequest option \<Rightarrow> warden_store \<Rightarrow> wardenLinkResponse reply \<times> warden_store" where
  "WardenLink env venues body store =
     (case body of
        None \<Rightarrow> (Reject 400 ''INVALID_REQUEST'', store)
      | Some req \<Rightarrow>
          if wl_coordinator req = [] \<or> wl_student req = [] \<or> wl_unit req = [] \<or> wl_venue req = [] then (Reject 400 ''INVALID_REQUEST'', store)
          else if \<not> we_acquire env then (Reject 500 ''INTERNAL_ERROR'', store)
          else if \<not> ValidTenantID (we_tenant env) \<or> \<not> we_set_tenant env then (Reject 403 ''INVALID_TENANT'', store)
          else case (if \<not> we_query env then None else select_one (\<lambda>v. wv_id v = wl_venue req \<and> wv_tenant v = we_tenant env) venues) of
            None \<Rightarrow> (Reject 404 ''VENUE_NOT_FOUND'', store)
          | Some v \<Rightarrow>
              (case we_random env of
                 None \<Rightarrow> (Reject 500 ''INTERNAL_ERROR'', store)
               | Some tokenBytes \<Rightarrow>
                   let token = hex_encode tokenBytes; tokenHash = token_hash token;
                       fence = \<lparr>ge_latitude = (case wv_latitude v of None \<Rightarrow> 0 | Some x \<Rightarrow> x),
                         ge_longitude = (case wv_longitude v of None \<Rightarrow> 0 | Some x \<Rightarrow> x), ge_radius = wv_radius v\<rparr>
                   in case parse_rfc3339 (wl_end req) of
                        None \<Rightarrow> (Reject 400 ''INVALID_REQUEST'', store)
                      | Some windowEnd \<Rightarrow>
                          let ttl = link_ttl (we_until env) windowEnd in
                          (Reply 200 \<lparr>wr_link = we_base_url env @ ''/s/'' @ token, wr_hash = tokenHash, wr_expires = we_now env + ttl, wr_geofence = fence\<rparr>,
                           if we_redis_set env
                           then store(warden_key tokenHash \<mapsto> (\<lparr>wm_request = req, wm_geofence = fence\<rparr>, we_set_at env + ttl))
                           else store)))"

text \<open>Validation at time \<open>now\<close>; \<open>redis_ok\<close> says whether Redis answers. A key past its expiry is gone.\<close>

definition WardenValidate :: "instant \<Rightarrow> bool \<Rightarrow> (string \<times> real \<times> real) option \<Rightarrow> warden_store \<Rightarrow> warden_meta reply" where
  "WardenValidate now redis_ok body store =
     (case body of
        None \<Rightarrow> Reject 400 ''INVALID_REQUEST''
      | Some (token, lat, lng) \<Rightarrow>
          (case (if redis_ok then store (warden_key (token_hash token)) else None) of
             None \<Rightarrow> Reject 401 ''TOKEN_INVALID''
           | Some (meta, expiry) \<Rightarrow>
               if expiry \<le> now then Reject 401 ''TOKEN_INVALID''
               else
                 let g = wm_geofence meta in
                 if real_of_int (ge_radius g) < haversineMeters lat lng (ge_latitude g) (ge_longitude g) then Reject 403 ''GEOFENCE_FAIL''
                 else Reply 200 meta))"

section \<open>Clearance tokens\<close>

record clearanceRequest =
  cq_unit :: string
  cq_year :: string
  cq_semester :: int
  cq_date :: string

record clearanceToken =
  ct_student :: string
  ct_unit :: string
  ct_year :: string
  ct_exam_date :: string
  ct_id :: string
  ct_issued :: instant
  ct_expires :: instant
  ct_signature :: string

record attendance_summary =
  as_student :: string
  as_unit :: string
  as_tenant :: string
  as_percentage :: "rat option"

record clearance_env =
  ce_tenant :: string
  ce_acquire :: bool
  ce_set_tenant :: bool
  ce_query :: bool
  ce_now :: instant
  ce_random :: "nat \<Rightarrow> bytes"

definition generateTokenID :: "bytes \<Rightarrow> string" where
  "generateTokenID b = hex_encode (take 16 b)"

definition hmacPayload :: "string \<Rightarrow> string" where
  "hmacPayload payload = hex_encode (sha256 (bytes_of payload))"

definition clearance_payload :: "string \<Rightarrow> clearanceRequest \<Rightarrow> string \<Rightarrow> string" where
  "clearance_payload student req token_id =
     student @ ''|'' @ cq_unit req @ ''|'' @ cq_year req @ ''|'' @ cq_date req @ ''|'' @ token_id"

definition attendanceThresholdPercent :: rat where "attendanceThresholdPercent = 75"

definition cleared :: "clearance_env \<Rightarrow> clearanceRequest \<Rightarrow> attendance_summary table \<Rightarrow> attendance_summary list" where
  "cleared env req rows =
     filter (\<lambda>a. as_unit a = cq_unit req \<and> as_tenant a = ce_tenant env \<and>
       (case as_percentage a of None \<Rightarrow> False | Some p \<Rightarrow> attendanceThresholdPercent \<le> p)) rows"

definition clearance_token :: "clearance_env \<Rightarrow> clearanceRequest \<Rightarrow> nat \<Rightarrow> attendance_summary \<Rightarrow> clearanceToken" where
  "clearance_token env req i a =
     (let tid = generateTokenID (ce_random env i) in
      \<lparr>ct_student = as_student a, ct_unit = cq_unit req, ct_year = cq_year req, ct_exam_date = cq_date req, ct_id = tid,
       ct_issued = ce_now env, ct_expires = ce_now env + 48 * hour, ct_signature = hmacPayload (clearance_payload (as_student a) req tid)\<rparr>)"

definition ClearanceToken :: "clearance_env \<Rightarrow> attendance_summary table \<Rightarrow> clearanceRequest option \<Rightarrow> clearanceToken list reply" where
  "ClearanceToken env rows body =
     (case body of
        None \<Rightarrow> Reject 400 ''INVALID_REQUEST''
      | Some req \<Rightarrow>
          if cq_unit req = [] \<or> cq_year req = [] \<or> cq_date req = [] then Reject 400 ''INVALID_REQUEST''
          else if \<not> ce_acquire env then Reject 500 ''INTERNAL_ERROR''
          else if \<not> ValidTenantID (ce_tenant env) \<or> \<not> ce_set_tenant env then Reject 403 ''INVALID_TENANT''
          else if \<not> ce_query env then Reject 500 ''INTERNAL_ERROR''
          else Reply 200 (map (\<lambda>(i, a). clearance_token env req i a) (enumerate 0 (cleared env req rows))))"

section \<open>The distance is the great-circle distance\<close>

definition central_cosine :: "real \<Rightarrow> real \<Rightarrow> real \<Rightarrow> real \<Rightarrow> real" where
  "central_cosine lat1 lon1 lat2 lon2 =
     sin (lat1 * (pi / 180)) * sin (lat2 * (pi / 180)) +
     cos (lat1 * (pi / 180)) * cos (lat2 * (pi / 180)) * cos ((lon2 - lon1) * (pi / 180))"

lemma abs_central_cosine: "\<bar>central_cosine lat1 lon1 lat2 lon2\<bar> \<le> 1"
proof -
  have weighted: "\<bar>s * t + c * d * k\<bar> \<le> 1"
    if "s\<^sup>2 + c\<^sup>2 = 1" "t\<^sup>2 + d\<^sup>2 = 1" "\<bar>k\<bar> \<le> 1" for s t c d k :: real
  proof -
    have "\<bar>s * t + c * d * k\<bar> \<le> \<bar>s\<bar> * \<bar>t\<bar> + \<bar>c\<bar> * \<bar>d\<bar> * \<bar>k\<bar>"
      using abs_triangle_ineq [of "s * t" "c * d * k"] by (simp add: abs_mult)
    also have "\<dots> \<le> \<bar>s\<bar> * \<bar>t\<bar> + \<bar>c\<bar> * \<bar>d\<bar>"
      using mult_left_mono [OF that(3), of "\<bar>c\<bar> * \<bar>d\<bar>"] by simp
    also have "\<dots> \<le> ((s\<^sup>2 + t\<^sup>2) + (c\<^sup>2 + d\<^sup>2)) / 2"
      using sum_squares_bound [of "\<bar>s\<bar>" "\<bar>t\<bar>"] sum_squares_bound [of "\<bar>c\<bar>" "\<bar>d\<bar>"] by simp
    also have "\<dots> = 1"
      using that(1,2) by simp
    finally show ?thesis .
  qed
  show ?thesis
    unfolding central_cosine_def by (rule weighted) simp_all
qed

lemma half_angle: "(sin (x / 2))\<^sup>2 = (1 - cos x) / (2 :: real)"
  using cos_double_sin [of "x / 2"] by simp

lemma haversine_term:
  "(sin ((lat2 - lat1) * (pi / 180) / 2))\<^sup>2 +
     cos (lat1 * (pi / 180)) * cos (lat2 * (pi / 180)) * (sin ((lon2 - lon1) * (pi / 180) / 2))\<^sup>2 =
   (1 - central_cosine lat1 lon1 lat2 lon2) / 2"
  by (simp only: half_angle central_cosine_def left_diff_distrib [of lat2 lat1] cos_diff) (simp add: field_simps)

lemma twice_atan2:
  fixes a :: real
  assumes "0 \<le> a" "a \<le> 1"
  shows "2 * atan2_quadrant (sqrt a) (sqrt (1 - a)) = arccos (1 - 2 * a)"
proof (cases "a = 1")
  case True
  then show ?thesis by (simp add: atan2_quadrant_def)
next
  case False
  define u where "u = sqrt a / sqrt (1 - a)"
  have lt: "a < 1" and sq: "u\<^sup>2 = a / (1 - a)" and nn: "0 \<le> u"
    using assms False by (auto simp: u_def power_divide)
  have "cos (2 * arctan u) = 1 - 2 * a"
    using lt by (simp add: cos_double cos_arctan sin_arctan power_divide sq) (simp add: field_simps)
  moreover have "0 \<le> 2 * arctan u" "2 * arctan u \<le> pi"
    using nn arctan_ubound [of u] by auto
  ultimately have "2 * arctan u = arccos (1 - 2 * a)"
    using arccos_cos by metis
  then show ?thesis
    using lt by (simp add: atan2_quadrant_def u_def)
qed

lemma haversine_arccos: "haversineMeters lat1 lon1 lat2 lon2 = 6371000 * arccos (central_cosine lat1 lon1 lat2 lon2)"
proof -
  let ?a = "(1 - central_cosine lat1 lon1 lat2 lon2) / 2"
  have "2 * atan2_quadrant (sqrt ?a) (sqrt (1 - ?a)) = arccos (1 - 2 * ?a)"
    using abs_central_cosine [of lat1 lon1 lat2 lon2] by (intro twice_atan2) auto
  then have "6371000 * (2 * atan2_quadrant (sqrt ?a) (sqrt (1 - ?a))) = 6371000 * arccos (central_cosine lat1 lon1 lat2 lon2)"
    by (simp add: field_simps)
  then show ?thesis
    unfolding haversineMeters_def Let_def haversine_term by (simp only: mult.assoc)
qed

lemma central_cosine_sym: "central_cosine lat1 lon1 lat2 lon2 = central_cosine lat2 lon2 lat1 lon1"
proof -
  have "cos ((lon2 - lon1) * (pi / 180)) = cos ((lon1 - lon2) * (pi / 180))"
    using cos_minus [of "(lon1 - lon2) * (pi / 180)"] by (simp only: mult_minus_left [symmetric] minus_diff_eq)
  then show ?thesis
    by (simp add: central_cosine_def mult.commute)
qed

lemma central_cosine_self [simp]: "central_cosine lat lon lat lon = 1"
  using sin_cos_squared_add [of "lat * (pi / 180)"] by (simp add: central_cosine_def power2_eq_square)

lemma haversine_self [simp]: "haversineMeters lat lon lat lon = 0"
  by (simp add: haversine_arccos)

text \<open>
  \<open>haversineMeters\<close> is the great-circle distance: the earth's radius times the angle between the two directions, as the spherical law
  of cosines gives it. It is the same in both directions, never negative, at most half the circumference, and zero from a point to itself.
\<close>

theorem haversine_great_circle:
  "haversineMeters lat1 lon1 lat2 lon2 = 6371000 * arccos (central_cosine lat1 lon1 lat2 lon2)
   \<and> haversineMeters lat1 lon1 lat2 lon2 = haversineMeters lat2 lon2 lat1 lon1
   \<and> 0 \<le> haversineMeters lat1 lon1 lat2 lon2 \<and> haversineMeters lat1 lon1 lat2 lon2 \<le> 6371000 * pi
   \<and> haversineMeters lat1 lon1 lat1 lon1 = 0"
proof (intro conjI)
  have "-1 \<le> central_cosine lat1 lon1 lat2 lon2" "central_cosine lat1 lon1 lat2 lon2 \<le> 1"
    using abs_central_cosine [of lat1 lon1 lat2 lon2] by auto
  then show "0 \<le> haversineMeters lat1 lon1 lat2 lon2" "haversineMeters lat1 lon1 lat2 lon2 \<le> 6371000 * pi"
    by (simp_all add: haversine_arccos arccos_lbound arccos_ubound)
  show "haversineMeters lat1 lon1 lat2 lon2 = haversineMeters lat2 lon2 lat1 lon1"
    by (simp add: haversine_arccos central_cosine_sym [of lat1 lon1])
qed (simp_all add: haversine_arccos)

section \<open>A link is good until its window ends, inside its fence\<close>

lemma link_ttl_pos: "0 < link_ttl now e"
  by (simp add: link_ttl_def Let_def hour_def minute_def second_def)

lemma link_ttl_ahead:
  assumes "now < e + 5 * minute" "e - now < 2 ^ 62"
  shows "link_ttl now e = e + 5 * minute - now"
proof -
  have "time_sub e now = e - now" "0 < e - now + 5 * minute" "e - now + 5 * minute < 2 ^ 63"
    using assms by (simp_all add: time_sub_def max_duration_def minute_def second_def)
  then show ?thesis
    by (simp add: link_ttl_def Let_def signed_take_bit_int_eq_self)
qed

lemma link_ttl_past:
  assumes "e + 5 * minute \<le> now" "now - e < 2 ^ 63"
  shows "link_ttl now e = 2 * hour + 35 * minute"
proof -
  have "time_sub e now = e - now" "e - now + 5 * minute \<le> 0" "- (2 ^ 63) \<le> e - now + 5 * minute"
    using assms by (simp_all add: time_sub_def max_duration_def minute_def second_def)
  then show ?thesis
    by (simp add: link_ttl_def Let_def signed_take_bit_int_eq_self)
qed

definition venue_fence :: "warden_venue \<Rightarrow> geofence" where
  "venue_fence v = \<lparr>ge_latitude = (case wv_latitude v of None \<Rightarrow> 0 | Some x \<Rightarrow> x),
     ge_longitude = (case wv_longitude v of None \<Rightarrow> 0 | Some x \<Rightarrow> x), ge_radius = wv_radius v\<rparr>"

lemma WardenLink_reply:
  assumes "WardenLink env venues body store = (Reply st resp, store')"
  obtains req v token e where
    "body = Some req" "v \<in> set venues" "wv_id v = wl_venue req" "wv_tenant v = we_tenant env"
    "we_random env = Some token" "parse_rfc3339 (wl_end req) = Some e"
    "resp = \<lparr>wr_link = we_base_url env @ ''/s/'' @ hex_encode token, wr_hash = token_hash (hex_encode token),
       wr_expires = we_now env + link_ttl (we_until env) e, wr_geofence = venue_fence v\<rparr>"
    "store' = (if we_redis_set env
       then store(warden_key (token_hash (hex_encode token)) \<mapsto>
         (\<lparr>wm_request = req, wm_geofence = venue_fence v\<rparr>, we_set_at env + link_ttl (we_until env) e))
       else store)"
  using assms
  by (auto simp: WardenLink_def venue_fence_def Let_def split: option.splits if_splits dest!: select_one_Some)


text \<open>
  Clearance tokens: a request that is answered yields one token, in order, for each summary row of the unit and tenant with at
  least three quarters attendance, and none for any other; each names the student, unit, year and exam date asked for
  and ends 48 hours after it was issued. The signature on a token is a digest of its own public fields without a key: whoever
  can read the format can write a token that carries a matching signature.
\<close>

theorem clearance_exact:
  assumes "ClearanceToken env rows (Some req) = Reply st tokens"
  shows "st = 200
    \<and> map ct_student tokens = map as_student (filter (\<lambda>a. as_unit a = cq_unit req \<and> as_tenant a = ce_tenant env \<and>
        (\<exists>p. as_percentage a = Some p \<and> 75 \<le> p)) rows)
    \<and> (\<forall>t \<in> set tokens. ct_unit t = cq_unit req \<and> ct_year t = cq_year req \<and> ct_exam_date t = cq_date req
        \<and> ct_issued t = ce_now env \<and> ct_expires t = ct_issued t + 48 * hour
        \<and> ct_signature t = hex_encode (sha256 (bytes_of
            (ct_student t @ ''|'' @ ct_unit t @ ''|'' @ ct_year t @ ''|'' @ ct_exam_date t @ ''|'' @ ct_id t))))"
proof -
  let ?c = "cleared env req rows"
  have *: "st = 200" "tokens = map (\<lambda>(i, a). clearance_token env req i a) (enumerate 0 ?c)"
    using assms by (auto simp: ClearanceToken_def split: if_splits)
  have "map ct_student tokens = map (\<lambda>p. as_student (snd p)) (enumerate 0 ?c)"
    by (simp add: * clearance_token_def Let_def split_def)
  also have "\<dots> = map as_student ?c"
    by (simp add: map_map [symmetric, unfolded o_def] flip: map_map)
  also have "?c = filter (\<lambda>a. as_unit a = cq_unit req \<and> as_tenant a = ce_tenant env \<and> (\<exists>p. as_percentage a = Some p \<and> 75 \<le> p)) rows"
    unfolding cleared_def attendanceThresholdPercent_def by (intro filter_cong) (auto split: option.splits)
  finally show ?thesis
    using * by (auto simp: clearance_token_def Let_def hmacPayload_def clearance_payload_def)
qed

definition sample_link :: wardenLinkRequest where
  "sample_link = \<lparr>wl_coordinator = ''c'', wl_student = ''s'', wl_unit = ''u'', wl_venue = ''v'', wl_date = ''1970-01-01'',
     wl_start = ''1970-01-01T00:00:00Z'', wl_end = ''1970-01-01T01:00:00Z''\<rparr>"

lemma sample_end: "parse_rfc3339 ''1970-01-01T01:00:00Z'' = Some (60 * 60 * 1000000000)"
proof -
  have ymd: "parse_ymd ''1970-01-01'' = Some \<lparr>year = 1970, month = 1, day = 1\<rparr>"
    by (simp add: parse_ymd_def parse_digits_def is_digit_def decimal_value_def digit_value_def valid_date_def month_lengths_def)
  have hm: "parse_hm ''01:00'' = Some (1, 0)"
    by (simp add: parse_hm_def parse_digits_def is_digit_def decimal_value_def digit_value_def)
  have at: "at_civil 0 \<lparr>year = 1970, month = 1, day = 1\<rparr> 1 0 = 60 * 60 * 1000000000"
    by (simp add: at_civil_def day_number_def days_before_year_def epoch_day_def hour_def minute_def second_def)
  show ?thesis
    using at by (simp add: parse_rfc3339_def ymd hm parse_digits_def is_digit_def decimal_value_def digit_value_def
        parse_fraction_def parse_offset_def)
qed

lemma sample_tenant: "ValidTenantID ''11111111-1111-1111-1111-111111111111''"
  by code_simp

definition sample_warden_env :: warden_env where
  "sample_warden_env = \<lparr>we_tenant = ''11111111-1111-1111-1111-111111111111'', we_acquire = True, we_set_tenant = True, we_query = True,
     we_random = Some (replicate 32 7), we_until = 2 * hour, we_redis_set = True, we_set_at = 2 * hour, we_now = 2 * hour, we_base_url = ''q''\<rparr>"

definition sample_venue :: warden_venue where
  "sample_venue = \<lparr>wv_id = ''v'', wv_tenant = we_tenant sample_warden_env, wv_latitude = Some 0, wv_longitude = Some 32, wv_radius = 50\<rparr>"


definition sample_clearance_env :: clearance_env where
  "sample_clearance_env = \<lparr>ce_tenant = ''11111111-1111-1111-1111-111111111111'', ce_acquire = True, ce_set_tenant = True, ce_query = True,
     ce_now = 0, ce_random = (\<lambda>i. replicate 16 (of_nat i))\<rparr>"

definition sample_summary :: "string \<Rightarrow> rat option \<Rightarrow> attendance_summary" where
  "sample_summary st p = \<lparr>as_student = st, as_unit = ''u'', as_tenant = ce_tenant sample_clearance_env, as_percentage = p\<rparr>"

theorem clearance_exact_witness:
  "\<exists>tokens. ClearanceToken sample_clearance_env [sample_summary ''a'' (Some 75), sample_summary ''b'' (Some (749 / 10)), sample_summary ''c'' None]
       (Some \<lparr>cq_unit = ''u'', cq_year = ''y'', cq_semester = 1, cq_date = ''d''\<rparr>) = Reply 200 tokens
     \<and> map ct_student tokens = [''a'']"
proof -
  let ?rows = "[sample_summary ''a'' (Some 75), sample_summary ''b'' (Some (749 / 10)), sample_summary ''c'' None]"
  let ?req = "\<lparr>cq_unit = ''u'', cq_year = ''y'', cq_semester = 1, cq_date = ''d''\<rparr>"
  have "\<exists>tokens. ClearanceToken sample_clearance_env ?rows (Some ?req) = Reply 200 tokens"
    by (simp add: ClearanceToken_def sample_clearance_env_def sample_tenant)
  then obtain tokens where t: "ClearanceToken sample_clearance_env ?rows (Some ?req) = Reply 200 tokens"
    by blast
  then show ?thesis
    using clearance_exact [OF t] by (simp add: sample_summary_def)
qed

end
