(* ===== verification/Online_Class.thy ===== *)
theory Online_Class
  imports Session_Props
begin

text \<open>
  Online classes (\<open>lecturer_online_class.go\<close>): a lecturer starts a class for an e-learning cohort, shows its rotating code and ends it once
  a quorum has checked in. The sessions, gate logs, check-ins and tenants are the tables of \<open>Sessions\<close>; what only these handlers read is
  a record of its own. All of it runs on the administrative pool, so row-level security does not apply.

  \<open>StartOnlineClass\<close> looks for a running class before its transaction begins: the two halves are definitions of their own, for requests
  that overlap. The label of a cohort is a function of its offering.
\<close>

section \<open>Tables and requests\<close>

record oc_lecturer =
  ol_id :: string
  ol_tenant :: string
  ol_user :: "string option"
  ol_email :: string

record oc_slot =
  os_tenant :: string
  os_unit :: string
  os_offering :: string
  os_lecturer :: "string option"

record oc_offering =
  oo_id :: string
  oo_coordinator :: "string option"
  oo_mode :: string
  oo_label :: string

record oc_tables =
  oc_lecturers :: "oc_lecturer table"
  oc_users :: "(string \<times> string) list"
  oc_slots :: "oc_slot table"
  oc_offerings :: "oc_offering table"
  oc_units :: "(string \<times> string) list"
  oc_assigned :: "(string \<times> string) list"

datatype oc_call =
    OcLecturer | OcCohort | OcCurrent | OcRandom | OcWindow | OcBegin | OcLock | OcInsert | OcLog | OcCommit
  | OcEndQuery | OcEndLog | OcEndSession

record oc_env =
  oc_gw :: gw_env
  oc_failing :: "oc_call \<Rightarrow> bool"

record onlineClassRequest =
  oq_unit :: string
  oq_offering :: string
  oq_fingerprint :: string

record onlineCohort =
  ch_offering :: string
  ch_unit_name :: string
  ch_label :: string
  ch_coordinator :: string
  ch_enrolled :: nat

record onlineClassResponse =
  or_session :: string
  or_unit :: string
  or_unit_name :: string
  or_label :: string
  or_code :: "string option"
  or_remaining :: int
  or_window_end :: "instant option"
  or_present :: nat
  or_enrolled :: nat
  or_started :: "instant option"

section \<open>Who teaches what\<close>

text \<open>\<open>resolveLecturerID\<close>: the lecturer linked to the account, or one without account that has its address.\<close>

definition resolveLecturerID :: "oc_env \<Rightarrow> oc_tables \<Rightarrow> string option" where
  "resolveLecturerID env t =
     (let tenant = ctx_tenant_id (oc_gw env); user = ctx_user_id (oc_gw env) in
      if oc_failing env OcLecturer then None
      else case select_one (\<lambda>l. ol_tenant l = tenant \<and>
                  (ol_user l = Some user \<or> ol_user l = None \<and> map_of (oc_users t) user = Some (ol_email l))) (oc_lecturers t) of
        None \<Rightarrow> None
      | Some l \<Rightarrow> if ol_id l = [] then None else Some (ol_id l))"

definition cohort_size :: "string option \<Rightarrow> gw_state \<Rightarrow> nat" where
  "cohort_size offering s = length (filter (\<lambda>st. st_offering st \<noteq> None \<and> st_offering st = offering \<and> st_enrollment st = ''ACTIVE'') (g_students s))"

definition teaches_slot :: "string \<Rightarrow> oc_tables \<Rightarrow> oc_slot \<Rightarrow> bool" where
  "teaches_slot lecturer t ts =
     (os_lecturer ts = Some lecturer \<or> os_lecturer ts = None \<and> (os_unit ts, lecturer) \<in> set (oc_assigned t))"

text \<open>The rows of the query, each with its delivery mode; a slot without its offering or unit drops out of the join.\<close>

definition cohort_row :: "oc_tables \<Rightarrow> gw_state \<Rightarrow> oc_slot \<Rightarrow> (onlineCohort \<times> string) option" where
  "cohort_row t s ts =
     (case (select_one (\<lambda>o'. oo_id o' = os_offering ts) (oc_offerings t), map_of (oc_units t) (os_unit ts)) of
        (Some o', Some name) \<Rightarrow>
          Some (\<lparr>ch_offering = oo_id o', ch_unit_name = name, ch_label = oo_label o',
             ch_coordinator = (case oo_coordinator o' of None \<Rightarrow> [] | Some c \<Rightarrow> c), ch_enrolled = cohort_size (Some (oo_id o')) s\<rparr>, oo_mode o')
      | _ \<Rightarrow> None)"

definition cohort_rows :: "string \<Rightarrow> string \<Rightarrow> string \<Rightarrow> string option \<Rightarrow> oc_tables \<Rightarrow> gw_state \<Rightarrow> (onlineCohort \<times> string) list" where
  "cohort_rows tenant lecturer unit offering t s =
     remdups (List.map_filter (cohort_row t s)
       (filter (\<lambda>ts. os_tenant ts = tenant \<and> os_unit ts = unit \<and> teaches_slot lecturer t ts \<and>
          (case offering of None \<Rightarrow> True | Some o' \<Rightarrow> os_offering ts = o')) (oc_slots t)))"

definition resolveOnlineCohort :: "oc_env \<Rightarrow> string \<Rightarrow> onlineClassRequest \<Rightarrow> oc_tables \<Rightarrow> gw_state \<Rightarrow> string + onlineCohort" where
  "resolveOnlineCohort env lecturer req t s =
     (let offering = trim_space (oq_offering req) in
      if offering \<noteq> [] \<and> \<not> ValidTenantID offering then Inl ''INVALID_REQUEST''
      else if oc_failing env OcCohort then Inl ''INTERNAL_ERROR''
      else
        let rows = cohort_rows (ctx_tenant_id (oc_gw env)) lecturer (oq_unit req) (nullif offering) t s;
            online = map fst (filter (\<lambda>(_, mode). mode = ''ONLINE'') rows)
        in case online of
             [c] \<Rightarrow> Inr c
           | _ # _ \<Rightarrow> Inl ''AMBIGUOUS_COHORT''
           | [] \<Rightarrow> if rows \<noteq> [] then Inl ''NOT_AN_ONLINE_COHORT'' else Inl ''NOT_YOUR_UNIT'')"

section \<open>The running class\<close>

definition online_of :: "string \<Rightarrow> string \<Rightarrow> session \<Rightarrow> bool" where
  "online_of tenant lecturer r =
     (sess_tenant r = tenant \<and> sess_lecturer r = Some lecturer \<and> sess_delivery_mode r = Some ''ONLINE'' \<and> sess_status r = ''ACTIVE'')"

text \<open>\<^verbatim>\<open>ORDER BY gate_open_time DESC LIMIT 1\<close>: a missing time comes first.\<close>

definition opened_later :: "session \<Rightarrow> session \<Rightarrow> bool" where
  "opened_later a b =
     (case (sess_gate_open a, sess_gate_open b) of (None, Some _) \<Rightarrow> True | (Some x, Some y) \<Rightarrow> y < x | _ \<Rightarrow> False)"

fun newest :: "session list \<Rightarrow> session option" where
  "newest [] = None"
| "newest (r # rs) = (case newest rs of None \<Rightarrow> Some r | Some r' \<Rightarrow> if opened_later r' r then Some r' else Some r)"

definition running_class :: "oc_env \<Rightarrow> string \<Rightarrow> gw_state \<Rightarrow> session option" where
  "running_class env lecturer s = newest (filter (online_of (ctx_tenant_id (oc_gw env)) lecturer) (g_sessions s))"

definition present_count :: "string \<Rightarrow> gw_state \<Rightarrow> nat" where
  "present_count sid s = length (filter (\<lambda>a. session_id a = sid) (g_attendance s))"

definition currentOnlineClass :: "oc_env \<Rightarrow> string \<Rightarrow> oc_tables \<Rightarrow> gw_state \<Rightarrow> onlineClassResponse option" where
  "currentOnlineClass env lecturer t s =
     (if oc_failing env OcCurrent then None
      else case running_class env lecturer s of
        None \<Rightarrow> None
      | Some r \<Rightarrow>
          (case sess_secret r of
             None \<Rightarrow> None
           | Some secret \<Rightarrow>
               if secret = [] then None
               else Some \<lparr>or_session = sess_id r, or_unit = sess_unit r,
                 or_unit_name = (case map_of (oc_units t) (sess_unit r) of None \<Rightarrow> sess_unit r | Some n \<Rightarrow> n),
                 or_label = (case select_one (\<lambda>o'. Some (oo_id o') = sess_offering r) (oc_offerings t) of None \<Rightarrow> [] | Some o' \<Rightarrow> oo_label o'),
                 or_code = Derive secret (g_now (oc_gw env)), or_remaining = SecondsRemaining (g_now (oc_gw env)),
                 or_window_end = sess_window_end r, or_present = present_count (sess_id r) s, or_enrolled = cohort_size (sess_offering r) s,
                 or_started = (case select_one (\<lambda>l. gl_session l = sess_id r) (g_gate_logs s) of None \<Rightarrow> None | Some l \<Rightarrow> gl_scanned l)\<rparr>))"

definition GetOnlineClass :: "oc_env \<Rightarrow> oc_tables \<Rightarrow> gw_state \<Rightarrow> onlineClassResponse option reply" where
  "GetOnlineClass env t s =
     (case resolveLecturerID env t of
        None \<Rightarrow> Reply 204 None
      | Some lecturer \<Rightarrow>
          (case currentOnlineClass env lecturer t s of None \<Rightarrow> Reply 204 None | Some r \<Rightarrow> Reply 200 (Some r)))"

section \<open>Starting a class\<close>

text \<open>The first half: everything up to the transaction. \<open>Inl\<close> is an answer, \<open>Inr\<close> what the second half goes on with.\<close>

definition refusal_status :: "string \<Rightarrow> nat" where
  "refusal_status code =
     (if code = ''INVALID_REQUEST'' then 400 else if code = ''AMBIGUOUS_COHORT'' then 409
      else if code = ''INTERNAL_ERROR'' then 500 else 403)"

definition start_check ::
  "oc_env \<Rightarrow> onlineClassRequest option \<Rightarrow> oc_tables \<Rightarrow> gw_state \<Rightarrow> onlineClassResponse reply + (string \<times> onlineClassRequest \<times> onlineCohort)" where
  "start_check env body t s =
     (case resolveLecturerID env t of
        None \<Rightarrow> Inl (Reject 403 ''NOT_A_LECTURER'')
      | Some lecturer \<Rightarrow>
          (case body of
             None \<Rightarrow> Inl (Reject 400 ''INVALID_REQUEST'')
           | Some req \<Rightarrow>
               if trim_space (oq_unit req) = [] then Inl (Reject 400 ''INVALID_REQUEST'')
               else
                 let req = req\<lparr>oq_unit := trim_space (oq_unit req)\<rparr> in
                 case resolveOnlineCohort env lecturer req t s of
                   Inl code \<Rightarrow> Inl (Reject (refusal_status code) code)
                 | Inr cohort \<Rightarrow>
                     (case currentOnlineClass env lecturer t s of
                        Some existing \<Rightarrow> Inl (Reply 200 existing)
                      | None \<Rightarrow> if oc_failing env OcRandom then Inl (Reject 500 ''INTERNAL_ERROR'') else Inr (lecturer, req, cohort))))"

definition online_minutes :: "oc_env \<Rightarrow> gw_state \<Rightarrow> int" where
  "online_minutes env s = (if oc_failing env OcWindow then 30 else checkin_minutes (oc_gw env) s)"

definition online_session :: "oc_env \<Rightarrow> string \<Rightarrow> bytes \<Rightarrow> string \<Rightarrow> onlineClassRequest \<Rightarrow> onlineCohort \<Rightarrow> gw_state \<Rightarrow> session" where
  "online_session env fresh secret lecturer req cohort s =
     (let g = oc_gw env in
      \<lparr>sess_id = fresh, sess_tenant = ctx_tenant_id g, sess_coordinator = ctx_user_id g, sess_unit = oq_unit req, sess_venue = None,
       sess_lecturer = Some lecturer, sess_date = Today (zone g) (clock_now g), sess_gate_open = Some (g_now g), sess_gate_close = None,
       sess_window_start = Some (g_now g), sess_window_end = Some (g_now g + online_minutes env s * minute), sess_end_time = None,
       sess_status = ''ACTIVE'', sess_secret = Some secret, sess_offering = Some (ch_offering cohort), sess_planned_start = None,
       sess_planned_minutes = None, sess_coordinator_ip = None, sess_provision = False, sess_provision_note = None,
       sess_unscheduled = False, sess_delivery_mode = Some ''ONLINE''\<rparr>)"

definition online_log :: "oc_env \<Rightarrow> string \<Rightarrow> string \<Rightarrow> onlineClassRequest \<Rightarrow> gate_log" where
  "online_log env fresh lecturer req =
     (let g = oc_gw env in
      \<lparr>gl_tenant = ctx_tenant_id g, gl_session = fresh, gl_lecturer = lecturer, gl_open = g_now g, gl_close = None,
       gl_unit = oq_unit req, gl_venue = None, gl_date = Today (zone g) (clock_now g), gl_hours = None, gl_scanned = Some (g_now g),
       gl_fingerprint = nullif (trim_space (oq_fingerprint req)), gl_ended = None, gl_end_fingerprint = None\<rparr>)"

definition start_tx ::
  "oc_env \<Rightarrow> string \<Rightarrow> bytes \<Rightarrow> string \<Rightarrow> onlineClassRequest \<Rightarrow> onlineCohort \<Rightarrow> gw_state \<Rightarrow> onlineClassResponse reply \<times> gw_state" where
  "start_tx env fresh secret lecturer req cohort s =
     (let g = oc_gw env in
      if oc_failing env OcBegin \<or> oc_failing env OcLock then (Reject 500 ''INTERNAL_ERROR'', s)
      else if oc_failing env OcInsert then (Reject 400 ''OPEN_FAILED'', s)
      else if oc_failing env OcLog \<or> oc_failing env OcCommit then (Reject 500 ''INTERNAL_ERROR'', s)
      else (Reply 201 \<lparr>or_session = fresh, or_unit = oq_unit req, or_unit_name = ch_unit_name cohort, or_label = ch_label cohort,
              or_code = Derive secret (g_now g), or_remaining = SecondsRemaining (g_now g),
              or_window_end = Some (g_now g + online_minutes env s * minute), or_present = 0, or_enrolled = ch_enrolled cohort,
              or_started = Some (g_now g)\<rparr>,
            s\<lparr>g_sessions := g_sessions s @ [online_session env fresh secret lecturer req cohort s],
              g_gate_logs := g_gate_logs s @ [online_log env fresh lecturer req]\<rparr>))"

definition StartOnlineClass ::
  "oc_env \<Rightarrow> string \<Rightarrow> bytes \<Rightarrow> onlineClassRequest option \<Rightarrow> oc_tables \<Rightarrow> gw_state \<Rightarrow> onlineClassResponse reply \<times> gw_state" where
  "StartOnlineClass env fresh secret body t s =
     (case start_check env body t s of
        Inl r \<Rightarrow> (r, s)
      | Inr (lecturer, req, cohort) \<Rightarrow> start_tx env fresh secret lecturer req cohort s)"

section \<open>Ending a class\<close>

definition online_hours :: "oc_env \<Rightarrow> gate_log \<Rightarrow> int option" where
  "online_hours env l = map_option (\<lambda>t. round_hundredth_hours (g_now (oc_gw env) - t)) (gl_scanned l)"

definition end_online_log :: "oc_env \<Rightarrow> gate_log \<Rightarrow> gate_log" where
  "end_online_log env l =
     l\<lparr>gl_ended := Some (g_now (oc_gw env)), gl_close := Some (g_now (oc_gw env)), gl_hours := online_hours env l\<rparr>"

definition EndOnlineClass :: "oc_env \<Rightarrow> oc_tables \<Rightarrow> gw_state \<Rightarrow> (string \<times> nat \<times> nat) reply \<times> gw_state" where
  "EndOnlineClass env t s =
     (let g = oc_gw env in
      case resolveLecturerID env t of
        None \<Rightarrow> (Reject 403 ''NOT_A_LECTURER'', s)
      | Some lecturer \<Rightarrow>
          if oc_failing env OcEndQuery then (Reject 500 ''INTERNAL_ERROR'', s)
          else case (running_class env lecturer s, g_tenants s) of
            (Some r, ten # _) \<Rightarrow>
              let attended = present_count (sess_id r) s; enrolled = cohort_size (sess_offering r) s;
                  mine = (\<lambda>l. gl_session l = sess_id r \<and> gl_tenant l = ctx_tenant_id g \<and> gl_ended l = None)
              in if attended < required_students (t_ratio ten) enrolled then (Reject 422 ''NO_QUORUM'', s)
                 else if oc_failing env OcEndLog \<or>
                   \<not> list_all (\<lambda>l. mine l \<longrightarrow> (case online_hours env l of None \<Rightarrow> True | Some h \<Rightarrow> hours_fit h)) (g_gate_logs s)
                 then (Reject 500 ''INTERNAL_ERROR'', s)
                 else
                   let s = s\<lparr>g_gate_logs := update_where mine (end_online_log env) (g_gate_logs s)\<rparr> in
                   if oc_failing env OcEndSession then (Reject 500 ''INTERNAL_ERROR'', s)
                   else (Reply 200 (sess_id r, attended, enrolled),
                     s\<lparr>g_sessions := update_where (\<lambda>r'. sess_id r' = sess_id r \<and> sess_tenant r' = ctx_tenant_id g)
                         (\<lambda>r'. r'\<lparr>sess_status := ''CLOSED'', sess_end_time := Some (g_now g)\<rparr>) (g_sessions s)\<rparr>)
          | _ \<Rightarrow> (Reject 404 ''NO_OPEN_CLASS'', s))"

section \<open>The one hard rule\<close>

text \<open>What makes a class an online one: an offering marked so, with a slot of the unit the lecturer teaches.\<close>

definition online_cohort :: "oc_tables \<Rightarrow> string \<Rightarrow> string \<Rightarrow> string \<Rightarrow> string \<Rightarrow> bool" where
  "online_cohort t tenant unit lecturer offering =
     ((\<exists>o' \<in> set (oc_offerings t). oo_id o' = offering \<and> oo_mode o' = ''ONLINE'') \<and>
      (\<exists>ts \<in> set (oc_slots t). os_tenant ts = tenant \<and> os_unit ts = unit \<and> os_offering ts = offering \<and> teaches_slot lecturer t ts))"

definition class_ok :: "oc_tables \<Rightarrow> session \<Rightarrow> bool" where
  "class_ok t r =
     (sess_delivery_mode r = Some ''ONLINE'' \<longrightarrow>
        (\<exists>lecturer offering. sess_lecturer r = Some lecturer \<and> sess_offering r = Some offering \<and>
           online_cohort t (sess_tenant r) (sess_unit r) lecturer offering))"

type_synonym pending_start = "oc_env \<times> string \<times> onlineClassRequest \<times> onlineCohort"

definition pending_ok :: "oc_tables \<Rightarrow> pending_start \<Rightarrow> bool" where
  "pending_ok t p = (case p of (env, lecturer, req, cohort) \<Rightarrow>
     online_cohort t (ctx_tenant_id (oc_gw env)) (oq_unit req) lecturer (ch_offering cohort))"

text \<open>Requests of all kinds, a start in its two halves, so that starts overlap in every way.\<close>

inductive class_step :: "oc_tables \<Rightarrow> gw_state \<times> pending_start set \<Rightarrow> gw_state \<times> pending_start set \<Rightarrow> bool" for t where
  other: "gw_step s s' \<Longrightarrow> class_step t (s, p) (s', p)"
| check: "start_check env body t s = Inr x \<Longrightarrow> class_step t (s, p) (s, insert (env, x) p)"
| start: "(env, lecturer, req, cohort) \<in> p \<Longrightarrow> class_step t (s, p) (snd (start_tx env fresh secret lecturer req cohort s), p)"
| finish: "class_step t (s, p) (snd (EndOnlineClass env t s), p)"

definition classes_ok :: "oc_tables \<Rightarrow> gw_state \<times> pending_start set \<Rightarrow> bool" where
  "classes_ok t x = ((\<forall>r \<in> set (g_sessions (fst x)). class_ok t r) \<and> (\<forall>p \<in> snd x. pending_ok t p))"

lemma class_ok_update:
  "(\<And>r. sess_delivery_mode (f r) = sess_delivery_mode r \<and> sess_lecturer (f r) = sess_lecturer r \<and> sess_offering (f r) = sess_offering r \<and>
      sess_tenant (f r) = sess_tenant r \<and> sess_unit (f r) = sess_unit r) \<Longrightarrow>
   \<forall>r \<in> set rs. class_ok t r \<Longrightarrow> \<forall>r \<in> set (update_where p f rs). class_ok t r"
  by (auto simp: update_where_def class_ok_def)

lemma OpenSession_classes:
  "\<forall>r \<in> set (g_sessions s). class_ok t r \<Longrightarrow> \<forall>r \<in> set (g_sessions (snd (OpenSession env fresh secret body s))). class_ok t r"
proof -
  assume ok: "\<forall>r \<in> set (g_sessions s). class_ok t r"
  have new: "class_ok t (new_session env fresh secret req l s)" for req l
    by (simp add: class_ok_def new_session_def Let_def split: prod.split)
  have "\<forall>r \<in> set (g_sessions (snd (open_tx env fresh secret req s))). class_ok t r" for req
  proof (cases rule: open_tx_cases [of env fresh secret req s])
    case opened
    then show ?thesis
      using ok new by (auto simp: opened_state_def Let_def)
  qed (use ok in simp)
  then show ?thesis
    using OpenSession_state [of env fresh secret body s] ok by auto
qed

lemma CloseSession_classes:
  "\<forall>r \<in> set (g_sessions s). class_ok t r \<Longrightarrow> \<forall>r \<in> set (g_sessions (snd (CloseSession env sid s))). class_ok t r"
  by (auto simp: CloseSession_def record_hours_def Let_def close_row_def class_ok_def update_where_def)

lemma other_sessions:
  "g_sessions (snd (StudentCheckin env fresh body s)) = g_sessions s"
  "g_sessions (snd (LecturerGateScan env scan s)) = g_sessions s"
  "g_sessions (snd (PutSessionWindow env window s)) = g_sessions s"
  "g_sessions (snd (PutUsersPasscode compare generate env pass s)) = g_sessions s"
proof -
  show "g_sessions (snd (StudentCheckin env fresh body s)) = g_sessions s"
  proof (cases rule: StudentCheckin_cases [of env fresh body s])
    case (checked req student r)
    then show ?thesis
      using record_attendance_rows [of env fresh req student r s] by auto
  qed simp
  show "g_sessions (snd (LecturerGateScan env scan s)) = g_sessions s"
    by (cases rule: LecturerGateScan_cases [of env scan s]) (auto simp: scan_start_def scan_end_def Let_def)
qed (auto simp: PutSessionWindow_def PutUsersPasscode_def Let_def split: option.split prod.split)

lemma gw_step_classes: "gw_step s s' \<Longrightarrow> \<forall>r \<in> set (g_sessions s). class_ok t r \<Longrightarrow> \<forall>r \<in> set (g_sessions s'). class_ok t r"
proof (induction rule: gw_step.induct)
  case (open_session fresh s env secret body)
  then show ?case by (intro OpenSession_classes)
next
  case (close_session s env sid)
  then show ?case by (intro CloseSession_classes)
qed (simp_all only: other_sessions)

lemma cohort_row_mode:
  assumes "cohort_row t s ts = Some (c, mode)"
  shows "ch_offering c = os_offering ts \<and> (\<exists>o' \<in> set (oc_offerings t). oo_id o' = os_offering ts \<and> oo_mode o' = mode)"
  using assms by (auto simp: cohort_row_def split: option.splits dest!: select_one_Some)

lemma cohort_row_online:
  assumes "(c, ''ONLINE'') \<in> set (cohort_rows tenant lecturer unit offering t s)"
  shows "online_cohort t tenant unit lecturer (ch_offering c)"
proof -
  obtain ts where "ts \<in> set (oc_slots t)" "os_tenant ts = tenant" "os_unit ts = unit" "teaches_slot lecturer t ts"
      "cohort_row t s ts = Some (c, ''ONLINE'')"
    using assms by (auto simp: cohort_rows_def List.map_filter_def)
  then show ?thesis
    using cohort_row_mode unfolding online_cohort_def by metis
qed

lemma resolved_cohort:
  assumes "resolveOnlineCohort env lecturer req t s = Inr c"
  shows "online_cohort t (ctx_tenant_id (oc_gw env)) (oq_unit req) lecturer (ch_offering c)"
proof -
  let ?rows = "cohort_rows (ctx_tenant_id (oc_gw env)) lecturer (oq_unit req) (nullif (trim_space (oq_offering req))) t s"
  have "map fst (filter (\<lambda>(_, mode). mode = ''ONLINE'') ?rows) = [c]"
    using assms by (simp add: resolveOnlineCohort_def Let_def split: if_splits list.splits)
  then have "c \<in> fst ` set (filter (\<lambda>(_, mode). mode = ''ONLINE'') ?rows)"
    by (metis list.set_intros(1) list.set_map)
  then have "(c, ''ONLINE'') \<in> set ?rows"
    by auto
  then show ?thesis
    by (rule cohort_row_online)
qed

lemma start_check_cases:
  assumes "start_check env body t s = Inr (lecturer, req, cohort)"
  obtains "resolveLecturerID env t = Some lecturer" "resolveOnlineCohort env lecturer req t s = Inr cohort"
    "currentOnlineClass env lecturer t s = None"
  using assms by (auto simp: start_check_def Let_def split: option.splits if_splits sum.splits)

lemma start_check_pending: "start_check env body t s = Inr x \<Longrightarrow> pending_ok t (env, x)"
  by (cases x) (auto simp: pending_ok_def elim!: start_check_cases intro!: resolved_cohort)

lemma start_tx_cases:
  obtains (same) "snd (start_tx env fresh secret lecturer req cohort s) = s" "\<not> accepted (fst (start_tx env fresh secret lecturer req cohort s))"
  | (started_class) "snd (start_tx env fresh secret lecturer req cohort s) =
      s\<lparr>g_sessions := g_sessions s @ [online_session env fresh secret lecturer req cohort s],
        g_gate_logs := g_gate_logs s @ [online_log env fresh lecturer req]\<rparr>"
  by (cases "\<exists>c \<in> {OcBegin, OcLock, OcInsert, OcLog, OcCommit}. oc_failing env c") (auto simp: start_tx_def Let_def)

lemma EndOnlineClass_sessions:
  "g_sessions (snd (EndOnlineClass env t s)) = g_sessions s \<or>
   (\<exists>p f. g_sessions (snd (EndOnlineClass env t s)) = update_where p f (g_sessions s) \<and>
      f = (\<lambda>r. r\<lparr>sess_status := ''CLOSED'', sess_end_time := Some (g_now (oc_gw env))\<rparr>))"
  by (simp add: EndOnlineClass_def Let_def split: option.split list.split) blast

lemma class_step_ok:
  assumes "class_step t x y" and "classes_ok t x"
  shows "classes_ok t y"
  using assms
proof (induction rule: class_step.induct)
  case (other s s' p)
  then show ?case
    using gw_step_classes by (auto simp: classes_ok_def)
next
  case (check env body s x p)
  then show ?case
    by (auto simp: classes_ok_def start_check_pending)
next
  case (start env lecturer req cohort p s fresh secret)
  have "class_ok t (online_session env fresh secret lecturer req cohort s)"
    using start by (auto simp: classes_ok_def pending_ok_def class_ok_def online_session_def Let_def)
  then show ?case
    using start by (cases rule: start_tx_cases [of env fresh secret lecturer req cohort s]) (auto simp: classes_ok_def)
next
  case (finish s p env)
  then show ?case
    using EndOnlineClass_sessions [of env t s] class_ok_update [of "\<lambda>r. r\<lparr>sess_status := ''CLOSED'', sess_end_time := Some (g_now (oc_gw env))\<rparr>"]
    by (auto simp: classes_ok_def)
qed

interpretation classes: kept_property "class_step t" "classes_ok t" for t
  by unfold_locales (rule class_step_ok)


section \<open>Two taps\<close>

lemma newest_Some: "newest rs = Some r \<Longrightarrow> r \<in> set rs"
  by (induction rs arbitrary: r) (auto split: option.splits if_splits)

lemma newest_None [simp]: "newest rs = None \<longleftrightarrow> rs = []"
  by (cases rs) (auto split: option.split)

lemma online_session_running:
  "online_of (ctx_tenant_id (oc_gw env)) lecturer (online_session env fresh secret lecturer req cohort s)"
  by (simp add: online_of_def online_session_def Let_def)

lemma online_session_secret: "sess_secret (online_session env fresh secret lecturer req cohort s) = Some secret"
  by (simp add: online_session_def Let_def)

text \<open>
  A class that runs is shown, not doubled, when the lecturer asks to start one after it was started. Two requests that both looked before
  either had written start two classes: the lock they take orders the writes and nothing is looked at again under it.
\<close>

theorem online_start_twice:
  assumes "start_check env body t s = Inr (lecturer, req, cohort)" and "start_check env' body' t s = Inr (lecturer, req', cohort')"
    and "ctx_tenant_id (oc_gw env') = ctx_tenant_id (oc_gw env)"
    and "oc_failing env = (\<lambda>_. False)" and "oc_failing env' = (\<lambda>_. False)" and "secret \<noteq> []"
    and "\<forall>r \<in> set (g_sessions s). sess_secret r \<notin> {None, Some []}"
  shows "let s1 = snd (start_tx env fresh secret lecturer req cohort s); s2 = snd (start_tx env' fresh' secret' lecturer req' cohort' s1);
             running = filter (online_of (ctx_tenant_id (oc_gw env)) lecturer)
         in (\<exists>r. start_check env' body'' t s1 = Inl r) \<and> map sess_id (running (g_sessions s1)) = [fresh] \<and>
            map sess_id (running (g_sessions s2)) = [fresh, fresh']"
proof -
  let ?running = "filter (online_of (ctx_tenant_id (oc_gw env)) lecturer)"
  define s1 where "s1 = snd (start_tx env fresh secret lecturer req cohort s)"
  define s2 where "s2 = snd (start_tx env' fresh' secret' lecturer req' cohort' s1)"
  have lecturer: "resolveLecturerID env' t = Some lecturer"
    using start_check_cases [OF assms(2)] .
  have none: "?running (g_sessions s) = []"
  proof (rule ccontr)
    assume "?running (g_sessions s) \<noteq> []"
    then obtain r where r: "newest (?running (g_sessions s)) = Some r"
      using newest_None by (cases "newest (?running (g_sessions s))") auto
    then have "running_class env lecturer s = Some r" "r \<in> set (g_sessions s)"
      using newest_Some [OF r] by (simp_all add: running_class_def)
    moreover have "currentOnlineClass env lecturer t s = None"
      using start_check_cases [OF assms(1)] .
    moreover obtain k where "sess_secret r = Some k" "k \<noteq> []"
      using assms(7) \<open>r \<in> set (g_sessions s)\<close> by (cases "sess_secret r") auto
    ultimately show False
      using assms(4) by (simp add: currentOnlineClass_def)
  qed
  let ?r1 = "online_session env fresh secret lecturer req cohort s" and ?r2 = "online_session env' fresh' secret' lecturer req' cohort' s1"
  have s1: "?running (g_sessions s1) = [?r1]" and s2: "?running (g_sessions s2) = [?r1, ?r2]"
    using none assms(3-5) online_session_running [of env] online_session_running [of env']
    by (simp_all add: s1_def s2_def start_tx_def Let_def)
  have "running_class env' lecturer s1 = Some ?r1"
    using s1 assms(3) by (simp add: running_class_def)
  then have "\<exists>r. currentOnlineClass env' lecturer t s1 = Some r"
    using assms(5,6) by (simp add: currentOnlineClass_def online_session_secret)
  then have "\<exists>r. start_check env' body'' t s1 = Inl r"
    using lecturer by (auto simp: start_check_def Let_def split: option.split sum.split)
  moreover have "sess_id ?r1 = fresh" "sess_id ?r2 = fresh'"
    by (simp_all add: online_session_def Let_def)
  ultimately show ?thesis
    using s1 s2 by (simp add: Let_def flip: s1_def s2_def)
qed

section \<open>A class without a quorum\<close>

text \<open>
  Later requests: anything a student does after the check-in window of the class, the lecturer's own starts and ends, the gate, and coordinators, who
  are other users than the lecturer.
\<close>

inductive later_step :: "oc_tables \<Rightarrow> string \<Rightarrow> instant \<Rightarrow> gw_state \<Rightarrow> gw_state \<Rightarrow> bool" for t user closed where
  open_session: "fresh \<notin> sess_id ` set (g_sessions s) \<Longrightarrow> later_step t user closed s (snd (OpenSession env fresh secret body s))"
| close_session: "ctx_user_id env \<noteq> user \<Longrightarrow> later_step t user closed s (snd (CloseSession env sid s))"
| student_checkin: "closed < g_now env \<Longrightarrow> later_step t user closed s (snd (StudentCheckin env fresh req s))"
| lecturer_scan: "later_step t user closed s (snd (LecturerGateScan env scan s))"
| start_class: "\<not> oc_failing oenv OcCurrent \<Longrightarrow> fresh \<notin> sess_id ` set (g_sessions s) \<Longrightarrow>
    later_step t user closed s (snd (StartOnlineClass oenv fresh secret creq t s))"
| end_class: "later_step t user closed s (snd (EndOnlineClass oenv t s))"

definition stuck :: "string \<Rightarrow> string \<Rightarrow> string \<Rightarrow> instant \<Rightarrow> session \<Rightarrow> gw_state \<Rightarrow> bool" where
  "stuck tenant lecturer user closed r s =
     (filter (online_of tenant lecturer) (g_sessions s) = [r] \<and> (\<forall>r' \<in> set (g_sessions s). sess_id r' = sess_id r \<longrightarrow> r' = r) \<and>
      sess_coordinator r = user \<and> sess_window_end r = Some closed \<and> sess_secret r \<noteq> None \<and> sess_secret r \<noteq> Some [] \<and>
      (\<forall>ten \<in> set (take 1 (g_tenants s)). present_count (sess_id r) s < required_students (t_ratio ten) (cohort_size (sess_offering r) s)))"

lemma count_frames [simp]:
  "present_count sid (s\<lparr>g_sessions := rs\<rparr>) = present_count sid s" "present_count sid (s\<lparr>g_gate_logs := ls\<rparr>) = present_count sid s"
  "cohort_size o' (s\<lparr>g_sessions := rs\<rparr>) = cohort_size o' s" "cohort_size o' (s\<lparr>g_gate_logs := ls\<rparr>) = cohort_size o' s"
  by (simp_all add: present_count_def cohort_size_def)

lemma stuck_cong:
  "g_sessions s' = g_sessions s \<Longrightarrow> g_tenants s' = g_tenants s \<Longrightarrow> g_students s' = g_students s \<Longrightarrow>
   present_count (sess_id r) s' = present_count (sess_id r) s \<Longrightarrow> stuck tenant lecturer user closed r s' = stuck tenant lecturer user closed r s"
  by (simp add: stuck_def cohort_size_def)

lemma stuck_session:
  assumes "stuck tenant lecturer user closed r s"
  shows "r \<in> set (g_sessions s)" "online_of tenant lecturer r"
    "x \<in> set (g_sessions s) \<Longrightarrow> online_of tenant lecturer x \<Longrightarrow> x = r" "x \<in> set (g_sessions s) \<Longrightarrow> sess_id x = sess_id r \<Longrightarrow> x = r"
proof -
  have f: "filter (online_of tenant lecturer) (g_sessions s) = [r]"
    using assms by (simp add: stuck_def)
  then have "set (filter (online_of tenant lecturer) (g_sessions s)) = {r}"
    by simp
  then show "r \<in> set (g_sessions s)" "online_of tenant lecturer r" "x \<in> set (g_sessions s) \<Longrightarrow> online_of tenant lecturer x \<Longrightarrow> x = r"
    by auto
  show "x \<in> set (g_sessions s) \<Longrightarrow> sess_id x = sess_id r \<Longrightarrow> x = r"
    using assms by (simp add: stuck_def)
qed

lemma filter_update_none:
  "(\<And>x. x \<in> set rows \<Longrightarrow> p x \<Longrightarrow> \<not> q x \<and> \<not> q (f x)) \<Longrightarrow> filter q (update_where p f rows) = filter q rows"
  by (induction rows) auto

text \<open>Closing other sessions, and opening one that is not a class of this lecturer.\<close>

lemma stuck_close:
  assumes "stuck tenant lecturer user closed r s" and "\<not> p r" and "\<And>x. sess_id (f x) = sess_id x \<and> sess_status (f x) = ''CLOSED''"
  shows "stuck tenant lecturer user closed r (s\<lparr>g_sessions := update_where p f (g_sessions s)\<rparr>)"
proof -
  have "filter (online_of tenant lecturer) (update_where p f (g_sessions s)) = filter (online_of tenant lecturer) (g_sessions s)"
  proof (rule filter_update_none)
    fix x assume "x \<in> set (g_sessions s)" "p x"
    then show "\<not> online_of tenant lecturer x \<and> \<not> online_of tenant lecturer (f x)"
      using stuck_session(3) [OF assms(1), of x] assms(2) assms(3) [of x] by (auto simp: online_of_def)
  qed
  moreover have "\<forall>x \<in> set (update_where p f (g_sessions s)). sess_id x = sess_id r \<longrightarrow> x = r"
    using stuck_session(4) [OF assms(1)] assms(2,3) by (auto simp: update_where_def) metis
  ultimately show ?thesis
    using assms(1) by (simp add: stuck_def)
qed

lemma stuck_open:
  assumes "stuck tenant lecturer user closed r s" and "sess_id x \<notin> sess_id ` set (g_sessions s)" and "\<not> online_of tenant lecturer x"
  shows "stuck tenant lecturer user closed r (s\<lparr>g_sessions := g_sessions s @ [x]\<rparr>)"
    and "stuck tenant lecturer user closed r (s\<lparr>g_sessions := g_sessions s @ [x], g_gate_logs := ls\<rparr>)"
  using assms stuck_session(1) [OF assms(1)] by (auto simp: stuck_def)

lemma stuck_running:
  assumes "stuck (ctx_tenant_id (oc_gw env)) lecturer user closed r s"
  shows "running_class env lecturer s = Some r"
  using assms by (simp add: running_class_def stuck_def)

lemma running_member: "running_class env lecturer s = Some x \<Longrightarrow> x \<in> set (g_sessions s) \<and> online_of (ctx_tenant_id (oc_gw env)) lecturer x"
  using newest_Some unfolding running_class_def by fastforce

lemma stuck_start:
  assumes "stuck (ctx_tenant_id (oc_gw env)) lecturer user closed r s" and "\<not> oc_failing env OcCurrent" and "resolveLecturerID env t = Some lecturer"
  obtains a where "start_check env body t s = Inl a" "\<And>st x. a = Reply st x \<Longrightarrow> or_session x = sess_id r"
proof -
  obtain k where "sess_secret r = Some k" "k \<noteq> []"
    using assms(1) by (auto simp: stuck_def)
  then have "\<exists>x. currentOnlineClass env lecturer t s = Some x \<and> or_session x = sess_id r"
    using assms(2) stuck_running [OF assms(1)] by (simp add: currentOnlineClass_def)
  then show thesis
    using that assms(3) by (cases "start_check env body t s") (auto simp: start_check_def Let_def split: option.splits sum.splits if_splits)
qed

lemma checkin_stuck:
  assumes "stuck tenant lecturer user closed r s" and "closed < g_now env"
  shows "stuck tenant lecturer user closed r (snd (StudentCheckin env fresh body s))"
proof (cases "snd (StudentCheckin env fresh body s) = s")
  case False
  then obtain req student x where x: "visible_session env (c_session req) s = Some x"
      "\<not> (case sess_window_end x of None \<Rightarrow> False | Some t \<Rightarrow> t < g_now env)"
      "StudentCheckin env fresh body s = record_attendance env fresh req student x s"
    using StudentCheckin_reaches by blast
  have "x \<in> set (g_sessions s)" "sess_id x = c_session req"
    using x(1) by (auto simp: visible_session_def split: if_splits dest: select_one_Some)
  moreover have "x \<noteq> r"
    using x(2) assms by (auto simp: stuck_def)
  ultimately have "c_session req \<noteq> sess_id r"
    using stuck_session(4) [OF assms(1)] by metis
  then have "stuck tenant lecturer user closed r (snd (record_attendance env fresh req student x s)) = stuck tenant lecturer user closed r s"
    using record_attendance_rows [of env fresh req student x s] by (intro stuck_cong) (auto simp: present_count_def checkin_row_def)
  then show ?thesis
    using assms(1) x(3) by simp
qed (use assms(1) in simp)

lemma scan_stuck:
  assumes "stuck tenant lecturer user closed r s"
  shows "stuck tenant lecturer user closed r (snd (LecturerGateScan env scan s))"
proof -
  have "g_tenants (snd (LecturerGateScan env scan s)) = g_tenants s \<and> g_students (snd (LecturerGateScan env scan s)) = g_students s \<and>
      g_attendance (snd (LecturerGateScan env scan s)) = g_attendance s"
    by (cases rule: LecturerGateScan_cases [of env scan s]) (auto simp: scan_start_def scan_end_def Let_def)
  then show ?thesis
    using assms stuck_cong [OF other_sessions(2)] by (simp add: present_count_def)
qed

lemma start_stuck:
  assumes "stuck tenant lecturer user closed r s" and "\<not> oc_failing env OcCurrent" and "fresh \<notin> sess_id ` set (g_sessions s)"
  shows "stuck tenant lecturer user closed r (snd (StartOnlineClass env fresh secret body t s))"
proof (cases "start_check env body t s")
  case (Inr x)
  then obtain l req cohort where x: "x = (l, req, cohort)" "resolveLecturerID env t = Some l"
    by (metis prod_cases3 start_check_cases)
  have "\<not> (l = lecturer \<and> ctx_tenant_id (oc_gw env) = tenant)"
    using stuck_start [of env l user closed r s t body] assms(1,2) x(2) Inr by auto
  then have "\<not> online_of tenant lecturer (online_session env fresh secret l req cohort s)"
    "sess_id (online_session env fresh secret l req cohort s) = fresh"
    by (auto simp: online_of_def online_session_def Let_def)
  then have "stuck tenant lecturer user closed r (snd (start_tx env fresh secret l req cohort s))"
    using assms by (cases rule: start_tx_cases [of env fresh secret l req cohort s]) (simp_all add: stuck_open)
  then show ?thesis
    by (simp add: StartOnlineClass_def Inr x(1))
qed (use assms in \<open>simp add: StartOnlineClass_def\<close>)

lemma end_refused:
  assumes "stuck (ctx_tenant_id (oc_gw env)) lecturer user closed r s" and "resolveLecturerID env t = Some lecturer"
  shows "snd (EndOnlineClass env t s) = s"
    and "\<not> oc_failing env OcEndQuery \<Longrightarrow> g_tenants s \<noteq> [] \<Longrightarrow> EndOnlineClass env t s = (Reject 422 ''NO_QUORUM'', s)"
proof -
  have "present_count (sess_id r) s < required_students (t_ratio ten) (cohort_size (sess_offering r) s)" if "g_tenants s = ten # ts" for ten ts
    using assms(1) that by (simp add: stuck_def)
  then show "snd (EndOnlineClass env t s) = s"
    "\<not> oc_failing env OcEndQuery \<Longrightarrow> g_tenants s \<noteq> [] \<Longrightarrow> EndOnlineClass env t s = (Reject 422 ''NO_QUORUM'', s)"
    using stuck_running [OF assms(1)] assms(2) by (auto simp: EndOnlineClass_def Let_def split: list.split)
qed

lemma end_stuck:
  assumes "stuck tenant lecturer user closed r s"
  shows "stuck tenant lecturer user closed r (snd (EndOnlineClass env t s))"
proof (cases "resolveLecturerID env t = Some lecturer \<and> ctx_tenant_id (oc_gw env) = tenant \<or> snd (EndOnlineClass env t s) = s")
  case True
  then show ?thesis
    using assms end_refused(1) by metis
next
  case False
  then obtain l x ten ts where x: "resolveLecturerID env t = Some l" "running_class env l s = Some x" "g_tenants s = ten # ts"
    by (auto simp: EndOnlineClass_def Let_def split: option.splits list.splits if_splits)
  have "x \<in> set (g_sessions s)" "online_of (ctx_tenant_id (oc_gw env)) l x"
    using running_member [OF x(2)] by auto
  moreover have "\<not> online_of (ctx_tenant_id (oc_gw env)) l r"
    using stuck_session(2) [OF assms] False x(1) by (auto simp: online_of_def)
  ultimately have "sess_id x \<noteq> sess_id r"
    using stuck_session(4) [OF assms] by metis
  let ?p = "\<lambda>r'. sess_id r' = sess_id x \<and> sess_tenant r' = ctx_tenant_id (oc_gw env)"
  let ?f = "\<lambda>r'. r'\<lparr>sess_status := ''CLOSED'', sess_end_time := Some (g_now (oc_gw env))\<rparr>"
  have logs: "stuck tenant lecturer user closed r (s1\<lparr>g_gate_logs := ls\<rparr>) = stuck tenant lecturer user closed r s1" for s1 ls
    by (rule stuck_cong) (simp_all add: present_count_def)
  have "stuck tenant lecturer user closed r (s\<lparr>g_gate_logs := ls, g_sessions := update_where ?p ?f (g_sessions s)\<rparr>)" for ls
    using stuck_close [of tenant lecturer user closed r "s\<lparr>g_gate_logs := ls\<rparr>" ?p ?f] \<open>sess_id x \<noteq> sess_id r\<close> assms by (simp add: logs)
  then show ?thesis
    using assms logs by (simp add: EndOnlineClass_def x Let_def)
qed

lemma later_stuck:
  assumes "later_step t user closed s s'" and "stuck tenant lecturer user closed r s"
  shows "stuck tenant lecturer user closed r s'"
  using assms
proof (induction rule: later_step.induct)
  case (open_session fresh s env secret body)
  have "\<not> online_of tenant lecturer (new_session env fresh secret req l s)" "sess_id (new_session env fresh secret req l s) = fresh" for req l
    by (simp_all add: online_of_def new_session_def Let_def split: prod.split)
  then have "stuck tenant lecturer user closed r (snd (open_tx env fresh secret req s))" for req
    using open_session by (cases rule: open_tx_cases [of env fresh secret req s]) (auto simp: opened_state_def Let_def intro: stuck_open)
  then show ?case
    using OpenSession_state [of env fresh secret body s] open_session(2) by auto
next
  case (close_session env s sid)
  have "\<not> closable env sid r"
    using close_session by (auto simp: closable_def stuck_def)
  then have closed: "stuck tenant lecturer user closed r (s\<lparr>g_sessions := update_where (closable env sid) (close_row env) (g_sessions s)\<rparr>)"
    using close_session by (intro stuck_close) (auto simp: close_row_def)
  have "stuck tenant lecturer user closed r (record_hours env sid s1) = stuck tenant lecturer user closed r s1" for s1
    by (rule stuck_cong) (simp_all add: record_hours_def present_count_def Let_def)
  then show ?case
    using closed close_session(2) by (simp add: CloseSession_def Let_def)
next
  case (student_checkin env s fresh req)
  then show ?case by (intro checkin_stuck)
next
  case (lecturer_scan s env scan)
  then show ?case by (rule scan_stuck)
next
  case (start_class oenv fresh s secret creq)
  then show ?case by (intro start_stuck)
next
  case (end_class s oenv)
  then show ?case by (rule end_stuck)
qed

interpretation stuck_class: kept_property "later_step t user closed" "stuck tenant lecturer user closed r" for t user closed tenant lecturer r
  by unfold_locales (rule later_stuck)


section \<open>One lecturer, one cohort\<close>

definition demo_oc :: oc_tables where
  "demo_oc = \<lparr>oc_lecturers = [\<lparr>ol_id = ''l1'', ol_tenant = ctx_tenant_id demo_gw_env, ol_user = Some ''lu'', ol_email = ''l@k''\<rparr>],
     oc_users = [(''lu'', ''l@k'')],
     oc_slots = [\<lparr>os_tenant = ctx_tenant_id demo_gw_env, os_unit = ''u1'', os_offering = ''o1'', os_lecturer = Some ''l1''\<rparr>],
     oc_offerings = [\<lparr>oo_id = ''o1'', oo_coordinator = None, oo_mode = ''ONLINE'', oo_label = ''E''\<rparr>],
     oc_units = [(''u1'', ''Logic'')], oc_assigned = []\<rparr>"

definition demo_oc_env :: oc_env where
  "demo_oc_env = \<lparr>oc_gw = demo_gw_env\<lparr>ctx_user_id := ''lu''\<rparr>, oc_failing = (\<lambda>_. False)\<rparr>"

definition demo_oc_request :: onlineClassRequest where
  "demo_oc_request = \<lparr>oq_unit = ''u1'', oq_offering = [], oq_fingerprint = []\<rparr>"

definition demo_cohort :: "gw_state \<Rightarrow> onlineCohort" where
  "demo_cohort s = \<lparr>ch_offering = ''o1'', ch_unit_name = ''Logic'', ch_label = ''E'', ch_coordinator = [], ch_enrolled = cohort_size (Some ''o1'') s\<rparr>"

definition demo_school :: gw_state where
  "demo_school = demo_gw\<lparr>g_tenants := [\<lparr>t_id = ctx_tenant_id demo_gw_env, t_checkin_minutes = Some 30, t_window_start = (8, 0), t_window_end = (17, 0),
     t_active_days = [1], t_passcode_hash = None, t_ratio = (1, 1)\<rparr>],
     g_students := [\<lparr>st_id = ''2024-9'', st_tenant = ctx_tenant_id demo_gw_env, st_email = ''s@k'', st_enrollment = ''ACTIVE'',
       st_offering = Some ''o1'', st_course = ''c''\<rparr>]\<rparr>"

lemma demo_lecturer: "resolveLecturerID demo_oc_env demo_oc = Some ''l1''"
  by (simp add: resolveLecturerID_def demo_oc_env_def demo_oc_def select_one_def Let_def)

lemma demo_trims: "trim_space ''u1'' = ''u1''" "trim_space [] = []"
  by code_simp+

lemma demo_resolved: "resolveOnlineCohort demo_oc_env ''l1'' demo_oc_request demo_oc s = Inr (demo_cohort s)"
  by (simp add: resolveOnlineCohort_def demo_oc_request_def demo_trims Let_def cohort_rows_def nullif_def)
     (simp add: demo_oc_env_def demo_oc_def teaches_slot_def List.map_filter_simps cohort_row_def select_one_def demo_cohort_def)

lemma demo_check:
  "g_sessions s = [] \<Longrightarrow> start_check demo_oc_env (Some demo_oc_request) demo_oc s = Inr (''l1'', demo_oc_request, demo_cohort s)"
proof -
  assume "g_sessions s = []"
  then have "currentOnlineClass demo_oc_env ''l1'' demo_oc s = None"
    by (simp add: currentOnlineClass_def running_class_def)
  moreover have "demo_oc_request\<lparr>oq_unit := trim_space (oq_unit demo_oc_request)\<rparr> = demo_oc_request" "trim_space (oq_unit demo_oc_request) \<noteq> []"
    by (simp_all add: demo_oc_request_def demo_trims)
  ultimately show ?thesis
    by (simp add: start_check_def demo_lecturer demo_resolved Let_def) (simp add: demo_oc_env_def)
qed

definition demo_online :: session where
  "demo_online = online_session demo_oc_env ''s1'' [1] ''l1'' demo_oc_request (demo_cohort demo_school) demo_school"

definition demo_started :: gw_state where
  "demo_started = snd (start_tx demo_oc_env ''s1'' [1] ''l1'' demo_oc_request (demo_cohort demo_school) demo_school)"

lemma demo_started_tables:
  "g_sessions demo_started = [demo_online]" "g_tenants demo_started = g_tenants demo_school" "g_students demo_started = g_students demo_school"
  "g_attendance demo_started = []"
  by (simp_all add: demo_started_def demo_online_def start_tx_def demo_school_def demo_gw_def Let_def) (simp_all add: demo_oc_env_def)

theorem online_start_twice_witness:
  "map sess_id (filter (online_of (ctx_tenant_id (oc_gw demo_oc_env)) ''l1'')
     (g_sessions (snd (start_tx demo_oc_env ''s2'' [2] ''l1'' demo_oc_request (demo_cohort demo_school) demo_started)))) = [''s1'', ''s2'']"
proof -
  have e: "g_sessions demo_school = []"
    by (simp add: demo_school_def demo_gw_def)
  show ?thesis
    using online_start_twice [OF demo_check [OF e] demo_check [OF e], of "[1]" "''s1''" "''s2''" "[2]" None] e
    by (simp add: Let_def flip: demo_started_def) (simp add: demo_oc_env_def)
qed


lemma digits_trim: "list_all is_digit code \<Longrightarrow> trim_space code = code"
proof -
  assume "list_all is_digit code"
  then have "c \<in> set code \<Longrightarrow> \<not> is_space c" for c
    by (auto simp: list_all_iff is_digit_def is_space_def Let_def)
  then have "code = [] \<or> \<not> is_space (hd code)" "code = [] \<or> \<not> is_space (last code)"
    by (auto intro: hd_in_set last_in_set)
  then show ?thesis
    by (simp add: trim_space_def trim_left_fixed trim_right_fixed)
qed


end
