(* ===== verification/Combined_Class.thy ===== *)
theory Combined_Class
  imports Online_Class
begin

text \<open>
  The two endpoints of the combined-class code (\<open>combined_class.go\<close>): the lecturer is told the code of a lecture of today, and a coordinator has a
  typed code checked. The derivation is that of \<open>Room_Codes\<close>; the tenant's \<open>student_hash_key\<close> column is a table of its own here.
\<close>

section \<open>Model\<close>

record class_query =
  cq_room :: string
  cq_start :: string
  cq_day :: string

record class_code_request =
  cc_code :: string
  cc_lecturer :: string
  cc_room :: string
  cc_day :: int
  cc_start :: string

type_synonym hash_keys = "(string \<times> string option) list"

definition sharedClassKey :: "bool \<Rightarrow> string \<Rightarrow> hash_keys \<Rightarrow> bytes option" where
  "sharedClassKey failing tenant keys =
     (if failing then None
      else case map_of keys tenant of
        None \<Rightarrow> None
      | Some None \<Rightarrow> None
      | Some (Some k) \<Rightarrow> if k = [] then None else Some (bytes_of k))"

definition classKeyFromQuery :: "class_query \<Rightarrow> string option" where
  "classKeyFromQuery q =
     (let room = trim_space (cq_room q); start = trim_space (cq_start q) in
      case go_atoi (trim_space (cq_day q)) of
        None \<Rightarrow> None
      | Some wd \<Rightarrow> if room = [] \<or> start = [] \<or> wd < 1 \<or> wd > 7 then None else Some (CombinedClassKey room wd start))"

text \<open>The replies carry the code, or the verdict, and the day it is valid for; \<open>None\<close> in the place of either is a panic of the derivation.\<close>

definition LecturerCombinedClassCode ::
  "oc_env \<Rightarrow> bool \<Rightarrow> class_query \<Rightarrow> oc_tables \<Rightarrow> hash_keys \<Rightarrow> (string option \<times> string) reply" where
  "LecturerCombinedClassCode env failing q t keys =
     (case resolveLecturerID env t of
        None \<Rightarrow> Reject 403 ''NOT_A_LECTURER''
      | Some lecturer \<Rightarrow>
          (case classKeyFromQuery q of
             None \<Rightarrow> Reject 400 ''INVALID_REQUEST''
           | Some k \<Rightarrow>
               (case sharedClassKey failing (ctx_tenant_id (oc_gw env)) keys of
                  None \<Rightarrow> Reject 500 ''NO_HASH_KEY''
                | Some key \<Rightarrow>
                    let today = Today (zone (oc_gw env)) (clock_now (oc_gw env)) in
                    Reply 200 (CombinedClassCode key lecturer k today, today))))"

definition VerifyCombinedClassCode ::
  "gw_env \<Rightarrow> bool \<Rightarrow> class_code_request option \<Rightarrow> hash_keys \<Rightarrow> (bool option \<times> string) reply" where
  "VerifyCombinedClassCode env failing body keys =
     (case body of
        None \<Rightarrow> Reject 400 ''INVALID_REQUEST''
      | Some req \<Rightarrow>
          if cc_code req = [] \<or> cc_lecturer req = [] \<or> trim_space (cc_room req) = [] \<or> cc_day req < 1 \<or> cc_day req > 7 \<or> cc_start req = []
          then Reject 400 ''INVALID_REQUEST''
          else case sharedClassKey failing (ctx_tenant_id env) keys of
            None \<Rightarrow> Reject 500 ''NO_HASH_KEY''
          | Some key \<Rightarrow>
              let today = Today (zone env) (clock_now env) in
              Reply 200 (ValidateCombinedClassCode key (cc_code req) (cc_lecturer req)
                (CombinedClassKey (cc_room req) (cc_day req) (cc_start req)) today, today))"

section \<open>The two endpoints agree\<close>

definition same_lecture :: "class_query \<Rightarrow> class_code_request \<Rightarrow> bool" where
  "same_lecture q req = (to_lower (trim_space (cc_room req)) = to_lower (trim_space (cq_room q)) \<and>
     go_atoi (trim_space (cq_day q)) = Some (cc_day req) \<and> trim_space (cc_start req) = trim_space (cq_start q))"

lemma trim_space_Nil [simp]: "trim_space [] = []"
  by (simp add: trim_space_def trim_left_def trim_right_def)

lemma same_lecture_key:
  assumes "same_lecture q req" "classKeyFromQuery q = Some k"
  shows "CombinedClassKey (cc_room req) (cc_day req) (cc_start req) = k"
  using assms by (auto simp: same_lecture_def classKeyFromQuery_def CombinedClassKey_def Let_def split: if_splits)

lemma trim_space_digits: "list_all is_digit s \<Longrightarrow> trim_space s = s"
proof -
  assume d: "list_all is_digit s"
  have "\<not> is_space c" if "is_digit c" for c
    using that by (auto simp: is_digit_def is_space_def Let_def)
  then have "s = [] \<or> \<not> is_space (hd s) \<and> \<not> is_space (last s)"
    using d by (cases "s = []") (simp_all add: list_all_iff)
  then show ?thesis
    by (auto simp: trim_space_def trim_left_fixed trim_right_fixed)
qed

text \<open>
  C39. The code the lecturer is given opens the lecture for every coordinator who hears it: when the lecturer's endpoint answers for a lecture, it
  answers with three digits, and on the same day the coordinators' endpoint accepts a code for that lecture, its room typed in any case and with
  blanks around, exactly when it is those digits, blanks apart.
\<close>

theorem combined_code_agreed:
  assumes "LecturerCombinedClassCode env failing q t keys = Reply n (code, d)"
    and "resolveLecturerID env t = Some (cc_lecturer req)" "same_lecture q req" "cc_code req \<noteq> []"
    and "ctx_tenant_id env' = ctx_tenant_id (oc_gw env)" "Today (zone env') (clock_now env') = d"
  shows "\<exists>c. code = Some c \<and> length c = 3 \<and> list_all is_digit c \<and>
    VerifyCombinedClassCode env' False (Some req) keys = Reply 200 (Some (trim_space (cc_code req) = c), d)"
proof -
  obtain k key where k: "classKeyFromQuery q = Some k" and key: "sharedClassKey failing (ctx_tenant_id (oc_gw env)) keys = Some key"
    and code: "code = CombinedClassCode key (cc_lecturer req) k d"
    using assms(1,2) by (auto simp: LecturerCombinedClassCode_def Let_def split: option.splits)
  have key': "sharedClassKey False (ctx_tenant_id env') keys = Some key"
    using key assms(5) by (simp add: sharedClassKey_def split: if_splits)
  obtain c where c: "CombinedClassCode key (cc_lecturer req) k d = Some c"
    using CombinedClassCode_total by blast
  then have shape: "length c = 3 \<and> list_all is_digit c"
    using CombinedClassCode_code by (simp add: CombinedClassDigits_def)
  have "cc_lecturer req \<noteq> []"
    using assms(2) by (auto simp: resolveLecturerID_def Let_def split: option.splits if_splits)
  moreover have "trim_space (cc_room req) \<noteq> [] \<and> \<not> cc_day req < 1 \<and> \<not> 7 < cc_day req \<and> cc_start req \<noteq> []"
    using k assms(3) by (auto simp: classKeyFromQuery_def same_lecture_def Let_def to_lower_def split: if_splits)
  moreover have "ValidateCombinedClassCode key (cc_code req) (cc_lecturer req) k d = Some (trim_space (cc_code req) = c)"
    using c shape by (auto simp: ValidateCombinedClassCode_def Let_def CombinedClassDigits_def)
  ultimately show ?thesis
    using assms(4,6) key' c shape code same_lecture_key [OF assms(3) k] by (simp add: VerifyCombinedClassCode_def Let_def)
qed

definition demo_class_query :: class_query where
  "demo_class_query = \<lparr>cq_room = ''B1'', cq_start = ''8'', cq_day = ''1''\<rparr>"

definition demo_class_request :: "string \<Rightarrow> class_code_request" where
  "demo_class_request c = \<lparr>cc_code = c, cc_lecturer = ''l1'', cc_room = ''b1 '', cc_day = 1, cc_start = ''8''\<rparr>"

definition demo_class_keys :: hash_keys where
  "demo_class_keys = [(ctx_tenant_id demo_gw_env, Some ''k'')]"

lemma demo_same_lecture: "same_lecture demo_class_query (demo_class_request c)"
proof -
  have "to_lower ''B1'' = ''b1''" "to_lower ''b1'' = ''b1''" "go_atoi ''1'' = Some 1"
    by code_simp+
  then show ?thesis
    by (simp add: same_lecture_def demo_class_query_def demo_class_request_def trim_space_def trim_left_def trim_right_def is_space_def)
qed

lemma demo_class_env: "oc_gw demo_oc_env = demo_gw_env\<lparr>ctx_user_id := ''lu''\<rparr>"
  by (simp add: demo_oc_env_def)

lemma demo_class_code:
  "\<exists>code. LecturerCombinedClassCode demo_oc_env False demo_class_query demo_oc demo_class_keys =
     Reply 200 (code, Today (zone demo_gw_env) (clock_now demo_gw_env))"
proof -
  have "go_atoi ''1'' = Some 1"
    by code_simp
  then show ?thesis
    by (simp add: LecturerCombinedClassCode_def demo_lecturer classKeyFromQuery_def demo_class_query_def demo_class_keys_def sharedClassKey_def
        demo_class_env Let_def trim_space_def trim_left_def trim_right_def is_space_def)
qed

theorem combined_code_agreed_witness:
  "\<exists>c d. LecturerCombinedClassCode demo_oc_env False demo_class_query demo_oc demo_class_keys = Reply 200 (Some c, d) \<and>
     VerifyCombinedClassCode demo_gw_env False (Some (demo_class_request c)) demo_class_keys = Reply 200 (Some True, d)"
proof -
  obtain code where code: "LecturerCombinedClassCode demo_oc_env False demo_class_query demo_oc demo_class_keys =
      Reply 200 (code, Today (zone demo_gw_env) (clock_now demo_gw_env))"
    using demo_class_code by blast
  have facts: "resolveLecturerID demo_oc_env demo_oc = Some (cc_lecturer (demo_class_request c))" "cc_code (demo_class_request c) = c"
    "ctx_tenant_id demo_gw_env = ctx_tenant_id (oc_gw demo_oc_env)" for c
    by (simp_all add: demo_lecturer demo_class_request_def demo_class_env)
  have agreed: "\<exists>c'. code = Some c' \<and> length c' = 3 \<and> list_all is_digit c' \<and>
      VerifyCombinedClassCode demo_gw_env False (Some (demo_class_request c)) demo_class_keys =
        Reply 200 (Some (trim_space c = c'), Today (zone demo_gw_env) (clock_now demo_gw_env))" if "c \<noteq> []" for c
    using combined_code_agreed [OF code facts(1) [of c] demo_same_lecture [of c] _ facts(3) refl] that by (simp add: facts(2))
  obtain c where c: "code = Some c" "length c = 3" "list_all is_digit c"
    using agreed [of "''0''"] by auto
  then have "c \<noteq> []"
    by auto
  then show ?thesis
    using agreed [of c] c code by (auto simp: trim_space_digits)
qed

end
