(* ===== verification/App_Login.thy ===== *)
theory App_Login
  imports Gateway
begin

text \<open>
  The one sign-in of the app (\<open>auth_applogin.go\<close>): an email, a registration number or a staff ID is
  resolved to an account, which is created on the way when the person has none
  (\<open>lecturer_accounts.go\<close>, \<open>default_passwords.go\<close>), and auth-service's own \<open>Login\<close> decides.

  The state is auth-service's (both services read the same \<open>users\<close> and \<open>tenants\<close>) with the tables of
  students and lecturers, the column \<open>users.staff_id\<close>, which auth-service does not read, and the tenant
  the gateway has cached. The call to auth-service goes over HTTP: it may not arrive, its answer may be
  lost after it took effect, or be cut short after the status line.
\<close>

section \<open>Data\<close>

record app_student =
  as_id :: string
  as_tenant :: string
  as_email :: string
  as_name :: string
  as_course :: string
  as_academic_year :: string
  as_year :: "int option"
  as_semester :: "int option"
  as_level :: "string option"
  as_intake :: "string option"
  as_offering :: "string option"
  as_status :: string
  as_hardware :: "string option"
  as_rebinds :: int
  as_last_rebind :: "instant option"

record app_lecturer =
  ln_id :: string
  ln_tenant :: string
  ln_staff :: "string option"
  ln_email :: "string option"
  ln_name :: string
  ln_user :: "string option"

record device_binding =
  db_student :: string
  db_device :: string
  db_block_until :: "instant option"

record admin_audit =
  aa_actor :: string
  aa_role :: string
  aa_action :: string
  aa_target_type :: "string option"
  aa_target_id :: "string option"
  aa_payload :: "(string \<times> string) list"
  aa_ip :: "string option"

record app_state =
  app_auth :: auth_state
  account_staff :: "string \<rightharpoonup> string"
  app_students :: "app_student table"
  app_lecturers :: "app_lecturer table"
  cachedTenant :: string
  bindings :: "device_binding table"
  hardware_vault :: "string list"
  admin_log :: "admin_audit list"

datatype app_call =
    AppTenantRow | AppUserByEmail | AppStudentByReg | AppAccountExists | AppAccountInsert | AppLecturerByStaff
  | AppLecturerRow | AppLecturerInsert | AppLecturerLink | AppUserEmail | AppUserByStaff | AppStudentOf | AppStaffOf
  | AppMonitorStaff | AppActive | AppOwner | AppDevice | AppRebindCount | AppRebind | AppBind
  | AppAcquire | AppScope | AppReset | AppVault | AppAuditAcquire | AppAuditScope | AppAudit

datatype delivery = Answered | Unreached | AnswerLost | Truncated

record app_env =
  e_auth :: auth_env
  e_handler :: AuthHandler
  e_failing :: "app_call \<Rightarrow> bool"
  e_default_tenant :: string
  e_new_user :: string
  e_delivery :: delivery
  e_now :: instant
  e_is_inet :: "string \<Rightarrow> bool"

record appLoginRequest =
  ar_identifier :: string
  ar_password :: string
  ar_totp :: string

text \<open>The answer of auth-service, \<open>None\<close> when its body was cut short, and the two fields the gateway adds.\<close>

record appLoginResponse =
  ap_login :: "loginResponse option"
  ap_student_id :: "string option"
  ap_staff_id :: "string option"

section \<open>Seeded passwords\<close>

definition DefaultStudentPassword :: string where "DefaultStudentPassword = ''student''"
definition DefaultLecturerPassword :: string where "DefaultLecturerPassword = ''lecturer''"
definition DefaultMonitorPassword :: string where "DefaultMonitorPassword = ''monitor''"
definition DefaultStaffPassword :: string where "DefaultStaffPassword = ''staff''"

definition DefaultPasswordFor :: "string \<Rightarrow> string" where
  "DefaultPasswordFor role =
     (if role = ''STUDENT'' then DefaultStudentPassword
      else if role = ''LECTURER'' then DefaultLecturerPassword
      else if role = ''QA_PATROLLER'' then DefaultMonitorPassword
      else '''')"

definition ImportedPasswordFor :: "string \<Rightarrow> string" where
  "ImportedPasswordFor role =
     (let p = DefaultPasswordFor role in if p \<noteq> [] then p else DefaultStaffPassword)"

section \<open>The one tenant\<close>

definition singleTenantID :: "app_env \<Rightarrow> app_state \<Rightarrow> string \<times> app_state" where
  "singleTenantID env s =
     (if cachedTenant s \<noteq> [] then (cachedTenant s, s)
      else if e_default_tenant env \<noteq> [] then (e_default_tenant env, s\<lparr>cachedTenant := e_default_tenant env\<rparr>)
      else if e_failing env AppTenantRow then ('''', s)
      else case earliest (filter (\<lambda>t. tenant.t_id t \<noteq> zero_uuid) (tenants (app_auth s))) of
        None \<Rightarrow> ('''', s)
      | Some t \<Rightarrow> (tenant.t_id t, s\<lparr>cachedTenant := tenant.t_id t\<rparr>))"

section \<open>Accounts made on demand\<close>

definition emailInDomain :: "string \<Rightarrow> string \<Rightarrow> bool" where
  "emailInDomain email mainDomain =
     (case last_index email (CHR ''@'') of
        None \<Rightarrow> False
      | Some at \<Rightarrow>
          if at = 0 \<or> mainDomain = [] then False
          else let d = to_lower (drop (at + 1) email) in d = mainDomain \<or> has_suffix d (CHR ''.'' # mainDomain))"

text \<open>The row an insert makes: the columns it names, and the defaults of the others.\<close>

definition new_account :: "string \<Rightarrow> string \<Rightarrow> string \<Rightarrow> string \<Rightarrow> string \<Rightarrow> string \<Rightarrow> User" where
  "new_account uid tid email hash role name =
     \<lparr>UserID = uid, TenantID = tid, Email = email, PasswordHash = hash, Role = role, FullName = name, Title = '''',
      RegistrationNumber = '''', IsActive = True, TOTPSecretEnc = None, TOTPEnabled = False, TOTPBackupCodesEnc = None,
      DeviceBindingKeyEnc = None, LastLoginAt = None, FailedLoginCount = 0, LockedUntil = None, ForcePasswordChange = True\<rparr>"

definition add_account :: "User \<Rightarrow> app_state \<Rightarrow> app_state" where
  "add_account u s = s\<lparr>app_auth := (app_auth s)\<lparr>users := users (app_auth s) @ [u]\<rparr>\<rparr>"

text \<open>The \<open>CROSS JOIN\<close> pairs the lecturer with every tenant; the first row of \<open>tenants\<close> gives the domain.\<close>

definition synth_email :: "string \<Rightarrow> string \<Rightarrow> string" where
  "synth_email lecturerID domain =
     ''lecturer.'' @ take 10 (filter (\<lambda>c. c \<noteq> CHR ''-'') lecturerID) @ ''@'' @ domain"

definition lecturer_email :: "app_lecturer \<Rightarrow> string \<Rightarrow> string" where
  "lecturer_email l domain =
     (let email = to_lower (trim_space (or_empty (ln_email l))) in
      if email = [] \<or> \<not> emailInDomain email (to_lower domain) then synth_email (ln_id l) domain else email)"

definition link_account :: "app_env \<Rightarrow> string \<Rightarrow> string \<Rightarrow> string \<Rightarrow> app_state \<Rightarrow> app_state" where
  "link_account env tenantID lecturerID uid s =
     (if e_failing env AppLecturerLink then s
      else s\<lparr>app_lecturers := update_where (\<lambda>l. ln_id l = lecturerID \<and> ln_tenant l = tenantID)
                                (\<lambda>l. l\<lparr>ln_user := Some uid\<rparr>) (app_lecturers s)\<rparr>)"

definition ensureLecturerLogin :: "app_env \<Rightarrow> string \<Rightarrow> string \<Rightarrow> app_state \<Rightarrow> string option \<times> app_state" where
  "ensureLecturerLogin env tenantID lecturerID s =
     (if e_failing env AppLecturerRow then (None, s)
      else case (select_one (\<lambda>l. ln_id l = lecturerID \<and> ln_tenant l = tenantID) (app_lecturers s), tenants (app_auth s)) of
        (None, _) \<Rightarrow> (None, s)
      | (Some l, []) \<Rightarrow> (None, s)
      | (Some l, t # _) \<Rightarrow>
          if or_empty (ln_user l) \<noteq> [] then (Some (or_empty (ln_user l)), s)
          else let email = lecturer_email l (or_empty (tenant.t_domain t));
                   hash = or_empty (bcrypt_generate (e_auth env) DefaultLecturerPassword) in
            if e_failing env AppLecturerInsert then (None, s)
            else case select_one (\<lambda>u. TenantID u = tenantID \<and> Email u = email) (users (app_auth s)) of
              Some u \<Rightarrow> (Some (UserID u), link_account env tenantID lecturerID (UserID u) s)
            | None \<Rightarrow> (Some (e_new_user env), link_account env tenantID lecturerID (e_new_user env)
                (add_account (new_account (e_new_user env) tenantID email hash ''LECTURER'' (ln_name l)) s)))"

definition ensureStudentLogin :: "app_env \<Rightarrow> string \<Rightarrow> string \<Rightarrow> string \<Rightarrow> app_state \<Rightarrow> app_state" where
  "ensureStudentLogin env tenantID email fullName s =
     (let email = to_lower (trim_space email) in
      if email = [] then s
      else if \<not> e_failing env AppAccountExists \<and>
              select_one (\<lambda>u. TenantID u = tenantID \<and> to_lower (Email u) = to_lower email) (users (app_auth s)) \<noteq> None then s
      else case bcrypt_generate (e_auth env) DefaultStudentPassword of
        None \<Rightarrow> s
      | Some hash \<Rightarrow>
          if e_failing env AppAccountInsert \<or>
             list_ex (\<lambda>u. TenantID u = tenantID \<and> Email u = email) (users (app_auth s)) then s
          else add_account (new_account (e_new_user env) tenantID email hash ''STUDENT'' fullName) s)"

section \<open>Resolving an identifier\<close>

text \<open>
  The four steps, in the order of the code. Each returns the email, the registration number and the
  staff ID, or \<open>None\<close> to go on with the next.
\<close>

definition by_email :: "app_env \<Rightarrow> string \<Rightarrow> string \<Rightarrow> app_state \<Rightarrow> string option" where
  "by_email env tenantID ident s =
     (if \<not> contains ident ''@'' \<or> e_failing env AppUserByEmail then None
      else case select_one (\<lambda>u. TenantID u = tenantID \<and> to_lower (Email u) = to_lower ident) (users (app_auth s)) of
        None \<Rightarrow> None | Some u \<Rightarrow> nullif (Email u))"

definition by_reg :: "app_env \<Rightarrow> string \<Rightarrow> string \<Rightarrow> app_state \<Rightarrow> app_student option" where
  "by_reg env tenantID ident s =
     (if e_failing env AppStudentByReg then None
      else case select_one (\<lambda>st. as_tenant st = tenantID \<and> to_lower (btrim (as_id st)) = to_lower ident \<and>
                                as_status st = ''ACTIVE'') (app_students s) of
        None \<Rightarrow> None | Some st \<Rightarrow> if as_email st = [] then None else Some st)"

text \<open>The email of the account a lecturer is linked to, once it is ensured.\<close>

definition linked_email :: "app_env \<Rightarrow> string \<Rightarrow> string option \<times> app_state \<Rightarrow> (string \<times> string) option \<times> app_state" where
  "linked_email env staff ensured =
     (case ensured of
        (None, s) \<Rightarrow> (None, s)
      | (Some uid, s) \<Rightarrow>
          if uid = [] \<or> e_failing env AppUserEmail then (None, s)
          else case select_one (\<lambda>u. UserID u = uid) (users (app_auth s)) of
            None \<Rightarrow> (None, s)
          | Some u \<Rightarrow> (if Email u = [] then None else Some (Email u, staff), s))"

definition by_lecturer :: "app_env \<Rightarrow> string \<Rightarrow> string \<Rightarrow> app_state \<Rightarrow> (string \<times> string) option \<times> app_state" where
  "by_lecturer env tenantID ident s =
     (if e_failing env AppLecturerByStaff then (None, s)
      else case select_one (\<lambda>l. ln_tenant l = tenantID \<and> ln_staff l \<noteq> None \<and>
                               to_lower (btrim (or_empty (ln_staff l))) = to_lower ident) (app_lecturers s) of
        None \<Rightarrow> (None, s)
      | Some l \<Rightarrow>
          if ln_id l = [] then (None, s)
          else linked_email env (or_empty (ln_staff l)) (ensureLecturerLogin env tenantID (ln_id l) s))"

definition by_account_staff :: "app_env \<Rightarrow> string \<Rightarrow> string \<Rightarrow> app_state \<Rightarrow> (string \<times> string) option" where
  "by_account_staff env tenantID ident s =
     (if e_failing env AppUserByStaff then None
      else case select_one (\<lambda>u. TenantID u = tenantID \<and>
              to_lower (btrim (or_empty (account_staff s (UserID u)))) = to_lower (btrim ident) \<and>
              or_empty (account_staff s (UserID u)) \<noteq> []) (users (app_auth s)) of
        None \<Rightarrow> None
      | Some u \<Rightarrow> if Email u = [] then None else Some (Email u, or_empty (account_staff s (UserID u))))"

definition resolveIdentifier :: "app_env \<Rightarrow> string \<Rightarrow> string \<Rightarrow> app_state \<Rightarrow> (string \<times> string \<times> string) \<times> app_state" where
  "resolveIdentifier env tenantID ident s =
     (case by_email env tenantID ident s of
        Some e \<Rightarrow> ((e, '''', ''''), s)
      | None \<Rightarrow>
          (case by_reg env tenantID ident s of
             Some st \<Rightarrow> ((as_email st, as_id st, ''''), ensureStudentLogin env tenantID (as_email st) (as_name st) s)
           | None \<Rightarrow>
               (case by_lecturer env tenantID ident s of
                  (Some (e, staff), s) \<Rightarrow> ((e, '''', staff), s)
                | (None, s) \<Rightarrow>
                    (case by_account_staff env tenantID ident s of
                       Some (e, staff) \<Rightarrow> ((e, '''', staff), s)
                     | None \<Rightarrow> (('''', '''', ''''), s)))))"

section \<open>Signing in\<close>

text \<open>The lookups that complete the answer; a query that fails or finds nothing leaves the field empty.\<close>

definition student_of :: "app_env \<Rightarrow> string \<Rightarrow> string \<Rightarrow> app_state \<Rightarrow> string" where
  "student_of env tenantID email s =
     (if e_failing env AppStudentOf then ''''
      else case select_one (\<lambda>st. as_tenant st = tenantID \<and> to_lower (as_email st) = to_lower email) (app_students s) of
        None \<Rightarrow> '''' | Some st \<Rightarrow> as_id st)"

definition staff_of :: "app_env \<Rightarrow> string \<Rightarrow> string \<Rightarrow> app_state \<Rightarrow> string" where
  "staff_of env tenantID uid s =
     (if e_failing env AppStaffOf then ''''
      else case select_one (\<lambda>l. ln_tenant l = tenantID \<and> ln_user l = Some uid) (app_lecturers s) of
        None \<Rightarrow> '''' | Some l \<Rightarrow> or_empty (ln_staff l))"

definition monitor_staff :: "app_env \<Rightarrow> string \<Rightarrow> string \<Rightarrow> app_state \<Rightarrow> string" where
  "monitor_staff env tenantID uid s =
     (if e_failing env AppMonitorStaff \<or> \<not> list_ex (\<lambda>u. TenantID u = tenantID \<and> UserID u = uid) (users (app_auth s)) then ''''
      else or_empty (account_staff s uid))"

definition augment :: "app_env \<Rightarrow> string \<Rightarrow> string \<Rightarrow> string \<Rightarrow> string \<Rightarrow> loginResponse \<Rightarrow> app_state \<Rightarrow> appLoginResponse" where
  "augment env tenantID email studentID staffID l s =
     (let r = \<lparr>ap_login = Some l, ap_student_id = None, ap_staff_id = None\<rparr> in
      if RRole l = ''STUDENT'' then
        r\<lparr>ap_student_id := Some (if studentID = [] then student_of env tenantID email s else studentID)\<rparr>
      else if RRole l = ''LECTURER'' then
        r\<lparr>ap_staff_id := Some (if staffID = [] \<and> RUserID l \<noteq> [] then staff_of env tenantID (RUserID l) s else staffID)\<rparr>
      else if RRole l = ''QA_PATROLLER'' then
        r\<lparr>ap_staff_id := Some (if staffID = [] \<and> RUserID l \<noteq> [] then monitor_staff env tenantID (RUserID l) s else staffID)\<rparr>
      else r)"

definition call_login ::
  "app_env \<Rightarrow> string \<Rightarrow> string \<Rightarrow> string \<Rightarrow> string \<Rightarrow> appLoginRequest \<Rightarrow> app_state \<Rightarrow> appLoginResponse reply \<times> app_state" where
  "call_login env tenantID email studentID staffID req s =
     (if e_delivery env = Unreached then (Reject 502 ''LOGIN_UNAVAILABLE'', s)
      else let (r, a) = Login (e_auth env) (e_handler env)
                  (Some \<lparr>l_email = email, l_password = ar_password req, l_totp = ar_totp req, l_tenant = tenantID\<rparr>) (app_auth s);
               s = s\<lparr>app_auth := a\<rparr> in
        if e_delivery env = AnswerLost then (Reject 502 ''LOGIN_UNAVAILABLE'', s)
        else case r of
          Reject n code \<Rightarrow> (Reject n (if e_delivery env = Truncated then '''' else code), s)
        | Reply n l \<Rightarrow>
            if e_delivery env = Truncated then (Reply 200 \<lparr>ap_login = None, ap_student_id = None, ap_staff_id = None\<rparr>, s)
            else (Reply 200 (augment env tenantID email studentID staffID l s), s))"

definition AppLogin :: "app_env \<Rightarrow> appLoginRequest option \<Rightarrow> app_state \<Rightarrow> appLoginResponse reply \<times> app_state" where
  "AppLogin env body s =
     (case body of
        None \<Rightarrow> (Reject 400 ''INVALID_REQUEST'', s)
      | Some req \<Rightarrow>
          let ident = trim_space (ar_identifier req) in
          if ident = [] \<or> ar_password req = [] then (Reject 400 ''INVALID_REQUEST'', s)
          else let (tenantID, s) = singleTenantID env s in
            if tenantID = [] then (Reject 500 ''NO_TENANT'', s)
            else let ((email, studentID, staffID), s) = resolveIdentifier env tenantID ident s in
              if email = [] then (Reject 401 ''INVALID_CREDENTIALS'', s)
              else call_login env tenantID email studentID staffID req s)"

section \<open>What resolving an identifier does\<close>

lemma app_students_kept [simp]:
  "app_students (add_account acc s) = app_students s"
  "app_students (ensureStudentLogin env t e n s) = app_students s"
  "app_students (link_account env t l uid s) = app_students s"
  by (auto simp: add_account_def ensureStudentLogin_def link_account_def Let_def split: option.splits)

lemma users_add_account [simp]: "users (app_auth (add_account acc s)) = users (app_auth s) @ [acc]"
  by (simp add: add_account_def)

lemma users_link_account [simp]: "app_auth (link_account env t l uid s) = app_auth s"
  by (simp add: link_account_def)

lemma ensureLecturerLogin_students [simp]: "app_students (snd (ensureLecturerLogin env t l s)) = app_students s"
  by (auto simp: ensureLecturerLogin_def Let_def split: option.splits list.splits)

text \<open>The states the lookups can leave: the one they found, or the one after an account was ensured.\<close>

lemma linked_email_state [simp]: "snd (linked_email env staff p) = snd p"
  by (auto simp: linked_email_def split: option.splits prod.splits)

lemma by_lecturer_state:
  "snd (by_lecturer env t i s) = s \<or> (\<exists>l. snd (by_lecturer env t i s) = snd (ensureLecturerLogin env t l s))"
  by (auto simp: by_lecturer_def split: option.splits)

lemma resolve_state:
  "snd (resolveIdentifier env t i s) = s \<or>
   (\<exists>st. by_reg env t i s = Some st \<and> snd (resolveIdentifier env t i s) = ensureStudentLogin env t (as_email st) (as_name st) s) \<or>
   (\<exists>l. snd (resolveIdentifier env t i s) = snd (ensureLecturerLogin env t l s))"
proof -
  have "snd (resolveIdentifier env t i s) = s \<or>
     (\<exists>st. by_reg env t i s = Some st \<and> snd (resolveIdentifier env t i s) = ensureStudentLogin env t (as_email st) (as_name st) s) \<or>
     snd (resolveIdentifier env t i s) = snd (by_lecturer env t i s)"
    by (auto simp: resolveIdentifier_def split: option.splits prod.splits)
  with by_lecturer_state [of env t i s] show ?thesis
    by metis
qed

lemma resolve_students [simp]: "app_students (snd (resolveIdentifier env t i s)) = app_students s"
  using resolve_state [of env t i s] by (elim disjE exE conjE) simp_all

lemma by_reg_Some:
  "by_reg env t i s = Some st \<longleftrightarrow> \<not> e_failing env AppStudentByReg \<and> as_email st \<noteq> [] \<and>
     select_one (\<lambda>st. as_tenant st = t \<and> to_lower (btrim (as_id st)) = to_lower i \<and> as_status st = ''ACTIVE'')
       (app_students s) = Some st"
  by (auto simp: by_reg_def split: option.splits if_splits)

text \<open>A registration number is returned only with the email of the active student who has it.\<close>

lemma resolved_student:
  assumes "resolveIdentifier env t i s = ((e, sid, staff), s1)" and "sid \<noteq> []"
  shows "\<exists>st \<in> set (app_students s). as_id st = sid \<and> as_tenant st = t \<and> as_email st = e \<and> as_status st = ''ACTIVE''"
proof -
  have "\<exists>st. by_reg env t i s = Some st \<and> as_id st = sid \<and> as_email st = e"
    using assms by (auto simp: resolveIdentifier_def split: option.splits prod.splits)
  then show ?thesis
    by (auto simp: by_reg_Some dest!: select_one_Some)
qed

lemma singleTenantID_auth [simp]:
  "app_auth (snd (singleTenantID env s)) = app_auth s" "app_students (snd (singleTenantID env s)) = app_students s"
  by (auto simp: singleTenantID_def split: option.splits)

text \<open>The accounts a sign-in may add: at most one, new to its tenant and email, with a seeded password.\<close>

definition account_key :: "User \<Rightarrow> string \<times> string" where
  "account_key u = (TenantID u, Email u)"

definition seeded_account :: "string \<Rightarrow> User \<Rightarrow> bool" where
  "seeded_account tid u = (TenantID u = tid \<and> (Role u = ''STUDENT'' \<or> Role u = ''LECTURER'') \<and> ForcePasswordChange u)"

definition provisions :: "string \<Rightarrow> app_state \<Rightarrow> app_state \<Rightarrow> bool" where
  "provisions tid s s' =
     (users (app_auth s') = users (app_auth s) \<or>
      (\<exists>u. users (app_auth s') = users (app_auth s) @ [u] \<and> seeded_account tid u \<and>
         account_key u \<notin> account_key ` set (users (app_auth s))))"

lemma ensureStudentLogin_provisions: "provisions t s (ensureStudentLogin env t e n s)"
  by (auto simp: provisions_def ensureStudentLogin_def Let_def new_account_def seeded_account_def account_key_def
      list_ex_iff split: option.splits)

lemma ensureLecturerLogin_provisions: "provisions t s (snd (ensureLecturerLogin env t l s))"
  by (auto simp: provisions_def ensureLecturerLogin_def Let_def new_account_def seeded_account_def account_key_def
      select_one_None split: option.splits list.splits)

lemma provisions_refl [simp]: "provisions t s s"
  by (simp add: provisions_def)

lemma resolve_provisions: "provisions t s (snd (resolveIdentifier env t i s))"
  using resolve_state [of env t i s] ensureLecturerLogin_provisions ensureStudentLogin_provisions
  by (elim disjE exE conjE) simp_all

section \<open>What a sign-in changes\<close>

definition account_core :: "User \<Rightarrow> string \<times> string \<times> string \<times> string \<times> string \<times> bool" where
  "account_core u = (UserID u, TenantID u, Email u, Role u, PasswordHash u, ForcePasswordChange u)"

lemma core_update_where: "(\<And>u. account_core (f u) = account_core u) \<Longrightarrow>
    map account_core (update_where p f us) = map account_core us"
  by (induction us) auto

lemma core_recorded [simp]:
  "account_core (login_success n u) = account_core u" "account_core (login_failure n u) = account_core u"
  "account_core (set_binding k u) = account_core u"
  by (simp_all add: account_core_def login_success_def login_failure_def set_binding_def)

lemma core_stores [simp]:
  "map account_core (users (RecordLoginSuccess env uid s)) = map account_core (users s)"
  "map account_core (users (RecordLoginFailure env uid s)) = map account_core (users s)"
  "SetDeviceBindingKey env uid k s = Some s' \<Longrightarrow> map account_core (users s') = map account_core (users s)"
  by (auto simp: RecordLoginSuccess_def RecordLoginFailure_def SetDeviceBindingKey_def core_update_where split: if_splits)

lemma core_binding [simp]: "map account_core (users (snd (resolveBindingKey env u s))) = map account_core (users s)"
  by (auto simp: resolveBindingKey_def Let_def split: option.splits sum.splits)

lemma core_login_user: "map account_core (users (snd (login_user env h req u s))) = map account_core (users s)"
proof -
  have "resolveBindingKey env u s1 = (k, s2) \<Longrightarrow> map account_core (users s2) = map account_core (users s1)" for k s1 s2
    using core_binding [of env u s1] by simp
  then show ?thesis
    by (auto simp: login_user_def Let_def split: option.splits prod.splits)
qed

lemma core_Login: "map account_core (users (snd (Login env h body s))) = map account_core (users s)"
  by (auto simp: Login_def core_login_user split: option.splits sum.splits store_error.splits)

lemma call_login_core: "map account_core (users (app_auth (snd (call_login env t e sid f req s)))) = map account_core (users (app_auth s))"
  using core_Login [of "e_auth env" "e_handler env"
    "Some \<lparr>l_email = e, l_password = ar_password req, l_totp = ar_totp req, l_tenant = t\<rparr>" "app_auth s"]
  by (auto simp: call_login_def Let_def split: prod.splits reply.splits)

lemma key_of_core: "map account_core us = map account_core vs \<Longrightarrow> map account_key us = map account_key vs"
proof -
  assume "map account_core us = map account_core vs"
  then have "map (\<lambda>(_, t, e, _). (t, e)) (map account_core us) = map (\<lambda>(_, t, e, _). (t, e)) (map account_core vs)"
    by (rule arg_cong)
  then show "map account_key us = map account_key vs"
    by (simp add: account_key_def [abs_def] account_core_def [abs_def] comp_def)
qed

text \<open>The accounts after a sign-in, whatever it answers, are those after the identifier was resolved.\<close>

lemma AppLogin_core:
  "\<exists>t s1. provisions t s s1 \<and> map account_core (users (app_auth (snd (AppLogin env body s)))) = map account_core (users (app_auth s1))"
proof (cases "snd (AppLogin env body s) = s \<or> snd (AppLogin env body s) = snd (singleTenantID env s)")
  case True
  then have "users (app_auth (snd (AppLogin env body s))) = users (app_auth s)"
    by (metis singleTenantID_auth(1))
  then show ?thesis
    by (intro exI [of _ "[]"] exI [of _ s]) simp
next
  case False
  then obtain req t s0 where b: "body = Some req" "singleTenantID env s = (t, s0)"
    by (cases body; cases "singleTenantID env s") (auto simp: AppLogin_def)
  obtain e sid f s1 where r: "resolveIdentifier env t (trim_space (ar_identifier req)) s0 = ((e, sid, f), s1)"
    by (metis prod_cases4 surj_pair)
  have "snd (AppLogin env body s) = s1 \<or> snd (AppLogin env body s) = snd (call_login env t e sid f req s1)"
    using False b r by (auto simp: AppLogin_def Let_def split: if_splits)
  then have "map account_core (users (app_auth (snd (AppLogin env body s)))) = map account_core (users (app_auth s1))"
    using call_login_core by metis
  moreover have "provisions t s s1"
    using resolve_provisions [of t s0 env "trim_space (ar_identifier req)"] r b singleTenantID_auth(1) [of env s]
    by (simp add: provisions_def)
  ultimately show ?thesis
    by blast
qed

text \<open>
  Signing in, which needs no account to try, changes no account's id, tenant, email, role or
  password. Whatever it answers, it adds at most one account: a student's or a lecturer's, that has to
  change its password, under an email no account of the tenant has. Emails stay unique in a tenant.
\<close>

theorem app_login_accounts:
  assumes "AppLogin env body s = (r, s')"
  shows "(map account_core (users (app_auth s')) = map account_core (users (app_auth s)) \<or>
      (\<exists>t u. map account_core (users (app_auth s')) = map account_core (users (app_auth s) @ [u]) \<and> seeded_account t u)) \<and>
    (distinct (map account_key (users (app_auth s))) \<longrightarrow> distinct (map account_key (users (app_auth s'))))"
proof -
  obtain t s1 where p: "provisions t s s1" "map account_core (users (app_auth s')) = map account_core (users (app_auth s1))"
    using AppLogin_core [of s env body] assms by auto
  then show ?thesis
    using key_of_core [OF p(2)] by (auto simp: provisions_def)
qed

section \<open>Who is signed in\<close>

text \<open>A request that got past the identifier: the tenant, the resolved account and the state it was found in.\<close>

definition resolved :: "app_env \<Rightarrow> appLoginRequest \<Rightarrow> app_state \<Rightarrow> string \<Rightarrow> string \<times> string \<times> string \<Rightarrow> app_state \<Rightarrow> bool" where
  "resolved env req s t ids s1 =
     (fst (singleTenantID env s) = t \<and>
      resolveIdentifier env t (trim_space (ar_identifier req)) (snd (singleTenantID env s)) = (ids, s1))"

lemma resolved_students:
  assumes "resolved env req s t ids s1"
  shows "app_students s1 = app_students s"
proof -
  have "s1 = snd (resolveIdentifier env t (trim_space (ar_identifier req)) (snd (singleTenantID env s)))"
    using assms by (simp add: resolved_def)
  then show ?thesis
    by simp
qed

lemma AppLogin_resolved:
  assumes "resolved env req s t (e, sid, f) s1" and "trim_space (ar_identifier req) \<noteq> []" "ar_password req \<noteq> []" "t \<noteq> []" "e \<noteq> []"
  shows "AppLogin env (Some req) s = call_login env t e sid f req s1"
  using assms by (cases "singleTenantID env s") (simp add: AppLogin_def resolved_def)

lemma AppLogin_accepted:
  assumes "AppLogin env body s = (Reply n r, s')"
  obtains req t e sid f s1 where "body = Some req" "t \<noteq> []" "resolved env req s t (e, sid, f) s1"
    "call_login env t e sid f req s1 = (Reply n r, s')"
  using assms
  by (auto simp: AppLogin_def Let_def resolved_def split: option.splits if_splits prod.splits)

lemma call_login_accepted:
  assumes "call_login env t e sid f req s = (Reply n r, s')" and "ap_login r = Some l"
  shows "\<exists>a. Login (e_auth env) (e_handler env)
      (Some \<lparr>l_email = e, l_password = ar_password req, l_totp = ar_totp req, l_tenant = t\<rparr>) (app_auth s) = (Reply 200 l, a) \<and>
    s' = s\<lparr>app_auth := a\<rparr> \<and> r = augment env t e sid f l s'"
proof -
  obtain x a where x: "Login (e_auth env) (e_handler env)
      (Some \<lparr>l_email = e, l_password = ar_password req, l_totp = ar_totp req, l_tenant = t\<rparr>) (app_auth s) = (x, a)"
    by (cases "Login (e_auth env) (e_handler env)
      (Some \<lparr>l_email = e, l_password = ar_password req, l_totp = ar_totp req, l_tenant = t\<rparr>) (app_auth s)")
  have l: "ap_login (augment env t e sid f l' s2) = Some l'" for l' s2
    by (simp add: augment_def Let_def)
  obtain k l' where k: "x = Reply k l'" "s' = s\<lparr>app_auth := a\<rparr>" "r = augment env t e sid f l' s'"
    using assms x by (cases x) (auto simp: call_login_def Let_def split: if_splits)
  have "k = 200"
    using x k(1) by (auto elim!: Login_accepted dest: login_user_accepted(9))
  then show ?thesis
    using x k l assms(2) by simp
qed

lemma augment_student:
  assumes "ap_student_id (augment env t e sid f l s) = Some x" and "x \<noteq> []"
    and "sid \<noteq> [] \<Longrightarrow> \<exists>st \<in> set (app_students s). as_id st = sid \<and> as_tenant st = t \<and> as_email st = e"
  shows "RRole l = ''STUDENT'' \<and> (\<exists>st \<in> set (app_students s). as_id st = x \<and> as_tenant st = t \<and> to_lower (as_email st) = to_lower e)"
proof (cases "RRole l = ''STUDENT''")
  case True
  show ?thesis
  proof (cases "sid = []")
    case sid: True
    then show ?thesis
      using True assms(1,2) by (auto simp: augment_def student_of_def split: if_splits option.splits dest!: select_one_Some)
  next
    case False
    then show ?thesis
      using True assms(1,3) by (auto simp: augment_def)
  qed
next
  case False
  then show ?thesis
    using assms(1) by (simp add: augment_def Let_def split: if_splits)
qed

text \<open>
  C11. Whoever the app signs in has the password of the account the identifier names: an active account
  of the one tenant, not locked if it is a student's. The registration number that is handed to
  the app, with which it checks in, belongs to the student whose email the account has.
\<close>

theorem app_login_sound:
  assumes "AppLogin env (Some req) s = (Reply n r, s')" and "ap_login r = Some l"
    and "resolved env req s t (e, sid, f) s1"
  shows "(\<exists>u \<in> set (users (app_auth s1)). Email u = e \<and> TenantID u = t \<and> IsActive u \<and>
      (Role u = ''STUDENT'' \<longrightarrow> \<not> IsLocked u (clock (e_auth env))) \<and> password_ok (e_auth env) u (ar_password req) \<and>
      RUserID l = UserID u \<and> RRole l = Role u) \<and>
    (\<forall>x. ap_student_id r = Some x \<and> x \<noteq> [] \<longrightarrow> RRole l = ''STUDENT'' \<and>
       (\<exists>st \<in> set (app_students s). as_id st = x \<and> as_tenant st = t \<and> to_lower (as_email st) = to_lower e))"
proof -
  obtain t' e' sid' f' s1' where c': "t' \<noteq> []" "resolved env req s t' (e', sid', f') s1'"
    "call_login env t' e' sid' f' req s1' = (Reply n r, s')"
    by (rule AppLogin_accepted [OF assms(1)]) simp
  then have c: "t \<noteq> []" "call_login env t e sid f req s1 = (Reply n r, s')"
    using assms(3) by (auto simp: resolved_def)
  define rq where "rq = \<lparr>l_email = e, l_password = ar_password req, l_totp = ar_totp req, l_tenant = t\<rparr>"
  obtain a where a: "Login (e_auth env) (e_handler env) (Some rq) (app_auth s1) = (Reply 200 l, a)"
    "s' = s1\<lparr>app_auth := a\<rparr>" "r = augment env t e sid f l s'"
    using call_login_accepted [OF c(2) assms(2)] by (auto simp: rq_def)
  obtain u where u: "select_one (\<lambda>u. Email u = e \<and> TenantID u = t) (users (app_auth s1)) = Some u"
    "login_user (e_auth env) (e_handler env) rq u (app_auth s1) = (Reply 200 l, a)"
    using c(1) by (auto simp: rq_def intro: Login_accepted [OF a(1)])
  have st: "app_students s' = app_students s"
    using resolved_students [OF assms(3)] a(2) by simp
  have "sid \<noteq> [] \<Longrightarrow> \<exists>st \<in> set (app_students s'). as_id st = sid \<and> as_tenant st = t \<and> as_email st = e"
    using resolved_student [of env t "trim_space (ar_identifier req)" "snd (singleTenantID env s)" e sid f s1] assms(3) st
    by (auto simp: resolved_def)
  then have "\<forall>x. ap_student_id r = Some x \<and> x \<noteq> [] \<longrightarrow> RRole l = ''STUDENT'' \<and>
       (\<exists>st \<in> set (app_students s). as_id st = x \<and> as_tenant st = t \<and> to_lower (as_email st) = to_lower e)"
    using augment_student [of env t e sid f l s'] a(3) st by simp
  moreover have "u \<in> set (users (app_auth s1)) \<and> Email u = e \<and> TenantID u = t"
    using select_one_Some [OF u(1)] by simp
  ultimately show ?thesis
    using login_user_accepted(1-3,6,7) [OF u(2)] by (auto simp: rq_def)
qed

section \<open>Students without an account\<close>

text \<open>A student typed their registration number, and the directory has them.\<close>

definition typed_reg :: "app_env \<Rightarrow> appLoginRequest \<Rightarrow> app_state \<Rightarrow> string \<Rightarrow> app_student \<Rightarrow> bool" where
  "typed_reg env req s t st =
     (let ident = trim_space (ar_identifier req) in
      ident \<noteq> [] \<and> \<not> contains ident ''@'' \<and> ar_password req \<noteq> [] \<and> t \<noteq> [] \<and> fst (singleTenantID env s) = t \<and>
      by_reg env t ident s = Some st)"

lemma by_reg_tenant [simp]: "by_reg env t i (snd (singleTenantID env s)) = by_reg env t i s"
  by (simp add: by_reg_def)

lemma typed_reg_resolved:
  assumes "typed_reg env req s t st"
  shows "resolved env req s t (as_email st, as_id st, [])
    (ensureStudentLogin env t (as_email st) (as_name st) (snd (singleTenantID env s)))"
  using assms by (simp add: typed_reg_def resolved_def resolveIdentifier_def by_email_def Let_def)

lemma typed_reg_login:
  assumes "typed_reg env req s t st"
  shows "AppLogin env (Some req) s = call_login env t (as_email st) (as_id st) [] req
    (ensureStudentLogin env t (as_email st) (as_name st) (snd (singleTenantID env s)))"
  by (rule AppLogin_resolved [OF typed_reg_resolved [OF assms]]) (use assms in \<open>auto simp: typed_reg_def by_reg_Some Let_def\<close>)

lemma typed_reg_id: "typed_reg env req s t st \<Longrightarrow> as_id st \<noteq> []"
  by (auto simp: typed_reg_def by_reg_Some Let_def btrim_def to_lower_def dest!: select_one_Some)

definition email_free :: "string \<Rightarrow> string \<Rightarrow> app_state \<Rightarrow> bool" where
  "email_free t e s = list_all (\<lambda>u. TenantID u \<noteq> t \<or> to_lower (Email u) \<noteq> to_lower e) (users (app_auth s))"

text \<open>What a first sign-in needs of the libraries: bcrypt accepts what it hashed, and a token can be signed.\<close>

definition sign_in_ready :: "app_env \<Rightarrow> bool" where
  "sign_in_ready env =
     (e_delivery env = Answered \<and> \<not> e_failing env AppAccountInsert \<and> \<not> fails (e_auth env) CallGetByEmail \<and>
      (\<exists>h. bcrypt_generate (e_auth env) DefaultStudentPassword = Some h \<and> bcrypt_compare (e_auth env) h DefaultStudentPassword) \<and>
      (\<forall>c. jwt_sign (e_auth env) c \<noteq> None) \<and> random (e_auth env) DrawJTI \<noteq> None)"

lemma ensureStudentLogin_new:
  assumes "email_free t e s" "e \<noteq> []" "to_lower (trim_space e) = e" "\<not> e_failing env AppAccountInsert"
    "bcrypt_generate (e_auth env) DefaultStudentPassword = Some h"
  shows "ensureStudentLogin env t e n s = add_account (new_account (e_new_user env) t e h ''STUDENT'' n) s"
proof -
  have low: "to_lower e = e"
    using assms(3) to_lower_idem by metis
  then have "select_one (\<lambda>u. TenantID u = t \<and> to_lower (Email u) = e) (users (app_auth s)) = None"
    using assms(1) by (auto simp: email_free_def select_one_None list_all_iff)
  moreover have "\<not> list_ex (\<lambda>u. TenantID u = t \<and> Email u = e) (users (app_auth s))"
    using assms(1) by (auto simp: email_free_def list_all_iff list_ex_iff)
  ultimately show ?thesis
    using assms low by (simp add: ensureStudentLogin_def)
qed

lemma new_student_login:
  assumes "sign_in_ready env" "bcrypt_generate (e_auth env) DefaultStudentPassword = Some h" "pw = DefaultStudentPassword"
  shows "\<exists>l a. login_user (e_auth env) (e_handler env)
      \<lparr>l_email = e, l_password = pw, l_totp = totp, l_tenant = t\<rparr> (new_account uid t e h ''STUDENT'' n) s = (Reply 200 l, a) \<and>
    RRole l = ''STUDENT'' \<and> RForcePasswordChange l"
proof -
  have "bcrypt_compare (e_auth env) h pw"
    using assms by (auto simp: sign_in_ready_def)
  moreover obtain j where "random (e_auth env) DrawJTI = Some j"
    using assms by (auto simp: sign_in_ready_def)
  moreover have "\<exists>tok. jwt_sign (e_auth env) c = Some tok" for c
    using assms by (auto simp: sign_in_ready_def)
  ultimately show ?thesis
    by (auto simp: login_user_def new_account_def IsLocked_def password_ok_def totp_gate_def MFARequired_def Issue_def
        IssueWithTTL_def generateJTI_def token_response_def Let_def split: option.splits)
qed

text \<open>
  An active student who has no account yet can sign in with their registration number and the seeded
  password, and is told to change it, provided the directory has their email in lower case.
\<close>

theorem app_first_sign_in:
  assumes "typed_reg env req s t st" and "ar_password req = DefaultStudentPassword" and "sign_in_ready env"
    and "email_free t (as_email st) s" and "to_lower (trim_space (as_email st)) = as_email st"
  shows "\<exists>r l s'. AppLogin env (Some req) s = (Reply 200 r, s') \<and> ap_login r = Some l \<and>
    RRole l = ''STUDENT'' \<and> RForcePasswordChange l \<and> ap_student_id r = Some (as_id st)"
proof -
  obtain h where h: "bcrypt_generate (e_auth env) DefaultStudentPassword = Some h"
    using assms(3) by (auto simp: sign_in_ready_def)
  have e: "as_email st \<noteq> []" "t \<noteq> []" "ar_password req \<noteq> []"
    using assms(1) by (auto simp: typed_reg_def by_reg_Some Let_def)
  let ?s0 = "snd (singleTenantID env s)"
  let ?u = "new_account (e_new_user env) t (as_email st) h ''STUDENT'' (as_name st)"
  have new: "ensureStudentLogin env t (as_email st) (as_name st) ?s0 = add_account ?u ?s0"
    using assms e h by (intro ensureStudentLogin_new) (auto simp: email_free_def sign_in_ready_def)
  have none: "select_one (\<lambda>u. Email u = as_email st \<and> TenantID u = t) (users (app_auth s)) = None"
    using assms(4) by (auto simp: email_free_def select_one_None list_all_iff)
  obtain l a where l: "login_user (e_auth env) (e_handler env)
      \<lparr>l_email = as_email st, l_password = ar_password req, l_totp = ar_totp req, l_tenant = t\<rparr> ?u (app_auth (add_account ?u ?s0)) = (Reply 200 l, a)"
    "RRole l = ''STUDENT''" "RForcePasswordChange l"
    using new_student_login [OF assms(3) h assms(2)] by blast
  have "Login (e_auth env) (e_handler env)
      (Some \<lparr>l_email = as_email st, l_password = ar_password req, l_totp = ar_totp req, l_tenant = t\<rparr>) (app_auth (add_account ?u ?s0)) = (Reply 200 l, a)"
    using l(1) none e assms(3)
    by (simp add: Login_def GetByEmailAndTenant_def select_one_append sign_in_ready_def new_account_def)
  then have "AppLogin env (Some req) s = (Reply 200 (augment env t (as_email st) (as_id st) [] l ((add_account ?u ?s0)\<lparr>app_auth := a\<rparr>)),
      (add_account ?u ?s0)\<lparr>app_auth := a\<rparr>)"
    using typed_reg_login [OF assms(1)] assms(3) by (simp add: new call_login_def sign_in_ready_def Let_def)
  then show ?thesis
    using l(2,3) typed_reg_id [OF assms(1)] by (simp add: augment_def)
qed

text \<open>An email nobody in the tenant has, letter for letter.\<close>

definition no_exact :: "string \<Rightarrow> string \<Rightarrow> User list \<Rightarrow> bool" where
  "no_exact t e us = list_all (\<lambda>u. TenantID u \<noteq> t \<or> Email u \<noteq> e) us"

lemma no_exact_key: "no_exact t e us \<longleftrightarrow> (t, e) \<notin> set (map account_key us)"
  by (auto simp: no_exact_def list_all_iff account_key_def)

lemma ensureStudentLogin_no_exact:
  "e \<noteq> to_lower (trim_space e) \<Longrightarrow> no_exact t e (users (app_auth s)) \<Longrightarrow>
     no_exact t e (users (app_auth (ensureStudentLogin env t e n s)))"
  by (auto simp: ensureStudentLogin_def no_exact_def new_account_def Let_def split: option.splits)

text \<open>
  A student whose email in the directory has a capital letter and who has no account with exactly
  that email cannot sign in with their registration number: the account made for them carries the email
  in lower case, and auth-service is asked for the email as the directory has it. Whatever password is
  tried, the answer is 401, and the next attempt finds the same situation.
\<close>

theorem capital_email_locked_out:
  assumes "typed_reg env req s t st" and "as_email st \<noteq> to_lower (trim_space (as_email st))"
    and "no_exact t (as_email st) (users (app_auth s))"
    and "e_delivery env = Answered" and "\<not> fails (e_auth env) CallGetByEmail"
  shows "\<exists>s'. AppLogin env (Some req) s = (Reject 401 ''INVALID_CREDENTIALS'', s') \<and>
    no_exact t (as_email st) (users (app_auth s')) \<and> app_students s' = app_students s"
proof -
  let ?s1 = "ensureStudentLogin env t (as_email st) (as_name st) (snd (singleTenantID env s))"
  have e: "as_email st \<noteq> []" "t \<noteq> []" "ar_password req \<noteq> []"
    using assms(1) by (auto simp: typed_reg_def by_reg_Some Let_def)
  have n: "no_exact t (as_email st) (users (app_auth ?s1))"
    using ensureStudentLogin_no_exact [OF assms(2)] assms(3) by simp
  then have "select_one (\<lambda>u. Email u = as_email st \<and> TenantID u = t) (users (app_auth ?s1)) = None"
    by (auto simp: no_exact_def list_all_iff select_one_None)
  then have "call_login env t (as_email st) (as_id st) [] req ?s1 = (Reject 401 ''INVALID_CREDENTIALS'', ?s1)"
    using e assms(4,5) by (simp add: call_login_def Login_def GetByEmailAndTenant_def)
  then show ?thesis
    using typed_reg_login [OF assms(1)] n by simp
qed

section \<open>An example\<close>

text \<open>One tenant, two students without an account: one email in lower case, one with a capital.\<close>

definition demo_app_student :: "string \<Rightarrow> string \<Rightarrow> app_student" where
  "demo_app_student sid email =
     \<lparr>as_id = sid, as_tenant = ''t1'', as_email = email, as_name = ''A'', as_course = ''c'', as_academic_year = '''', as_year = None,
      as_semester = None, as_level = None, as_intake = None, as_offering = None, as_status = ''ACTIVE'', as_hardware = None,
      as_rebinds = 0, as_last_rebind = None\<rparr>"

definition demo_app :: app_state where
  "demo_app = \<lparr>app_auth = \<lparr>users = [], tenants = [], redis = Map.empty\<rparr>, account_staff = Map.empty,
     app_students = [demo_app_student ''R1'' ''a@k'', demo_app_student ''R2'' ''B@k''], app_lecturers = [], cachedTenant = ''t1'',
     bindings = [], hardware_vault = [], admin_log = []\<rparr>"

definition demo_app_env :: app_env where
  "demo_app_env = \<lparr>e_auth = demo_env 0, e_handler = demo_handler, e_failing = (\<lambda>_. False), e_default_tenant = '''',
     e_new_user = ''u9'', e_delivery = Answered, e_now = 0, e_is_inet = (\<lambda>_. True)\<rparr>"

definition demo_app_request :: "string \<Rightarrow> appLoginRequest" where
  "demo_app_request reg = \<lparr>ar_identifier = reg, ar_password = ''student'', ar_totp = ''''\<rparr>"

lemmas demo_app_defs = demo_app_student_def demo_app_def demo_app_env_def demo_app_request_def

lemma demo_lower:
  "to_lower ''R1'' = ''r1''" "to_lower ''r1'' = ''r1''" "to_lower ''R2'' = ''r2''" "to_lower ''r2'' = ''r2''"
  "to_lower ''a@k'' = ''a@k''" "to_lower ''B@k'' = ''b@k''"
  by code_simp+

lemma demo_typed:
  "typed_reg demo_app_env (demo_app_request ''r1'') demo_app ''t1'' (demo_app_student ''R1'' ''a@k'')"
  "typed_reg demo_app_env (demo_app_request ''r2 '') demo_app ''t1'' (demo_app_student ''R2'' ''B@k'')"
  by (simp_all add: typed_reg_def Let_def demo_app_defs trim_space_def trim_left_def trim_right_def is_space_def demo_lower has_prefix_def
      singleTenantID_def by_reg_def select_one_def btrim_def)

lemma demo_sign_in_ready: "sign_in_ready demo_app_env"
  by (simp add: sign_in_ready_def demo_app_env_def demo_env_def)

theorem capital_email_locked_out_witness:
  "\<exists>s'. AppLogin demo_app_env (Some (demo_app_request ''r2 '')) demo_app = (Reject 401 ''INVALID_CREDENTIALS'', s')"
proof -
  have "as_email (demo_app_student ''R2'' ''B@k'') \<noteq> to_lower (trim_space (as_email (demo_app_student ''R2'' ''B@k'')))"
    by (simp add: demo_app_student_def trim_space_def trim_left_def trim_right_def is_space_def demo_lower)
  moreover have "no_exact ''t1'' (as_email (demo_app_student ''R2'' ''B@k'')) (users (app_auth demo_app))"
    "e_delivery demo_app_env = Answered" "\<not> fails (e_auth demo_app_env) CallGetByEmail"
    by (simp_all add: no_exact_def demo_app_def demo_app_env_def demo_env_def)
  ultimately show ?thesis
    using capital_email_locked_out [OF demo_typed(2)] by blast
qed

lemma demo_first:
  "ar_password (demo_app_request ''r1'') = DefaultStudentPassword"
  "email_free ''t1'' (as_email (demo_app_student ''R1'' ''a@k'')) demo_app"
  "to_lower (trim_space (as_email (demo_app_student ''R1'' ''a@k''))) = as_email (demo_app_student ''R1'' ''a@k'')"
  by (simp_all add: demo_app_defs DefaultStudentPassword_def email_free_def trim_space_def trim_left_def trim_right_def
      is_space_def demo_lower)

theorem app_first_sign_in_witness:
  "\<exists>r l s'. AppLogin demo_app_env (Some (demo_app_request ''r1'')) demo_app = (Reply 200 r, s') \<and> ap_login r = Some l \<and>
     RRole l = ''STUDENT'' \<and> RForcePasswordChange l \<and> ap_student_id r = Some ''R1''"
  using app_first_sign_in [OF demo_typed(1) demo_first(1) demo_sign_in_ready demo_first(2,3)] by (simp add: demo_app_student_def)

text \<open>A student with an account, signing in by registration number.\<close>

definition demo_known :: app_state where
  "demo_known = add_account (new_account ''u1'' ''t1'' ''a@k'' ''h:secret12'' ''STUDENT'' ''A'') demo_app"

definition demo_known_request :: appLoginRequest where
  "demo_known_request = \<lparr>ar_identifier = ''R1'', ar_password = ''secret12'', ar_totp = ''''\<rparr>"

lemma demo_known_resolved: "resolved demo_app_env demo_known_request demo_known ''t1'' (''a@k'', ''R1'', []) demo_known"
  by (simp add: resolved_def demo_known_def demo_known_request_def demo_app_defs add_account_def new_account_def singleTenantID_def
      trim_space_def trim_left_def trim_right_def is_space_def demo_lower resolveIdentifier_def by_email_def by_reg_def has_prefix_def
      select_one_def btrim_def ensureStudentLogin_def Let_def)

lemma demo_known_login:
  "\<exists>r l s'. AppLogin demo_app_env (Some demo_known_request) demo_known = (Reply 200 r, s') \<and> ap_login r = Some l \<and>
     RUserID l = ''u1'' \<and> ap_student_id r = Some ''R1''"
proof -
  have "AppLogin demo_app_env (Some demo_known_request) demo_known =
      call_login demo_app_env ''t1'' ''a@k'' ''R1'' [] demo_known_request demo_known"
    by (rule AppLogin_resolved [OF demo_known_resolved])
      (simp_all add: demo_known_request_def trim_space_def trim_left_def trim_right_def is_space_def)
  moreover have "\<exists>l a. Login (e_auth demo_app_env) (e_handler demo_app_env)
      (Some \<lparr>l_email = ''a@k'', l_password = ''secret12'', l_totp = '''', l_tenant = ''t1''\<rparr>) (app_auth demo_known) = (Reply 200 l, a) \<and>
      RUserID l = ''u1'' \<and> RRole l = ''STUDENT''"
    by (simp add: login_defs demo_auth_defs demo_app_defs demo_known_def add_account_def new_account_def select_one_def
        token_response_def split: prod.splits)
  ultimately show ?thesis
    by (auto simp: call_login_def demo_known_request_def demo_app_env_def augment_def)
qed

theorem app_login_sound_witness:
  "\<exists>r s'. AppLogin demo_app_env (Some demo_known_request) demo_known = (Reply 200 r, s') \<and> ap_student_id r = Some ''R1'' \<and>
     (\<exists>u \<in> set (users (app_auth demo_known)). Email u = ''a@k'' \<and> password_ok (e_auth demo_app_env) u ''secret12'')"
proof -
  obtain r l s' where d: "AppLogin demo_app_env (Some demo_known_request) demo_known = (Reply 200 r, s')" "ap_login r = Some l"
    "ap_student_id r = Some ''R1''"
    using demo_known_login by blast
  then show ?thesis
    using app_login_sound [OF d(1,2) demo_known_resolved] by (auto simp: demo_known_request_def)
qed

theorem app_login_accounts_witness:
  "\<exists>r s'. AppLogin demo_app_env (Some demo_known_request) demo_known = (r, s') \<and>
     distinct (map account_key (users (app_auth s')))"
proof -
  have "distinct (map account_key (users (app_auth demo_known)))"
    by (simp add: demo_known_def add_account_def demo_app_def)
  then show ?thesis
    using app_login_accounts [of demo_app_env "Some demo_known_request" demo_known] by (metis surj_pair)
qed

end
