(* ===== verification/Student_Device.thy ===== *)
theory Student_Device
  imports App_Login
begin

text \<open>
  The binding of a student to one phone: \<open>RegisterDevice\<close> (\<open>student_device.go\<close>), the officer's reset
  (\<open>QADeviceReset\<close> of \<open>reporting.go\<close>) and the entry it leaves in the audit log (\<open>audit.go\<close>). The tables keep
  their constraints: a device and a student occur once in \<open>student_device_bindings\<close>, and
  \<open>rebind_count\<close> is at most 2. The switch is counted and the phone bound by two statements, without a
  transaction.
\<close>

section \<open>Registering a phone\<close>

record registerDeviceRequest =
  rd_reg :: string
  rd_device :: string

record registerDeviceResponse =
  rr_student :: string
  rr_name :: string
  rr_block :: "instant option"

definition rebind_limit :: int where "rebind_limit = 2"

definition rebind_cooldown :: duration where "rebind_cooldown = 12 * hour"

definition active_student :: "app_env \<Rightarrow> string \<Rightarrow> string \<Rightarrow> app_state \<Rightarrow> app_student option" where
  "active_student env reg t s =
     (if e_failing env AppActive then None
      else select_one (\<lambda>st. as_id st = reg \<and> as_tenant st = t \<and> as_status st = ''ACTIVE'') (app_students s))"

definition device_owner :: "app_env \<Rightarrow> string \<Rightarrow> app_state \<Rightarrow> string option" where
  "device_owner env fp s =
     (if e_failing env AppOwner then None
      else map_option db_student (select_one (\<lambda>b. db_device b = fp) (bindings s)))"

definition student_device :: "app_env \<Rightarrow> string \<Rightarrow> app_state \<Rightarrow> string option" where
  "student_device env reg s =
     (if e_failing env AppDevice then None
      else map_option db_device (select_one (\<lambda>b. db_student b = reg) (bindings s)))"

text \<open>A count that cannot be read stays at zero.\<close>

definition read_rebinds :: "app_env \<Rightarrow> string \<Rightarrow> string \<Rightarrow> app_state \<Rightarrow> int" where
  "read_rebinds env reg t s =
     (if e_failing env AppRebindCount then 0
      else case select_one (\<lambda>st. as_id st = reg \<and> as_tenant st = t) (app_students s) of
        None \<Rightarrow> 0 | Some st \<Rightarrow> as_rebinds st)"

definition add_rebind :: "instant \<Rightarrow> app_student \<Rightarrow> app_student" where
  "add_rebind now st = st\<lparr>as_rebinds := as_rebinds st + 1, as_last_rebind := Some now\<rparr>"

text \<open>The column's check makes an update past the limit an error.\<close>

definition count_rebind :: "app_env \<Rightarrow> string \<Rightarrow> string \<Rightarrow> app_state \<Rightarrow> app_state option" where
  "count_rebind env reg t s =
     (if e_failing env AppRebind \<or>
         list_ex (\<lambda>st. as_id st = reg \<and> as_tenant st = t \<and> rebind_limit < as_rebinds st + 1) (app_students s) then None
      else Some (s\<lparr>app_students := update_where (\<lambda>st. as_id st = reg \<and> as_tenant st = t) (add_rebind (e_now env)) (app_students s)\<rparr>))"

definition rebound :: "device_binding \<Rightarrow> device_binding \<Rightarrow> device_binding" where
  "rebound new old = old\<lparr>db_device := db_device new, db_block_until := db_block_until new\<rparr>"

text \<open>The upsert; the unique index on the device and the column's width are errors of it.\<close>

definition bind_device :: "app_env \<Rightarrow> string \<Rightarrow> string \<Rightarrow> instant option \<Rightarrow> app_state \<Rightarrow> app_state option" where
  "bind_device env reg fp block s =
     (if e_failing env AppBind \<or> 128 < length fp \<or> list_ex (\<lambda>b. db_device b = fp \<and> db_student b \<noteq> reg) (bindings s) then None
      else Some (s\<lparr>bindings := upsert db_student rebound \<lparr>db_student = reg, db_device = fp, db_block_until = block\<rparr> (bindings s)\<rparr>))"

definition register ::
  "app_env \<Rightarrow> string \<Rightarrow> string \<Rightarrow> string \<Rightarrow> instant option \<Rightarrow> app_state \<Rightarrow> registerDeviceResponse reply \<times> app_state" where
  "register env reg fp fullName block s =
     (case bind_device env reg fp block s of
        None \<Rightarrow> (Reject 500 ''INTERNAL_ERROR'', s)
      | Some s \<Rightarrow> (Reply 200 \<lparr>rr_student = reg, rr_name = fullName, rr_block = block\<rparr>, s))"

definition RegisterDevice ::
  "app_env \<Rightarrow> registerDeviceRequest option \<Rightarrow> app_state \<Rightarrow> registerDeviceResponse reply \<times> app_state" where
  "RegisterDevice env body s =
     (case body of
        None \<Rightarrow> (Reject 400 ''INVALID_REQUEST'', s)
      | Some req \<Rightarrow>
          let reg = trim_space (rd_reg req); fp = trim_space (rd_device req) in
          if reg = [] \<or> fp = [] then (Reject 400 ''INVALID_REQUEST'', s)
          else let (t, s) = singleTenantID env s in
            if t = [] then (Reject 500 ''NO_TENANT'', s)
            else case active_student env reg t s of
              None \<Rightarrow> (Reject 404 ''NOT_FOUND'', s)
            | Some st \<Rightarrow>
                if device_owner env fp s \<noteq> None \<and> device_owner env fp s \<noteq> Some reg then (Reject 409 ''DEVICE_TAKEN'', s)
                else if student_device env reg s \<noteq> None \<and> student_device env reg s \<noteq> Some fp then
                  (if rebind_limit \<le> read_rebinds env reg t s then (Reject 409 ''REBIND_LIMIT'', s)
                   else case count_rebind env reg t s of
                     None \<Rightarrow> (Reject 500 ''INTERNAL_ERROR'', s)
                   | Some s \<Rightarrow> register env reg fp (as_name st) (Some (e_now env + rebind_cooldown)) s)
                else register env reg fp (as_name st) None s)"

section \<open>The officer's reset\<close>

text \<open>
  \<open>auditAdmin\<close>: best effort, its own connection. An empty address is stored as NULL; any other has to be an
  \<open>inet\<close> for PostgreSQL, or the insert fails. The payload is the JSON object as its fields.
\<close>

definition audit_client_ip :: "origin \<Rightarrow> string" where
  "audit_client_ip og =
     (let ip = trim_space (hd (split_on (CHR '','') (x_forwarded_for og))) in
      if ip = [] then takeWhile (\<lambda>c. c \<noteq> CHR '':'') (remote_addr og) else ip)"

definition auditAdmin ::
  "app_env \<Rightarrow> request_context \<Rightarrow> origin \<Rightarrow> string \<Rightarrow> string \<Rightarrow> string \<Rightarrow> string \<Rightarrow> string \<Rightarrow> (string \<times> string) list \<Rightarrow> app_state \<Rightarrow> app_state" where
  "auditAdmin env cx og tenantID actorID action targetType targetID payload s =
     (let role = (if cx_role cx = [] then ''UNKNOWN'' else cx_role cx); ip = audit_client_ip og in
      if e_failing env AppAuditAcquire \<or> \<not> ValidTenantID tenantID \<or> e_failing env AppAuditScope \<or> e_failing env AppAudit \<or>
         (ip \<noteq> [] \<and> \<not> e_is_inet env ip) then s
      else s\<lparr>admin_log := admin_log s @ [\<lparr>aa_actor = actorID, aa_role = role, aa_action = action, aa_target_type = nullif targetType,
               aa_target_id = nullif targetID, aa_payload = payload, aa_ip = nullif ip\<rparr>]\<rparr>)"

definition reset_student :: "instant \<Rightarrow> app_student \<Rightarrow> app_student" where
  "reset_student now st = st\<lparr>as_hardware := None, as_rebinds := 0, as_last_rebind := Some now\<rparr>"

record deviceResetRequest =
  dr_student :: string
  dr_code :: string
  dr_text :: string

definition QADeviceReset ::
  "app_env \<Rightarrow> request_context \<Rightarrow> origin \<Rightarrow> deviceResetRequest option \<Rightarrow> app_state \<Rightarrow> (string \<times> string) reply \<times> app_state" where
  "QADeviceReset env cx og body s =
     (case body of
        None \<Rightarrow> (Reject 400 ''INVALID_REQUEST'', s)
      | Some req \<Rightarrow>
          if e_failing env AppAcquire then (Reject 500 ''INTERNAL_ERROR'', s)
          else let own = (\<lambda>st. as_id st = dr_student req \<and> as_tenant st = cx_tenant cx) in
            if \<not> ValidTenantID (cx_tenant cx) \<or> e_failing env AppScope \<or> e_failing env AppReset \<or>
               affected own (app_students s) = 0 then (Reject 404 ''NOT_FOUND'', s)
            else let s = s\<lparr>app_students := update_where own (reset_student (e_now env)) (app_students s)\<rparr>;
                     s = (if e_failing env AppVault then s
                          else s\<lparr>hardware_vault := delete_where (\<lambda>x. x = dr_student req) (hardware_vault s)\<rparr>);
                     s = auditAdmin env cx og (cx_tenant cx) (cx_user cx) ''STUDENT_DEVICE_RESET'' ''student'' (dr_student req)
                           [(''reason_code'', dr_code req), (''reason_text'', dr_text req)] s
                 in (Reply 200 (dr_student req, cx_user cx), s))"

section \<open>One student, one phone\<close>

interpretation device_upsert: keyed_upsert db_student rebound
  by unfold_locales (simp add: rebound_def)

definition devices_ok :: "app_state \<Rightarrow> bool" where
  "devices_ok s = (distinct (map db_student (bindings s)) \<and> distinct (map db_device (bindings s)) \<and>
     list_all (\<lambda>st. 0 \<le> as_rebinds st \<and> as_rebinds st \<le> rebind_limit) (app_students s))"

inductive device_step :: "app_state \<Rightarrow> app_state \<Rightarrow> bool" where
  registered: "device_step s (snd (RegisterDevice env body s))"
| reset: "device_step s (snd (QADeviceReset env cx og body' s))"

lemma bind_device_ok:
  assumes "bind_device env reg fp block s = Some s'" "devices_ok s"
  shows "devices_ok s'"
proof -
  let ?new = "\<lparr>db_student = reg, db_device = fp, db_block_until = block\<rparr>"
  have s': "s' = s\<lparr>bindings := upsert db_student rebound ?new (bindings s)\<rparr>"
    and free: "\<And>b. b \<in> set (bindings s) \<Longrightarrow> db_device b = fp \<Longrightarrow> db_student b = reg"
    using assms(1) by (auto simp: bind_device_def list_ex_iff split: if_splits)
  have "distinct (map db_device (upsert db_student rebound ?new (bindings s)))"
    using assms(2) free
    by (auto simp: devices_ok_def upsert_def update_where_def rebound_def list_ex_iff distinct_map inj_on_def image_iff)
  then show ?thesis
    using assms(2) device_upsert.one_per_key [of "bindings s" ?new] by (simp add: s' devices_ok_def)
qed

lemma count_rebind_ok: "count_rebind env reg t s = Some s' \<Longrightarrow> devices_ok s \<Longrightarrow> devices_ok s'"
  by (auto simp: count_rebind_def devices_ok_def list_all_iff list_ex_iff update_where_def add_rebind_def add1_zle_eq not_le split: if_splits)

lemma singleTenantID_kept [simp]:
  "bindings (snd (singleTenantID env s)) = bindings s" "hardware_vault (snd (singleTenantID env s)) = hardware_vault s"
  "admin_log (snd (singleTenantID env s)) = admin_log s"
  by (auto simp: singleTenantID_def split: option.splits)

lemma devices_ok_tenant [simp]: "devices_ok (snd (singleTenantID env s)) = devices_ok s"
  by (simp add: devices_ok_def)

text \<open>What a registration can do to the state, in its order.\<close>

lemma RegisterDevice_kept:
  assumes "P s" and "P (snd (singleTenantID env s))"
    and "\<And>reg t s s'. count_rebind env reg t s = Some s' \<Longrightarrow> P s \<Longrightarrow> P s'"
    and "\<And>reg fp block s s'. bind_device env reg fp block s = Some s' \<Longrightarrow> P s \<Longrightarrow> P s'"
  shows "P (snd (RegisterDevice env body s))"
proof -
  obtain t s0 where t: "singleTenantID env s = (t, s0)"
    by (cases "singleTenantID env s")
  have r: "P s1 \<Longrightarrow> P (snd (register env reg fp n block s1))" for reg fp n block s1
    using assms(4) by (auto simp: register_def split: option.splits)
  show ?thesis
    using assms(1-3) t by (auto simp: RegisterDevice_def Let_def intro!: r split: option.splits)
qed

lemma auditAdmin_kept [simp]:
  "app_students (auditAdmin env cx og t a act tt ti p s) = app_students s"
  "bindings (auditAdmin env cx og t a act tt ti p s) = bindings s"
  by (simp_all add: auditAdmin_def Let_def)

lemma QADeviceReset_ok: "devices_ok s \<Longrightarrow> devices_ok (snd (QADeviceReset env cx og body s))"
  by (auto simp: QADeviceReset_def Let_def devices_ok_def list_all_iff in_update_where reset_student_def rebind_limit_def
      split: option.splits)

interpretation devices: kept_property device_step devices_ok
proof unfold_locales
  fix s s'
  assume "device_step s s'" "devices_ok s"
  then show "devices_ok s'"
    by cases (auto intro: RegisterDevice_kept [where P = devices_ok] count_rebind_ok bind_device_ok QADeviceReset_ok)
qed

lemma register_reply:
  assumes "register env reg fp n block s = (Reply k r, s')" "devices_ok s"
  shows "select_one (\<lambda>b. db_student b = reg) (bindings s') = Some \<lparr>db_student = reg, db_device = fp, db_block_until = block\<rparr>"
    and "rr_student r = reg" "rr_block r = block" "app_students s' = app_students s" "cachedTenant s' = cachedTenant s"
proof -
  have s': "s' = s\<lparr>bindings := upsert db_student rebound \<lparr>db_student = reg, db_device = fp, db_block_until = block\<rparr> (bindings s)\<rparr>"
    using assms(1) by (auto simp: register_def bind_device_def split: option.splits if_splits)
  show "select_one (\<lambda>b. db_student b = reg) (bindings s') = Some \<lparr>db_student = reg, db_device = fp, db_block_until = block\<rparr>"
    using device_upsert.lookup_upsert [of "\<lparr>db_student = reg, db_device = fp, db_block_until = block\<rparr>" "bindings s"]
    by (auto simp: s' rebound_def split: option.splits dest: select_one_Some)
  show "rr_student r = reg" "rr_block r = block" "app_students s' = app_students s" "cachedTenant s' = cachedTenant s"
    using assms(1) s' by (auto simp: register_def split: option.splits)
qed


section \<open>Switching phones\<close>

text \<open>A sequence of registrations, and how many of them moved a given student to another phone.\<close>

fun run_registrations :: "(app_env \<times> registerDeviceRequest option) list \<Rightarrow> app_state \<Rightarrow> registerDeviceResponse reply list \<times> app_state" where
  "run_registrations [] s = ([], s)"
| "run_registrations ((env, body) # rest) s =
     (let (r, s) = RegisterDevice env body s; (rs, s) = run_registrations rest s in (r # rs, s))"

fun is_switch :: "string \<Rightarrow> registerDeviceResponse reply \<Rightarrow> bool" where
  "is_switch reg (Reply _ r) = (rr_student r = reg \<and> rr_block r \<noteq> None)"
| "is_switch reg (Reject _ _) = False"

definition rebinds_of :: "string \<Rightarrow> app_state \<Rightarrow> int" where
  "rebinds_of reg s = (case select_one (\<lambda>st. as_id st = reg) (app_students s) of None \<Rightarrow> 0 | Some st \<Rightarrow> as_rebinds st)"

definition students_keyed :: "app_state \<Rightarrow> bool" where
  "students_keyed s = distinct (map as_id (app_students s))"

interpretation rebind_update: keyed_update as_id "add_rebind now"
  by unfold_locales (simp add: add_rebind_def)

text \<open>With one row for each student, the tenant in the condition only decides whether the row is found.\<close>

lemma count_rebind_counts:
  assumes "count_rebind env reg t s = Some s'" "active_student env' reg t s = Some st" "students_keyed s"
  shows "rebinds_of x s' = rebinds_of x s + (if x = reg then 1 else 0)" and "students_keyed s'"
proof -
  have st: "st \<in> set (app_students s)" "as_id st = reg" "as_tenant st = t"
    using assms(2) by (auto simp: active_student_def split: if_splits dest!: select_one_Some)
  have same: "as_id r = reg \<and> as_tenant r = t \<longleftrightarrow> as_id r = reg" if "r \<in> set (app_students s)" for r
    using that st assms(3) by (auto simp: students_keyed_def distinct_map inj_on_def)
  have "update_where (\<lambda>st. as_id st = reg \<and> as_tenant st = t) (add_rebind (e_now env)) (app_students s) =
      update_where (\<lambda>st. as_id st = reg) (add_rebind (e_now env)) (app_students s)"
    by (auto simp: update_where_def same)
  then have s': "app_students s' = update_where (\<lambda>st. as_id st = reg) (add_rebind (e_now env)) (app_students s)"
    using assms(1) by (auto simp: count_rebind_def split: if_splits)
  have "select_one (\<lambda>st. as_id st = reg) (app_students s) = Some st"
    using select_unique [of as_id "app_students s" st] st assms(3) by (simp add: students_keyed_def)
  then show "rebinds_of x s' = rebinds_of x s + (if x = reg then 1 else 0)"
    using rebind_update.lookup_updated [of reg "e_now env" "app_students s"] rebind_update.lookup_other [of x reg "e_now env" "app_students s"]
    by (auto simp: rebinds_of_def s' add_rebind_def)
  show "students_keyed s'"
    using assms(3) rebind_update.keys_kept [of reg "e_now env" "app_students s"] by (simp add: students_keyed_def s')
qed

lemma rebinds_of_students: "app_students s' = app_students s \<Longrightarrow> rebinds_of x s' = rebinds_of x s \<and> students_keyed s' = students_keyed s"
  by (simp add: rebinds_of_def students_keyed_def)

lemma register_kept: "app_students (snd (register env reg fp n block s)) = app_students s"
  by (auto simp: register_def bind_device_def split: option.splits if_splits)

lemma active_student_tenant [simp]: "active_student env reg t (snd (singleTenantID env' s)) = active_student env reg t s"
  by (simp add: active_student_def)

text \<open>Each accepted switch is counted; nothing a registration does lowers a count.\<close>

lemma RegisterDevice_counts:
  assumes "RegisterDevice env body s = (r, s')" "students_keyed s"
  shows "rebinds_of x s + (if is_switch x r then 1 else 0) \<le> rebinds_of x s' \<and> students_keyed s'"
proof (cases "app_students s' = app_students s")
  case True
  have "\<not> is_switch x r"
  proof
    assume sw: "is_switch x r"
    then obtain k q where r: "r = Reply k q" "rr_block q \<noteq> None"
      by (cases r) auto
    obtain t s0 where t: "singleTenantID env s = (t, s0)" "app_students s0 = app_students s"
      using singleTenantID_auth(2) [of env s] by (cases "singleTenantID env s") simp
    obtain reg fp st nm block s1 where c: "count_rebind env reg t s0 = Some s1" "active_student env reg t s0 = Some st"
      "register env reg fp nm block s1 = (r, s')"
      using assms(1) t(1) r by (auto simp: RegisterDevice_def Let_def register_def split: option.splits if_splits)
    have "app_students s' = app_students s1"
      using register_kept [of env reg fp nm block s1] c(3) by simp
    then show False
      using count_rebind_counts(1) [OF c(1,2), of reg] True t(2) assms(2) rebinds_of_students [of s' s reg]
        rebinds_of_students [of s' s1 reg] rebinds_of_students [of s0 s reg] by simp
  qed
  then show ?thesis
    using rebinds_of_students [OF True] assms(2) by simp
next
  case False
  obtain t s0 where t: "singleTenantID env s = (t, s0)" "app_students s0 = app_students s"
    using singleTenantID_auth(2) [of env s] by (cases "singleTenantID env s") simp
  obtain reg fp st nm block s1 where c: "count_rebind env reg t s0 = Some s1" "active_student env reg t s0 = Some st"
    "register env reg fp nm block s1 = (r, s')"
    using assms(1) t False register_kept [of env _ _ _ _ s0]
    by (auto simp: RegisterDevice_def Let_def split: option.splits if_splits) (metis snd_conv)+
  have "app_students s' = app_students s1"
    using register_kept [of env reg fp nm block s1] c(3) by simp
  moreover have "is_switch x r \<Longrightarrow> x = reg"
    using c(3) by (auto simp: register_def split: option.splits)
  ultimately show ?thesis
    using count_rebind_counts(1) [OF c(1,2), of x] count_rebind_counts(2) [OF c(1,2)] assms(2) rebinds_of_students [of s' s1 x] rebinds_of_students [of s0 s x] t(2)
    by auto
qed

lemma run_registrations_counts:
  "run_registrations reqs s = (rs, s') \<Longrightarrow> students_keyed s \<Longrightarrow> devices_ok s \<Longrightarrow>
     rebinds_of x s + int (length (filter (is_switch x) rs)) \<le> rebinds_of x s' \<and> devices_ok s'"
proof (induction reqs arbitrary: s rs)
  case (Cons q reqs)
  obtain env body where q: "q = (env, body)"
    by fastforce
  obtain r s1 rs' where r: "RegisterDevice env body s = (r, s1)" "run_registrations reqs s1 = (rs', s')" "rs = r # rs'"
    using Cons.prems(1) by (auto simp: q split: prod.splits)
  have "devices_ok s1"
    using devices.step_keeps [OF device_step.registered [of s env body]] Cons.prems(3) r(1) by simp
  then show ?case
    using Cons.IH [OF r(2)] RegisterDevice_counts [OF r(1) Cons.prems(2), of x] r(3) by auto
qed (simp add: rebinds_of_def)


section \<open>The cooldown after a switch\<close>

lemma tenant_cached:
  assumes "singleTenantID env s = (t, s0)" "t \<noteq> []"
  shows "cachedTenant s0 = t" "cachedTenant s1 = t \<Longrightarrow> singleTenantID env' s1 = (t, s1)"
  using assms by (auto simp: singleTenantID_def split: if_splits option.splits)

lemma count_rebind_kept:
  assumes "count_rebind env reg t s = Some s'" "active_student env' x t' s = Some st"
  shows "active_student env x t' s' \<noteq> None \<or> e_failing env AppActive" "cachedTenant s' = cachedTenant s" "bindings s' = bindings s"
proof -
  have st: "st \<in> set (app_students s)" "as_id st = x" "as_tenant st = t'" "as_status st = ''ACTIVE''"
    using assms(2) by (auto simp: active_student_def split: if_splits dest!: select_one_Some)
  have s': "s' = s\<lparr>app_students := update_where (\<lambda>st. as_id st = reg \<and> as_tenant st = t) (add_rebind (e_now env)) (app_students s)\<rparr>"
    using assms(1) by (auto simp: count_rebind_def split: if_splits)
  have "\<exists>r \<in> set (app_students s'). as_id r = x \<and> as_tenant r = t' \<and> as_status r = ''ACTIVE''"
  proof (rule bexI)
    show "(if as_id st = reg \<and> as_tenant st = t then add_rebind (e_now env) st else st) \<in> set (app_students s')"
      using st(1) by (auto simp: s' in_update_where)
  qed (use st in \<open>simp add: add_rebind_def\<close>)
  then show "active_student env x t' s' \<noteq> None \<or> e_failing env AppActive"
    by (auto simp: active_student_def select_one_None simp del: not_None_eq)
  show "cachedTenant s' = cachedTenant s" "bindings s' = bindings s"
    by (simp_all add: s')
qed

lemma device_of_binding:
  assumes "devices_ok s" "select_one (\<lambda>b. db_student b = reg) (bindings s) = Some b"
  shows "select_one (\<lambda>x. db_device x = db_device b) (bindings s) = Some b"
  using select_unique [of db_device "bindings s" b] assms by (auto simp: devices_ok_def dest: select_one_Some)

lemma device_not_shared:
  assumes "devices_ok s" "select_one (\<lambda>b. db_student b = reg) (bindings s) = Some b"
  shows "\<not> list_ex (\<lambda>x. db_device x = db_device b \<and> db_student x \<noteq> reg) (bindings s)"
proof -
  have "inj_on db_device (set (bindings s))" "b \<in> set (bindings s)" "db_student b = reg"
    using assms by (auto simp: devices_ok_def distinct_map dest: select_one_Some)
  then show ?thesis
    unfolding list_ex_iff by (metis inj_onD)
qed

text \<open>
  The twelve hours' pause after a switch lasts until the same request is sent again: the second
  registration of the same phone is accepted, answers without a pause, deletes the stored one and uses
  up no switch.
\<close>

theorem cooldown_cleared_by_repeat:
  assumes "RegisterDevice env (Some req) s = (Reply n r, s')" and "rr_block r = Some b" and "devices_ok s"
    and "e_failing env' = (\<lambda>_. False)"
  shows "b = e_now env + 12 * hour \<and>
    (\<exists>r' s''. RegisterDevice env' (Some req) s' = (Reply 200 r', s'') \<and> rr_block r' = None \<and>
       map_option db_block_until (select_one (\<lambda>x. db_student x = rr_student r) (bindings s'')) = Some None \<and>
       app_students s'' = app_students s')"
proof -
  define reg where "reg = trim_space (rd_reg req)"
  define fp where "fp = trim_space (rd_device req)"
  obtain t s0 where t: "singleTenantID env s = (t, s0)"
    by (cases "singleTenantID env s")
  obtain st s1 where c: "reg \<noteq> []" "fp \<noteq> []" "t \<noteq> []" "active_student env reg t s0 = Some st" "count_rebind env reg t s0 = Some s1"
    "register env reg fp (as_name st) (Some (e_now env + rebind_cooldown)) s1 = (Reply n r, s')"
    using assms(1,2) t by (auto simp: RegisterDevice_def register_def reg_def fp_def Let_def split: option.splits if_splits)
  have ok: "devices_ok s1"
    using count_rebind_ok [OF c(5)] assms(3) devices_ok_tenant [of env s] t by simp
  note reply = register_reply [OF c(6) ok]
  have len: "length fp \<le> 128" and ok': "devices_ok s'"
    using c(6) bind_device_ok [OF _ ok] by (auto simp: register_def bind_device_def split: option.splits if_splits)
  have cached: "singleTenantID env' s' = (t, s')"
    using tenant_cached [OF t c(3)] count_rebind_kept(2) [OF c(5,4)] reply(5) by simp
  have "\<not> e_failing env AppActive"
    using c(4) by (auto simp: active_student_def split: if_splits)
  then obtain st' where st': "active_student env' reg t s' = Some st'"
    using count_rebind_kept(1) [OF c(5,4)] reply(4) assms(4) by (auto simp: active_student_def)
  have own: "device_owner env' fp s' = Some reg" "student_device env' reg s' = Some fp"
    using device_of_binding [OF ok' reply(1)] reply(1) assms(4) by (simp_all add: device_owner_def student_device_def)
  then have "\<not> list_ex (\<lambda>b. db_device b = fp \<and> db_student b \<noteq> reg) (bindings s')"
    using device_not_shared [OF ok' reply(1)] by simp
  then have bind: "bind_device env' reg fp None s' =
      Some (s'\<lparr>bindings := upsert db_student rebound \<lparr>db_student = reg, db_device = fp, db_block_until = None\<rparr> (bindings s')\<rparr>)"
    using len assms(4) by (simp add: bind_device_def)
  have "RegisterDevice env' (Some req) s' = register env' reg fp (as_name st') None s'"
    using c(1-3) cached st' own by (simp add: RegisterDevice_def reg_def fp_def)
  moreover have "b = e_now env + 12 * hour" "rr_student r = reg"
    using reply(2,3) assms(2) by (simp_all add: rebind_cooldown_def)
  ultimately show ?thesis
    using device_upsert.lookup_upsert [of "\<lparr>db_student = reg, db_device = fp, db_block_until = None\<rparr>" "bindings s'"] reply(1)
    by (simp add: register_def bind rebound_def)
qed

section \<open>The trace of a reset\<close>

text \<open>
  A reset that was accepted is in the audit log exactly when the address it came from is one:
  when the first entry of \<open>X-Forwarded-For\<close>, or the text before the first colon of the
  peer's address, is empty or reads as an IP address. Otherwise the student's count is back to zero
  and nothing says who did it.
\<close>

theorem reset_audited_iff_inet:
  assumes "QADeviceReset env cx og (Some req) s = (Reply n r, s')" and "e_failing env = (\<lambda>_. False)"
  shows "(admin_log s' \<noteq> admin_log s \<longleftrightarrow> audit_client_ip og = [] \<or> e_is_inet env (audit_client_ip og)) \<and>
    list_all (\<lambda>st. as_id st = dr_student req \<and> as_tenant st = cx_tenant cx \<longrightarrow> as_rebinds st = 0) (app_students s')"
  using assms by (auto simp: QADeviceReset_def auditAdmin_def Let_def list_all_iff update_where_def reset_student_def
      split: if_splits)

section \<open>An example\<close>

definition demo_uuid :: string where "demo_uuid = ''00000000-0000-0000-0000-000000000001''"

lemma demo_uuid_valid: "ValidTenantID demo_uuid"
  by (simp add: ValidTenantID_def uuid_groups_def demo_uuid_def is_hex_def is_digit_def)

definition demo_devices :: app_state where
  "demo_devices = demo_app\<lparr>bindings := [\<lparr>db_student = ''R1'', db_device = ''old'', db_block_until = None\<rparr>]\<rparr>"

definition demo_switch :: registerDeviceRequest where
  "demo_switch = \<lparr>rd_reg = ''R1'', rd_device = ''new''\<rparr>"

lemmas demo_device_defs = demo_devices_def demo_switch_def demo_app_defs

lemma demo_switch_run:
  "RegisterDevice demo_app_env (Some demo_switch) demo_devices =
     (Reply 200 \<lparr>rr_student = ''R1'', rr_name = ''A'', rr_block = Some (12 * hour)\<rparr>,
      demo_devices\<lparr>app_students := [add_rebind 0 (demo_app_student ''R1'' ''a@k''), demo_app_student ''R2'' ''B@k''],
                   bindings := [\<lparr>db_student = ''R1'', db_device = ''new'', db_block_until = Some (12 * hour)\<rparr>]\<rparr>)"
  by (simp add: RegisterDevice_def register_def active_student_def device_owner_def student_device_def read_rebinds_def
      count_rebind_def bind_device_def singleTenantID_def demo_device_defs trim_space_def trim_left_def trim_right_def is_space_def
      select_one_def upsert_def rebound_def rebind_limit_def rebind_cooldown_def Let_def)

lemma demo_devices_ok: "devices_ok demo_devices" "students_keyed demo_devices"
  by (simp_all add: devices_ok_def students_keyed_def demo_device_defs rebind_limit_def)



theorem cooldown_cleared_by_repeat_witness:
  "\<exists>s'. snd (RegisterDevice demo_app_env (Some demo_switch) demo_devices) = s' \<and>
     (\<exists>r' s''. RegisterDevice demo_app_env (Some demo_switch) s' = (Reply 200 r', s'') \<and> rr_block r' = None)"
proof -
  have "e_failing demo_app_env = (\<lambda>_. False)"
    by (simp add: demo_app_env_def)
  then show ?thesis
    using cooldown_cleared_by_repeat [OF demo_switch_run _ demo_devices_ok(1), of "12 * hour" demo_app_env] demo_switch_run by auto
qed

definition demo_officer :: request_context where
  "demo_officer = \<lparr>cx_user = ''qa'', cx_tenant = demo_uuid, cx_role = ''QA_OFFICER'', cx_jti = ''''\<rparr>"

definition demo_reset_state :: app_state where
  "demo_reset_state = demo_app\<lparr>app_students := [(demo_app_student ''R1'' ''a@k'')\<lparr>as_tenant := demo_uuid, as_rebinds := 2\<rparr>]\<rparr>"

definition demo_reset_env :: app_env where
  "demo_reset_env = demo_app_env\<lparr>e_is_inet := (\<lambda>ip. list_all (\<lambda>c. is_hex c \<or> c = CHR ''.'' \<or> c = CHR '':'') ip)\<rparr>"

theorem reset_audited_iff_inet_witness:
  "\<exists>r s'. QADeviceReset demo_reset_env demo_officer \<lparr>x_forwarded_for = ''x'', remote_addr = ''''\<rparr>
       (Some \<lparr>dr_student = ''R1'', dr_code = '''', dr_text = ''''\<rparr>) demo_reset_state = (Reply 200 r, s') \<and>
     admin_log s' = admin_log demo_reset_state"
proof -
  let ?og = "\<lparr>x_forwarded_for = ''x'', remote_addr = ''''\<rparr>"
  let ?req = "\<lparr>dr_student = ''R1'', dr_code = '''', dr_text = ''''\<rparr>"
  have "\<exists>r s'. QADeviceReset demo_reset_env demo_officer ?og (Some ?req) demo_reset_state = (Reply 200 r, s')"
    using demo_uuid_valid by (simp add: QADeviceReset_def demo_officer_def demo_reset_state_def demo_reset_env_def demo_app_defs affected_def Let_def)
  then obtain r s' where q: "QADeviceReset demo_reset_env demo_officer ?og (Some ?req) demo_reset_state = (Reply 200 r, s')"
    by blast
  have "audit_client_ip ?og \<noteq> []" "\<not> e_is_inet demo_reset_env (audit_client_ip ?og)" "e_failing demo_reset_env = (\<lambda>_. False)"
    by (simp_all add: audit_client_ip_def demo_reset_env_def demo_app_env_def trim_space_def trim_left_def trim_right_def is_space_def
        is_hex_def is_digit_def)
  then show ?thesis
    using reset_audited_iff_inet [OF q] q by blast
qed

end
