(* ===== verification/Student_Import.thy ===== *)
theory Student_Import
  imports App_Login
begin

text \<open>
  The import of a roster (\<open>processCSV\<close> of \<open>sis.go\<close>), from the rows of the file on, and the address it makes
  up for a student who has none (\<open>synthEmail\<close> of \<open>admin_data.go\<close>). The import fills the tables that
  \<open>App_Login\<close> resolves identifiers in. What PostgreSQL makes of a row (its casts, checks and
  foreign keys) and which statements fail are parameters.
\<close>

section \<open>An address from a registration number\<close>

definition is_lower_alnum :: "char \<Rightarrow> bool" where
  "is_lower_alnum c = (is_digit c \<or> (97 \<le> (of_char c :: nat) \<and> (of_char c :: nat) \<le> 122))"

text \<open>The loop, with the flag that the last character written was a dot.\<close>

fun dot_runs :: "bool \<Rightarrow> string \<Rightarrow> string" where
  "dot_runs prevDot [] = []"
| "dot_runs prevDot (c # cs) =
     (if is_lower_alnum c then c # dot_runs False cs
      else if \<not> prevDot then CHR ''.'' # dot_runs True cs
      else dot_runs True cs)"

definition trim_dots :: "string \<Rightarrow> string" where
  "trim_dots s = rev (dropWhile (\<lambda>c. c = CHR ''.'') (rev (dropWhile (\<lambda>c. c = CHR ''.'') s)))"

definition synthEmail :: "string \<Rightarrow> string \<Rightarrow> string" where
  "synthEmail studentID domain =
     (let s = trim_dots (dot_runs False (to_lower studentID)) in (if s = [] then ''student'' else s) @ ''@'' @ domain)"

section \<open>Rows and results\<close>

record importDefaults =
  CourseID :: string
  OfferingID :: string
  DefLevel :: string
  StudyYear :: string
  DefSemester :: string
  Intake :: string
  AcademicYr :: string

record rosterResult =
  Inserted :: nat
  Updated :: nat
  Skipped :: nat
  Errors :: "(nat \<times> string) list"

datatype import_call = ImpAcquire | ImpScope | ImpDomain | ImpStudent nat | ImpAccount nat

record import_env =
  i_auth :: auth_env
  i_failing :: "import_call \<Rightarrow> bool"
  i_new_user :: "nat \<Rightarrow> string"
  i_smallint :: "string \<Rightarrow> int option"
  i_accepts :: "app_student \<Rightarrow> bool"
  i_error :: "nat \<Rightarrow> string"

definition orDefault :: "string \<Rightarrow> string \<Rightarrow> string" where
  "orDefault v def' = (if trim_space v = [] then def' else v)"

definition requiredCols :: "string list" where
  "requiredCols = [''student_id'', ''full_name'']"

text \<open>The columns by name; of two columns with one name the later counts.\<close>

fun col_index :: "nat \<Rightarrow> string list \<Rightarrow> (string \<rightharpoonup> nat) \<Rightarrow> (string \<rightharpoonup> nat)" where
  "col_index i [] m = m"
| "col_index i (h # hs) m = col_index (i + 1) hs (m(to_lower (trim_space h) \<mapsto> i))"

definition get_cell :: "(string \<rightharpoonup> nat) \<Rightarrow> string list \<Rightarrow> string \<Rightarrow> string" where
  "get_cell cols row col =
     (case cols col of None \<Rightarrow> '''' | Some i \<Rightarrow> if length row \<le> i then '''' else trim_space (row ! i))"

text \<open>\<^verbatim>\<open>NULLIF($n, '')::smallint\<close>: \<open>None\<close> when the cast fails.\<close>

definition nullif_smallint :: "import_env \<Rightarrow> string \<Rightarrow> int option option" where
  "nullif_smallint env v = (if v = [] then Some None else map_option Some (i_smallint env v))"

text \<open>The row the statement inserts, \<open>None\<close> when PostgreSQL does not take it.\<close>

definition import_student ::
  "import_env \<Rightarrow> string \<Rightarrow> string \<Rightarrow> importDefaults \<Rightarrow> (string \<rightharpoonup> nat) \<Rightarrow> string list \<Rightarrow> app_student option" where
  "import_student env tenantID domain def' cols row =
     (let get = get_cell cols row; studentID = get ''student_id'';
          year = nullif_smallint env (orDefault (get ''current_year'') (StudyYear def'));
          semester = nullif_smallint env (orDefault (get ''semester'') (DefSemester def')) in
      case (year, semester) of
        (Some y, Some sem) \<Rightarrow>
          let st = \<lparr>as_id = studentID, as_tenant = tenantID, as_email = orDefault (get ''email'') (synthEmail studentID domain),
                as_name = get ''full_name'', as_course = orDefault (get ''course_id'') (CourseID def'),
                as_academic_year = orDefault (get ''academic_year'') (AcademicYr def'), as_year = y, as_semester = sem,
                as_level = nullif (orDefault (get ''level'') (DefLevel def')),
                as_intake = nullif (orDefault (get ''intake_session'') (Intake def')),
                as_offering = nullif (orDefault (get ''offering_id'') (OfferingID def')), as_status = ''ACTIVE'',
                as_hardware = None, as_rebinds = 0, as_last_rebind = None\<rparr>
          in if i_accepts env st then Some st else None
      | _ \<Rightarrow> None)"

definition coalesce :: "'a option \<Rightarrow> 'a option \<Rightarrow> 'a option" where
  "coalesce a b = (case a of None \<Rightarrow> b | Some x \<Rightarrow> Some x)"

definition merge_student :: "app_student \<Rightarrow> app_student \<Rightarrow> app_student" where
  "merge_student new old =
     old\<lparr>as_name := as_name new, as_email := as_email new, as_course := as_course new, as_academic_year := as_academic_year new,
         as_year := as_year new, as_semester := as_semester new, as_level := coalesce (as_level new) (as_level old),
         as_intake := coalesce (as_intake new) (as_intake old), as_offering := coalesce (as_offering new) (as_offering old)\<rparr>"

section \<open>The import\<close>

definition known_student :: "string \<Rightarrow> app_state \<Rightarrow> bool" where
  "known_student sid s = list_ex (\<lambda>st. as_id st = sid) (app_students s)"

text \<open>Row security makes a conflict with another tenant's row an error.\<close>

definition foreign_student :: "app_student \<Rightarrow> app_state \<Rightarrow> bool" where
  "foreign_student new s = list_ex (\<lambda>st. as_id st = as_id new \<and> as_tenant st \<noteq> as_tenant new) (app_students s)"

definition store_student :: "app_student \<Rightarrow> app_state \<Rightarrow> app_state" where
  "store_student st s = s\<lparr>app_students := upsert as_id merge_student st (app_students s)\<rparr>"

definition hidden_login :: "import_env \<Rightarrow> string \<Rightarrow> nat \<Rightarrow> app_student \<Rightarrow> app_state \<Rightarrow> app_state" where
  "hidden_login env domain line st s =
     (if domain = [] \<or> i_failing env (ImpAccount line) \<or>
         list_ex (\<lambda>u. TenantID u = as_tenant st \<and> Email u = as_email st) (users (app_auth s)) then s
      else add_account (new_account (i_new_user env line) (as_tenant st) (as_email st)
             (or_empty (bcrypt_generate (i_auth env) DefaultStudentPassword)) ''STUDENT'' (as_name st)) s)"

definition skip_row :: "nat \<Rightarrow> string \<Rightarrow> rosterResult \<Rightarrow> rosterResult" where
  "skip_row line msg res = res\<lparr>Skipped := Skipped res + 1, Errors := Errors res @ [(line, msg)]\<rparr>"

definition roster_line ::
  "import_env \<Rightarrow> string \<Rightarrow> string \<Rightarrow> importDefaults \<Rightarrow> (string \<rightharpoonup> nat) \<Rightarrow> nat \<Rightarrow> string list \<Rightarrow>
     rosterResult \<times> app_state \<Rightarrow> rosterResult \<times> app_state" where
  "roster_line env tenantID domain def' cols line row acc =
     (let (res, s) = acc in
      if get_cell cols row ''student_id'' = [] \<or> orDefault (get_cell cols row ''course_id'') (CourseID def') = [] then
        (skip_row line ''student_id and a course (row or import target) are required'' res, s)
      else case import_student env tenantID domain def' cols row of
        None \<Rightarrow> (skip_row line (i_error env line) res, s)
      | Some st \<Rightarrow>
          if i_failing env (ImpStudent line) \<or> foreign_student st s then (skip_row line (i_error env line) res, s)
          else (if known_student (as_id st) s then res\<lparr>Updated := Updated res + 1\<rparr> else res\<lparr>Inserted := Inserted res + 1\<rparr>,
                hidden_login env domain line st (store_student st s)))"

fun roster_lines ::
  "import_env \<Rightarrow> string \<Rightarrow> string \<Rightarrow> importDefaults \<Rightarrow> (string \<rightharpoonup> nat) \<Rightarrow> nat \<Rightarrow> string list list \<Rightarrow>
     rosterResult \<times> app_state \<Rightarrow> rosterResult \<times> app_state" where
  "roster_lines env t d def' cols line [] acc = acc"
| "roster_lines env t d def' cols line (row # rows) acc =
     roster_lines env t d def' cols (line + 1) rows (roster_line env t d def' cols line row acc)"

definition import_domain :: "import_env \<Rightarrow> string \<Rightarrow> app_state \<Rightarrow> string" where
  "import_domain env tenantID s =
     to_lower (trim_space (if i_failing env ImpDomain then ''''
       else case select_one (\<lambda>t. tenant.t_id t = tenantID) (tenants (app_auth s)) of
         None \<Rightarrow> '''' | Some t \<Rightarrow> or_empty (tenant.t_domain t)))"

definition no_result :: rosterResult where
  "no_result = \<lparr>Inserted = 0, Updated = 0, Skipped = 0, Errors = []\<rparr>"

definition processRows ::
  "import_env \<Rightarrow> string \<Rightarrow> importDefaults \<Rightarrow> string list list \<Rightarrow> app_state \<Rightarrow> string + (rosterResult \<times> app_state)" where
  "processRows env tenantID def' rows s =
     (case rows of
        [] \<Rightarrow> Inl ''file has no rows''
      | headers # body \<Rightarrow>
          let cols = col_index 0 headers Map.empty in
          case find (\<lambda>c. cols c = None) requiredCols of
            Some c \<Rightarrow> Inl (''missing required column: '' @ c)
          | None \<Rightarrow>
              if i_failing env ImpAcquire then Inl ''db connection failed''
              else if \<not> ValidTenantID tenantID \<or> i_failing env ImpScope then Inl ''set tenant''
              else Inr (roster_lines env tenantID (import_domain env tenantID s) def' cols 1 body (no_result, s)))"

section \<open>The address is the words of the number, joined by dots\<close>

function runs :: "(char \<Rightarrow> bool) \<Rightarrow> string \<Rightarrow> string list" where
  "runs p [] = []"
| "runs p (c # cs) = (if p c then (c # takeWhile p cs) # runs p (dropWhile p cs) else runs p cs)"
  by pat_completeness auto

termination runs
  by (relation "measure (length \<circ> snd)") (auto simp: less_Suc_eq_le length_dropWhile_le)

lemma dot_runs_word: "dot_runs f (w @ rest) = w @ dot_runs (if w = [] then f else False) rest" if "list_all is_lower_alnum w"
  using that by (induction w arbitrary: f) auto

lemma takeWhile_all: "list_all p (takeWhile p cs)"
  by (auto simp: list_all_iff dest: set_takeWhileD)

lemma dot_runs_True:
  "\<exists>b. set b \<subseteq> {CHR ''.''} \<and> dot_runs True s = join_with ''.'' (runs is_lower_alnum s) @ b \<and> (runs is_lower_alnum s = [] \<longrightarrow> b = [])"
proof (induction s rule: length_induct)
  case (1 s)
  show ?case
  proof (cases s)
    case (Cons c cs)
    show ?thesis
    proof (cases "is_lower_alnum c")
      case False
      then show ?thesis
        using Cons 1 [rule_format, of cs] by simp
    next
      case True
      let ?w = "takeWhile is_lower_alnum cs" and ?rest = "dropWhile is_lower_alnum cs"
      have d: "dot_runs True s = c # ?w @ dot_runs False ?rest"
        using dot_runs_word [of ?w False ?rest] takeWhile_all [of is_lower_alnum cs] True Cons by (simp split: if_splits)
      show ?thesis
      proof (cases ?rest)
        case Nil
        show ?thesis
          using d True Cons by (intro exI [of _ "[]"]) (simp add: Nil del: dropWhile_eq_Nil_conv)
      next
        case rest: (Cons x rs)
        then have x: "\<not> is_lower_alnum x"
          by (metis hd_dropWhile list.sel(1) list.distinct(1))
        have "length rs < length s"
          using rest Cons length_dropWhile_le [of is_lower_alnum cs] by simp
        then obtain b where b: "set b \<subseteq> {CHR ''.''}" "dot_runs True rs = join_with ''.'' (runs is_lower_alnum rs) @ b"
          "runs is_lower_alnum rs = [] \<longrightarrow> b = []"
          using 1 by blast
        have r: "runs is_lower_alnum s = (c # ?w) # runs is_lower_alnum rs" "dot_runs False ?rest = CHR ''.'' # dot_runs True rs"
          using True Cons rest x by simp_all
        show ?thesis
        proof (cases "runs is_lower_alnum rs")
          case Nil
          then show ?thesis
            using b d r by (intro exI [of _ "''.''"]) simp
        next
          case (Cons w ws)
          then show ?thesis
            using b d r by (intro exI [of _ b]) simp
        qed
      qed
    qed
  qed simp
qed

lemma dot_runs_False:
  "\<exists>a b. set a \<subseteq> {CHR ''.''} \<and> set b \<subseteq> {CHR ''.''} \<and> dot_runs False s = a @ join_with ''.'' (runs is_lower_alnum s) @ b"
proof (cases s)
  case (Cons c cs)
  show ?thesis
  proof (cases "is_lower_alnum c")
    case True
    then have "dot_runs False s = dot_runs True s"
      using Cons by simp
    then show ?thesis
      using dot_runs_True [of s] by (metis append_Nil empty_set empty_subsetI)
  next
    case False
    then have "dot_runs False s = ''.'' @ dot_runs True cs" "runs is_lower_alnum s = runs is_lower_alnum cs"
      using Cons by simp_all
    moreover obtain b where "set b \<subseteq> {CHR ''.''}" "dot_runs True cs = join_with ''.'' (runs is_lower_alnum cs) @ b"
      using dot_runs_True [of cs] by blast
    ultimately show ?thesis
      by (intro exI [of _ "''.''"] exI [of _ b]) simp
  qed
qed simp

lemma alnum_not_dot: "is_lower_alnum c \<Longrightarrow> c \<noteq> CHR ''.''"
  by (auto simp: is_lower_alnum_def is_digit_def)

lemma runs_words: "w \<in> set (runs p s) \<Longrightarrow> w \<noteq> [] \<and> list_all p w"
  by (induction p s rule: runs.induct) (auto simp: takeWhile_all split: if_splits)

lemma join_ends:
  assumes "ws \<noteq> []" "\<forall>w \<in> set ws. w \<noteq> [] \<and> list_all p w"
  shows "join_with sep ws \<noteq> [] \<and> p (hd (join_with sep ws)) \<and> p (last (join_with sep ws))"
  using assms
proof (induction sep ws rule: join_with.induct)
  case (3 sep w v ws)
  then show ?case
    by (cases w) (auto simp: last_append)
qed (auto simp: list_all_iff neq_Nil_conv)

lemma dropWhile_dots: "set a \<subseteq> {CHR ''.''} \<Longrightarrow> dropWhile (\<lambda>c. c = CHR ''.'') (a @ s) = dropWhile (\<lambda>c. c = CHR ''.'') s"
  by (induction a) auto

lemma trim_dots_around:
  assumes "set a \<subseteq> {CHR ''.''}" "set b \<subseteq> {CHR ''.''}" "s = [] \<or> hd s \<noteq> CHR ''.'' \<and> last s \<noteq> CHR ''.''"
  shows "trim_dots (a @ s @ b) = s"
proof (cases "s = []")
  case True
  then show ?thesis
    using dropWhile_dots [OF assms(1), of b] dropWhile_dots [OF assms(2), of "[]"] by (simp add: trim_dots_def del: dropWhile_eq_Nil_conv)
next
  case False
  have "dropWhile (\<lambda>c. c = CHR ''.'') (s @ b) = s @ b"
    using False assms(3) by (cases s) auto
  moreover have "dropWhile (\<lambda>c. c = CHR ''.'') (rev b @ rev s) = rev s"
    using dropWhile_dots [of "rev b" "rev s"] assms(2,3) False by (cases s rule: rev_cases) simp_all
  ultimately show ?thesis
    using dropWhile_dots [OF assms(1), of "s @ b"] by (simp add: trim_dots_def)
qed

text \<open>
  The address made up for a student is the runs of letters and digits of the registration number
  in lower case, joined by single dots, at the domain; so two numbers that differ only in case and
  punctuation get one address, and with it one account.
\<close>

theorem synth_email_words:
  "synthEmail sid domain =
     (let ws = runs is_lower_alnum (to_lower sid) in (if ws = [] then ''student'' else join_with ''.'' ws) @ ''@'' @ domain)"
proof -
  let ?ws = "runs is_lower_alnum (to_lower sid)"
  obtain a b where ab: "set a \<subseteq> {CHR ''.''}" "set b \<subseteq> {CHR ''.''}" "dot_runs False (to_lower sid) = a @ join_with ''.'' ?ws @ b"
    using dot_runs_False by blast
  have ends: "?ws \<noteq> [] \<Longrightarrow> join_with ''.'' ?ws \<noteq> [] \<and> hd (join_with ''.'' ?ws) \<noteq> CHR ''.'' \<and> last (join_with ''.'' ?ws) \<noteq> CHR ''.''"
    using join_ends [of ?ws is_lower_alnum "''.''"] runs_words alnum_not_dot by blast
  then have "trim_dots (dot_runs False (to_lower sid)) = join_with ''.'' ?ws"
    unfolding ab(3) by (intro trim_dots_around [OF ab(1,2)]) (cases "?ws = []"; simp)
  then show ?thesis
    using ends by (auto simp: synthEmail_def Let_def)
qed

section \<open>What an import does\<close>

interpretation student_upsert: keyed_upsert as_id merge_student
  by unfold_locales (simp add: merge_student_def)

text \<open>A line that reaches the database: the row it stores, unless the row belongs to another tenant.\<close>

definition storable ::
  "import_env \<Rightarrow> string \<Rightarrow> string \<Rightarrow> importDefaults \<Rightarrow> (string \<rightharpoonup> nat) \<Rightarrow> nat \<Rightarrow> string list \<Rightarrow> app_student option" where
  "storable env t d def' cols line row =
     (if get_cell cols row ''student_id'' = [] \<or> orDefault (get_cell cols row ''course_id'') (CourseID def') = [] \<or>
         i_failing env (ImpStudent line) then None
      else import_student env t d def' cols row)"

lemma hidden_login_students [simp]: "app_students (hidden_login env d line st s) = app_students s"
  by (simp add: hidden_login_def)

lemma users_store_student [simp]: "app_auth (store_student st s) = app_auth s" "tenants (app_auth (hidden_login env d line st s)) = tenants (app_auth s)"
  by (simp_all add: store_student_def hidden_login_def add_account_def)

text \<open>A line either is skipped, with one error and no change, or stores its row.\<close>

lemma roster_line_cases:
  obtains (skipped) msg where "roster_line env t d def' cols line row (res, s) = (skip_row line msg res, s)"
      "\<And>st. storable env t d def' cols line row = Some st \<Longrightarrow> foreign_student st s"
  | (stored) st where "storable env t d def' cols line row = Some st" "\<not> foreign_student st s"
      "roster_line env t d def' cols line row (res, s) =
         (if known_student (as_id st) s then res\<lparr>Updated := Updated res + 1\<rparr> else res\<lparr>Inserted := Inserted res + 1\<rparr>,
          hidden_login env d line st (store_student st s))"
proof -
  have "(\<exists>msg. roster_line env t d def' cols line row (res, s) = (skip_row line msg res, s)) \<and>
        (\<forall>st. storable env t d def' cols line row = Some st \<longrightarrow> foreign_student st s) \<or>
      (\<exists>st. storable env t d def' cols line row = Some st \<and> \<not> foreign_student st s \<and>
         roster_line env t d def' cols line row (res, s) =
           (if known_student (as_id st) s then res\<lparr>Updated := Updated res + 1\<rparr> else res\<lparr>Inserted := Inserted res + 1\<rparr>,
            hidden_login env d line st (store_student st s)))"
    by (auto simp: roster_line_def storable_def split: option.splits)
  then show thesis
    using skipped stored by blast
qed

definition total :: "rosterResult \<Rightarrow> nat" where
  "total res = Inserted res + Updated res + Skipped res"

text \<open>What an import never touches: who the students are, their status and the state of their phones.\<close>

definition standing :: "app_student \<Rightarrow> string \<times> string \<times> string \<times> string option \<times> int \<times> instant option" where
  "standing st = (as_id st, as_tenant st, as_status st, as_hardware st, as_rebinds st, as_last_rebind st)"

lemma standing_merge [simp]: "standing (merge_student new old) = standing old"
  by (simp add: standing_def merge_student_def)

lemma standing_update: "map standing (update_where p (merge_student new) rows) = map standing rows"
  by (induction rows) auto

lemma standing_store:
  "map standing (app_students (store_student st s)) =
     map standing (app_students s) @ (if known_student (as_id st) s then [] else [standing st])"
  by (simp add: store_student_def upsert_def known_student_def standing_update)

definition tally :: "rosterResult \<Rightarrow> app_state \<Rightarrow> rosterResult \<Rightarrow> app_state \<Rightarrow> nat \<Rightarrow> bool" where
  "tally res s res' s' n =
     (total res' = total res + n \<and> length (Errors res') + Skipped res = length (Errors res) + Skipped res' \<and>
      Inserted res \<le> Inserted res' \<and> (\<exists>new. map standing (app_students s') = map standing (app_students s) @ new \<and>
        Inserted res' = Inserted res + length new))"

lemma tally_line: "roster_line env t d def' cols line row (res, s) = (res', s') \<Longrightarrow> tally res s res' s' 1"
  by (rule roster_line_cases [of env t d def' cols line row res s])
    (auto simp: tally_def total_def skip_row_def standing_store split: if_splits)

lemma tally_trans: "tally r s r' s' m \<Longrightarrow> tally r' s' r'' s'' n \<Longrightarrow> tally r s r'' s'' (m + n)"
  by (auto simp: tally_def)

lemma tally_lines: "roster_lines env t d def' cols line rows (res, s) = (res', s') \<Longrightarrow> tally res s res' s' (length rows)"
proof (induction rows arbitrary: line res s)
  case Nil
  then show ?case
    by (simp add: tally_def)
next
  case (Cons row rows)
  obtain r1 s1 where l: "roster_line env t d def' cols line row (res, s) = (r1, s1)"
    by fastforce
  then show ?case
    using tally_trans [OF tally_line [OF l] Cons.IH] Cons.prems by simp
qed

lemma processRows_Inr:
  "processRows env t def' rows s = Inr acc \<longleftrightarrow>
     (\<exists>h body. rows = h # body \<and> find (\<lambda>c. col_index 0 h Map.empty c = None) requiredCols = None \<and> \<not> i_failing env ImpAcquire \<and>
       ValidTenantID t \<and> \<not> i_failing env ImpScope \<and>
       acc = roster_lines env t (import_domain env t s) def' (col_index 0 h Map.empty) 1 body (no_result, s))"
  by (auto simp: processRows_def Let_def split: list.splits option.splits)

text \<open>
  C35. Every row of a roster is accounted for: inserted, updated or skipped, and skipped with exactly one
  error. The table grows by the number reported as inserted, no student is removed, and an import
  changes nobody's registration number, tenant, enrolment status or phone, so that it does not bring a
  suspended student back.
\<close>

theorem import_accounts_for_rows:
  assumes "processRows env t def' rows s = Inr (res, s')"
  shows "Inserted res + Updated res + Skipped res = length rows - 1 \<and> length (Errors res) = Skipped res \<and>
    length (app_students s') = length (app_students s) + Inserted res \<and>
    map standing (app_students s) = take (length (app_students s)) (map standing (app_students s'))"
proof -
  obtain h body where r: "rows = h # body"
    "roster_lines env t (import_domain env t s) def' (col_index 0 h Map.empty) 1 body (no_result, s) = (res, s')"
    using assms by (auto simp: processRows_Inr)
  obtain new where n: "map standing (app_students s') = map standing (app_students s) @ new" "Inserted res = length new"
    "total res = length body" "length (Errors res) = Skipped res"
    using tally_lines [OF r(2)] by (auto simp: tally_def no_result_def total_def)
  then have "length (app_students s') = length (app_students s) + Inserted res"
    by (metis length_append length_map)
  then show ?thesis
    using n r(1) by (simp add: total_def)
qed

section \<open>The same file again\<close>

lemma known_standing: "known_student x s \<longleftrightarrow> x \<in> fst ` set (map standing (app_students s))"
  by (auto simp: known_student_def list_ex_iff standing_def image_iff)

lemma known_lines:
  assumes "roster_lines env t d def' cols line rows (res, s) = (res', s')" "known_student x s"
  shows "known_student x s'"
proof -
  obtain new where "map standing (app_students s') = map standing (app_students s) @ new"
    using tally_lines [OF assms(1)] by (auto simp: tally_def)
  then show ?thesis
    using assms(2) unfolding known_standing by auto
qed

lemma foreign_known: "foreign_student st s \<Longrightarrow> known_student (as_id st) s"
  by (auto simp: foreign_student_def known_student_def list_ex_iff)

lemma line_known:
  assumes "roster_line env t d def' cols line row (res, s) = (res', s')" "storable env t d def' cols line row = Some st"
  shows "known_student (as_id st) s'"
proof (cases rule: roster_line_cases [of env t d def' cols line row res s])
  case (skipped msg)
  then show ?thesis
    using assms foreign_known by simp
next
  case (stored st')
  then have "s' = hidden_login env d line st (store_student st s)"
    using assms by simp
  then show ?thesis
    using standing_store [of st s] unfolding known_standing by (auto simp: standing_def known_standing)
qed

lemma lines_insert_none:
  assumes "\<And>i st. i < length rows \<Longrightarrow> storable env t d def' cols (line + i) (rows ! i) = Some st \<Longrightarrow> known_student (as_id st) s"
  shows "Inserted (fst (roster_lines env t d def' cols line rows (res, s))) = Inserted res"
  using assms
proof (induction rows arbitrary: line res s)
  case (Cons row rows)
  obtain r1 s1 where l: "roster_line env t d def' cols line row (res, s) = (r1, s1)"
    by fastforce
  have k: "storable env t d def' cols line row = Some st \<Longrightarrow> known_student (as_id st) s" for st
    using Cons.prems [of 0 st] by simp
  have "Inserted r1 = Inserted res"
    using l k by (cases rule: roster_line_cases [of env t d def' cols line row res s]) (auto simp: skip_row_def)
  moreover have "known_student (as_id st) s1"
    if "i < length rows" "storable env t d def' cols (line + 1 + i) (rows ! i) = Some st" for i st
  proof -
    have "known_student (as_id st) s"
      using Cons.prems [of "Suc i" st] that by simp
    then show ?thesis
      using known_lines [of env t d def' cols line "[row]" res s r1 s1] l by simp
  qed
  ultimately show ?case
    using Cons.IH [of "line + 1" s1 r1] l by simp
qed simp

lemma lines_known:
  assumes "roster_lines env t d def' cols line rows (res, s) = (res', s')"
    and "i < length rows" "storable env t d def' cols (line + i) (rows ! i) = Some st"
  shows "known_student (as_id st) s'"
  using assms
proof (induction rows arbitrary: line res s i)
  case (Cons row rows)
  obtain r1 s1 where l: "roster_line env t d def' cols line row (res, s) = (r1, s1)"
    by fastforce
  then have rest: "roster_lines env t d def' cols (line + 1) rows (r1, s1) = (res', s')"
    using Cons.prems(1) by simp
  show ?case
  proof (cases i)
    case 0
    then show ?thesis
      using known_lines [OF rest] line_known [OF l] Cons.prems(3) by simp
  next
    case (Suc j)
    then show ?thesis
      using Cons.IH [OF rest, of j] Cons.prems(2,3) by simp
  qed
qed simp

lemma tenants_lines: "tenants (app_auth (snd (roster_lines env t d def' cols line rows acc))) = tenants (app_auth (snd acc))"
proof (induction rows arbitrary: line acc)
  case (Cons row rows)
  have "tenants (app_auth (snd (roster_line env t d def' cols line row acc))) = tenants (app_auth (snd acc))"
    by (cases acc; rule roster_line_cases [of env t d def' cols line row "fst acc" "snd acc"]) simp_all
  with Cons.IH show ?case
    by simp
qed simp

text \<open>
  Importing a file a second time inserts nobody, duplicates within the file included.
\<close>

theorem reimport_inserts_none:
  assumes "processRows env t def' rows s = Inr (res, s')" and "processRows env t def' rows s' = Inr (res', s'')"
  shows "Inserted res' = 0"
proof -
  obtain h body where r: "rows = h # body"
    "roster_lines env t (import_domain env t s) def' (col_index 0 h Map.empty) 1 body (no_result, s) = (res, s')"
    "roster_lines env t (import_domain env t s') def' (col_index 0 h Map.empty) 1 body (no_result, s') = (res', s'')"
    using assms by (auto simp: processRows_Inr)
  have "import_domain env t s' = import_domain env t s"
    using tenants_lines [of env t "import_domain env t s" def' "col_index 0 h Map.empty" 1 body "(no_result, s)"] r(2)
    by (simp add: import_domain_def)
  then show ?thesis
    using lines_insert_none [of body env t "import_domain env t s" def' "col_index 0 h Map.empty" 1 s' no_result]
      lines_known [OF r(2)] r(3) by (simp add: no_result_def)
qed

section \<open>Imported students have a login\<close>

definition has_login :: "app_student \<Rightarrow> app_state \<Rightarrow> bool" where
  "has_login st s = list_ex (\<lambda>u. TenantID u = as_tenant st \<and> Email u = as_email st) (users (app_auth s))"

definition logins_for :: "string \<Rightarrow> string set \<Rightarrow> app_state \<Rightarrow> bool" where
  "logins_for t ids s =
     (distinct (map as_id (app_students s)) \<and> (\<forall>st \<in> set (app_students s). as_id st \<in> ids \<and> as_tenant st = t \<longrightarrow> has_login st s))"

lemma import_student_tenant: "storable env t d def' cols line row = Some st \<Longrightarrow> as_tenant st = t"
  by (auto simp: storable_def import_student_def Let_def split: if_splits option.splits)

lemma hidden_login_has:
  "d \<noteq> [] \<Longrightarrow> \<not> i_failing env (ImpAccount line) \<Longrightarrow> has_login st (hidden_login env d line st s)"
  "has_login x s \<Longrightarrow> has_login x (hidden_login env d line st s)"
  by (auto simp: hidden_login_def has_login_def new_account_def list_ex_iff)

lemma has_login_store [simp]: "has_login x (store_student st s) = has_login x s"
  by (simp add: has_login_def)

lemma merge_student_fields [simp]:
  "as_id (merge_student new old) = as_id old" "as_tenant (merge_student new old) = as_tenant old"
  "as_email (merge_student new old) = as_email new"
  by (simp_all add: merge_student_def)

lemma stored_student:
  assumes "x \<in> set (app_students (store_student new s))" "\<not> foreign_student new s"
  shows "x \<in> set (app_students s) \<and> as_id x \<noteq> as_id new \<or> as_id x = as_id new \<and> as_tenant x = as_tenant new \<and> as_email x = as_email new"
proof (cases "x \<in> set (app_students s) \<and> as_id x \<noteq> as_id new \<or> x = new")
  case False
  then obtain r0 where "r0 \<in> set (app_students s)" "as_id r0 = as_id new" "x = merge_student new r0"
    using assms(1) by (auto simp: store_student_def upsert_def in_update_where list_ex_iff split: if_splits)
  then show ?thesis
    using assms(2) by (auto simp: foreign_student_def list_ex_iff)
qed auto

lemma logins_stored:
  assumes "logins_for t ids s" "as_tenant st = t" "\<not> foreign_student st s" "d \<noteq> []" "\<not> i_failing env (ImpAccount line)"
  shows "logins_for t (insert (as_id st) ids) (hidden_login env d line st (store_student st s))"
proof -
  have "distinct (map as_id (app_students (store_student st s)))"
    using assms(1) student_upsert.one_per_key by (simp add: logins_for_def store_student_def)
  moreover have "has_login x (hidden_login env d line st (store_student st s))"
    if x: "x \<in> set (app_students (store_student st s))" "as_id x \<in> insert (as_id st) ids" "as_tenant x = t" for x
  proof (cases "as_id x = as_id st")
    case True
    then have "as_tenant x = as_tenant st" "as_email x = as_email st"
      using stored_student [OF x(1) assms(3)] by auto
    then show ?thesis
      using hidden_login_has(1) [OF assms(4,5), of st "store_student st s"] by (simp add: has_login_def)
  next
    case False
    then show ?thesis
      using stored_student [OF x(1) assms(3)] x(2,3) assms(1) by (auto simp: logins_for_def intro!: hidden_login_has(2))
  qed
  ultimately show ?thesis
    by (simp add: logins_for_def)
qed

lemma logins_line:
  assumes "roster_line env t d def' cols line row (res, s) = (res', s')" "logins_for t ids s" "d \<noteq> []"
    "\<not> i_failing env (ImpAccount line)"
  shows "logins_for t (ids \<union> as_id ` set_option (storable env t d def' cols line row)) s'"
proof (cases rule: roster_line_cases [of env t d def' cols line row res s])
  case (skipped msg)
  have "as_tenant x \<noteq> t" if st: "storable env t d def' cols line row = Some st" and x: "x \<in> set (app_students s)" "as_id x = as_id st" for st x
    using skipped(2) [OF st] import_student_tenant [OF st] x assms(2)
    by (auto simp: foreign_student_def list_ex_iff logins_for_def distinct_map inj_on_def)
  then show ?thesis
    using skipped(1) assms(1,2) by (auto simp: logins_for_def)
next
  case (stored st)
  then show ?thesis
    using logins_stored [OF assms(2) import_student_tenant [OF stored(1)] stored(2) assms(3,4)] assms(1) by simp
qed

fun stored_ids ::
  "import_env \<Rightarrow> string \<Rightarrow> string \<Rightarrow> importDefaults \<Rightarrow> (string \<rightharpoonup> nat) \<Rightarrow> nat \<Rightarrow> string list list \<Rightarrow> string set" where
  "stored_ids env t d def' cols line [] = {}"
| "stored_ids env t d def' cols line (row # rows) =
     as_id ` set_option (storable env t d def' cols line row) \<union> stored_ids env t d def' cols (line + 1) rows"

lemma stored_ids_line:
  "i < length rows \<Longrightarrow> storable env t d def' cols (line + i) (rows ! i) = Some st \<Longrightarrow> as_id st \<in> stored_ids env t d def' cols line rows"
proof (induction rows arbitrary: line i)
  case (Cons row rows)
  then show ?case
    by (cases i) auto
qed simp

lemma logins_lines:
  assumes "roster_lines env t d def' cols line rows (res, s) = (res', s')" "logins_for t ids s" "d \<noteq> []"
    "\<And>l. \<not> i_failing env (ImpAccount l)"
  shows "logins_for t (ids \<union> stored_ids env t d def' cols line rows) s'"
  using assms
proof (induction rows arbitrary: line res s ids)
  case (Cons row rows)
  obtain r1 s1 where l: "roster_line env t d def' cols line row (res, s) = (r1, s1)"
    by fastforce
  then have "roster_lines env t d def' cols (line + 1) rows (r1, s1) = (res', s')"
    using Cons.prems(1) by simp
  then show ?case
    using Cons.IH [OF _ logins_line [OF l Cons.prems(2,3) Cons.prems(4)] Cons.prems(3,4)] by (simp add: Un_assoc)
qed simp

text \<open>
  When the tenant's domain is set and no insert fails, every student the roster stored has an
  account of the tenant under exactly the email the directory has, capitals included, so that
  signing in by registration number finds it.
\<close>

theorem imported_students_have_login:
  assumes "processRows env t def' (h # body) s = Inr (res, s')" and "import_domain env t s \<noteq> []"
    and "\<And>l. \<not> i_failing env (ImpAccount l)" and "distinct (map as_id (app_students s))"
    and "i < length body" "storable env t (import_domain env t s) def' (col_index 0 h Map.empty) (1 + i) (body ! i) = Some row"
    and "st \<in> set (app_students s')" "as_id st = as_id row" "as_tenant st = t"
  shows "has_login st s'"
proof -
  have "roster_lines env t (import_domain env t s) def' (col_index 0 h Map.empty) 1 body (no_result, s) = (res, s')"
    using assms(1) by (auto simp: processRows_Inr)
  moreover have "logins_for t {} s"
    using assms(4) by (simp add: logins_for_def)
  ultimately show ?thesis
    using logins_lines [of env t "import_domain env t s" def' "col_index 0 h Map.empty" 1 body no_result s res s' "{}"]
      stored_ids_line [OF assms(5,6)] assms(2,3,7-9)
    by (auto simp: logins_for_def)
qed

section \<open>An example\<close>

definition demo_import_env :: import_env where
  "demo_import_env = \<lparr>i_auth = demo_env 0, i_failing = (\<lambda>_. False), i_new_user = (\<lambda>n. ''u'' @ itoa n), i_smallint = (\<lambda>_. None),
     i_accepts = (\<lambda>_. True), i_error = (\<lambda>_. ''e'')\<rparr>"

definition demo_defaults :: importDefaults where
  "demo_defaults = \<lparr>CourseID = ''c'', OfferingID = '''', DefLevel = '''', StudyYear = '''', DefSemester = '''', Intake = '''', AcademicYr = ''''\<rparr>"

definition demo_tenant_id :: string where "demo_tenant_id = ''00000000-0000-0000-0000-000000000001''"

lemma demo_tenant_valid: "ValidTenantID demo_tenant_id"
  by (simp add: ValidTenantID_def uuid_groups_def demo_tenant_id_def is_hex_def is_digit_def)

definition demo_import_state :: app_state where
  "demo_import_state = demo_app\<lparr>app_students := [], app_auth := \<lparr>users = [],
     tenants = [\<lparr>tenant.t_id = demo_tenant_id, t_domain = Some ''k'', t_institution_id = None, t_created_at = 0\<rparr>], redis = Map.empty\<rparr>\<rparr>"

definition demo_roster :: "string list list" where
  "demo_roster = [[''student_id'', ''full_name'', ''email''], [''7'', ''A'', ''B@k'']]"

definition demo_imported :: app_student where
  "demo_imported = \<lparr>as_id = ''7'', as_tenant = demo_tenant_id, as_email = ''B@k'', as_name = ''A'', as_course = ''c'', as_academic_year = '''',
     as_year = None, as_semester = None, as_level = None, as_intake = None, as_offering = None, as_status = ''ACTIVE'',
     as_hardware = None, as_rebinds = 0, as_last_rebind = None\<rparr>"

definition demo_cols :: "string \<rightharpoonup> nat" where
  "demo_cols = col_index 0 [''student_id'', ''full_name'', ''email''] Map.empty"

lemma demo_cols_eq: "demo_cols = [''student_id'' \<mapsto> 0, ''full_name'' \<mapsto> 1, ''email'' \<mapsto> 2]"
proof -
  have "to_lower (trim_space ''student_id'') = ''student_id''" "to_lower (trim_space ''full_name'') = ''full_name''"
    "to_lower (trim_space ''email'') = ''email''"
    by code_simp+
  then show ?thesis
    by (simp add: demo_cols_def numeral_2_eq_2)
qed

lemma demo_storable: "storable demo_import_env demo_tenant_id d demo_defaults demo_cols n [''7'', ''A'', ''B@k''] = Some demo_imported"
  by (simp add: storable_def import_student_def get_cell_def demo_cols_eq demo_import_env_def demo_defaults_def demo_imported_def
      orDefault_def nullif_smallint_def nullif_def trim_space_def trim_left_def trim_right_def is_space_def Let_def)

lemma demo_domain: "import_domain demo_import_env demo_tenant_id demo_import_state = ''k''"
proof -
  have "to_lower (trim_space ''k'') = ''k''"
    by code_simp
  then show ?thesis
    by (simp add: import_domain_def demo_import_env_def demo_import_state_def select_one_def or_empty_def)
qed

lemma demo_header: "col_index 0 [''student_id'', ''full_name'', ''email''] Map.empty = demo_cols"
  "find (\<lambda>c. demo_cols c = None) requiredCols = None"
  by (simp only: demo_cols_def) (simp add: demo_cols_eq requiredCols_def)

lemma demo_import_works [simp]: "i_failing demo_import_env c = False"
  by (simp add: demo_import_env_def)

lemma demo_processed:
  "\<exists>res s'. processRows demo_import_env demo_tenant_id demo_defaults demo_roster s = Inr (res, s')"
proof -
  have "\<exists>acc. processRows demo_import_env demo_tenant_id demo_defaults demo_roster s = Inr acc"
    by (simp add: processRows_def demo_roster_def demo_header demo_tenant_valid del: col_index.simps)
  then show ?thesis
    by (metis surj_pair)
qed

theorem import_accounts_for_rows_witness:
  "\<exists>res s'. processRows demo_import_env demo_tenant_id demo_defaults demo_roster demo_import_state = Inr (res, s') \<and>
     Inserted res + Updated res + Skipped res = 1"
proof -
  obtain res s' where p: "processRows demo_import_env demo_tenant_id demo_defaults demo_roster demo_import_state = Inr (res, s')"
    using demo_processed by blast
  then show ?thesis
    using import_accounts_for_rows [OF p] by (auto simp: demo_roster_def)
qed

theorem reimport_inserts_none_witness:
  "\<exists>res s' res' s''. processRows demo_import_env demo_tenant_id demo_defaults demo_roster demo_import_state = Inr (res, s') \<and>
     processRows demo_import_env demo_tenant_id demo_defaults demo_roster s' = Inr (res', s'') \<and> Inserted res' = 0"
proof -
  obtain res s' where p: "processRows demo_import_env demo_tenant_id demo_defaults demo_roster demo_import_state = Inr (res, s')"
    using demo_processed by blast
  obtain res' s'' where q: "processRows demo_import_env demo_tenant_id demo_defaults demo_roster s' = Inr (res', s'')"
    using demo_processed by blast
  show ?thesis
    using p q reimport_inserts_none [OF p q] by blast
qed

lemma demo_import_run:
  "processRows demo_import_env demo_tenant_id demo_defaults ([''student_id'', ''full_name'', ''email''] # [[''7'', ''A'', ''B@k'']]) demo_import_state =
     Inr (roster_line demo_import_env demo_tenant_id ''k'' demo_defaults demo_cols 1 [''7'', ''A'', ''B@k''] (no_result, demo_import_state))"
  by (simp add: processRows_def demo_header demo_tenant_valid demo_domain del: col_index.simps)

theorem imported_students_have_login_witness:
  "\<exists>res s'. processRows demo_import_env demo_tenant_id demo_defaults ([''student_id'', ''full_name'', ''email''] # [[''7'', ''A'', ''B@k'']])
       demo_import_state = Inr (res, s') \<and> has_login demo_imported s'"
proof -
  have foreign: "\<not> foreign_student demo_imported demo_import_state"
    by (simp add: foreign_student_def demo_import_state_def)
  obtain res s' where l: "roster_line demo_import_env demo_tenant_id ''k'' demo_defaults demo_cols 1 [''7'', ''A'', ''B@k'']
      (no_result, demo_import_state) = (res, s')"
    by fastforce
  then have s': "s' = hidden_login demo_import_env ''k'' 1 demo_imported (store_student demo_imported demo_import_state)"
    using foreign demo_storable
    by (cases rule: roster_line_cases [of demo_import_env demo_tenant_id "''k''" demo_defaults demo_cols 1 "[''7'', ''A'', ''B@k'']" no_result demo_import_state])
      auto
  have stored: "demo_imported \<in> set (app_students s')"
    by (simp add: s' store_student_def upsert_def demo_import_state_def)
  have run: "processRows demo_import_env demo_tenant_id demo_defaults ([''student_id'', ''full_name'', ''email''] # [[''7'', ''A'', ''B@k'']])
      demo_import_state = Inr (res, s')"
    using demo_import_run l by simp
  have row: "storable demo_import_env demo_tenant_id (import_domain demo_import_env demo_tenant_id demo_import_state) demo_defaults
      (col_index 0 [''student_id'', ''full_name'', ''email''] Map.empty) (1 + 0) ([[''7'', ''A'', ''B@k'']] ! 0) = Some demo_imported"
    using demo_storable by (simp add: demo_header del: col_index.simps)
  have "has_login demo_imported s'"
    by (rule imported_students_have_login [OF run _ _ _ _ row stored refl])
      (simp_all add: demo_domain demo_imported_def, simp add: demo_import_state_def)
  with run show ?thesis
    by blast
qed

end
