(* ===== verification/UPanel.thy ===== *)
theory UPanel
  imports Warden
begin

text \<open>
  The import of attendance from U-Panel (\<open>upanel/client.go\<close>): reading its collections page by page, and
  joining lists, sittings, check-ins, sign-ins and the two directories into records in the gateway's terms.

  A document is a map from names to JSON values, the empty map where the source has a nil one. A number that is not an
  integer, or too large for one, is kept as the two texts Go prints of it (\<open>FormatFloat\<close> and \<open>fmt.Sprint\<close>), a nested object as what
  \<open>fmt.Sprint\<close> prints. U-Panel itself is a parameter: what it answers to a path and a query.
\<close>

section \<open>Documents\<close>

datatype json = JString string | JInt int | JReal string string | JBool bool | JNull | JList "json list" | JObject string

type_synonym doc = "string \<rightharpoonup> json"

definition nil_text :: string where "nil_text = ''<nil>''"

fun text_of :: "json \<Rightarrow> string option" where
  "text_of (JString t) = (let s = trim_space t in if s \<noteq> [] \<and> s \<noteq> nil_text then Some s else None)"
| "text_of (JInt i) = Some (format_int i)"
| "text_of (JReal f g) = Some f"
| "text_of (JBool b) = Some (if b then ''true'' else ''false'')"
| "text_of JNull = None"
| "text_of (JList vs) = None"
| "text_of (JObject t) = None"

fun field :: "doc \<Rightarrow> string list \<Rightarrow> string" where
  "field m [] = ''''"
| "field m (k # ks) =
     (case m k of
        None \<Rightarrow> field m ks
      | Some v \<Rightarrow> (case text_of v of Some s \<Rightarrow> s | None \<Rightarrow> field m ks))"

fun truthy :: "json \<Rightarrow> bool" where
  "truthy (JBool b) = b"
| "truthy (JString t) = (let s = to_lower (trim_space t) in s = ''true'' \<or> s = ''1'' \<or> s = ''yes'')"
| "truthy (JInt i) = (i \<noteq> 0)"
| "truthy (JReal f g) = True"
| "truthy _ = False"

definition boolField :: "doc \<Rightarrow> string \<Rightarrow> bool" where
  "boolField m k = (case m k of None \<Rightarrow> False | Some v \<Rightarrow> truthy v)"

fun firstNonEmpty :: "string list \<Rightarrow> string" where
  "firstNonEmpty [] = ''''"
| "firstNonEmpty (v # vs) = (let s = trim_space v in if s \<noteq> [] then s else firstNonEmpty vs)"

definition indexByID :: "doc list \<Rightarrow> string \<Rightarrow> doc" where
  "indexByID docs i =
     (case find (\<lambda>d. field d [''id''] \<noteq> [] \<and> field d [''id''] = i) (rev docs) of None \<Rightarrow> Map.empty | Some d \<Rightarrow> d)"

text \<open>\<open>fmt.Sprint\<close> of a JSON value.\<close>

fun sprint :: "json \<Rightarrow> string" where
  "sprint (JString t) = t"
| "sprint (JInt i) = format_int i"
| "sprint (JReal f g) = g"
| "sprint (JBool b) = (if b then ''true'' else ''false'')"
| "sprint JNull = nil_text"
| "sprint (JList vs) = ''['' @ join_with '' '' (map sprint vs) @ '']''"
| "sprint (JObject t) = t"

definition firstCourse :: "doc \<Rightarrow> string" where
  "firstCourse list =
     (let fallback = field list [''courseUnitName'', ''course_unit_name''] in
      case list ''courses'' of
        Some (JList (v # _)) \<Rightarrow>
          (let s = trim_space (sprint v) in if s \<noteq> [] \<and> s \<noteq> nil_text then s else fallback)
      | _ \<Rightarrow> fallback)"

text \<open>A time stamp, or a number of seconds or milliseconds. \<open>RFC3339Nano\<close> parses what \<open>RFC3339\<close> does.\<close>

definition parseTime :: "string \<Rightarrow> instant option" where
  "parseTime raw =
     (let s = trim_space raw in
      if s = [] then None
      else case parse_rfc3339 s of
        Some t \<Rightarrow> Some t
      | None \<Rightarrow>
          (case go_atoi s of
             None \<Rightarrow> None
           | Some n \<Rightarrow> if 10 ^ 12 < n then Some (n * 10 ^ 6) else if 10 ^ 9 < n then Some (n * second) else None))"

section \<open>Who is who\<close>

definition go_fields :: "string \<Rightarrow> string list" where
  "go_fields s = filter (\<lambda>w. w \<noteq> []) (split_on (CHR '' '') (map (\<lambda>c. if is_space c then CHR '' '' else c) s))"

definition normalizeStaff :: "string \<Rightarrow> string" where
  "normalizeStaff s = to_upper (trim_space s)"

definition normPersonName :: "string \<Rightarrow> string" where
  "normPersonName s = to_lower (join_with '' '' (go_fields s))"

record identity =
  id_reg :: string
  id_name :: string

definition keep_or :: "string \<Rightarrow> string \<Rightarrow> string" where
  "keep_or cur new = (if cur = [] then new else cur)"

definition put_student :: "string \<Rightarrow> string \<Rightarrow> string \<Rightarrow> (string \<rightharpoonup> identity) \<Rightarrow> (string \<rightharpoonup> identity)" where
  "put_student key reg name out =
     (let key = trim_space key in
      if key = [] then out
      else let cur = (case out key of None \<Rightarrow> \<lparr>id_reg = '''', id_name = ''''\<rparr> | Some c \<Rightarrow> c)
           in out(key \<mapsto> \<lparr>id_reg = keep_or (id_reg cur) (trim_space reg), id_name = keep_or (id_name cur) (trim_space name)\<rparr>))"

definition put_three :: "string \<Rightarrow> string \<Rightarrow> string \<Rightarrow> (string \<rightharpoonup> identity) \<Rightarrow> (string \<rightharpoonup> identity)" where
  "put_three ident reg name out =
     put_student (to_upper ident) reg name (put_student reg reg name (put_student ident reg name out))"

definition add_student :: "doc \<Rightarrow> (string \<rightharpoonup> identity) \<Rightarrow> (string \<rightharpoonup> identity)" where
  "add_student s = put_three (field s [''id'']) (to_upper (field s [''registrationNumber'', ''registration_number'']))
     (field s [''name'', ''fullName'', ''full_name''])"

definition add_sign_in :: "doc \<Rightarrow> (string \<rightharpoonup> identity) \<Rightarrow> (string \<rightharpoonup> identity)" where
  "add_sign_in si =
     (let ident = field si [''studentId'', ''student_id''];
          reg = to_upper (field si [''registrationNumber'', ''registration_number'']);
          name = field si [''studentName'', ''student_name'', ''fullName'', ''full_name''] in
      put_three ident (if reg = [] then to_upper ident else reg) name)"

definition studentIdentities :: "doc list \<Rightarrow> doc list \<Rightarrow> (string \<rightharpoonup> identity)" where
  "studentIdentities students signIns = fold add_sign_in signIns (fold add_student students Map.empty)"

definition resolveStudent :: "string \<Rightarrow> (string \<rightharpoonup> identity) \<Rightarrow> string \<times> string" where
  "resolveStudent raw ids =
     (let rawID = trim_space raw in
      if rawID = [] then ('''', '''')
      else case ids rawID of
        Some i \<Rightarrow> (firstNonEmpty [id_reg i, rawID], id_name i)
      | None \<Rightarrow>
          (case ids (to_upper rawID) of
             Some i \<Rightarrow> (firstNonEmpty [id_reg i, rawID], id_name i)
           | None \<Rightarrow> (rawID, '''')))"

record lecturerIdent =
  li_staff :: string
  li_name :: string
  li_uid :: string

definition put_lecturer :: "string \<Rightarrow> string \<Rightarrow> string \<Rightarrow> string \<Rightarrow> (string \<rightharpoonup> lecturerIdent) \<Rightarrow> (string \<rightharpoonup> lecturerIdent)" where
  "put_lecturer key staff name uid out =
     (let key = trim_space key in
      if key = [] then out
      else let cur = (case out key of None \<Rightarrow> \<lparr>li_staff = '''', li_name = '''', li_uid = ''''\<rparr> | Some c \<Rightarrow> c)
           in out(key \<mapsto> \<lparr>li_staff = keep_or (li_staff cur) (normalizeStaff staff), li_name = keep_or (li_name cur) (trim_space name),
                          li_uid = keep_or (li_uid cur) (trim_space uid)\<rparr>))"

definition index_lecturer :: "string \<Rightarrow> string \<Rightarrow> string \<Rightarrow> (string \<rightharpoonup> lecturerIdent) \<Rightarrow> (string \<rightharpoonup> lecturerIdent)" where
  "index_lecturer uid staff name out =
     (let staff = normalizeStaff staff; uid = trim_space uid; name = trim_space name;
          out = put_lecturer (to_upper uid) staff name uid (put_lecturer uid staff name uid out);
          out = (if staff \<noteq> [] then put_lecturer staff staff name uid out else out);
          n = normPersonName name
      in if n \<noteq> [] then put_lecturer n staff name uid out else out)"

definition lecturerIdentities :: "doc list \<Rightarrow> doc list \<Rightarrow> (string \<rightharpoonup> lecturerIdent)" where
  "lecturerIdentities lecturers staffNums =
     fold (\<lambda>d. index_lecturer (field d [''uid'', ''userId'', ''user_id''])
             (firstNonEmpty [field d [''staffNumber'', ''staff_number'', ''staffId'', ''staff_id''], field d [''id'']])
             (field d [''fullName'', ''full_name'', ''name''])) staffNums
       (fold (\<lambda>d. index_lecturer (field d [''id'', ''uid'', ''userId'', ''user_id''])
                (field d [''staffNumber'', ''staff_number'', ''staffId'', ''staff_id''])
                (field d [''fullName'', ''full_name'', ''name''])) lecturers Map.empty)"

definition lookup_lecturer :: "(string \<rightharpoonup> lecturerIdent) \<Rightarrow> string \<Rightarrow> lecturerIdent option" where
  "lookup_lecturer ids key =
     (if key = [] then None else case ids key of Some i \<Rightarrow> Some i | None \<Rightarrow> ids (to_upper key))"

definition resolveLecturer :: "string \<Rightarrow> string \<Rightarrow> (string \<rightharpoonup> lecturerIdent) \<Rightarrow> string \<times> string" where
  "resolveLecturer uid name ids =
     (let uid = trim_space uid; name = trim_space name in
      case (case lookup_lecturer ids uid of
              Some i \<Rightarrow> Some i
            | None \<Rightarrow> (case lookup_lecturer ids (normalizeStaff uid) of
                Some i \<Rightarrow> Some i | None \<Rightarrow> lookup_lecturer ids (normPersonName name))) of
        Some i \<Rightarrow> (firstNonEmpty [li_staff i, uid, name], firstNonEmpty [li_name i, name])
      | None \<Rightarrow> (firstNonEmpty [uid, name], name))"

definition resolveLecturerFrom :: "doc \<Rightarrow> doc \<Rightarrow> (string \<rightharpoonup> lecturerIdent) \<Rightarrow> string \<times> string" where
  "resolveLecturerFrom list sess ids =
     (let name = firstNonEmpty [field list [''whoTaught'', ''who_taught''], field sess [''createdByName'', ''created_by_name'']];
          uid = firstNonEmpty [field list [''lecturerUid'', ''lecturer_uid''], field sess [''createdBy'', ''created_by'']];
          listed = firstNonEmpty [field list [''staffNumber'', ''staff_number'', ''lecturerStaffNumber'', ''lecturer_staff_number'', ''staffId'', ''staff_id''],
                                  field sess [''staffNumber'', ''staff_number'', ''staffId'', ''staff_id'']];
          (staff, name) = resolveLecturer uid name ids
      in (firstNonEmpty [normalizeStaff listed, staff], firstNonEmpty [name, field list [''whoTaught'', ''who_taught'']]))"

section \<open>Records\<close>

record Record =
  ur_id :: string
  ur_kind :: string
  ur_person_id :: string
  ur_person_name :: string
  ur_staff_id :: string
  ur_student_id :: string
  ur_full_name :: string
  ur_present :: bool
  ur_verified :: bool
  ur_event_type :: string
  ur_course :: string
  ur_unit :: string
  ur_unit_name :: string
  ur_session :: string
  ur_year :: string
  ur_sem :: string
  ur_semester :: string
  ur_lecturer :: string
  ur_lecturer_name :: string
  ur_room :: string
  ur_program :: string
  ur_session_date :: string
  ur_timestamp :: string
  ur_closed_at :: string
  ur_list_id :: string
  ur_session_id :: string

definition KindStudent :: string where "KindStudent = ''student''"
definition KindLecturer :: string where "KindLecturer = ''lecturer''"
definition KindAdmin :: string where "KindAdmin = ''admin''"

definition empty_record :: Record where
  "empty_record = \<lparr>ur_id = '''', ur_kind = '''', ur_person_id = '''', ur_person_name = '''', ur_staff_id = '''', ur_student_id = '''',
     ur_full_name = '''', ur_present = False, ur_verified = False, ur_event_type = '''', ur_course = '''', ur_unit = '''', ur_unit_name = '''',
     ur_session = '''', ur_year = '''', ur_sem = '''', ur_semester = '''', ur_lecturer = '''', ur_lecturer_name = '''', ur_room = '''',
     ur_program = '''', ur_session_date = '''', ur_timestamp = '''', ur_closed_at = '''', ur_list_id = '''', ur_session_id = ''''\<rparr>"

definition presentLabel :: "bool \<Rightarrow> string" where
  "presentLabel present = (if present then ''PRESENT'' else ''ABSENT'')"

text \<open>The fields every record takes from its class list.\<close>

definition from_list :: "doc \<Rightarrow> Record \<Rightarrow> Record" where
  "from_list list r = r\<lparr>ur_room := field list [''room''], ur_unit := field list [''courseUnitName'', ''course_unit_name''],
     ur_year := field list [''year''], ur_sem := field list [''sem''], ur_program := field list [''program'']\<rparr>"

definition discarded :: "doc \<Rightarrow> bool" where
  "discarded sess = (boolField sess ''rollDiscarded'' \<or> boolField sess ''roll_discarded'')"

definition raw_student :: "doc \<Rightarrow> string" where
  "raw_student d = field d [''studentId'', ''student_id'', ''registrationNumber'', ''registration_number'']"

definition student_record :: "(string \<Rightarrow> doc) \<Rightarrow> (string \<Rightarrow> doc) \<Rightarrow> (string \<rightharpoonup> identity) \<Rightarrow> doc \<Rightarrow> Record option" where
  "student_record listByID sessionByID ids rec =
     (let sessionID = field rec [''sessionId'', ''session_id'']; sess = sessionByID sessionID;
          listID = field rec [''listId'', ''list_id''];
          listID = (if listID = [] then field sess [''listId'', ''list_id''] else listID); list = listByID listID in
      if discarded sess then None
      else let rawID = raw_student rec; (reg, name) = resolveStudent rawID ids;
               name = firstNonEmpty [name, field rec [''studentName'', ''student_name'', ''fullName'', ''full_name'']];
               present = (if rec ''present'' \<noteq> None then boolField rec ''present'' else True)
           in Some (from_list list (empty_record\<lparr>
             ur_id := firstNonEmpty [field rec [''id''], sessionID @ ''_'' @ rawID], ur_kind := KindStudent,
             ur_person_id := firstNonEmpty [reg, rawID], ur_person_name := name, ur_student_id := firstNonEmpty [reg, rawID],
             ur_full_name := name, ur_present := present, ur_verified := boolField rec ''verified'',
             ur_event_type := presentLabel present, ur_course := firstNonEmpty [field rec [''course''], firstCourse list],
             ur_timestamp := firstNonEmpty [field rec [''timestamp'', ''capturedAt'', ''created_at''], field sess [''startTime'', ''start_time'']],
             ur_list_id := listID, ur_session_id := sessionID, ur_lecturer := field list [''whoTaught'', ''who_taught'']\<rparr>)))"

definition joinStudents :: "doc list \<Rightarrow> doc list \<Rightarrow> doc list \<Rightarrow> (string \<rightharpoonup> identity) \<Rightarrow> Record list" where
  "joinStudents rolls sessions records ids = List.map_filter (student_record (indexByID rolls) (indexByID sessions) ids) records"

section \<open>Absences\<close>

record enrolment =
  en_id :: string
  en_reg :: string
  en_name :: string
  en_course :: string
  en_signed_at :: string

definition roll_key :: "string \<Rightarrow> string \<Rightarrow> string" where
  "roll_key sess stu = sess @ ''|'' @ stu"

definition marked :: "doc list \<Rightarrow> string list" where
  "marked records = List.map_filter (\<lambda>rec. let sess = field rec [''sessionId'', ''session_id'']; stu = raw_student rec in
     if sess \<noteq> [] \<and> stu \<noteq> [] then Some (roll_key sess stu) else None) records"

definition enrolment_of :: "(string \<rightharpoonup> identity) \<Rightarrow> doc \<Rightarrow> (string \<times> enrolment) option" where
  "enrolment_of ids si =
     (let listID = field si [''listId'', ''list_id'']; stu = raw_student si in
      if listID = [] \<or> stu = [] then None
      else let (reg, name) = resolveStudent stu ids
           in Some (listID, \<lparr>en_id = stu, en_reg = reg,
                en_name = firstNonEmpty [name, field si [''studentName'', ''student_name'', ''fullName'', ''full_name'']],
                en_course = field si [''course''], en_signed_at = field si [''signedInAt'', ''signed_in_at'', ''timestamp'']\<rparr>))"

definition enrolled :: "(string \<rightharpoonup> identity) \<Rightarrow> doc list \<Rightarrow> string \<Rightarrow> enrolment list" where
  "enrolled ids signIns listID = map snd (filter (\<lambda>(l, e). l = listID) (List.map_filter (enrolment_of ids) signIns))"

definition end_of :: "doc \<Rightarrow> instant option" where
  "end_of sess = parseTime (field sess [''endTime'', ''end_time''])"

definition sessionCompleted :: "instant \<Rightarrow> doc \<Rightarrow> bool" where
  "sessionCompleted now sess =
     (let status = to_lower (field sess [''status'']) in
      status \<in> {''closed'', ''ended'', ''complete'', ''completed''} \<or>
      (case end_of sess of None \<Rightarrow> False | Some e \<Rightarrow> e < now))"

definition joined_late :: "doc \<Rightarrow> enrolment \<Rightarrow> bool" where
  "joined_late sess e = (case (parseTime (en_signed_at e), end_of sess) of (Some j, Some en) \<Rightarrow> en < j | _ \<Rightarrow> False)"

definition absent_record :: "doc \<Rightarrow> doc \<Rightarrow> enrolment \<Rightarrow> Record" where
  "absent_record list sess e =
     (let sessionID = field sess [''id''] in
      from_list list (empty_record\<lparr>ur_id := ''absent:'' @ sessionID @ ''_'' @ en_id e, ur_kind := KindStudent,
        ur_person_id := firstNonEmpty [en_reg e, en_id e], ur_person_name := en_name e, ur_student_id := firstNonEmpty [en_reg e, en_id e],
        ur_full_name := en_name e, ur_present := False, ur_event_type := ''ABSENT'',
        ur_course := firstNonEmpty [en_course e, firstCourse list],
        ur_timestamp := firstNonEmpty [field sess [''endTime'', ''end_time''], field sess [''startTime'', ''start_time'']],
        ur_list_id := field sess [''listId'', ''list_id''], ur_session_id := sessionID,
        ur_lecturer := field list [''whoTaught'', ''who_taught'']\<rparr>))"

text \<open>The inner loop over a list's enrolments; \<open>seen\<close> grows as it goes. Each mark is kept with its key.\<close>

fun absent_marks :: "doc \<Rightarrow> doc \<Rightarrow> enrolment list \<Rightarrow> string list \<Rightarrow> (string \<times> Record) list" where
  "absent_marks list sess [] seen = []"
| "absent_marks list sess (e # es) seen =
     (let key = roll_key (field sess [''id'']) (en_id e) in
      if key \<in> set seen \<or> joined_late sess e then absent_marks list sess es seen
      else (key, absent_record list sess e) # absent_marks list sess es (key # seen))"

definition roll_due :: "instant \<Rightarrow> doc \<Rightarrow> bool" where
  "roll_due now sess = (\<not> discarded sess \<and> sessionCompleted now sess \<and> field sess [''id''] \<noteq> [] \<and> field sess [''listId'', ''list_id''] \<noteq> [])"

fun absent_sittings :: "instant \<Rightarrow> (string \<Rightarrow> doc) \<Rightarrow> (string \<Rightarrow> enrolment list) \<Rightarrow> doc list \<Rightarrow> string list \<Rightarrow> (string \<times> Record) list" where
  "absent_sittings now listByID enr [] seen = []"
| "absent_sittings now listByID enr (sess # rest) seen =
     (let listID = field sess [''listId'', ''list_id''];
          marks = (if roll_due now sess then absent_marks (listByID listID) sess (enr listID) seen else [])
      in marks @ absent_sittings now listByID enr rest (map fst marks @ seen))"

definition absentSessions :: "instant \<Rightarrow> doc list \<Rightarrow> doc list \<Rightarrow> doc list \<Rightarrow> doc list \<Rightarrow> (string \<rightharpoonup> identity) \<Rightarrow> Record list" where
  "absentSessions now rolls sessions records signIns ids =
     map snd (absent_sittings now (indexByID rolls) (enrolled ids signIns) sessions (marked records))"

section \<open>Lecturers and staff\<close>

definition session_list :: "doc \<Rightarrow> string" where
  "session_list sess = field sess [''listId'', ''list_id'']"

definition lecturer_record :: "string \<Rightarrow> string \<Rightarrow> string \<Rightarrow> string \<Rightarrow> doc \<Rightarrow> Record" where
  "lecturer_record ident staff name event list =
     from_list list (empty_record\<lparr>ur_id := ident, ur_kind := KindLecturer, ur_person_id := staff, ur_person_name := name,
       ur_full_name := name, ur_staff_id := staff, ur_lecturer_name := name, ur_present := True, ur_event_type := event,
       ur_lecturer := name, ur_course := field list [''courseUnitName'', ''course_unit_name'']\<rparr>)"

definition sitting_record :: "(string \<Rightarrow> doc) \<Rightarrow> (string \<rightharpoonup> lecturerIdent) \<Rightarrow> doc \<Rightarrow> Record" where
  "sitting_record listByID ids sess =
     (let sessionID = field sess [''id'']; listID = session_list sess; list = listByID listID;
          (staff, name) = resolveLecturerFrom list sess ids;
          start = field sess [''startTime'', ''start_time'', ''createdAt'', ''created_at''] in
      (lecturer_record (''lecturer:session:'' @ firstNonEmpty [sessionID, listID @ ''_'' @ start]) staff name ''LECTURE'' list)
        \<lparr>ur_course := firstNonEmpty [field list [''courseUnitName'', ''course_unit_name''], field sess [''course'']],
         ur_timestamp := start, ur_closed_at := field sess [''endTime'', ''end_time''], ur_list_id := listID, ur_session_id := sessionID\<rparr>)"

definition sign_record :: "(string \<rightharpoonup> lecturerIdent) \<Rightarrow> doc \<Rightarrow> Record" where
  "sign_record ids list =
     (let listID = field list [''id'']; (staff, name) = resolveLecturerFrom list Map.empty ids in
      (lecturer_record (''lecturer:list:'' @ listID) staff name ''LECTURER_SIGN'' list)
        \<lparr>ur_timestamp := field list [''lecturerSignedAt'', ''lecturer_signed_at''], ur_list_id := listID\<rparr>)"

definition joinLecturers :: "doc list \<Rightarrow> doc list \<Rightarrow> (string \<rightharpoonup> lecturerIdent) \<Rightarrow> Record list" where
  "joinLecturers rolls sessions ids =
     map (sitting_record (indexByID rolls) ids) sessions @
     map (sign_record ids) (filter (\<lambda>list. field list [''lecturerSignedAt'', ''lecturer_signed_at''] \<noteq> [] \<and>
       field list [''id''] \<notin> set (map session_list sessions)) rolls)"

definition admin_record :: "doc \<Rightarrow> Record" where
  "admin_record ev =
     (let kind = to_lower (field ev [''kind'']);
          eventType = (if kind = ''arrival'' then ''IN'' else if kind = ''departure'' then ''OUT'' else ''PUNCH'');
          uid = field ev [''adminUid'', ''admin_uid'', ''userId'', ''user_id''];
          name = field ev [''displayName'', ''display_name'', ''fullName'', ''full_name''];
          staff = firstNonEmpty [field ev [''staffNumber'', ''staff_number'', ''staffId'', ''staff_id''], uid];
          title = field ev [''jobTitle'', ''job_title''] in
      empty_record\<lparr>ur_id := ''admin:'' @ firstNonEmpty [field ev [''id''], uid @ ''_'' @ field ev [''capturedAt'', ''captured_at'']],
        ur_kind := KindAdmin, ur_person_id := staff, ur_person_name := name, ur_full_name := name, ur_staff_id := staff, ur_present := True,
        ur_event_type := eventType, ur_timestamp := field ev [''capturedAt'', ''captured_at'', ''timestamp''],
        ur_room := field ev [''label'', ''campus''], ur_course := title, ur_unit := title\<rparr>)"

definition joinAdmins :: "doc list \<Rightarrow> Record list" where
  "joinAdmins events = map admin_record events"

section \<open>The gateway's fields\<close>

definition mapProgram :: "string \<Rightarrow> string" where
  "mapProgram p =
     (let s = trim_space p; l = to_lower s in
      if s = [] then ''''
      else if l = ''evening'' then ''Evening''
      else if l = ''weekend'' then ''Weekend''
      else if l = ''day'' \<or> l = ''morning'' then ''Day''
      else if l = ''distance'' \<or> l = ''online'' \<or> l = ''remote'' then ''Distance''
      else s)"

definition kampalaLoc :: "(string \<Rightarrow> location option) \<Rightarrow> location" where
  "kampalaLoc zones = (case zones ''Africa/Kampala'' of None \<Rightarrow> utc | Some l \<Rightarrow> l)"

text \<open>\<open>applyQAATFields\<close> in its order: names, programme and semester, lecturer and unit, ids, date.\<close>

definition apply_names :: "Record \<Rightarrow> Record" where
  "apply_names r =
     (let full = firstNonEmpty [ur_full_name r, ur_person_name r]
      in r\<lparr>ur_full_name := full, ur_person_name := firstNonEmpty [ur_person_name r, full]\<rparr>)"

definition apply_programme :: "Record \<Rightarrow> Record" where
  "apply_programme r =
     (let session = mapProgram (firstNonEmpty [ur_session r, ur_program r]); semester = firstNonEmpty [ur_semester r, ur_sem r]
      in r\<lparr>ur_session := session, ur_program := session, ur_semester := semester, ur_sem := semester\<rparr>)"

definition apply_lecturer :: "Record \<Rightarrow> Record" where
  "apply_lecturer r =
     (let name = firstNonEmpty [ur_lecturer_name r, ur_lecturer r, ur_person_name r];
          lecturer = (if ur_kind r = KindLecturer then firstNonEmpty [ur_lecturer r, name, ur_person_name r]
                      else firstNonEmpty [name, ur_lecturer r]);
          unit = firstNonEmpty [ur_unit_name r, ur_unit r]
      in r\<lparr>ur_lecturer := lecturer, ur_lecturer_name := lecturer, ur_unit_name := unit, ur_unit := unit\<rparr>)"

definition apply_ids :: "Record \<Rightarrow> Record" where
  "apply_ids r =
     (if ur_kind r = KindStudent then
        let i = firstNonEmpty [ur_student_id r, ur_person_id r] in r\<lparr>ur_student_id := i, ur_person_id := i\<rparr>
      else if ur_kind r = KindLecturer \<or> ur_kind r = KindAdmin then
        let i = firstNonEmpty [normalizeStaff (ur_staff_id r), ur_person_id r]
        in r\<lparr>ur_staff_id := i, ur_person_id := firstNonEmpty [i, ur_person_id r]\<rparr>
      else r)"

definition apply_date :: "(string \<Rightarrow> location option) \<Rightarrow> Record \<Rightarrow> Record" where
  "apply_date zones r =
     (if ur_session_date r = [] then
        (case parseTime (ur_timestamp r) of
           None \<Rightarrow> r | Some t \<Rightarrow> r\<lparr>ur_session_date := format_date (civil_date (kampalaLoc zones) t)\<rparr>)
      else r)"

definition applyQAATFields :: "(string \<Rightarrow> location option) \<Rightarrow> Record \<Rightarrow> Record" where
  "applyQAATFields zones r = apply_date zones (apply_ids (apply_lecturer (apply_programme (apply_names r))))"

section \<open>Fetching\<close>

text \<open>The body of an answer: its text, what it decodes to where documents or an export are expected, and the decoder's error.\<close>

record up_body =
  body_text :: string
  body_docs :: "doc list option"
  body_export :: "(doc list \<times> doc list \<times> doc list) option"
  body_error :: string

datatype up_answer = Unreachable string | Answer nat up_body

type_synonym upanel = "string \<Rightarrow> (string \<times> string) list \<Rightarrow> up_answer"

definition pageSize :: nat where "pageSize = 500"
definition maxPages :: nat where "maxPages = 10"

definition clip :: "string \<Rightarrow> nat \<Rightarrow> string" where
  "clip b n = (let s = trim_space b in if n < length s then take n s @ [CHR 0xE2, CHR 0x80, CHR 0xA6] else s)"

definition status_error :: "string \<Rightarrow> nat \<Rightarrow> up_body \<Rightarrow> string" where
  "status_error what status body = ''u-panel '' @ what @ '': HTTP '' @ itoa status @ '': '' @ clip (body_text body) 240"

definition page_query :: "string \<Rightarrow> string \<Rightarrow> (string \<times> string) list" where
  "page_query orderField cursor =
     (''limit'', itoa pageSize) #
     (if orderField \<noteq> [] then
        (''ordering'', ''-'' @ orderField) # (if cursor \<noteq> [] then [(orderField @ ''__lt'', cursor)] else [])
      else [])"

text \<open>The documents of a page that are new, with the ids seen after them.\<close>

fun new_docs :: "doc list \<Rightarrow> string list \<Rightarrow> doc list \<times> string list" where
  "new_docs [] seen = ([], seen)"
| "new_docs (d # ds) seen =
     (let i = field d [''id''] in
      if i \<noteq> [] \<and> i \<in> set seen then new_docs ds seen
      else let (news, seen') = new_docs ds (if i \<noteq> [] then i # seen else seen) in (d # news, seen'))"

fun fetch_pages :: "upanel \<Rightarrow> string \<Rightarrow> string \<Rightarrow> nat \<Rightarrow> string \<Rightarrow> string list \<Rightarrow> doc list \<Rightarrow> string + doc list" where
  "fetch_pages get collection orderField 0 cursor seen all = Inr all"
| "fetch_pages get collection orderField (Suc pages) cursor seen all =
     (case get (''/api/'' @ collection @ ''/'') (page_query orderField cursor) of
        Unreachable e \<Rightarrow> Inl e
      | Answer status body \<Rightarrow>
          if status = 404 then Inr []
          else if status < 200 \<or> 300 \<le> status then Inl (status_error collection status body)
          else case body_docs body of
            None \<Rightarrow> Inl (''u-panel '' @ collection @ '': decode: '' @ body_error body)
          | Some docs \<Rightarrow>
              let (news, seen) = new_docs docs seen; all = all @ news in
              if length docs < pageSize \<or> news = [] then Inr all
              else let last' = field (last docs) [orderField, ''id''] in
                if last' = [] \<or> last' = cursor then Inr all
                else fetch_pages get collection orderField pages last' seen all)"

definition fetchDocs :: "upanel \<Rightarrow> string \<Rightarrow> string \<Rightarrow> string + doc list" where
  "fetchDocs get collection orderField = fetch_pages get collection orderField maxPages '''' [] []"

definition fetchDocsOptional :: "upanel \<Rightarrow> string \<Rightarrow> string \<Rightarrow> string + doc list" where
  "fetchDocsOptional get collection orderField =
     (case fetchDocs get collection orderField of
        Inl msg \<Rightarrow> if contains msg ''HTTP 401'' \<or> contains msg ''HTTP 403'' then Inr [] else Inl msg
      | Inr docs \<Rightarrow> Inr docs)"

definition fetchExport :: "upanel \<Rightarrow> string + (doc list \<times> doc list \<times> doc list) option" where
  "fetchExport get =
     (case get ''/api/attendance/export/'' [(''limit'', ''5000'')] of
        Unreachable e \<Rightarrow> Inl e
      | Answer status body \<Rightarrow>
          if status = 404 \<or> status = 405 then Inr None
          else if status < 200 \<or> 300 \<le> status then Inl (status_error ''export'' status body)
          else case body_export body of
            None \<Rightarrow> Inl (''u-panel export: decode: '' @ body_error body)
          | Some raw \<Rightarrow> Inr (Some raw))"

definition bind_sum :: "'e + 'a \<Rightarrow> ('a \<Rightarrow> 'e + 'b) \<Rightarrow> 'e + 'b" where
  "bind_sum r k = (case r of Inl e \<Rightarrow> Inl e | Inr x \<Rightarrow> k x)"

definition fetchCore :: "upanel \<Rightarrow> string + ((doc list \<times> doc list \<times> doc list) \<times> string)" where
  "fetchCore get =
     bind_sum (fetchExport get) (\<lambda>e. case e of
       Some raw \<Rightarrow> Inr (raw, ''export'')
     | None \<Rightarrow>
         bind_sum (fetchDocs get ''attendance/lists'' ''createdAt'') (\<lambda>rolls.
         bind_sum (fetchDocs get ''attendance/sessions'' ''startTime'') (\<lambda>sessions.
         bind_sum (fetchDocs get ''attendance/records'' ''timestamp'') (\<lambda>records.
           Inr ((rolls, sessions, records), ''collections'')))))"

record Payload =
  pl_configured :: bool
  pl_list_count :: nat
  pl_session_count :: nat
  pl_record_count :: nat
  pl_student_count :: nat
  pl_lecturer_count :: nat
  pl_admin_count :: nat
  pl_stored :: nat
  pl_records :: "Record list"
  pl_via :: string
  pl_from_cache :: bool
  pl_message :: string

definition countKind :: "Record list \<Rightarrow> string \<Rightarrow> nat" where
  "countKind rows kind = length (filter (\<lambda>r. ur_kind r = kind) rows)"

definition all_records ::
  "instant \<Rightarrow> doc list \<times> doc list \<times> doc list \<Rightarrow> doc list \<Rightarrow> doc list \<Rightarrow> doc list \<Rightarrow> doc list \<Rightarrow> doc list \<Rightarrow> Record list" where
  "all_records now core signIns students presence lecturers staffNums =
     (let (rolls, sessions, records) = core; ids = studentIdentities students signIns;
          lecturerIDs = lecturerIdentities lecturers staffNums in
      joinStudents rolls sessions records ids @ absentSessions now rolls sessions records signIns ids @
      joinLecturers rolls sessions lecturerIDs @ joinAdmins presence)"

definition Fetch :: "upanel \<Rightarrow> string \<Rightarrow> instant \<Rightarrow> (string \<Rightarrow> location option) \<Rightarrow> string + Payload" where
  "Fetch get token now zones =
     (if trim_space token = [] then
        Inr \<lparr>pl_configured = False, pl_list_count = 0, pl_session_count = 0, pl_record_count = 0, pl_student_count = 0,
             pl_lecturer_count = 0, pl_admin_count = 0, pl_stored = 0, pl_records = [], pl_via = '''', pl_from_cache = False,
             pl_message = ''UPANEL_API_TOKEN is not set on the API gateway''\<rparr>
      else
        bind_sum (fetchCore get) (\<lambda>(core, via).
        bind_sum (fetchDocs get ''attendance/sign-ins'' ''signedInAt'') (\<lambda>signIns.
        bind_sum (fetchDocs get ''attendance/students'' ''name'') (\<lambda>students.
        bind_sum (fetchDocs get ''campus/presence'' ''capturedAt'') (\<lambda>presence.
        bind_sum (fetchDocsOptional get ''accounts/lecturers'' ''fullName'') (\<lambda>lecturers.
        bind_sum (fetchDocsOptional get ''accounts/staff-numbers'' ''staffNumber'') (\<lambda>staffNums.
          let out = map (applyQAATFields zones) (all_records now core signIns students presence lecturers staffNums) in
          Inr \<lparr>pl_configured = True, pl_list_count = length (fst core), pl_session_count = length (fst (snd core)),
               pl_record_count = length out, pl_student_count = countKind out KindStudent, pl_lecturer_count = countKind out KindLecturer,
               pl_admin_count = countKind out KindAdmin, pl_stored = 0, pl_records = out, pl_via = via, pl_from_cache = False,
               pl_message = ''''\<rparr>)))))))"

section \<open>A collection is read from its newest document down\<close>

text \<open>
  What the source relies on of U-Panel: a page holds the first 500 documents, by descending order field, whose
  order field is below the cursor. \<open>newest_first\<close>: the order field tells the documents apart, and they have ids.
\<close>

definition page_of :: "string \<Rightarrow> doc list \<Rightarrow> string \<Rightarrow> doc list" where
  "page_of ord docs cursor = take pageSize (filter (\<lambda>d. cursor = [] \<or> field d [ord] < cursor) docs)"

definition serves :: "upanel \<Rightarrow> string \<Rightarrow> string \<Rightarrow> doc list \<Rightarrow> bool" where
  "serves get collection ord docs = (\<forall>cursor. \<exists>body.
     get (''/api/'' @ collection @ ''/'') (page_query ord cursor) = Answer 200 body \<and> body_docs body = Some (page_of ord docs cursor))"

definition newest_first :: "string \<Rightarrow> doc list \<Rightarrow> bool" where
  "newest_first ord docs =
     (sorted_wrt (\<lambda>a b. field b [ord] < field a [ord]) docs \<and> list_all (\<lambda>d. field d [ord] \<noteq> [] \<and> field d [''id''] \<noteq> []) docs \<and>
      distinct (map (\<lambda>d. field d [''id'']) docs))"

lemma field_first: "field d [k] \<noteq> [] \<Longrightarrow> field d (k # ks) = field d [k]"
  by (simp split: option.splits)

lemma new_docs_fresh:
  assumes "list_all (\<lambda>d. field d [''id''] \<noteq> []) ds" "distinct (map (\<lambda>d. field d [''id'']) ds)"
    "(\<lambda>d. field d [''id'']) ` set ds \<inter> set seen = {}"
  shows "\<exists>seen'. new_docs ds seen = (ds, seen') \<and> set seen' = (\<lambda>d. field d [''id'']) ` set ds \<union> set seen"
  using assms
proof (induction ds arbitrary: seen)
  case (Cons d ds)
  have "(\<lambda>d. field d [''id'']) ` set ds \<inter> set (field d [''id''] # seen) = {}"
    using Cons.prems by auto
  then obtain seen' where "new_docs ds (field d [''id''] # seen) = (ds, seen')"
    "set seen' = (\<lambda>d. field d [''id'']) ` set ds \<union> set (field d [''id''] # seen)"
    using Cons.IH [of "field d [''id''] # seen"] Cons.prems by auto
  then show ?case
    using Cons.prems by (auto simp del: field.simps)
qed simp

lemma filter_below:
  assumes "sorted_wrt (\<lambda>a b. key b < (key a :: 'k :: linorder)) xs" "0 < k" "k \<le> length xs"
  shows "filter (\<lambda>x. key x < key (xs ! (k - 1))) xs = drop k xs"
proof -
  have "\<forall>x \<in> set (take k xs). \<not> key x < key (xs ! (k - 1))"
  proof
    fix x
    assume "x \<in> set (take k xs)"
    then obtain i where i: "i < k" "x = xs ! i"
      using assms(3) by (auto simp: in_set_conv_nth)
    have "k - 1 < length xs"
      using assms(2,3) by simp
    then show "\<not> key x < key (xs ! (k - 1))"
      using sorted_wrt_nth_less [OF assms(1), of i "k - 1"] i by (cases "i < k - 1") (auto dest: less_antisym)
  qed
  moreover have "\<forall>x \<in> set (drop k xs). key x < key (xs ! (k - 1))"
  proof
    fix x
    assume "x \<in> set (drop k xs)"
    then obtain i where i: "i < length xs - k" "x = xs ! (k + i)"
      by (auto simp: in_set_conv_nth)
    then show "key x < key (xs ! (k - 1))"
      using sorted_wrt_nth_less [OF assms(1), of "k - 1" "k + i"] assms(2) by simp
  qed
  ultimately have "filter (\<lambda>x. key x < key (xs ! (k - 1))) (take k xs @ drop k xs) = drop k xs"
    by (simp only: filter_append) (simp add: filter_False filter_True)
  then show ?thesis
    by simp
qed

definition cursor_at :: "string \<Rightarrow> doc list \<Rightarrow> nat \<Rightarrow> string" where
  "cursor_at ord docs k = (if k = 0 then [] else field (docs ! (k - 1)) [ord])"

lemma page_at:
  assumes "newest_first ord docs" "k \<le> length docs"
  shows "page_of ord docs (cursor_at ord docs k) = take pageSize (drop k docs)"
proof (cases "k = 0")
  case True
  then show ?thesis
    by (simp add: page_of_def cursor_at_def del: field.simps)
next
  case False
  then have "field (docs ! (k - 1)) [ord] \<noteq> []"
    using assms by (auto simp: newest_first_def list_all_length simp del: field.simps)
  then show ?thesis
    using False filter_below [of "\<lambda>d. field d [ord]" docs k] assms
    by (simp add: page_of_def cursor_at_def newest_first_def del: field.simps)
qed

lemma fetch_pages_from:
  assumes s: "serves get c ord docs" and n: "newest_first ord docs"
    and "k \<le> length docs" "set seen = (\<lambda>d. field d [''id'']) ` set (take k docs)"
  shows "fetch_pages get c ord m (cursor_at ord docs k) seen (take k docs) = Inr (take (k + pageSize * m) docs)"
  using assms(3,4)
proof (induction m arbitrary: k seen)
  case (Suc m)
  let ?page = "take pageSize (drop k docs)"
  obtain body where b: "get (''/api/'' @ c @ ''/'') (page_query ord (cursor_at ord docs k)) = Answer 200 body" "body_docs body = Some ?page"
    using s page_at [OF n Suc.prems(1)] unfolding serves_def by metis
  have ids: "distinct (map (\<lambda>d. field d [''id'']) docs)" "list_all (\<lambda>d. field d [''id''] \<noteq> []) docs"
    using n by (auto simp: newest_first_def list_all_iff simp del: field.simps)
  have "(\<lambda>d. field d [''id'']) ` set ?page \<inter> set seen = {}"
    using ids(1) Suc.prems(2) set_take_subset [of pageSize "drop k docs"]
      distinct_append [of "map (\<lambda>d. field d [''id'']) (take k docs)" "map (\<lambda>d. field d [''id'']) (drop k docs)"]
    by (simp add: map_append [symmetric] del: map_append field.simps) blast
  moreover have "list_all (\<lambda>d. field d [''id''] \<noteq> []) ?page" "distinct (map (\<lambda>d. field d [''id'']) ?page)"
    using ids by (auto simp: list_all_iff take_map [symmetric] drop_map [symmetric] dest!: in_set_takeD in_set_dropD simp del: field.simps)
  ultimately obtain seen' where seen': "new_docs ?page seen = (?page, seen')" "set seen' = (\<lambda>d. field d [''id'']) ` set ?page \<union> set seen"
    using new_docs_fresh by blast
  have all: "take k docs @ ?page = take (k + pageSize) docs"
    by (simp add: take_add)
  show ?case
  proof (cases "length ?page < pageSize")
    case True
    then have "length docs \<le> k + pageSize"
      by auto
    then show ?thesis
      using b seen'(1) True all by (simp add: take_add [symmetric])
  next
    case False
    then have k': "k + pageSize \<le> length docs" "?page \<noteq> []"
      using Suc.prems(1) by (auto simp: pageSize_def)
    have last: "last ?page = docs ! (k + pageSize - 1)"
      using k' by (auto simp: last_conv_nth pageSize_def add.commute)
    have key: "field (docs ! (k + pageSize - 1)) [ord] \<noteq> []"
      using n k'(1) by (auto simp: newest_first_def list_all_length pageSize_def simp del: field.simps)
    have cur: "field (last ?page) [ord, ''id''] = cursor_at ord docs (k + pageSize)"
      using field_first [OF key, of "[''id'']"] last by (simp add: cursor_at_def pageSize_def del: field.simps)
    have "cursor_at ord docs (k + pageSize) \<noteq> cursor_at ord docs k"
    proof (cases "k = 0")
      case True
      then show ?thesis
        using key by (simp add: cursor_at_def pageSize_def del: field.simps)
    next
      case False
      then show ?thesis
        using sorted_wrt_nth_less [of _ docs "k - 1" "k + pageSize - 1"] n k'(1)
        by (fastforce simp: cursor_at_def newest_first_def pageSize_def simp del: field.simps)
    qed
    moreover have "cursor_at ord docs (k + pageSize) \<noteq> []"
      using key by (simp add: cursor_at_def pageSize_def del: field.simps)
    moreover have "set seen' = (\<lambda>d. field d [''id'']) ` set (take (k + pageSize) docs)"
      using seen'(2) Suc.prems(2) by (auto simp: all [symmetric])
    ultimately show ?thesis
      using Suc.IH [OF k'(1), of seen'] b seen'(1) False k'(2) cur all by (simp add: algebra_simps del: field.simps)
  qed
qed simp

text \<open>
  C22. Reading a collection whose order field tells its documents apart returns its newest 5000
  documents, each once and in order; older ones are left out without an error.
\<close>

theorem fetch_docs_newest:
  assumes "serves get collection ord docs" and "newest_first ord docs"
  shows "fetchDocs get collection ord = Inr (take 5000 docs)"
  using fetch_pages_from [OF assms, of 0 "[]" maxPages] by (simp add: fetchDocs_def cursor_at_def maxPages_def pageSize_def)

lemma new_docs_subset: "set (fst (new_docs ds seen)) \<subseteq> set ds"
proof (induction ds arbitrary: seen)
  case (Cons d ds)
  obtain news seen' where n: "new_docs ds (if field d [''id''] \<noteq> [] then field d [''id''] # seen else seen) = (news, seen')"
    by fastforce
  then have "set news \<subseteq> set ds"
    using Cons.IH [of "if field d [''id''] \<noteq> [] then field d [''id''] # seen else seen"] by simp
  then show ?case
    using Cons.IH [of seen] n by (auto simp: Let_def simp del: field.simps)
qed simp

lemma page_of_below: "d \<in> set (page_of ord docs c) \<Longrightarrow> d \<in> set docs \<and> (c = [] \<or> field d [ord] < c)"
  by (auto simp: page_of_def simp del: field.simps dest!: in_set_takeD)

lemma fetch_pages_below:
  assumes "serves get c ord docs" "\<forall>d \<in> set docs. field d [ord] \<noteq> []" "cursor \<noteq> []"
    "fetch_pages get c ord m cursor seen all = Inr out" "d \<in> set out"
  shows "d \<in> set all \<or> field d [ord] < cursor"
  using assms(3-5)
proof (induction m arbitrary: cursor seen all)
  case (Suc m)
  obtain body where b: "get (''/api/'' @ c @ ''/'') (page_query ord cursor) = Answer 200 body" "body_docs body = Some (page_of ord docs cursor)"
    using assms(1) unfolding serves_def by metis
  obtain news seen' where n: "new_docs (page_of ord docs cursor) seen = (news, seen')"
    by fastforce
  have below: "x \<in> set news \<Longrightarrow> field x [ord] < cursor" for x
    using new_docs_subset [of "page_of ord docs cursor" seen] n page_of_below [of x ord docs cursor] Suc.prems(1) by auto
  let ?last = "field (last (page_of ord docs cursor)) [ord, ''id'']"
  consider (finished) "out = all @ news" | (further) "page_of ord docs cursor \<noteq> []" "?last \<noteq> []" "fetch_pages get c ord m ?last seen' (all @ news) = Inr out"
    using Suc.prems(2) b n new_docs_subset [of "page_of ord docs cursor" seen]
    by (cases "page_of ord docs cursor = []") (auto simp: Let_def pageSize_def split: if_splits simp del: field.simps)
  then show ?case
  proof cases
    case finished
    then show ?thesis
      using Suc.prems(3) below by auto
  next
    case further
    have l: "last (page_of ord docs cursor) \<in> set docs" "field (last (page_of ord docs cursor)) [ord] < cursor"
      using page_of_below [OF last_in_set [OF further(1)]] Suc.prems(1) by auto
    then have "?last < cursor"
      using field_first [of "last (page_of ord docs cursor)" ord "[''id'']"] assms(2) by simp
    then show ?thesis
      using Suc.IH [OF further(2,3) Suc.prems(3)] below by (auto simp del: field.simps)
  qed
qed auto

text \<open>
  A cursor is strict, so documents that share the order field across a page boundary are lost: the
  501st document is missing when it has the order field of the 500th, as two students of one name do.
\<close>

theorem fetch_docs_ties_lost:
  assumes "serves get collection ord docs" and "\<forall>d \<in> set docs. field d [ord] \<noteq> []" and "distinct docs"
    and "500 < length docs" and "field (docs ! 499) [ord] = field (docs ! 500) [ord]"
    and "fetchDocs get collection ord = Inr out"
  shows "docs ! 500 \<notin> set out"
proof
  assume o: "docs ! 500 \<in> set out"
  have page: "page_of ord docs [] = take 500 docs"
    by (simp add: page_of_def pageSize_def)
  obtain body where b: "get (''/api/'' @ collection @ ''/'') (page_query ord []) = Answer 200 body" "body_docs body = Some (take 500 docs)"
    using assms(1) page unfolding serves_def by metis
  obtain news seen where n: "new_docs (take 500 docs) [] = (news, seen)"
    by fastforce
  have last: "last (take 500 docs) = docs ! 499"
    using assms(4) by (subst last_conv_nth) auto
  have key: "field (docs ! 499) [ord] \<noteq> []"
    using assms(2,4) by (simp del: field.simps)
  have pages: "maxPages = Suc 9"
    by (simp add: maxPages_def)
  have "out = news \<or> fetch_pages get collection ord 9 (field (docs ! 499) [ord]) seen news = Inr out"
    using assms(6) unfolding fetchDocs_def pages fetch_pages.simps b
    using b n last field_first [OF key, of "[''id'']"] by (auto simp: Let_def split: if_splits simp del: field.simps)
  then have "docs ! 500 \<in> set news \<or> field (docs ! 500) [ord] < field (docs ! 499) [ord]"
    using fetch_pages_below [OF assms(1,2) key _ o] o by blast
  moreover have "docs ! 500 \<notin> set (take 500 docs)"
    using assms(3,4) by (auto simp: in_set_conv_nth nth_eq_iff_index_eq)
  ultimately show False
    using new_docs_subset [of "take 500 docs" "[]"] n assms(5) by auto
qed

section \<open>The roll\<close>

lemma absent_marks_keys:
  "distinct (map fst (absent_marks list sess es seen)) \<and>
   (\<forall>key. key \<in> set (map fst (absent_marks list sess es seen)) \<longleftrightarrow>
      key \<notin> set seen \<and> (\<exists>e \<in> set es. \<not> joined_late sess e \<and> key = roll_key (field sess [''id'']) (en_id e)))"
proof (induction es arbitrary: seen)
  case (Cons e es)
  let ?key = "roll_key (field sess [''id'']) (en_id e)"
  show ?case
  proof (cases "?key \<in> set seen \<or> joined_late sess e")
    case True
    then have "absent_marks list sess (e # es) seen = absent_marks list sess es seen"
      by (simp del: field.simps)
    then show ?thesis
      using Cons.IH [of seen] True by (auto simp del: field.simps)
  next
    case False
    then have "absent_marks list sess (e # es) seen = (?key, absent_record list sess e) # absent_marks list sess es (?key # seen)"
      by (simp add: Let_def del: field.simps)
    then show ?thesis
      using Cons.IH [of "?key # seen"] False by (auto simp del: field.simps)
  qed
qed simp

lemma absent_sittings_keys:
  "distinct (map fst (absent_sittings now byID enr sessions seen)) \<and>
   (\<forall>key. key \<in> set (map fst (absent_sittings now byID enr sessions seen)) \<longleftrightarrow>
      key \<notin> set seen \<and> (\<exists>sess \<in> set sessions. roll_due now sess \<and>
        (\<exists>e \<in> set (enr (session_list sess)). \<not> joined_late sess e \<and> key = roll_key (field sess [''id'']) (en_id e))))"
proof (induction sessions arbitrary: seen)
  case (Cons sess sessions)
  define marks where "marks = (if roll_due now sess then absent_marks (byID (session_list sess)) sess (enr (session_list sess)) seen else [])"
  have unfold: "absent_sittings now byID enr (sess # sessions) seen = marks @ absent_sittings now byID enr sessions (map fst marks @ seen)"
    by (simp add: marks_def session_list_def Let_def del: field.simps)
  have m: "distinct (map fst marks)" "key \<in> set (map fst marks) \<longleftrightarrow> roll_due now sess \<and> key \<notin> set seen \<and>
      (\<exists>e \<in> set (enr (session_list sess)). \<not> joined_late sess e \<and> key = roll_key (field sess [''id'']) (en_id e))" for key
    using absent_marks_keys [of "byID (session_list sess)" sess "enr (session_list sess)" seen] by (auto simp: marks_def)
  have ih: "distinct (map fst (absent_sittings now byID enr sessions (map fst marks @ seen)))"
    "key \<in> set (map fst (absent_sittings now byID enr sessions (map fst marks @ seen))) \<longleftrightarrow>
      key \<notin> set (map fst marks) \<and> key \<notin> set seen \<and> (\<exists>sess \<in> set sessions. roll_due now sess \<and>
        (\<exists>e \<in> set (enr (session_list sess)). \<not> joined_late sess e \<and> key = roll_key (field sess [''id'']) (en_id e)))" for key
    using Cons.IH [of "map fst marks @ seen"] by auto
  have keys: "set (map fst (absent_sittings now byID enr (sess # sessions) seen)) =
      set (map fst marks) \<union> set (map fst (absent_sittings now byID enr sessions (map fst marks @ seen)))"
    by (simp only: unfold map_append set_append)
  have "distinct (map fst (absent_sittings now byID enr (sess # sessions) seen))"
    using m(1) ih by (simp only: unfold map_append distinct_append) blast
  then show ?case
    using m(2) ih(2) unfolding keys by (auto simp del: field.simps set_map)
qed simp


section \<open>What the fields say\<close>

lemma firstNonEmpty_blank: "trim_space v = [] \<Longrightarrow> firstNonEmpty (v # vs) = firstNonEmpty vs"
  by simp

lemma firstNonEmpty_first: "trim_space v \<noteq> [] \<Longrightarrow> firstNonEmpty (v # vs) = trim_space v"
  by (simp add: Let_def)

lemma firstNonEmpty_idem: "firstNonEmpty vs \<noteq> [] \<Longrightarrow> firstNonEmpty (firstNonEmpty vs # ws) = firstNonEmpty vs"
  by (induction vs) (auto simp: Let_def split: if_splits)

text \<open>
  A check-in whose class list names no lecturer comes out with the student as the lecturer: the name
  falls through to the person's own.
\<close>

theorem student_as_lecturer:
  assumes "ur_kind r = KindStudent" and "trim_space (ur_lecturer r) = []" "trim_space (ur_lecturer_name r) = []"
    and "trim_space (ur_full_name r) = ur_full_name r" "ur_full_name r \<noteq> []" and "ur_person_name r = ur_full_name r"
  shows "ur_lecturer (applyQAATFields zones r) = ur_full_name r \<and> ur_lecturer_name (applyQAATFields zones r) = ur_full_name r"
proof -
  have kept: "ur_lecturer (apply_date zones (apply_ids q)) = ur_lecturer q \<and> ur_lecturer_name (apply_date zones (apply_ids q)) = ur_lecturer_name q" for q
    by (simp add: apply_date_def apply_ids_def Let_def split: option.splits)
  have names: "ur_person_name (apply_names r) = ur_full_name r" "ur_lecturer (apply_names r) = ur_lecturer r"
    "ur_lecturer_name (apply_names r) = ur_lecturer_name r" "ur_kind (apply_names r) = ur_kind r"
    using assms(4-6) by (simp_all add: apply_names_def)
  have programme: "ur_person_name (apply_programme q) = ur_person_name q" "ur_lecturer (apply_programme q) = ur_lecturer q"
    "ur_lecturer_name (apply_programme q) = ur_lecturer_name q" "ur_kind (apply_programme q) = ur_kind q" for q
    by (simp_all add: apply_programme_def Let_def)
  have "KindStudent \<noteq> KindLecturer"
    by (simp add: KindStudent_def KindLecturer_def)
  then have "ur_lecturer (apply_lecturer q) = ur_full_name r \<and> ur_lecturer_name (apply_lecturer q) = ur_full_name r"
    if "ur_person_name q = ur_full_name r" "ur_lecturer q = ur_lecturer r" "ur_lecturer_name q = ur_lecturer_name r" "ur_kind q = ur_kind r" for q
    using that assms(1-5) by (simp add: apply_lecturer_def Let_def)
  then show ?thesis
    by (simp add: applyQAATFields_def kept names programme)
qed

section \<open>Examples\<close>

definition demo_upanel :: "string \<Rightarrow> doc list \<Rightarrow> upanel" where
  "demo_upanel ord docs path query =
     Answer 200 \<lparr>body_text = '''', body_docs = Some (page_of ord docs (if length query = 3 then snd (query ! 2) else '''')),
       body_export = None, body_error = ''''\<rparr>"

lemma demo_upanel_serves: "ord \<noteq> [] \<Longrightarrow> serves (demo_upanel ord docs) collection ord docs"
  by (simp add: serves_def demo_upanel_def page_query_def)

lemma serves_Inr: "serves get c ord docs \<Longrightarrow> \<exists>out. fetch_pages get c ord m cursor seen all = Inr out"
proof (induction m arbitrary: cursor seen all)
  case (Suc m)
  obtain body where b: "get (''/api/'' @ c @ ''/'') (page_query ord cursor) = Answer 200 body" "body_docs body = Some (page_of ord docs cursor)"
    using Suc.prems unfolding serves_def by metis
  show ?case
    unfolding fetch_pages.simps b using b Suc.IH [OF Suc.prems] by (auto simp: Let_def split: prod.splits simp del: field.simps)
qed simp

definition demo_doc :: "nat \<Rightarrow> doc" where
  "demo_doc n = [''id'' \<mapsto> JInt (int n), ''name'' \<mapsto> JString ''A'']"

lemma demo_doc_fields: "field (demo_doc n) [''id''] = format_int (int n)" "field (demo_doc n) [''name''] = ''A''"
  by (simp_all add: demo_doc_def trim_space_def trim_left_def trim_right_def is_space_def nil_text_def)

lemma demo_doc_inj: "demo_doc m = demo_doc n \<Longrightarrow> m = n"
  using demo_doc_fields(1) [of m] demo_doc_fields(1) [of n] by simp

theorem fetch_docs_newest_witness:
  "fetchDocs (demo_upanel ''name'' [demo_doc 1]) ''attendance/students'' ''name'' = Inr (take 5000 [demo_doc 1])"
proof -
  have "newest_first ''name'' [demo_doc 1]"
    by (simp add: newest_first_def demo_doc_fields format_int_def del: field.simps)
  then show ?thesis
    by (intro fetch_docs_newest [OF demo_upanel_serves]) simp_all
qed

theorem fetch_docs_ties_lost_witness:
  "\<exists>out. fetchDocs (demo_upanel ''name'' (map demo_doc [0..<501])) ''attendance/students'' ''name'' = Inr out \<and> demo_doc 500 \<notin> set out"
proof -
  let ?docs = "map demo_doc [0..<501]"
  have s: "serves (demo_upanel ''name'' ?docs) ''attendance/students'' ''name'' ?docs"
    by (simp add: demo_upanel_serves)
  obtain out where o: "fetchDocs (demo_upanel ''name'' ?docs) ''attendance/students'' ''name'' = Inr out"
    using serves_Inr [OF s] unfolding fetchDocs_def by blast
  have "distinct ?docs"
    by (auto simp: distinct_map inj_on_def dest: demo_doc_inj simp del: upt_rec_numeral)
  moreover have "\<forall>d \<in> set ?docs. field d [''name''] \<noteq> []" "500 < length ?docs" "?docs ! 499 = demo_doc 499" "?docs ! 500 = demo_doc 500"
    by (auto simp: demo_doc_fields nth_map simp del: field.simps upt_rec_numeral)
  ultimately show ?thesis
    using fetch_docs_ties_lost [OF s _ _ _ _ o] o by (simp add: demo_doc_fields del: field.simps upt_rec_numeral)
qed

theorem student_as_lecturer_witness:
  "\<exists>r. ur_kind r = KindStudent \<and> ur_lecturer (applyQAATFields (\<lambda>_. None) r) = ''A''"
proof -
  let ?r = "empty_record\<lparr>ur_kind := KindStudent, ur_person_name := ''A'', ur_full_name := ''A''\<rparr>"
  have "trim_space (ur_lecturer ?r) = []" "trim_space (ur_lecturer_name ?r) = []" "trim_space (ur_full_name ?r) = ur_full_name ?r"
    by (simp_all add: empty_record_def trim_space_def trim_left_def trim_right_def is_space_def)
  then show ?thesis
    using student_as_lecturer [of ?r "\<lambda>_. None"] by (intro exI [of _ ?r]) simp
qed

text \<open>
  A student checked in under the registration number and signed in under the roster id. The same sitting has both a
  presence and an absence of the one student.
\<close>

definition demo_roll :: doc where "demo_roll = [''id'' \<mapsto> JString ''L'', ''courseUnitName'' \<mapsto> JString ''U'']"
definition demo_sitting :: doc where "demo_sitting = [''id'' \<mapsto> JString ''S'', ''listId'' \<mapsto> JString ''L'', ''status'' \<mapsto> JString ''closed'']"
definition demo_sign_in :: doc where
  "demo_sign_in = [''listId'' \<mapsto> JString ''L'', ''studentId'' \<mapsto> JString ''7'', ''registrationNumber'' \<mapsto> JString ''8'']"
definition demo_check_in :: doc where "demo_check_in = [''sessionId'' \<mapsto> JString ''S'', ''registrationNumber'' \<mapsto> JString ''8'']"

lemma demo_trim: "trim_space [c] = (if is_space c then [] else [c])"
  by (simp add: trim_space_def trim_left_def trim_right_def)

lemma demo_fields:
  "field demo_sitting [''id''] = ''S''" "field demo_sitting [''listId'', ''list_id''] = ''L''" "field demo_sitting [''status''] = ''closed''"
  "raw_student demo_sign_in = ''7''" "field demo_sign_in [''listId'', ''list_id''] = ''L''"
  "raw_student demo_check_in = ''8''" "field demo_check_in [''sessionId'', ''session_id''] = ''S''"
  by (simp_all add: demo_sitting_def demo_sign_in_def demo_check_in_def raw_student_def trim_space_def trim_left_def trim_right_def
      is_space_def nil_text_def)

lemma demo_identities: "studentIdentities [] [demo_sign_in] = [''7'' \<mapsto> \<lparr>id_reg = ''8'', id_name = ''''\<rparr>, ''8'' \<mapsto> \<lparr>id_reg = ''8'', id_name = ''''\<rparr>]"
proof -
  have "to_upper ''8'' = ''8''" "to_upper ''7'' = ''7''"
    by code_simp+
  then show ?thesis
    by (auto simp: studentIdentities_def add_sign_in_def demo_sign_in_def put_three_def put_student_def keep_or_def trim_space_def trim_left_def
        trim_right_def is_space_def nil_text_def Let_def)
qed

text \<open>
  One sitting can count a student both present and absent. Check-ins and sign-ins are compared by the raw id
  they carry; a check-in under the registration number does not answer for the sign-in under the roster id,
  although both resolve to the same student.
\<close>

theorem present_and_absent:
  "\<exists>rolls sessions records signIns p a. let ids = studentIdentities [] signIns in
     p \<in> set (joinStudents rolls sessions records ids) \<and> a \<in> set (absentSessions 0 rolls sessions records signIns ids) \<and>
     ur_present p \<and> \<not> ur_present a \<and> ur_session_id p = ur_session_id a \<and> ur_student_id p = ''8'' \<and> ur_student_id a = ''8''"
proof -
  let ?ids = "studentIdentities [] [demo_sign_in]"
  have rs: "resolveStudent ''7'' ?ids = (''8'', '''')" "resolveStudent ''8'' ?ids = (''8'', '''')"
    by (simp_all add: resolveStudent_def demo_identities demo_trim is_space_def)
  have index: "indexByID [demo_sitting] ''S'' = demo_sitting"
    using demo_fields(1) by (simp add: indexByID_def del: field.simps)
  have nd: "\<not> discarded demo_sitting"
    by (simp add: discarded_def boolField_def demo_sitting_def)
  have "\<exists>p. joinStudents [demo_roll] [demo_sitting] [demo_check_in] ?ids = [p] \<and> ur_present p \<and> ur_session_id p = ''S'' \<and> ur_student_id p = ''8''"
    using demo_fields rs index nd
    by (simp add: joinStudents_def List.map_filter_simps student_record_def Let_def from_list_def demo_trim is_space_def demo_check_in_def del: field.simps)
  then obtain p where p: "joinStudents [demo_roll] [demo_sitting] [demo_check_in] ?ids = [p]" "ur_present p" "ur_session_id p = ''S''" "ur_student_id p = ''8''"
    by blast
  have due: "roll_due 0 demo_sitting"
  proof -
    have "to_lower ''closed'' = ''closed''"
      by code_simp
    then show ?thesis
      using demo_fields nd by (simp add: roll_due_def sessionCompleted_def del: field.simps)
  qed
  have enr: "\<exists>e. enrolled ?ids [demo_sign_in] ''L'' = [e] \<and> en_id e = ''7'' \<and> en_reg e = ''8'' \<and> en_signed_at e = []"
    using demo_fields rs
    by (simp add: enrolled_def List.map_filter_simps enrolment_of_def Let_def del: field.simps) (simp add: demo_sign_in_def)
  then obtain e where e: "enrolled ?ids [demo_sign_in] ''L'' = [e]" "en_id e = ''7''" "en_reg e = ''8''" "en_signed_at e = []"
    by blast
  have late: "\<not> joined_late demo_sitting e"
    using e(4) by (simp add: joined_late_def parseTime_def trim_space_def trim_left_def trim_right_def)
  have marked: "marked [demo_check_in] = [''S|8'']"
    using demo_fields by (simp add: marked_def List.map_filter_simps roll_key_def Let_def del: field.simps)
  have "absentSessions 0 [demo_roll] [demo_sitting] [demo_check_in] [demo_sign_in] ?ids = [absent_record (indexByID [demo_roll] ''L'') demo_sitting e]"
    using demo_fields due e late marked by (simp add: absentSessions_def roll_key_def Let_def del: field.simps)
  moreover have "\<not> ur_present (absent_record q demo_sitting e) \<and> ur_session_id (absent_record q demo_sitting e) = ''S'' \<and>
      ur_student_id (absent_record q demo_sitting e) = ''8''" for q
    using demo_fields(1) e by (simp add: absent_record_def from_list_def demo_trim is_space_def Let_def del: field.simps)
  ultimately show ?thesis
    using p by (intro exI [of _ "[demo_roll]"] exI [of _ "[demo_sitting]"] exI [of _ "[demo_check_in]"] exI [of _ "[demo_sign_in]"] exI [of _ p]
        exI [of _ "absent_record (indexByID [demo_roll] ''L'') demo_sitting e"]) (simp add: Let_def)
qed

end
