(* ===== verification/UPanel_Store.thy ===== *)
theory UPanel_Store
  imports UPanel Student_Device "HOL-Library.Product_Lexorder"
begin

text \<open>
  The gateway's copy of the U-Panel records (\<open>upanel/store.go\<close>), the counts taken from it (\<open>StudentRollups\<close> of \<open>upanel/summary.go\<close>) and
  the handler that refreshes it (\<open>handlers/upanel_attendance.go\<close>), which also files the staff punches. A batch of statements is one
  transaction, as PostgreSQL runs it. Reading a punch time in one of many layouts is a parameter, as are the text of a time stamp and the
  collation that picks the largest name.
\<close>

section \<open>The table\<close>

record up_row =
  ua_record :: string
  ua_kind :: string
  ua_external :: string
  ua_person :: string
  ua_name :: string
  ua_staff :: string
  ua_present :: bool
  ua_event :: string
  ua_occurred :: "instant option"
  ua_closed :: "instant option"
  ua_list :: string
  ua_session :: string
  ua_course :: string
  ua_unit :: string
  ua_lecturer :: string
  ua_room :: string
  ua_year :: string
  ua_semester :: string
  ua_program :: string
  ua_imported :: instant

record employee_row =
  er_tenant :: string
  er_staff :: string
  er_name :: string
  er_title :: "string option"

record punch_row =
  pr_staff :: string
  pr_time :: instant
  pr_event :: string
  pr_source :: string

record up_state =
  up_rows :: "up_row table"
  up_employees :: "employee_row table"
  up_punches :: "punch_row table"
  up_app :: app_state

datatype up_call = UpBatch nat | UpList | UpAcquire | UpScope | UpEmployee nat | UpPunch nat

record up_env =
  ue_app :: app_env
  ue_failing :: "up_call \<Rightarrow> bool"
  ue_now :: instant
  ue_record_id :: "nat \<Rightarrow> string"
  ue_punch_time :: "string \<Rightarrow> instant option"
  ue_zones :: "string \<Rightarrow> location option"

text \<open>The values of a statement; a row without an id or a kind is not queued.\<close>

definition batch_row :: "instant \<Rightarrow> Record \<Rightarrow> up_row option" where
  "batch_row now r =
     (let i = trim_space (ur_id r); kind = trim_space (ur_kind r) in
      if i = [] \<or> kind = [] then None
      else Some \<lparr>ua_record = '''', ua_kind = kind, ua_external = i, ua_person = firstNonEmpty [ur_student_id r, ur_staff_id r, ur_person_id r],
        ua_name = firstNonEmpty [ur_full_name r, ur_person_name r], ua_staff = ur_staff_id r, ua_present = ur_present r, ua_event = ur_event_type r,
        ua_occurred = parseTime (ur_timestamp r), ua_closed = parseTime (ur_closed_at r), ua_list = ur_list_id r, ua_session = ur_session_id r,
        ua_course = ur_course r, ua_unit = firstNonEmpty [ur_unit r, ur_unit_name r], ua_lecturer = firstNonEmpty [ur_lecturer_name r, ur_lecturer r],
        ua_room = ur_room r, ua_year = ur_year r, ua_semester = firstNonEmpty [ur_semester r, ur_sem r],
        ua_program = firstNonEmpty [ur_session r, ur_program r], ua_imported = now\<rparr>)"

definition batch_rows :: "up_env \<Rightarrow> Record list \<Rightarrow> up_row list" where
  "batch_rows env rows =
     (let queued = List.map_filter (batch_row (ue_now env)) rows in
      map (\<lambda>(n, r). r\<lparr>ua_record := ue_record_id env n\<rparr>) (zip [0..<length queued] queued))"

definition row_key :: "up_row \<Rightarrow> string \<times> string" where
  "row_key r = (ua_kind r, ua_external r)"

text \<open>Every column is overwritten but the key and \<open>record_id\<close>.\<close>

definition refresh :: "up_row \<Rightarrow> up_row \<Rightarrow> up_row" where
  "refresh new old = new\<lparr>ua_record := ua_record old, ua_kind := ua_kind old, ua_external := ua_external old\<rparr>"

text \<open>A statement fails by itself or because the kind is none of the three the table allows.\<close>

definition statement_fails :: "up_env \<Rightarrow> nat \<Rightarrow> up_row \<Rightarrow> bool" where
  "statement_fails env n r = (ue_failing env (UpBatch n) \<or> ua_kind r \<notin> {KindStudent, KindLecturer, KindAdmin})"

definition Upsert :: "up_env \<Rightarrow> Record list \<Rightarrow> up_row table \<Rightarrow> (nat + nat) \<times> up_row table" where
  "Upsert env rows t =
     (let batch = batch_rows env rows in
      case find (\<lambda>n. statement_fails env n (batch ! n)) [0..<length batch] of
        Some n \<Rightarrow> (Inl n, t)
      | None \<Rightarrow> (Inr (length batch), fold (upsert row_key refresh) batch t))"

section \<open>Reading it back\<close>

definition format_utc :: "instant \<Rightarrow> string" where
  "format_utc t = format_date (civil_date utc t) @ ''T'' @ format_hhmm (hour_of utc t) (minute_of utc t) @ '':'' @
     pad_decimal 2 (nat (since_midnight utc t mod minute div second)) @ ''Z''"

definition stored_record :: "(string \<Rightarrow> location option) \<Rightarrow> up_row \<Rightarrow> Record" where
  "stored_record zones u =
     applyQAATFields zones (empty_record\<lparr>ur_id := ua_external u, ur_kind := ua_kind u, ur_person_id := ua_person u, ur_person_name := ua_name u,
       ur_staff_id := ua_staff u, ur_present := ua_present u, ur_event_type := ua_event u, ur_list_id := ua_list u, ur_session_id := ua_session u,
       ur_course := ua_course u, ur_unit := ua_unit u, ur_lecturer := ua_lecturer u, ur_room := ua_room u, ur_year := ua_year u,
       ur_sem := ua_semester u, ur_program := ua_program u,
       ur_student_id := (if ua_kind u = KindStudent then ua_person u else ''''),
       ur_timestamp := (case ua_occurred u of None \<Rightarrow> '''' | Some t \<Rightarrow> format_utc t),
       ur_closed_at := (case ua_closed u of None \<Rightarrow> '''' | Some t \<Rightarrow> format_utc t)\<rparr>)"

text \<open>Newest first, rows without a time last, then by import.\<close>

definition newest_key :: "up_row \<Rightarrow> nat \<times> int \<times> int" where
  "newest_key u = (case ua_occurred u of None \<Rightarrow> (1, 0, - ua_imported u) | Some t \<Rightarrow> (0, - t, - ua_imported u))"

definition List_upanel :: "up_env \<Rightarrow> string \<Rightarrow> up_row table \<Rightarrow> Record list option" where
  "List_upanel env kind t =
     (if ue_failing env UpList then None
      else let k = trim_space kind in
        Some (map (stored_record (ue_zones env)) (sort_key newest_key (filter (\<lambda>u. k = [] \<or> ua_kind u = k) t))))"

section \<open>Counting sittings\<close>

record StudentFilter =
  sf_course :: string
  sf_unit :: string
  sf_session :: string
  sf_year :: string
  sf_semester :: string

record StudentRollup =
  sr_student :: string
  sr_name :: string
  sr_course :: string
  sr_unit :: string
  sr_session :: string
  sr_year :: string
  sr_semester :: string
  sr_held :: nat
  sr_attended :: nat

type_synonym rollup_key = "string \<times> string \<times> string \<times> string \<times> string \<times> string"

definition rollup_key :: "up_row \<Rightarrow> rollup_key" where
  "rollup_key u = (ua_person u, ua_course u, ua_unit u, ua_program u, ua_year u, ua_semester u)"

text \<open>A blank filter is no filter.\<close>

definition matches :: "string \<Rightarrow> string \<Rightarrow> bool" where
  "matches v col = (trim_space v = [] \<or> btrim col = trim_space v)"

definition in_rollup :: "StudentFilter \<Rightarrow> up_row \<Rightarrow> bool" where
  "in_rollup f u =
     (ua_kind u = KindStudent \<and> btrim (ua_person u) \<noteq> [] \<and> matches (sf_course f) (ua_course u) \<and>
      (trim_space (sf_unit f) = [] \<or> btrim (ua_unit u) = trim_space (sf_unit f) \<or> btrim (ua_course u) = trim_space (sf_unit f)) \<and>
      matches (sf_session f) (ua_program u) \<and> matches (sf_year f) (ua_year u) \<and> matches (sf_semester f) (ua_semester u))"

definition sitting_of :: "(instant \<Rightarrow> string) \<Rightarrow> up_row \<Rightarrow> string" where
  "sitting_of text u =
     (if btrim (ua_session u) \<noteq> [] then btrim (ua_session u)
      else case ua_occurred u of Some t \<Rightarrow> text t | None \<Rightarrow> ua_record u)"

definition dash :: string where "dash = [CHR 0xE2, CHR 0x80, CHR 0x94]"

definition else_text :: "string \<Rightarrow> string \<Rightarrow> string" where
  "else_text v w = (if v = [] then w else v)"

definition rollup_of :: "(instant \<Rightarrow> string) \<Rightarrow> (string list \<Rightarrow> string) \<Rightarrow> up_row list \<Rightarrow> rollup_key \<Rightarrow> StudentRollup" where
  "rollup_of text maxname rows k =
     (let (person, course, unit, program, year, semester) = k; grp = filter (\<lambda>u. rollup_key u = k) rows in
      \<lparr>sr_student = person, sr_name = else_text (maxname (map ua_name grp)) person, sr_course = else_text course dash,
       sr_unit = else_text unit (else_text course dash), sr_session = program, sr_year = year, sr_semester = semester,
       sr_held = length (remdups (map (sitting_of text) grp)),
       sr_attended = length (remdups (map (sitting_of text) (filter ua_present grp)))\<rparr>)"

text \<open>One rollup for each group, in the order of their first rows; the source sorts them by name.\<close>

definition StudentRollups :: "(instant \<Rightarrow> string) \<Rightarrow> (string list \<Rightarrow> string) \<Rightarrow> StudentFilter \<Rightarrow> up_row table \<Rightarrow> StudentRollup list" where
  "StudentRollups text maxname f t =
     (let rows = filter (in_rollup f) t in map (rollup_of text maxname rows) (remdups (map rollup_key rows)))"

section \<open>Staff punches\<close>

definition normalizeEventType :: "string \<Rightarrow> string" where
  "normalizeEventType s =
     (let e = to_lower (trim_space s) in
      if e \<in> {''in'', ''i'', ''check-in'', ''checkin'', ''check in'', ''clock-in'', ''clockin'', ''clock in'', ''entry''} then ''IN''
      else if e \<in> {''out'', ''o'', ''check-out'', ''checkout'', ''check out'', ''clock-out'', ''clockout'', ''clock out'', ''exit''} then ''OUT''
      else ''PUNCH'')"

definition keep_employee :: "employee_row \<Rightarrow> employee_row \<Rightarrow> employee_row" where
  "keep_employee new old =
     old\<lparr>er_name := (if er_name new \<noteq> [] \<and> er_name old = er_staff old then er_name new else er_name old),
         er_title := (case er_title old of Some t \<Rightarrow> Some t | None \<Rightarrow> er_title new)\<rparr>"

definition punch_key :: "punch_row \<Rightarrow> string \<times> instant \<times> string" where
  "punch_key p = (pr_staff p, pr_time p, pr_event p)"

definition ingest_one :: "up_env \<Rightarrow> string \<Rightarrow> nat \<times> Record \<Rightarrow> up_state \<Rightarrow> up_state" where
  "ingest_one env tenantID nr s =
     (let (n, rec) = nr; staffID = trim_space (ur_staff_id rec);
          staffID = (if staffID = [] then trim_space (ur_person_id rec) else staffID) in
      case (if ur_kind rec \<noteq> KindAdmin \<or> staffID = [] then None else ue_punch_time env (ur_timestamp rec)) of
        None \<Rightarrow> s
      | Some when \<Rightarrow>
          let name = else_text (trim_space (ur_full_name rec)) (else_text (trim_space (ur_person_name rec)) staffID);
              title = else_text (trim_space (ur_unit rec)) (trim_space (ur_course rec));
              s = (if ue_failing env (UpEmployee n) then s
                   else s\<lparr>up_employees := upsert (\<lambda>e. (er_tenant e, er_staff e)) keep_employee
                            \<lparr>er_tenant = tenantID, er_staff = staffID, er_name = name, er_title = nullif title\<rparr> (up_employees s)\<rparr>);
              p = \<lparr>pr_staff = staffID, pr_time = when, pr_event = normalizeEventType (ur_event_type rec), pr_source = ''UPANEL''\<rparr>
          in if ue_failing env (UpPunch n) then s
             else s\<lparr>up_punches := upsert punch_key (\<lambda>new old. old) p (up_punches s)\<rparr>)"

definition ingestAdminPunches :: "up_env \<Rightarrow> string \<Rightarrow> Record list \<Rightarrow> up_state \<Rightarrow> up_state" where
  "ingestAdminPunches env tenantID rows s =
     (if tenantID = [] \<or> ue_failing env UpAcquire \<or> \<not> ValidTenantID tenantID \<or> ue_failing env UpScope then s
      else fold (ingest_one env tenantID) (zip [0..<length rows] rows) s)"

section \<open>The handler\<close>

definition stored_payload :: "Record list \<Rightarrow> Payload" where
  "stored_payload rows =
     \<lparr>pl_configured = rows \<noteq> [], pl_list_count = 0, pl_session_count = 0, pl_record_count = length rows,
      pl_student_count = countKind rows KindStudent, pl_lecturer_count = countKind rows KindLecturer,
      pl_admin_count = countKind rows KindAdmin, pl_stored = 0, pl_records = rows, pl_via = (if rows = [] then '''' else ''stored''),
      pl_from_cache = (rows \<noteq> []), pl_message = ''''\<rparr>"

definition loadStoredUPanel :: "up_env \<Rightarrow> string \<Rightarrow> up_state \<Rightarrow> Payload" where
  "loadStoredUPanel env kind s =
     (case List_upanel env kind (up_rows s) of None \<Rightarrow> stored_payload [] | Some rows \<Rightarrow> stored_payload rows)"

definition sync_payload :: "nat \<Rightarrow> Payload \<Rightarrow> (string \<times> string) list" where
  "sync_payload n p = [(''admins'', itoa (pl_admin_count p)), (''lecturers'', itoa (pl_lecturer_count p)), (''stored'', itoa n),
     (''students'', itoa (pl_student_count p)), (''via'', pl_via p)]"

definition store_payload :: "up_env \<Rightarrow> request_context \<Rightarrow> origin \<Rightarrow> Payload \<Rightarrow> up_state \<Rightarrow> Payload \<times> up_state" where
  "store_payload env cx og p s =
     (case Upsert env (pl_records p) (up_rows s) of
        (Inl _, _) \<Rightarrow> (p, s)
      | (Inr n, t) \<Rightarrow>
          let s = s\<lparr>up_rows := t\<rparr> in
          (p\<lparr>pl_stored := n\<rparr>,
           if 0 < n then s\<lparr>up_app := auditAdmin (ue_app env) cx og (cx_tenant cx) (cx_user cx) ''UPANEL_SYNC'' ''upanel_attendance'' ''''
                              (sync_payload n p) (up_app s)\<rparr>
           else s))"

definition UPanelAttendance ::
  "up_env \<Rightarrow> upanel \<Rightarrow> string \<Rightarrow> request_context \<Rightarrow> origin \<Rightarrow> string \<Rightarrow> up_state \<Rightarrow> Payload reply \<times> up_state" where
  "UPanelAttendance env get token cx og kind s =
     (let kind = to_lower (trim_space kind) in
      if kind \<notin> {'''', KindStudent, KindLecturer, KindAdmin} then (Reject 400 ''INVALID_KIND'', s)
      else case Fetch get token (ue_now env) (ue_zones env) of
        Inl err \<Rightarrow>
          (let stored = loadStoredUPanel env kind s in
           if pl_records stored \<noteq> [] then
             (Reply 200 (stored\<lparr>pl_message := ''U-Panel unreachable; showing last stored records. '' @ err\<rparr>), s)
           else (Reject 502 ''UPANEL_UNREACHABLE'', s))
      | Inr p \<Rightarrow>
          if \<not> pl_configured p then
            (let stored = loadStoredUPanel env kind s in
             if pl_records stored \<noteq> [] then (Reply 200 (stored\<lparr>pl_message := pl_message p\<rparr>), s)
             else (Reject 503 ''UPANEL_NOT_CONFIGURED'', s))
          else
            let fetched = pl_records p; (p, s) = store_payload env cx og p s;
                s = ingestAdminPunches env (cx_tenant cx) fetched s in
            (Reply 200 (case List_upanel env kind (up_rows s) of
               Some rows \<Rightarrow> p\<lparr>pl_records := rows, pl_record_count := length rows, pl_student_count := countKind rows KindStudent,
                               pl_lecturer_count := countKind rows KindLecturer, pl_admin_count := countKind rows KindAdmin\<rparr>
             | None \<Rightarrow>
                 if kind \<noteq> [] then
                   let rows = filter (\<lambda>r. ur_kind r = kind) (pl_records p) in p\<lparr>pl_records := rows, pl_record_count := length rows\<rparr>
                 else p), s))"

section \<open>Fetching twice\<close>

text \<open>
  An upsert that replaces the row: what it writes does not depend on what an earlier one wrote. A list of them done twice is the list
  done once.
\<close>

locale replacing_upsert = keyed_upsert key merge
  for key :: "'r \<Rightarrow> 'k" and merge :: "'r \<Rightarrow> 'r \<Rightarrow> 'r" +
  assumes merge_replaces: "merge new (merge new' old) = merge new old"
    and merge_self: "merge new new = new"
begin

definition written :: "'r list \<Rightarrow> 'r list \<Rightarrow> bool" where
  "written rows t = ((\<forall>r \<in> set rows. key r \<in> key ` set t) \<and>
     (\<forall>r \<in> set t. \<forall>new. find (\<lambda>x. key x = key r) (rev rows) = Some new \<longrightarrow> merge new r = r))"

lemma written_snoc:
  assumes "written rows t"
  shows "written (rows @ [x]) (upsert key merge x t)"
proof -
  have "map key (update_where p (merge x) t) = map key t" for p
    by (simp add: update_where_def key_merge)
  then have "key ` set (update_where p (merge x) t) = key ` set t" for p
    by (metis list.set_map)
  then have "key ` set (upsert key merge x t) = insert (key x) (key ` set t)"
    by (auto simp: upsert_def list_ex_iff) (metis imageI)
  then have keys: "key ` set t \<subseteq> key ` set (upsert key merge x t)" "key x \<in> key ` set (upsert key merge x t)"
    by auto
  have "merge new r = r"
    if r: "r \<in> set (upsert key merge x t)" "find (\<lambda>y. key y = key r) (rev (rows @ [x])) = Some new" for r new
  proof (cases "key r = key x")
    case True
    then have "new = x"
      using r(2) by simp
    then show ?thesis
      using r(1) True by (auto simp: upsert_def in_update_where list_ex_iff merge_replaces merge_self split: if_splits)
  next
    case False
    then have "r \<in> set t"
      using r(1) by (auto simp: upsert_def in_update_where key_merge split: if_splits)
    then show ?thesis
      using assms r(2) False by (auto simp: written_def)
  qed
  then show ?thesis
    using assms keys by (auto simp: written_def)
qed

lemma written_fold: "written rows (fold (upsert key merge) rows t)"
proof (induction rows rule: rev_induct)
  case Nil
  then show ?case
    by (simp add: written_def)
next
  case (snoc x rows)
  then show ?case
    using written_snoc by simp
qed

lemma fold_present:
  assumes "\<forall>r \<in> set rows. key r \<in> key ` set t"
  shows "fold (upsert key merge) rows t =
    map (\<lambda>r. case find (\<lambda>x. key x = key r) (rev rows) of None \<Rightarrow> r | Some new \<Rightarrow> merge new r) t"
  using assms
proof (induction rows rule: rev_induct)
  case (snoc x rows)
  let ?F = "\<lambda>r. case find (\<lambda>x. key x = key r) (rev rows) of None \<Rightarrow> r | Some new \<Rightarrow> merge new r"
  have kF: "key (?F r) = key r" for r
    by (simp add: key_merge split: option.splits)
  have ih: "fold (upsert key merge) rows t = map ?F t"
    using snoc by simp
  have ex: "list_ex (\<lambda>r. key r = key x) (map ?F t)"
    using snoc.prems kF by (auto simp: list_ex_iff image_iff)
  have "fold (upsert key merge) (rows @ [x]) t = map (\<lambda>r. if key (?F r) = key x then merge x (?F r) else ?F r) t"
    using ex by (simp add: ih upsert_def update_where_def)
  also have "\<dots> = map (\<lambda>r. case find (\<lambda>y. key y = key r) (rev (rows @ [x])) of None \<Rightarrow> r | Some new \<Rightarrow> merge new r) t"
  proof (rule map_cong [OF refl])
    fix r
    show "(if key (?F r) = key x then merge x (?F r) else ?F r) =
        (case find (\<lambda>y. key y = key r) (rev (rows @ [x])) of None \<Rightarrow> r | Some new \<Rightarrow> merge new r)"
      by (cases "key r = key x"; cases "find (\<lambda>y. key y = key r) (rev rows)") (simp_all add: key_merge merge_replaces)
  qed
  finally show ?case .
qed simp

lemma fold_twice: "fold (upsert key merge) rows (fold (upsert key merge) rows t) = fold (upsert key merge) rows t"
proof -
  have s: "written rows (fold (upsert key merge) rows t)"
    by (rule written_fold)
  then have "fold (upsert key merge) rows (fold (upsert key merge) rows t) =
      map (\<lambda>r. case find (\<lambda>x. key x = key r) (rev rows) of None \<Rightarrow> r | Some new \<Rightarrow> merge new r) (fold (upsert key merge) rows t)"
    by (intro fold_present) (simp add: written_def)
  also have "\<dots> = fold (upsert key merge) rows t"
    using s by (intro map_idI) (auto simp: written_def split: option.splits)
  finally show ?thesis .
qed

end

interpretation up_upsert: replacing_upsert row_key refresh
  by unfold_locales (simp_all add: row_key_def refresh_def)

text \<open>The columns other than the time of the import.\<close>

definition content :: "up_row \<Rightarrow> up_row" where
  "content u = u\<lparr>ua_imported := 0\<rparr>"

lemma content_simps [simp]:
  "row_key (content u) = row_key u" "refresh (content new) (content old) = content (refresh new old)"
  "in_rollup f (content u) = in_rollup f u" "rollup_key (content u) = rollup_key u" "sitting_of text (content u) = sitting_of text u"
  "ua_present (content u) = ua_present u" "ua_name (content u) = ua_name u"
  by (simp_all add: content_def row_key_def refresh_def in_rollup_def rollup_key_def sitting_of_def split: option.splits)

lemma content_upsert: "map content (upsert row_key refresh x t) = upsert row_key refresh (content x) (map content t)"
  by (simp add: upsert_def update_where_def list_ex_iff comp_def if_distrib cong: if_cong)

lemma content_fold: "map content (fold (upsert row_key refresh) rows t) = fold (upsert row_key refresh) (map content rows) (map content t)"
  by (induction rows arbitrary: t) (simp_all add: content_upsert)

lemma content_batch_row: "map_option content (batch_row now r) = map_option content (batch_row now' r)"
  by (simp add: batch_row_def Let_def content_def)

lemma map_filter_content: "map content (List.map_filter (batch_row now) rows) = map content (List.map_filter (batch_row now') rows)"
proof (induction rows)
  case (Cons r rows)
  then show ?case
    using content_batch_row [of now r now']
    by (cases "batch_row now r"; cases "batch_row now' r") (simp_all add: List.map_filter_simps)
qed (simp add: List.map_filter_simps)

lemma content_batch_rows:
  assumes "ue_record_id env = ue_record_id env'"
  shows "map content (batch_rows env rows) = map content (batch_rows env' rows)"
proof -
  let ?q = "List.map_filter (batch_row (ue_now env)) rows" and ?q' = "List.map_filter (batch_row (ue_now env')) rows"
  have c: "map content ?q = map content ?q'"
    by (rule map_filter_content)
  then have "length ?q = length ?q'"
    by (metis length_map)
  moreover have "content (?q ! n) = content (?q' ! n)" if "n < length ?q" for n
    using c that by (metis length_map nth_map)
  moreover have "content (u\<lparr>ua_record := i\<rparr>) = (content u)\<lparr>ua_record := i\<rparr>" for u i
    by (simp add: content_def)
  ultimately show ?thesis
    using assms by (intro nth_equalityI) (simp_all add: batch_rows_def Let_def)
qed

text \<open>The counts look at the content alone.\<close>

lemma rollup_content: "rollup_of text mx (map content rows) k = rollup_of text mx rows k"
  by (cases k) (simp add: rollup_of_def filter_map comp_def Let_def)

lemma rollups_content: "StudentRollups text mx f (map content t) = StudentRollups text mx f t"
  by (simp add: StudentRollups_def filter_map comp_def rollup_content Let_def)


section \<open>Counts\<close>

lemma remdups_card: "length (remdups xs) = card (set xs)"
  by (simp add: length_remdups_card_conv)

text \<open>
  A rollup counts a sitting once however many rows name it: at least one sitting was held and no more were attended than held.
  A sitting counts as attended exactly when some row of the group marks it present, so an absence on record does not outweigh a
  check-in that arrived later.
\<close>

theorem rollup_counts:
  assumes "r \<in> set (StudentRollups text mx f t)"
  shows "\<exists>k. r = rollup_of text mx (filter (in_rollup f) t) k \<and> 0 < sr_held r \<and> sr_attended r \<le> sr_held r \<and>
    sr_attended r = card {sitting_of text u | u. u \<in> set t \<and> in_rollup f u \<and> rollup_key u = k \<and> ua_present u} \<and>
    sr_held r = card {sitting_of text u | u. u \<in> set t \<and> in_rollup f u \<and> rollup_key u = k}"
proof -
  let ?rows = "filter (in_rollup f) t"
  have "r \<in> rollup_of text mx ?rows ` rollup_key ` set ?rows"
    using assms by (simp add: StudentRollups_def Let_def)
  then obtain k where k: "k \<in> rollup_key ` set ?rows" "r = rollup_of text mx ?rows k"
    by blast
  let ?held = "{sitting_of text u | u. u \<in> set t \<and> in_rollup f u \<and> rollup_key u = k}"
  let ?att = "{sitting_of text u | u. u \<in> set t \<and> in_rollup f u \<and> rollup_key u = k \<and> ua_present u}"
  have "sr_held r = card (sitting_of text ` set (filter (\<lambda>u. rollup_key u = k) ?rows))"
    "sr_attended r = card (sitting_of text ` set (filter ua_present (filter (\<lambda>u. rollup_key u = k) ?rows)))"
    by (cases k; simp add: k(2) rollup_of_def remdups_card)+
  moreover have "sitting_of text ` set (filter (\<lambda>u. rollup_key u = k) ?rows) = ?held"
    "sitting_of text ` set (filter ua_present (filter (\<lambda>u. rollup_key u = k) ?rows)) = ?att"
    by auto
  ultimately have c: "sr_held r = card ?held" "sr_attended r = card ?att"
    by simp_all
  have fin: "finite ?held"
    by simp
  moreover have "?att \<subseteq> ?held" "?held \<noteq> {}"
    using k(1) by auto
  ultimately have "sr_attended r \<le> sr_held r" "0 < sr_held r"
    using c by (auto simp: card_gt_0_iff intro!: card_mono)
  then show ?thesis
    using c k(2) by blast
qed

section \<open>When U-Panel is away\<close>

text \<open>
  While U-Panel cannot be reached the handler changes nothing and answers with the copy: every stored row of the kind asked for,
  marked as taken from the copy. Only when there is no such row does it answer 502.
\<close>

theorem upanel_outage:
  assumes "Fetch get token (ue_now env) (ue_zones env) = Inl err" and "\<not> ue_failing env UpList"
    and "k = to_lower (trim_space kind)" "k \<in> {'''', KindStudent, KindLecturer, KindAdmin}" "trim_space k = k"
    and "UPanelAttendance env get token cx og kind s = (r, s')"
  shows "s' = s \<and> (if \<exists>u \<in> set (up_rows s). k = [] \<or> ua_kind u = k
     then \<exists>p. r = Reply 200 p \<and> pl_from_cache p \<and> length (pl_records p) = length (filter (\<lambda>u. k = [] \<or> ua_kind u = k) (up_rows s))
     else r = Reject 502 ''UPANEL_UNREACHABLE'')"
proof -
  define rows where "rows = map (stored_record (ue_zones env)) (sort_key newest_key (filter (\<lambda>u. k = [] \<or> ua_kind u = k) (up_rows s)))"
  have l: "loadStoredUPanel env k s = stored_payload rows"
    using assms(2,5) by (simp add: loadStoredUPanel_def List_upanel_def rows_def Let_def)
  have "UPanelAttendance env get token cx og kind s = (if rows \<noteq> [] then
       (Reply 200 ((stored_payload rows)\<lparr>pl_message := ''U-Panel unreachable; showing last stored records. '' @ err\<rparr>), s)
     else (Reject 502 ''UPANEL_UNREACHABLE'', s))"
    using assms(1,4) l unfolding UPanelAttendance_def Let_def assms(3) [symmetric]
    by (simp add: stored_payload_def del: insert_iff)
  then have "(r, s') = (if rows \<noteq> [] then
       (Reply 200 ((stored_payload rows)\<lparr>pl_message := ''U-Panel unreachable; showing last stored records. '' @ err\<rparr>), s)
     else (Reject 502 ''UPANEL_UNREACHABLE'', s))"
    by (simp only: assms(6))
  moreover have n: "length rows = length (filter (\<lambda>u. k = [] \<or> ua_kind u = k) (up_rows s))"
    by (simp add: rows_def)
  moreover have "rows = [] \<longleftrightarrow> filter (\<lambda>u. k = [] \<or> ua_kind u = k) (up_rows s) = []"
    using n by (metis length_0_conv)
  then have "rows \<noteq> [] \<longleftrightarrow> (\<exists>u \<in> set (up_rows s). k = [] \<or> ua_kind u = k)"
    by (auto simp: filter_empty_conv)
  ultimately show ?thesis
    by (auto simp: stored_payload_def split: if_splits)
qed

section \<open>Examples\<close>

definition demo_up_env :: up_env where
  "demo_up_env = \<lparr>ue_app = demo_app_env, ue_failing = (\<lambda>_. False), ue_now = 0, ue_record_id = (\<lambda>n. itoa n), ue_punch_time = (\<lambda>_. None),
     ue_zones = (\<lambda>_. None)\<rparr>"

definition demo_up_record :: Record where
  "demo_up_record = empty_record\<lparr>ur_id := ''x'', ur_kind := KindStudent, ur_student_id := ''R'', ur_session_id := ''S'', ur_present := True\<rparr>"

definition demo_up_row :: up_row where
  "demo_up_row = \<lparr>ua_record = itoa 0, ua_kind = KindStudent, ua_external = ''x'', ua_person = ''R'', ua_name = '''', ua_staff = '''', ua_present = True,
     ua_event = '''', ua_occurred = None, ua_closed = None, ua_list = '''', ua_session = ''S'', ua_course = '''', ua_unit = '''', ua_lecturer = '''',
     ua_room = '''', ua_year = '''', ua_semester = '''', ua_program = '''', ua_imported = 0\<rparr>"

lemma demo_batch: "batch_rows demo_up_env [demo_up_record] = [demo_up_row]"
  by (simp add: batch_rows_def List.map_filter_simps batch_row_def demo_up_env_def demo_up_record_def demo_up_row_def empty_record_def
      parseTime_def trim_space_def trim_left_def trim_right_def is_space_def KindStudent_def Let_def)

lemma demo_up_works [simp]: "ue_failing demo_up_env c = False"
  by (simp add: demo_up_env_def)

lemma demo_upsert:
  "Upsert demo_up_env [demo_up_record] [] = (Inr 1, [demo_up_row])"
  "Upsert demo_up_env [demo_up_record] [demo_up_row] = (Inr 1, [demo_up_row])"
  by (simp_all add: Upsert_def demo_batch statement_fails_def demo_up_row_def upsert_def refresh_def row_key_def)


definition no_filter :: StudentFilter where
  "no_filter = \<lparr>sf_course = '''', sf_unit = '''', sf_session = '''', sf_year = '''', sf_semester = ''''\<rparr>"

theorem rollup_counts_witness:
  "\<exists>r. StudentRollups (\<lambda>_. '''') (\<lambda>_. '''') no_filter [demo_up_row] = [r] \<and> 0 < sr_held r \<and> sr_attended r \<le> sr_held r"
proof -
  have "in_rollup no_filter demo_up_row"
    by (simp add: in_rollup_def no_filter_def matches_def demo_up_row_def btrim_def trim_space_def trim_left_def trim_right_def)
  then obtain r where r: "StudentRollups (\<lambda>_. '''') (\<lambda>_. '''') no_filter [demo_up_row] = [r]"
    by (simp add: StudentRollups_def)
  then show ?thesis
    using rollup_counts [of r "\<lambda>_. ''''" "\<lambda>_. ''''" no_filter "[demo_up_row]"] by auto
qed

definition demo_up_state :: up_state where
  "demo_up_state = \<lparr>up_rows = [demo_up_row], up_employees = [], up_punches = [], up_app = demo_app\<rparr>"

theorem upanel_outage_witness:
  "\<exists>p. fst (UPanelAttendance demo_up_env (\<lambda>_ _. Unreachable ''timeout'') ''t'' no_context \<lparr>x_forwarded_for = '''', remote_addr = ''''\<rparr> '''' demo_up_state) =
     Reply 200 p \<and> length (pl_records p) = 1"
proof -
  let ?r = "UPanelAttendance demo_up_env (\<lambda>_ _. Unreachable ''timeout'') ''t'' no_context \<lparr>x_forwarded_for = '''', remote_addr = ''''\<rparr> '''' demo_up_state"
  have f: "Fetch (\<lambda>_ _. Unreachable ''timeout'') ''t'' (ue_now demo_up_env) (ue_zones demo_up_env) = Inl ''timeout''"
    by (simp add: Fetch_def fetchCore_def fetchExport_def bind_sum_def trim_space_def trim_left_def trim_right_def is_space_def)
  have k: "'''' = to_lower (trim_space '''')" "'''' \<in> {'''', KindStudent, KindLecturer, KindAdmin}" "trim_space '''' = ''''" "\<not> ue_failing demo_up_env UpList"
    by (simp_all add: to_lower_def trim_space_def trim_left_def trim_right_def demo_up_env_def)
  have "?r = (fst ?r, snd ?r)"
    by simp
  from upanel_outage [OF f k(4) k(1-3) this] show ?thesis
    by (auto simp: demo_up_state_def)
qed

end
