(* ===== verification/Semester_Clear.thy ===== *)
theory Semester_Clear
  imports App_Login Sync_Receiver
begin

text \<open>
  Clearing a semester (\<open>clear_semester.go\<close>) and the archive made first (\<open>semester_archive.go\<close>). The state is the session tables of the
  gateway, the directory of students, the accounts, the uploads of the sync-receiver and the archives. The work is one transaction: an error in
  it, one of those the handler does not look at included, leaves nothing behind. An archive holds the lines of its three CSV files; the order of
  the lines and the zip format are left out.
\<close>

section \<open>Data\<close>

record archive_row =
  av_id :: string
  av_label :: string
  av_intakes :: "string list"
  av_year :: "string option"
  av_filename :: string
  av_attendance :: "string list list"
  av_sessions :: "string list list"
  av_lecturer :: "string list list"
  av_created_by :: string
  av_created_at :: instant

record clear_state =
  cs_gw :: gw_state
  cs_app :: app_state
  cs_uploads :: "upload table"
  cs_units :: "(string \<times> string) list"
  cs_archives :: "archive_row table"

datatype clear_call =
    ClUser | ClBegin | ClStudents | ClTouched | ClArchive | ClStore | ClLogs | ClEmptied | ClLecturer | ClUploads | ClSessions | ClCommit
  | ClList | ClDownload | ClDelete

record clear_env =
  cl_auth :: auth_env
  cl_failing :: "clear_call \<Rightarrow> bool"
  cl_tenant :: string
  cl_user :: string
  cl_today :: string
  cl_now :: instant
  cl_fresh :: string
  cl_time_text :: "instant \<Rightarrow> string"
  cl_hours_text :: "int \<Rightarrow> string"

record clear_request =
  cr_password :: string
  cr_intakes :: "string list"
  cr_year :: string

record clear_result =
  cz_students :: nat
  cz_logs :: nat
  cz_sessions :: nat
  cz_lecturer :: nat
  cz_uploads :: nat
  cz_archive :: "string option"
  cz_filename :: string

section \<open>The archive\<close>

definition unit_name_of :: "clear_state \<Rightarrow> string \<Rightarrow> string" where
  "unit_name_of s u = or_empty (map_of (cs_units s) u)"

definition session_of :: "string \<Rightarrow> clear_state \<Rightarrow> session option" where
  "session_of sid s = select_one (\<lambda>x. sess_id x = sid) (g_sessions (cs_gw s))"

definition in_scope :: "string \<Rightarrow> string list \<Rightarrow> attendance_log \<Rightarrow> bool" where
  "in_scope t ids a = (tenant_id a = t \<and> student_id a \<in> set ids)"

definition attendance_line :: "clear_state \<Rightarrow> attendance_log \<Rightarrow> session \<Rightarrow> string list" where
  "attendance_line s a x =
     (let st = select_one (\<lambda>st. as_id st = student_id a) (app_students (cs_app s)) in
      [log_id a, session_id a, student_id a, or_empty (map_option as_name st), or_empty (Option.bind st as_intake),
       or_empty (map_option as_academic_year st), sess_unit x, unit_name_of s (sess_unit x), sess_date x, checkin_timestamp a, entry_method a])"

text \<open>The inner join with \<open>sessions\<close>: a log whose session is missing gives no line.\<close>

definition attendance_csv :: "string \<Rightarrow> string list \<Rightarrow> clear_state \<Rightarrow> (string \<times> string list) list" where
  "attendance_csv t ids s =
     List.map_filter (\<lambda>a. map_option (\<lambda>x. (session_id a, attendance_line s a x)) (session_of (session_id a) s))
       (filter (in_scope t ids) (g_attendance (cs_gw s)))"

definition session_line :: "clear_state \<Rightarrow> session \<Rightarrow> string list" where
  "session_line s x = [sess_id x, sess_unit x, unit_name_of s (sess_unit x), sess_coordinator x, sess_date x, sess_status x]"

definition lecturer_line :: "clear_env \<Rightarrow> gate_log \<Rightarrow> string list" where
  "lecturer_line env g =
     [gl_session g, gl_lecturer g, gl_unit g, gl_date g, cl_time_text env (gl_open g), or_empty (map_option (cl_time_text env) (gl_close g)),
      or_empty (map_option (cl_hours_text env) (gl_hours g))]"

definition buildSemesterArchive ::
  "clear_env \<Rightarrow> string list \<Rightarrow> clear_state \<Rightarrow> (string list list \<times> string list list \<times> string list list) option" where
  "buildSemesterArchive env ids s =
     (if cl_failing env ClArchive then None
      else let att = attendance_csv (cl_tenant env) ids s; touched = map fst att in
        Some (map snd att,
              map (session_line s) (filter (\<lambda>x. sess_tenant x = cl_tenant env \<and> sess_id x \<in> set touched) (g_sessions (cs_gw s))),
              map (lecturer_line env) (filter (\<lambda>g. gl_tenant g = cl_tenant env \<and> gl_session g \<in> set touched) (g_gate_logs (cs_gw s)))))"

section \<open>The handler\<close>

definition clean_intakes :: "string list \<Rightarrow> string list" where
  "clean_intakes xs = filter (\<lambda>x. x \<noteq> []) (map trim_space xs)"

definition scope_ids :: "string \<Rightarrow> string list \<Rightarrow> string \<Rightarrow> app_state \<Rightarrow> string list" where
  "scope_ids t clean ay s =
     map as_id (filter (\<lambda>st. as_tenant st = t \<and> (\<exists>i \<in> set clean. as_intake st = Some i) \<and> (ay = [] \<or> as_academic_year st = ay)) (app_students s))"

definition touched_sessions :: "string \<Rightarrow> string list \<Rightarrow> gw_state \<Rightarrow> string list" where
  "touched_sessions t ids g = remdups (map session_id (filter (in_scope t ids) (g_attendance g)))"

definition emptied_sessions :: "string \<Rightarrow> string list \<Rightarrow> gw_state \<Rightarrow> string list" where
  "emptied_sessions t sids g = filter (\<lambda>sid. \<not> list_ex (\<lambda>a. session_id a = sid \<and> tenant_id a = t) (g_attendance g)) sids"

definition archive_label :: "string list \<Rightarrow> string \<Rightarrow> string" where
  "archive_label clean ay = join_with '', '' clean @ (if ay \<noteq> [] then '' '' @ [CHR 0xC2, CHR 0xB7] @ '' '' @ ay else '''')"

definition archive_filename :: "clear_env \<Rightarrow> string list \<Rightarrow> string" where
  "archive_filename env clean =
     ''semester-archive-'' @ filter (\<lambda>c. c \<noteq> CHR '' '') (join_with ''_'' clean) @ ''-'' @ cl_today env @ ''.zip''"

definition store_archive ::
  "clear_env \<Rightarrow> string list \<Rightarrow> string \<Rightarrow> string \<Rightarrow> string list list \<times> string list list \<times> string list list \<Rightarrow> clear_state \<Rightarrow> clear_state" where
  "store_archive env clean ay admin csvs s =
     s\<lparr>cs_archives := cs_archives s @ [\<lparr>av_id = cl_fresh env, av_label = archive_label clean ay, av_intakes = clean, av_year = nullif ay,
         av_filename = archive_filename env clean, av_attendance = fst csvs, av_sessions = fst (snd csvs), av_lecturer = snd (snd csvs),
         av_created_by = admin, av_created_at = cl_now env\<rparr>]\<rparr>"

definition delete_logs :: "string \<Rightarrow> string list \<Rightarrow> clear_state \<Rightarrow> clear_state" where
  "delete_logs t ids s = s\<lparr>cs_gw := (cs_gw s)\<lparr>g_attendance := delete_where (in_scope t ids) (g_attendance (cs_gw s))\<rparr>\<rparr>"

text \<open>The three deletes for the sessions left empty. \<^verbatim>\<open><@\<close> is inclusion: it holds of an upload that names no session.\<close>

definition upload_covered :: "string list \<Rightarrow> upload \<Rightarrow> bool" where
  "upload_covered emptied u = (set (u_sessions u) \<subseteq> set emptied)"

definition delete_empty :: "string \<Rightarrow> string list \<Rightarrow> clear_state \<Rightarrow> clear_state" where
  "delete_empty t emptied s =
     s\<lparr>cs_gw := (cs_gw s)\<lparr>g_gate_logs := delete_where (\<lambda>g. gl_tenant g = t \<and> gl_session g \<in> set emptied) (g_gate_logs (cs_gw s)),
         g_sessions := delete_where (\<lambda>x. sess_tenant x = t \<and> sess_id x \<in> set emptied) (g_sessions (cs_gw s))\<rparr>,
       cs_uploads := delete_where (upload_covered emptied) (cs_uploads s)\<rparr>"

definition clear_tx :: "clear_env \<Rightarrow> string list \<Rightarrow> string \<Rightarrow> string \<Rightarrow> clear_state \<Rightarrow> clear_result reply \<times> clear_state" where
  "clear_tx env clean ay admin s =
     (let t = cl_tenant env; ids = scope_ids t clean ay (cs_app s) in
      if cl_failing env ClStudents then (Reject 500 ''INTERNAL_ERROR'', s)
      else if ids = [] then
        (Reply 200 \<lparr>cz_students = 0, cz_logs = 0, cz_sessions = 0, cz_lecturer = 0, cz_uploads = 0, cz_archive = None, cz_filename = ''''\<rparr>, s)
      else if cl_failing env ClTouched then (Reject 500 ''INTERNAL_ERROR'', s)
      else case buildSemesterArchive env ids s of
        None \<Rightarrow> (Reject 500 ''ARCHIVE_FAILED'', s)
      | Some csvs \<Rightarrow>
          if cl_failing env ClStore then (Reject 500 ''ARCHIVE_FAILED'', s)
          else if cl_failing env ClLogs then (Reject 500 ''CLEAR_FAILED'', s)
          else let affected = touched_sessions t ids (cs_gw s); s1 = delete_logs t ids (store_archive env clean ay admin csvs s);
                   emptied = emptied_sessions t affected (cs_gw s1) in
            if affected \<noteq> [] \<and> cl_failing env ClEmptied then (Reject 500 ''CLEAR_FAILED'', s)
            else if emptied \<noteq> [] \<and> (cl_failing env ClLecturer \<or> cl_failing env ClUploads \<or> cl_failing env ClSessions)
            then (Reject 500 ''CLEAR_FAILED'', s)
            else let s2 = (if emptied \<noteq> [] then delete_empty t emptied s1 else s1) in
              if cl_failing env ClCommit then (Reject 500 ''INTERNAL_ERROR'', s)
              else (Reply 200 \<lparr>cz_students = length ids,
                      cz_logs = length (g_attendance (cs_gw s)) - length (g_attendance (cs_gw s2)),
                      cz_sessions = length (g_sessions (cs_gw s)) - length (g_sessions (cs_gw s2)),
                      cz_lecturer = length (g_gate_logs (cs_gw s)) - length (g_gate_logs (cs_gw s2)),
                      cz_uploads = length (cs_uploads s) - length (cs_uploads s2),
                      cz_archive = Some (cl_fresh env), cz_filename = archive_filename env clean\<rparr>, s2))"

definition ClearSemesterData :: "clear_env \<Rightarrow> clear_request \<Rightarrow> clear_state \<Rightarrow> clear_result reply \<times> clear_state" where
  "ClearSemesterData env req s =
     (let clean = clean_intakes (cr_intakes req) in
      if clean = [] then (Reject 400 ''INTAKE_REQUIRED'', s)
      else case (if cl_failing env ClUser then None else select_one (\<lambda>u. UserID u = cl_user env) (users (app_auth (cs_app s)))) of
        None \<Rightarrow> (Reject 403 ''AUTH_REQUIRED'', s)
      | Some u \<Rightarrow>
          if \<not> bcrypt_compare (cl_auth env) (PasswordHash u) (cr_password req) then (Reject 403 ''INVALID_PASSWORD'', s)
          else if cl_failing env ClBegin then (Reject 500 ''INTERNAL_ERROR'', s)
          else clear_tx env clean (trim_space (cr_year req)) (FullName u) s)"

text \<open>The stored archives: listed newest first, downloaded and deleted by id.\<close>

definition ListSemesterArchives :: "clear_env \<Rightarrow> clear_state \<Rightarrow> archive_row list reply" where
  "ListSemesterArchives env s =
     (if cl_failing env ClList then Reject 500 ''INTERNAL_ERROR'' else Reply 200 (sort_key (\<lambda>v. - av_created_at v) (cs_archives s)))"

definition DownloadSemesterArchive ::
  "clear_env \<Rightarrow> string \<Rightarrow> clear_state \<Rightarrow> (string \<times> string list list \<times> string list list \<times> string list list) reply" where
  "DownloadSemesterArchive env aid s =
     (case (if cl_failing env ClDownload then None else select_one (\<lambda>v. av_id v = aid) (cs_archives s)) of
        None \<Rightarrow> Reject 404 ''NOT_FOUND''
      | Some v \<Rightarrow> Reply 200 (if av_filename v = [] then ''semester-archive-'' @ cl_today env @ ''.zip'' else av_filename v,
          av_attendance v, av_sessions v, av_lecturer v))"

definition DeleteSemesterArchive :: "clear_env \<Rightarrow> string \<Rightarrow> clear_state \<Rightarrow> unit reply \<times> clear_state" where
  "DeleteSemesterArchive env aid s =
     (if cl_failing env ClDelete then (Reject 500 ''INTERNAL_ERROR'', s)
      else if affected (\<lambda>v. av_id v = aid) (cs_archives s) = 0 then (Reject 404 ''NOT_FOUND'', s)
      else (Reply 204 (), s\<lparr>cs_archives := delete_where (\<lambda>v. av_id v = aid) (cs_archives s)\<rparr>))"

section \<open>Nothing but the uploads is lost\<close>

text \<open>The foreign key of the log: its session exists.\<close>

definition logs_have_sessions :: "clear_state \<Rightarrow> bool" where
  "logs_have_sessions s = list_all (\<lambda>a. session_of (session_id a) s \<noteq> None) (g_attendance (cs_gw s))"

lemma clear_refused: "ClearSemesterData env req s = (Reject n c, s') \<Longrightarrow> s' = s"
  by (auto simp: ClearSemesterData_def clear_tx_def Let_def split: if_splits option.splits)

definition cleared :: "clear_env \<Rightarrow> clear_request \<Rightarrow> string \<Rightarrow> clear_state \<Rightarrow> clear_state" where
  "cleared env req admin s =
     (let t = cl_tenant env; clean = clean_intakes (cr_intakes req); ay = trim_space (cr_year req); ids = scope_ids t clean ay (cs_app s);
          s1 = delete_logs t ids (store_archive env clean ay admin (the (buildSemesterArchive env ids s)) s);
          emptied = emptied_sessions t (touched_sessions t ids (cs_gw s)) (cs_gw s1) in
      if emptied \<noteq> [] then delete_empty t emptied s1 else s1)"

abbreviation cleared_ids :: "clear_env \<Rightarrow> clear_request \<Rightarrow> clear_state \<Rightarrow> string list" where
  "cleared_ids env req s \<equiv> scope_ids (cl_tenant env) (clean_intakes (cr_intakes req)) (trim_space (cr_year req)) (cs_app s)"

lemma clear_tx_accepted:
  assumes "clear_tx env (clean_intakes (cr_intakes req)) (trim_space (cr_year req)) admin s = (Reply n r, s')" "s' \<noteq> s"
  shows "s' = cleared env req admin s \<and> buildSemesterArchive env (cleared_ids env req s) s \<noteq> None"
  using assms unfolding clear_tx_def cleared_def Let_def
  by (simp split: if_split_asm option.split_asm del: not_None_eq)

lemma clear_accepted:
  assumes "ClearSemesterData env req s = (Reply n r, s')" "s' \<noteq> s"
  obtains u where "select_one (\<lambda>u. UserID u = cl_user env) (users (app_auth (cs_app s))) = Some u"
    "bcrypt_compare (cl_auth env) (PasswordHash u) (cr_password req)" "s' = cleared env req (FullName u) s"
    "buildSemesterArchive env (cleared_ids env req s) s \<noteq> None"
  using assms clear_tx_accepted unfolding ClearSemesterData_def Let_def
  by (simp split: if_split_asm option.split_asm del: not_None_eq)

lemma clear_changed:
  assumes "ClearSemesterData env req s = (Reply n r, s')" "s' \<noteq> s"
  obtains admin csvs where "s' = cleared env req admin s" "buildSemesterArchive env (cleared_ids env req s) s = Some csvs"
proof -
  have "\<exists>admin csvs. s' = cleared env req admin s \<and> buildSemesterArchive env (cleared_ids env req s) s = Some csvs"
    by (rule clear_accepted [OF assms]) (simp del: split_paired_Ex, rule exI, rule refl)
  then show thesis
    using that by metis
qed

lemma cleared_attendance [simp]:
  "g_attendance (cs_gw (cleared env req admin s)) = delete_where (in_scope (cl_tenant env) (cleared_ids env req s)) (g_attendance (cs_gw s))"
  by (simp add: cleared_def Let_def delete_empty_def delete_logs_def store_archive_def)

definition gone_sessions :: "clear_env \<Rightarrow> clear_request \<Rightarrow> clear_state \<Rightarrow> string list" where
  "gone_sessions env req s =
     emptied_sessions (cl_tenant env) (touched_sessions (cl_tenant env) (cleared_ids env req s) (cs_gw s))
       ((cs_gw s)\<lparr>g_attendance := delete_where (in_scope (cl_tenant env) (cleared_ids env req s)) (g_attendance (cs_gw s))\<rparr>)"

lemma delete_where_nothing [simp]: "delete_where (\<lambda>x. False) xs = xs"
  by (simp add: delete_where_def)

lemma cleared_tables [simp]:
  "g_sessions (cs_gw (cleared env req admin s)) =
     delete_where (\<lambda>x. sess_tenant x = cl_tenant env \<and> sess_id x \<in> set (gone_sessions env req s)) (g_sessions (cs_gw s))"
  "g_gate_logs (cs_gw (cleared env req admin s)) =
     delete_where (\<lambda>g. gl_tenant g = cl_tenant env \<and> gl_session g \<in> set (gone_sessions env req s)) (g_gate_logs (cs_gw s))"
  "cs_uploads (cleared env req admin s) =
     (if gone_sessions env req s = [] then cs_uploads s else delete_where (upload_covered (gone_sessions env req s)) (cs_uploads s))"
  "cs_archives (cleared env req admin s) = cs_archives (store_archive env (clean_intakes (cr_intakes req)) (trim_space (cr_year req)) admin
     (the (buildSemesterArchive env (cleared_ids env req s) s)) s)"
  by (simp_all add: cleared_def gone_sessions_def Let_def delete_empty_def delete_logs_def store_archive_def)

lemma gone_session_touched:
  "sid \<in> set (gone_sessions env req s) \<Longrightarrow>
     \<exists>a \<in> set (g_attendance (cs_gw s)). in_scope (cl_tenant env) (cleared_ids env req s) a \<and> session_id a = sid"
  by (auto simp: gone_sessions_def emptied_sessions_def touched_sessions_def)

lemma gone_session_empty:
  "sid \<in> set (gone_sessions env req s) \<Longrightarrow> a \<in> set (g_attendance (cs_gw s)) \<Longrightarrow> session_id a = sid \<Longrightarrow> tenant_id a = cl_tenant env \<Longrightarrow>
     in_scope (cl_tenant env) (cleared_ids env req s) a"
  by (auto simp: gone_sessions_def emptied_sessions_def list_ex_iff delete_where_def)

text \<open>The lines of the archive.\<close>

lemma archive_attendance:
  assumes "logs_have_sessions s" "a \<in> set (g_attendance (cs_gw s))" "in_scope t ids a"
  obtains x where "session_of (session_id a) s = Some x" "(session_id a, attendance_line s a x) \<in> set (attendance_csv t ids s)"
proof -
  obtain x where "session_of (session_id a) s = Some x"
    using assms by (auto simp: logs_have_sessions_def list_all_iff)
  then show thesis
    using that assms by (force simp: attendance_csv_def map_filter_def)
qed

lemma archive_lines:
  assumes "buildSemesterArchive env ids s = Some csvs"
  shows "fst csvs = map snd (attendance_csv (cl_tenant env) ids s)"
    "x \<in> set (g_sessions (cs_gw s)) \<Longrightarrow> sess_tenant x = cl_tenant env \<Longrightarrow> sess_id x \<in> fst ` set (attendance_csv (cl_tenant env) ids s) \<Longrightarrow>
      session_line s x \<in> set (fst (snd csvs))"
    "g \<in> set (g_gate_logs (cs_gw s)) \<Longrightarrow> gl_tenant g = cl_tenant env \<Longrightarrow> gl_session g \<in> fst ` set (attendance_csv (cl_tenant env) ids s) \<Longrightarrow>
      lecturer_line env g \<in> set (snd (snd csvs))"
proof -
  have csvs: "csvs = (map snd (attendance_csv (cl_tenant env) ids s),
      map (session_line s) (filter (\<lambda>x. sess_tenant x = cl_tenant env \<and> sess_id x \<in> fst ` set (attendance_csv (cl_tenant env) ids s)) (g_sessions (cs_gw s))),
      map (lecturer_line env) (filter (\<lambda>g. gl_tenant g = cl_tenant env \<and> gl_session g \<in> fst ` set (attendance_csv (cl_tenant env) ids s)) (g_gate_logs (cs_gw s))))"
    using assms by (simp add: buildSemesterArchive_def Let_def split: if_split_asm)
  show "fst csvs = map snd (attendance_csv (cl_tenant env) ids s)"
    "x \<in> set (g_sessions (cs_gw s)) \<Longrightarrow> sess_tenant x = cl_tenant env \<Longrightarrow> sess_id x \<in> fst ` set (attendance_csv (cl_tenant env) ids s) \<Longrightarrow>
      session_line s x \<in> set (fst (snd csvs))"
    "g \<in> set (g_gate_logs (cs_gw s)) \<Longrightarrow> gl_tenant g = cl_tenant env \<Longrightarrow> gl_session g \<in> fst ` set (attendance_csv (cl_tenant env) ids s) \<Longrightarrow>
      lecturer_line env g \<in> set (snd (snd csvs))"
    by (simp_all add: csvs)
qed

lemma gone_session_archived:
  assumes "logs_have_sessions s" "sid \<in> set (gone_sessions env req s)"
  shows "sid \<in> fst ` set (attendance_csv (cl_tenant env) (cleared_ids env req s) s)"
  using gone_session_touched [OF assms(2)] archive_attendance [OF assms(1)] by (metis fst_conv image_eqI)

lemma deleted_row: "r \<in> set rows \<Longrightarrow> r \<notin> set (delete_where p rows) \<longleftrightarrow> p r"
  by (auto simp: delete_where_def)

text \<open>
  C10. A semester clear (\<open>ClearSemesterData\<close>) takes no attendance log, session or lecturer log without leaving its line behind: after an accepted
  clear, every one of them that was there before and is gone has its line in an archive that is now stored. The foreign key from a log to its session is
  assumed.
\<close>

theorem clear_archives_all:
  assumes "ClearSemesterData env req s = (Reply n r, s')" and "logs_have_sessions s"
  shows "(\<forall>a \<in> set (g_attendance (cs_gw s)) - set (g_attendance (cs_gw s')).
      \<exists>v \<in> set (cs_archives s'). \<exists>x. session_of (session_id a) s = Some x \<and> attendance_line s a x \<in> set (av_attendance v))
    \<and> (\<forall>x \<in> set (g_sessions (cs_gw s)) - set (g_sessions (cs_gw s')). \<exists>v \<in> set (cs_archives s'). session_line s x \<in> set (av_sessions v))
    \<and> (\<forall>g \<in> set (g_gate_logs (cs_gw s)) - set (g_gate_logs (cs_gw s')). \<exists>v \<in> set (cs_archives s'). lecturer_line env g \<in> set (av_lecturer v))"
proof (cases "s' = s")
  case False
  obtain admin csvs where s': "s' = cleared env req admin s" and csvs: "buildSemesterArchive env (cleared_ids env req s) s = Some csvs"
    by (rule clear_changed [OF assms(1) False])
  then have stored: "\<exists>v \<in> set (cs_archives s'). av_attendance v = fst csvs \<and> av_sessions v = fst (snd csvs) \<and> av_lecturer v = snd (snd csvs)"
    by (simp add: s' store_archive_def)
  have "\<exists>x. session_of (session_id a) s = Some x \<and> attendance_line s a x \<in> set (fst csvs)"
    if a: "a \<in> set (g_attendance (cs_gw s)) - set (g_attendance (cs_gw s'))" for a
  proof -
    have "in_scope (cl_tenant env) (cleared_ids env req s) a"
      using a by (auto simp: s' deleted_row)
    with a show ?thesis
      using archive_attendance [OF assms(2)] archive_lines(1) [OF csvs] by (metis DiffD1 image_eqI set_map snd_conv)
  qed
  moreover have "session_line s x \<in> set (fst (snd csvs))" if "x \<in> set (g_sessions (cs_gw s)) - set (g_sessions (cs_gw s'))" for x
    using that by (auto simp: s' deleted_row intro!: archive_lines(2) [OF csvs] gone_session_archived [OF assms(2)])
  moreover have "lecturer_line env g \<in> set (snd (snd csvs))" if "g \<in> set (g_gate_logs (cs_gw s)) - set (g_gate_logs (cs_gw s'))" for g
    using that by (auto simp: s' deleted_row intro!: archive_lines(3) [OF csvs] gone_session_archived [OF assms(2)])
  ultimately show ?thesis
    using stored by metis
qed simp

text \<open>
  C37. A semester clear stays inside the chosen intakes: it is accepted only for a caller who proves the password of the account, a refused clear changes
  nothing, and an accepted one keeps every log of another tenant or of a student outside the intakes, every session that such a log of the same tenant
  still refers to, and the archives already stored.
\<close>

theorem clear_keeps_others:
  assumes "ClearSemesterData env req s = (res, s')"
  shows "case res of Reject n c \<Rightarrow> s' = s
    | Reply n r \<Rightarrow> (s' \<noteq> s \<longrightarrow> (\<exists>u \<in> set (users (app_auth (cs_app s))). UserID u = cl_user env \<and>
          bcrypt_compare (cl_auth env) (PasswordHash u) (cr_password req)))
      \<and> cs_app s' = cs_app s \<and> set (cs_archives s) \<subseteq> set (cs_archives s')
      \<and> (\<forall>a \<in> set (g_attendance (cs_gw s)). tenant_id a \<noteq> cl_tenant env \<or> student_id a \<notin> set (cleared_ids env req s)
          \<longrightarrow> a \<in> set (g_attendance (cs_gw s'))
            \<and> (\<forall>x \<in> set (g_sessions (cs_gw s)). sess_id x = session_id a \<and> sess_tenant x = tenant_id a \<longrightarrow> x \<in> set (g_sessions (cs_gw s'))))"
proof (cases res)
  case (Reject n c)
  then show ?thesis
    using clear_refused assms by simp
next
  case (Reply n r)
  show ?thesis
  proof (cases "s' = s")
    case False
    obtain u where u: "select_one (\<lambda>u. UserID u = cl_user env) (users (app_auth (cs_app s))) = Some u"
        "bcrypt_compare (cl_auth env) (PasswordHash u) (cr_password req)" and s': "s' = cleared env req (FullName u) s"
        and "buildSemesterArchive env (cleared_ids env req s) s \<noteq> None"
      by (rule clear_accepted [OF assms [unfolded Reply] False])
    have "cs_app s' = cs_app s"
      by (simp add: s' cleared_def Let_def delete_empty_def delete_logs_def store_archive_def)
    moreover have "x \<in> set (g_sessions (cs_gw s'))"
      if "a \<in> set (g_attendance (cs_gw s))" "\<not> in_scope (cl_tenant env) (cleared_ids env req s) a" "x \<in> set (g_sessions (cs_gw s))"
        "sess_id x = session_id a" "sess_tenant x = tenant_id a" for a x
    proof -
      have "\<not> (sess_tenant x = cl_tenant env \<and> sess_id x \<in> set (gone_sessions env req s))"
        using that(1,2,4,5) gone_session_empty [of "sess_id x" env req s a] by metis
      with that(3) show ?thesis
        by (simp add: s' delete_where_def)
    qed
    ultimately show ?thesis
      using Reply select_one_Some [OF u(1)] u(2)
      by (auto simp: s' store_archive_def in_scope_def delete_where_def)
  qed (simp add: Reply)
qed

text \<open>
  C38. The clear does lose data: once it removes a session, every sync upload that names no session is deleted, whatever its tenant, and no archive holds
  uploads.
\<close>

theorem empty_uploads_lost:
  assumes "ClearSemesterData env req s = (Reply n r, s')" and "x \<in> set (g_sessions (cs_gw s))" "x \<notin> set (g_sessions (cs_gw s'))"
    and "u_sessions up = []"
  shows "up \<notin> set (cs_uploads s')"
proof -
  have "s' \<noteq> s"
    using assms by blast
  obtain admin csvs where s': "s' = cleared env req admin s" and "buildSemesterArchive env (cleared_ids env req s) s = Some csvs"
    by (rule clear_changed [OF assms(1) \<open>s' \<noteq> s\<close>])
  have "gone_sessions env req s \<noteq> []"
    using assms(2,3) by (auto simp: s' deleted_row)
  then show ?thesis
    using assms(4) by (simp add: s' delete_where_def upload_covered_def)
qed

section \<open>An example\<close>

text \<open>Two intakes; the August student alone attended session \<open>x1\<close>, both attended \<open>x2\<close>; one upload names no session.\<close>

definition demo_clear_session :: "string \<Rightarrow> session" where
  "demo_clear_session sid = \<lparr>sess_id = sid, sess_tenant = ''t1'', sess_coordinator = ''c1'', sess_unit = ''BIT'', sess_venue = None,
     sess_lecturer = None, sess_date = ''2026-01-05'', sess_gate_open = None, sess_gate_close = None, sess_window_start = None,
     sess_window_end = None, sess_end_time = None, sess_status = ''CLOSED'', sess_secret = None, sess_offering = None,
     sess_planned_start = None, sess_planned_minutes = None, sess_coordinator_ip = None, sess_provision = False,
     sess_provision_note = None, sess_unscheduled = False, sess_delivery_mode = None\<rparr>"

definition demo_clear_log :: "string \<Rightarrow> string \<Rightarrow> string \<Rightarrow> attendance_log" where
  "demo_clear_log lid sid st = \<lparr>log_id = lid, tenant_id = ''t1'', session_id = sid, student_id = st, checkin_timestamp = ''t'',
     device_fingerprint_hash = None, sequence_number = 1, entry_method = ''MANUAL'', coordinator_id = None\<rparr>"

definition demo_clear_upload :: upload where
  "demo_clear_upload = \<lparr>upload_id = ''up1'', u_tenant = ''t2'', u_coordinator = ''c2'', u_sessions = [], total_chunks = 1,
     received_chunks = [], package_checksum = '''', package_hmac = None, u_status = ''PENDING''\<rparr>"

definition demo_clear :: clear_state where
  "demo_clear = \<lparr>cs_gw = \<lparr>g_sessions = [demo_clear_session ''x1'', demo_clear_session ''x2''], g_gate_logs = [],
       g_attendance = [demo_clear_log ''a1'' ''x1'' ''R1'', demo_clear_log ''a2'' ''x2'' ''R1'', demo_clear_log ''a3'' ''x2'' ''R2''],
       g_tenants = [], g_users = [], g_students = [], g_offerings = [], g_assignments = [], g_units = [], g_venues = [], g_slots = [],
       g_schedules = [], g_lecturers = [], g_credentials = [], g_verified = Map.empty\<rparr>,
     cs_app = demo_app\<lparr>app_auth := (app_auth demo_app)\<lparr>users := [demo_user ''ADMIN'']\<rparr>,
       app_students := [(demo_app_student ''R1'' ''a@k'')\<lparr>as_intake := Some ''August''\<rparr>, (demo_app_student ''R2'' ''b@k'')\<lparr>as_intake := Some ''May''\<rparr>]\<rparr>,
     cs_uploads = [demo_clear_upload], cs_units = [(''BIT'', ''Logic'')], cs_archives = []\<rparr>"

definition demo_clear_env :: clear_env where
  "demo_clear_env = \<lparr>cl_auth = demo_env 0, cl_failing = (\<lambda>_. False), cl_tenant = ''t1'', cl_user = ''u1'', cl_today = ''2026-02-01'', cl_now = 0,
     cl_fresh = ''ar1'', cl_time_text = (\<lambda>_. ''''), cl_hours_text = (\<lambda>_. '''')\<rparr>"

definition demo_clear_request :: clear_request where
  "demo_clear_request = \<lparr>cr_password = ''secret12'', cr_intakes = ['' August''], cr_year = ''''\<rparr>"

lemmas demo_clear_defs = demo_clear_session_def demo_clear_log_def demo_clear_upload_def demo_clear_def demo_clear_env_def
  demo_clear_request_def demo_user_def demo_app_student_def demo_app_def

lemma demo_clear_scope:
  "clean_intakes (cr_intakes demo_clear_request) = [''August'']" "trim_space (cr_year demo_clear_request) = ''''"
  by (simp_all add: demo_clear_request_def clean_intakes_def trim_space_def trim_left_def trim_right_def is_space_def)

lemma demo_clear_result:
  "\<exists>r s'. ClearSemesterData demo_clear_env demo_clear_request demo_clear = (Reply 200 r, s') \<and> cz_sessions r = 1 \<and>
     g_sessions (cs_gw s') = [demo_clear_session ''x2''] \<and> g_attendance (cs_gw s') = [demo_clear_log ''a3'' ''x2'' ''R2'']"
  unfolding ClearSemesterData_def clear_tx_def demo_clear_scope Let_def
  by (simp add: Let_def demo_clear_defs demo_env_def select_one_def scope_ids_def buildSemesterArchive_def store_archive_def
      touched_sessions_def delete_logs_def delete_empty_def emptied_sessions_def in_scope_def delete_where_def)

lemma demo_clear_logs: "logs_have_sessions demo_clear"
  by (simp add: logs_have_sessions_def session_of_def select_one_def demo_clear_defs)

theorem clear_archives_all_witness:
  "\<exists>r s' v x. ClearSemesterData demo_clear_env demo_clear_request demo_clear = (Reply 200 r, s') \<and> v \<in> set (cs_archives s') \<and>
     attendance_line demo_clear (demo_clear_log ''a1'' ''x1'' ''R1'') x \<in> set (av_attendance v)"
proof -
  obtain r s' where d: "ClearSemesterData demo_clear_env demo_clear_request demo_clear = (Reply 200 r, s')"
    "g_attendance (cs_gw s') = [demo_clear_log ''a3'' ''x2'' ''R2'']"
    using demo_clear_result by auto
  moreover have "demo_clear_log ''a1'' ''x1'' ''R1'' \<in> set (g_attendance (cs_gw demo_clear)) - {demo_clear_log ''a3'' ''x2'' ''R2''}"
    by (simp add: demo_clear_defs)
  ultimately show ?thesis
    using clear_archives_all [OF d(1) demo_clear_logs] by fastforce
qed

theorem clear_keeps_others_witness:
  "\<exists>r s'. ClearSemesterData demo_clear_env demo_clear_request demo_clear = (Reply 200 r, s') \<and>
     demo_clear_log ''a3'' ''x2'' ''R2'' \<in> set (g_attendance (cs_gw s')) \<and> cs_app s' = cs_app demo_clear"
proof -
  obtain r s' where d: "ClearSemesterData demo_clear_env demo_clear_request demo_clear = (Reply 200 r, s')"
    using demo_clear_result by auto
  moreover have "demo_clear_log ''a3'' ''x2'' ''R2'' \<in> set (g_attendance (cs_gw demo_clear))"
    "student_id (demo_clear_log ''a3'' ''x2'' ''R2'') \<notin> set (cleared_ids demo_clear_env demo_clear_request demo_clear)"
    unfolding demo_clear_scope by (simp_all add: demo_clear_defs scope_ids_def)
  ultimately show ?thesis
    using clear_keeps_others [OF d] by simp
qed

theorem empty_uploads_lost_witness:
  "\<exists>r s'. ClearSemesterData demo_clear_env demo_clear_request demo_clear = (Reply 200 r, s') \<and>
     demo_clear_upload \<in> set (cs_uploads demo_clear) \<and> demo_clear_upload \<notin> set (cs_uploads s')"
proof -
  obtain r s' where d: "ClearSemesterData demo_clear_env demo_clear_request demo_clear = (Reply 200 r, s')"
    "g_sessions (cs_gw s') = [demo_clear_session ''x2'']"
    using demo_clear_result by auto
  moreover have "demo_clear_session ''x1'' \<in> set (g_sessions (cs_gw demo_clear))" "demo_clear_session ''x1'' \<noteq> demo_clear_session ''x2''"
    "u_sessions demo_clear_upload = []" "demo_clear_upload \<in> set (cs_uploads demo_clear)"
    by (simp_all add: demo_clear_defs)
  ultimately show ?thesis
    using empty_uploads_lost [OF d(1), of "demo_clear_session ''x1''"] by simp
qed

end
