(* ===== verification/Org_Scope.thy ===== *)
theory Org_Scope
  imports Student_Device
begin

text \<open>
  The organisational scope of a caller (\<open>resolveOrgScope\<close> and \<open>whereScope\<close> of \<open>org_dashboard.go\<close>, \<open>school_alias.go\<close>) and the handlers bounded by
  it that assign lecturers to units (\<open>hod_assignments.go\<close>). The order of the listed rows is left out; of a user's several schools it decides only the
  name that is shown.
\<close>

section \<open>Data\<close>

datatype scope_col = NoCol | ColDepartment | ColSchool

record org_scope =
  sc_department :: string
  sc_school :: string
  sc_col :: scope_col
  sc_val :: string
  sc_unbounded :: bool
  sc_aliases :: "string list"

record org_user =
  ou_id :: string
  ou_tenant :: string
  ou_department :: "string option"
  ou_school :: "string option"

record org_school =
  sch_id :: string
  sch_tenant :: string
  sch_name :: string
  sch_abbreviation :: "string option"

record org_course =
  crs_id :: string
  crs_department :: "string option"
  crs_school :: "string option"

record org_unit =
  un_id :: string
  un_tenant :: string
  un_course :: string

record lecturer_assignment =
  la_id :: string
  la_tenant :: string
  la_lecturer :: string
  la_unit :: string
  la_course :: string
  la_academic_year :: string
  la_year :: int
  la_semester :: int
  la_intake :: string

record org_state =
  o_users :: "org_user table"
  o_schools :: "org_school table"
  o_user_schools :: "(string \<times> string) list"
  o_courses :: "org_course table"
  o_units :: "org_unit table"
  o_lecturers :: "(string \<times> string) list"
  o_active_year :: "(string \<times> string option) list"
  o_assignments :: "lecturer_assignment table"
  o_app :: app_state

datatype org_call =
    OrgScopeAcquire | OrgScopeTenant | OrgScopeRow | OrgAliasAcquire | OrgAliasTenant | OrgAliasQuery
  | OrgSchoolsAcquire | OrgSchoolsTenant | OrgSchoolsQuery | OrgAcquire | OrgTenant | OrgList | OrgUnits | OrgLecturers
  | OrgUnit | OrgYear | OrgInsert | OrgDelete

record org_env =
  og_app :: app_env
  og_failing :: "org_call \<Rightarrow> bool"
  og_is_uuid :: "string \<Rightarrow> bool"
  og_fresh :: string

definition tenant_conn :: "org_env \<Rightarrow> org_call \<Rightarrow> org_call \<Rightarrow> string \<Rightarrow> bool" where
  "tenant_conn env acquire setting tenant = (\<not> og_failing env acquire \<and> ValidTenantID tenant \<and> \<not> og_failing env setting)"

section \<open>The names of a school\<close>

text \<open>The loop over the names and abbreviations found, with the set of those seen.\<close>

fun alias_loop :: "string list \<Rightarrow> string list \<Rightarrow> string list \<Rightarrow> string list" where
  "alias_loop seen out [] = out"
| "alias_loop seen out (v # vs) =
     (let v = trim_space v in
      if v = [] \<or> to_lower v \<in> set seen then alias_loop seen out vs
      else alias_loop (to_lower v # seen) (out @ [v]) vs)"

definition names_school :: "string \<Rightarrow> string \<Rightarrow> org_school \<Rightarrow> bool" where
  "names_school tenant ref r =
     (sch_tenant r = tenant \<and>
      (btrim (to_lower (sch_name r)) = btrim (to_lower ref) \<or> btrim (to_lower (or_empty (sch_abbreviation r))) = btrim (to_lower ref)))"

definition schoolAliases :: "org_env \<Rightarrow> string \<Rightarrow> string \<Rightarrow> org_state \<Rightarrow> string list" where
  "schoolAliases env tenant ref s =
     (let ref = trim_space ref in
      if ref = [] then []
      else if \<not> tenant_conn env OrgAliasAcquire OrgAliasTenant tenant \<or> og_failing env OrgAliasQuery then [ref]
      else alias_loop [to_lower ref] [ref]
             (concat (map (\<lambda>r. [sch_name r, or_empty (sch_abbreviation r)]) (filter (names_school tenant ref) (o_schools s)))))"

definition normaliseAliases :: "string list \<Rightarrow> string list" where
  "normaliseAliases vs = filter (\<lambda>v. v \<noteq> []) (map (\<lambda>v. to_lower (trim_space v)) vs)"

definition userSchools :: "org_env \<Rightarrow> string \<Rightarrow> string \<Rightarrow> org_state \<Rightarrow> string list" where
  "userSchools env tenant user s =
     (if \<not> tenant_conn env OrgSchoolsAcquire OrgSchoolsTenant tenant \<or> og_failing env OrgSchoolsQuery then []
      else filter (\<lambda>n. trim_space n \<noteq> [])
             (List.map_filter (\<lambda>(u, sid). if u = user then map_option sch_name (select_one (\<lambda>r. sch_id r = sid) (o_schools s)) else None)
               (o_user_schools s)))"

section \<open>The scope of a caller\<close>

text \<open>The row is read best effort: an error leaves both names empty.\<close>

definition scope_row :: "org_env \<Rightarrow> request_context \<Rightarrow> org_state \<Rightarrow> string \<times> string" where
  "scope_row env cx s =
     (if \<not> tenant_conn env OrgScopeAcquire OrgScopeTenant (cx_tenant cx) \<or> og_failing env OrgScopeRow then ([], [])
      else case select_one (\<lambda>u. ou_id u = cx_user cx \<and> ou_tenant u = cx_tenant cx) (o_users s) of
        None \<Rightarrow> ([], [])
      | Some u \<Rightarrow> (or_empty (ou_department u), or_empty (ou_school u)))"

definition resolveOrgScope :: "org_env \<Rightarrow> request_context \<Rightarrow> org_state \<Rightarrow> org_scope \<times> bool" where
  "resolveOrgScope env cx s =
     (let (dept, school) = scope_row env cx s; role = cx_role cx;
          sc = \<lparr>sc_department = dept, sc_school = school, sc_col = NoCol, sc_val = [], sc_unbounded = False, sc_aliases = []\<rparr>;
          by_department = sc\<lparr>sc_col := ColDepartment, sc_val := dept, sc_aliases := [dept]\<rparr>
      in if role = RoleHOD \<or> role = RoleQADeptRep then (by_department, trim_space dept \<noteq> [])
      else if role = RoleTLC then (if trim_space dept \<noteq> [] then (by_department, True) else (sc\<lparr>sc_unbounded := True\<rparr>, True))
      else if role = RoleDean \<or> role = RoleQASchool then
        (let extra = userSchools env (cx_tenant cx) (cx_user cx) s;
             val = (if trim_space school = [] then (case extra of [] \<Rightarrow> school | n # _ \<Rightarrow> n) else school)
         in (sc\<lparr>sc_col := ColSchool, sc_val := val,
                sc_aliases := concat (map (\<lambda>n. schoolAliases env (cx_tenant cx) n s) (school # extra))\<rparr>, trim_space val \<noteq> []))
      else (sc\<lparr>sc_unbounded := True\<rparr>, True))"

text \<open>\<open>whereScope\<close>, as the condition on a row of \<open>courses\<close> it renders; a NULL column satisfies no comparison.\<close>

definition scope_names :: "org_scope \<Rightarrow> string list" where
  "scope_names sc = (if normaliseAliases (sc_aliases sc) = [] then normaliseAliases [sc_val sc] else normaliseAliases (sc_aliases sc))"

definition scope_column :: "org_scope \<Rightarrow> org_course \<Rightarrow> string option" where
  "scope_column sc c = (case sc_col sc of NoCol \<Rightarrow> None | ColDepartment \<Rightarrow> crs_department c | ColSchool \<Rightarrow> crs_school c)"

definition whereScope :: "org_scope \<Rightarrow> org_course \<Rightarrow> bool" where
  "whereScope sc c =
     (sc_unbounded sc \<or> (case scope_column sc c of None \<Rightarrow> False | Some v \<Rightarrow> btrim (to_lower v) \<in> set (scope_names sc)))"

section \<open>Assignments\<close>

text \<open>The joins of a unit with its course, under the condition of the scope.\<close>

definition course_of_unit :: "(org_course \<Rightarrow> bool) \<Rightarrow> org_unit \<Rightarrow> org_state \<Rightarrow> org_course option" where
  "course_of_unit p n s = select_one (\<lambda>c. crs_id c = un_course n \<and> p c) (o_courses s)"

definition within :: "(org_course \<Rightarrow> bool) \<Rightarrow> string \<Rightarrow> org_state \<Rightarrow> bool" where
  "within p uid s = list_ex (\<lambda>n. un_id n = uid \<and> course_of_unit p n s \<noteq> None) (o_units s)"

definition HODListAssignments :: "org_env \<Rightarrow> request_context \<Rightarrow> org_state \<Rightarrow> (string \<times> lecturer_assignment list) option reply" where
  "HODListAssignments env cx s =
     (let (sc, ok) = resolveOrgScope env cx s in
      if \<not> ok then Reply 200 None
      else if \<not> tenant_conn env OrgAcquire OrgTenant (cx_tenant cx) \<or> og_failing env OrgList then Reject 500 ''INTERNAL_ERROR''
      else Reply 200 (Some (sc_val sc,
        filter (\<lambda>a. la_tenant a = cx_tenant cx \<and> la_lecturer a \<in> set (map fst (o_lecturers s)) \<and> within (whereScope sc) (la_unit a) s)
          (o_assignments s))))"

definition HODAssignable :: "org_env \<Rightarrow> request_context \<Rightarrow> org_state \<Rightarrow> (string \<times> (org_unit \<times> nat) list \<times> string list) option reply" where
  "HODAssignable env cx s =
     (let (sc, ok) = resolveOrgScope env cx s in
      if \<not> ok then Reply 200 None
      else if \<not> tenant_conn env OrgAcquire OrgTenant (cx_tenant cx) \<or> og_failing env OrgUnits \<or> og_failing env OrgLecturers
      then Reject 500 ''INTERNAL_ERROR''
      else Reply 200 (Some (sc_val sc,
        map (\<lambda>n. (n, affected (\<lambda>a. la_unit a = un_id n) (o_assignments s)))
          (filter (\<lambda>n. un_tenant n = cx_tenant cx \<and> course_of_unit (whereScope sc) n s \<noteq> None) (o_units s)),
        map fst (filter (\<lambda>(l, t). t = cx_tenant cx) (o_lecturers s)))))"

record assign_request =
  aq_lecturer :: string
  aq_unit :: string
  aq_academic_year :: string
  aq_year :: int
  aq_semester :: int
  aq_intake :: string

definition assignment_key :: "lecturer_assignment \<Rightarrow> string \<times> string \<times> string \<times> string" where
  "assignment_key a = (la_lecturer a, la_unit a, la_academic_year a, la_intake a)"

definition scoped_course :: "org_env \<Rightarrow> string \<Rightarrow> org_scope \<Rightarrow> string \<Rightarrow> org_state \<Rightarrow> string option" where
  "scoped_course env tenant sc uid s =
     (if og_failing env OrgUnit then None
      else case select_one (\<lambda>n. un_id n = uid \<and> un_tenant n = tenant \<and> course_of_unit (whereScope sc) n s \<noteq> None) (o_units s) of
        None \<Rightarrow> None
      | Some n \<Rightarrow> map_option crs_id (course_of_unit (whereScope sc) n s))"

text \<open>The row with its defaults; the active year is read best effort.\<close>

definition assignment_row :: "org_env \<Rightarrow> string \<Rightarrow> string \<Rightarrow> assign_request \<Rightarrow> org_state \<Rightarrow> lecturer_assignment" where
  "assignment_row env tenant course req s =
     \<lparr>la_id = og_fresh env, la_tenant = tenant, la_lecturer = aq_lecturer req, la_unit = aq_unit req, la_course = course,
      la_academic_year = (if aq_academic_year req = [] then if og_failing env OrgYear then [] else or_empty (Option.bind (map_of (o_active_year s) tenant) id)
                          else aq_academic_year req),
      la_year = (if aq_year req \<le> 0 then 1 else aq_year req), la_semester = (if aq_semester req \<le> 0 then 1 else aq_semester req),
      la_intake = (if aq_intake req = [] then ''Morning'' else aq_intake req)\<rparr>"

text \<open>
  What PostgreSQL accepts of it: a uuid of a lecturer, two \<^verbatim>\<open>SMALLINT\<close>s and at most 64 characters of intake.
\<close>

definition insertable :: "org_env \<Rightarrow> lecturer_assignment \<Rightarrow> org_state \<Rightarrow> bool" where
  "insertable env a s =
     (\<not> og_failing env OrgInsert \<and> og_is_uuid env (la_lecturer a) \<and> la_lecturer a \<in> set (map fst (o_lecturers s)) \<and>
      la_year a < 2 ^ 15 \<and> la_semester a < 2 ^ 15 \<and> length (la_intake a) \<le> 64)"

definition org_audit :: "org_env \<Rightarrow> request_context \<Rightarrow> origin \<Rightarrow> string \<Rightarrow> string \<Rightarrow> org_state \<Rightarrow> org_state" where
  "org_audit env cx og action target s =
     s\<lparr>o_app := auditAdmin (og_app env) cx og (cx_tenant cx) (cx_user cx) action ''lecturer_assignments'' target [] (o_app s)\<rparr>"

definition HODCreateAssignment ::
  "org_env \<Rightarrow> request_context \<Rightarrow> origin \<Rightarrow> assign_request option \<Rightarrow> org_state \<Rightarrow> string reply \<times> org_state" where
  "HODCreateAssignment env cx og body s =
     (case body of
        None \<Rightarrow> (Reject 400 ''INVALID_REQUEST'', s)
      | Some req \<Rightarrow>
          if aq_lecturer req = [] \<or> aq_unit req = [] then (Reject 400 ''INVALID_REQUEST'', s)
          else let (sc, ok) = resolveOrgScope env cx s in
            if \<not> ok then (Reject 403 ''NO_SCOPE'', s)
            else if \<not> tenant_conn env OrgAcquire OrgTenant (cx_tenant cx) then (Reject 500 ''INTERNAL_ERROR'', s)
            else case scoped_course env (cx_tenant cx) sc (aq_unit req) s of
              None \<Rightarrow> (Reject 403 ''OUT_OF_SCOPE'', s)
            | Some course \<Rightarrow>
                let a = assignment_row env (cx_tenant cx) course req s in
                if \<not> insertable env a s then (Reject 500 ''INTERNAL_ERROR'', s)
                else if assignment_key a \<in> assignment_key ` set (o_assignments s) then (Reject 409 ''CONFLICT'', s)
                else (Reply 200 (la_id a), org_audit env cx og ''LECTURER_ASSIGNED'' (la_id a) (s\<lparr>o_assignments := o_assignments s @ [a]\<rparr>)))"

definition HODDeleteAssignment ::
  "org_env \<Rightarrow> request_context \<Rightarrow> origin \<Rightarrow> string \<Rightarrow> org_state \<Rightarrow> string reply \<times> org_state" where
  "HODDeleteAssignment env cx og aid s =
     (let (sc, ok) = resolveOrgScope env cx s;
          gone = (\<lambda>a. la_tenant a = cx_tenant cx \<and> la_id a = aid \<and> within (whereScope sc) (la_unit a) s) in
      if \<not> ok then (Reject 403 ''NO_SCOPE'', s)
      else if \<not> tenant_conn env OrgAcquire OrgTenant (cx_tenant cx) \<or> \<not> og_is_uuid env aid \<or> og_failing env OrgDelete
      then (Reject 500 ''INTERNAL_ERROR'', s)
      else if affected gone (o_assignments s) = 0 then (Reject 403 ''OUT_OF_SCOPE'', s)
      else (Reply 200 ''deleted'', org_audit env cx og ''LECTURER_UNASSIGNED'' aid (s\<lparr>o_assignments := delete_where gone (o_assignments s)\<rparr>)))"

section \<open>What a request can change\<close>

lemma org_audit_simps [simp]:
  "o_assignments (org_audit env cx og act target s) = o_assignments s" "o_users (org_audit env cx og act target s) = o_users s"
  "o_courses (org_audit env cx og act target s) = o_courses s" "o_units (org_audit env cx og act target s) = o_units s"
  by (simp_all add: org_audit_def)

definition same_org :: "org_state \<Rightarrow> org_state \<Rightarrow> bool" where
  "same_org s s' = (o_users s' = o_users s \<and> o_courses s' = o_courses s \<and> o_units s' = o_units s)"

lemma create_effect:
  assumes "HODCreateAssignment env cx og body s = (r, s')"
  obtains (same) "s' = s"
  | (added) sc a where "resolveOrgScope env cx s = (sc, True)" "within (whereScope sc) (la_unit a) s" "o_assignments s' = o_assignments s @ [a]"
      "assignment_key a \<notin> assignment_key ` set (o_assignments s)" "same_org s s'"
proof (cases "s' = s")
  case False
  obtain sc ok where sc: "resolveOrgScope env cx s = (sc, ok)"
    by fastforce
  obtain req course where body: "body = Some req" and course: "scoped_course env (cx_tenant cx) sc (aq_unit req) s = Some course" and ok: ok
    and a: "assignment_key (assignment_row env (cx_tenant cx) course req s) \<notin> assignment_key ` set (o_assignments s)"
      "s' = org_audit env cx og ''LECTURER_ASSIGNED'' (la_id (assignment_row env (cx_tenant cx) course req s))
        (s\<lparr>o_assignments := o_assignments s @ [assignment_row env (cx_tenant cx) course req s]\<rparr>)"
    using assms False sc by (auto simp: HODCreateAssignment_def Let_def split: option.splits if_splits)
  have "within (whereScope sc) (aq_unit req) s"
    using course by (auto simp: scoped_course_def within_def list_ex_iff split: if_splits option.splits dest: select_one_Some)
  then show thesis
    using sc ok a by (intro added [of sc "assignment_row env (cx_tenant cx) course req s"]) (auto simp: assignment_row_def same_org_def)
qed

lemma delete_effect:
  assumes "HODDeleteAssignment env cx og aid s = (r, s')"
  obtains (same) "s' = s"
  | (removed) sc where "resolveOrgScope env cx s = (sc, True)" "same_org s s'"
      "o_assignments s' = delete_where (\<lambda>a. la_tenant a = cx_tenant cx \<and> la_id a = aid \<and> within (whereScope sc) (la_unit a) s) (o_assignments s)"
proof (cases "s' = s")
  case False
  obtain sc ok where sc: "resolveOrgScope env cx s = (sc, ok)"
    by fastforce
  with assms False show thesis
    by (intro removed [of sc]) (auto simp: HODDeleteAssignment_def Let_def same_org_def split: if_splits)
qed

text \<open>Every interleaving of requests keeps the assignments unique.\<close>

inductive org_step :: "(request_context \<Rightarrow> bool) \<Rightarrow> org_state \<Rightarrow> org_state \<Rightarrow> bool" for who where
  assign: "who cx \<Longrightarrow> org_step who s (snd (HODCreateAssignment env cx og body s))"
| unassign: "who cx \<Longrightarrow> org_step who s (snd (HODDeleteAssignment env cx og aid s))"

definition assignments_ok :: "org_state \<Rightarrow> bool" where
  "assignments_ok s = distinct (map assignment_key (o_assignments s))"

lemma org_step_effect:
  assumes "org_step who s s'"
  obtains (same) "s' = s"
  | (added) env cx sc a where "who cx" "resolveOrgScope env cx s = (sc, True)" "within (whereScope sc) (la_unit a) s"
      "o_assignments s' = o_assignments s @ [a]" "assignment_key a \<notin> assignment_key ` set (o_assignments s)" "same_org s s'"
  | (removed) env cx sc p where "who cx" "resolveOrgScope env cx s = (sc, True)" "same_org s s'"
      "o_assignments s' = delete_where (\<lambda>a. p a \<and> within (whereScope sc) (la_unit a) s) (o_assignments s)"
  using assms
proof cases
  case (assign cx env og body)
  obtain r where "HODCreateAssignment env cx og body s = (r, s')"
    using assign by (metis prod.collapse)
  then show thesis
    using assign by (cases rule: create_effect) (auto intro: that)
next
  case (unassign cx env og aid)
  obtain r where "HODDeleteAssignment env cx og aid s = (r, s')"
    using unassign by (metis prod.collapse)
  then show thesis
  proof (cases rule: delete_effect)
    case (removed sc)
    then show thesis
      using unassign that(3) [of cx env sc "\<lambda>a. la_tenant a = cx_tenant cx \<and> la_id a = aid"] by simp
  qed (rule that(1))
qed

interpretation assigned: kept_property "org_step who" assignments_ok
proof unfold_locales
  fix s s'
  assume "org_step who s s'" "assignments_ok s"
  then show "assignments_ok s'"
    by (cases rule: org_step_effect) (auto simp: assignments_ok_def delete_where_def distinct_map_filter)
qed

section \<open>A bounded caller stays within bounds\<close>

definition department_of :: "string \<Rightarrow> string \<Rightarrow> org_state \<Rightarrow> string" where
  "department_of t u s = or_empty (Option.bind (select_one (\<lambda>x. ou_id x = u \<and> ou_tenant x = t) (o_users s)) ou_department)"

definition in_department :: "string \<Rightarrow> org_course \<Rightarrow> bool" where
  "in_department d c =
     (trim_space d \<noteq> [] \<and> (case crs_department c of None \<Rightarrow> False | Some v \<Rightarrow> btrim (to_lower v) = to_lower (trim_space d)))"

lemma scope_row_department: "fst (scope_row env cx s) \<in> {[], department_of (cx_tenant cx) (cx_user cx) s}"
  by (auto simp: scope_row_def department_of_def split: option.splits)

lemma to_lower_Nil_iff [simp]: "to_lower s = [] \<longleftrightarrow> s = []"
  by (simp add: to_lower_def)

lemma hod_scope:
  assumes "cx_role cx = RoleHOD" "resolveOrgScope env cx s = (sc, True)"
  shows "whereScope sc = in_department (department_of (cx_tenant cx) (cx_user cx) s)"
proof -
  obtain dept school where row: "scope_row env cx s = (dept, school)"
    by fastforce
  have sc: "sc = \<lparr>sc_department = dept, sc_school = school, sc_col = ColDepartment, sc_val = dept, sc_unbounded = False, sc_aliases = [dept]\<rparr>"
    and d: "trim_space dept \<noteq> []"
    using assms row by (auto simp: resolveOrgScope_def Let_def)
  then have dept: "dept = department_of (cx_tenant cx) (cx_user cx) s"
    using scope_row_department [of env cx s] row by (auto simp: trim_space_def trim_left_def trim_right_def)
  show ?thesis
    using d by (auto simp: fun_eq_iff sc whereScope_def scope_column_def scope_names_def normaliseAliases_def in_department_def dept [symmetric]
        split: option.splits)
qed

lemma within_same_org: "same_org s s' \<Longrightarrow> within p uid s' = within p uid s"
  by (simp add: same_org_def within_def course_of_unit_def)

definition elsewhere :: "string \<Rightarrow> org_state \<Rightarrow> org_state \<Rightarrow> lecturer_assignment list" where
  "elsewhere d s0 s = filter (\<lambda>a. \<not> within (in_department d) (la_unit a) s0) (o_assignments s)"

lemma filter_deleted: "(\<And>a. q a \<Longrightarrow> \<not> p a) \<Longrightarrow> filter p (delete_where q xs) = filter p xs"
  by (induction xs) (auto simp: delete_where_def)

lemma hod_step_elsewhere:
  assumes "org_step (\<lambda>cx. cx_role cx = RoleHOD \<and> cx_tenant cx = t \<and> cx_user cx = u) s s'" "same_org s0 s"
  shows "same_org s0 s' \<and> elsewhere (department_of t u s0) s0 s' = elsewhere (department_of t u s0) s0 s"
proof -
  have d: "department_of t u s = department_of t u s0"
    using assms(2) by (simp add: department_of_def same_org_def)
  have w: "within p uid s = within p uid s0" for p uid
    by (rule within_same_org [OF assms(2)])
  from assms(1) show ?thesis
  proof (cases rule: org_step_effect)
    case same
    then show ?thesis
      using assms(2) by simp
  next
    case (added env cx sc a)
    then have "whereScope sc = in_department (department_of t u s0)"
      using hod_scope [of cx env s sc] d by simp
    then show ?thesis
      using added assms(2) w by (simp add: elsewhere_def same_org_def)
  next
    case (removed env cx sc p)
    then have "whereScope sc = in_department (department_of t u s0)"
      using hod_scope [of cx env s sc] d by simp
    then show ?thesis
      using removed assms(2) w by (auto simp: elsewhere_def same_org_def intro!: filter_deleted)
  qed
qed

text \<open>
  C12. A head of department staffs one department: whatever requests the account makes through \<open>HODCreateAssignment\<close> and \<open>HODDeleteAssignment\<close>, in
  any order, with any failures on the way, the assignments to units outside the department written on the account stay exactly as they were, and no
  two assignments come to have the same lecturer, unit, academic year and intake. An account without a department changes nothing.
\<close>

theorem hod_confined:
  assumes "(org_step (\<lambda>cx. cx_role cx = RoleHOD \<and> cx_tenant cx = t \<and> cx_user cx = u))\<^sup>*\<^sup>* s s'" and "assignments_ok s"
  shows "filter (\<lambda>a. \<not> within (in_department (department_of t u s)) (la_unit a) s) (o_assignments s') =
      filter (\<lambda>a. \<not> within (in_department (department_of t u s)) (la_unit a) s) (o_assignments s)
    \<and> assignments_ok s'
    \<and> (trim_space (department_of t u s) = [] \<longrightarrow> o_assignments s' = o_assignments s)"
proof -
  from assms(1) have "same_org s s' \<and> elsewhere (department_of t u s) s s' = elsewhere (department_of t u s) s s"
  proof (induction rule: rtranclp_induct)
    case base
    show ?case
      by (simp add: same_org_def)
  next
    case (step s1 s2)
    then show ?case
      using hod_step_elsewhere [of t u s1 s2 s] by simp
  qed
  then have kept: "elsewhere (department_of t u s) s s' = elsewhere (department_of t u s) s s"
    by simp
  moreover have "elsewhere (department_of t u s) s s1 = o_assignments s1" if "trim_space (department_of t u s) = []" for s1
  proof -
    have "in_department (department_of t u s) c = False" for c
      using that by (simp add: in_department_def)
    then have "\<not> within (in_department (department_of t u s)) uid s" for uid
      by (auto simp: within_def course_of_unit_def list_ex_iff dest: select_one_Some)
    then show ?thesis
      by (simp add: elsewhere_def)
  qed
  ultimately show ?thesis
    using assigned.reached [OF assms] unfolding elsewhere_def by metis
qed

text \<open>A request that only its scope can stop.\<close>

definition assignable_by :: "org_env \<Rightarrow> request_context \<Rightarrow> assign_request \<Rightarrow> org_unit \<Rightarrow> org_course \<Rightarrow> org_state \<Rightarrow> bool" where
  "assignable_by env cx req n c s =
     (aq_lecturer req \<noteq> [] \<and> aq_unit req \<noteq> [] \<and> ValidTenantID (cx_tenant cx) \<and> n \<in> set (o_units s) \<and> distinct (map un_id (o_units s)) \<and>
      un_id n = aq_unit req \<and> un_tenant n = cx_tenant cx \<and> c \<in> set (o_courses s) \<and> distinct (map crs_id (o_courses s)) \<and> crs_id c = un_course n \<and>
      insertable env (assignment_row env (cx_tenant cx) (crs_id c) req s) s \<and>
      assignment_key (assignment_row env (cx_tenant cx) (crs_id c) req s) \<notin> assignment_key ` set (o_assignments s))"

lemma course_of_unit_unique:
  assumes "distinct (map crs_id (o_courses s))" "c \<in> set (o_courses s)" "crs_id c = un_course n"
  shows "course_of_unit p n s = (if p c then Some c else None)"
proof -
  have same: "c' = c" if "c' \<in> set (o_courses s)" "crs_id c' = un_course n" for c'
    using assms that by (metis distinct_map inj_onD)
  show ?thesis
  proof (cases "course_of_unit p n s")
    case None
    then show ?thesis
      using assms by (auto simp: course_of_unit_def select_one_None)
  next
    case (Some c')
    then have "c' \<in> set (o_courses s) \<and> crs_id c' = un_course n \<and> p c'"
      unfolding course_of_unit_def by (blast dest: select_one_Some)
    with Some same show ?thesis
      by metis
  qed
qed

lemma scoped_course_unique:
  assumes "assignable_by env cx req n c s" "\<not> og_failing env OrgUnit"
  shows "scoped_course env (cx_tenant cx) sc (aq_unit req) s = (if whereScope sc c then Some (crs_id c) else None)"
proof -
  have n: "n \<in> set (o_units s)" "distinct (map un_id (o_units s))" "un_id n = aq_unit req" "un_tenant n = cx_tenant cx"
    and c: "course_of_unit (whereScope sc) n s = (if whereScope sc c then Some c else None)"
    using assms(1) course_of_unit_unique [of s c n "whereScope sc"] unfolding assignable_by_def by blast+
  let ?p = "\<lambda>n. un_id n = aq_unit req \<and> un_tenant n = cx_tenant cx \<and> course_of_unit (whereScope sc) n s \<noteq> None"
  have "select_one ?p (o_units s) = (if whereScope sc c then Some n else None)"
  proof (cases "select_one ?p (o_units s)")
    case None
    then show ?thesis
      using n c by (auto simp: select_one_None split: if_splits)
  next
    case (Some n')
    then have n': "n' \<in> set (o_units s)" "un_id n' = aq_unit req" "course_of_unit (whereScope sc) n' s \<noteq> None"
      by (auto dest!: select_one_Some)
    then have "n' = n" "course_of_unit (whereScope sc) n' s \<noteq> None"
      using n by (metis distinct_map inj_onD)+
    with Some c show ?thesis
      by (simp split: if_splits)
  qed
  then show ?thesis
    using assms(2) c by (simp add: scoped_course_def)
qed

definition unread :: "org_env \<Rightarrow> org_env" where
  "unread env = env\<lparr>og_failing := (og_failing env)(OrgScopeRow := True)\<rparr>"

lemma unread_simps [simp]:
  "og_failing (unread env) k = (k = OrgScopeRow \<or> og_failing env k)" "insertable (unread env) a s = insertable env a s"
  "assignment_row (unread env) t course req s = assignment_row env t course req s" "assignable_by (unread env) cx req n c s = assignable_by env cx req n c s"
  by (simp_all add: unread_def insertable_def assignment_row_def assignable_by_def)

lemma assignment_row_id [simp]: "la_id (assignment_row env t course req s) = og_fresh env"
  by (simp add: assignment_row_def)

lemma create_reply:
  assumes "assignable_by env cx req n c s" "resolveOrgScope env cx s = (sc, True)"
    and "\<not> og_failing env OrgUnit" "tenant_conn env OrgAcquire OrgTenant (cx_tenant cx)"
  shows "fst (HODCreateAssignment env cx og (Some req) s) = (if whereScope sc c then Reply 200 (og_fresh env) else Reject 403 ''OUT_OF_SCOPE'')"
proof -
  have "aq_lecturer req \<noteq> []" "aq_unit req \<noteq> []" "insertable env (assignment_row env (cx_tenant cx) (crs_id c) req s) s"
    "assignment_key (assignment_row env (cx_tenant cx) (crs_id c) req s) \<notin> assignment_key ` set (o_assignments s)"
    using assms(1) unfolding assignable_by_def by blast+
  then show ?thesis
    using assms(2,4) scoped_course_unique [OF assms(1,3), of sc] by (simp add: HODCreateAssignment_def Let_def)
qed

text \<open>
  C40. The scope of a timetable coordinator (TLC) fails open. For a TLC with a department, a request to assign a lecturer to a unit of another
  department, in order in every other respect, is refused when the database answers. When only the read of the caller's own row fails, the error is
  discarded, the empty department is taken for a TLC of the whole institution, and the same request is accepted.
\<close>

theorem tlc_scope_fails_open:
  assumes "cx_role cx = RoleTLC" "trim_space (department_of (cx_tenant cx) (cx_user cx) s) \<noteq> []" "assignable_by env cx req n c s"
    and "\<not> in_department (department_of (cx_tenant cx) (cx_user cx) s) c" and "\<forall>k. \<not> og_failing env k"
  shows "fst (HODCreateAssignment env cx og (Some req) s) = Reject 403 ''OUT_OF_SCOPE''
    \<and> fst (HODCreateAssignment (unread env) cx og (Some req) s) = Reply 200 (og_fresh env)"
proof -
  have conn: "tenant_conn e a b (cx_tenant cx)" if "\<not> og_failing e a" "\<not> og_failing e b" for e a b
    using that assms(3) by (simp add: tenant_conn_def assignable_by_def)
  obtain school where row: "scope_row env cx s = (department_of (cx_tenant cx) (cx_user cx) s, school)"
  proof -
    have "fst (scope_row env cx s) = department_of (cx_tenant cx) (cx_user cx) s"
      using assms(5) conn [of env] by (auto simp: scope_row_def department_of_def or_empty_def split: option.splits)
    then show thesis
      using that by (metis prod.collapse)
  qed
  then obtain sc where sc: "resolveOrgScope env cx s = (sc, True)" "whereScope sc c = in_department (department_of (cx_tenant cx) (cx_user cx) s) c"
    using assms(1,2) by (auto simp: resolveOrgScope_def Let_def role_defs whereScope_def scope_column_def scope_names_def normaliseAliases_def
        in_department_def split: option.splits)
  have "scope_row (unread env) cx s = ([], [])"
    by (simp add: scope_row_def)
  then obtain sc' where sc': "resolveOrgScope (unread env) cx s = (sc', True)" "whereScope sc' c"
    using assms(1) by (auto simp: resolveOrgScope_def Let_def role_defs whereScope_def trim_space_def trim_left_def trim_right_def)
  have "assignable_by (unread env) cx req n c s"
    using assms(3) by simp
  from create_reply [OF this sc'(1)] create_reply [OF assms(3) sc(1)] show ?thesis
    using sc(2) sc'(2) assms(4,5) conn [of env] conn [of "unread env"] by (simp add: unread_def)
qed

section \<open>An example\<close>

text \<open>Two departments with one unit each, a head and a TLC of the first, and one lecturer, who is assigned in the second.\<close>

definition demo_org :: org_state where
  "demo_org =
     \<lparr>o_users = [\<lparr>ou_id = ''h1'', ou_tenant = demo_uuid, ou_department = Some ''cs'', ou_school = None\<rparr>],
      o_schools = [], o_user_schools = [],
      o_courses = [\<lparr>crs_id = ''BCS'', crs_department = Some ''cs'', crs_school = None\<rparr>, \<lparr>crs_id = ''LLB'', crs_department = Some ''law'', crs_school = None\<rparr>],
      o_units = [\<lparr>un_id = ''C1'', un_tenant = demo_uuid, un_course = ''BCS''\<rparr>, \<lparr>un_id = ''W1'', un_tenant = demo_uuid, un_course = ''LLB''\<rparr>],
      o_lecturers = [(''l1'', demo_uuid)], o_active_year = [],
      o_assignments = [\<lparr>la_id = ''a0'', la_tenant = demo_uuid, la_lecturer = ''l1'', la_unit = ''W1'', la_course = ''LLB'', la_academic_year = ''2025'',
        la_year = 1, la_semester = 1, la_intake = ''Day''\<rparr>],
      o_app = demo_app\<rparr>"

definition demo_org_env :: org_env where
  "demo_org_env = \<lparr>og_app = demo_app_env, og_failing = (\<lambda>_. False), og_is_uuid = (\<lambda>_. True), og_fresh = ''a1''\<rparr>"

definition demo_head :: "string \<Rightarrow> request_context" where
  "demo_head role = \<lparr>cx_user = ''h1'', cx_tenant = demo_uuid, cx_role = role, cx_jti = ''''\<rparr>"

definition demo_assign :: "string \<Rightarrow> assign_request" where
  "demo_assign unit = \<lparr>aq_lecturer = ''l1'', aq_unit = unit, aq_academic_year = ''2026'', aq_year = 0, aq_semester = 2, aq_intake = ''''\<rparr>"

definition demo_here :: origin where
  "demo_here = \<lparr>x_forwarded_for = [], remote_addr = []\<rparr>"

lemmas demo_org_defs = demo_org_def demo_org_env_def demo_head_def demo_assign_def

lemma demo_department: "department_of demo_uuid ''h1'' demo_org = ''cs''"
  by (simp add: department_of_def demo_org_def select_one_def or_empty_def)

lemma demo_lower_cs:
  "to_lower ''cs'' = ''cs''" "to_lower ''law'' = ''law''" "btrim ''cs'' = ''cs''" "btrim ''law'' = ''law''" "trim_space ''cs'' = ''cs''"
  by code_simp+

lemma demo_assignable:
  "assignable_by demo_org_env (demo_head role) (demo_assign ''W1'') \<lparr>un_id = ''W1'', un_tenant = demo_uuid, un_course = ''LLB''\<rparr>
     \<lparr>crs_id = ''LLB'', crs_department = Some ''law'', crs_school = None\<rparr> demo_org"
  by (simp add: assignable_by_def demo_org_defs demo_uuid_valid insertable_def assignment_row_def assignment_key_def)

theorem tlc_scope_fails_open_witness:
  "fst (HODCreateAssignment demo_org_env (demo_head RoleTLC) demo_here (Some (demo_assign ''W1'')) demo_org) = Reject 403 ''OUT_OF_SCOPE''
    \<and> fst (HODCreateAssignment (unread demo_org_env) (demo_head RoleTLC) demo_here (Some (demo_assign ''W1'')) demo_org) = Reply 200 ''a1''"
proof -
  have "cx_role (demo_head RoleTLC) = RoleTLC" "department_of (cx_tenant (demo_head RoleTLC)) (cx_user (demo_head RoleTLC)) demo_org = ''cs''"
    "\<forall>k. \<not> og_failing demo_org_env k" "og_fresh demo_org_env = ''a1''"
    by (simp_all add: demo_head_def demo_department demo_org_env_def)
  moreover have "\<not> in_department ''cs'' \<lparr>crs_id = ''LLB'', crs_department = Some ''law'', crs_school = None\<rparr>"
    by (simp add: in_department_def demo_lower_cs)
  ultimately show ?thesis
    using tlc_scope_fails_open [OF _ _ demo_assignable] demo_lower_cs by simp
qed

theorem hod_confined_witness:
  "filter (\<lambda>a. \<not> within (in_department ''cs'') (la_unit a) demo_org)
     (o_assignments (snd (HODCreateAssignment demo_org_env (demo_head RoleHOD) demo_here (Some (demo_assign ''C1'')) demo_org))) =
   filter (\<lambda>a. \<not> within (in_department ''cs'') (la_unit a) demo_org) (o_assignments demo_org)"
proof -
  have "(org_step (\<lambda>cx. cx_role cx = RoleHOD \<and> cx_tenant cx = demo_uuid \<and> cx_user cx = ''h1''))\<^sup>*\<^sup>* demo_org
      (snd (HODCreateAssignment demo_org_env (demo_head RoleHOD) demo_here (Some (demo_assign ''C1'')) demo_org))"
    by (intro r_into_rtranclp org_step.assign) (simp add: demo_head_def)
  moreover have "assignments_ok demo_org"
    by (simp add: assignments_ok_def demo_org_def)
  ultimately show ?thesis
    using hod_confined unfolding demo_department [symmetric] by blast
qed

end
