(* ===== verification/Spec2Isabelle.thy ===== *)
theory Spec2Isabelle
  imports Room_Codes Clock_Policy Scheduler Migrate Vault Auth_Service Sync_Receiver Proximity Session_Props Patrol_PIN Patrol_Props
    Gateway Router Employee_Jobs Standby Timetable_Props Warden Combined_Class Student_Device Student_Import
    UPanel_Store Semester_Clear Org_Scope
begin

text \<open>
  \<^bold>\<open>The QAAT attendance backend.\<close>

  QAAT records who taught and who attended at a university. The backend under \<^verbatim>\<open>src/backend\<close> is four services written in Go. The
  \<^emph>\<open>api-gateway\<close> is the only ingress: it checks tokens, tenants and roles, and holds most handlers, a scheduler of jobs and the
  migration runner. The \<^emph>\<open>auth-service\<close> issues and revokes tokens. The \<^emph>\<open>sync-receiver\<close> takes the
  encrypted packages a coordinator's handset gathered offline. The \<^emph>\<open>session-manager\<close> issues warden links and exam
  clearance tokens. They share PostgreSQL and Redis.

  \<^bold>\<open>How it is modelled.\<close> A handler is a function of its request, its surroundings and the tables it touches; the answer is a
  \<open>reply\<close> (a status with a value, or with an error code) beside the new tables. A table is the list of its rows in insertion order, and a
  statement of SQL a function on it (\<open>select_one\<close>, \<open>update_where\<close>, \<open>upsert\<close>, ...). Every call that can fail is an argument
  that says whether it does, so each error path of the source is a branch. Requests of several users are the steps of an
  inductive relation, and what holds whatever their order is an invariant of it. Integers have their width where it matters
  (codes and digests are words, durations are 64-bit, PIN bytes wrap); ratios that the source computes in \<^verbatim>\<open>float64\<close> are rounded to 53 bits.

  \<^bold>\<open>The theories\<close>, each beside the part of the source it models:

  \<^item> \<open>Go_Prelude\<close>: what the code uses of Go's library (strings, \<^verbatim>\<open>strconv\<close>, \<^verbatim>\<open>time\<close>), tables, replies, and the locale \<open>kept_property\<close>
    of invariants; \<open>Crypto_Lib\<close>: hex, base64, SHA-256 and HMAC, executable; \<open>Roles\<close>: the role names (\<^verbatim>\<open>middleware/rbac.go\<close>).
  \<^item> \<open>Room_Codes\<close> (\<^verbatim>\<open>checkin/\<close>): the rotating, static and combined-class codes. A displayed code is accepted for a whole step either side.
  \<^item> \<open>Clock_Policy\<close> (\<^verbatim>\<open>clock/\<close>, \<^verbatim>\<open>policy/\<close>): the institution's calendar, years 0 to 9999, and its constants.
  \<^item> \<open>Scheduler\<close> (\<^verbatim>\<open>scheduler/\<close>): windows, watermarks and leases. No window is skipped silently and none runs twice; a sweep handles at most
    10000 windows, which is the source's own bound. \<open>Lecture_Jobs\<close> and \<open>Employee_Jobs\<close> (\<^verbatim>\<open>jobs/\<close>): what the jobs send, and how often.
  \<^item> \<open>Migrate\<close> (\<^verbatim>\<open>migrate/\<close>): splitting and applying migrations. One is applied with its ledger row or not at all, and a run leaves a prefix.
  \<^item> \<open>Vault\<close>, \<open>Sync_Receiver\<close> (\<^verbatim>\<open>sync-receiver/\<close>): package encryption and the chunked upload, from its first chunk to the attendance rows.
  \<^item> \<open>Lockout\<close>, \<open>Auth_Service\<close> (\<^verbatim>\<open>auth-service/\<close>): login, second factor, refresh, logout, password change, internal tokens.
  \<^item> \<open>Gateway\<close>, \<open>Router\<close> (\<^verbatim>\<open>middleware/\<close>, \<^verbatim>\<open>router/\<close>, \<^verbatim>\<open>proxy/\<close>): the middlewares, the table of all 276 routes, and their composition: no handler runs
    for a caller who was not admitted, and what the audit log keeps of a request.
  \<^item> \<open>Proximity\<close>, \<open>Attendance_Table\<close>, \<open>Sessions\<close>, \<open>Session_Props\<close>: sessions, the lecturer's gate and student check-in. The tables stay consistent
    under every interleaving, refine one slot per coordinator, and a recorded student was present. \<open>Online_Class\<close>: the same tables for
    classes without a room. \<open>Standby\<close>: a coordinator's standby, composed with the auth-service. \<open>Combined_Class\<close>: the endpoints of the
    combined-class code; what the lecturer is told is what the coordinators' endpoint accepts.
  \<^item> \<open>Patrol_PIN\<close>, \<open>Patrol\<close>, \<open>Patrol_Manual\<close>, \<open>Patrol_Props\<close>: the quality-assurance round with its handset, PIN, ticks and manual entries.
  \<^item> \<open>Timetable\<close>, \<open>Timetable_Props\<close>: timetable slots, unit schedules, free rooms. Rooms and cohorts are not booked twice, up to the holes proved.
  \<^item> \<open>App_Login\<close>, \<open>Student_Device\<close>, \<open>Student_Import\<close> (\<^verbatim>\<open>handlers/\<close>): the sign-in of the phone app by registration number, staff number or email, composed
    with the auth-service and the accounts it makes; the binding of a student to one phone; the roster import.
  \<^item> \<open>UPanel\<close>, \<open>UPanel_Store\<close> (\<^verbatim>\<open>upanel/\<close>): the paged fetch of an external panel's documents, the join that turns them into attendance and
    absences, the local copy and the students' totals. The source's own bounds (\<open>pageSize\<close>, \<open>maxPages\<close>) limit the loop.
  \<^item> \<open>Semester_Clear\<close> (\<^verbatim>\<open>handlers/\<close>): clearing the intakes of a semester, archive first. What it removes of the session tables is in an archive.
  \<^item> \<open>Org_Scope\<close> (\<^verbatim>\<open>handlers/\<close>): the department or schools a caller is bounded by, and the assignment of lecturers inside it. A head of department
    changes nothing outside the department; a timetable coordinator does when the scope cannot be read.
  \<^item> \<open>Warden\<close> (\<^verbatim>\<open>session-manager/\<close>): delegation links, the great-circle distance, clearance tokens.

  Contracts that several components share are locales, interpreted on the model's own definitions: \<open>kept_property\<close> for every invariant,
  \<open>revocable\<close> for the token checks of the three services, \<open>replacing_upsert\<close> for the local copy of the panel,
  and those of \<open>Lockout\<close>, \<open>Timetable_Props\<close> and the others in their theories.

  \<^bold>\<open>Parameters.\<close> Code that is not in the repository is an argument: bcrypt, AES-GCM, HKDF, TOTP, the JWT and rate libraries, the routing library, JSON, URL
  parsing, SQL casts and collations, the readers of CSV and spreadsheets, the network, random bytes and the clock. Where a
  theorem relies on their documented behaviour, it is a named hypothesis and a witness satisfies it.

  \<^bold>\<open>Not modelled.\<close> The Kotlin and TypeScript clients; the read-only dashboards, reports and exports, which are single large queries over
  these tables and change nothing; administrative creation of master data and its import, the student roster apart;
  WebAuthn; HTML pages, metrics, configuration and process start-up. SQL migrations are modelled as far as a handler relies on a constraint they set up.
\<close>

end
